(* ===== verification/Fr_Prelude.thy ===== *)
theory Fr_Prelude
  imports
    "HOL-Library.Word"
    "HOL-Library.Monad_Syntax"
begin

text \<open>
  Types and lemmas every component shares: the C integer types of \<^verbatim>\<open>misc.h\<close> as words,
  the fixed byte arrays of the packed disk and wire structures as tuples of bytes with their
  big-endian readings, ASCII literals, and the two interfaces that several components provide:
  \<open>byte_codec\<close> (an integer type and its byte-array form) and \<open>slot_table\<close> (a table in which the
  first free slot is searched).

  Throughout the development a C access outside an array (or a read of a string that is not
  terminated inside its array) has no defined behaviour; a function in which that can happen
  returns an \<open>option\<close>, with \<open>None\<close> for "the code makes such an access".
\<close>

unbundle bit_operations_syntax

section \<open>Rule collections\<close>

named_theorems cstr_simps \<open>evaluation of the C string functions\<close>
named_theorems handler_defs \<open>definitions of the packet handlers\<close>
named_theorems frame_simps \<open>fields an operation leaves unchanged\<close>

section \<open>Integers and byte arrays\<close>

type_synonym u8 = "8 word"
type_synonym u16 = "16 word"
type_synonym u32 = "32 word"
type_synonym bytes = "u8 list"
type_synonym b2 = "u8 \<times> u8"
type_synonym b4 = "u8 \<times> u8 \<times> u8 \<times> u8"

text \<open>\<^verbatim>\<open>GET_BE32\<close>, \<^verbatim>\<open>GET_BE16\<close> and \<^verbatim>\<open>GET_LE32\<close> of \<^verbatim>\<open>misc.h\<close>, on the bytes they read.\<close>

fun be32 :: "b4 \<Rightarrow> u32" where
  "be32 (a, b, c, d) =
     push_bit 24 (ucast a) OR push_bit 16 (ucast b) OR push_bit 8 (ucast c) OR ucast d"

fun be16 :: "b2 \<Rightarrow> u16" where
  "be16 (a, b) = ucast b OR push_bit 8 (ucast a)"

fun le32 :: "b4 \<Rightarrow> u32" where
  "le32 (a, b, c, d) =
     ucast a OR push_bit 8 (ucast b) OR push_bit 16 (ucast c) OR push_bit 24 (ucast d)"

text \<open>The four (two) assignments the code uses to store an integer, highest byte first.\<close>

definition to_be32 :: "u32 \<Rightarrow> b4" where
  "to_be32 x = (ucast (drop_bit 24 x), ucast (drop_bit 16 x), ucast (drop_bit 8 x),
                ucast (x AND 0xff))"

definition to_be16 :: "u16 \<Rightarrow> b2" where
  "to_be16 x = (ucast (drop_bit 8 x), ucast (x AND 0xff))"

definition to_le32 :: "u32 \<Rightarrow> b4" where
  "to_le32 x = (ucast (x AND 0xff), ucast (drop_bit 8 x), ucast (drop_bit 16 x),
                ucast (drop_bit 24 x))"

fun list_b4 :: "b4 \<Rightarrow> bytes" where
  "list_b4 (a, b, c, d) = [a, b, c, d]"

fun list_b2 :: "b2 \<Rightarrow> bytes" where
  "list_b2 (a, b) = [a, b]"

lemma length_list_b4 [simp]: "length (list_b4 b) = 4"
  by (cases b) simp

lemma length_list_b2 [simp]: "length (list_b2 b) = 2"
  by (cases b) simp

lemma list_b4_inject [simp]: "list_b4 a = list_b4 b \<longleftrightarrow> a = b"
  by (cases a; cases b) simp

text \<open>An integer type together with its byte-array form.\<close>

locale byte_codec =
  fixes dec :: "'b \<Rightarrow> 'w" and enc :: "'w \<Rightarrow> 'b"
  assumes dec_enc: "dec (enc w) = w"
    and enc_dec: "enc (dec b) = b"
begin

lemma enc_inject: "enc v = enc w \<longleftrightarrow> v = w"
  by (metis dec_enc)

lemma dec_inject: "dec a = dec b \<longleftrightarrow> a = b"
  by (metis enc_dec)

lemma dec_eq_iff: "dec b = w \<longleftrightarrow> b = enc w"
  by (metis dec_enc enc_dec)

end

lemma word_ff_mask: "(0xff :: 'a :: len word) = mask 8"
  by (simp add: mask_eq_exp_minus_1)

lemma less_32_cases:
  fixes n :: nat
  assumes "n < 32"
  obtains "n < 8" | k where "k < 8" "n = 8 + k" | k where "k < 8" "n = 16 + k"
    | k where "k < 8" "n = 24 + k"
proof -
  consider "n < 8" | "8 \<le> n \<and> n < 16" | "16 \<le> n \<and> n < 24" | "24 \<le> n \<and> n < 32"
    using assms by linarith
  then show thesis
  proof cases
    case 2 then show ?thesis using that(2) [of "n - 8"] by simp
  next
    case 3 then show ?thesis using that(3) [of "n - 16"] by simp
  next
    case 4 then show ?thesis using that(4) [of "n - 24"] by simp
  qed (use that in simp)
qed

lemma bit_u8_high [simp]: "8 \<le> n \<Longrightarrow> \<not> bit (a :: u8) n"
  using bit_imp_le_length [of a n] by auto

lemma be32_to_be32: "be32 (to_be32 x) = x"
proof (rule bit_word_eqI)
  fix n assume "n < LENGTH(32)"
  then have "n < 32" by simp
  then show "bit (be32 (to_be32 x)) n = bit x n"
    by (rule less_32_cases) (auto simp: to_be32_def bit_simps word_ff_mask)
qed

lemma le32_to_le32: "le32 (to_le32 x) = x"
proof (rule bit_word_eqI)
  fix n assume "n < LENGTH(32)"
  then have "n < 32" by simp
  then show "bit (le32 (to_le32 x)) n = bit x n"
    by (rule less_32_cases) (auto simp: to_le32_def bit_simps word_ff_mask)
qed

lemma be16_to_be16: "be16 (to_be16 x) = x"
proof (rule bit_word_eqI)
  fix n assume "n < LENGTH(16)"
  then have "n < 32" "n < 16" by simp_all
  then show "bit (be16 (to_be16 x)) n = bit x n"
    by (elim less_32_cases) (auto simp: to_be16_def bit_simps word_ff_mask)
qed

lemma to_be32_be32: "to_be32 (be32 b) = b"
  by (cases b)
    (auto simp: to_be32_def bit_simps word_ff_mask intro!: bit_word_eqI)

lemma to_le32_le32: "to_le32 (le32 b) = b"
  by (cases b)
    (auto simp: to_le32_def bit_simps word_ff_mask intro!: bit_word_eqI)

lemma to_be16_be16: "to_be16 (be16 b) = b"
  by (cases b)
    (auto simp: to_be16_def bit_simps word_ff_mask intro!: bit_word_eqI)

interpretation be32: byte_codec be32 to_be32
  by unfold_locales (rule be32_to_be32 to_be32_be32)+

interpretation le32: byte_codec le32 to_le32
  by unfold_locales (rule le32_to_le32 to_le32_le32)+

interpretation be16: byte_codec be16 to_be16
  by unfold_locales (rule be16_to_be16 to_be16_be16)+

declare be32.dec_enc [simp] be32.enc_dec [simp] be16.dec_enc [simp] be16.enc_dec [simp]
  le32.dec_enc [simp] le32.enc_dec [simp]

section \<open>ASCII literals\<close>

definition ascii :: "string \<Rightarrow> bytes" where
  "ascii s = map of_char s"

lemma ascii_simps [simp]: "ascii [] = []" "ascii (c # cs) = of_char c # ascii cs"
  by (simp_all add: ascii_def)

lemma length_ascii [simp]: "length (ascii s) = length s"
  by (simp add: ascii_def)

section \<open>Tables with a first-free search\<close>

text \<open>
  The index of the first entry that satisfies a test: every \<^verbatim>\<open>for\<close> loop of the code that scans
  a table and returns (or breaks) at the first match.
\<close>

fun first_index :: "('a \<Rightarrow> bool) \<Rightarrow> 'a list \<Rightarrow> nat option" where
  "first_index P [] = None"
| "first_index P (x # xs) = (if P x then Some 0 else map_option Suc (first_index P xs))"

lemma first_index_Some:
  "first_index P xs = Some i \<longleftrightarrow> i < length xs \<and> P (xs ! i) \<and> (\<forall>j<i. \<not> P (xs ! j))"
proof (induction xs arbitrary: i)
  case (Cons x xs)
  then show ?case
    by (cases i) (auto simp: nth_Cons less_Suc_eq_0_disj split: nat.splits)
qed simp

lemma first_index_None: "first_index P xs = None \<longleftrightarrow> (\<forall>x\<in>set xs. \<not> P x)"
  by (induction xs) auto

lemma first_index_lessD: "first_index P xs = Some i \<Longrightarrow> i < length xs"
  by (simp add: first_index_Some)

lemma first_index_satD: "first_index P xs = Some i \<Longrightarrow> P (xs ! i)"
  by (simp add: first_index_Some)

text \<open>
  The interface of a slot table: \<open>find\<close> searches a free slot, \<open>fill\<close> occupies a slot with a
  value that counts as used, \<open>slots\<close> is the table as a list. A client relies on: the slot found
  is the least free one, and filling changes that slot only.
\<close>

locale slot_table =
  fixes free :: "'e \<Rightarrow> bool"
    and slots :: "'s \<Rightarrow> 'e list"
    and find :: "'s \<Rightarrow> nat option"
  assumes find_eq: "find s = first_index free (slots s)"
begin

lemma find_SomeD:
  assumes "find s = Some i"
  shows "i < length (slots s)" "free (slots s ! i)" "j < i \<Longrightarrow> \<not> free (slots s ! j)"
  using assms by (auto simp: find_eq first_index_Some)

lemma find_None: "find s = None \<longleftrightarrow> (\<forall>e\<in>set (slots s). \<not> free e)"
  by (simp add: find_eq first_index_None)

lemma find_total: "(\<exists>i. find s = Some i) \<longleftrightarrow> (\<exists>e\<in>set (slots s). free e)"
  using find_None [of s] by (cases "find s") auto

text \<open>Occupying the slot found raises the number of used slots by one and keeps the others.\<close>

lemma fill_count:
  assumes "find s = Some i" "\<not> free e" "slots t = (slots s)[i := e]"
  shows "length (filter (\<lambda>x. \<not> free x) (slots t)) = Suc (length (filter (\<lambda>x. \<not> free x) (slots s)))"
proof -
  let ?xs = "slots s"
  have i: "i < length ?xs" and f: "free (?xs ! i)" using find_SomeD [OF assms(1)] by auto
  have xs: "?xs = take i ?xs @ ?xs ! i # drop (Suc i) ?xs" using i by (rule id_take_nth_drop)
  have "slots t = take i ?xs @ e # drop (Suc i) ?xs"
    using i assms(3) by (simp add: upd_conv_take_nth_drop)
  then have "length (filter (\<lambda>x. \<not> free x) (slots t))
      = Suc (length (filter (\<lambda>x. \<not> free x) (take i ?xs)) + length (filter (\<lambda>x. \<not> free x) (drop (Suc i) ?xs)))"
    using assms(2) by simp
  also have "\<dots> = Suc (length (filter (\<lambda>x. \<not> free x) ?xs))"
    using f by (subst (3) xs) simp
  finally show ?thesis .
qed

lemma fill_other:
  assumes "find s = Some i" "slots t = (slots s)[i := e]" "j < length (slots s)" "\<not> free (slots s ! j)"
  shows "slots t ! j = slots s ! j"
  using find_SomeD(2) [OF assms(1)] assms by (cases "j = i") auto

end

section \<open>Lists\<close>

lemma take_drop_update_outside:
  "j < i \<or> i + n \<le> j \<Longrightarrow> take n (drop i (xs[j := x])) = take n (drop i xs)"
  by (auto simp: drop_update_swap take_update_cancel)

lemma list_update_overwrite_nth: "i < length xs \<Longrightarrow> xs[i := x] ! j = (if j = i then x else xs ! j)"
  by (cases "j = i") auto

end
