(* ===== verification/Fr_CString.thy ===== *)
theory Fr_CString
  imports Fr_Prelude
begin

text \<open>
  What the code uses of the C string and memory functions. A \<^verbatim>\<open>char[n]\<close> array is a byte list of
  length n (a buffer); the string it holds is read by \<open>cstr\<close>, which is \<open>None\<close> when the array has
  no terminator. A string argument that the callee only reads is the list of its characters
  without the terminator. Writing past the end of a buffer is \<open>None\<close>. The character functions
  are those of the C locale.
\<close>

section \<open>Characters\<close>

definition tolower :: "u8 \<Rightarrow> u8" where
  "tolower b = (if 0x41 \<le> b \<and> b \<le> 0x5A then b + 0x20 else b)"

definition toupper :: "u8 \<Rightarrow> u8" where
  "toupper b = (if 0x61 \<le> b \<and> b \<le> 0x7A then b - 0x20 else b)"

lemma unat_tolower_upper: "b \<le> 0x5A \<Longrightarrow> unat ((b :: u8) + 0x20) = unat b + 32"
  by (simp add: unat_word_ariths word_le_nat_alt)

lemma unat_toupper_lower: "0x61 \<le> b \<Longrightarrow> unat ((b :: u8) - 0x20) = unat b - 32"
  by (rule unat_sub [THEN trans]) (simp_all add: word_le_nat_alt)

lemma tolower_0_iff [simp]: "tolower b = 0 \<longleftrightarrow> b = 0"
proof -
  have "b + 0x20 \<noteq> 0" if "b \<le> 0x5A"
    using unat_tolower_upper [OF that] by (auto simp del: unat_0_iff dest: arg_cong [where f = unat])
  then show ?thesis by (auto simp: tolower_def word_le_nat_alt)
qed

lemma toupper_0_iff [simp]: "toupper b = 0 \<longleftrightarrow> b = 0"
proof -
  have "b - 0x20 \<noteq> 0" if "0x61 \<le> b"
    using unat_toupper_lower [OF that] that
    by (auto simp: word_le_nat_alt simp del: right_minus_eq dest: arg_cong [where f = unat])
  then show ?thesis by (auto simp: toupper_def word_le_nat_alt)
qed

lemma tolower_idem [simp]: "tolower (tolower b) = tolower b"
  using unat_tolower_upper [of b] by (auto simp: tolower_def word_le_nat_alt)

lemma toupper_idem [simp]: "toupper (toupper b) = toupper b"
  using unat_toupper_lower [of b] by (auto simp: toupper_def word_le_nat_alt)

section \<open>Strings in buffers\<close>

definition cstr :: "bytes \<Rightarrow> bytes option" where
  "cstr b = (if 0 \<in> set b then Some (takeWhile (\<lambda>x. x \<noteq> 0) b) else None)"

definition no_nul :: "bytes \<Rightarrow> bool" where
  "no_nul s \<longleftrightarrow> 0 \<notin> set s"

lemma no_nul_simps [simp]:
  "no_nul []" "no_nul (x # xs) \<longleftrightarrow> x \<noteq> 0 \<and> no_nul xs" "no_nul (xs @ ys) \<longleftrightarrow> no_nul xs \<and> no_nul ys"
  by (auto simp: no_nul_def)

lemma no_nul_take [intro, simp]: "no_nul s \<Longrightarrow> no_nul (take n s)"
  by (auto simp: no_nul_def dest: in_set_takeD)

lemma no_nul_drop [intro, simp]: "no_nul s \<Longrightarrow> no_nul (drop n s)"
  by (auto simp: no_nul_def dest: in_set_dropD)

lemma no_nul_map_toupper [simp]: "no_nul (map toupper s) = no_nul s"
  by (auto simp: no_nul_def)

lemma no_nul_map_tolower [simp]: "no_nul (map tolower s) = no_nul s"
  by (auto simp: no_nul_def)

lemma cstr_append_nul [simp]: "no_nul s \<Longrightarrow> cstr (s @ 0 # r) = Some s"
  by (induction s) (auto simp: cstr_def)

lemma cstr_Nil [simp]: "cstr [] = None"
  by (simp add: cstr_def)

lemma cstr_Cons [simp]: "cstr (x # xs) = (if x = 0 then Some [] else map_option (Cons x) (cstr xs))"
  by (auto simp: cstr_def)

lemma cstr_replicate_0 [simp]: "cstr (replicate n 0) = (if n = 0 then None else Some [])"
  by (cases n) simp_all

lemma cstr_SomeD:
  assumes "cstr b = Some s"
  shows "no_nul s" "length s < length b" "b = s @ 0 # drop (Suc (length s)) b"
proof -
  from assms have z: "0 \<in> set b" and s: "s = takeWhile (\<lambda>x. x \<noteq> 0) b"
    by (auto simp: cstr_def split: if_splits)
  show "no_nul s" by (auto simp: s no_nul_def dest: set_takeWhileD)
  show l: "length s < length b"
    using z unfolding s by (metis (mono_tags, lifting) length_takeWhile_le le_neq_implies_less set_takeWhileD takeWhile_eq_take take_all_iff nle_le)
  have "\<not> (b ! length s \<noteq> 0)"
    using l unfolding s by (rule nth_length_takeWhile)
  moreover have "take (length s) b = s"
    by (simp add: s takeWhile_eq_take [symmetric])
  ultimately show "b = s @ 0 # drop (Suc (length s)) b"
    using l id_take_nth_drop [of "length s" b] by simp
qed

lemma cstr_SomeE:
  assumes "cstr b = Some s"
  obtains r where "b = s @ 0 # r" "no_nul s"
  using cstr_SomeD [OF assms] by blast

text \<open>A buffer of n bytes that holds a string and zeros: what \<^verbatim>\<open>bzero\<close> and \<^verbatim>\<open>bcopy\<close> leave.\<close>

definition mkbuf :: "nat \<Rightarrow> bytes \<Rightarrow> bytes" where
  "mkbuf n s = s @ replicate (n - length s) 0"

lemma cstr_mkbuf [simp]:
  assumes "no_nul s" "length s < n"
  shows "cstr (mkbuf n s) = Some s"
proof -
  have "n - length s = Suc (n - Suc (length s))" using assms(2) by simp
  then show ?thesis using assms(1) by (simp add: mkbuf_def)
qed

lemma length_mkbuf [simp]: "length s \<le> n \<Longrightarrow> length (mkbuf n s) = n"
  by (simp add: mkbuf_def)

section \<open>Searching\<close>

text \<open>\<^verbatim>\<open>strchr\<close> and \<^verbatim>\<open>strrchr\<close>: the index of the first and of the last occurrence.\<close>

definition strchr :: "bytes \<Rightarrow> u8 \<Rightarrow> nat option" where
  "strchr s c = first_index (\<lambda>x. x = c) s"

definition strrchr :: "bytes \<Rightarrow> u8 \<Rightarrow> nat option" where
  "strrchr s c = map_option (\<lambda>i. length s - 1 - i) (first_index (\<lambda>x. x = c) (rev s))"

lemma strchr_None [simp]: "strchr s c = None \<longleftrightarrow> c \<notin> set s"
  by (auto simp: strchr_def first_index_None)

lemma strchr_Some: "strchr s c = Some i \<longleftrightarrow> i < length s \<and> s ! i = c \<and> (\<forall>j<i. s ! j \<noteq> c)"
  by (simp add: strchr_def first_index_Some)

lemma strrchr_None [simp]: "strrchr s c = None \<longleftrightarrow> c \<notin> set s"
  by (auto simp: strrchr_def first_index_None)

lemma first_index_append:
  "first_index P (xs @ ys) =
     (case first_index P xs of Some i \<Rightarrow> Some i | None \<Rightarrow> map_option (\<lambda>i. length xs + i) (first_index P ys))"
  by (induction xs) (auto simp: option.map_comp comp_def option.map_ident plus_1_eq_Suc
        cong: map_option_cong split: option.splits)

lemma strrchr_split:
  "c \<notin> set t \<Longrightarrow> strrchr (s @ c # t) c = Some (length s)"
proof -
  assume "c \<notin> set t"
  then have "first_index (\<lambda>x. x = c) (rev t) = None" by (auto simp: first_index_None)
  then show ?thesis by (simp add: strrchr_def first_index_append)
qed

lemma strrchr_lessD: "strrchr s c = Some i \<Longrightarrow> i < length s"
  by (auto simp: strrchr_def dest!: first_index_lessD)

lemma strrchr_SomeE:
  assumes "strrchr s c = Some i"
  obtains t where "s = take i s @ c # t" "c \<notin> set t" "i < length s"
proof -
  from assms obtain k where k: "first_index (\<lambda>x. x = c) (rev s) = Some k" and i: "i = length s - 1 - k"
    by (auto simp: strrchr_def)
  from k have kl: "k < length s" and kc: "rev s ! k = c" and kf: "\<forall>j<k. rev s ! j \<noteq> c"
    by (auto simp: first_index_Some)
  have il: "i < length s" using kl i by simp
  have ic: "s ! i = c" using kc kl i by (simp add: rev_nth)
  have "c \<notin> set (drop (Suc i) s)"
  proof
    assume "c \<in> set (drop (Suc i) s)"
    then obtain j where j: "j < length s - Suc i" "s ! (Suc i + j) = c"
      by (auto simp: in_set_conv_nth)
    let ?m = "length s - 1 - (Suc i + j)"
    have m: "?m < k" using j i kl by linarith
    then have "rev s ! ?m = s ! (length s - Suc ?m)" using kl by (intro rev_nth) simp
    also have "length s - Suc ?m = Suc i + j" using j i kl by linarith
    finally have "rev s ! ?m = s ! (Suc i + j)" .
    from this j(2) have "rev s ! ?m = c" by (rule trans)
    with kf m show False by blast
  qed
  moreover have "s = take i s @ c # drop (Suc i) s"
    using id_take_nth_drop [OF il] unfolding ic .
  ultimately show thesis using that il by blast
qed

section \<open>Copying and appending\<close>

definition strncpy :: "bytes \<Rightarrow> bytes \<Rightarrow> nat \<Rightarrow> bytes option" where
  "strncpy dest src n =
     (if n \<le> length dest then Some (mkbuf n (take n src) @ drop n dest) else None)"

definition strcpy :: "bytes \<Rightarrow> bytes \<Rightarrow> bytes option" where
  "strcpy dest src =
     (if length src < length dest then Some (src @ 0 # drop (Suc (length src)) dest) else None)"

definition strcat :: "bytes \<Rightarrow> bytes \<Rightarrow> bytes option" where
  "strcat dest src = do {
     d \<leftarrow> cstr dest;
     strcpy dest (d @ src)
   }"

definition strncat :: "bytes \<Rightarrow> bytes \<Rightarrow> nat \<Rightarrow> bytes option" where
  "strncat dest src n = strcat dest (take n src)"

text \<open>\<^verbatim>\<open>snprintf (dest, n, ...)\<close> of a formatted text.\<close>

definition snprintf :: "bytes \<Rightarrow> nat \<Rightarrow> bytes \<Rightarrow> bytes option" where
  "snprintf dest n txt = (if n = 0 then Some dest else strcpy dest (take (n - 1) txt))"

text \<open>\<^verbatim>\<open>bcopy\<close> into an array, from its start.\<close>

definition bcopy :: "bytes \<Rightarrow> bytes \<Rightarrow> bytes option" where
  "bcopy src dest = (if length src \<le> length dest then Some (src @ drop (length src) dest) else None)"

text \<open>\<^verbatim>\<open>b[i] = x\<close>\<close>

definition store :: "'a list \<Rightarrow> nat \<Rightarrow> 'a \<Rightarrow> 'a list option" where
  "store b i x = (if i < length b then Some (b[i := x]) else None)"

text \<open>\<^verbatim>\<open>b[i]\<close>\<close>

definition load :: "'a list \<Rightarrow> nat \<Rightarrow> 'a option" where
  "load b i = (if i < length b then Some (b ! i) else None)"

text \<open>\<^verbatim>\<open>for (i = 0; i < strlen (b); i++) b[i] = f (b[i]);\<close> for an \<open>f\<close> that yields no terminator.\<close>

definition map_str :: "(u8 \<Rightarrow> u8) \<Rightarrow> bytes \<Rightarrow> bytes option" where
  "map_str f b = do {
     s \<leftarrow> cstr b;
     Some (map f s @ drop (length s) b)
   }"

lemma load_Some [simp]: "load b i = Some x \<longleftrightarrow> i < length b \<and> x = b ! i"
  by (auto simp: load_def)

lemma store_Some [simp]: "store b i x = Some c \<longleftrightarrow> i < length b \<and> c = b[i := x]"
  by (auto simp: store_def)

lemma load_None [simp]: "load b i = None \<longleftrightarrow> length b \<le> i"
  by (auto simp: load_def)

lemma store_None [simp]: "store b i x = None \<longleftrightarrow> length b \<le> i"
  by (auto simp: store_def)

lemma length_strncpy: "strncpy d s n = Some e \<Longrightarrow> length e = length d"
  by (auto simp: strncpy_def mkbuf_def split: if_splits)

lemma length_strcpy: "strcpy d s = Some e \<Longrightarrow> length e = length d"
  by (auto simp: strcpy_def split: if_splits)

lemma length_strcat: "strcat d s = Some e \<Longrightarrow> length e = length d"
  by (auto simp: strcat_def bind_eq_Some_conv dest: length_strcpy)

lemma length_strncat: "strncat d s n = Some e \<Longrightarrow> length e = length d"
  by (auto simp: strncat_def dest: length_strcat)

lemma length_map_str: "map_str f d = Some e \<Longrightarrow> length e = length d"
  by (auto simp: map_str_def bind_eq_Some_conv dest!: cstr_SomeD(2))

lemma length_bcopy: "bcopy s d = Some e \<Longrightarrow> length e = length d"
  by (auto simp: bcopy_def split: if_splits)

lemmas buffer_lengths = length_strncpy length_strcpy length_strcat length_strncat length_map_str
  length_bcopy

lemma cstr_strcpy: "strcpy d s = Some e \<Longrightarrow> no_nul s \<Longrightarrow> cstr e = Some s"
  by (auto simp: strcpy_def split: if_splits)

lemma cstr_strcat:
  "strcat d s = Some e \<Longrightarrow> no_nul s \<Longrightarrow> cstr d = Some t \<Longrightarrow> cstr e = Some (t @ s)"
  using cstr_strcpy [of d "t @ s" e] by (auto simp: strcat_def dest: cstr_SomeD(1))

lemma strcat_defined:
  "cstr d = Some t \<Longrightarrow> length t + length s < length d \<Longrightarrow> strcat d s = Some ((t @ s) @ 0 # drop (Suc (length (t @ s))) d)"
  by (simp add: strcat_def strcpy_def)

lemma strcat_overflow:
  "cstr d = Some t \<Longrightarrow> length d \<le> length t + length s \<Longrightarrow> strcat d s = None"
  by (simp add: strcat_def strcpy_def)

lemma cstr_strncpy:
  "strncpy d s n = Some e \<Longrightarrow> no_nul s \<Longrightarrow> length s < n \<Longrightarrow> cstr e = Some s"
proof -
  assume a: "strncpy d s n = Some e" "no_nul s" "length s < n"
  then have "e = s @ replicate (Suc (n - Suc (length s))) 0 @ drop n d"
    by (simp add: strncpy_def mkbuf_def Suc_diff_Suc split: if_splits)
  then show ?thesis using a(2) by simp
qed

lemma cstr_map_str:
  assumes "map_str f d = Some e" "cstr d = Some s" "no_nul (map f s)"
  shows "cstr e = Some (map f s)"
proof -
  have "drop (length s) d = 0 # drop (Suc (length s)) d"
    using cstr_SomeD(2,3) [OF assms(2)] by (metis append_eq_conv_conj)
  then have "e = map f s @ 0 # drop (Suc (length s)) d" using assms by (simp add: map_str_def)
  then show ?thesis using assms(3) by simp
qed

section \<open>Comparing\<close>

text \<open>
  \<^verbatim>\<open>strcmp (a, b) == 0\<close> for a string \<open>a\<close> and a buffer \<open>b\<close> that may lack a terminator: the comparison
  stops at the first difference, and leaves the buffer (\<open>None\<close>) only when there is none in it.
\<close>

fun streq :: "bytes \<Rightarrow> bytes \<Rightarrow> bool option" where
  "streq a [] = None"
| "streq [] (y # ys) = Some (y = 0)"
| "streq (x # xs) (y # ys) = (if x = y then streq xs ys else Some False)"

lemma streq_cstr: "cstr b = Some s \<Longrightarrow> no_nul a \<Longrightarrow> streq a b = Some (a = s)"
  by (induction a b arbitrary: s rule: streq.induct) (auto split: if_splits)

text \<open>\<^verbatim>\<open>strncmp (a, b, n) == 0\<close> and \<^verbatim>\<open>strcasecmp (a, b) == 0\<close> for strings.\<close>

definition strneq :: "bytes \<Rightarrow> bytes \<Rightarrow> nat \<Rightarrow> bool" where
  "strneq a b n \<longleftrightarrow> take n a = take n b"

definition strcaseeq :: "bytes \<Rightarrow> bytes \<Rightarrow> bool" where
  "strcaseeq a b \<longleftrightarrow> map tolower a = map tolower b"

definition strncaseeq :: "bytes \<Rightarrow> bytes \<Rightarrow> nat \<Rightarrow> bool" where
  "strncaseeq a b n \<longleftrightarrow> map tolower (take n a) = map tolower (take n b)"

end
