(* ===== verification/Fr_Volume.thy ===== *)
theory Fr_Volume
  imports Fr_CString
begin

text \<open>
  \<^verbatim>\<open>src/lib/volume.c\<close>: the table of the \<^verbatim>\<open>VOL_MAX_VOLS\<close> volumes. A slot is free when its flags are
  zero. The name and the path are fixed arrays filled by \<^verbatim>\<open>strncpy\<close>.
\<close>

abbreviation (input) VOL_FLAG_USED :: int where "VOL_FLAG_USED \<equiv> 1"
abbreviation (input) VOL_MAX_VOLS :: nat where "VOL_MAX_VOLS \<equiv> 16"
abbreviation (input) VOL_MAX_VOL_NAME_LEN :: nat where "VOL_MAX_VOL_NAME_LEN \<equiv> 16"
abbreviation (input) VOL_MAX_VOL_PATH_LEN :: nat where "VOL_MAX_VOL_PATH_LEN \<equiv> 256"

record volume =
  vol_flags :: int
  vol_name :: bytes
  vol_path :: bytes

definition zero_volume :: volume where
  "zero_volume = \<lparr>vol_flags = 0, vol_name = replicate VOL_MAX_VOL_NAME_LEN 0,
     vol_path = replicate VOL_MAX_VOL_PATH_LEN 0\<rparr>"

definition vol_init :: "volume list" where
  "vol_init = replicate VOL_MAX_VOLS zero_volume"

definition vol_find_free :: "volume list \<Rightarrow> nat option" where
  "vol_find_free vs = first_index (\<lambda>v. vol_flags v = 0) vs"

text \<open>The new volume number, or \<open>None\<close> for the code's -1. \<^verbatim>\<open>strncpy\<close> pads to the size of the cleared array.\<close>

definition vol_add_volume :: "bytes \<Rightarrow> bytes \<Rightarrow> int \<Rightarrow> volume list \<Rightarrow> nat option \<times> volume list" where
  "vol_add_volume name path flags vs =
     (case vol_find_free vs of
        None \<Rightarrow> (None, vs)
      | Some i \<Rightarrow>
          (Some i, vs[i := \<lparr>vol_flags = flags OR VOL_FLAG_USED,
             vol_name = mkbuf VOL_MAX_VOL_NAME_LEN (take VOL_MAX_VOL_NAME_LEN name),
             vol_path = mkbuf VOL_MAX_VOL_PATH_LEN (take VOL_MAX_VOL_PATH_LEN path)\<rparr>]))"

text \<open>
  \<^verbatim>\<open>strcmp (name, volume[i].name)\<close> leaves the array of a name that fills all 16 characters when the
  name searched begins with them: the outer \<open>None\<close>. The inner \<open>None\<close> is the code's -1.
\<close>

fun vol_find_from :: "bytes \<Rightarrow> nat \<Rightarrow> volume list \<Rightarrow> nat option option" where
  "vol_find_from name i [] = Some None"
| "vol_find_from name i (v # vs) =
     (if vol_flags v \<noteq> 0 then
        (case streq name (vol_name v) of
           None \<Rightarrow> None
         | Some True \<Rightarrow> Some (Some i)
         | Some False \<Rightarrow> vol_find_from name (Suc i) vs)
      else vol_find_from name (Suc i) vs)"

definition vol_find_volume :: "bytes \<Rightarrow> volume list \<Rightarrow> nat option option" where
  "vol_find_volume name vs = vol_find_from name 0 vs"

definition vol_count_vols :: "volume list \<Rightarrow> nat" where
  "vol_count_vols vs = length (filter (\<lambda>v. vol_flags v \<noteq> 0) vs)"

text \<open>The number comes unchecked; outside the table: \<open>None\<close>.\<close>

definition fs_delete_volume :: "nat \<Rightarrow> volume list \<Rightarrow> volume list option" where
  "fs_delete_volume n vs = store vs n zero_volume"

section \<open>The table\<close>

interpretation vols: slot_table "\<lambda>v. vol_flags v = 0" "\<lambda>vs. vs" vol_find_free
  by unfold_locales (simp add: vol_find_free_def)

definition vol_named :: "bytes \<Rightarrow> volume \<Rightarrow> bool" where
  "vol_named n v \<longleftrightarrow> vol_flags v \<noteq> 0 \<and> cstr (vol_name v) = Some n"

text \<open>Every used volume has a terminated name: all names configured are shorter than 16 characters.\<close>

definition vols_ok :: "volume list \<Rightarrow> bool" where
  "vols_ok vs \<longleftrightarrow> length vs = VOL_MAX_VOLS \<and>
     (\<forall>v\<in>set vs. length (vol_name v) = VOL_MAX_VOL_NAME_LEN \<and> length (vol_path v) = VOL_MAX_VOL_PATH_LEN \<and>
        (\<exists>n p. cstr (vol_name v) = Some n \<and> cstr (vol_path v) = Some p))"

lemma vol_find_from_eq:
  assumes "\<forall>v\<in>set vs. vol_flags v \<noteq> 0 \<longrightarrow> (\<exists>n. cstr (vol_name v) = Some n)" "no_nul name"
  shows "vol_find_from name i vs = Some (map_option (\<lambda>k. i + k) (first_index (vol_named name) vs))"
  using assms(1)
proof (induction vs arbitrary: i)
  case (Cons v vs)
  have IH: "vol_find_from name (Suc i) vs = Some (map_option (\<lambda>k. Suc i + k) (first_index (vol_named name) vs))"
    by (rule Cons.IH) (use Cons.prems in simp)
  show ?case
  proof (cases "vol_flags v = 0")
    case True
    then show ?thesis using IH by (simp add: vol_named_def [of name v] option.map_comp comp_def)
  next
    case False
    then obtain n where n: "cstr (vol_name v) = Some n" using Cons.prems by auto
    then have "streq name (vol_name v) = Some (name = n)" using assms(2) by (rule streq_cstr)
    then show ?thesis using IH False n by (auto simp: vol_named_def [of name v] option.map_comp comp_def)
  qed
qed simp

lemma vol_find_volume_eq:
  assumes "vols_ok vs" "no_nul name"
  shows "vol_find_volume name vs = Some (first_index (vol_named name) vs)"
proof -
  have "\<forall>v\<in>set vs. vol_flags v \<noteq> 0 \<longrightarrow> (\<exists>n. cstr (vol_name v) = Some n)"
    using assms(1) by (auto simp: vols_ok_def)
  then show ?thesis using assms(2) by (simp add: vol_find_volume_def vol_find_from_eq option.map_ident)
qed

lemma vols_ok_init: "vols_ok vol_init"
  by (simp add: vols_ok_def vol_init_def zero_volume_def)

lemma or_used_nonzero [simp]: "(f :: int) OR 1 \<noteq> 0"
proof
  assume "f OR 1 = 0"
  then have "bit (f OR 1) 0 = bit (0 :: int) 0" by simp
  then show False by (simp add: bit_simps)
qed

lemma vols_ok_add:
  assumes "vols_ok vs" "no_nul name" "length name < 16" "no_nul path" "length path < 256"
  shows "vols_ok (snd (vol_add_volume name path flags vs))"
proof (cases "vol_find_free vs")
  case (Some i)
  let ?v = "\<lparr>vol_flags = flags OR VOL_FLAG_USED, vol_name = mkbuf 16 name, vol_path = mkbuf 256 path\<rparr>"
  have e: "snd (vol_add_volume name path flags vs) = vs[i := ?v]"
    using Some assms by (simp add: vol_add_volume_def)
  have "v \<in> set (vs[i := ?v]) \<Longrightarrow> v = ?v \<or> v \<in> set vs" for v
    using set_update_subset_insert by fastforce
  then show ?thesis using assms unfolding e by (fastforce simp: vols_ok_def)
qed (use assms in \<open>simp add: vol_add_volume_def\<close>)

lemma vol_add_find:
  assumes "vols_ok vs" "no_nul name" "length name < 16" "no_nul path" "length path < 256"
    and "vol_add_volume name path flags vs = (Some i, vs')" "\<forall>v\<in>set vs. \<not> vol_named name v"
  shows "vol_find_volume name vs' = Some (Some i)" "cstr (vol_path (vs' ! i)) = Some path"
    "vol_count_vols vs' = Suc (vol_count_vols vs)"
proof -
  let ?v = "\<lparr>vol_flags = flags OR VOL_FLAG_USED, vol_name = mkbuf 16 name, vol_path = mkbuf 256 path\<rparr>"
  have f: "vol_find_free vs = Some i" and e: "vs' = vs[i := ?v]"
    using assms by (auto simp: vol_add_volume_def split: option.splits)
  have i: "i < length vs" using vols.find_SomeD [OF f] by simp
  have ok: "vols_ok vs'" using vols_ok_add [OF assms(1-5), of flags] assms(6) by simp
  have "first_index (vol_named name) vs' = Some i"
    using assms(2,3,7) i by (auto simp: first_index_Some e nth_list_update vol_named_def)
  then show "vol_find_volume name vs' = Some (Some i)" using vol_find_volume_eq [OF ok assms(2)] by simp
  show "cstr (vol_path (vs' ! i)) = Some path" using i assms(4,5) by (simp add: e)
  show "vol_count_vols vs' = Suc (vol_count_vols vs)"
    using vols.fill_count [OF f, of ?v vs'] by (simp add: e vol_count_vols_def)
qed

end
