(* ===== verification/Fr_Misc.thy ===== *)
theory Fr_Misc
  imports Fr_CString "HOL-Library.Signed_Division"
begin

text \<open>
  \<^verbatim>\<open>src/lib/misc.c\<close>: NetWare time and date words, file name and bindery name matching, and block
  count conversion. (\<^verbatim>\<open>DPRINTF\<close> and \<^verbatim>\<open>dump_hex\<close> only print; the calls to them are left out of every
  model.)
\<close>

section \<open>Time and date\<close>

text \<open>The fields of \<^verbatim>\<open>struct tm\<close> the code reads.\<close>

record tm =
  tm_year :: int
  tm_mon :: int
  tm_mday :: int
  tm_hour :: int
  tm_min :: int
  tm_sec :: int
  tm_wday :: int

definition time2nw :: "tm \<Rightarrow> u16" where
  "time2nw lt = word_of_int (push_bit 11 (tm_hour lt) OR push_bit 5 (tm_min lt) OR (tm_sec lt sdiv 2))"

definition date2nw :: "tm \<Rightarrow> u16" where
  "date2nw lt = word_of_int (push_bit 9 (tm_year lt - 80) OR push_bit 5 (tm_mon lt + 1) OR tm_mday lt)"

text \<open>Any broken-down time that \<^verbatim>\<open>localtime\<close> yields has its fields in these ranges.\<close>

definition tm_ok :: "tm \<Rightarrow> bool" where
  "tm_ok t \<longleftrightarrow> 0 \<le> tm_hour t \<and> tm_hour t < 24 \<and> 0 \<le> tm_min t \<and> tm_min t < 60 \<and>
     0 \<le> tm_sec t \<and> tm_sec t \<le> 60 \<and> 0 \<le> tm_mon t \<and> tm_mon t < 12 \<and> 1 \<le> tm_mday t \<and> tm_mday t \<le> 31"

text \<open>How a NetWare client reads the two words.\<close>

definition nw_hour :: "u16 \<Rightarrow> int" where "nw_hour w = uint (drop_bit 11 w)"
definition nw_min :: "u16 \<Rightarrow> int" where "nw_min w = uint (drop_bit 5 w AND mask 6)"
definition nw_sec2 :: "u16 \<Rightarrow> int" where "nw_sec2 w = uint (w AND mask 5)"
definition nw_year :: "u16 \<Rightarrow> int" where "nw_year w = uint (drop_bit 9 w)"
definition nw_mon :: "u16 \<Rightarrow> int" where "nw_mon w = uint (drop_bit 5 w AND mask 4)"
definition nw_mday :: "u16 \<Rightarrow> int" where "nw_mday w = uint (w AND mask 5)"

lemma bit_small_int: "0 \<le> x \<Longrightarrow> x < 2 ^ k \<Longrightarrow> k \<le> n \<Longrightarrow> \<not> bit (x :: int) n"
proof -
  assume "0 \<le> x" "x < 2 ^ k" "k \<le> n"
  then have "take_bit k x = x" by (simp add: take_bit_int_eq_self)
  then have "bit x n = bit (take_bit k x) n" by simp
  then show ?thesis using \<open>k \<le> n\<close> by (simp add: bit_take_bit_iff)
qed

lemma uint_bits_eq:
  fixes w :: u16
  assumes "0 \<le> x" "x < 2 ^ 16" "\<And>n. n < 16 \<Longrightarrow> bit w n = bit x n"
  shows "uint w = x"
proof -
  have "w = word_of_int x"
    by (rule bit_word_eqI) (simp add: assms(3) bit_simps)
  then show ?thesis using assms(1,2) by (simp add: unsigned_of_int take_bit_int_eq_self)
qed

text \<open>Packing three fields into a 16-bit word and reading them back.\<close>

lemma pack3:
  fixes a b c :: int
  assumes a: "0 \<le> a" "a < 2 ^ (16 - (p + q))" and b: "0 \<le> b" "b < 2 ^ q" and c: "0 \<le> c" "c < 2 ^ p"
    and pq: "p + q \<le> 16"
  defines "w \<equiv> word_of_int (push_bit (p + q) a OR push_bit p b OR c) :: u16"
  shows "uint (drop_bit (p + q) w) = a" "uint (drop_bit p w AND mask q) = b" "uint (w AND mask p) = c"
proof -
  have pw: "(2 :: int) ^ (16 - (p + q)) \<le> 2 ^ 16" "(2 :: int) ^ q \<le> 2 ^ 16" "(2 :: int) ^ p \<le> 2 ^ 16"
    using pq by (intro power_increasing; simp)+
  have A: "p + q + n < 16" if "bit a n" for n
    using bit_small_int [OF a, of n] that by linarith
  have B: "n < q" if "bit b n" for n
    using bit_small_int [OF b, of n] that by linarith
  have C: "n < p" if "bit c n" for n
    using bit_small_int [OF c, of n] that by linarith
  show "uint (drop_bit (p + q) w) = a"
    by (rule uint_bits_eq) (use a pw in \<open>auto simp: w_def bit_simps dest: A B C\<close>)
  show "uint (drop_bit p w AND mask q) = b"
    by (rule uint_bits_eq) (use b pw pq in \<open>auto simp: w_def bit_simps dest: A B C\<close>)
  show "uint (w AND mask p) = c"
    by (rule uint_bits_eq) (use c pw pq in \<open>auto simp: w_def bit_simps dest: A B C\<close>)
qed

lemma sdiv_2_nonneg: "0 \<le> x \<Longrightarrow> (x :: int) sdiv 2 = x div 2"
  by (cases "x = 0") (simp_all add: signed_divide_int_def)

section \<open>Block counts\<close>

text \<open>\<open>None\<close> is the division by zero.\<close>

definition convert_blocks :: "u32 \<Rightarrow> int \<Rightarrow> int \<Rightarrow> u32 option" where
  "convert_blocks blocks from to =
     (if from = to then Some blocks
      else if from > to then (if to = 0 then None else Some (blocks * word_of_int (from sdiv to)))
      else if from = 0 then None
      else let q = to sdiv from in
        if (word_of_int q :: u32) = 0 then None else Some ((blocks + 1) div word_of_int q))"

section \<open>Names with wildcards\<close>

abbreviation star :: u8 where "star \<equiv> 0x2A"
abbreviation dot :: u8 where "dot \<equiv> 0x2E"
abbreviation quest :: u8 where "quest \<equiv> 0x3F"

text \<open>
  \<^verbatim>\<open>match_fn\<close> on the two strings; the end of a list is the terminator. \<open>True\<close> is the code's 1.
\<close>

fun match_fn :: "bytes \<Rightarrow> bytes \<Rightarrow> bool" where
  "match_fn s [] = (s = [])"
| "match_fn s (d # ds) =
     (if d = 0xBF \<or> d = quest then
        match_fn (case s of [] \<Rightarrow> [] | x # xs \<Rightarrow> if x \<noteq> dot then xs else s) ds
      else if d = 0xAA \<or> d = star then
        (if ds \<noteq> [] then match_fn (dropWhile (\<lambda>x. x \<noteq> dot) s) ds
         else if d = star then True
         else match_fn (dropWhile (\<lambda>x. x \<noteq> dot) s) [])
      else if d = 0xAE \<or> d = dot then
        (case s of [] \<Rightarrow> match_fn [] ds | x # xs \<Rightarrow> if x \<noteq> dot then False else match_fn xs ds)
      else if d = 0xFF then match_fn s ds
      else (case s of [] \<Rightarrow> False
            | x # xs \<Rightarrow> if tolower x \<noteq> tolower d then False else match_fn xs ds))"

text \<open>\<^verbatim>\<open>match_bind\<close>: \<open>True\<close> is the code's 0 (they match).\<close>

definition match_bind :: "bytes \<Rightarrow> bytes \<Rightarrow> nat \<Rightarrow> bool" where
  "match_bind source dest len =
     (if source = [star] then True
      else if dest = [star] then True
      else strneq source dest len)"

definition plain_char :: "u8 \<Rightarrow> bool" where
  "plain_char d \<longleftrightarrow> d \<notin> {0xBF, quest, 0xAA, star, 0xAE, dot, 0xFF}"

lemma match_fn_plain:
  "\<forall>d\<in>set p. plain_char d \<Longrightarrow> match_fn s p = (map tolower s = map tolower p)"
proof (induction p arbitrary: s)
  case (Cons d p)
  then show ?case by (cases s) (auto simp: plain_char_def)
qed simp

lemma match_fn_star [simp]: "match_fn s [star]"
  by simp

lemma match_fn_star_dot_star: "match_fn s [star, dot, star]"
proof -
  have "dropWhile (\<lambda>x. x \<noteq> dot) s = [] \<or> (\<exists>t. dropWhile (\<lambda>x. x \<noteq> dot) s = dot # t)"
    by (induction s) auto
  then show ?thesis by (auto simp del: dropWhile_eq_Nil_conv)
qed

lemma match_fn_star_ext:
  assumes "dot \<notin> set b" "\<forall>d\<in>set p. plain_char d"
  shows "match_fn (b @ dot # e) (star # dot # p) = (map tolower e = map tolower p)"
proof -
  have "dropWhile (\<lambda>x. x \<noteq> dot) (b @ dot # e) = dot # e"
    using assms(1) by (induction b) auto
  then show ?thesis using match_fn_plain [OF assms(2), of e] by simp
qed

end
