(* ===== verification/Fr_RecFile.thy ===== *)
theory Fr_RecFile
  imports Fr_Prelude
begin

text \<open>
  \<^verbatim>\<open>stdio\<close> streams over files of fixed-size records, as the bindery and the trustee code use them:
  every \<^verbatim>\<open>fread\<close>, \<^verbatim>\<open>fwrite\<close>, \<^verbatim>\<open>fseek\<close> and \<^verbatim>\<open>ftruncate\<close> there moves whole records of one structure. A stream
  is the list of the records of the file and the position in records. Streams are not buffered
  in the model. Whether the disk accepts a write or a truncation is an argument (\<open>ok\<close>).
\<close>

record 'r rfile =
  recs :: "'r list"
  fpos :: nat

definition rewind :: "'r rfile \<Rightarrow> 'r rfile" where
  "rewind f = f\<lparr>fpos := 0\<rparr>"

text \<open>A seek to a negative offset fails and leaves the position.\<close>

definition fseek_set :: "'r rfile \<Rightarrow> int \<Rightarrow> 'r rfile" where
  "fseek_set f p = (if p < 0 then f else f\<lparr>fpos := nat p\<rparr>)"

definition fseek_end :: "'r rfile \<Rightarrow> 'r rfile" where
  "fseek_end f = f\<lparr>fpos := length (recs f)\<rparr>"

definition ftell :: "'r rfile \<Rightarrow> int" where
  "ftell f = int (fpos f)"

text \<open>One record, or \<open>None\<close> at the end of the file (\<^verbatim>\<open>fread\<close> returns 0).\<close>

definition fread :: "'r rfile \<Rightarrow> 'r option \<times> 'r rfile" where
  "fread f = (if fpos f < length (recs f) then (Some (recs f ! fpos f), f\<lparr>fpos := Suc (fpos f)\<rparr>)
              else (None, f))"

text \<open>A write past the end leaves a hole of zero records \<open>z\<close>.\<close>

definition fwrite :: "bool \<Rightarrow> 'r \<Rightarrow> 'r \<Rightarrow> 'r rfile \<Rightarrow> bool \<times> 'r rfile" where
  "fwrite ok z r f =
     (if \<not> ok then (False, f)
      else (True,
        f\<lparr>recs := (if fpos f < length (recs f) then (recs f)[fpos f := r]
                   else recs f @ replicate (fpos f - length (recs f)) z @ [r]),
          fpos := Suc (fpos f)\<rparr>))"

definition ftruncate :: "bool \<Rightarrow> int \<Rightarrow> 'r rfile \<Rightarrow> bool \<times> 'r rfile" where
  "ftruncate ok n f = (if \<not> ok \<or> n < 0 then (False, f) else (True, f\<lparr>recs := take (nat n) (recs f)\<rparr>))"

text \<open>
  \<^verbatim>\<open>while (fread (&rec, ...)) { conv (&rec, &val); if (P (val)) return 0; } return -1;\<close>
  The conversion is partial; the result is the record and its converted form.
\<close>

function scan_file ::
  "('r \<Rightarrow> 'v option) \<Rightarrow> ('v \<Rightarrow> bool) \<Rightarrow> 'r rfile \<Rightarrow> (('r \<times> 'v) option \<times> 'r rfile) option" where
  "scan_file conv P f =
     (case fread f of
        (None, f') \<Rightarrow> Some (None, f')
      | (Some r, f') \<Rightarrow>
          (case conv r of
             None \<Rightarrow> None
           | Some v \<Rightarrow> if P v then Some (Some (r, v), f') else scan_file conv P f'))"
  by pat_completeness auto
termination
  by (relation "measure (\<lambda>(conv, P, f). length (recs f) - fpos f)")
    (auto simp: fread_def split: if_splits)

declare scan_file.simps [simp del]

section \<open>What a scan finds\<close>

lemma scan_file_from:
  assumes "\<forall>r\<in>set (recs f). conv r = Some (cv r)"
  shows "scan_file conv P f =
    Some (case first_index (\<lambda>r. P (cv r)) (drop (fpos f) (recs f)) of
            None \<Rightarrow> (None, f\<lparr>fpos := max (fpos f) (length (recs f))\<rparr>)
          | Some i \<Rightarrow> (Some (recs f ! (fpos f + i), cv (recs f ! (fpos f + i))), f\<lparr>fpos := Suc (fpos f + i)\<rparr>))"
  using assms
proof (induction conv P f rule: scan_file.induct)
  case (1 conv P f)
  show ?case
  proof (cases "fpos f < length (recs f)")
    case False
    then show ?thesis by (simp add: scan_file.simps [of conv P f] fread_def)
  next
    case True
    let ?r = "recs f ! fpos f" and ?f' = "f\<lparr>fpos := Suc (fpos f)\<rparr>"
    have d: "drop (fpos f) (recs f) = ?r # drop (Suc (fpos f)) (recs f)"
      using True by (rule Cons_nth_drop_Suc [symmetric])
    have fr: "fread f = (Some ?r, ?f')" using True by (simp add: fread_def)
    have cr: "conv ?r = Some (cv ?r)" using "1.prems" True by simp
    show ?thesis
    proof (cases "P (cv ?r)")
      case Pr: True
      then show ?thesis by (simp add: scan_file.simps [of conv P f] fr cr d)
    next
      case nP: False
      have "scan_file conv P f = scan_file conv P ?f'"
        by (simp add: scan_file.simps [of conv P f] fr cr nP)
      also have "\<dots> = Some (case first_index (\<lambda>r. P (cv r)) (drop (Suc (fpos f)) (recs f)) of
            None \<Rightarrow> (None, ?f'\<lparr>fpos := max (Suc (fpos f)) (length (recs f))\<rparr>)
          | Some i \<Rightarrow> (Some (recs f ! (Suc (fpos f) + i), cv (recs f ! (Suc (fpos f) + i))), ?f'\<lparr>fpos := Suc (Suc (fpos f) + i)\<rparr>))"
        using "1.IH" [OF fr [symmetric] refl cr nP] "1.prems" by (simp cong: option.case_cong)
      finally show ?thesis using True nP by (simp add: d option.case_eq_if option.map_sel max_def)
    qed
  qed
qed

text \<open>A scan from the start of the file finds the first record that matches.\<close>

lemma scan_file_rewind:
  assumes "\<forall>r\<in>set (recs f). conv r = Some (cv r)"
  shows "scan_file conv P (rewind f) =
    Some (case first_index (\<lambda>r. P (cv r)) (recs f) of
            None \<Rightarrow> (None, f\<lparr>fpos := length (recs f)\<rparr>)
          | Some i \<Rightarrow> (Some (recs f ! i, cv (recs f ! i)), f\<lparr>fpos := Suc i\<rparr>))"
  using scan_file_from [of "rewind f" conv cv P] assms
  by (simp add: rewind_def option.case_eq_if)

text \<open>Scanning never changes the records.\<close>

lemma scan_file_recs: "scan_file conv P f = Some (r, f') \<Longrightarrow> recs f' = recs f"
proof (induction conv P f rule: scan_file.induct)
  case (1 conv P f)
  from "1.prems" show ?case
    by (subst (asm) scan_file.simps)
      (auto simp: fread_def split: if_splits option.splits prod.splits dest: "1.IH" [rotated 4])
qed

lemma recs_simps [simp]:
  "recs (rewind f) = recs f" "recs (fseek_set f p) = recs f" "recs (fseek_end f) = recs f"
  "fpos (rewind f) = 0" "fpos (fseek_end f) = length (recs f)"
  by (simp_all add: rewind_def fseek_set_def fseek_end_def)

lemma fread_recs: "fread f = (x, g) \<Longrightarrow> recs g = recs f"
  by (auto simp: fread_def split: if_splits)

text \<open>The update in place that the code writes as: seek back one record, write.\<close>

lemma fwrite_back:
  assumes "0 < fpos f" "fpos f \<le> length (recs f)"
  shows "fwrite True z r (fseek_set f (ftell f - 1)) =
    (True, f\<lparr>recs := (recs f)[fpos f - 1 := r]\<rparr>)"
  using assms by (simp add: fwrite_def fseek_set_def ftell_def nat_diff_distrib)

lemma fwrite_append: "fwrite True z r (fseek_end f) =
    (True, f\<lparr>recs := recs f @ [r], fpos := Suc (length (recs f))\<rparr>)"
  by (simp add: fwrite_def fseek_end_def)

lemma fwrite_fail [simp]: "fwrite False z r f = (False, f)"
  by (simp add: fwrite_def)

end
