(* ===== verification/Fr_BinderyIO.thy ===== *)
theory Fr_BinderyIO
  imports Fr_CString Fr_Misc Fr_RecFile
begin

text \<open>
  \<^verbatim>\<open>src/server/binderyio.c\<close> with the structures of \<^verbatim>\<open>bindery.h\<close>: the bindery (the user database)
  as three files of fixed-size records: objects, properties chained from their object, values
  chained from their property. A \<open>bindery\<close> state holds the three streams, the answers of the disk
  to the writes to come (\<open>wok\<close>, consumed by \<open>wn\<close>), the values \<^verbatim>\<open>random ()\<close> will return (31 bits,
  \<open>rnd\<close>, consumed by \<open>rn\<close>), and what uninitialised structures on the stack hold (\<open>junk_obj\<close>,
  \<open>junk_prop\<close>).

  A result of type \<open>option\<close> is \<open>None\<close> when the code indexes outside an array, or never returns.
\<close>

section \<open>Structures\<close>

record netobj_rec =
  object_id :: b4
  object_type :: b2
  object_namelen :: u8
  object_name :: bytes
  object_flags :: u8
  object_security :: u8
  object_prop_id :: b4
  object_unknown :: b4

record netprop_rec =
  prop_id :: b4
  prop_namelen :: u8
  prop_name :: bytes
  prop_flag :: u8
  prop_security :: u8
  prop_objid :: b4
  prop_valueid :: b4
  prop_nextid :: b4

record netval_rec =
  val_id :: b4
  val_propid :: b4
  val_nextid :: b4
  val_size :: b2
  val_data :: bytes

record bindery_obj =
  ob_id :: u32
  ob_type :: u16
  ob_name :: bytes
  ob_flags :: u8
  ob_security :: u8
  ob_prop_id :: u32

record bindery_prop =
  pr_id :: u32
  pr_name :: bytes
  pr_flags :: u8
  pr_security :: u8
  pr_object_id :: u32
  pr_value_id :: u32
  pr_next_id :: u32

record bindery_val =
  vl_id :: u32
  vl_prop_id :: u32
  vl_next_id :: u32
  vl_size :: u16
  vl_data :: bytes

record bindery =
  net_obj :: "netobj_rec rfile"
  net_prop :: "netprop_rec rfile"
  net_val :: "netval_rec rfile"
  wok :: "nat \<Rightarrow> bool"
  wn :: nat
  rnd :: "nat \<Rightarrow> 31 word"
  rn :: nat
  junk_obj :: "nat \<Rightarrow> netobj_rec"
  junk_prop :: "nat \<Rightarrow> netprop_rec"

abbreviation (input) BINDERY_ERROR_OK :: u8 where "BINDERY_ERROR_OK \<equiv> 0x00"
abbreviation (input) BINDERY_ERROR_BADPASSWORD :: u8 where "BINDERY_ERROR_BADPASSWORD \<equiv> 0xde"
abbreviation (input) BINDERY_ERROR_NOSUCHMEMBER :: u8 where "BINDERY_ERROR_NOSUCHMEMBER \<equiv> 0xea"
abbreviation (input) BINDERY_ERROR_PROPEXISTS :: u8 where "BINDERY_ERROR_PROPEXISTS \<equiv> 0xed"
abbreviation (input) BINDERY_ERROR_OBJEXISTS :: u8 where "BINDERY_ERROR_OBJEXISTS \<equiv> 0xee"
abbreviation (input) BINDERY_ERROR_SECURITY :: u8 where "BINDERY_ERROR_SECURITY \<equiv> 0xf1"
abbreviation (input) BINDERY_ERROR_NOSUCHPROPERTY :: u8 where "BINDERY_ERROR_NOSUCHPROPERTY \<equiv> 0xfb"
abbreviation (input) BINDERY_ERROR_NOSUCHOBJECT :: u8 where "BINDERY_ERROR_NOSUCHOBJECT \<equiv> 0xfc"
abbreviation (input) BINDERY_ERROR_IOERROR :: u8 where "BINDERY_ERROR_IOERROR \<equiv> 0xff"

abbreviation no_id :: u32 where "no_id \<equiv> 0xffffffff"

text \<open>A structure after \<^verbatim>\<open>bzero\<close>.\<close>

definition zero_obj :: netobj_rec where
  "zero_obj = \<lparr>object_id = (0, 0, 0, 0), object_type = (0, 0), object_namelen = 0,
     object_name = replicate 47 0, object_flags = 0, object_security = 0,
     object_prop_id = (0, 0, 0, 0), object_unknown = (0, 0, 0, 0)\<rparr>"

definition zero_prop :: netprop_rec where
  "zero_prop = \<lparr>prop_id = (0, 0, 0, 0), prop_namelen = 0, prop_name = replicate 15 0,
     prop_flag = 0, prop_security = 0, prop_objid = (0, 0, 0, 0), prop_valueid = (0, 0, 0, 0),
     prop_nextid = (0, 0, 0, 0)\<rparr>"

definition zero_val :: netval_rec where
  "zero_val = \<lparr>val_id = (0, 0, 0, 0), val_propid = (0, 0, 0, 0), val_nextid = (0, 0, 0, 0),
     val_size = (0, 0), val_data = replicate 128 0\<rparr>"

section \<open>Disk structures to memory structures\<close>

text \<open>
  \<^verbatim>\<open>name[namelen] = 0\<close> in an array of 48 (16) bytes that was cleared and filled with 47 (15): the
  conversion leaves the array for a larger length byte.
\<close>

definition obj_of :: "netobj_rec \<Rightarrow> bindery_obj" where
  "obj_of r = \<lparr>ob_id = be32 (object_id r), ob_type = be16 (object_type r),
     ob_name = (object_name r @ [0])[unat (object_namelen r) := 0],
     ob_flags = object_flags r, ob_security = object_security r,
     ob_prop_id = be32 (object_prop_id r)\<rparr>"

definition bindio_conv_object :: "netobj_rec \<Rightarrow> bindery_obj option" where
  "bindio_conv_object r = (if object_namelen r < 48 then Some (obj_of r) else None)"

definition prop_of :: "netprop_rec \<Rightarrow> bindery_prop" where
  "prop_of r = \<lparr>pr_id = be32 (prop_id r),
     pr_name = (prop_name r @ [0])[unat (prop_namelen r) := 0],
     pr_flags = prop_flag r, pr_security = prop_security r,
     pr_object_id = be32 (prop_objid r), pr_value_id = be32 (prop_valueid r),
     pr_next_id = be32 (prop_nextid r)\<rparr>"

definition bindio_conv_prop :: "netprop_rec \<Rightarrow> bindery_prop option" where
  "bindio_conv_prop r = (if prop_namelen r < 16 then Some (prop_of r) else None)"

definition bindio_conv_val :: "netval_rec \<Rightarrow> bindery_val" where
  "bindio_conv_val r = \<lparr>vl_id = be32 (val_id r), vl_prop_id = be32 (val_propid r),
     vl_next_id = be32 (val_nextid r), vl_size = be16 (val_size r), vl_data = val_data r\<rparr>"

section \<open>Streams\<close>

definition write_obj :: "netobj_rec \<Rightarrow> bindery \<Rightarrow> bool \<times> bindery" where
  "write_obj r b = (let (ok, f) = fwrite (wok b (wn b)) zero_obj r (net_obj b)
                    in (ok, b\<lparr>net_obj := f, wn := Suc (wn b)\<rparr>))"

definition write_prop :: "netprop_rec \<Rightarrow> bindery \<Rightarrow> bool \<times> bindery" where
  "write_prop r b = (let (ok, f) = fwrite (wok b (wn b)) zero_prop r (net_prop b)
                     in (ok, b\<lparr>net_prop := f, wn := Suc (wn b)\<rparr>))"

definition write_val :: "netval_rec \<Rightarrow> bindery \<Rightarrow> bool \<times> bindery" where
  "write_val r b = (let (ok, f) = fwrite (wok b (wn b)) zero_val r (net_val b)
                    in (ok, b\<lparr>net_val := f, wn := Suc (wn b)\<rparr>))"

definition trunc_obj :: "int \<Rightarrow> bindery \<Rightarrow> bool \<times> bindery" where
  "trunc_obj n b = (let (ok, f) = ftruncate (wok b (wn b)) n (net_obj b)
                    in (ok, b\<lparr>net_obj := f, wn := Suc (wn b)\<rparr>))"

definition trunc_prop :: "int \<Rightarrow> bindery \<Rightarrow> bool \<times> bindery" where
  "trunc_prop n b = (let (ok, f) = ftruncate (wok b (wn b)) n (net_prop b)
                     in (ok, b\<lparr>net_prop := f, wn := Suc (wn b)\<rparr>))"

definition trunc_val :: "int \<Rightarrow> bindery \<Rightarrow> bool \<times> bindery" where
  "trunc_val n b = (let (ok, f) = ftruncate (wok b (wn b)) n (net_val b)
                    in (ok, b\<lparr>net_val := f, wn := Suc (wn b)\<rparr>))"

definition next_random :: "bindery \<Rightarrow> u32 \<times> bindery" where
  "next_random b = (ucast (rnd b (rn b)), b\<lparr>rn := Suc (rn b)\<rparr>)"

section \<open>Searching\<close>

text \<open>A character array read as a string by a comparison that is bounded by its size.\<close>

definition bufstr :: "bytes \<Rightarrow> bytes" where
  "bufstr b = takeWhile (\<lambda>x. x \<noteq> 0) b"

definition bindio_prop_seek ::
  "u32 \<Rightarrow> bindery \<Rightarrow> ((netprop_rec \<times> bindery_prop) option \<times> bindery) option" where
  "bindio_prop_seek i b = do {
     (x, f) \<leftarrow> scan_file bindio_conv_prop (\<lambda>p. pr_id p = i) (rewind (net_prop b));
     Some (x, b\<lparr>net_prop := f\<rparr>)
   }"

definition bindio_scan_object ::
  "bytes \<Rightarrow> u16 \<Rightarrow> bindery \<Rightarrow> ((netobj_rec \<times> bindery_obj) option \<times> bindery) option" where
  "bindio_scan_object objname type b = do {
     (x, f) \<leftarrow> scan_file bindio_conv_object
       (\<lambda>ob. strneq objname (bufstr (ob_name ob)) 48 \<and> ob_type ob = type) (rewind (net_obj b));
     Some (x, b\<lparr>net_obj := f\<rparr>)
   }"

definition bindio_scan_object_by_id ::
  "u32 \<Rightarrow> bindery \<Rightarrow> ((netobj_rec \<times> bindery_obj) option \<times> bindery) option" where
  "bindio_scan_object_by_id objid b = do {
     (x, f) \<leftarrow> scan_file bindio_conv_object (\<lambda>ob. ob_id ob = objid) (rewind (net_obj b));
     Some (x, b\<lparr>net_obj := f\<rparr>)
   }"

definition bindio_scan_propid ::
  "u32 \<Rightarrow> bindery \<Rightarrow> ((netprop_rec \<times> bindery_prop) option \<times> bindery) option" where
  "bindio_scan_propid propid b = do {
     (x, f) \<leftarrow> scan_file bindio_conv_prop (\<lambda>p. pr_id p = propid) (rewind (net_prop b));
     Some (x, b\<lparr>net_prop := f\<rparr>)
   }"

definition bindio_scan_prop_nextid ::
  "u32 \<Rightarrow> bindery \<Rightarrow> ((netprop_rec \<times> bindery_prop) option \<times> bindery) option" where
  "bindio_scan_prop_nextid propid b = do {
     (x, f) \<leftarrow> scan_file bindio_conv_prop (\<lambda>p. pr_next_id p = propid) (rewind (net_prop b));
     Some (x, b\<lparr>net_prop := f\<rparr>)
   }"

definition bindio_scan_prop ::
  "u32 \<Rightarrow> bytes \<Rightarrow> bindery \<Rightarrow> (bindery_prop option \<times> bindery) option" where
  "bindio_scan_prop objid propname b = do {
     (x, f) \<leftarrow> scan_file bindio_conv_prop
       (\<lambda>p. pr_object_id p = objid \<and> strneq (bufstr (pr_name p)) propname 15) (rewind (net_prop b));
     Some (map_option snd x, b\<lparr>net_prop := f\<rparr>)
   }"

definition bindio_scan_val :: "u32 \<Rightarrow> bindery \<Rightarrow> (bindery_val option \<times> bindery) option" where
  "bindio_scan_val valid b = do {
     (x, f) \<leftarrow> scan_file (\<lambda>r. Some (bindio_conv_val r)) (\<lambda>v. vl_id v = valid) (rewind (net_val b));
     Some (map_option snd x, b\<lparr>net_val := f\<rparr>)
   }"

text \<open>\<^verbatim>\<open>match_bind\<close> is called on the object's name and the pattern, for 47 characters.\<close>

definition bindio_scan_object_wild ::
  "bytes \<Rightarrow> u16 \<Rightarrow> u32 \<Rightarrow> bindery \<Rightarrow> (bindery_obj option \<times> bindery) option" where
  "bindio_scan_object_wild objname type last_obj b = do {
     (go, b1) \<leftarrow>
       (if last_obj \<noteq> no_id
        then do { (x, b1) \<leftarrow> bindio_scan_object_by_id last_obj b; Some (x \<noteq> None, b1) }
        else Some (True, b\<lparr>net_obj := rewind (net_obj b)\<rparr>));
     if \<not> go then Some (None, b1)
     else do {
       (x, f) \<leftarrow> scan_file bindio_conv_object
         (\<lambda>ob. (ob_type ob = type \<or> type = 0xffff) \<and> match_bind (bufstr (ob_name ob)) objname 47)
         (net_obj b1);
       Some (map_option snd x, b1\<lparr>net_obj := f\<rparr>)
     }
   }"

section \<open>Printing the bindery\<close>

text \<open>
  \<^verbatim>\<open>bindio_dump\<close> prints every object and follows its chain of properties; what it does to the state
  is to move the positions of the object and the property stream. The walk along a chain that
  closes on itself does not end.
\<close>

partial_function (option) dump_chain :: "u32 \<Rightarrow> bindery \<Rightarrow> bindery option" where
  "dump_chain propid b = do {
     (x, b1) \<leftarrow> bindio_prop_seek propid b;
     (case x of None \<Rightarrow> Some b1 | Some (r, p) \<Rightarrow> dump_chain (pr_next_id p) b1)
   }"

fun dump_objects :: "netobj_rec list \<Rightarrow> bindery \<Rightarrow> bindery option" where
  "dump_objects [] b = Some b"
| "dump_objects (r # rs) b = do {
     ob \<leftarrow> bindio_conv_object r;
     b1 \<leftarrow> dump_chain (ob_prop_id ob) b;
     dump_objects rs b1
   }"

definition bindio_dump :: "bindery \<Rightarrow> bindery option" where
  "bindio_dump b = do {
     b1 \<leftarrow> dump_objects (recs (net_obj b)) b;
     Some (b1\<lparr>net_obj := fseek_end (net_obj b1)\<rparr>)
   }"

section \<open>Adding\<close>

definition bindio_add_object ::
  "bytes \<Rightarrow> u16 \<Rightarrow> u8 \<Rightarrow> u8 \<Rightarrow> bindery \<Rightarrow> ((u8 + u32) \<times> bindery) option" where
  "bindio_add_object objname type flags security b = do {
     (x, b1) \<leftarrow> bindio_scan_object objname type b;
     (case x of
        Some _ \<Rightarrow> Some (Inl BINDERY_ERROR_OBJEXISTS, b1)
      | None \<Rightarrow> do {
          let (i, b2) = next_random b1;
          let namelen = (of_nat (length objname) :: u8);
          name \<leftarrow> bcopy (take (unat namelen) objname) (replicate 47 0);
          let r = zero_obj\<lparr>object_id := to_be32 i, object_type := to_be16 type,
                    object_namelen := namelen, object_name := name,
                    object_flags := flags, object_security := security,
                    object_prop_id := (0xff, 0xff, 0xff, 0xff)\<rparr>;
          let (ok, b3) = write_obj r (b2\<lparr>net_obj := fseek_end (net_obj b2)\<rparr>);
          Some (if \<not> ok then Inl BINDERY_ERROR_IOERROR else Inr i, b3)
        })
   }"

text \<open>
  The walk to the last property of a chain, with the record buffer \<^verbatim>\<open>proprec\<close>: when a seek fails, the
  buffer holds the last record of the file and the stream stands at its end.
\<close>

partial_function (option) walk_chain ::
  "u32 \<Rightarrow> netprop_rec \<Rightarrow> bindery \<Rightarrow> (netprop_rec \<times> bindery) option" where
  "walk_chain nextpropid proprec b = do {
     (x, b1) \<leftarrow> bindio_prop_seek nextpropid b;
     (case x of
        None \<Rightarrow> Some (if recs (net_prop b1) = [] then proprec else last (recs (net_prop b1)), b1)
      | Some (r, p) \<Rightarrow>
          if pr_next_id p = no_id then Some (r, b1) else walk_chain (pr_next_id p) r b1)
   }"

text \<open>The last part of \<^verbatim>\<open>bindio_add_prop\<close>: hook the property into the chain of its object.\<close>

definition link_prop ::
  "bindery_obj \<Rightarrow> u32 \<Rightarrow> netprop_rec \<Rightarrow> bindery \<Rightarrow> ((u8 + u32) \<times> bindery) option" where
  "link_prop ob propid proprec b =
     (if ob_prop_id ob = no_id then
        (let f = fseek_set (net_obj b) (ftell (net_obj b) - 1) in
         case fread f of
           (None, f1) \<Rightarrow> Some (Inl BINDERY_ERROR_IOERROR, b\<lparr>net_obj := f1\<rparr>)
         | (Some r, f1) \<Rightarrow>
             let (ok, b1) = write_obj (r\<lparr>object_prop_id := to_be32 propid\<rparr>)
                              (b\<lparr>net_obj := fseek_set f1 (ftell f1 - 1)\<rparr>)
             in Some (if \<not> ok then Inl BINDERY_ERROR_IOERROR else Inr propid, b1))
      else do {
        (r, b1) \<leftarrow> walk_chain (ob_prop_id ob) proprec b;
        let (ok, b2) = write_prop (r\<lparr>prop_nextid := to_be32 propid\<rparr>)
                         (b1\<lparr>net_prop := fseek_set (net_prop b1) (ftell (net_prop b1) - 1)\<rparr>);
        Some (if \<not> ok then Inl BINDERY_ERROR_IOERROR else Inr propid, b2)
      })"

text \<open>\<^verbatim>\<open>bcopy (data, ..., 128)\<close> reads 128 bytes of the caller's array.\<close>

definition copy128 :: "bytes \<Rightarrow> bytes option" where
  "copy128 d = (if length d < 128 then None else Some (take 128 d))"

text \<open>\<^verbatim>\<open>data\<close> is \<open>None\<close> for the null pointer.\<close>

definition bindio_add_prop ::
  "u32 \<Rightarrow> bytes \<Rightarrow> u8 \<Rightarrow> u8 \<Rightarrow> bytes option \<Rightarrow> bindery \<Rightarrow> ((u8 + u32) \<times> bindery) option" where
  "bindio_add_prop objid propname flags security data b = do {
     (x, b1) \<leftarrow> bindio_scan_object_by_id objid b;
     (case x of
        None \<Rightarrow> Some (Inl BINDERY_ERROR_NOSUCHOBJECT, b1)
      | Some (_, ob) \<Rightarrow> do {
          (y, b2) \<leftarrow> bindio_scan_prop objid propname b1;
          (if y \<noteq> None then Some (Inl BINDERY_ERROR_PROPEXISTS, b2)
           else do {
             let (valid, b3) = next_random b2;
             let (propid, b4) = next_random b3;
             let namelen = (of_nat (length propname) :: u8);
             name \<leftarrow> bcopy (take (unat namelen) propname) (replicate 15 0);
             let proprec = zero_prop\<lparr>prop_id := to_be32 propid, prop_namelen := namelen,
                  prop_name := name, prop_flag := flags, prop_security := security,
                  prop_objid := to_be32 objid, prop_valueid := to_be32 valid,
                  prop_nextid := (0xff, 0xff, 0xff, 0xff)\<rparr>;
             let (ok, b5) = write_prop proprec (b4\<lparr>net_prop := fseek_end (net_prop b4)\<rparr>);
             (if \<not> ok then Some (Inl BINDERY_ERROR_IOERROR, b5)
              else do {
                data128 \<leftarrow> (case data of None \<Rightarrow> Some (replicate 128 0) | Some d \<Rightarrow> copy128 d);
                let valrec = zero_val\<lparr>val_id := to_be32 valid, val_propid := to_be32 propid,
                     val_nextid := (0xff, 0xff, 0xff, 0xff), val_size := (0x01, 0x00),
                     val_data := data128\<rparr>;
                let (ok, b6) = write_val valrec (b5\<lparr>net_val := fseek_end (net_val b5)\<rparr>);
                (if \<not> ok then Some (Inl BINDERY_ERROR_IOERROR, b6)
                 else link_prop ob propid proprec b6)
              })
           })
        })
   }"


section \<open>Reading, writing and changing\<close>

definition bindio_read_prop ::
  "u32 \<Rightarrow> bytes \<Rightarrow> u8 \<Rightarrow> bindery \<Rightarrow> ((u8 + bindery_val \<times> bindery_prop) \<times> bindery) option" where
  "bindio_read_prop objid propname segno b = do {
     (x, b1) \<leftarrow> bindio_scan_prop objid propname b;
     (case x of
        None \<Rightarrow> Some (Inl BINDERY_ERROR_NOSUCHPROPERTY, b1)
      | Some p \<Rightarrow> do {
          (y, b2) \<leftarrow> bindio_scan_val (pr_value_id p) b1;
          (case y of
             None \<Rightarrow> Some (Inl BINDERY_ERROR_NOSUCHPROPERTY, b2)
           | Some v \<Rightarrow> Some (Inr (v, p), b2))
        })
   }"

definition bindio_write_prop ::
  "u32 \<Rightarrow> bytes \<Rightarrow> u8 \<Rightarrow> u8 \<Rightarrow> bytes \<Rightarrow> bindery \<Rightarrow> (u8 \<times> bindery) option" where
  "bindio_write_prop objid propname segno more_flag dataval b = do {
     (x, b1) \<leftarrow> bindio_scan_prop objid propname b;
     (case x of
        None \<Rightarrow> Some (BINDERY_ERROR_NOSUCHPROPERTY, b1)
      | Some p \<Rightarrow>
          if segno \<noteq> 1 then Some (BINDERY_ERROR_IOERROR, b1)
          else if more_flag \<noteq> 0 then Some (BINDERY_ERROR_IOERROR, b1)
          else do {
            (y, b2) \<leftarrow> bindio_scan_val (pr_value_id p) b1;
            (case y of
               None \<Rightarrow> Some (BINDERY_ERROR_NOSUCHPROPERTY, b2)
             | Some _ \<Rightarrow>
                 (case fread (fseek_set (net_val b2) (ftell (net_val b2) - 1)) of
                    (None, f) \<Rightarrow> Some (BINDERY_ERROR_IOERROR, b2\<lparr>net_val := f\<rparr>)
                  | (Some r, f) \<Rightarrow> do {
                      d \<leftarrow> copy128 dataval;
                      let (ok, b3) = write_val (r\<lparr>val_data := d\<rparr>)
                                       (b2\<lparr>net_val := fseek_set f (ftell f - 1)\<rparr>);
                      Some (if \<not> ok then BINDERY_ERROR_IOERROR else BINDERY_ERROR_OK, b3)
                    }))
          })
   }"

text \<open>\<^verbatim>\<open>new_name\<close> is \<open>None\<close> for the null pointer. The length byte of the record is not updated.\<close>

definition bindio_change_object ::
  "u32 \<Rightarrow> u32 \<Rightarrow> bytes option \<Rightarrow> bindery \<Rightarrow> (u8 \<times> bindery) option" where
  "bindio_change_object objid new_objid new_name b = do {
     (x, b1) \<leftarrow> bindio_scan_object_by_id objid b;
     (case x of
        None \<Rightarrow> Some (BINDERY_ERROR_NOSUCHOBJECT, b1)
      | Some (r, _) \<Rightarrow> do {
          let r1 = (if new_objid \<noteq> no_id then r\<lparr>object_id := to_be32 new_objid\<rparr> else r);
          r2 \<leftarrow> (case new_name of
                  None \<Rightarrow> Some r1
                | Some s \<Rightarrow> do { n \<leftarrow> strncpy (object_name r1) s 46; Some (r1\<lparr>object_name := n\<rparr>) });
          let (ok, b2) = write_obj r2 (b1\<lparr>net_obj := fseek_set (net_obj b1) (ftell (net_obj b1) - 1)\<rparr>);
          Some (if \<not> ok then BINDERY_ERROR_IOERROR else BINDERY_ERROR_OK, b2)
        })
   }"

section \<open>Deleting\<close>

text \<open>
  The value part of \<^verbatim>\<open>bindio_delete_prop\<close>: the record just read is the last one (truncate), or is
  overwritten by the last one (the file keeps its length). \<open>Some e\<close> is the early return of \<open>e\<close>.
\<close>

definition delete_val_rec :: "bindery \<Rightarrow> u8 option \<times> bindery" where
  "delete_val_rec b =
     (let rec_pos = ftell (net_val b) - 1;
          f1 = fseek_end (net_val b);
          lastrec_pos = ftell f1 - 1;
          f2 = fseek_set f1 lastrec_pos
      in if rec_pos = lastrec_pos then
           (let (ok, b1) = trunc_val lastrec_pos (b\<lparr>net_val := f2\<rparr>)
            in (if ok then None else Some BINDERY_ERROR_IOERROR, b1))
         else
           (case fread f2 of
              (None, f3) \<Rightarrow> (Some BINDERY_ERROR_IOERROR, b\<lparr>net_val := f3\<rparr>)
            | (Some r, f3) \<Rightarrow>
                let (ok, b1) = write_val r (b\<lparr>net_val := fseek_set f3 rec_pos\<rparr>)
                in (if ok then None else Some BINDERY_ERROR_IOERROR, b1)))"

text \<open>
  The property part, with the position the property stream has at that point: here the last
  record is moved over the one before the position, and the file truncated.
\<close>

definition delete_prop_rec :: "bindery \<Rightarrow> u8 option \<times> bindery" where
  "delete_prop_rec b =
     (let rec_pos = ftell (net_prop b) - 1;
          f1 = fseek_end (net_prop b);
          lastrec_pos = ftell f1 - 1;
          f2 = fseek_set f1 lastrec_pos
      in if rec_pos = lastrec_pos then
           (let (ok, b1) = trunc_prop lastrec_pos (b\<lparr>net_prop := rewind f2\<rparr>)
            in (if ok then None else Some BINDERY_ERROR_IOERROR, b1))
         else
           (case fread (fseek_set f2 lastrec_pos) of
              (None, f3) \<Rightarrow> (Some BINDERY_ERROR_IOERROR, b\<lparr>net_prop := f3\<rparr>)
            | (Some r, f3) \<Rightarrow>
                let (ok, b1) = write_prop r (b\<lparr>net_prop := fseek_set f3 rec_pos\<rparr>)
                in if \<not> ok then (Some BINDERY_ERROR_IOERROR, b1)
                   else let (ok, b2) = trunc_prop lastrec_pos b1
                        in (if ok then None else Some BINDERY_ERROR_IOERROR, b2)))"

text \<open>
  The last part: the record that refers to the deleted property is written back from a structure
  of which only the reference has been set.
\<close>

definition unlink_prop :: "u32 \<Rightarrow> u32 \<Rightarrow> u32 \<Rightarrow> bindery \<Rightarrow> (u8 \<times> bindery) option" where
  "unlink_prop propid objid nextid b = do {
     (x, b1) \<leftarrow> bindio_scan_prop_nextid propid b;
     (if x = None then do {
        b2 \<leftarrow> bindio_dump b1;
        (y, b3) \<leftarrow> bindio_scan_object_by_id objid b2;
        (case y of
           None \<Rightarrow> Some (BINDERY_ERROR_NOSUCHOBJECT, b3)
         | Some (_, ob) \<Rightarrow>
             if ob_prop_id ob = propid then
               (let (ok, b4) = write_obj ((junk_obj b (wn b))\<lparr>object_prop_id := to_be32 nextid\<rparr>)
                                 (b3\<lparr>net_obj := fseek_set (net_obj b3) (ftell (net_obj b3) - 1)\<rparr>)
                in Some (if \<not> ok then BINDERY_ERROR_IOERROR else BINDERY_ERROR_OK, b4))
             else Some (BINDERY_ERROR_OK, b3))
      } else
        (let (ok, b2) = write_prop ((junk_prop b (wn b))\<lparr>prop_nextid := to_be32 nextid\<rparr>)
                          (b1\<lparr>net_prop := fseek_set (net_prop b1) (ftell (net_prop b1) - 1)\<rparr>)
         in Some (if \<not> ok then BINDERY_ERROR_IOERROR else BINDERY_ERROR_OK, b2)))
   }"

definition bindio_delete_prop :: "u32 \<Rightarrow> bindery \<Rightarrow> (u8 \<times> bindery) option" where
  "bindio_delete_prop propid b = do {
     (x, b1) \<leftarrow> bindio_scan_propid propid b;
     (case x of
        None \<Rightarrow> Some (BINDERY_ERROR_NOSUCHPROPERTY, b1)
      | Some (_, p) \<Rightarrow> do {
          b2 \<leftarrow> bindio_dump b1;
          (y, b3) \<leftarrow> bindio_scan_val (pr_value_id p) b2;
          (if y = None then Some (BINDERY_ERROR_NOSUCHPROPERTY, b3)
           else
             (case delete_val_rec b3 of
                (Some e, b4) \<Rightarrow> Some (e, b4)
              | (None, b4) \<Rightarrow>
                  (case delete_prop_rec b4 of
                     (Some e, b5) \<Rightarrow> Some (e, b5)
                   | (None, b5) \<Rightarrow> unlink_prop propid (pr_object_id p) (pr_next_id p) b5)))
        })
   }"

text \<open>The loop of \<^verbatim>\<open>bindio_delete_obj\<close> over the properties; \<open>Some e\<close> is the early return of \<open>e\<close>.\<close>

partial_function (option) delete_props :: "u32 \<Rightarrow> bindery \<Rightarrow> (u8 option \<times> bindery) option" where
  "delete_props propid b =
     (if propid = no_id then Some (None, b)
      else do {
        (x, b1) \<leftarrow> bindio_scan_propid propid b;
        (case x of
           None \<Rightarrow> Some (None, b1)
         | Some (_, p) \<Rightarrow> do {
             (e, b2) \<leftarrow> bindio_delete_prop propid b1;
             (if e \<noteq> BINDERY_ERROR_OK then Some (Some e, b2) else delete_props (pr_next_id p) b2)
           })
      })"

definition bindio_delete_obj :: "u32 \<Rightarrow> bindery \<Rightarrow> (u8 \<times> bindery) option" where
  "bindio_delete_obj objid b = do {
     (x, b1) \<leftarrow> bindio_scan_object_by_id objid b;
     (case x of
        None \<Rightarrow> Some (BINDERY_ERROR_NOSUCHOBJECT, b1)
      | Some (_, ob) \<Rightarrow> do {
          let rec_pos = ftell (net_obj b1) - 1;
          let f1 = fseek_end (net_obj b1);
          let lastrec_pos = ftell f1 - 1;
          (e, b2) \<leftarrow> delete_props (ob_prop_id ob) (b1\<lparr>net_obj := f1\<rparr>);
          (case e of
             Some e \<Rightarrow> Some (e, b2)
           | None \<Rightarrow>
               if rec_pos = lastrec_pos then
                 (let (ok, b3) = trunc_obj rec_pos (b2\<lparr>net_obj := rewind (net_obj b2)\<rparr>)
                  in Some (if ok then BINDERY_ERROR_OK else BINDERY_ERROR_IOERROR, b3))
               else
                 (case fread (fseek_set (net_obj b2) lastrec_pos) of
                    (None, f3) \<Rightarrow> Some (BINDERY_ERROR_IOERROR, b2\<lparr>net_obj := f3\<rparr>)
                  | (Some r, f3) \<Rightarrow>
                      let (ok, b3) = write_obj r (b2\<lparr>net_obj := fseek_set f3 rec_pos\<rparr>)
                      in if \<not> ok then Some (BINDERY_ERROR_IOERROR, b3)
                         else let (ok, b4) = trunc_obj lastrec_pos (b3\<lparr>net_obj := rewind (net_obj b3)\<rparr>)
                              in Some (if ok then BINDERY_ERROR_OK else BINDERY_ERROR_IOERROR, b4)))
        })
   }"

text \<open>Here the answer of the truncations is not looked at.\<close>

definition bindio_truncate :: "bindery \<Rightarrow> bindery" where
  "bindio_truncate b =
     (let (_, b1) = trunc_obj 0 (b\<lparr>net_obj := rewind (net_obj b)\<rparr>);
          (_, b2) = trunc_prop 0 (b1\<lparr>net_prop := rewind (net_prop b1)\<rparr>);
          (_, b3) = trunc_val 0 (b2\<lparr>net_val := rewind (net_val b2)\<rparr>)
      in b3)"

end
