(* ===== verification/Fr_State.thy ===== *)
theory Fr_State
  imports Fr_Volume Fr_BinderyIO
begin

text \<open>
  The state of the server: the connections of \<^verbatim>\<open>conn.h\<close>, the volume table, the bindery, the trustee
  files, and what the operating system answers. \<open>sent\<close> lists the packets handed to \<^verbatim>\<open>sendto\<close> (the last
  one first), \<open>closed\<close> the descriptors handed to \<^verbatim>\<open>close\<close> and \<open>os_log\<close> the changes asked of the file system.
  Each call to the operating system whose answer the code looks at consumes one tick \<open>tk\<close> of the
  answers \<open>os_stat\<close>, \<open>os_open\<close>, \<open>os_ok\<close> and so on, which are arbitrary functions. \<open>stack\<close> is what local
  arrays hold before they are set. \<open>frommel_version\<close> is the text that the build puts into \<^verbatim>\<open>defs.h\<close>.
\<close>

type_synonym b6 = "u8 \<times> u8 \<times> u8 \<times> u8 \<times> u8 \<times> u8"

fun list_b6 :: "b6 \<Rightarrow> bytes" where
  "list_b6 (a, b, c, d, e, f) = [a, b, c, d, e, f]"

lemma length_list_b6 [simp]: "length (list_b6 x) = 6"
  by (cases x) simp

record ipx_addr =
  x_net :: b4
  x_host :: b6
  x_port :: u16

datatype conn_status = Unused | Attached | LoggedIn

text \<open>The order of the codes 0, 1, 2 of \<^verbatim>\<open>conn.h\<close>.\<close>

fun status_code :: "conn_status \<Rightarrow> u8" where
  "status_code Unused = 0"
| "status_code Attached = 1"
| "status_code LoggedIn = 2"

lemma status_code_inject [simp]: "status_code s = status_code t \<longleftrightarrow> s = t"
  by (cases s; cases t) simp_all

instantiation conn_status :: linorder
begin

definition less_eq_conn_status :: "conn_status \<Rightarrow> conn_status \<Rightarrow> bool" where
  "s \<le> t \<longleftrightarrow> status_code s \<le> status_code t"

definition less_conn_status :: "conn_status \<Rightarrow> conn_status \<Rightarrow> bool" where
  "s < t \<longleftrightarrow> status_code s < status_code t"

instance
  by standard (auto simp: less_eq_conn_status_def less_conn_status_def order.order_iff_strict
      simp flip: status_code_inject)

end

abbreviation (input) CONN_MAX_MSG_LEN :: nat where "CONN_MAX_MSG_LEN \<equiv> 128"
abbreviation (input) CONN_DH_MAX_PATH_LEN :: nat where "CONN_DH_MAX_PATH_LEN \<equiv> 256"
abbreviation (input) CONN_DH_PER_CONN :: nat where "CONN_DH_PER_CONN \<equiv> 32"
abbreviation (input) CONN_SH_MAX_PATH_LEN :: nat where "CONN_SH_MAX_PATH_LEN \<equiv> 256"
abbreviation (input) CONN_SH_PER_CONN :: nat where "CONN_SH_PER_CONN \<equiv> 16"
abbreviation (input) CONN_FH_PER_CONN :: nat where "CONN_FH_PER_CONN \<equiv> 64"
abbreviation (input) NCP_MAX_FIELD_LEN :: nat where "NCP_MAX_FIELD_LEN \<equiv> 1024"

record dirhandle =
  dh_flags :: int
  dh_volno :: int
  dh_path :: bytes

record searchandle =
  sh_path :: bytes
  sh_relpath :: bytes
  sh_dh :: int
  sh_scan_right :: int

record connection =
  status :: conn_status
  addr :: ipx_addr
  seq_no :: u8
  task_no :: u8
  login_time :: int
  last_time :: int
  wdog_time :: int
  c_object_id :: u32
  c_object_type :: u16
  object_supervisor :: u8
  login_key :: bytes
  message :: bytes
  message_ok :: u8
  dh :: "dirhandle list"
  sh :: "searchandle list"
  fh :: "int list"

record trust_rec =
  obj_id :: b4
  rights :: b2

text \<open>
  A packet sent. A data byte of a reply is \<open>None\<close> when the code never set it: what goes out is
  whatever the stack held.
\<close>

record reply =
  rep_to :: ipx_addr
  con_no :: u8
  rep_reserved :: u8
  rep_task_no :: u8
  rep_seq_no :: u8
  comp_code :: u8
  conn_stat :: u8
  rep_data :: "u8 option list"

datatype packet =
    Reply (reply_of: reply)
  | Watchdog ipx_addr u8 u8

text \<open>
  What the server reads of \<^verbatim>\<open>struct stat\<close>, \<^verbatim>\<open>struct statfs\<close> and \<^verbatim>\<open>struct dirent\<close>; the times are given as
  \<^verbatim>\<open>localtime\<close> breaks them down.
\<close>

record stat_rec =
  st_mode :: nat
  st_size :: int
  st_mtime :: tm
  st_atime :: tm

record statfs_rec =
  f_bsize :: int
  f_blocks :: int
  f_bavail :: int
  f_files :: int
  f_ffree :: int

record dirent =
  d_name :: bytes
  d_type :: nat

datatype file_op =
    OpWrite int u32 bytes
  | OpTruncate int u32
  | OpChmod int
  | OpUnlink bytes
  | OpRename bytes bytes
  | OpMkdir bytes
  | OpRmdir bytes

record srv =
  conns :: "connection list"
  volumes :: "volume list"
  db :: bindery
  tfiles :: "bytes \<Rightarrow> trust_rec list option"
  os_stat :: "nat \<Rightarrow> bytes \<Rightarrow> stat_rec option"
  os_fstat :: "nat \<Rightarrow> int \<Rightarrow> stat_rec option"
  os_statfs :: "nat \<Rightarrow> bytes \<Rightarrow> statfs_rec option"
  os_dir :: "nat \<Rightarrow> bytes \<Rightarrow> dirent list option"
  os_read :: "nat \<Rightarrow> int \<Rightarrow> u32 \<Rightarrow> nat \<Rightarrow> bytes option"
  os_open :: "nat \<Rightarrow> bytes \<Rightarrow> nat \<Rightarrow> int"
  os_ok :: "nat \<Rightarrow> bool"
  stack :: "nat \<Rightarrow> nat \<Rightarrow> u8"
  tk :: nat
  now :: int
  localtime :: "int \<Rightarrow> tm"
  sent :: "packet list"
  closed :: "int list"
  os_log :: "file_op list"
  down_flag :: bool
  loginenabled :: int
  server_addr :: ipx_addr
  conf_servername :: bytes
  conf_nwversion :: int
  conf_serialno :: int
  conf_appno :: int
  frommel_version :: bytes

text \<open>\<^verbatim>\<open>conf_nofconns\<close>: the table has one more entry, number 0, which is not used.\<close>

definition nofconns :: "srv \<Rightarrow> nat" where
  "nofconns s = length (conns s) - 1"

definition zero_addr :: ipx_addr where
  "zero_addr = \<lparr>x_net = (0, 0, 0, 0), x_host = (0, 0, 0, 0, 0, 0), x_port = 0\<rparr>"

definition zero_dh :: dirhandle where
  "zero_dh = \<lparr>dh_flags = 0, dh_volno = 0, dh_path = replicate CONN_DH_MAX_PATH_LEN 0\<rparr>"

definition zero_sh :: searchandle where
  "zero_sh = \<lparr>sh_path = replicate CONN_SH_MAX_PATH_LEN 0, sh_relpath = replicate CONN_SH_MAX_PATH_LEN 0,
     sh_dh = 0, sh_scan_right = 0\<rparr>"

text \<open>A connection after \<^verbatim>\<open>bzero\<close>: the file descriptors are all 0.\<close>

definition zero_conn :: connection where
  "zero_conn = \<lparr>status = Unused, addr = zero_addr, seq_no = 0, task_no = 0, login_time = 0,
     last_time = 0, wdog_time = 0, c_object_id = 0, c_object_type = 0, object_supervisor = 0,
     login_key = replicate 8 0, message = replicate CONN_MAX_MSG_LEN 0, message_ok = 0,
     dh = replicate CONN_DH_PER_CONN zero_dh, sh = replicate CONN_SH_PER_CONN zero_sh,
     fh = replicate CONN_FH_PER_CONN 0\<rparr>"

definition sys_stat :: "bytes \<Rightarrow> srv \<Rightarrow> stat_rec option \<times> srv" where
  "sys_stat p s = (os_stat s (tk s) p, s\<lparr>tk := Suc (tk s)\<rparr>)"

definition sys_open :: "bytes \<Rightarrow> nat \<Rightarrow> srv \<Rightarrow> int \<times> srv" where
  "sys_open p mode s = (os_open s (tk s) p mode, s\<lparr>tk := Suc (tk s)\<rparr>)"

definition sys_close :: "int \<Rightarrow> srv \<Rightarrow> srv" where
  "sys_close fd s = s\<lparr>closed := fd # closed s\<rparr>"

definition sys_ok :: "srv \<Rightarrow> bool \<times> srv" where
  "sys_ok s = (os_ok s (tk s), s\<lparr>tk := Suc (tk s)\<rparr>)"

definition sys_fstat :: "int \<Rightarrow> srv \<Rightarrow> stat_rec option \<times> srv" where
  "sys_fstat fd s = (os_fstat s (tk s) fd, s\<lparr>tk := Suc (tk s)\<rparr>)"

definition sys_statfs :: "bytes \<Rightarrow> srv \<Rightarrow> statfs_rec option \<times> srv" where
  "sys_statfs p s = (os_statfs s (tk s) p, s\<lparr>tk := Suc (tk s)\<rparr>)"

text \<open>\<^verbatim>\<open>opendir\<close> and the entries that \<^verbatim>\<open>readdir\<close> will give.\<close>

definition sys_dir :: "bytes \<Rightarrow> srv \<Rightarrow> dirent list option \<times> srv" where
  "sys_dir p s = (os_dir s (tk s) p, s\<lparr>tk := Suc (tk s)\<rparr>)"

text \<open>\<^verbatim>\<open>read\<close> at an offset: at most the number of bytes asked for.\<close>

definition sys_read :: "int \<Rightarrow> u32 \<Rightarrow> nat \<Rightarrow> srv \<Rightarrow> bytes option \<times> srv" where
  "sys_read fd off n s = (map_option (take n) (os_read s (tk s) fd off n), s\<lparr>tk := Suc (tk s)\<rparr>)"

text \<open>A change of the file system, which the operating system grants or not.\<close>

definition sys_do :: "file_op \<Rightarrow> srv \<Rightarrow> bool \<times> srv" where
  "sys_do x s = (os_ok s (tk s), s\<lparr>tk := Suc (tk s), os_log := x # os_log s\<rparr>)"

text \<open>\<^verbatim>\<open>conn[c]\<close> and an assignment to fields of \<^verbatim>\<open>conn[c]\<close>; numbers above the table are outside it.\<close>

definition get_conn :: "nat \<Rightarrow> srv \<Rightarrow> connection option" where
  "get_conn c s = load (conns s) c"

definition upd_conn :: "nat \<Rightarrow> (connection \<Rightarrow> connection) \<Rightarrow> srv \<Rightarrow> srv" where
  "upd_conn c f s = s\<lparr>conns := (conns s)[c := f (conns s ! c)]\<rparr>"

text \<open>Running a bindery function on the server's bindery.\<close>

definition on_db :: "(bindery \<Rightarrow> ('a \<times> bindery) option) \<Rightarrow> srv \<Rightarrow> ('a \<times> srv) option" where
  "on_db f s = do { (r, b) \<leftarrow> f (db s); Some (r, s\<lparr>db := b\<rparr>) }"

lemma upd_conn_simps [simp]:
  "length (conns (upd_conn c f s)) = length (conns s)" "volumes (upd_conn c f s) = volumes s"
  "db (upd_conn c f s) = db s" "tfiles (upd_conn c f s) = tfiles s" "sent (upd_conn c f s) = sent s"
  "closed (upd_conn c f s) = closed s" "now (upd_conn c f s) = now s" "tk (upd_conn c f s) = tk s"
  "os_stat (upd_conn c f s) = os_stat s" "nofconns (upd_conn c f s) = nofconns s"
  "down_flag (upd_conn c f s) = down_flag s" "loginenabled (upd_conn c f s) = loginenabled s"
  "d \<noteq> c \<Longrightarrow> conns (upd_conn c f s) ! d = conns s ! d"
  "c < length (conns s) \<Longrightarrow> conns (upd_conn c f s) ! c = f (conns s ! c)"
  by (simp_all add: upd_conn_def nofconns_def)

lemma get_conn_Some [simp]: "get_conn c s = Some k \<longleftrightarrow> c < length (conns s) \<and> k = conns s ! c"
  by (simp add: get_conn_def)

lemma get_conn_eq [simp]: "c < length (conns s) \<Longrightarrow> get_conn c s = Some (conns s ! c)"
  by simp

end
