(* ===== verification/Fr_Fs.thy ===== *)
theory Fr_Fs
  imports Fr_State
begin

text \<open>
  \<^verbatim>\<open>src/server/fs.c\<close>, first part: directory handles and the construction of host paths from
  NetWare paths. Functions return the C result as an \<open>int\<close>; a path argument is \<open>None\<close> for the null
  pointer; the outer \<open>None\<close> is an access outside an array.
\<close>

abbreviation (input) FS_DH_UNUSED :: int where "FS_DH_UNUSED \<equiv> 0"
abbreviation (input) FS_DH_PERM :: int where "FS_DH_PERM \<equiv> 1"
abbreviation (input) FS_DH_TEMP :: int where "FS_DH_TEMP \<equiv> 2"
abbreviation (input) FS_IGNORE_DH_PATH :: int where "FS_IGNORE_DH_PATH \<equiv> 1"
abbreviation (input) FS_IGNORE_CONN :: int where "FS_IGNORE_CONN \<equiv> 2"
abbreviation (input) FS_ERROR_OK :: int where "FS_ERROR_OK \<equiv> 0"
abbreviation (input) FS_ERROR_OUTOFHANDLES :: int where "FS_ERROR_OUTOFHANDLES \<equiv> 0x81"
abbreviation (input) FS_ERROR_IOERROR :: int where "FS_ERROR_IOERROR \<equiv> 0x83"
abbreviation (input) FS_ERROR_BADHANDLE :: int where "FS_ERROR_BADHANDLE \<equiv> 0x88"
abbreviation (input) FS_ERROR_NODELETEPRIV :: int where "FS_ERROR_NODELETEPRIV \<equiv> 0x8a"
abbreviation (input) FS_ERROR_NORENAMEPRIV :: int where "FS_ERROR_NORENAMEPRIV \<equiv> 0x8b"
abbreviation (input) FS_ERROR_CANTWRITE :: int where "FS_ERROR_CANTWRITE \<equiv> 0x94"
abbreviation (input) FS_ERROR_NOSUCHVOLUME :: int where "FS_ERROR_NOSUCHVOLUME \<equiv> 0x98"
abbreviation (input) FS_ERROR_BAD_DH :: int where "FS_ERROR_BAD_DH \<equiv> 0x9b"
abbreviation (input) FS_ERROR_INVALIDPATH :: int where "FS_ERROR_INVALIDPATH \<equiv> 0x9c"
abbreviation (input) FS_ERROR_NOFILE :: int where "FS_ERROR_NOFILE \<equiv> 0xff"

abbreviation slash :: u8 where "slash \<equiv> 0x2F"
abbreviation backslash :: u8 where "backslash \<equiv> 0x5C"
abbreviation colon :: u8 where "colon \<equiv> 0x3A"

section \<open>Reading arrays\<close>

text \<open>What \<^verbatim>\<open>strncpy\<close> and \<^verbatim>\<open>strncat\<close> read of a source array: at most n characters.\<close>

definition cstr_n :: "bytes \<Rightarrow> nat \<Rightarrow> bytes option" where
  "cstr_n b n = (if 0 \<in> set (take n b) then Some (takeWhile (\<lambda>x. x \<noteq> 0) b)
                 else if n \<le> length b then Some (take n b) else None)"

lemma cstr_n_cstr: "cstr b = Some s \<Longrightarrow> length s < n \<Longrightarrow> cstr_n b n = Some s"
proof -
  assume a: "cstr b = Some s" "length s < n"
  then obtain r where b: "b = s @ 0 # r" "no_nul s" by (rule_tac cstr_SomeE) auto
  have "n - length s = Suc (n - Suc (length s))" using a(2) by simp
  then have "0 \<in> set (take n b)" using b a(2) by simp
  then show ?thesis using a(1) by (auto simp: cstr_n_def cstr_def split: if_splits)
qed

definition load_int :: "'a list \<Rightarrow> int \<Rightarrow> 'a option" where
  "load_int xs i = (if i < 0 then None else load xs (nat i))"

definition get_dh :: "nat \<Rightarrow> nat \<Rightarrow> srv \<Rightarrow> dirhandle option" where
  "get_dh c d s = do { k \<leftarrow> get_conn c s; load (dh k) d }"

definition upd_dh :: "nat \<Rightarrow> nat \<Rightarrow> dirhandle \<Rightarrow> srv \<Rightarrow> srv" where
  "upd_dh c d h s = upd_conn c (\<lambda>k. k\<lparr>dh := (dh k)[d := h]\<rparr>) s"

section \<open>Building a path\<close>

text \<open>
  The part that replaces \<^verbatim>\<open>.../VOL:rest\<close> by the path of the volume: \<open>dest\<close> is the buffer, \<open>p\<close> the index
  of the colon. The backward search for a slash reads before the buffer when there is none.
\<close>

definition subst_volume :: "volume list \<Rightarrow> bytes \<Rightarrow> nat \<Rightarrow> nat \<Rightarrow> (int \<times> bytes) option" where
  "subst_volume vs dest p destlen = do {
     i \<leftarrow> strrchr (take (Suc p) dest) slash;
     tmp \<leftarrow> strncpy (replicate NCP_MAX_FIELD_LEN 0) (drop (Suc i) (take p dest)) (p - Suc i);
     tmp \<leftarrow> map_str toupper tmp;
     name \<leftarrow> cstr tmp;
     v \<leftarrow> vol_find_volume name vs;
     (case v of
        None \<Rightarrow> Some (FS_ERROR_INVALIDPATH, dest)
      | Some k \<Rightarrow> do {
          vol \<leftarrow> load vs k;
          vpath \<leftarrow> cstr_n (vol_path vol) NCP_MAX_FIELD_LEN;
          tmp \<leftarrow> strncpy (replicate NCP_MAX_FIELD_LEN 0) vpath NCP_MAX_FIELD_LEN;
          rest \<leftarrow> cstr (drop (Suc p) dest);
          tmp \<leftarrow> (if rest = [] then Some tmp
                 else do {
                   t \<leftarrow> cstr tmp;
                   last \<leftarrow> (if t = [] then None else Some (last t));
                   (if last \<noteq> slash then strncat tmp [slash] NCP_MAX_FIELD_LEN else Some tmp)
                 });
          tmp \<leftarrow> strncat tmp rest NCP_MAX_FIELD_LEN;
          t \<leftarrow> cstr tmp;
          dest \<leftarrow> strncpy dest t destlen;
          Some (FS_ERROR_OK, dest)
        })
   }"

text \<open>\<^verbatim>\<open>strcat (dest, "/"); strncat (dest, src, destlen - strlen (dest));\<close>\<close>

definition append_path :: "bytes \<Rightarrow> bytes \<Rightarrow> nat \<Rightarrow> bytes option" where
  "append_path dest src destlen = do {
     dest \<leftarrow> strcat dest [slash];
     d \<leftarrow> cstr dest;
     src \<leftarrow> cstr_n src (destlen - length d);
     strncat dest src (destlen - length d)
   }"

text \<open>The start from the volume of the handle; \<open>False\<close> is the early return for an unused handle.\<close>

definition path_root :: "nat \<Rightarrow> nat \<Rightarrow> bytes \<Rightarrow> nat \<Rightarrow> srv \<Rightarrow> (bool \<times> bytes) option" where
  "path_root c d dest destlen s = do {
     h \<leftarrow> get_dh c d s;
     (if dh_flags h = FS_DH_UNUSED then Some (False, dest)
      else do {
        vol \<leftarrow> load_int (volumes s) (dh_volno h);
        vp \<leftarrow> cstr_n (vol_path vol) destlen;
        b \<leftarrow> strncpy dest vp destlen;
        Some (True, b)
      })
   }"

text \<open>The rest: the path of the handle, the path given, the slashes, the volume name.\<close>

definition path_rest :: "nat \<Rightarrow> nat \<Rightarrow> bytes option \<Rightarrow> bytes \<Rightarrow> nat \<Rightarrow> int \<Rightarrow> srv \<Rightarrow> (int \<times> bytes) option" where
  "path_rest c d path dest1 destlen flags s = do {
     dest2 \<leftarrow>
       (if flags AND FS_IGNORE_DH_PATH = 0 then do {
          h \<leftarrow> get_dh c d s;
          (if dh_path h ! 0 \<noteq> 0 then append_path dest1 (dh_path h) destlen else Some dest1)
        } else Some dest1);
     dest3 \<leftarrow>
       (case path of
          None \<Rightarrow> Some dest2
        | Some p \<Rightarrow> if p = [] then Some dest2 else append_path dest2 (p @ [0]) destlen);
     dest4 \<leftarrow> map_str (\<lambda>x. if x = backslash then slash else x) dest3;
     t \<leftarrow> cstr dest4;
     (case strchr t colon of
        None \<Rightarrow> Some (FS_ERROR_OK, dest4)
      | Some p \<Rightarrow> subst_volume (volumes s) dest4 p destlen)
   }"

definition fs_build_path ::
  "nat \<Rightarrow> nat \<Rightarrow> bytes option \<Rightarrow> bytes \<Rightarrow> nat \<Rightarrow> int \<Rightarrow> srv \<Rightarrow> (int \<times> bytes) option" where
  "fs_build_path c d path dest destlen flags s =
     (if flags AND FS_IGNORE_CONN = 0 then do {
        (ok, dest1) \<leftarrow> path_root c d dest destlen s;
        (if \<not> ok then Some (FS_ERROR_BAD_DH, dest1)
         else path_rest c d path dest1 destlen flags s)
      } else path_rest c d path dest destlen (flags OR FS_IGNORE_DH_PATH) s)"

section \<open>Directory handles\<close>

definition free_dh :: "dirhandle list \<Rightarrow> nat option" where
  "free_dh hs = first_index (\<lambda>h. dh_flags h = 0) hs"

text \<open>The handle found, or -1.\<close>

definition fs_con_find_free_dh :: "nat \<Rightarrow> srv \<Rightarrow> int option" where
  "fs_con_find_free_dh c s = do {
     k \<leftarrow> get_conn c s;
     Some (case free_dh (dh k) of None \<Rightarrow> -1 | Some i \<Rightarrow> int i)
   }"

text \<open>The volume prefix of the path: the volume number and the rest of the path.\<close>

definition split_volume :: "int \<Rightarrow> bytes \<Rightarrow> srv \<Rightarrow> (int \<times> bytes) option" where
  "split_volume volno path s =
     (case strchr path colon of
        None \<Rightarrow> Some (volno, path)
      | Some p \<Rightarrow> do {
          tmp \<leftarrow> strncpy (replicate NCP_MAX_FIELD_LEN 0) (take p path) p;
          tmp \<leftarrow> map_str toupper tmp;
          name \<leftarrow> cstr tmp;
          j \<leftarrow> vol_find_volume name (volumes s);
          Some (case j of None \<Rightarrow> (volno, path) | Some k \<Rightarrow> (int k, drop (Suc p) path))
        })"

definition fs_con_alloc_dh :: "nat \<Rightarrow> int \<Rightarrow> int \<Rightarrow> bytes \<Rightarrow> srv \<Rightarrow> (int \<times> srv) option" where
  "fs_con_alloc_dh c flags volno path s = do {
     d \<leftarrow> fs_con_find_free_dh c s;
     (if d < 0 then Some (-1, s)
      else do {
        (volno, rest) \<leftarrow> split_volume volno path s;
        h \<leftarrow> get_dh c (nat d) s;
        buf \<leftarrow> strncpy (dh_path h) rest CONN_DH_MAX_PATH_LEN;
        let s1 = upd_dh c (nat d) \<lparr>dh_flags = flags, dh_volno = volno, dh_path = buf\<rparr> s;
        (e, tempath) \<leftarrow> fs_build_path c (nat d) None (replicate VOL_MAX_VOL_PATH_LEN 0) VOL_MAX_VOL_PATH_LEN 0 s1;
        (if e \<noteq> FS_ERROR_OK then Some (-1, upd_dh c (nat d) zero_dh s1)
         else do {
           p \<leftarrow> cstr tempath;
           let (st, s2) = sys_stat p s1;
           Some (if st = None then (-1, upd_dh c (nat d) zero_dh s2) else (d, s2))
         })
      })
   }"

text \<open>The range check lets the handle number 32 pass.\<close>

definition fs_con_dealloc_dh :: "nat \<Rightarrow> int \<Rightarrow> srv \<Rightarrow> (int \<times> srv) option" where
  "fs_con_dealloc_dh c d s =
     (if d < 0 \<or> d > int CONN_DH_PER_CONN then Some (-1, s)
      else do {
        k \<leftarrow> get_conn c s;
        hs \<leftarrow> store (dh k) (nat d) zero_dh;
        Some (0, upd_conn c (\<lambda>k. k\<lparr>dh := hs\<rparr>) s)
      })"

section \<open>File handles\<close>

definition free_fh :: "int list \<Rightarrow> nat option" where
  "free_fh fs = first_index (\<lambda>fd. fd = -1) fs"

definition fs_con_find_free_fh :: "nat \<Rightarrow> srv \<Rightarrow> int option" where
  "fs_con_find_free_fh c s = do {
     k \<leftarrow> get_conn c s;
     Some (case free_fh (fh k) of None \<Rightarrow> -1 | Some i \<Rightarrow> int i)
   }"

definition fs_close_file :: "nat \<Rightarrow> nat \<Rightarrow> srv \<Rightarrow> (int \<times> srv) option" where
  "fs_close_file c h s = do {
     k \<leftarrow> get_conn c s;
     fd \<leftarrow> load (fh k) h;
     (if fd < 0 then Some (FS_ERROR_BADHANDLE, s)
      else Some (FS_ERROR_OK, upd_conn c (\<lambda>k. k\<lparr>fh := (fh k)[h := -1]\<rparr>) (sys_close fd s)))
   }"

text \<open>0 when the volume is in use, else -1.\<close>

definition fs_volume_inuse :: "int \<Rightarrow> srv \<Rightarrow> int" where
  "fs_volume_inuse n s =
     (if \<exists>k\<in>set (tl (conns s)). status k \<noteq> Unused \<and> (\<exists>h\<in>set (dh k). dh_flags h \<noteq> 0 \<and> dh_volno h = n)
      then 0 else -1)"

section \<open>Search handles\<close>

definition free_sh :: "searchandle list \<Rightarrow> nat option" where
  "free_sh hs = first_index (\<lambda>h. sh_path h ! 0 = 0) hs"

definition fs_con_find_free_sh :: "nat \<Rightarrow> srv \<Rightarrow> int option" where
  "fs_con_find_free_sh c s = do {
     k \<leftarrow> get_conn c s;
     Some (case free_sh (sh k) of None \<Rightarrow> -1 | Some i \<Rightarrow> int i)
   }"

section \<open>The handle tables\<close>

interpretation dirhandles: slot_table "\<lambda>h. dh_flags h = 0" "\<lambda>hs. hs" free_dh
  by unfold_locales (simp add: free_dh_def)

interpretation filehandles: slot_table "\<lambda>fd. fd = (-1 :: int)" "\<lambda>fs. fs" free_fh
  by unfold_locales (simp add: free_fh_def)

interpretation searchhandles: slot_table "\<lambda>h. sh_path h ! 0 = 0" "\<lambda>hs. hs" free_sh
  by unfold_locales (simp add: free_sh_def)


section \<open>What a path becomes\<close>

lemma append_path_ok:
  assumes "cstr dest = Some d" "cstr src = Some p" "length d + length p + 1 < n" "length dest = n"
  shows "\<exists>e. append_path dest src n = Some e \<and> cstr e = Some (d @ slash # p) \<and> length e = n"
proof -
  have nd: "no_nul d" "no_nul p" using cstr_SomeD(1) assms by auto
  obtain b where b: "strcat dest [slash] = Some b"
    using strcat_defined [OF assms(1), of "[slash]"] assms(3,4) by simp
  have cb: "cstr b = Some (d @ [slash])" using cstr_strcat [OF b _ assms(1)] by simp
  have lb: "length b = n" using length_strcat [OF b] assms(4) by simp
  have cs: "cstr_n src (n - length (d @ [slash])) = Some p"
    using assms(3) by (intro cstr_n_cstr [OF assms(2)]) simp
  have tk: "take (n - length (d @ [slash])) p = p" using assms(3) by simp
  obtain e where e: "strcat b p = Some e"
    using strcat_defined [OF cb, of p] assms(3) lb by simp
  have "cstr e = Some ((d @ [slash]) @ p)" using cstr_strcat [OF e nd(2) cb] .
  moreover have "length e = n" using length_strcat [OF e] lb by simp
  ultimately show ?thesis
    using b cb cs e tk by (auto simp: append_path_def strncat_def)
qed

text \<open>One character too many writes the terminator behind the buffer.\<close>

lemma append_path_overflow:
  assumes "cstr dest = Some d" "cstr src = Some p" "n \<le> length d + length p + 1" "length dest = n"
  shows "append_path dest src n = None"
proof (cases "strcat dest [slash]")
  case None
  then show ?thesis by (simp add: append_path_def)
next
  case (Some b)
  have cb: "cstr b = Some (d @ [slash])" using cstr_strcat [OF Some _ assms(1)] by simp
  have lb: "length b = n" using length_strcat [OF Some] assms(4) by simp
  have "length (d @ [slash]) < n" using cstr_SomeD(2) [OF cb] lb by simp
  then have l: "length d + 1 < n" by simp
  show ?thesis
  proof (cases "cstr_n src (n - length (d @ [slash]))")
    case n: None
    then show ?thesis using Some cb by (simp add: append_path_def)
  next
    case q: (Some q)
    have "length (take (n - length (d @ [slash])) q) = n - length (d @ [slash])"
    proof -
      have "length q \<ge> n - length (d @ [slash])"
      proof (cases "0 \<in> set (take (n - length (d @ [slash])) src)")
        case True
        then have "q = p" using q assms(2) by (auto simp: cstr_n_def cstr_def split: if_splits)
        then show ?thesis using assms(3) by simp
      next
        case False
        then show ?thesis using q by (auto simp: cstr_n_def split: if_splits)
      qed
      then show ?thesis by simp
    qed
    then have "strcat b (take (n - length (d @ [slash])) q) = None"
      using strcat_overflow [OF cb] lb l by simp
    then show ?thesis using Some cb q by (simp add: append_path_def strncat_def)
  qed
qed

text \<open>The path of a directory handle and a relative path, joined as the code joins them.\<close>

definition join_path :: "bytes \<Rightarrow> bytes \<Rightarrow> bytes" where
  "join_path d p = (if p = [] then d else d @ slash # p)"

abbreviation unslash :: "bytes \<Rightarrow> bytes" where
  "unslash \<equiv> map (\<lambda>x. if x = backslash then slash else x)"

definition opt_path :: "bytes option \<Rightarrow> bytes" where
  "opt_path p = (case p of None \<Rightarrow> [] | Some q \<Rightarrow> q)"

lemma no_nul_unslash [simp]: "no_nul (unslash p) = no_nul p"
  by (auto simp: no_nul_def)

lemma join_append:
  assumes "cstr dest = Some d" "cstr src = Some p" "length dest = n"
  shows "(if p \<noteq> [] then append_path dest src n else Some dest) = None \<longleftrightarrow> n \<le> length (join_path d p)"
    "length (join_path d p) < n \<Longrightarrow> \<exists>e. (if p \<noteq> [] then append_path dest src n else Some dest) = Some e \<and>
       cstr e = Some (join_path d p) \<and> length e = n"
proof -
  have "length d < n" using cstr_SomeD(2) [OF assms(1)] assms(3) by simp
  then show "(if p \<noteq> [] then append_path dest src n else Some dest) = None \<longleftrightarrow> n \<le> length (join_path d p)"
    using append_path_ok [OF assms(1,2), of n] append_path_overflow [OF assms(1,2), of n] assms(3)
    by (cases "n \<le> length d + length p + 1") (auto simp: join_path_def)
  show "length (join_path d p) < n \<Longrightarrow> \<exists>e. (if p \<noteq> [] then append_path dest src n else Some dest) = Some e \<and>
       cstr e = Some (join_path d p) \<and> length e = n"
    using append_path_ok [OF assms(1,2), of n] assms by (auto simp: join_path_def)
qed

text \<open>The handle \<open>d\<close> of connection \<open>c\<close> is in use, on a volume with path \<open>vp\<close>, at \<open>dp\<close> inside it.\<close>

definition dh_at :: "srv \<Rightarrow> nat \<Rightarrow> nat \<Rightarrow> bytes \<Rightarrow> bytes \<Rightarrow> bool" where
  "dh_at s c d vp dp \<longleftrightarrow> c < length (conns s) \<and> d < length (dh (conns s ! c)) \<and>
     (let h = dh (conns s ! c) ! d in
       dh_flags h \<noteq> 0 \<and> 0 \<le> dh_volno h \<and> nat (dh_volno h) < length (volumes s) \<and>
       cstr (vol_path (volumes s ! nat (dh_volno h))) = Some vp \<and> cstr (dh_path h) = Some dp)"

lemma fs_build_path_steps:
  assumes h: "dh_at s c d vp dp" and p: "\<forall>q. path = Some q \<longrightarrow> no_nul q"
    and n: "length dest = n" "length vp < n"
  defines "full \<equiv> join_path (join_path vp dp) (opt_path path)"
  shows "n \<le> length full \<Longrightarrow> fs_build_path c d path dest n 0 s = None"
    "length full < n \<Longrightarrow> \<exists>b. cstr b = Some (unslash full) \<and> length b = n \<and>
       fs_build_path c d path dest n 0 s =
         (case strchr (unslash full) colon of
            None \<Rightarrow> Some (FS_ERROR_OK, b)
          | Some k \<Rightarrow> subst_volume (volumes s) b k n)"
proof -
  let ?h = "dh (conns s ! c) ! d"
  have g: "get_dh c d s = Some ?h" "dh_flags ?h \<noteq> 0" "cstr (dh_path ?h) = Some dp"
    "load_int (volumes s) (dh_volno ?h) = Some (volumes s ! nat (dh_volno ?h))"
    and vc: "cstr (vol_path (volumes s ! nat (dh_volno ?h))) = Some vp"
    using h by (auto simp: dh_at_def get_dh_def Let_def load_int_def load_def)
  have vp: "cstr_n (vol_path (volumes s ! nat (dh_volno ?h))) n = Some vp"
    using cstr_n_cstr [OF vc n(2)] .
  obtain b1 where b1: "strncpy dest vp n = Some b1" using n by (simp add: strncpy_def)
  have c1: "cstr b1 = Some vp" "length b1 = n"
    using cstr_strncpy [OF b1 _ n(2)] length_strncpy [OF b1] cstr_SomeD(1) [OF vc] n by auto
  have d0: "dh_path ?h ! 0 \<noteq> 0 \<longleftrightarrow> dp \<noteq> []"
  proof -
    obtain r where "dh_path ?h = dp @ 0 # r" "no_nul dp" using g(3) by (rule cstr_SomeE)
    then show ?thesis by (cases dp) auto
  qed
  define x2 where "x2 = (if dp \<noteq> [] then append_path b1 (dh_path ?h) n else Some b1)"
  define f3 where "f3 = (\<lambda>b2. if opt_path path \<noteq> [] then append_path b2 (opt_path path @ [0]) n else Some b2)"
  have f3: "(case path of None \<Rightarrow> Some b2 | Some p \<Rightarrow> if p = [] then Some b2 else append_path b2 (p @ [0]) n) = f3 b2" for b2
    by (cases path) (simp_all add: f3_def opt_path_def)
  have run: "fs_build_path c d path dest n 0 s = do {
      b2 \<leftarrow> x2; b3 \<leftarrow> f3 b2;
      b4 \<leftarrow> map_str (\<lambda>x. if x = backslash then slash else x) b3;
      t \<leftarrow> cstr b4;
      (case strchr t colon of None \<Rightarrow> Some (FS_ERROR_OK, b4) | Some p \<Rightarrow> subst_volume (volumes s) b4 p n) }"
    using g vp b1 d0 by (simp add: fs_build_path_def path_root_def path_rest_def x2_def f3)
  note j2 = join_append [OF c1(1) g(3) c1(2)]
  have cq: "cstr (opt_path path @ [0]) = Some (opt_path path)"
    using p by (cases path) (simp_all add: opt_path_def)
  show "fs_build_path c d path dest n 0 s = None" if "n \<le> length full"
  proof (cases "n \<le> length (join_path vp dp)")
    case True
    then have "x2 = None" using j2(1) by (simp add: x2_def)
    then show ?thesis by (simp add: run)
  next
    case False
    then obtain b2 where b2: "x2 = Some b2" "cstr b2 = Some (join_path vp dp)" "length b2 = n"
      using j2(2) by (auto simp: x2_def)
    have "f3 b2 = None" using join_append(1) [OF b2(2) cq b2(3)] that by (simp add: f3_def full_def)
    then show ?thesis using b2(1) by (simp add: run)
  qed
  show "\<exists>b. cstr b = Some (unslash full) \<and> length b = n \<and> fs_build_path c d path dest n 0 s =
         (case strchr (unslash full) colon of None \<Rightarrow> Some (FS_ERROR_OK, b)
          | Some k \<Rightarrow> subst_volume (volumes s) b k n)" if lt: "length full < n"
  proof -
    have "length (join_path vp dp) < n" using lt by (simp add: full_def join_path_def split: if_splits)
    then obtain b2 where b2: "x2 = Some b2" "cstr b2 = Some (join_path vp dp)" "length b2 = n"
      using j2(2) by (auto simp: x2_def)
    obtain b3 where b3: "f3 b2 = Some b3" "cstr b3 = Some full" "length b3 = n"
      using join_append(2) [OF b2(2) cq b2(3)] lt by (auto simp: f3_def full_def)
    obtain b4 where b4: "map_str (\<lambda>x. if x = backslash then slash else x) b3 = Some b4"
      using b3(2) by (auto simp: map_str_def)
    have "no_nul (unslash full)" using cstr_SomeD(1) [OF b3(2)] by simp
    then have "cstr b4 = Some (unslash full)" by (rule cstr_map_str [OF b4 b3(2)])
    moreover have "length b4 = n" using length_map_str [OF b4] b3(3) by simp
    ultimately show ?thesis using b2(1) b3(1) b4 by (auto simp: run)
  qed
qed


section \<open>Paths with a volume name\<close>

definition volume_path :: "bytes \<Rightarrow> bytes \<Rightarrow> bytes" where
  "volume_path vp rest = (if rest = [] then vp else if last vp = slash then vp @ rest else vp @ slash # rest)"

lemma strchr_split: "c \<notin> set t \<Longrightarrow> strchr (t @ c # r) c = Some (length t)"
proof -
  assume "c \<notin> set t"
  then have "first_index (\<lambda>x. x = c) t = None" by (auto simp: first_index_None)
  then show ?thesis by (simp add: strchr_def first_index_append)
qed

lemma name_buffer:
  assumes "no_nul name" "length name < NCP_MAX_FIELD_LEN"
  shows "\<exists>b b'. strncpy (replicate NCP_MAX_FIELD_LEN 0) name (length name) = Some b \<and>
    map_str toupper b = Some b' \<and> cstr b' = Some (map toupper name)"
proof -
  let ?b = "mkbuf (length name) name @ drop (length name) (replicate NCP_MAX_FIELD_LEN 0)"
  have b: "strncpy (replicate NCP_MAX_FIELD_LEN 0) name (length name) = Some ?b"
    using assms(2) by (simp add: strncpy_def)
  have "replicate (NCP_MAX_FIELD_LEN - length name) 0 = (0 :: u8) # replicate (NCP_MAX_FIELD_LEN - Suc (length name)) 0"
    using assms(2) by (metis Suc_diff_Suc replicate_Suc)
  then have c: "cstr ?b = Some name" using assms(1) by (simp add: mkbuf_def)
  obtain b' where b': "map_str toupper ?b = Some b'" using c by (auto simp: map_str_def)
  have "cstr b' = Some (map toupper name)" using cstr_map_str [OF b' c] assms(1) by simp
  then show ?thesis using b b' by blast
qed

lemma subst_volume_ok:
  assumes t: "cstr dest = Some (pre @ slash # name @ colon # rest)" and n: "length dest = n" "n \<le> NCP_MAX_FIELD_LEN"
    and nm: "slash \<notin> set name" and v: "vols_ok vs"
  defines "p \<equiv> length pre + Suc (length name)"
  shows "first_index (vol_named (map toupper name)) vs = None \<Longrightarrow> subst_volume vs dest p n = Some (FS_ERROR_INVALIDPATH, dest)"
    "first_index (vol_named (map toupper name)) vs = Some k \<Longrightarrow> cstr (vol_path (vs ! k)) = Some vp \<Longrightarrow> vp \<noteq> [] \<Longrightarrow>
       length (volume_path vp rest) < n \<Longrightarrow>
       \<exists>b. subst_volume vs dest p n = Some (FS_ERROR_OK, b) \<and> cstr b = Some (volume_path vp rest) \<and> length b = n"
proof -
  obtain r where d: "dest = (pre @ slash # name @ colon # rest) @ 0 # r" and
    nn: "no_nul (pre @ slash # name @ colon # rest)"
    using t by (rule cstr_SomeE)
  have nn': "no_nul name" "no_nul rest" using nn by simp_all
  have sl: "strrchr (take (Suc p) dest) slash = Some (length pre)"
    using strrchr_split [of slash "name @ [colon]" pre] nm by (simp add: d p_def)
  have nd: "drop (Suc (length pre)) (take p dest) = name" "p - Suc (length pre) = length name"
    by (simp_all add: d p_def)
  have ln: "length name < NCP_MAX_FIELD_LEN" using n d by simp
  have rs: "cstr (drop (Suc p) dest) = Some rest" using nn' by (simp add: d p_def)
  obtain b b' where b: "strncpy (replicate NCP_MAX_FIELD_LEN 0) name (length name) = Some b"
    "map_str toupper b = Some b'" "cstr b' = Some (map toupper name)"
    using name_buffer [OF nn'(1) ln] by blast
  have fv: "vol_find_volume (map toupper name) vs = Some (first_index (vol_named (map toupper name)) vs)"
    using vol_find_volume_eq [OF v] nn' by simp
  show "subst_volume vs dest p n = Some (FS_ERROR_INVALIDPATH, dest)"
    if "first_index (vol_named (map toupper name)) vs = None"
    using that by (simp add: subst_volume_def sl nd b fv)
  assume k: "first_index (vol_named (map toupper name)) vs = Some k" and vp: "cstr (vol_path (vs ! k)) = Some vp" "vp \<noteq> []"
    and lt: "length (volume_path vp rest) < n"
  have kl: "load vs k = Some (vs ! k)" using k by (auto dest: first_index_lessD)
  have lv: "length vp < NCP_MAX_FIELD_LEN" using lt n by (auto simp: volume_path_def split: if_splits)
  have cv: "cstr_n (vol_path (vs ! k)) NCP_MAX_FIELD_LEN = Some vp" by (rule cstr_n_cstr [OF vp(1) lv])
  obtain t1 where t1: "strncpy (replicate NCP_MAX_FIELD_LEN 0) vp NCP_MAX_FIELD_LEN = Some t1"
    by (simp add: strncpy_def)
  have c1: "cstr t1 = Some vp" "length t1 = NCP_MAX_FIELD_LEN"
    using cstr_strncpy [OF t1 cstr_SomeD(1) [OF vp(1)] lv] length_strncpy [OF t1] by auto
  define sep where "sep = (if rest = [] \<or> last vp = slash then vp else vp @ [slash])"
  have vpe: "volume_path vp rest = sep @ rest" by (simp add: volume_path_def sep_def)
  obtain t2 where t2: "(if rest = [] then Some t1 else do { t \<leftarrow> cstr t1; last \<leftarrow> (if t = [] then None else Some (last t));
        (if last \<noteq> slash then strncat t1 [slash] NCP_MAX_FIELD_LEN else Some t1) }) = Some t2"
    "cstr t2 = Some sep" "length t2 = NCP_MAX_FIELD_LEN"
  proof (cases "rest = [] \<or> last vp = slash")
    case True
    then show ?thesis using that [of t1] c1 vp(2) by (auto simp: sep_def)
  next
    case False
    then have l: "length vp + length [slash] < length t1" using lt n c1 by (simp add: volume_path_def)
    obtain t2 where t2: "strncat t1 [slash] NCP_MAX_FIELD_LEN = Some t2"
      using strcat_defined [OF c1(1) l] by (simp add: strncat_def)
    then have "cstr t2 = Some (vp @ [slash])" "length t2 = NCP_MAX_FIELD_LEN"
      using cstr_strcat [OF _ _ c1(1), of "[slash]" t2] length_strncat [OF t2] c1(2) by (simp_all add: strncat_def)
    then show ?thesis using that [of t2] False c1 t2 vp(2) by (auto simp: sep_def)
  qed
  have l3: "length sep + length rest < length t2" using lt n t2(3) by (simp add: vpe)
  have tr: "take NCP_MAX_FIELD_LEN rest = rest" using lt n by (simp add: vpe)
  obtain t3 where t3: "strcat t2 rest = Some t3" using strcat_defined [OF t2(2) l3] by simp
  have c3: "cstr t3 = Some (sep @ rest)" by (rule cstr_strcat [OF t3 nn'(2) t2(2)])
  obtain e where e: "strncpy dest (sep @ rest) n = Some e" using n by (simp add: strncpy_def)
  have "cstr e = Some (sep @ rest)" "length e = n"
    using cstr_strncpy [OF e cstr_SomeD(1) [OF c3]] lt length_strncpy [OF e] n by (simp_all add: vpe)
  moreover have "subst_volume vs dest p n = Some (FS_ERROR_OK, e)"
    using t2(1) t3 c3 e by (simp add: subst_volume_def sl nd b fv k kl cv t1 rs strncat_def tr del: take_all_iff)
  ultimately show "\<exists>b. subst_volume vs dest p n = Some (FS_ERROR_OK, b) \<and> cstr b = Some (volume_path vp rest) \<and> length b = n"
    by (auto simp: vpe)
qed


section \<open>The buffer keeps its size\<close>

lemma length_append_path: "append_path y z n = Some x \<Longrightarrow> length x = length y"
  by (auto simp: append_path_def bind_eq_Some_conv dest!: buffer_lengths)

lemma length_subst_volume: "subst_volume vs y p n = Some (e, b) \<Longrightarrow> length b = length y"
  unfolding subst_volume_def bind_eq_Some_conv
  by (elim exE conjE) (auto simp: bind_eq_Some_conv dest!: length_strncpy [of y] split: option.splits)

lemma length_path_rest:
  assumes "path_rest c d path dest n fl s = Some (e, b)"
  shows "length b = length dest"
proof -
  obtain d2 where 2: "(if fl AND FS_IGNORE_DH_PATH = 0 then do { h \<leftarrow> get_dh c d s;
      (if dh_path h ! 0 \<noteq> 0 then append_path dest (dh_path h) n else Some dest) } else Some dest) = Some d2"
    and r2: "do { dest3 \<leftarrow> (case path of None \<Rightarrow> Some d2 | Some p \<Rightarrow> if p = [] then Some d2 else append_path d2 (p @ [0]) n);
      dest4 \<leftarrow> map_str (\<lambda>x. if x = backslash then slash else x) dest3; t \<leftarrow> cstr dest4;
      (case strchr t colon of None \<Rightarrow> Some (FS_ERROR_OK, dest4) | Some p \<Rightarrow> subst_volume (volumes s) dest4 p n) } = Some (e, b)"
    using assms unfolding path_rest_def by (auto simp: bind_eq_Some_conv [of "if _ then _ else _"])
  have l2: "length d2 = length dest"
    using 2 by (auto simp: bind_eq_Some_conv split: if_splits dest!: length_append_path)
  from r2 obtain d3 d4 t where 3: "(case path of None \<Rightarrow> Some d2 | Some p \<Rightarrow> if p = [] then Some d2 else append_path d2 (p @ [0]) n) = Some d3"
    "map_str (\<lambda>x. if x = backslash then slash else x) d3 = Some d4"
    "(case strchr t colon of None \<Rightarrow> Some (FS_ERROR_OK, d4) | Some p \<Rightarrow> subst_volume (volumes s) d4 p n) = Some (e, b)"
    by (auto simp: bind_eq_Some_conv)
  have "length d3 = length d2" using 3(1) by (auto split: option.splits if_splits dest!: length_append_path)
  moreover have "length d4 = length d3" using 3(2) by (rule length_map_str)
  moreover have "length b = length d4" using 3(3) by (auto split: option.splits dest: length_subst_volume)
  ultimately show ?thesis using l2 by simp
qed

lemma length_fs_build_path:
  assumes "fs_build_path c d path dest n fl s = Some (e, b)"
  shows "length b = length dest"
proof (cases "fl AND FS_IGNORE_CONN = 0")
  case True
  then obtain ok d1 where r: "path_root c d dest n s = Some (ok, d1)"
    and q: "(if \<not> ok then Some (FS_ERROR_BAD_DH, d1) else path_rest c d path d1 n fl s) = Some (e, b)"
    using assms by (auto simp: fs_build_path_def bind_eq_Some_conv)
  have "length d1 = length dest"
    using r by (auto simp: path_root_def bind_eq_Some_conv split: if_splits dest!: length_strncpy)
  then show ?thesis using q length_path_rest by (auto split: if_splits)
next
  case False
  then show ?thesis using assms length_path_rest by (auto simp: fs_build_path_def)
qed

text \<open>What the destination held before does not matter.\<close>

lemma fs_build_path_dest:
  assumes "fs_build_path c d path dest n 0 s = Some (FS_ERROR_OK, b)" "length dest = n" "length dest' = n"
  shows "fs_build_path c d path dest' n 0 s = Some (FS_ERROR_OK, b)"
proof -
  have e: "strncpy dest' vp n = strncpy dest vp n" for vp
    using assms(2,3) by (simp add: strncpy_def)
  obtain d1 where r: "path_root c d dest n s = Some (True, d1)" and q: "path_rest c d path d1 n 0 s = Some (FS_ERROR_OK, b)"
    using assms(1) by (auto simp: fs_build_path_def bind_eq_Some_conv split: if_splits)
  have "path_root c d dest' n s = Some (True, d1)"
    using r unfolding path_root_def e by (auto simp: bind_eq_Some_conv split: if_splits)
  then show ?thesis using q by (simp add: fs_build_path_def)
qed

end
