(* ===== verification/Fr_PropStore.thy ===== *)
theory Fr_PropStore
  imports Fr_Prelude
begin

text \<open>
  What the code above the bindery files (\<^verbatim>\<open>bindery.c\<close>, the login and bindery requests) relies on: a
  store of 128-byte property values, addressed by object and property name. Names are compared
  in their first 15 characters. \<open>get\<close> and \<open>put\<close> are the operations with their C results
  (\<open>None\<close>: undefined behaviour), \<open>data\<close> is the abstract content, \<open>inv\<close> the invariant.
\<close>

locale prop_store =
  fixes inv :: "'d \<Rightarrow> bool"
    and data :: "'d \<Rightarrow> u32 \<Rightarrow> bytes \<Rightarrow> bytes option"
    and get :: "u32 \<Rightarrow> bytes \<Rightarrow> 'd \<Rightarrow> (bytes option \<times> 'd) option"
    and put :: "u32 \<Rightarrow> bytes \<Rightarrow> bytes \<Rightarrow> 'd \<Rightarrow> (u8 \<times> 'd) option"
  assumes read_data: "inv d \<Longrightarrow> \<exists>d'. get i n d = Some (data d i n, d') \<and> inv d' \<and> data d' = data d"
    and write_total: "inv d \<Longrightarrow> length x = 128 \<Longrightarrow> \<exists>e d'. put i n x d = Some (e, d') \<and> inv d'"
    and write_ok: "inv d \<Longrightarrow> length x = 128 \<Longrightarrow> put i n x d = Some (0, d') \<Longrightarrow>
        data d' j m = (if j = i \<and> take 15 m = take 15 n then Some x else data d j m)"
    and write_fail: "inv d \<Longrightarrow> length x = 128 \<Longrightarrow> put i n x d = Some (e, d') \<Longrightarrow> e \<noteq> 0 \<Longrightarrow>
        data d' = data d"
begin

text \<open>What was written is read back, whatever reads come in between.\<close>

lemma read_after_write:
  assumes "inv d" "length x = 128" "put i n x d = Some (0, d')"
  shows "\<exists>d''. get i n d' = Some (Some x, d'') \<and> inv d''"
proof -
  have "inv d'" using write_total [OF assms(1,2), of i n] assms(3) by auto
  moreover have "data d' i n = Some x" using write_ok [OF assms] by simp
  ultimately show ?thesis using read_data [of d' i n] by auto
qed

lemma read_read:
  assumes "inv d" "get i n d = Some (r, d')"
  shows "data d' = data d" "inv d'" "r = data d i n"
  using read_data [OF assms(1), of i n] assms(2) by auto

lemma write_frame:
  assumes "inv d" "length x = 128" "put i n x d = Some (e, d')" "j \<noteq> i \<or> take 15 m \<noteq> take 15 n"
  shows "data d' j m = data d j m"
  using write_ok [OF assms(1,2), of i n d' j m] write_fail [OF assms(1,2,3)] assms(3,4)
  by (cases "e = 0") auto

end

end
