(* ===== verification/Fr_BinderyLaws.thy ===== *)
theory Fr_BinderyLaws
  imports Fr_BinderyIO Fr_PropStore
begin

text \<open>
  The invariant of the bindery files, what each search finds, what reading, writing and adding do
  to the contents, and the bindery files as an instance of the property store.
\<close>

section \<open>Well-formed files\<close>

text \<open>
  Each length byte fits the array it belongs to, and the arrays have the sizes of \<^verbatim>\<open>bindery.h\<close>.
\<close>

definition obj_rec_ok :: "netobj_rec \<Rightarrow> bool" where
  "obj_rec_ok r \<longleftrightarrow> object_namelen r < 48 \<and> length (object_name r) = 47"

definition prop_rec_ok :: "netprop_rec \<Rightarrow> bool" where
  "prop_rec_ok r \<longleftrightarrow> prop_namelen r < 16 \<and> length (prop_name r) = 15"

definition val_rec_ok :: "netval_rec \<Rightarrow> bool" where
  "val_rec_ok r \<longleftrightarrow> length (val_data r) = 128"

definition db_ok :: "bindery \<Rightarrow> bool" where
  "db_ok b \<longleftrightarrow> (\<forall>r\<in>set (recs (net_obj b)). obj_rec_ok r) \<and>
     (\<forall>r\<in>set (recs (net_prop b)). prop_rec_ok r) \<and> (\<forall>r\<in>set (recs (net_val b)). val_rec_ok r)"

text \<open>The same records and environment; the positions of the streams may differ.\<close>

definition same_recs :: "bindery \<Rightarrow> bindery \<Rightarrow> bool" where
  "same_recs b b' \<longleftrightarrow> recs (net_obj b') = recs (net_obj b) \<and> recs (net_prop b') = recs (net_prop b) \<and>
     recs (net_val b') = recs (net_val b)"

lemma same_recs_refl [simp]: "same_recs b b"
  by (simp add: same_recs_def)

lemma same_recs_trans: "same_recs a b \<Longrightarrow> same_recs b c \<Longrightarrow> same_recs a c"
  by (simp add: same_recs_def)

lemma same_recs_db_ok: "same_recs b b' \<Longrightarrow> db_ok b' = db_ok b"
  by (simp add: same_recs_def db_ok_def)

lemma db_okD:
  assumes "db_ok b"
  shows "\<forall>r\<in>set (recs (net_obj b)). bindio_conv_object r = Some (obj_of r)"
    "\<forall>r\<in>set (recs (net_prop b)). bindio_conv_prop r = Some (prop_of r)"
  using assms
  by (auto simp: db_ok_def obj_rec_ok_def prop_rec_ok_def bindio_conv_object_def bindio_conv_prop_def)

lemma db_ok_update [simp]:
  "db_ok (b\<lparr>net_obj := f\<rparr>) \<longleftrightarrow> (\<forall>r\<in>set (recs f). obj_rec_ok r) \<and>
     (\<forall>r\<in>set (recs (net_prop b)). prop_rec_ok r) \<and> (\<forall>r\<in>set (recs (net_val b)). val_rec_ok r)"
  "db_ok (b\<lparr>net_prop := g\<rparr>) \<longleftrightarrow> (\<forall>r\<in>set (recs (net_obj b)). obj_rec_ok r) \<and>
     (\<forall>r\<in>set (recs g). prop_rec_ok r) \<and> (\<forall>r\<in>set (recs (net_val b)). val_rec_ok r)"
  "db_ok (b\<lparr>net_val := h\<rparr>) \<longleftrightarrow> (\<forall>r\<in>set (recs (net_obj b)). obj_rec_ok r) \<and>
     (\<forall>r\<in>set (recs (net_prop b)). prop_rec_ok r) \<and> (\<forall>r\<in>set (recs h). val_rec_ok r)"
  by (simp_all add: db_ok_def)

section \<open>Searching\<close>

definition at_obj :: "bindery \<Rightarrow> nat \<Rightarrow> bindery" where
  "at_obj b n = b\<lparr>net_obj := (net_obj b)\<lparr>fpos := n\<rparr>\<rparr>"

definition at_prop :: "bindery \<Rightarrow> nat \<Rightarrow> bindery" where
  "at_prop b n = b\<lparr>net_prop := (net_prop b)\<lparr>fpos := n\<rparr>\<rparr>"

definition at_val :: "bindery \<Rightarrow> nat \<Rightarrow> bindery" where
  "at_val b n = b\<lparr>net_val := (net_val b)\<lparr>fpos := n\<rparr>\<rparr>"

lemma at_simps [simp]:
  "same_recs b (at_obj b n)" "same_recs b (at_prop b n)" "same_recs b (at_val b n)"
  "recs (net_obj (at_obj b n)) = recs (net_obj b)" "recs (net_prop (at_obj b n)) = recs (net_prop b)"
  "recs (net_val (at_obj b n)) = recs (net_val b)"
  "recs (net_obj (at_prop b n)) = recs (net_obj b)" "recs (net_prop (at_prop b n)) = recs (net_prop b)"
  "recs (net_val (at_prop b n)) = recs (net_val b)"
  "recs (net_obj (at_val b n)) = recs (net_obj b)" "recs (net_prop (at_val b n)) = recs (net_prop b)"
  "recs (net_val (at_val b n)) = recs (net_val b)"
  "fpos (net_obj (at_obj b n)) = n" "fpos (net_prop (at_prop b n)) = n" "fpos (net_val (at_val b n)) = n"
  "net_prop (at_obj b n) = net_prop b" "net_val (at_obj b n) = net_val b"
  "net_obj (at_prop b n) = net_obj b" "net_val (at_prop b n) = net_val b"
  "net_obj (at_val b n) = net_obj b" "net_prop (at_val b n) = net_prop b"
  "wok (at_obj b n) = wok b" "wn (at_obj b n) = wn b" "rnd (at_obj b n) = rnd b" "rn (at_obj b n) = rn b"
  "wok (at_prop b n) = wok b" "wn (at_prop b n) = wn b" "rnd (at_prop b n) = rnd b" "rn (at_prop b n) = rn b"
  "wok (at_val b n) = wok b" "wn (at_val b n) = wn b" "rnd (at_val b n) = rnd b" "rn (at_val b n) = rn b"
  "db_ok (at_obj b n) = db_ok b" "db_ok (at_prop b n) = db_ok b" "db_ok (at_val b n) = db_ok b"
  by (simp_all add: at_obj_def at_prop_def at_val_def same_recs_def db_ok_def)

definition obj_match :: "bytes \<Rightarrow> u16 \<Rightarrow> bindery_obj \<Rightarrow> bool" where
  "obj_match n t ob \<longleftrightarrow> strneq n (bufstr (ob_name ob)) 48 \<and> ob_type ob = t"

definition prop_match :: "u32 \<Rightarrow> bytes \<Rightarrow> bindery_prop \<Rightarrow> bool" where
  "prop_match i n p \<longleftrightarrow> pr_object_id p = i \<and> strneq (bufstr (pr_name p)) n 15"

text \<open>Each search finds the first record that matches, and moves one stream only.\<close>

lemma scan_obj_gen:
  assumes "db_ok b"
  shows "scan_file bindio_conv_object P (rewind (net_obj b)) =
    Some (case first_index (\<lambda>r. P (obj_of r)) (recs (net_obj b)) of
        None \<Rightarrow> (None, (net_obj b)\<lparr>fpos := length (recs (net_obj b))\<rparr>)
      | Some i \<Rightarrow> (Some (recs (net_obj b) ! i, obj_of (recs (net_obj b) ! i)), (net_obj b)\<lparr>fpos := Suc i\<rparr>))"
  by (rule scan_file_rewind [OF db_okD(1) [OF assms]])

lemma scan_prop_gen:
  assumes "db_ok b"
  shows "scan_file bindio_conv_prop P (rewind (net_prop b)) =
    Some (case first_index (\<lambda>r. P (prop_of r)) (recs (net_prop b)) of
        None \<Rightarrow> (None, (net_prop b)\<lparr>fpos := length (recs (net_prop b))\<rparr>)
      | Some i \<Rightarrow> (Some (recs (net_prop b) ! i, prop_of (recs (net_prop b) ! i)), (net_prop b)\<lparr>fpos := Suc i\<rparr>))"
  by (rule scan_file_rewind [OF db_okD(2) [OF assms]])

lemma bindio_scan_object_eq:
  assumes "db_ok b"
  shows "bindio_scan_object n t b =
    Some (case first_index (\<lambda>r. obj_match n t (obj_of r)) (recs (net_obj b)) of
        None \<Rightarrow> (None, at_obj b (length (recs (net_obj b))))
      | Some i \<Rightarrow> (Some (recs (net_obj b) ! i, obj_of (recs (net_obj b) ! i)), at_obj b (Suc i)))"
  by (simp add: bindio_scan_object_def scan_obj_gen [OF assms] obj_match_def at_obj_def split: option.splits)

lemma bindio_scan_object_by_id_eq:
  assumes "db_ok b"
  shows "bindio_scan_object_by_id i b =
    Some (case first_index (\<lambda>r. ob_id (obj_of r) = i) (recs (net_obj b)) of
        None \<Rightarrow> (None, at_obj b (length (recs (net_obj b))))
      | Some k \<Rightarrow> (Some (recs (net_obj b) ! k, obj_of (recs (net_obj b) ! k)), at_obj b (Suc k)))"
  by (simp add: bindio_scan_object_by_id_def scan_obj_gen [OF assms] at_obj_def split: option.splits)

lemma bindio_prop_seek_eq:
  assumes "db_ok b"
  shows "bindio_prop_seek i b =
    Some (case first_index (\<lambda>r. pr_id (prop_of r) = i) (recs (net_prop b)) of
        None \<Rightarrow> (None, at_prop b (length (recs (net_prop b))))
      | Some k \<Rightarrow> (Some (recs (net_prop b) ! k, prop_of (recs (net_prop b) ! k)), at_prop b (Suc k)))"
  by (simp add: bindio_prop_seek_def scan_prop_gen [OF assms] at_prop_def split: option.splits)

lemma bindio_scan_propid_eq:
  assumes "db_ok b"
  shows "bindio_scan_propid i b =
    Some (case first_index (\<lambda>r. pr_id (prop_of r) = i) (recs (net_prop b)) of
        None \<Rightarrow> (None, at_prop b (length (recs (net_prop b))))
      | Some k \<Rightarrow> (Some (recs (net_prop b) ! k, prop_of (recs (net_prop b) ! k)), at_prop b (Suc k)))"
  by (simp add: bindio_scan_propid_def scan_prop_gen [OF assms] at_prop_def split: option.splits)

lemma bindio_scan_prop_nextid_eq:
  assumes "db_ok b"
  shows "bindio_scan_prop_nextid i b =
    Some (case first_index (\<lambda>r. pr_next_id (prop_of r) = i) (recs (net_prop b)) of
        None \<Rightarrow> (None, at_prop b (length (recs (net_prop b))))
      | Some k \<Rightarrow> (Some (recs (net_prop b) ! k, prop_of (recs (net_prop b) ! k)), at_prop b (Suc k)))"
  by (simp add: bindio_scan_prop_nextid_def scan_prop_gen [OF assms] at_prop_def split: option.splits)

lemma bindio_scan_prop_eq:
  assumes "db_ok b"
  shows "bindio_scan_prop i n b =
    Some (case first_index (\<lambda>r. prop_match i n (prop_of r)) (recs (net_prop b)) of
        None \<Rightarrow> (None, at_prop b (length (recs (net_prop b))))
      | Some k \<Rightarrow> (Some (prop_of (recs (net_prop b) ! k)), at_prop b (Suc k)))"
  by (simp add: bindio_scan_prop_def scan_prop_gen [OF assms] prop_match_def at_prop_def split: option.splits)

lemma bindio_scan_val_eq:
  "bindio_scan_val i b =
    Some (case first_index (\<lambda>r. be32 (val_id r) = i) (recs (net_val b)) of
        None \<Rightarrow> (None, at_val b (length (recs (net_val b))))
      | Some k \<Rightarrow> (Some (bindio_conv_val (recs (net_val b) ! k)), at_val b (Suc k)))"
  by (simp add: bindio_scan_val_def bindio_conv_val_def at_val_def
      scan_file_rewind [where cv = bindio_conv_val, unfolded bindio_conv_val_def] split: option.splits)

lemmas bindio_scan_eqs = bindio_scan_object_eq bindio_scan_object_by_id_eq bindio_prop_seek_eq
  bindio_scan_propid_eq bindio_scan_prop_nextid_eq bindio_scan_prop_eq bindio_scan_val_eq


section \<open>Reading and writing a property\<close>

text \<open>The value a property holds: the first record for the object and name, the first value record it refers to.\<close>

definition prop_index :: "bindery \<Rightarrow> u32 \<Rightarrow> bytes \<Rightarrow> nat option" where
  "prop_index b i n = first_index (\<lambda>r. prop_match i n (prop_of r)) (recs (net_prop b))"

definition val_index :: "bindery \<Rightarrow> u32 \<Rightarrow> nat option" where
  "val_index b i = first_index (\<lambda>r. be32 (val_id r) = i) (recs (net_val b))"

definition store_index :: "bindery \<Rightarrow> u32 \<Rightarrow> bytes \<Rightarrow> nat option" where
  "store_index b i n = Option.bind (prop_index b i n) (\<lambda>k. val_index b (be32 (prop_valueid (recs (net_prop b) ! k))))"

definition store_data :: "bindery \<Rightarrow> u32 \<Rightarrow> bytes \<Rightarrow> bytes option" where
  "store_data b i n = map_option (\<lambda>l. val_data (recs (net_val b) ! l)) (store_index b i n)"

text \<open>No two properties share a value record.\<close>

definition store_inv :: "bindery \<Rightarrow> bool" where
  "store_inv b \<longleftrightarrow> db_ok b \<and> distinct (map prop_valueid (recs (net_prop b)))"

lemma same_recs_store:
  assumes "same_recs b b'"
  shows "store_data b' = store_data b" "store_inv b' = store_inv b" "store_index b' = store_index b"
  using assms same_recs_db_ok [OF assms]
  by (auto simp: same_recs_def store_data_def store_index_def prop_index_def val_index_def store_inv_def
      fun_eq_iff)

lemma bindio_read_prop_eq:
  assumes "db_ok b"
  obtains b' where "same_recs b b'" "wok b' = wok b" "wn b' = wn b"
    "bindio_read_prop i n sg b = Some (case store_index b i n of None \<Rightarrow> Inl BINDERY_ERROR_NOSUCHPROPERTY
       | Some l \<Rightarrow> Inr (bindio_conv_val (recs (net_val b) ! l),
           prop_of (recs (net_prop b) ! the (prop_index b i n))), b')"
proof (cases "prop_index b i n")
  case None
  then show ?thesis
    by (intro that [of "at_prop b (length (recs (net_prop b)))"])
      (simp_all add: bindio_read_prop_def bindio_scan_prop_eq [OF assms] store_index_def prop_index_def)
next
  case (Some k)
  let ?b1 = "at_prop b (Suc k)"
  let ?v = "be32 (prop_valueid (recs (net_prop b) ! k))"
  have k: "first_index (\<lambda>r. prop_match i n (prop_of r)) (recs (net_prop b)) = Some k"
    using Some by (simp add: prop_index_def)
  have v: "pr_value_id (prop_of (recs (net_prop b) ! k)) = ?v" by (simp add: prop_of_def)
  show ?thesis
  proof (cases "val_index b ?v")
    case None
    then show ?thesis
      by (intro that [of "at_val ?b1 (length (recs (net_val b)))"])
        (auto simp: bindio_read_prop_def bindio_scan_prop_eq [OF assms] k v bindio_scan_val_eq
          val_index_def store_index_def Some same_recs_def)
  next
    case l: (Some l)
    then show ?thesis
      by (intro that [of "at_val ?b1 (Suc l)"])
        (auto simp: bindio_read_prop_def bindio_scan_prop_eq [OF assms] k v bindio_scan_val_eq
          val_index_def store_index_def Some same_recs_def)
  qed
qed

text \<open>Writing puts the new bytes into the record that reading finds, and changes nothing else.\<close>

definition put_val :: "bindery \<Rightarrow> nat \<Rightarrow> bytes \<Rightarrow> bindery" where
  "put_val b l x = b\<lparr>net_val := (net_val b)\<lparr>recs := (recs (net_val b))[l := (recs (net_val b) ! l)\<lparr>val_data := x\<rparr>]\<rparr>\<rparr>"

lemma bindio_write_prop_eq:
  assumes "db_ok b" "length x = 128"
  obtains b' where "wok b' = wok b"
    "bindio_write_prop i n 1 0 x b = Some (case store_index b i n of None \<Rightarrow> BINDERY_ERROR_NOSUCHPROPERTY
       | Some l \<Rightarrow> if wok b (wn b) then BINDERY_ERROR_OK else BINDERY_ERROR_IOERROR, b')"
    "same_recs (case store_index b i n of None \<Rightarrow> b
       | Some l \<Rightarrow> if wok b (wn b) then put_val b l x else b) b'"
proof (cases "prop_index b i n")
  case None
  then show ?thesis
    by (intro that [of "at_prop b (length (recs (net_prop b)))"])
      (simp_all add: bindio_write_prop_def bindio_scan_prop_eq [OF assms(1)] store_index_def prop_index_def)
next
  case (Some k)
  let ?b1 = "at_prop b (Suc k)"
  let ?v = "be32 (prop_valueid (recs (net_prop b) ! k))"
  have k: "first_index (\<lambda>r. prop_match i n (prop_of r)) (recs (net_prop b)) = Some k"
    using Some by (simp add: prop_index_def)
  have v: "pr_value_id (prop_of (recs (net_prop b) ! k)) = ?v" by (simp add: prop_of_def)
  show ?thesis
  proof (cases "val_index b ?v")
    case None
    then show ?thesis
      by (intro that [of "at_val ?b1 (length (recs (net_val b)))"])
        (auto simp: bindio_write_prop_def bindio_scan_prop_eq [OF assms(1)] k v bindio_scan_val_eq
          val_index_def store_index_def Some same_recs_def)
  next
    case l: (Some l)
    let ?b2 = "at_val ?b1 (Suc l)" and ?r = "recs (net_val b) ! l"
    have ll: "l < length (recs (net_val b))" using l by (auto simp: val_index_def dest: first_index_lessD)
    have fr: "fread (fseek_set (net_val ?b2) (ftell (net_val ?b2) - 1)) = (Some ?r, net_val ?b2)"
      using ll by (simp add: fread_def fseek_set_def ftell_def at_val_def)
    have st: "store_index b i n = Some l" by (simp add: store_index_def Some l)
    define b3 where "b3 = snd (write_val (?r\<lparr>val_data := x\<rparr>) (?b2\<lparr>net_val := fseek_set (net_val ?b2) (ftell (net_val ?b2) - 1)\<rparr>))"
    have w: "write_val (?r\<lparr>val_data := x\<rparr>) (?b2\<lparr>net_val := fseek_set (net_val ?b2) (ftell (net_val ?b2) - 1)\<rparr>)
        = (wok b (wn b), b3)"
      by (simp add: b3_def write_val_def fwrite_def Let_def split: prod.splits)
    have "recs (net_val b3) = (if wok b (wn b) then (recs (net_val b))[l := ?r\<lparr>val_data := x\<rparr>] else recs (net_val b))"
      "recs (net_prop b3) = recs (net_prop b)" "recs (net_obj b3) = recs (net_obj b)" "wok b3 = wok b"
      using ll by (auto simp: b3_def write_val_def fwrite_def fseek_set_def ftell_def at_val_def at_prop_def Let_def
          split: prod.splits)
    then have "same_recs (if wok b (wn b) then put_val b l x else b) b3" "wok b3 = wok b"
      by (auto simp: same_recs_def put_val_def)
    moreover have "bindio_write_prop i n 1 0 x b = Some (if wok b (wn b) then BINDERY_ERROR_OK else BINDERY_ERROR_IOERROR, b3)"
      using l fr w assms(2)
      by (simp add: bindio_write_prop_def bindio_scan_prop_eq [OF assms(1)] k v bindio_scan_val_eq
          val_index_def copy128_def)
    ultimately show ?thesis using that st by auto
  qed
qed


section \<open>The files are a property store\<close>

definition get_prop :: "u32 \<Rightarrow> bytes \<Rightarrow> bindery \<Rightarrow> (bytes option \<times> bindery) option" where
  "get_prop i n b = do {
     (r, b') \<leftarrow> bindio_read_prop i n 1 b;
     Some (case r of Inl _ \<Rightarrow> None | Inr (v, _) \<Rightarrow> Some (vl_data v), b')
   }"

lemma store_indexD:
  assumes "store_index b i n = Some l"
  obtains k where "prop_index b i n = Some k" "k < length (recs (net_prop b))"
    "prop_match i n (prop_of (recs (net_prop b) ! k))"
    "l < length (recs (net_val b))" "val_id (recs (net_val b) ! l) = prop_valueid (recs (net_prop b) ! k)"
    "val_index b (be32 (prop_valueid (recs (net_prop b) ! k))) = Some l"
  using assms
  by (auto simp: store_index_def bind_eq_Some_conv prop_index_def val_index_def first_index_Some be32.dec_inject)

lemma prop_match_same_key:
  "prop_match i n p \<Longrightarrow> prop_match j m p \<longleftrightarrow> j = i \<and> take 15 m = take 15 n"
  by (auto simp: prop_match_def strneq_def)

lemma prop_match_cong: "take 15 m = take 15 n \<Longrightarrow> prop_match i m = prop_match i n"
  by (simp add: prop_match_def strneq_def fun_eq_iff)

lemma recs_put_val [simp]:
  "recs (net_obj (put_val b l x)) = recs (net_obj b)" "recs (net_prop (put_val b l x)) = recs (net_prop b)"
  "recs (net_val (put_val b l x)) = (recs (net_val b))[l := (recs (net_val b) ! l)\<lparr>val_data := x\<rparr>]"
  by (simp_all add: put_val_def)

lemma first_index_cong: "length xs = length ys \<Longrightarrow> (\<And>i. i < length xs \<Longrightarrow> P (xs ! i) = Q (ys ! i)) \<Longrightarrow>
    first_index P xs = first_index Q ys"
proof (induction xs ys rule: list_induct2)
  case (Cons x xs y ys)
  from Cons.prems [of 0] have "P x = Q y" by simp
  moreover have "first_index P xs = first_index Q ys"
  proof (rule Cons.IH)
    fix i assume "i < length xs" then show "P (xs ! i) = Q (ys ! i)" using Cons.prems [of "Suc i"] by simp
  qed
  ultimately show ?case by simp
qed simp

lemma put_val_index [simp]: "store_index (put_val b l x) = store_index b"
proof -
  have "val_id ((recs (net_val b))[l := (recs (net_val b) ! l)\<lparr>val_data := x\<rparr>] ! j) = val_id (recs (net_val b) ! j)"
    if "j < length (recs (net_val b))" for j
    using that by (cases "j = l") simp_all
  then have "val_index (put_val b l x) = val_index b"
    by (auto simp: val_index_def fun_eq_iff intro!: first_index_cong)
  then show ?thesis by (simp add: store_index_def prop_index_def fun_eq_iff)
qed

lemma store_inv_put_val:
  "store_inv b \<Longrightarrow> l < length (recs (net_val b)) \<Longrightarrow> length x = 128 \<Longrightarrow> store_inv (put_val b l x)"
  by (auto simp: store_inv_def db_ok_def val_rec_ok_def dest!: set_update_subset_insert [THEN subsetD])

text \<open>Two keys that read the same value record are the same key.\<close>

lemma store_index_inj:
  assumes "store_inv b" "store_index b i n = Some l" "store_index b j m = Some l"
  shows "j = i \<and> take 15 m = take 15 n"
proof -
  obtain k where k: "k < length (recs (net_prop b))" "prop_match i n (prop_of (recs (net_prop b) ! k))"
    "val_id (recs (net_val b) ! l) = prop_valueid (recs (net_prop b) ! k)"
    using store_indexD [OF assms(2)] by metis
  obtain k' where k': "k' < length (recs (net_prop b))" "prop_match j m (prop_of (recs (net_prop b) ! k'))"
    "val_id (recs (net_val b) ! l) = prop_valueid (recs (net_prop b) ! k')"
    using store_indexD [OF assms(3)] by metis
  have "k = k'"
    using assms(1) k k' nth_eq_iff_index_eq [of "map prop_valueid (recs (net_prop b))" k k']
    by (simp add: store_inv_def)
  then show ?thesis using k k' prop_match_same_key by auto
qed

lemma put_val_data:
  assumes "store_inv b" "store_index b i n = Some l"
  shows "store_data (put_val b l x) j m =
    (if j = i \<and> take 15 m = take 15 n then Some x else store_data b j m)"
proof -
  have l: "l < length (recs (net_val b))" using store_indexD [OF assms(2)] by metis
  show ?thesis
  proof (cases "j = i \<and> take 15 m = take 15 n")
    case True
    then have "store_index b j m = Some l"
      using assms(2) by (simp add: store_index_def prop_index_def prop_match_cong [of m n])
    then show ?thesis using True l by (simp add: store_data_def)
  next
    case False
    then have "store_index b j m \<noteq> Some l" using store_index_inj [OF assms] by blast
    then show ?thesis using False by (cases "store_index b j m") (auto simp: store_data_def)
  qed
qed

lemma get_prop_store:
  assumes "store_inv b"
  shows "\<exists>b'. get_prop i n b = Some (store_data b i n, b') \<and> store_inv b' \<and> store_data b' = store_data b"
proof -
  have "db_ok b" using assms by (simp add: store_inv_def)
  then obtain b' where s: "same_recs b b'" and
    "bindio_read_prop i n 1 b = Some (case store_index b i n of None \<Rightarrow> Inl BINDERY_ERROR_NOSUCHPROPERTY
       | Some l \<Rightarrow> Inr (bindio_conv_val (recs (net_val b) ! l),
           prop_of (recs (net_prop b) ! the (prop_index b i n))), b')"
    by (rule bindio_read_prop_eq)
  then have "get_prop i n b = Some (store_data b i n, b')"
    by (simp add: get_prop_def store_data_def bindio_conv_val_def split: option.splits)
  then show ?thesis using assms same_recs_store [OF s] by simp
qed

lemma put_prop_store:
  assumes "store_inv b" "length x = 128"
  obtains e b' where "bindio_write_prop i n 1 0 x b = Some (e, b')" "store_inv b'"
    "e = 0 \<longleftrightarrow> store_index b i n \<noteq> None \<and> wok b (wn b)"
    "e = 0 \<Longrightarrow> store_data b' j m = (if j = i \<and> take 15 m = take 15 n then Some x else store_data b j m)"
    "e \<noteq> 0 \<Longrightarrow> store_data b' = store_data b"
proof -
  have "db_ok b" using assms by (simp add: store_inv_def)
  from bindio_write_prop_eq [OF this assms(2), of i n] obtain b' where
    w: "bindio_write_prop i n 1 0 x b = Some (case store_index b i n of None \<Rightarrow> BINDERY_ERROR_NOSUCHPROPERTY
       | Some l \<Rightarrow> if wok b (wn b) then BINDERY_ERROR_OK else BINDERY_ERROR_IOERROR, b')"
    and s: "same_recs (case store_index b i n of None \<Rightarrow> b
       | Some l \<Rightarrow> if wok b (wn b) then put_val b l x else b) b'" .
  show thesis
  proof (cases "store_index b i n \<noteq> None \<and> wok b (wn b)")
    case False
    then have "same_recs b b'" using s by (auto split: option.splits)
    note same_recs_store [OF this]
    then show ?thesis using False w assms(1)
      by (intro that [of _ b']) (auto split: option.splits if_splits)
  next
    case True
    then obtain l where l: "store_index b i n = Some l" by auto
    then have "l < length (recs (net_val b))" using store_indexD by metis
    then have inv: "store_inv (put_val b l x)" using store_inv_put_val assms by blast
    have "same_recs (put_val b l x) b'" using s True l by simp
    note same_recs_store [OF this]
    then show ?thesis using True w assms(1) l inv put_val_data [OF assms(1) l]
      by (intro that [of 0 b']) simp_all
  qed
qed

interpretation bindery_files: prop_store store_inv store_data get_prop "\<lambda>i n. bindio_write_prop i n 1 0"
proof (unfold_locales, goal_cases)
  case (1 d i n)
  then show ?case by (rule get_prop_store)
next
  case (2 d x i n)
  then show ?case using put_prop_store [of d x i n] by metis
next
  case (3 d x i n d' j m)
  from put_prop_store [OF 3(1,2), of i n j m] obtain e b' where
    "bindio_write_prop i n 1 0 x d = Some (e, b')"
    "e = 0 \<Longrightarrow> store_data b' j m = (if j = i \<and> take 15 m = take 15 n then Some x else store_data d j m)" by blast
  then show ?case using 3(3) by simp
next
  case (4 d x i n e d')
  from put_prop_store [OF 4(1,2), of i n] obtain e' b' where
    "bindio_write_prop i n 1 0 x d = Some (e', b')" "e' \<noteq> 0 \<Longrightarrow> store_data b' = store_data d" by blast
  then show ?case using 4(3,4) by simp
qed

end
