(* ===== verification/Fr_BinderyAdd.thy ===== *)
theory Fr_BinderyAdd
  imports Fr_BinderyLaws
begin

text \<open>
  The chains of properties, the invariant that they end, and what \<^verbatim>\<open>bindio_add_object\<close> and
  \<^verbatim>\<open>bindio_add_prop\<close> make of a bindery that satisfies it.
\<close>

section \<open>Chains\<close>

text \<open>Following the references from \<open>i\<close> ends at the reference 0xffffffff, and finds every record on the way.\<close>

abbreviation id_index :: "netprop_rec list \<Rightarrow> u32 \<Rightarrow> nat option" where
  "id_index ps i \<equiv> first_index (\<lambda>r. be32 (prop_id r) = i) ps"

inductive chain_ends :: "netprop_rec list \<Rightarrow> u32 \<Rightarrow> bool" for ps where
  chain_stop: "chain_ends ps no_id"
| chain_next: "i \<noteq> no_id \<Longrightarrow> id_index ps i = Some k \<Longrightarrow> chain_ends ps (be32 (prop_nextid (ps ! k))) \<Longrightarrow>
    chain_ends ps i"

inductive_cases chain_endsE: "chain_ends ps i"

text \<open>The invariant of the bindery.\<close>

definition bind_inv :: "bindery \<Rightarrow> bool" where
  "bind_inv b \<longleftrightarrow> store_inv b \<and> (\<forall>r\<in>set (recs (net_prop b)). be32 (prop_id r) \<noteq> no_id) \<and>
     (\<forall>r\<in>set (recs (net_obj b)). chain_ends (recs (net_prop b)) (be32 (object_prop_id r)))"

lemma bind_invD: "bind_inv b \<Longrightarrow> store_inv b" "bind_inv b \<Longrightarrow> db_ok b"
  by (simp_all add: bind_inv_def store_inv_def)

lemma same_recs_bind_inv: "same_recs b b' \<Longrightarrow> bind_inv b' = bind_inv b"
  using same_recs_store [of b b'] by (simp add: bind_inv_def same_recs_def)

lemma at_at [simp]: "at_prop (at_prop b m) n = at_prop b n"
  by (simp add: at_prop_def)

lemma id_index_append: "id_index ps i = Some k \<Longrightarrow> id_index (ps @ rs) i = Some k"
  by (simp add: first_index_append)

lemma chain_append: "chain_ends ps i \<Longrightarrow> chain_ends (ps @ rs) i"
proof (induction rule: chain_ends.induct)
  case (chain_next i k)
  then have "k < length ps" by (auto dest: first_index_lessD)
  then show ?case
    using chain_ends.chain_next [of i "ps @ rs" k] chain_next by (simp add: id_index_append nth_append)
qed (rule chain_ends.chain_stop)

lemma id_index_relink [simp]:
  "id_index (ps[k := (ps ! k)\<lparr>prop_nextid := x\<rparr>]) i = id_index ps i"
proof (rule first_index_cong)
  fix j assume "j < length (ps[k := (ps ! k)\<lparr>prop_nextid := x\<rparr>])"
  then show "(be32 (prop_id (ps[k := (ps ! k)\<lparr>prop_nextid := x\<rparr>] ! j)) = i) = (be32 (prop_id (ps ! j)) = i)"
    by (cases "j = k") auto
qed simp

text \<open>Hooking a new last record to the end of a chain keeps all chains.\<close>

lemma chain_relink:
  assumes "chain_ends ps i" "k < length ps" "prop_nextid r = to_be32 no_id"
    "be32 (prop_id r) = q" "\<forall>p\<in>set ps. be32 (prop_id p) \<noteq> q" "q \<noteq> no_id"
  shows "chain_ends ((ps @ [r])[k := (ps ! k)\<lparr>prop_nextid := to_be32 q\<rparr>]) i"
proof -
  let ?n = "(ps ! k)\<lparr>prop_nextid := to_be32 q\<rparr>"
  let ?qs = "(ps @ [r])[k := ?n]"
  have upd: "?qs = (ps @ [r])[k := ((ps @ [r]) ! k)\<lparr>prop_nextid := to_be32 q\<rparr>]"
    using assms(2) by (simp add: nth_append)
  have ix: "id_index ?qs j = id_index (ps @ [r]) j" for j unfolding upd by simp
  have "id_index (ps @ [r]) q = Some (length ps)"
    using assms(4,5) by (simp add: first_index_append first_index_None [THEN iffD2])
  then have "chain_ends ?qs q"
    using assms(2,3,6) chain_ends.chain_stop by (intro chain_next [of q ?qs "length ps"]) (simp_all add: ix)
  note q = this
  from assms(1) show ?thesis
  proof (induction rule: chain_ends.induct)
    case (chain_next i j)
    then have j: "j < length ps" by (auto dest: first_index_lessD)
    have "chain_ends ?qs (be32 (prop_nextid (?qs ! j)))"
    proof (cases "j = k")
      case True
      then show ?thesis using q j by simp
    next
      case False
      then show ?thesis using chain_next.IH j by (simp add: nth_append)
    qed
    then show ?case
      using chain_next by (intro chain_ends.chain_next [of i ?qs j]) (simp_all add: ix id_index_append)
  qed (rule chain_ends.chain_stop)
qed

section \<open>Walking\<close>

lemma prop_of_simps [simp]:
  "pr_id (prop_of r) = be32 (prop_id r)" "pr_next_id (prop_of r) = be32 (prop_nextid r)"
  "pr_value_id (prop_of r) = be32 (prop_valueid r)" "pr_object_id (prop_of r) = be32 (prop_objid r)"
  "pr_security (prop_of r) = prop_security r" "pr_flags (prop_of r) = prop_flag r"
  by (simp_all add: prop_of_def)

lemma obj_of_simps [simp]:
  "ob_id (obj_of r) = be32 (object_id r)" "ob_prop_id (obj_of r) = be32 (object_prop_id r)"
  "ob_type (obj_of r) = be16 (object_type r)" "ob_security (obj_of r) = object_security r"
  "ob_flags (obj_of r) = object_flags r"
  by (simp_all add: obj_of_def)

text \<open>The walk of \<^verbatim>\<open>bindio_dump\<close> returns, with the property stream at the end of its file.\<close>

lemma dump_chain_ends:
  assumes "chain_ends (recs (net_prop b)) i" "db_ok b" "\<forall>r\<in>set (recs (net_prop b)). be32 (prop_id r) \<noteq> no_id"
  shows "dump_chain i b = Some (at_prop b (length (recs (net_prop b))))"
proof -
  have "dump_chain i (at_prop b n) = Some (at_prop b (length (recs (net_prop b))))" for n
    using assms(1)
  proof (induction arbitrary: n rule: chain_ends.induct)
    case chain_stop
    have "first_index (\<lambda>r. be32 (prop_id r) = no_id) (recs (net_prop b)) = None"
      using assms(3) by (auto simp: first_index_None)
    then show ?case using assms(2) by (simp add: dump_chain.simps [of no_id] bindio_prop_seek_eq)
  next
    case (chain_next i k)
    then show ?case using assms(2) by (simp add: dump_chain.simps [of i] bindio_prop_seek_eq)
  qed
  from this [of "fpos (net_prop b)"] show ?thesis by (simp add: at_prop_def)
qed

lemma dump_objects_ends:
  assumes "bind_inv b" "set rs \<subseteq> set (recs (net_obj b))"
  shows "dump_objects rs b = Some (if rs = [] then b else at_prop b (length (recs (net_prop b))))"
  using assms
proof (induction rs arbitrary: b)
  case (Cons r rs)
  let ?b = "at_prop b (length (recs (net_prop b)))"
  have inv: "bind_inv ?b" using same_recs_bind_inv [of b ?b] Cons.prems(1) by simp
  have "bindio_conv_object r = Some (obj_of r)"
    using db_okD(1) [OF bind_invD(2) [OF Cons.prems(1)]] Cons.prems(2) by auto
  moreover have "dump_chain (be32 (object_prop_id r)) b = Some ?b"
    using Cons.prems by (intro dump_chain_ends) (auto simp: bind_inv_def store_inv_def)
  ultimately show ?case using Cons.IH [OF inv] Cons.prems(2) by simp
qed simp

lemma bindio_dump_eq:
  assumes "bind_inv b"
  shows "bindio_dump b = Some (at_obj (if recs (net_obj b) = [] then b else at_prop b (length (recs (net_prop b))))
           (length (recs (net_obj b))))"
  using dump_objects_ends [OF assms, of "recs (net_obj b)"]
  by (simp add: bindio_dump_def fseek_end_def at_obj_def)

lemma walk_chain_ends:
  assumes "chain_ends ps i" "i \<noteq> no_id" "db_ok b" "recs (net_prop b) = ps @ rs"
  shows "\<exists>k<length ps. walk_chain i r0 b = Some (ps ! k, at_prop b (Suc k))"
proof -
  have "\<exists>k<length ps. walk_chain i r0 (at_prop b n) = Some (ps ! k, at_prop b (Suc k))" for n
    using assms(1,2)
  proof (induction arbitrary: n r0 rule: chain_ends.induct)
    case (chain_next i k)
    have k: "k < length ps" using chain_next.hyps by (auto dest: first_index_lessD)
    let ?n = "be32 (prop_nextid (ps ! k))"
    have e: "walk_chain i r0 (at_prop b n) = (if ?n = no_id then Some (ps ! k, at_prop b (Suc k))
               else walk_chain ?n (ps ! k) (at_prop b (Suc k)))"
      using chain_next.hyps assms(3,4) k
      by (simp add: walk_chain.simps [of i] bindio_prop_seek_eq id_index_append nth_append)
    show ?case
    proof (cases "?n = no_id")
      case True
      then show ?thesis using e k by auto
    next
      case False
      then show ?thesis using e chain_next.IH [OF False] by simp
    qed
  qed simp
  from this [of "fpos (net_prop b)"] show ?thesis by (simp add: at_prop_def)
qed


section \<open>Names\<close>

lemma bcopy_name: "length s \<le> n \<Longrightarrow> bcopy s (replicate n 0) = Some (mkbuf n s)"
  by (simp add: bcopy_def mkbuf_def)

lemma bcopy_too_long: "n < length s \<Longrightarrow> bcopy s (replicate n 0) = None"
  by (simp add: bcopy_def)

lemma takeWhile_no_nul: "no_nul s \<Longrightarrow> takeWhile (\<lambda>x. x \<noteq> 0) (s @ 0 # r) = s"
  by (induction s) auto

lemma bufstr_name:
  assumes "no_nul s" "length s \<le> n"
  shows "bufstr ((mkbuf n s @ [0])[length s := 0]) = s"
proof -
  have "mkbuf n s @ [0] = s @ 0 # replicate (n - length s) 0"
    by (simp add: mkbuf_def replicate_append_same)
  then have "(mkbuf n s @ [0])[length s := 0] = s @ 0 # replicate (n - length s) 0"
    by simp
  then show ?thesis using assms(1) by (simp add: bufstr_def takeWhile_no_nul)
qed

lemma unat_len8: "length s < 256 \<Longrightarrow> unat (of_nat (length s) :: u8) = length s"
  by (simp add: unat_of_nat)

lemma len8_less: "length s < n \<Longrightarrow> n < 256 \<Longrightarrow> (of_nat (length s) :: u8) < of_nat n"
  by (simp add: word_less_nat_alt unat_of_nat)

section \<open>Adding an object\<close>

text \<open>The record that \<^verbatim>\<open>bindio_add_object\<close> appends.\<close>

definition obj_entry :: "bytes \<Rightarrow> u16 \<Rightarrow> u8 \<Rightarrow> u8 \<Rightarrow> u32 \<Rightarrow> netobj_rec" where
  "obj_entry n t fl sec i = zero_obj\<lparr>object_id := to_be32 i, object_type := to_be16 t,
     object_namelen := of_nat (length n), object_name := mkbuf 47 n, object_flags := fl,
     object_security := sec, object_prop_id := (0xff, 0xff, 0xff, 0xff)\<rparr>"

lemma be32_ff [simp]: "be32 (0xff, 0xff, 0xff, 0xff) = no_id"
  by (simp add: push_bit_eq_mult) 

lemma obj_entry_simps:
  assumes "no_nul n" "length n \<le> 47"
  shows "obj_rec_ok (obj_entry n t fl sec i)" "obj_match n t (obj_of (obj_entry n t fl sec i))"
    "be32 (object_id (obj_entry n t fl sec i)) = i" "object_security (obj_entry n t fl sec i) = sec"
    "be32 (object_prop_id (obj_entry n t fl sec i)) = no_id"
  using assms len8_less [of n 48]
  by (simp_all add: obj_entry_def obj_rec_ok_def obj_match_def obj_of_def unat_len8 bufstr_name strneq_def)

lemma bind_inv_add_obj:
  assumes "bind_inv b" "obj_rec_ok r" "be32 (object_prop_id r) = no_id"
    "recs (net_obj b') = recs (net_obj b) @ [r]" "recs (net_prop b') = recs (net_prop b)"
    "recs (net_val b') = recs (net_val b)"
  shows "bind_inv b'"
  using assms chain_stop by (auto simp: bind_inv_def store_inv_def db_ok_def)

lemma next_random_simps [simp]:
  "fst (next_random b) = ucast (rnd b (rn b))" "snd (next_random b) = b\<lparr>rn := Suc (rn b)\<rparr>"
  by (simp_all add: next_random_def)

lemma bindio_add_object_eq:
  assumes "db_ok b" "length n \<le> 47"
  shows "\<exists>b'. bindio_add_object n t fl sec b =
      Some (if first_index (\<lambda>r. obj_match n t (obj_of r)) (recs (net_obj b)) \<noteq> None then Inl BINDERY_ERROR_OBJEXISTS
            else if wok b (wn b) then Inr (ucast (rnd b (rn b))) else Inl BINDERY_ERROR_IOERROR, b') \<and>
    recs (net_obj b') = recs (net_obj b) @
      (if first_index (\<lambda>r. obj_match n t (obj_of r)) (recs (net_obj b)) = None \<and> wok b (wn b)
       then [obj_entry n t fl sec (ucast (rnd b (rn b)))] else []) \<and>
    recs (net_prop b') = recs (net_prop b) \<and> recs (net_val b') = recs (net_val b) \<and>
    wok b' = wok b \<and> rnd b' = rnd b \<and>
    wn b' = (if first_index (\<lambda>r. obj_match n t (obj_of r)) (recs (net_obj b)) = None then Suc (wn b) else wn b)"
proof (cases "first_index (\<lambda>r. obj_match n t (obj_of r)) (recs (net_obj b))")
  case (Some k)
  then show ?thesis by (simp add: bindio_add_object_def bindio_scan_object_eq [OF assms(1)])
next
  case None
  then show ?thesis using assms(2)
    by (simp add: bindio_add_object_def bindio_scan_object_eq [OF assms(1)] unat_len8 bcopy_name
        next_random_def write_obj_def fwrite_append obj_entry_def zero_obj_def at_obj_def fseek_end_def fwrite_def
        split: if_splits)
qed

section \<open>Adding a property\<close>

definition prop_entry :: "u32 \<Rightarrow> bytes \<Rightarrow> u8 \<Rightarrow> u8 \<Rightarrow> u32 \<Rightarrow> u32 \<Rightarrow> netprop_rec" where
  "prop_entry i n fl sec pid vid = zero_prop\<lparr>prop_id := to_be32 pid, prop_namelen := of_nat (length n),
     prop_name := mkbuf 15 n, prop_flag := fl, prop_security := sec, prop_objid := to_be32 i,
     prop_valueid := to_be32 vid, prop_nextid := (0xff, 0xff, 0xff, 0xff)\<rparr>"

definition val_entry :: "u32 \<Rightarrow> u32 \<Rightarrow> bytes \<Rightarrow> netval_rec" where
  "val_entry vid pid d = zero_val\<lparr>val_id := to_be32 vid, val_propid := to_be32 pid,
     val_nextid := (0xff, 0xff, 0xff, 0xff), val_size := (0x01, 0x00), val_data := d\<rparr>"

lemma prop_entry_simps:
  assumes "no_nul n" "length n \<le> 15"
  shows "prop_rec_ok (prop_entry i n fl sec pid vid)" "prop_match i n (prop_of (prop_entry i n fl sec pid vid))"
  using assms len8_less [of n 16]
  by (simp_all add: prop_entry_def prop_rec_ok_def prop_match_def prop_of_def unat_len8 bufstr_name strneq_def)

lemma prop_entry_ids [simp]:
  "be32 (prop_id (prop_entry i n fl sec pid vid)) = pid" "prop_valueid (prop_entry i n fl sec pid vid) = to_be32 vid"
  "be32 (prop_nextid (prop_entry i n fl sec pid vid)) = no_id"
  by (simp_all add: prop_entry_def)

lemma val_entry_ids [simp]:
  "be32 (val_id (val_entry vid pid d)) = vid" "val_data (val_entry vid pid d) = d"
  by (simp_all add: val_entry_def)


text \<open>What the three files hold after the object at \<open>m\<close> got a property (\<open>p\<close>, \<open>v\<close>), as a relation.\<close>

definition linked :: "bindery \<Rightarrow> nat \<Rightarrow> netprop_rec \<Rightarrow> netval_rec \<Rightarrow> bindery \<Rightarrow> bool" where
  "linked b m p v b' \<longleftrightarrow>
     recs (net_val b') = recs (net_val b) @ [v] \<and>
     (if be32 (object_prop_id (recs (net_obj b) ! m)) = no_id
      then recs (net_obj b') = (recs (net_obj b))[m := (recs (net_obj b) ! m)\<lparr>object_prop_id := prop_id p\<rparr>] \<and>
        recs (net_prop b') = recs (net_prop b) @ [p]
      else recs (net_obj b') = recs (net_obj b) \<and>
        (\<exists>k<length (recs (net_prop b)). recs (net_prop b') =
           (recs (net_prop b) @ [p])[k := (recs (net_prop b) ! k)\<lparr>prop_nextid := prop_id p\<rparr>]))"

lemma write_at_end:
  "write_prop r (b\<lparr>net_prop := fseek_end f\<rparr>) =
     (if wok b (wn b) then (True, b\<lparr>net_prop := f\<lparr>recs := recs f @ [r], fpos := Suc (length (recs f))\<rparr>, wn := Suc (wn b)\<rparr>)
      else (False, b\<lparr>net_prop := fseek_end f, wn := Suc (wn b)\<rparr>))"
  "write_val v (b\<lparr>net_val := fseek_end g\<rparr>) =
     (if wok b (wn b) then (True, b\<lparr>net_val := g\<lparr>recs := recs g @ [v], fpos := Suc (length (recs g))\<rparr>, wn := Suc (wn b)\<rparr>)
      else (False, b\<lparr>net_val := fseek_end g, wn := Suc (wn b)\<rparr>))"
  by (simp_all add: write_prop_def write_val_def fwrite_def fseek_end_def)

lemma link_prop_obj:
  assumes "ob_prop_id ob = no_id" "fpos (net_obj b) = Suc m" "m < length (recs (net_obj b))" "wok b (wn b)"
  shows "\<exists>b'. link_prop ob pid pr b = Some (Inr pid, b') \<and>
    recs (net_obj b') = (recs (net_obj b))[m := (recs (net_obj b) ! m)\<lparr>object_prop_id := to_be32 pid\<rparr>] \<and>
    net_prop b' = net_prop b \<and> net_val b' = net_val b"
  using assms
  by (simp add: link_prop_def fread_def fseek_set_def ftell_def write_obj_def fwrite_def)

lemma link_prop_chain:
  assumes "ob_prop_id ob \<noteq> no_id" "chain_ends ps (ob_prop_id ob)" "db_ok b" "recs (net_prop b) = ps @ rs"
    "wok b (wn b)"
  shows "\<exists>b' k. link_prop ob pid pr b = Some (Inr pid, b') \<and> k < length ps \<and>
    recs (net_prop b') = (ps @ rs)[k := (ps ! k)\<lparr>prop_nextid := to_be32 pid\<rparr>] \<and>
    net_obj b' = net_obj b \<and> net_val b' = net_val b"
proof -
  from walk_chain_ends [OF assms(2,1,3,4), of pr] obtain k where k: "k < length ps"
    "walk_chain (ob_prop_id ob) pr b = Some (ps ! k, at_prop b (Suc k))" by auto
  then show ?thesis using assms
    by (auto simp: link_prop_def fseek_set_def ftell_def write_prop_def fwrite_def intro!: exI [of _ k])
qed

lemma bindio_add_prop_ok:
  assumes inv: "bind_inv b"
    and m: "first_index (\<lambda>r. be32 (object_id r) = i) (recs (net_obj b)) = Some m"
    and no: "prop_index b i n = None"
    and n: "no_nul n" "length n \<le> 15"
    and d: "length d = 128" and w: "\<forall>k. wok b k"
  defines "vid \<equiv> ucast (rnd b (rn b)) :: u32" and "pid \<equiv> ucast (rnd b (Suc (rn b))) :: u32"
  shows "\<exists>b'. bindio_add_prop i n fl sec (Some d) b = Some (Inr pid, b') \<and>
    linked b m (prop_entry i n fl sec pid vid) (val_entry vid pid d) b'"
proof -
  let ?p = "prop_entry i n fl sec pid vid" and ?v = "val_entry vid pid d"
  let ?ob = "obj_of (recs (net_obj b) ! m)"
  have ok: "db_ok b" using inv by (rule bind_invD)
  have ml: "m < length (recs (net_obj b))" using m by (rule first_index_lessD)
  define b2 where "b2 = (at_prop (at_obj b (Suc m)) (length (recs (net_prop b))))\<lparr>rn := Suc (Suc (rn b))\<rparr>"
  define b6 where "b6 = b2\<lparr>net_prop := (net_prop b2)\<lparr>recs := recs (net_prop b) @ [?p], fpos := Suc (length (recs (net_prop b)))\<rparr>,
     net_val := (net_val b2)\<lparr>recs := recs (net_val b) @ [?v], fpos := Suc (length (recs (net_val b)))\<rparr>, wn := Suc (Suc (wn b))\<rparr>"
  have run: "bindio_add_prop i n fl sec (Some d) b = link_prop ?ob pid ?p b6"
  proof -
    have s1: "bindio_scan_object_by_id i b = Some (Some (recs (net_obj b) ! m, ?ob), at_obj b (Suc m))"
      using m by (simp add: bindio_scan_object_by_id_eq [OF ok])
    have s2: "bindio_scan_prop i n (at_obj b (Suc m)) = Some (None, at_prop (at_obj b (Suc m)) (length (recs (net_prop b))))"
      using no by (simp add: bindio_scan_prop_eq ok prop_index_def)
    show ?thesis
      using n(2) d w
      by (simp add: bindio_add_prop_def s1 s2 unat_len8 bcopy_name copy128_def next_random_def write_at_end
          prop_entry_def [symmetric] val_entry_def [symmetric] vid_def pid_def)
        (simp add: b6_def b2_def at_prop_def at_obj_def vid_def pid_def Let_def)
  qed
  have r6: "recs (net_obj b6) = recs (net_obj b)" "recs (net_prop b6) = recs (net_prop b) @ [?p]"
    "recs (net_val b6) = recs (net_val b) @ [?v]" "fpos (net_obj b6) = Suc m" "wok b6 (wn b6)"
    using w by (simp_all add: b6_def b2_def at_prop_def at_obj_def)
  have ok6: "db_ok b6"
    using ok prop_entry_simps(1) [OF n, of i fl sec pid vid] d
    by (simp add: db_ok_def r6 val_rec_ok_def)
  show ?thesis
  proof (cases "be32 (object_prop_id (recs (net_obj b) ! m)) = no_id")
    case True
    then show ?thesis
      using link_prop_obj [of ?ob b6 m pid ?p] ml r6 by (auto simp: run linked_def prop_entry_def)
  next
    case False
    have "chain_ends (recs (net_prop b)) (ob_prop_id ?ob)"
      using inv ml by (simp add: bind_inv_def)
    from link_prop_chain [OF _ this ok6 r6(2) r6(5), of pid ?p] False show ?thesis
      by (auto simp: run linked_def r6 prop_entry_def)
  qed
qed


lemma random_not_no_id [simp]: "(ucast (w :: 31 word) :: u32) \<noteq> no_id"
proof
  assume "(ucast w :: u32) = no_id"
  then have "bit (ucast w :: u32) 31 = bit no_id 31" by simp
  then have "bit w 31" by (simp add: bit_simps)
  then show False using bit_imp_le_length [of w 31] by simp
qed

text \<open>A property is fresh when neither its id nor that of its value is in use.\<close>

definition fresh_prop :: "bindery \<Rightarrow> netprop_rec \<Rightarrow> bool" where
  "fresh_prop b p \<longleftrightarrow> (\<forall>r\<in>set (recs (net_prop b)). prop_id r \<noteq> prop_id p \<and> prop_valueid r \<noteq> prop_valueid p) \<and>
     (\<forall>r\<in>set (recs (net_val b)). val_id r \<noteq> prop_valueid p)"

lemma map_update_same: "k < length xs \<Longrightarrow> f y = f (xs ! k) \<Longrightarrow> map f (xs[k := y]) = map f xs"
  by (metis list_update_id map_update nth_map)

lemma map_relink:
  assumes "\<And>r. f (r\<lparr>prop_nextid := x\<rparr>) = f r" "k < length ps"
  shows "map f ((ps @ [p])[k := (ps ! k)\<lparr>prop_nextid := x\<rparr>]) = map f ps @ [f p]"
  using map_update_same [of k "ps @ [p]" f "(ps ! k)\<lparr>prop_nextid := x\<rparr>"] assms
  by (simp add: nth_append)

lemma linked_fields:
  assumes "linked b m p v b'" "\<And>r x. f (r\<lparr>prop_nextid := x\<rparr>) = f r"
  shows "map f (recs (net_prop b')) = map f (recs (net_prop b)) @ [f p]"
proof (cases "be32 (object_prop_id (recs (net_obj b) ! m)) = no_id")
  case True
  then show ?thesis using assms(1) by (simp add: linked_def)
next
  case False
  then obtain k where "k < length (recs (net_prop b))" "recs (net_prop b') =
      (recs (net_prop b) @ [p])[k := (recs (net_prop b) ! k)\<lparr>prop_nextid := prop_id p\<rparr>]"
    using assms(1) by (auto simp: linked_def)
  then show ?thesis using map_relink [of f "prop_id p", OF assms(2)] by metis
qed

lemma linked_objs:
  assumes "linked b m p v b'" "m < length (recs (net_obj b))" "\<And>r x. f (r\<lparr>object_prop_id := x\<rparr>) = f r"
  shows "map f (recs (net_obj b')) = map f (recs (net_obj b))"
  using assms map_update_same [of m "recs (net_obj b)" f "(recs (net_obj b) ! m)\<lparr>object_prop_id := prop_id p\<rparr>"]
  by (simp add: linked_def split: if_splits)

lemma linked_inv:
  assumes l: "linked b m p v b'" and inv: "bind_inv b" and m: "m < length (recs (net_obj b))"
    and p: "prop_rec_ok p" "be32 (prop_nextid p) = no_id" "be32 (prop_id p) \<noteq> no_id"
    and v: "val_rec_ok v" and fr: "fresh_prop b p"
  shows "bind_inv b'"
proof -
  let ?ps = "recs (net_prop b)" and ?os = "recs (net_obj b)"
  have ok: "\<forall>r\<in>set ?os. obj_rec_ok r" "\<forall>r\<in>set ?ps. prop_rec_ok r" "\<forall>r\<in>set (recs (net_val b)). val_rec_ok r"
    using inv by (auto simp: bind_inv_def store_inv_def db_ok_def)
  have all: "(\<forall>r\<in>set (recs (net_prop b')). f r) \<longleftrightarrow> (\<forall>r\<in>set ?ps. f r) \<and> f p"
    if "\<And>r x. f (r\<lparr>prop_nextid := x\<rparr>) = f r" for f
    using arg_cong [OF linked_fields [OF l, of f], of "\<lambda>xs. \<forall>x\<in>set xs. x"] that by auto
  have "(\<forall>r\<in>set (recs (net_obj b')). obj_rec_ok r) = (\<forall>r\<in>set ?os. obj_rec_ok r)"
    using arg_cong [OF linked_objs [OF l m, of obj_rec_ok], of "\<lambda>xs. \<forall>x\<in>set xs. x"]
    by (simp add: obj_rec_ok_def)
  moreover have "(\<forall>r\<in>set (recs (net_prop b')). prop_rec_ok r)"
    using all [of prop_rec_ok] ok p by (simp add: prop_rec_ok_def)
  moreover have "\<forall>r\<in>set (recs (net_val b')). val_rec_ok r"
    using l ok v by (auto simp: linked_def)
  moreover have "distinct (map prop_valueid (recs (net_prop b')))"
    using linked_fields [OF l, of prop_valueid] inv fr
    by (auto simp: bind_inv_def store_inv_def fresh_prop_def)
  moreover have "\<forall>r\<in>set (recs (net_prop b')). be32 (prop_id r) \<noteq> no_id"
    using all [of "\<lambda>r. be32 (prop_id r) \<noteq> no_id"] inv p by (simp add: bind_inv_def)
  moreover have "chain_ends (recs (net_prop b')) (be32 (object_prop_id r))" if "r \<in> set (recs (net_obj b'))" for r
  proof (cases "be32 (object_prop_id (?os ! m)) = no_id")
    case True
    have new: "chain_ends (?ps @ [p]) (be32 (prop_id p))"
    proof (rule chain_next)
      have "id_index ?ps (be32 (prop_id p)) = None"
        using fr by (auto simp: first_index_None fresh_prop_def be32.dec_inject)
      then show "id_index (?ps @ [p]) (be32 (prop_id p)) = Some (length ?ps)"
        by (simp add: first_index_append)
    qed (use p chain_stop in simp_all)
    have ps: "recs (net_prop b') = ?ps @ [p]" and
      os: "recs (net_obj b') = ?os[m := (?os ! m)\<lparr>object_prop_id := prop_id p\<rparr>]"
      using l True by (simp_all add: linked_def)
    from that have "r = (?os ! m)\<lparr>object_prop_id := prop_id p\<rparr> \<or> r \<in> set ?os"
      unfolding os by (meson insertE set_update_subset_insert subsetD)
    then show ?thesis
    proof
      assume "r = (?os ! m)\<lparr>object_prop_id := prop_id p\<rparr>"
      then show ?thesis using new by (simp add: ps)
    next
      assume "r \<in> set ?os"
      then show ?thesis using inv chain_append unfolding ps by (auto simp: bind_inv_def)
    qed
  next
    case False
    then obtain k where k: "k < length ?ps" "recs (net_prop b') =
        (?ps @ [p])[k := (?ps ! k)\<lparr>prop_nextid := prop_id p\<rparr>]" and ro: "recs (net_obj b') = ?os"
      using l by (auto simp: linked_def)
    have "chain_ends ?ps (be32 (object_prop_id r))" using that ro inv by (simp add: bind_inv_def)
    from chain_relink [OF this k(1), of p "be32 (prop_id p)"] show ?thesis
      using p fr by (auto simp: k(2) fresh_prop_def be32.dec_inject be32.dec_eq_iff)
  qed
  ultimately show ?thesis using ok by (simp add: bind_inv_def store_inv_def db_ok_def)
qed

lemma first_index_map: "first_index P (map f xs) = first_index (\<lambda>x. P (f x)) xs"
  by (induction xs) auto

lemma linked_store:
  assumes l: "linked b m p v b'" and v: "val_id v = prop_valueid p" and fr: "fresh_prop b p"
    and pm: "prop_match i n (prop_of p)" and no: "prop_index b i n = None"
  shows "store_data b' j k = (if j = i \<and> take 15 k = take 15 n then Some (val_data v) else store_data b j k)"
proof -
  let ?ps = "recs (net_prop b)" and ?vs = "recs (net_val b)"
  let ?f = "\<lambda>r. r\<lparr>prop_nextid := (0, 0, 0, 0)\<rparr>"
  have fe: "map ?f (recs (net_prop b')) = map ?f ?ps @ [?f p]"
    by (rule linked_fields [OF l]) simp
  have mi: "prop_match j k (prop_of (?f r)) = prop_match j k (prop_of r)" for r
    by (simp add: prop_match_def prop_of_def)
  have ix: "prop_index b' j k = (case prop_index b j k of Some q \<Rightarrow> Some q
      | None \<Rightarrow> if prop_match j k (prop_of p) then Some (length ?ps) else None)"
    using arg_cong [OF fe, of "first_index (\<lambda>r. prop_match j k (prop_of r))"]
    by (simp add: first_index_map mi first_index_append prop_index_def split: option.splits)
  have vi: "prop_valueid (recs (net_prop b') ! q) = (if q < length ?ps then prop_valueid (?ps ! q) else prop_valueid p)"
    if "q \<le> length ?ps" for q
  proof -
    have "map prop_valueid (recs (net_prop b')) = map prop_valueid ?ps @ [prop_valueid p]"
      by (rule linked_fields [OF l]) simp
    then have "length (recs (net_prop b')) = Suc (length ?ps)" by (metis length_map length_append_singleton)
    then show ?thesis using that arg_cong [OF \<open>map prop_valueid (recs (net_prop b')) = _\<close>, of "\<lambda>xs. xs ! q"]
      by (auto simp: nth_append)
  qed
  have vs: "recs (net_val b') = ?vs @ [v]" using l by (simp add: linked_def)
  have key: "prop_match j k (prop_of p) \<longleftrightarrow> j = i \<and> take 15 k = take 15 n"
    by (rule prop_match_same_key [OF pm])
  show ?thesis
  proof (cases "prop_index b j k")
    case None
    have nv: "first_index (\<lambda>r. val_id r = prop_valueid p) ?vs = None"
      using fr by (auto simp: first_index_None fresh_prop_def)
    show ?thesis using None ix key vi [of "length ?ps"]
      by (simp add: store_data_def store_index_def val_index_def vs first_index_append nv v be32.dec_inject)
  next
    case (Some q)
    have ql: "q < length ?ps" using Some by (auto simp: prop_index_def dest: first_index_lessD)
    have "\<not> (j = i \<and> take 15 k = take 15 n)"
      using Some no prop_match_cong [of k n i] by (auto simp: prop_index_def)
    moreover have "first_index (\<lambda>r. val_id r = prop_valueid (?ps ! q)) (?vs @ [v]) =
        first_index (\<lambda>r. val_id r = prop_valueid (?ps ! q)) ?vs"
      using fr v ql by (auto simp: first_index_append fresh_prop_def split: option.splits)
    moreover have "(?vs @ [v]) ! l = ?vs ! l" if "first_index (\<lambda>r. val_id r = prop_valueid (?ps ! q)) ?vs = Some l" for l
      using first_index_lessD [OF that] by (simp add: nth_append)
    ultimately show ?thesis using Some ix vi [of q] ql
      by (cases "first_index (\<lambda>r. val_id r = prop_valueid (?ps ! q)) ?vs")
        (auto simp: store_data_def store_index_def val_index_def vs be32.dec_inject)
  qed
qed

end
