(* ===== verification/Fr_Crypt.thy ===== *)
theory Fr_Crypt
  imports Fr_Prelude
begin

text \<open>
  \<^verbatim>\<open>src/lib/crypt.c\<close>: the NetWare password routines. Arrays of unsigned bytes are byte lists of the
  C array's length; the two sums of \<^verbatim>\<open>shuffle1\<close> are taken modulo 256, as their assignment to an
  \<^verbatim>\<open>unsigned char\<close> does, and \<^verbatim>\<open>b4\<close> is the 16-bit \<^verbatim>\<open>short\<close>.
\<close>

section \<open>Tables\<close>

definition encrypttable :: bytes where
  "encrypttable =
    [7, 8, 0, 8, 6, 4, 0xE, 4, 5, 0xC, 1, 7, 0xB, 0xF, 0xA, 8,
     0xF, 8, 0xC, 0xC, 9, 4, 1, 0xE, 4, 6, 2, 4, 0, 0xA, 0xB, 9,
     2, 0xF, 0xB, 1, 0xD, 2, 1, 9, 5, 0xE, 7, 0, 0, 2, 6, 6,
     0, 7, 3, 8, 2, 9, 3, 0xF, 7, 0xF, 0xC, 0xF, 6, 4, 0xA, 0,
     2, 3, 0xA, 0xB, 0xD, 8, 3, 0xA, 1, 7, 0xC, 0xF, 1, 8, 9, 0xD,
     9, 1, 9, 4, 0xE, 4, 0xC, 5, 5, 0xC, 8, 0xB, 2, 3, 9, 0xE,
     7, 7, 6, 9, 0xE, 0xF, 0xC, 8, 0xD, 1, 0xA, 6, 0xE, 0xD, 0, 7,
     7, 0xA, 0, 1, 0xF, 5, 4, 0xB, 7, 0xB, 0xE, 0xC, 9, 5, 0xD, 1,
     0xB, 0xD, 1, 3, 5, 0xD, 0xE, 6, 3, 0, 0xB, 0xB, 0xF, 3, 6, 4,
     9, 0xD, 0xA, 3, 1, 4, 9, 4, 8, 3, 0xB, 0xE, 5, 0, 5, 2,
     0xC, 0xB, 0xD, 5, 0xD, 5, 0xD, 2, 0xD, 9, 0xA, 0xC, 0xA, 0, 0xB, 3,
     5, 3, 6, 9, 5, 1, 0xE, 0xE, 0, 0xE, 8, 2, 0xD, 2, 2, 0,
     4, 0xF, 8, 5, 9, 6, 8, 6, 0xB, 0xA, 0xB, 0xF, 0, 7, 2, 8,
     0xC, 7, 3, 0xA, 1, 4, 2, 5, 0xF, 7, 0xA, 0xC, 0xE, 5, 9, 3,
     0xE, 7, 1, 2, 0xE, 1, 0xF, 4, 0xA, 6, 0xC, 6, 0xF, 4, 3, 0,
     0xC, 0, 3, 6, 0xF, 8, 7, 0xB, 2, 0xD, 0xC, 6, 0xA, 0xA, 8, 0xD]"

definition encryptkeys :: bytes where
  "encryptkeys =
    [0x48, 0x93, 0x46, 0x67, 0x98, 0x3D, 0xE6, 0x8D, 0xB7, 0x10, 0x7A, 0x26, 0x5A, 0xB9, 0xB1, 0x35,
     0x6B, 0xF, 0xD5, 0x70, 0xAE, 0xFB, 0xAD, 0x11, 0xF4, 0x47, 0xDC, 0xA7, 0xEC, 0xCF, 0x50, 0xC0]"

definition newshuffle :: "nat list" where
  "newshuffle =
    [0xF, 8, 5, 7, 0xC, 2, 0xE, 9, 0, 1, 6, 0xD, 3, 4, 0xB, 0xA,
     2, 0xC, 0xE, 6, 0xF, 0, 1, 8, 0xD, 3, 0xA, 4, 9, 0xB, 5, 7,
     5, 2, 9, 0xF, 0xC, 4, 0xD, 0, 0xE, 0xA, 6, 8, 0xB, 1, 3, 7,
     0xF, 0xD, 2, 6, 7, 8, 5, 9, 0, 4, 0xC, 3, 1, 0xA, 0xB, 0xE,
     5, 0xE, 2, 0xB, 0xD, 0xA, 7, 0, 8, 6, 4, 1, 0xF, 0xC, 3, 9,
     8, 2, 0xF, 0xA, 5, 9, 6, 0xC, 0, 0xB, 1, 0xD, 7, 3, 4, 0xE,
     0xE, 8, 0, 9, 4, 0xB, 2, 7, 0xC, 3, 0xA, 5, 0xD, 1, 6, 0xF,
     1, 4, 8, 0xA, 0xD, 0xB, 7, 0xE, 5, 0xF, 3, 9, 0, 2, 6, 0xC,
     5, 3, 0xC, 8, 0xB, 2, 0xE, 0xA, 4, 1, 0xD, 0, 6, 7, 0xF, 9,
     6, 0, 0xB, 0xE, 0xD, 4, 0xC, 0xF, 7, 2, 8, 0xA, 1, 5, 3, 9,
     0xB, 5, 0xA, 0xE, 0xF, 1, 0xC, 0, 6, 4, 2, 9, 3, 0xD, 7, 8,
     7, 2, 0xA, 0, 0xE, 8, 0xF, 4, 0xC, 0xB, 9, 1, 5, 0xD, 3, 6,
     7, 4, 0xF, 9, 5, 1, 0xC, 0xB, 0, 3, 8, 0xE, 2, 0xA, 6, 0xD,
     9, 4, 8, 0, 0xA, 3, 1, 0xC, 5, 0xF, 7, 2, 0xB, 0xE, 6, 0xD,
     9, 5, 4, 7, 0xE, 8, 3, 1, 0xD, 0xB, 0xC, 2, 0, 0xF, 6, 0xA,
     9, 0xA, 0xB, 0xD, 5, 3, 0xF, 0, 1, 0xC, 8, 7, 6, 4, 0xE, 2,
     3, 0xE, 0xF, 2, 0xD, 0xC, 4, 5, 9, 6, 0, 1, 0xB, 7, 0xA, 8]"

lemma table_lengths [simp]:
  "length encrypttable = 256" "length encryptkeys = 32" "length newshuffle = 272"
  by (simp_all add: encrypttable_def encryptkeys_def newshuffle_def)

section \<open>The hash\<close>

text \<open>One turn of the inner loop of \<^verbatim>\<open>shuffle1\<close>.\<close>

definition shuffle1_step :: "nat \<Rightarrow> bytes \<times> u16 \<Rightarrow> bytes \<times> u16" where
  "shuffle1_step s st = (case st of (temp, b4) \<Rightarrow>
     let b3 = (temp ! s + ucast b4) XOR (temp ! unat ((of_nat s + b4) AND 31) - encryptkeys ! s)
     in (temp[s := b3], b4 + ucast b3))"

definition shuffle1 :: "bytes \<Rightarrow> bytes" where
  "shuffle1 temp =
     (let temp' = fst (fold shuffle1_step ([0..<32] @ [0..<32]) (temp, 0))
      in map (\<lambda>i. encrypttable ! unat (temp' ! (2 * i)) OR
                  push_bit 4 (encrypttable ! unat (temp' ! (2 * i + 1)))) [0..<16])"

text \<open>\<^verbatim>\<open>while ((buflen > 0) && (buf[buflen - 1] == 0)) buflen = buflen - 1;\<close>\<close>

fun strip_len :: "bytes \<Rightarrow> nat \<Rightarrow> nat" where
  "strip_len buf 0 = 0"
| "strip_len buf (Suc n) = (if buf ! n = 0 then strip_len buf n else Suc n)"

text \<open>The whole 32-byte blocks: returns the array, the offset \<^verbatim>\<open>d\<close> and the bytes left.\<close>

function shuffle_blocks :: "bytes \<Rightarrow> bytes \<Rightarrow> nat \<Rightarrow> nat \<Rightarrow> bytes \<times> nat \<times> nat" where
  "shuffle_blocks temp buf d buflen =
     (if buflen \<ge> 32
      then shuffle_blocks (map (\<lambda>s. temp ! s XOR buf ! (d + s)) [0..<32]) buf (d + 32) (buflen - 32)
      else (temp, d, buflen))"
  by pat_completeness auto
termination
  by (relation "measure (\<lambda>(temp, buf, d, buflen). buflen)") auto

declare shuffle_blocks.simps [simp del]

text \<open>One turn of the loop that folds in the last, partial block.\<close>

definition shuffle_tail_step :: "bytes \<Rightarrow> nat \<Rightarrow> nat \<Rightarrow> nat \<Rightarrow> bytes \<times> nat \<Rightarrow> bytes \<times> nat" where
  "shuffle_tail_step buf d buflen s st = (case st of (temp, b2) \<Rightarrow>
     if d + buflen = b2 then (temp[s := temp ! s XOR encryptkeys ! s], d)
     else (temp[s := temp ! s XOR buf ! b2], b2 + 1))"

definition shuffle :: "bytes \<Rightarrow> bytes \<Rightarrow> nat \<Rightarrow> bytes" where
  "shuffle lon buf buflen0 =
     (let buflen1 = strip_len buf buflen0;
          (temp1, d, buflen) = shuffle_blocks (replicate 32 0) buf 0 buflen1;
          temp2 = (if buflen > 0
                   then fst (fold (shuffle_tail_step buf d buflen) [0..<32] (temp1, d))
                   else temp1);
          temp3 = map (\<lambda>s. temp2 ! s XOR lon ! unat ((of_nat s :: u32) AND 3)) [0..<32]
      in shuffle1 temp3)"

definition nw_encrypt :: "bytes \<Rightarrow> bytes \<Rightarrow> bytes" where
  "nw_encrypt fra buf =
     (let k = shuffle (take 4 fra) buf 16 @ shuffle (take 4 (drop 4 fra)) buf 16;
          k' = map (\<lambda>s. if s \<le> 15 then k ! s XOR k ! (31 - s) else k ! s) [0..<32]
      in map (\<lambda>s. k' ! s XOR k' ! (15 - s)) [0..<8])"

lemma length_shuffle1 [simp]: "length (shuffle1 t) = 16"
  by (simp add: shuffle1_def Let_def)

lemma length_shuffle [simp]: "length (shuffle lon buf n) = 16"
  by (simp add: shuffle_def Let_def split: prod.splits)

lemma length_nw_encrypt [simp]: "length (nw_encrypt fra buf) = 8"
  by (simp add: nw_encrypt_def Let_def)

subsection \<open>Only the bytes inside the length count\<close>

lemma strip_len_le: "strip_len buf n \<le> n"
  by (induction n) auto

lemma strip_len_cong: "take n buf = take n buf' \<Longrightarrow> n \<le> length buf \<Longrightarrow> n \<le> length buf' \<Longrightarrow> strip_len buf n = strip_len buf' n"
proof (induction n)
  case (Suc n)
  from Suc.prems have "buf ! n = buf' ! n" by (metis lessI nth_take)
  moreover from Suc.prems(1) have "take n (take (Suc n) buf) = take n (take (Suc n) buf')" by simp
  then have "take n buf = take n buf'" by (simp add: min_def)
  ultimately show ?case using Suc by simp
qed simp

lemma shuffle_blocks_rest: "shuffle_blocks temp buf d n = (t, e, m) \<Longrightarrow> e + m = d + n \<and> d \<le> e"
proof (induction temp buf d n arbitrary: t e m rule: shuffle_blocks.induct)
  case (1 temp buf d n)
  show ?case
  proof (cases "32 \<le> n")
    case True
    have "shuffle_blocks (map (\<lambda>s. temp ! s XOR buf ! (d + s)) [0..<32]) buf (d + 32) (n - 32) = (t, e, m)"
      using "1.prems" True by (simp add: shuffle_blocks.simps [of temp buf d n])
    from "1.IH" [OF True this] True show ?thesis by simp
  next
    case False
    with "1.prems" show ?thesis by (simp add: shuffle_blocks.simps [of temp buf d n])
  qed
qed

lemma shuffle_blocks_cong:
  "\<forall>i<d + n. buf ! i = buf' ! i \<Longrightarrow> shuffle_blocks temp buf d n = shuffle_blocks temp buf' d n"
proof (induction temp buf d n rule: shuffle_blocks.induct)
  case (1 temp buf d n)
  show ?case
  proof (cases "32 \<le> n")
    case True
    have m: "map (\<lambda>s. temp ! s XOR buf ! (d + s)) [0..<32] = map (\<lambda>s. temp ! s XOR buf' ! (d + s)) [0..<32]"
      using "1.prems" True by (intro map_cong) auto
    have "shuffle_blocks temp buf d n = shuffle_blocks (map (\<lambda>s. temp ! s XOR buf ! (d + s)) [0..<32]) buf (d + 32) (n - 32)"
      using True by (subst shuffle_blocks.simps) simp
    also have "\<dots> = shuffle_blocks (map (\<lambda>s. temp ! s XOR buf ! (d + s)) [0..<32]) buf' (d + 32) (n - 32)"
      using "1.IH" [OF True] "1.prems" True by simp
    also have "\<dots> = shuffle_blocks temp buf' d n"
      unfolding m using True by (subst (2) shuffle_blocks.simps) simp
    finally show ?thesis .
  qed (subst (1 2) shuffle_blocks.simps, simp)
qed

lemma shuffle_tail_cong:
  assumes "\<forall>i<d + m. buf ! i = buf' ! i" "d \<le> b" "b \<le> d + m"
  shows "fold (shuffle_tail_step buf d m) ss (temp, b) = fold (shuffle_tail_step buf' d m) ss (temp, b)"
  using assms(2,3)
proof (induction ss arbitrary: temp b)
  case (Cons s ss)
  show ?case
  proof (cases "b = d + m")
    case True
    then show ?thesis using Cons.IH [of d] by (simp add: shuffle_tail_step_def)
  next
    case False
    then have "b < d + m" using Cons.prems by simp
    then show ?thesis using Cons.IH [of "b + 1"] Cons.prems assms(1) by (simp add: shuffle_tail_step_def)
  qed
qed simp

lemma shuffle_cong:
  assumes "take n buf = take n buf'" "n \<le> length buf" "n \<le> length buf'"
  shows "shuffle lon buf n = shuffle lon buf' n"
proof -
  let ?m = "strip_len buf n"
  have m: "strip_len buf' n = ?m" using strip_len_cong [OF assms] by simp
  have eq: "\<forall>i<0 + ?m. buf ! i = buf' ! i"
    using assms strip_len_le [of buf n] by (metis add_0 less_le_trans nth_take)
  obtain t d k where b: "shuffle_blocks (replicate 32 0) buf 0 ?m = (t, d, k)"
    by (metis prod_cases3)
  have b': "shuffle_blocks (replicate 32 0) buf' 0 ?m = (t, d, k)"
    using shuffle_blocks_cong [OF eq] b by simp
  have dk: "d + k = ?m" using shuffle_blocks_rest [OF b] by simp
  have "fold (shuffle_tail_step buf d k) [0..<32] (t, d) = fold (shuffle_tail_step buf' d k) [0..<32] (t, d)"
    by (rule shuffle_tail_cong) (use eq dk in auto)
  then show ?thesis by (simp add: shuffle_def m b b')
qed

text \<open>Encryption reads the first 16 bytes of the stored hash only.\<close>

lemma nw_encrypt_cong:
  assumes "take 16 buf = take 16 buf'" "16 \<le> length buf" "16 \<le> length buf'"
  shows "nw_encrypt fra buf = nw_encrypt fra buf'"
  by (simp add: nw_encrypt_def shuffle_cong [OF assms])

section \<open>Decrypting a new password\<close>

text \<open>The inverse of the sixteen tables of \<^verbatim>\<open>newshuffle\<close> (and of the row that permutes the nibbles).\<close>

definition invshuffle :: bytes where
  "invshuffle = fold (\<lambda>n a. a[n - n mod 16 + newshuffle ! n := of_nat (n mod 16)]) [0..<272] (replicate 272 0)"

text \<open>The nibbles of a byte string, the low one of each byte first.\<close>

definition nibble :: "bytes \<Rightarrow> nat \<Rightarrow> u8" where
  "nibble b j = (if odd j then drop_bit 4 (b ! (j div 2)) AND 0x0f else b ! (j div 2) AND 0x0f)"

text \<open>One of the sixteen rounds, on the old password and the new one.\<close>

definition spread_nibbles :: "bytes \<Rightarrow> bytes" where
  "spread_nibbles new =
     fold (\<lambda>j copy. let n = newshuffle ! (j + 0x100); ch = nibble new j
             in copy[n div 2 := copy ! (n div 2) OR (if odd n then push_bit 4 ch else ch)])
       [0..<16] (replicate 8 0)"

definition rotate_nibbles :: "bytes \<Rightarrow> bytes" where
  "rotate_nibbles old = map (\<lambda>j. push_bit 4 (old ! ((j + 1) mod 8)) OR (drop_bit 4 (old ! j) AND 0x0f)) [0..<8]"

definition decrypt_round :: "bytes \<times> bytes \<Rightarrow> bytes \<times> bytes" where
  "decrypt_round st = (case st of (old, new) \<Rightarrow>
     let copy = spread_nibbles new;
         old' = rotate_nibbles old
     in (old', map (\<lambda>j.
           let cl = invshuffle ! (unat (copy ! j AND 0x0f) + j * 32);
               ch = push_bit 4 (invshuffle ! (unat (drop_bit 4 (copy ! j) AND 0x0f) + j * 32 + 16))
           in (ch OR cl) XOR old' ! j) [0..<8]))"

definition nw_decrypt_newpass :: "bytes \<Rightarrow> bytes \<Rightarrow> bytes" where
  "nw_decrypt_newpass oldpwd newpwd = snd ((decrypt_round ^^ 16) (oldpwd, newpwd))"

lemma length_decrypt_round [simp]: "length (fst (decrypt_round st)) = 8" "length (snd (decrypt_round st)) = 8"
  by (simp_all add: decrypt_round_def rotate_nibbles_def Let_def split: prod.splits)

lemma length_nw_decrypt_newpass [simp]: "length (nw_decrypt_newpass a b) = 8"
  by (simp add: nw_decrypt_newpass_def numeral_eq_Suc)

end
