(* ===== verification/Fr_Bindery.thy ===== *)
theory Fr_Bindery
  imports Fr_State Fr_BinderyAdd Fr_Crypt
begin

text \<open>
  \<^verbatim>\<open>src/server/bindery.c\<close>: set properties, access checks, passwords and the creation of an empty
  bindery, on top of the files of \<open>Fr_BinderyIO\<close>.
\<close>

section \<open>Sets\<close>

text \<open>
  A set property is 128 bytes of object ids. The loops of the code run over \<^verbatim>\<open>val.data[i]\<close> ..
  \<^verbatim>\<open>val.data[i + 3]\<close> for \<open>i\<close> below 32: they look at the 32 byte offsets 0, 1, 2, ..., 31.
\<close>

definition set_word :: "bytes \<Rightarrow> nat \<Rightarrow> u32" where
  "set_word d i = be32 (d ! i, d ! (i + 1), d ! (i + 2), d ! (i + 3))"

definition put_word :: "bytes \<Rightarrow> nat \<Rightarrow> u32 \<Rightarrow> bytes" where
  "put_word d i w = (case to_be32 w of (a, b, c, e) \<Rightarrow> d[i := a, i + 1 := b, i + 2 := c, i + 3 := e])"

text \<open>The loop that adds: \<open>None\<close> when the member is met first.\<close>

fun set_add :: "u32 \<Rightarrow> nat list \<Rightarrow> bool \<Rightarrow> bytes \<Rightarrow> (bool \<times> bytes) option" where
  "set_add m [] ok d = Some (ok, d)"
| "set_add m (i # is) ok d =
     (if set_word d i = m \<and> \<not> ok then None
      else if set_word d i = 0 \<and> \<not> ok then set_add m is True (put_word d i m)
      else set_add m is ok d)"

text \<open>The loop that deletes.\<close>

fun set_del :: "u32 \<Rightarrow> nat list \<Rightarrow> bool \<Rightarrow> bytes \<Rightarrow> bool \<times> bytes" where
  "set_del m [] ok d = (ok, d)"
| "set_del m (i # is) ok d =
     (if set_word d i = m then set_del m is True (put_word d i 0) else set_del m is ok d)"

definition set_has :: "u32 \<Rightarrow> bytes \<Rightarrow> bool" where
  "set_has m d = list_ex (\<lambda>i. set_word d i = m) [0..<32]"

text \<open>
  \<^verbatim>\<open>bind_is_objinset\<close>, with the access check it makes as an argument; a name is \<open>None\<close> for the null
  pointer.
\<close>

definition objinset_with ::
  "(u32 \<Rightarrow> u8 \<Rightarrow> srv \<Rightarrow> (int \<times> srv) option) \<Rightarrow> u16 \<Rightarrow> bytes option \<Rightarrow> u32 \<Rightarrow> bytes \<Rightarrow> u16 \<Rightarrow>
   bytes option \<Rightarrow> u32 \<Rightarrow> srv \<Rightarrow> (u8 \<times> srv) option" where
  "objinset_with access obj_type obj_name objid pname mem_type mem_name mem_id s = do {
     (oid, s1) \<leftarrow>
       (case obj_name of
          None \<Rightarrow> Some (Some objid, s)
        | Some n \<Rightarrow> do {
            (x, s1) \<leftarrow> on_db (bindio_scan_object n obj_type) s;
            Some (map_option (\<lambda>(_, ob). ob_id ob) x, s1)
          });
     (case oid of
        None \<Rightarrow> Some (BINDERY_ERROR_NOSUCHOBJECT, s1)
      | Some oid \<Rightarrow> do {
          (y, s2) \<leftarrow> on_db (bindio_scan_prop oid pname) s1;
          (case y of
             None \<Rightarrow> Some (BINDERY_ERROR_NOSUCHPROPERTY, s2)
           | Some p \<Rightarrow> do {
               (a, s3) \<leftarrow> access oid (pr_security p) s2;
               (if a < 0 then Some (BINDERY_ERROR_SECURITY, s3)
                else do {
                  (mid, s4) \<leftarrow>
                    (case mem_name of
                       None \<Rightarrow> Some (Some mem_id, s3)
                     | Some n \<Rightarrow> do {
                         (x, s4) \<leftarrow> on_db (bindio_scan_object n mem_type) s3;
                         Some (map_option (\<lambda>(_, ob). ob_id ob) x, s4)
                       });
                  (case mid of
                     None \<Rightarrow> Some (BINDERY_ERROR_NOSUCHOBJECT, s4)
                   | Some mid \<Rightarrow> do {
                       (v, s5) \<leftarrow> on_db (bindio_scan_val (pr_value_id p)) s4;
                       (case v of
                          None \<Rightarrow> Some (BINDERY_ERROR_NOSUCHPROPERTY, s5)
                        | Some v \<Rightarrow> Some (if set_has mid (vl_data v) then BINDERY_ERROR_OK
                                         else BINDERY_ERROR_NOSUCHMEMBER, s5))
                     })
                })
             })
        })
   }"

text \<open>The call without a connection makes no check.\<close>

abbreviation no_check :: "u32 \<Rightarrow> u8 \<Rightarrow> srv \<Rightarrow> (int \<times> srv) option" where
  "no_check \<equiv> \<lambda>i sec s. Some (0, s)"

text \<open>0: access granted; -1: denied.\<close>

definition bind_check_access :: "nat \<Rightarrow> u32 \<Rightarrow> u8 \<Rightarrow> int \<Rightarrow> srv \<Rightarrow> (int \<times> srv) option" where
  "bind_check_access c objid security rw s = do {
     k \<leftarrow> get_conn c s;
     (e, s1) \<leftarrow> objinset_with no_check 0 None objid (ascii ''OBJ_SUPERVISORS'') 0x1 None (c_object_id k) s;
     (if e = BINDERY_ERROR_OK then Some (0, s1)
      else do {
        let mask = (if rw \<noteq> 0 then drop_bit 4 security else security AND 0xf);
        Some
          (if mask = 0x0 then 0
           else if mask = 0x1 then (if c_object_id k = no_id then -1 else 0)
           else if mask = 0x2 then (if object_supervisor k \<noteq> 0 then 0
                                    else if c_object_id k = objid then 0 else -1)
           else if mask = 0x3 then (if object_supervisor k \<noteq> 0 then 0 else -1)
           else if mask = 0x4 then 0
           else -1, s1)
      })
   }"

definition bind_is_objinset ::
  "nat \<Rightarrow> u16 \<Rightarrow> bytes option \<Rightarrow> u32 \<Rightarrow> bytes \<Rightarrow> u16 \<Rightarrow> bytes option \<Rightarrow> u32 \<Rightarrow> srv \<Rightarrow> (u8 \<times> srv) option" where
  "bind_is_objinset c =
     objinset_with (if c > 0 then (\<lambda>i sec s. bind_check_access c i sec 0 s) else no_check)"

definition bind_obj_is_supervisor :: "u32 \<Rightarrow> srv \<Rightarrow> (int \<times> srv) option" where
  "bind_obj_is_supervisor objid s =
     (if objid = 1 then Some (0, s)
      else do {
        (e, s1) \<leftarrow> bind_is_objinset 0 0 None objid (ascii ''SECURITY_EQUALS'') 0 None 1 s;
        Some (if e = BINDERY_ERROR_OK then 0 else -1, s1)
      })"

definition bind_add_remove_objfromset ::
  "nat \<Rightarrow> u16 \<Rightarrow> bytes \<Rightarrow> bytes \<Rightarrow> u16 \<Rightarrow> bytes \<Rightarrow> u8 \<Rightarrow> srv \<Rightarrow> (u8 \<times> srv) option" where
  "bind_add_remove_objfromset c obj_type obj_name pname mem_type mem_name add_del s = do {
     (x, s1) \<leftarrow> on_db (bindio_scan_object obj_name obj_type) s;
     (case x of
        None \<Rightarrow> Some (BINDERY_ERROR_NOSUCHOBJECT, s1)
      | Some (_, ob) \<Rightarrow> do {
          (y, s2) \<leftarrow> on_db (bindio_scan_prop (ob_id ob) pname) s1;
          (case y of
             None \<Rightarrow> Some (BINDERY_ERROR_NOSUCHPROPERTY, s2)
           | Some p \<Rightarrow> do {
               (a, s3) \<leftarrow> (if c > 0 then bind_check_access c (ob_id ob) (pr_security p) 1 s2 else Some (0, s2));
               (if a < 0 then Some (BINDERY_ERROR_SECURITY, s3)
                else do {
                  (z, s4) \<leftarrow> on_db (bindio_scan_object mem_name mem_type) s3;
                  (case z of
                     None \<Rightarrow> Some (BINDERY_ERROR_NOSUCHOBJECT, s4)
                   | Some (_, mem) \<Rightarrow> do {
                       (v, s5) \<leftarrow> on_db (bindio_scan_val (pr_value_id p)) s4;
                       (case v of
                          None \<Rightarrow> Some (BINDERY_ERROR_NOSUCHPROPERTY, s5)
                        | Some v \<Rightarrow>
                            (case (if add_del \<noteq> 0 then Some (set_del (ob_id mem) [0..<32] False (vl_data v))
                                   else set_add (ob_id mem) [0..<32] False (vl_data v)) of
                               None \<Rightarrow> Some (BINDERY_ERROR_IOERROR, s5)
                             | Some (ok, d) \<Rightarrow>
                                 if \<not> ok then Some (BINDERY_ERROR_IOERROR, s5)
                                 else on_db (bindio_write_prop (ob_id ob) pname 1 0 d) s5))
                     })
                })
             })
        })
   }"

section \<open>Passwords\<close>

text \<open>0: the answer \<open>pwd\<close> to the challenge \<open>key\<close> is right; -1: it is not, or there is no password property.\<close>

definition bind_verify_pwd :: "u32 \<Rightarrow> bytes \<Rightarrow> bytes \<Rightarrow> bindery \<Rightarrow> (int \<times> bindery) option" where
  "bind_verify_pwd objid pwd key b = do {
     (r, b1) \<leftarrow> bindio_read_prop objid (ascii ''PASSWORD'') 1 b;
     (case r of
        Inl _ \<Rightarrow> Some (-1, b1)
      | Inr (v, p) \<Rightarrow> Some (if take 8 pwd = nw_encrypt key (vl_data v) then 0 else -1, b1))
   }"

text \<open>Only 16 of the 128 bytes written are set; \<open>junk\<close> is what the array held.\<close>

definition bind_set_pwd :: "u32 \<Rightarrow> bytes \<Rightarrow> (nat \<Rightarrow> u8) \<Rightarrow> bindery \<Rightarrow> (int \<times> bindery) option" where
  "bind_set_pwd objid pwd junk b = do {
     let new_pwd = shuffle (list_b4 (to_be32 objid)) pwd (length pwd) @ map junk [16..<128];
     (e, b1) \<leftarrow> bindio_write_prop objid (ascii ''PASSWORD'') 1 0 new_pwd b;
     Some (if e \<noteq> BINDERY_ERROR_OK then -1 else 0, b1)
   }"

section \<open>Creating the bindery\<close>

text \<open>A call that must succeed: an error makes the server exit (the inner \<open>None\<close>).\<close>

definition or_exit ::
  "(bindery \<Rightarrow> ((u8 + 'a) \<times> bindery) option) \<Rightarrow> ('a \<Rightarrow> bindery \<Rightarrow> bindery option option) \<Rightarrow> bindery \<Rightarrow>
   bindery option option" where
  "or_exit m k b = do {
     (r, b1) \<leftarrow> m b;
     (case r of Inl _ \<Rightarrow> Some None | Inr x \<Rightarrow> k x b1)
   }"

definition code_ok :: "(bindery \<Rightarrow> (u8 \<times> bindery) option) \<Rightarrow> bindery \<Rightarrow> ((u8 + unit) \<times> bindery) option" where
  "code_ok m b = do { (e, b1) \<leftarrow> m b; Some (if e = BINDERY_ERROR_OK then Inr () else Inl e, b1) }"

definition int_ok :: "(bindery \<Rightarrow> (int \<times> bindery) option) \<Rightarrow> bindery \<Rightarrow> ((u8 + unit) \<times> bindery) option" where
  "int_ok m b = do { (e, b1) \<leftarrow> m b; Some (if e < 0 then Inl 0 else Inr (), b1) }"

definition netaddr_data :: "ipx_addr \<Rightarrow> bytes" where
  "netaddr_data a = mkbuf 128 (list_b4 (x_net a) @ list_b6 (x_host a) @ [0x04, 0x51])"

text \<open>The part of \<^verbatim>\<open>bind_init\<close> that fills an empty bindery.\<close>

definition bind_create :: "bytes \<Rightarrow> ipx_addr \<Rightarrow> (nat \<Rightarrow> u8) \<Rightarrow> bindery \<Rightarrow> bindery option option" where
  "bind_create servername saddr junk b =
     or_exit (bindio_add_object (ascii ''SUPERVISOR'') 0x1 0 0x31) (\<lambda>sup.
     or_exit (code_ok (bindio_change_object sup 1 None)) (\<lambda>_.
     or_exit (bindio_add_prop 1 (ascii ''PASSWORD'') 0 0x44 None) (\<lambda>_.
     or_exit (bindio_add_prop 1 (ascii ''IDENTIFICATION'') 0 0x31 (Some (mkbuf 128 (ascii ''Super User'')))) (\<lambda>_.
     or_exit (bindio_add_prop 1 (ascii ''SECURITY_EQUALS'') 1 0x32 None) (\<lambda>_.
     or_exit (bindio_add_prop 1 (ascii ''GROUPS_I'' @ [0x27] @ ascii ''M_IN'') 1 0x32 None) (\<lambda>_.
     or_exit (int_ok (bind_set_pwd 1 [] junk)) (\<lambda>_.
     or_exit (bindio_add_object (ascii ''EVERYONE'') 0x2 0 0x31) (\<lambda>ev.
     or_exit (bindio_add_prop ev (ascii ''IDENTIFICATION'') 1 0x31 (Some (mkbuf 128 (ascii ''Everyone group'')))) (\<lambda>_.
     or_exit (bindio_add_prop ev (ascii ''GROUP_MEMBERS'') 1 0x31 (Some (mkbuf 128 []))) (\<lambda>_.
     or_exit (bindio_add_object servername 0x4 0 0x40) (\<lambda>sv.
     or_exit (bindio_add_prop sv (ascii ''NET_ADDRESS'') 0 0x40 (Some (netaddr_data saddr))) (\<lambda>_ b.
     Some (Some b))))))))))))) (bindio_truncate b)"

text \<open>
  \<^verbatim>\<open>bind_init\<close>: whether the files open for reading and writing, and whether they can be created, are
  arguments. The inner \<open>None\<close> is \<^verbatim>\<open>exit (1)\<close>.
\<close>

definition bind_init ::
  "bool \<Rightarrow> bool \<Rightarrow> bool \<Rightarrow> bytes \<Rightarrow> ipx_addr \<Rightarrow> (nat \<Rightarrow> u8) \<Rightarrow> bindery \<Rightarrow> bindery option option" where
  "bind_init opens creates recreate servername saddr junk b =
     (if \<not> opens \<and> \<not> (recreate \<and> creates) then Some None
      else do {
        r \<leftarrow> (if recreate then bind_create servername saddr junk b else Some (Some b));
        (case r of None \<Rightarrow> Some None | Some b1 \<Rightarrow> do { b2 \<leftarrow> bindio_dump b1; Some (Some b2) })
      })"


section \<open>Reading through the checks\<close>

text \<open>\<open>s'\<close> is \<open>s\<close> with the streams of the bindery moved.\<close>

definition seeks :: "srv \<Rightarrow> srv \<Rightarrow> bool" where
  "seeks s s' \<longleftrightarrow> s' = s\<lparr>db := db s'\<rparr> \<and> same_recs (db s) (db s') \<and> wok (db s') = wok (db s) \<and> wn (db s') = wn (db s)"

lemma seeks_refl [simp]: "seeks s s"
  by (simp add: seeks_def)

lemma seeks_trans: "seeks s t \<Longrightarrow> seeks t u \<Longrightarrow> seeks s u"
proof -
  assume a: "seeks s t" "seeks t u"
  then have t: "t = s\<lparr>db := db t\<rparr>" and u: "u = t\<lparr>db := db u\<rparr>" by (simp_all only: seeks_def)
  have "t\<lparr>db := db u\<rparr> = s\<lparr>db := db u\<rparr>" by (subst t) simp
  with u have "u = s\<lparr>db := db u\<rparr>" by (simp only:)
  then show ?thesis using a same_recs_trans [of "db s" "db t" "db u"] by (simp add: seeks_def)
qed

lemma seeks_fields:
  assumes "seeks s s'"
  shows "conns s' = conns s" "volumes s' = volumes s" "tfiles s' = tfiles s" "sent s' = sent s"
    "closed s' = closed s" "nofconns s' = nofconns s" "store_inv (db s') = store_inv (db s)"
    "db_ok (db s') = db_ok (db s)" "store_data (db s') = store_data (db s)"
    "store_index (db s') = store_index (db s)" "bind_inv (db s') = bind_inv (db s)" "conf_servername s' = conf_servername s"
proof -
  have e: "s' = s\<lparr>db := db s'\<rparr>" and r: "same_recs (db s) (db s')" using assms by (auto simp: seeks_def)
  show "conns s' = conns s" "volumes s' = volumes s" "tfiles s' = tfiles s" "sent s' = sent s"
    "closed s' = closed s" "nofconns s' = nofconns s" "conf_servername s' = conf_servername s"
    by (subst e, simp add: nofconns_def)+
  show "store_inv (db s') = store_inv (db s)" "store_data (db s') = store_data (db s)"
    "store_index (db s') = store_index (db s)" using same_recs_store [OF r] by auto
  show "db_ok (db s') = db_ok (db s)" by (rule same_recs_db_ok [OF r])
  show "bind_inv (db s') = bind_inv (db s)" by (rule same_recs_bind_inv [OF r])
qed

lemma seeks_db: "same_recs (db s) b \<Longrightarrow> wok b = wok (db s) \<Longrightarrow> wn b = wn (db s) \<Longrightarrow> seeks s (s\<lparr>db := b\<rparr>)"
  by (simp add: seeks_def)

text \<open>The object of a name and type: the first that matches.\<close>

definition obj_index :: "bindery \<Rightarrow> bytes \<Rightarrow> u16 \<Rightarrow> nat option" where
  "obj_index b n t = first_index (\<lambda>r. obj_match n t (obj_of r)) (recs (net_obj b))"

definition obj_id_of :: "bindery \<Rightarrow> bytes \<Rightarrow> u16 \<Rightarrow> u32 option" where
  "obj_id_of b n t = map_option (\<lambda>k. be32 (object_id (recs (net_obj b) ! k))) (obj_index b n t)"

lemma same_recs_obj: "same_recs b b' \<Longrightarrow> obj_id_of b' = obj_id_of b"
  by (simp add: same_recs_def obj_id_of_def obj_index_def fun_eq_iff)

lemma on_db_scan_object:
  assumes "db_ok (db s)"
  shows "\<exists>x s'. on_db (bindio_scan_object n t) s = Some (x, s') \<and> seeks s s' \<and>
    map_option (\<lambda>(_, ob). ob_id ob) x = obj_id_of (db s) n t"
  using assms
  by (auto simp: on_db_def bindio_scan_object_eq obj_id_of_def obj_index_def seeks_def split: option.splits)

lemma on_db_scan_prop:
  assumes "db_ok (db s)"
  shows "\<exists>s'. on_db (bindio_scan_prop i n) s =
      Some (map_option (\<lambda>k. prop_of (recs (net_prop (db s)) ! k)) (prop_index (db s) i n), s') \<and> seeks s s'"
  using assms
  by (auto simp: on_db_def bindio_scan_prop_eq prop_index_def seeks_def split: option.splits)

lemma on_db_scan_val:
  "\<exists>s'. on_db (bindio_scan_val i) s =
      Some (map_option (\<lambda>k. bindio_conv_val (recs (net_val (db s)) ! k)) (val_index (db s) i), s') \<and> seeks s s'"
  by (auto simp: on_db_def bindio_scan_val_eq val_index_def seeks_def split: option.splits)

lemma seeks_recs:
  assumes "seeks s s'"
  shows "recs (net_obj (db s')) = recs (net_obj (db s))" "recs (net_prop (db s')) = recs (net_prop (db s))"
    "recs (net_val (db s')) = recs (net_val (db s))" "obj_id_of (db s') = obj_id_of (db s)"
    "prop_index (db s') = prop_index (db s)" "val_index (db s') = val_index (db s)"
  using assms by (simp_all add: seeks_def same_recs_def obj_id_of_def obj_index_def prop_index_def val_index_def fun_eq_iff)

text \<open>What a set test answers, in terms of the contents of the property.\<close>

definition set_answer :: "bindery \<Rightarrow> u32 \<Rightarrow> bytes \<Rightarrow> u32 \<Rightarrow> u8" where
  "set_answer b i n m = (case store_data b i n of None \<Rightarrow> BINDERY_ERROR_NOSUCHPROPERTY
     | Some d \<Rightarrow> if set_has m d then BINDERY_ERROR_OK else BINDERY_ERROR_NOSUCHMEMBER)"

lemma vl_data_conv [simp]: "vl_data (bindio_conv_val r) = val_data r"
  by (simp add: bindio_conv_val_def)

lemma objinset_null:
  assumes "db_ok (db s)"
  shows "\<exists>s'. objinset_with no_check t None i n mt None m s = Some (set_answer (db s) i n m, s') \<and> seeks s s'"
proof -
  from on_db_scan_prop [OF assms, of i n] obtain s1 where
    p: "on_db (bindio_scan_prop i n) s = Some (map_option (\<lambda>k. prop_of (recs (net_prop (db s)) ! k)) (prop_index (db s) i n), s1)"
    and s1: "seeks s s1" by auto
  show ?thesis
  proof (cases "prop_index (db s) i n")
    case None
    then show ?thesis using p s1
      by (auto simp: objinset_with_def set_answer_def store_data_def store_index_def)
  next
    case (Some k)
    let ?v = "be32 (prop_valueid (recs (net_prop (db s)) ! k))"
    from on_db_scan_val [of ?v s1] obtain s2 where
      v: "on_db (bindio_scan_val ?v) s1 = Some (map_option (\<lambda>k. bindio_conv_val (recs (net_val (db s1)) ! k)) (val_index (db s1) ?v), s2)"
      and s2: "seeks s1 s2" by auto
    have "recs (net_val (db s1)) = recs (net_val (db s))" "val_index (db s1) ?v = val_index (db s) ?v"
      using s1 by (auto simp: seeks_def same_recs_def val_index_def)
    then show ?thesis using p v Some seeks_trans [OF s1 s2]
      by (auto simp: objinset_with_def set_answer_def store_data_def store_index_def bindio_conv_val_def
          split: option.splits)
  qed
qed

text \<open>The rule of \<^verbatim>\<open>bind_check_access\<close>, read off the four bits of the security byte.\<close>

definition access_rule :: "connection \<Rightarrow> u32 \<Rightarrow> u8 \<Rightarrow> bool" where
  "access_rule k objid nib \<longleftrightarrow>
     nib = 0 \<or> nib = 1 \<and> c_object_id k \<noteq> no_id \<or>
     nib = 2 \<and> (object_supervisor k \<noteq> 0 \<or> c_object_id k = objid) \<or>
     nib = 3 \<and> object_supervisor k \<noteq> 0 \<or> nib = 4"

lemma bind_check_access_eq:
  assumes "db_ok (db s)" "c < length (conns s)"
  shows "\<exists>s'. bind_check_access c i sec rw s =
      Some (if set_answer (db s) i (ascii ''OBJ_SUPERVISORS'') (c_object_id (conns s ! c)) = BINDERY_ERROR_OK \<or>
              access_rule (conns s ! c) i (if rw \<noteq> 0 then drop_bit 4 sec else sec AND 0xf) then 0 else -1, s') \<and>
    seeks s s'"
proof -
  from objinset_null [OF assms(1), of 0 i "ascii ''OBJ_SUPERVISORS''" 1 "c_object_id (conns s ! c)"]
  obtain s' where e: "objinset_with no_check 0 None i (ascii ''OBJ_SUPERVISORS'') 1 None (c_object_id (conns s ! c)) s =
      Some (set_answer (db s) i (ascii ''OBJ_SUPERVISORS'') (c_object_id (conns s ! c)), s')" "seeks s s'" by auto
  show ?thesis
    by (rule exI [of _ s'])
      (use e assms(2) in \<open>simp add: bind_check_access_def access_rule_def Let_def del: ascii_simps\<close>)
qed


text \<open>\<^verbatim>\<open>bind_is_objinset\<close> with names.\<close>

lemma objinset_names:
  assumes "db_ok (db s)"
    and acc: "\<And>i sec u. seeks s u \<Longrightarrow> \<exists>u'. access i sec u = Some (if g i sec then 0 else -1, u') \<and> seeks u u'"
  shows "\<exists>s'. objinset_with access t (Some n) i pn mt (Some mn) m s = Some
      (case obj_id_of (db s) n t of None \<Rightarrow> BINDERY_ERROR_NOSUCHOBJECT
       | Some oid \<Rightarrow> (case prop_index (db s) oid pn of None \<Rightarrow> BINDERY_ERROR_NOSUCHPROPERTY
         | Some k \<Rightarrow> if \<not> g oid (prop_security (recs (net_prop (db s)) ! k)) then BINDERY_ERROR_SECURITY
         else case obj_id_of (db s) mn mt of None \<Rightarrow> BINDERY_ERROR_NOSUCHOBJECT
         | Some mid \<Rightarrow> set_answer (db s) oid pn mid), s') \<and> seeks s s'"
proof -
  from on_db_scan_object [OF assms(1), of n t] obtain x s1 where
    o: "on_db (bindio_scan_object n t) s = Some (x, s1)" "seeks s s1" "map_option (\<lambda>(_, ob). ob_id ob) x = obj_id_of (db s) n t"
    by auto
  show ?thesis
  proof (cases "obj_id_of (db s) n t")
    case None
    then show ?thesis using o by (auto simp: objinset_with_def)
  next
    case (Some oid)
    have ok1: "db_ok (db s1)" using seeks_fields [OF o(2)] assms(1) by simp
    note r1 = seeks_recs [OF o(2)]
    from on_db_scan_prop [OF ok1, of oid pn] obtain s2 where
      p: "on_db (bindio_scan_prop oid pn) s1 = Some (map_option (\<lambda>k. prop_of (recs (net_prop (db s)) ! k)) (prop_index (db s) oid pn), s2)"
      "seeks s1 s2" using r1 by auto
    have s02: "seeks s s2" using seeks_trans [OF o(2) p(2)] .
    show ?thesis
    proof (cases "prop_index (db s) oid pn")
      case None
      then show ?thesis using o Some p s02 by (auto simp: objinset_with_def)
    next
      case k: (Some k)
      let ?sec = "prop_security (recs (net_prop (db s)) ! k)"
      from acc [OF s02, of oid ?sec] obtain sa where a: "access oid ?sec s2 = Some (if g oid ?sec then 0 else -1, sa)" "seeks s2 sa"
        by blast
      have s0a: "seeks s sa" using seeks_trans [OF s02 a(2)] .
      have ok2: "db_ok (db sa)" using seeks_fields [OF s0a] assms(1) by simp
      obtain ro ob where xo: "x = Some (ro, ob)" "ob_id ob = oid" using o(3) Some by auto
      from on_db_scan_object [OF ok2, of mn mt] obtain y s3 where
        m: "on_db (bindio_scan_object mn mt) sa = Some (y, s3)" "seeks sa s3"
          "map_option (\<lambda>(_, ob). ob_id ob) y = obj_id_of (db s) mn mt"
        using seeks_recs [OF s0a] by auto
      have s03: "seeks s s3" using seeks_trans [OF s0a m(2)] .
      show ?thesis
      proof (cases "g oid ?sec")
        case False
        show ?thesis using s0a False by (simp add: objinset_with_def o(1) xo p(1) k a(1) [unfolded if_not_P [OF False]] Some)
      next
        case gr: True
        note a1 = a(1) [unfolded if_P [OF gr]]
        show ?thesis
      proof (cases "obj_id_of (db s) mn mt")
        case None
        then show ?thesis using o Some p k m s03 a1 gr by (auto simp: objinset_with_def)
      next
        case mid: (Some mid)
        let ?v = "be32 (prop_valueid (recs (net_prop (db s)) ! k))"
        from on_db_scan_val [of ?v s3] obtain s4 where
          v: "on_db (bindio_scan_val ?v) s3 = Some (map_option (\<lambda>k. bindio_conv_val (recs (net_val (db s)) ! k)) (val_index (db s) ?v), s4)"
          "seeks s3 s4" using seeks_recs [OF s03] by auto
        obtain rm mem where xy: "x = Some (ro, ob)" "ob_id ob = oid" "y = Some (rm, mem)" "ob_id mem = mid"
          using xo m(3) mid by auto
        show ?thesis
        proof (cases "val_index (db s) ?v")
          case None
          then show ?thesis using seeks_trans [OF s03 v(2)]
            by (simp add: objinset_with_def o(1) xy p(1) k a1 m(1) v(1) Some mid gr set_answer_def store_data_def store_index_def)
        next
          case l: (Some l)
          then show ?thesis using seeks_trans [OF s03 v(2)]
            by (simp add: objinset_with_def o(1) xy p(1) k a1 m(1) v(1) Some mid gr set_answer_def store_data_def store_index_def)
        qed
      qed
      qed
    qed
  qed
qed

text \<open>Whether a connection may read (or, with \<open>rw\<close>, write) a property; connection 0 stands for the server itself.\<close>

definition access_granted :: "nat \<Rightarrow> srv \<Rightarrow> u32 \<Rightarrow> u8 \<Rightarrow> int \<Rightarrow> bool" where
  "access_granted c s i sec rw \<longleftrightarrow> c = 0 \<or>
     set_answer (db s) i (ascii ''OBJ_SUPERVISORS'') (c_object_id (conns s ! c)) = BINDERY_ERROR_OK \<or>
     access_rule (conns s ! c) i (if rw \<noteq> 0 then drop_bit 4 sec else sec AND 0xf)"

lemma access_check:
  assumes "db_ok (db s)" "c = 0 \<or> c < length (conns s)" "seeks s u"
  shows "\<exists>u'. (if c > 0 then bind_check_access c i sec rw u else Some (0, u)) =
    Some (if access_granted c s i sec rw then 0 else -1, u') \<and> seeks u u'"
proof (cases "c = 0")
  case False
  have f: "db_ok (db u)" "c < length (conns u)" "set_answer (db u) = set_answer (db s)" "conns u = conns s"
    using seeks_fields [OF assms(3)] assms(1,2) False by (simp_all add: set_answer_def fun_eq_iff)
  show ?thesis using bind_check_access_eq [OF f(1,2), of i sec rw] False unfolding f(3,4) access_granted_def by simp
qed (simp add: access_granted_def)

lemma is_objinset_eq:
  assumes "db_ok (db s)" "c = 0 \<or> c < length (conns s)"
  shows "\<exists>s'. bind_is_objinset c t (Some n) i pn mt (Some mn) m s = Some
      (case obj_id_of (db s) n t of None \<Rightarrow> BINDERY_ERROR_NOSUCHOBJECT
       | Some oid \<Rightarrow> (case prop_index (db s) oid pn of None \<Rightarrow> BINDERY_ERROR_NOSUCHPROPERTY
         | Some k \<Rightarrow> if \<not> access_granted c s oid (prop_security (recs (net_prop (db s)) ! k)) 0 then BINDERY_ERROR_SECURITY
         else case obj_id_of (db s) mn mt of None \<Rightarrow> BINDERY_ERROR_NOSUCHOBJECT
         | Some mid \<Rightarrow> set_answer (db s) oid pn mid), s') \<and> seeks s s'"
  unfolding bind_is_objinset_def
proof (rule objinset_names [OF assms(1)])
  fix i sec u assume "seeks s u"
  from access_check [OF assms this, of i sec 0]
  show "\<exists>u'. (if c > 0 then (\<lambda>i sec s. bind_check_access c i sec 0 s) else no_check) i sec u =
      Some (if access_granted c s i sec 0 then 0 else -1, u') \<and> seeks u u'" by (cases "c > 0") simp_all
qed

text \<open>What \<^verbatim>\<open>bind_add_remove_objfromset\<close> edits, and when it may.\<close>

definition set_edit :: "u8 \<Rightarrow> u32 \<Rightarrow> bytes \<Rightarrow> (bool \<times> bytes) option" where
  "set_edit ad m d = (if ad \<noteq> 0 then Some (set_del m [0..<32] False d) else set_add m [0..<32] False d)"

lemma add_remove_cases:
  assumes "db_ok (db s)" "bind_add_remove_objfromset c t n pn mt mn ad s = Some (e, s')" "c = 0 \<or> c < length (conns s)"
  shows "e \<noteq> BINDERY_ERROR_OK \<and> seeks s s' \<and> (obj_id_of (db s) n t = None \<or> prop_index (db s) (the (obj_id_of (db s) n t)) pn = None) \<or>
    (\<exists>oid k. obj_id_of (db s) n t = Some oid \<and> prop_index (db s) oid pn = Some k \<and>
      (if access_granted c s oid (prop_security (recs (net_prop (db s)) ! k)) 1
       then e \<noteq> BINDERY_ERROR_OK \<or> (\<exists>mid d d' s1. obj_id_of (db s) mn mt = Some mid \<and>
      store_data (db s) oid pn = Some d \<and> set_edit ad mid d = Some (True, d') \<and> seeks s s1 \<and>
      on_db (bindio_write_prop oid pn 1 0 d') s1 = Some (e, s'))
       else e = BINDERY_ERROR_SECURITY \<and> seeks s s'))"
proof -
  from on_db_scan_object [OF assms(1), of n t] obtain x s1 where
    o: "on_db (bindio_scan_object n t) s = Some (x, s1)" "seeks s s1" "map_option (\<lambda>(_, ob). ob_id ob) x = obj_id_of (db s) n t"
    by auto
  show ?thesis
  proof (cases x)
    case None
    then show ?thesis using o assms(2) by (auto simp: bind_add_remove_objfromset_def)
  next
    case (Some r)
    then obtain rr ob where x: "x = Some (rr, ob)" by (cases r) auto
    have oid: "obj_id_of (db s) n t = Some (ob_id ob)" using o(3) x by simp
    have ok1: "db_ok (db s1)" using seeks_fields [OF o(2)] assms(1) by simp
    from on_db_scan_prop [OF ok1, of "ob_id ob" pn] obtain s2 where
      p: "on_db (bindio_scan_prop (ob_id ob) pn) s1 = Some (map_option (\<lambda>k. prop_of (recs (net_prop (db s)) ! k)) (prop_index (db s) (ob_id ob) pn), s2)"
      "seeks s1 s2" using seeks_recs [OF o(2)] by auto
    have s02: "seeks s s2" using seeks_trans [OF o(2) p(2)] .
    show ?thesis
    proof (cases "prop_index (db s) (ob_id ob) pn")
      case None
      then show ?thesis using o x p assms(2) s02 oid by (auto simp: bind_add_remove_objfromset_def)
    next
      case k: (Some k)
      let ?sec = "prop_security (recs (net_prop (db s)) ! k)" and ?oid = "ob_id ob"
      from access_check [OF assms(1,3) s02, of ?oid ?sec 1] obtain sa where
        a: "(if c > 0 then bind_check_access c ?oid ?sec 1 s2 else Some (0, s2)) = Some (if access_granted c s ?oid ?sec 1 then 0 else -1, sa)"
          "seeks s2 sa" by blast
      have pr: "pr_security (prop_of (recs (net_prop (db s)) ! k)) = ?sec" by simp
      have check: "(if c > 0 then bind_check_access c ?oid (pr_security (prop_of (recs (net_prop (db s)) ! k))) 1 s2 else Some (0, s2)) =
          Some (if access_granted c s ?oid ?sec 1 then 0 else -1, sa)" unfolding pr by (rule a(1))
      have s0a: "seeks s sa" using seeks_trans [OF s02 a(2)] .
      have ok2: "db_ok (db sa)" using seeks_fields [OF s0a] assms(1) by simp
      from on_db_scan_object [OF ok2, of mn mt] obtain y s3 where
        m: "on_db (bindio_scan_object mn mt) sa = Some (y, s3)" "seeks sa s3"
          "map_option (\<lambda>(_, ob). ob_id ob) y = obj_id_of (db s) mn mt"
        using seeks_recs [OF s0a] by auto
      have s03: "seeks s s3" using seeks_trans [OF s0a m(2)] .
      show ?thesis
      proof (cases "access_granted c s ?oid ?sec 1")
        case False
        then have "e = BINDERY_ERROR_SECURITY \<and> s' = sa"
          using assms(2) by (simp add: bind_add_remove_objfromset_def o(1) x p(1) k check [unfolded if_not_P [OF False]])
        then show ?thesis using oid k False s0a by auto
      next
        case gr: True
        note sim = o(1) x p(1) k check [unfolded if_P [OF gr]] m(1)
        show ?thesis
      proof (cases y)
        case None
        then have "e \<noteq> BINDERY_ERROR_OK" using assms(2) by (simp add: bind_add_remove_objfromset_def sim)
        then show ?thesis using oid k gr by auto
      next
        case (Some r)
        then obtain rm mem where y: "y = Some (rm, mem)" by (cases r) auto
        let ?v = "be32 (prop_valueid (recs (net_prop (db s)) ! k))"
        from on_db_scan_val [of ?v s3] obtain s4 where
          v: "on_db (bindio_scan_val ?v) s3 = Some (map_option (\<lambda>k. bindio_conv_val (recs (net_val (db s)) ! k)) (val_index (db s) ?v), s4)"
          "seeks s3 s4" using seeks_recs [OF s03] by auto
        have mid: "obj_id_of (db s) mn mt = Some (ob_id mem)" using m(3) y by simp
        show ?thesis
        proof (cases "val_index (db s) ?v")
          case None
          then have "e \<noteq> BINDERY_ERROR_OK" using assms(2) by (simp add: bind_add_remove_objfromset_def sim y v(1))
          then show ?thesis using oid k gr by auto
        next
          case (Some l)
          let ?d = "val_data (recs (net_val (db s)) ! l)"
          have d: "store_data (db s) (ob_id ob) pn = Some ?d"
            using k Some by (simp add: store_data_def store_index_def)
          have "(case set_edit ad (ob_id mem) ?d of None \<Rightarrow> Some (BINDERY_ERROR_IOERROR, s4)
              | Some (ok, d) \<Rightarrow> if \<not> ok then Some (BINDERY_ERROR_IOERROR, s4)
                  else on_db (bindio_write_prop (ob_id ob) pn 1 0 d) s4) = Some (e, s')"
            using assms(2) Some
            by (simp add: bind_add_remove_objfromset_def sim y v(1) set_edit_def [symmetric])
          then show ?thesis using oid k gr mid d seeks_trans [OF s03 v(2)]
            by (auto split: option.splits if_splits)
        qed
      qed
      qed
    qed
  qed
qed

section \<open>The edits\<close>

lemma set_word_put:
  "i + 3 < length d \<Longrightarrow> set_word (put_word d i w) i = w"
  by (cases "to_be32 w") (simp add: set_word_def put_word_def nth_list_update be32.dec_eq_iff del: be32.simps)

lemma length_put_word [simp]: "length (put_word d i w) = length d"
  by (simp add: put_word_def split: prod.splits)

lemma set_add_done [simp]: "set_add m is True d = Some (True, d)"
  by (induction "is" arbitrary: d) auto

lemma set_add_member:
  "set_add m is False d = Some (True, d') \<Longrightarrow> \<forall>i\<in>set is. i + 3 < length d \<Longrightarrow>
    (\<exists>i\<in>set is. set_word d' i = m) \<and> length d' = length d"
proof (induction "is" arbitrary: d)
  case (Cons i "is")
  show ?case
  proof (cases "set_word d i = 0 \<and> set_word d i \<noteq> m")
    case True
    then have "d' = put_word d i m" using Cons.prems(1) by (auto split: if_splits)
    then show ?thesis using Cons.prems(2) set_word_put [of i d m] by simp
  next
    case False
    then show ?thesis using Cons by (auto split: if_splits)
  qed
qed simp


text \<open>
  Zeros written over one copy of an id can complete another copy at an earlier offset only when the
  id ends in a zero byte.
\<close>

definition last_byte :: "u32 \<Rightarrow> u8" where
  "last_byte w = snd (snd (snd (to_be32 w)))"

lemma set_word_last: "set_word d j = m \<Longrightarrow> d ! (j + 3) = last_byte m"
  by (auto simp: set_word_def last_byte_def simp del: be32.simps)

lemma put_zero_nth:
  "i + 3 < length d \<Longrightarrow> put_word d i 0 ! j = (if i \<le> j \<and> j \<le> i + 3 then 0 else d ! j)"
  by (auto simp: put_word_def to_be32_def nth_list_update)

lemma put_zero_word:
  assumes "i + 3 < length d" "j \<le> i" "last_byte m \<noteq> 0" "j < i \<longrightarrow> set_word d j \<noteq> m"
  shows "set_word (put_word d i 0) j \<noteq> m"
proof (cases "i \<le> j + 3")
  case True
  then have "put_word d i 0 ! (j + 3) = 0" using assms(1,2) put_zero_nth by simp
  then show ?thesis using assms(3) set_word_last by metis
next
  case False
  then have "set_word (put_word d i 0) j = set_word d j"
    using put_zero_nth [OF assms(1)] by (simp add: set_word_def del: be32.simps)
  then show ?thesis using False assms(4) by simp
qed

lemma set_del_member:
  assumes "set_del m [k..<n] ok d = (ok', d')" "n + 3 \<le> length d" "last_byte m \<noteq> 0" "\<forall>j<k. set_word d j \<noteq> m" "k \<le> n"
  shows "(\<forall>j<n. set_word d' j \<noteq> m) \<and> length d' = length d"
  using assms
proof (induction "n - k" arbitrary: k ok d)
  case 0
  then show ?case by simp
next
  case (Suc x)
  then have k: "k < n" "[k..<n] = k # [Suc k..<n]" "x = n - Suc k" by (auto simp: upt_conv_Cons)
  show ?case
  proof (cases "set_word d k = m")
    case True
    let ?d = "put_word d k 0"
    have "\<forall>j<Suc k. set_word ?d j \<noteq> m"
      using put_zero_word [of k d _ m] Suc.prems k by (auto simp: less_Suc_eq_le)
    then show ?thesis using Suc.hyps(1) [of "Suc k" True ?d] Suc.prems k True by simp
  next
    case False
    then have "\<forall>j<Suc k. set_word d j \<noteq> m" using Suc.prems(4) by (auto simp: less_Suc_eq)
    then show ?thesis using Suc.hyps(1) [of "Suc k" ok d] Suc.prems k False by simp
  qed
qed

lemma set_has_iff: "set_has m d \<longleftrightarrow> (\<exists>i<32. set_word d i = m)"
  by (auto simp: set_has_def list_ex_iff)

lemma set_edit_result:
  assumes "length d = 128" "set_edit ad m d = Some (True, d')" "ad \<noteq> 0 \<longrightarrow> last_byte m \<noteq> 0"
  shows "set_has m d' \<longleftrightarrow> ad = 0" "length d' = 128"
proof -
  have "(set_has m d' \<longleftrightarrow> ad = 0) \<and> length d' = 128"
  proof (cases "ad = 0")
    case True
    then show ?thesis using set_add_member [of m "[0..<32]" d d'] assms by (auto simp: set_edit_def set_has_iff)
  next
    case False
    then show ?thesis using set_del_member [of m 0 32 False d True d'] assms by (auto simp: set_edit_def set_has_iff)
  qed
  then show "set_has m d' \<longleftrightarrow> ad = 0" "length d' = 128" by auto
qed

lemma store_data_length: "store_inv b \<Longrightarrow> store_data b i n = Some d \<Longrightarrow> length d = 128"
  by (auto simp: store_data_def store_inv_def db_ok_def val_rec_ok_def elim!: store_indexD)

text \<open>After a successful edit the property holds the edited bytes, and the objects are the same.\<close>

lemma write_prop_result:
  assumes "store_inv (db s)" "length d = 128" "on_db (bindio_write_prop i n 1 0 d) s = Some (0, s')"
  shows "store_inv (db s')" "store_data (db s') i n = Some d" "obj_id_of (db s') = obj_id_of (db s)"
    "prop_index (db s') = prop_index (db s)" "s' = s\<lparr>db := db s'\<rparr>"
proof -
  have ok: "db_ok (db s)" using assms(1) by (simp add: store_inv_def)
  obtain b where w: "bindio_write_prop i n 1 0 d (db s) = Some (0, b)" and s': "s' = s\<lparr>db := b\<rparr>"
    using assms(3) by (auto simp: on_db_def bind_eq_Some_conv)
  obtain e b' where p: "bindio_write_prop i n 1 0 d (db s) = Some (e, b')" "store_inv b'"
    "e = 0 \<Longrightarrow> store_data b' i n = Some d"
    using put_prop_store [OF assms(1,2), of i n i n] by (metis (no_types, lifting))
  then show "store_inv (db s')" "store_data (db s') i n = Some d" using w s' by simp_all
  obtain b'' where q: "bindio_write_prop i n 1 0 d (db s) = Some (case store_index (db s) i n of None \<Rightarrow> BINDERY_ERROR_NOSUCHPROPERTY
       | Some l \<Rightarrow> if wok (db s) (wn (db s)) then BINDERY_ERROR_OK else BINDERY_ERROR_IOERROR, b'')"
    "same_recs (case store_index (db s) i n of None \<Rightarrow> db s
       | Some l \<Rightarrow> if wok (db s) (wn (db s)) then put_val (db s) l d else db s) b''"
    using bindio_write_prop_eq [OF ok assms(2), of i n] by metis
  have "recs (net_obj b'') = recs (net_obj (db s))" "recs (net_prop b'') = recs (net_prop (db s))"
    using q(2) by (auto simp: same_recs_def split: option.splits if_splits)
  then show "obj_id_of (db s') = obj_id_of (db s)" "prop_index (db s') = prop_index (db s)"
    using w q(1) s' by (auto simp: obj_id_of_def obj_index_def prop_index_def fun_eq_iff)
  show "s' = s\<lparr>db := db s'\<rparr>" using s' by simp
qed

lemma add_remove_member:
  assumes inv: "store_inv (db s)" and run: "bind_add_remove_objfromset c t n pn mt mn ad s = Some (0, s')"
    and c: "c = 0 \<or> c < length (conns s)" and c': "c' = 0 \<or> c' < length (conns s')"
    and lb: "ad \<noteq> 0 \<longrightarrow> (\<forall>m. obj_id_of (db s) mn mt = Some m \<longrightarrow> last_byte m \<noteq> 0)"
    and pi: "obj_id_of (db s) n t = Some oid" "prop_index (db s) oid pn = Some k"
  shows "\<exists>s''. bind_is_objinset c' t (Some n) 0 pn mt (Some mn) 0 s' =
      Some (if access_granted c' s' oid (prop_security (recs (net_prop (db s')) ! k)) 0
            then if ad = 0 then BINDERY_ERROR_OK else BINDERY_ERROR_NOSUCHMEMBER
            else BINDERY_ERROR_SECURITY, s'') \<and> seeks s' s''"
proof -
  have ok: "db_ok (db s)" using inv by (simp add: store_inv_def)
  from add_remove_cases [OF ok run c] obtain oid1 mid d d' s1 where
    a: "obj_id_of (db s) n t = Some oid1" "obj_id_of (db s) mn mt = Some mid" "store_data (db s) oid1 pn = Some d"
      "set_edit ad mid d = Some (True, d')" "seeks s s1" "on_db (bindio_write_prop oid1 pn 1 0 d') s1 = Some (0, s')"
    by (auto split: if_splits)
  have d': "set_has mid d' \<longleftrightarrow> ad = 0" "length d' = 128"
    using set_edit_result [OF store_data_length [OF inv a(3)] a(4)] lb a(2) by auto
  have inv1: "store_inv (db s1)" using seeks_fields [OF a(5)] inv by simp
  note w = write_prop_result [OF inv1 d'(2) a(6)]
  have ok': "db_ok (db s')" using w(1) by (simp add: store_inv_def)
  have o: "oid = oid1" using a(1) pi(1) by simp
  have pi': "obj_id_of (db s') n t = Some oid" "prop_index (db s') oid pn = Some k" using w pi seeks_recs [OF a(5)] by simp_all
  have sd: "store_data (db s') oid pn = Some d'" using w(2) o by simp
  have m: "set_answer (db s') oid pn mid = (if ad = 0 then BINDERY_ERROR_OK else BINDERY_ERROR_NOSUCHMEMBER)"
    using d' sd by (simp add: set_answer_def)
  have mid: "obj_id_of (db s') mn mt = Some mid" using w a(2) seeks_recs [OF a(5)] by simp
  show ?thesis
    using is_objinset_eq [OF ok' c', of t n 0 pn mt mn 0]
    by (cases "access_granted c' s' oid (prop_security (recs (net_prop (db s')) ! k)) 0") (simp_all add: pi' mid m)
qed

section \<open>Logging in\<close>

lemma set_then_verify:
  assumes "store_inv b" "bind_set_pwd i pwd junk b = Some (0, b')"
  shows "\<exists>b''. bind_verify_pwd i r key b' =
    Some (if take 8 r = nw_encrypt key (shuffle (list_b4 (to_be32 i)) pwd (length pwd)) then 0 else -1, b'')"
proof -
  let ?h = "shuffle (list_b4 (to_be32 i)) pwd (length pwd)"
  let ?pw = "ascii ''PASSWORD''"
  define x where "x = ?h @ map junk [16..<128]"
  have l: "length x = 128" and t: "take 16 x = ?h" by (simp_all add: x_def del: upt_rec_numeral)
  have w: "bindio_write_prop i ?pw 1 0 x b = Some (0, b')"
    using assms(2) unfolding bind_set_pwd_def Let_def x_def [symmetric]
    by (auto simp: bind_eq_Some_conv split: if_splits)
  from bindery_files.read_after_write [OF assms(1) l w] obtain b'' where
    "get_prop i ?pw b' = Some (Some x, b'')" by auto
  then obtain y where y: "bindio_read_prop i ?pw 1 b' = Some (y, b'')"
    "(case y of Inl _ \<Rightarrow> None | Inr (v, _) \<Rightarrow> Some (vl_data v)) = Some x"
    by (auto simp: get_prop_def bind_eq_Some_conv simp del: ascii_simps)
  then obtain v p where r: "bindio_read_prop i ?pw 1 b' = Some (Inr (v, p), b'')" "vl_data v = x"
    by (cases y) auto
  have "nw_encrypt key x = nw_encrypt key ?h"
    by (rule nw_encrypt_cong) (simp_all add: l t)
  then show ?thesis using r by (simp add: bind_verify_pwd_def del: ascii_simps)
qed

end
