(* ===== verification/Fr_BinderyDel.thy ===== *)
theory Fr_BinderyDel
  imports Fr_BinderyAdd "HOL-Library.Multiset"
begin

text \<open>
  What \<^verbatim>\<open>bindio_delete_prop\<close> and \<^verbatim>\<open>bindio_delete_obj\<close> do to the files. The call of
  \<^verbatim>\<open>bindio_dump\<close> inside \<^verbatim>\<open>bindio_delete_prop\<close> moves the property stream to the end of its file, so the
  record the function then drops is the last one, whichever was asked for.
\<close>

section \<open>Chains that stop\<close>

text \<open>A chain may also stop at a reference that no record has; the walks end there too.\<close>

inductive chain_stops :: "netprop_rec list \<Rightarrow> u32 \<Rightarrow> bool" for ps where
  stops_here: "id_index ps i = None \<Longrightarrow> chain_stops ps i"
| stops_next: "id_index ps i = Some k \<Longrightarrow> chain_stops ps (be32 (prop_nextid (ps ! k))) \<Longrightarrow> chain_stops ps i"

lemma chain_ends_stops:
  "chain_ends ps i \<Longrightarrow> \<forall>r\<in>set ps. be32 (prop_id r) \<noteq> no_id \<Longrightarrow> chain_stops ps i"
proof (induction rule: chain_ends.induct)
  case chain_stop
  then show ?case by (auto simp: first_index_None intro: stops_here)
qed (auto intro: stops_next)

lemma id_index_butlast:
  "id_index (butlast ps) i = (case id_index ps i of Some k \<Rightarrow> if k < length ps - 1 then Some k else None | None \<Rightarrow> None)"
proof (cases ps rule: rev_cases)
  case (snoc qs r)
  have "k < length qs" if "id_index qs i = Some k" for k using that by (rule first_index_lessD)
  then show ?thesis by (auto simp: snoc first_index_append split: option.splits)
qed simp

lemma chain_stops_butlast: "chain_stops ps i \<Longrightarrow> chain_stops (butlast ps) i"
proof (induction rule: chain_stops.induct)
  case (stops_here i)
  then show ?case by (auto simp: id_index_butlast intro: chain_stops.stops_here)
next
  case (stops_next i k)
  show ?case
  proof (cases "k < length ps - 1")
    case True
    then have "butlast ps ! k = ps ! k" by (simp add: nth_butlast)
    then show ?thesis using stops_next True chain_stops.stops_next [of i "butlast ps" k]
      by (simp add: id_index_butlast)
  next
    case False
    then show ?thesis using stops_next by (auto simp: id_index_butlast intro: chain_stops.stops_here)
  qed
qed

lemma dump_chain_stops:
  assumes "chain_stops (recs (net_prop b)) i" "db_ok b"
  shows "\<exists>b'. dump_chain i b = Some b' \<and> same_recs b b' \<and> net_obj b' = net_obj b \<and> wok b' = wok b \<and> wn b' = wn b"
proof -
  have "\<exists>m. dump_chain i (at_prop b n) = Some (at_prop b m)" for n
    using assms(1)
  proof (induction arbitrary: n rule: chain_stops.induct)
    case (stops_here i)
    then show ?case using assms(2) by (auto simp: dump_chain.simps [of i] bindio_prop_seek_eq)
  next
    case (stops_next i k)
    then show ?case using assms(2) by (simp add: dump_chain.simps [of i] bindio_prop_seek_eq)
  qed
  from this [of "fpos (net_prop b)"] obtain m where "dump_chain i b = Some (at_prop b m)"
    by (auto simp: at_prop_def)
  then show ?thesis by simp
qed

lemma dump_objects_stops:
  assumes "db_ok b" "set rs \<subseteq> set (recs (net_obj b))"
    "\<forall>r\<in>set rs. chain_stops (recs (net_prop b)) (be32 (object_prop_id r))"
  shows "\<exists>b'. dump_objects rs b = Some b' \<and> same_recs b b' \<and> net_obj b' = net_obj b \<and> wok b' = wok b \<and> wn b' = wn b"
  using assms
proof (induction rs arbitrary: b)
  case (Cons r rs)
  have c: "bindio_conv_object r = Some (obj_of r)"
    using db_okD(1) [OF Cons.prems(1)] Cons.prems(2) by auto
  from dump_chain_stops [of b "be32 (object_prop_id r)"] Cons.prems obtain b1 where
    b1: "dump_chain (be32 (object_prop_id r)) b = Some b1" "same_recs b b1" "net_obj b1 = net_obj b"
      "wok b1 = wok b" "wn b1 = wn b" by auto
  have "db_ok b1" "recs (net_prop b1) = recs (net_prop b)"
    using same_recs_db_ok [OF b1(2)] Cons.prems(1) b1(2) by (simp_all add: same_recs_def)
  with Cons.IH [of b1] Cons.prems(2,3) b1(3) obtain b2 where
    "dump_objects rs b1 = Some b2" "same_recs b1 b2" "net_obj b2 = net_obj b1" "wok b2 = wok b1" "wn b2 = wn b1" by auto
  then show ?case using b1 c same_recs_trans [of b b1 b2] by simp
qed simp

lemma bindio_dump_stops:
  assumes "db_ok b" "\<forall>r\<in>set (recs (net_obj b)). chain_stops (recs (net_prop b)) (be32 (object_prop_id r))"
  shows "\<exists>b'. bindio_dump b = Some b' \<and> same_recs b b' \<and> wok b' = wok b \<and> wn b' = wn b"
  using dump_objects_stops [of b "recs (net_obj b)"] assms
  by (auto simp: bindio_dump_def same_recs_def)

section \<open>The record that goes\<close>

lemma nat_int_pred: "nat (int n - 1) = n - 1"
  by simp

lemma delete_prop_rec_at_end:
  assumes "fpos (net_prop b) = length (recs (net_prop b))" "recs (net_prop b) \<noteq> []" "wok b (wn b)"
  shows "\<exists>b'. delete_prop_rec b = (None, b') \<and> recs (net_prop b') = butlast (recs (net_prop b)) \<and>
    net_obj b' = net_obj b \<and> net_val b' = net_val b \<and> wok b' = wok b"
  using assms
  by (auto simp: delete_prop_rec_def ftell_def fseek_end_def fseek_set_def rewind_def trunc_prop_def
      ftruncate_def Let_def butlast_conv_take nat_int_pred)

lemma delete_val_rec_eq:
  assumes "fpos (net_val b) = Suc l" "l < length (recs (net_val b))" "\<forall>k. wok b k"
  shows "\<exists>b'. delete_val_rec b = (None, b') \<and> wok b' = wok b \<and> net_obj b' = net_obj b \<and> net_prop b' = net_prop b \<and>
    recs (net_val b') = (if Suc l = length (recs (net_val b)) then butlast (recs (net_val b))
      else (recs (net_val b))[l := last (recs (net_val b))])"
proof (cases "Suc l = length (recs (net_val b))")
  case True
  then show ?thesis using assms
    by (auto simp: delete_val_rec_def ftell_def fseek_end_def fseek_set_def trunc_val_def ftruncate_def
        Let_def butlast_conv_take nat_int_pred)
next
  case False
  let ?vs = "recs (net_val b)"
  have "?vs \<noteq> []" using assms(2) by auto
  then have "?vs ! (length ?vs - 1) = last ?vs" by (simp add: last_conv_nth)
  then show ?thesis using False assms
    by (auto simp: delete_val_rec_def ftell_def fseek_end_def fseek_set_def write_val_def fwrite_def fread_def
        Let_def nat_int_pred)
qed


lemma unlink_prop_effect:
  assumes "db_ok b" "\<forall>r\<in>set (recs (net_obj b)). chain_stops (recs (net_prop b)) (be32 (object_prop_id r))"
    and "\<forall>k. wok b k"
  shows "\<exists>e b'. unlink_prop pid i nx b = Some (e, b') \<and> recs (net_val b') = recs (net_val b) \<and>
    length (recs (net_prop b')) = length (recs (net_prop b)) \<and>
    (\<forall>k<length (recs (net_prop b)). be32 (prop_nextid (recs (net_prop b) ! k)) \<noteq> pid \<longrightarrow>
       recs (net_prop b') ! k = recs (net_prop b) ! k)"
proof (cases "first_index (\<lambda>r. be32 (prop_nextid r) = pid) (recs (net_prop b))")
  case (Some j)
  then have "j < length (recs (net_prop b))" "be32 (prop_nextid (recs (net_prop b) ! j)) = pid"
    by (simp_all add: first_index_Some)
  then show ?thesis using Some assms
    by (auto simp: unlink_prop_def bindio_scan_prop_nextid_eq write_prop_def fwrite_def fseek_set_def ftell_def
        nth_list_update)
next
  case None
  let ?b1 = "at_prop b (length (recs (net_prop b)))"
  have "db_ok ?b1" "\<forall>r\<in>set (recs (net_obj ?b1)). chain_stops (recs (net_prop ?b1)) (be32 (object_prop_id r))"
    using assms by simp_all
  from bindio_dump_stops [OF this] obtain b2 where b2: "bindio_dump ?b1 = Some b2" "same_recs ?b1 b2" "wok b2 = wok b"
    by auto
  have ok: "db_ok b2" using same_recs_db_ok [OF b2(2)] assms by simp
  have r2: "recs (net_prop b2) = recs (net_prop b)" "recs (net_val b2) = recs (net_val b)"
    using b2(2) by (simp_all add: same_recs_def)
  show ?thesis
  proof (cases "first_index (\<lambda>r. be32 (object_id r) = i) (recs (net_obj b2))")
    case ob: None
    then show ?thesis using None b2 r2
      by (simp add: unlink_prop_def bindio_scan_prop_nextid_eq assms bindio_scan_object_by_id_eq ok)
  next
    case (Some j)
    then show ?thesis using None b2 r2 assms(3)
      by (auto simp: unlink_prop_def bindio_scan_prop_nextid_eq assms bindio_scan_object_by_id_eq ok
          write_obj_def fwrite_def Let_def)
  qed
qed

lemma same_recs_prop_chain:
  "bind_inv b \<Longrightarrow> \<forall>r\<in>set (recs (net_obj b)). chain_stops (recs (net_prop b)) (be32 (object_prop_id r))"
  using chain_ends_stops by (auto simp: bind_inv_def)

lemma delete_prop_effect:
  assumes inv: "bind_inv b" and ne: "recs (net_obj b) \<noteq> []" and w: "\<forall>k. wok b k"
    and k: "id_index (recs (net_prop b)) pid = Some k"
    and l: "val_index b (be32 (prop_valueid (recs (net_prop b) ! k))) = Some l"
  shows "\<exists>e b'. bindio_delete_prop pid b = Some (e, b') \<and>
    recs (net_val b') = (if Suc l = length (recs (net_val b)) then butlast (recs (net_val b))
      else (recs (net_val b))[l := last (recs (net_val b))]) \<and>
    length (recs (net_prop b')) = length (recs (net_prop b)) - 1 \<and>
    (\<forall>j<length (recs (net_prop b)) - 1. be32 (prop_nextid (recs (net_prop b) ! j)) \<noteq> pid \<longrightarrow>
       recs (net_prop b') ! j = recs (net_prop b) ! j)"
proof -
  let ?ps = "recs (net_prop b)" and ?vs = "recs (net_val b)"
  have ok: "db_ok b" using inv by (rule bind_invD)
  have kl: "k < length ?ps" and ll: "l < length ?vs"
    using k l by (auto simp: val_index_def dest: first_index_lessD)
  let ?b1 = "at_prop b (Suc k)"
  have i1: "bind_inv ?b1" using inv same_recs_bind_inv [of b ?b1] by simp
  define b2 where "b2 = at_obj (at_prop ?b1 (length ?ps)) (length (recs (net_obj b)))"
  have d: "bindio_dump ?b1 = Some b2" using bindio_dump_eq [OF i1] ne by (simp add: b2_def)
  define b3 where "b3 = at_val b2 (Suc l)"
  have v: "bindio_scan_val (be32 (prop_valueid (?ps ! k))) b2 = Some (Some (bindio_conv_val (?vs ! l)), b3)"
    using l by (simp add: bindio_scan_val_eq val_index_def b2_def b3_def)
  have "fpos (net_val b3) = Suc l" "recs (net_val b3) = ?vs" "\<forall>k. wok b3 k" "net_prop b3 = (net_prop b)\<lparr>fpos := length ?ps\<rparr>"
    "recs (net_obj b3) = recs (net_obj b)"
    using w by (simp_all add: b3_def b2_def at_val_def at_prop_def at_obj_def)
  note b3 = this
  from delete_val_rec_eq [OF b3(1) _ b3(3)] ll b3 obtain b4 where b4: "delete_val_rec b3 = (None, b4)"
    "wok b4 = wok b3" "net_obj b4 = net_obj b3" "net_prop b4 = net_prop b3"
    "recs (net_val b4) = (if Suc l = length ?vs then butlast ?vs else ?vs[l := last ?vs])" by auto
  have "fpos (net_prop b4) = length (recs (net_prop b4))" "recs (net_prop b4) \<noteq> []" "wok b4 (wn b4)"
    using b4 b3 kl by auto
  from delete_prop_rec_at_end [OF this] obtain b5 where b5: "delete_prop_rec b4 = (None, b5)"
    "recs (net_prop b5) = butlast ?ps" "net_obj b5 = net_obj b4" "net_val b5 = net_val b4" "wok b5 = wok b4"
    using b4 b3 by auto
  have os: "recs (net_obj b5) = recs (net_obj b)" using b5 b4 b3 by simp
  have "db_ok b5"
  proof -
    have "set (recs (net_val b5)) \<subseteq> set ?vs"
    proof -
      have "?vs \<noteq> []" using ll by auto
      then have "last ?vs \<in> set ?vs" by (rule last_in_set)
      then show ?thesis using b4(5) b5(4)
        by (auto dest!: in_set_butlastD set_update_subset_insert [THEN subsetD] split: if_splits)
    qed
    moreover have "set (recs (net_prop b5)) \<subseteq> set ?ps" by (auto simp: b5 dest: in_set_butlastD)
    ultimately show ?thesis using ok os by (auto simp: db_ok_def)
  qed
  moreover have "\<forall>r\<in>set (recs (net_obj b5)). chain_stops (recs (net_prop b5)) (be32 (object_prop_id r))"
    using same_recs_prop_chain [OF inv] chain_stops_butlast by (simp add: os b5(2))
  ultimately obtain e b' where u: "unlink_prop pid (be32 (prop_objid (?ps ! k))) (be32 (prop_nextid (?ps ! k))) b5 = Some (e, b')"
    "recs (net_val b') = recs (net_val b5)" "length (recs (net_prop b')) = length (recs (net_prop b5))"
    "\<forall>j<length (recs (net_prop b5)). be32 (prop_nextid (recs (net_prop b5) ! j)) \<noteq> pid \<longrightarrow>
       recs (net_prop b') ! j = recs (net_prop b5) ! j"
    using unlink_prop_effect [of b5 pid "be32 (prop_objid (?ps ! k))" "be32 (prop_nextid (?ps ! k))"] b5(5) b4(2) b3(3)
    by auto
  have "bindio_delete_prop pid b = Some (e, b')"
    using k d v b4(1) b5(1) u(1) by (simp add: bindio_delete_prop_def bindio_scan_propid_eq [OF ok])
  then show ?thesis using u b5 b4 by (auto simp: nth_butlast)
qed

section \<open>Deleting an object without properties\<close>

lemma mset_swap_out_last:
  assumes "k < length xs"
  shows "mset (butlast (xs[k := last xs])) = mset xs - {#xs ! k#}"
proof (cases xs rule: rev_cases)
  case (snoc ys y)
  show ?thesis
  proof (cases "k < length ys")
    case True
    then show ?thesis using snoc
      by (simp add: list_update_append butlast_append nth_append mset_update)
  next
    case False
    then have "k = length ys" using assms snoc by simp
    then show ?thesis using snoc by (simp add: list_update_append)
  qed
qed (use assms in simp)

lemma delete_obj_plain:
  assumes "db_ok b" "\<forall>k. wok b k" "first_index (\<lambda>r. be32 (object_id r) = i) (recs (net_obj b)) = Some k"
    and "be32 (object_prop_id (recs (net_obj b) ! k)) = no_id"
  shows "\<exists>b'. bindio_delete_obj i b = Some (BINDERY_ERROR_OK, b') \<and>
    mset (recs (net_obj b')) = mset (recs (net_obj b)) - {#recs (net_obj b) ! k#} \<and>
    recs (net_prop b') = recs (net_prop b) \<and> recs (net_val b') = recs (net_val b)"
proof -
  let ?os = "recs (net_obj b)"
  have k: "k < length ?os" using assms(3) by (rule first_index_lessD)
  then have "?os \<noteq> []" by auto
  then have l: "?os ! (length ?os - Suc 0) = last ?os" by (simp add: last_conv_nth)
  have e: "mset (take (length ?os - Suc 0) (?os[k := last ?os])) = mset ?os - {#?os ! k#}"
    using mset_swap_out_last [OF k] k by (simp add: butlast_conv_take)
  show ?thesis
  proof (cases "Suc k = length ?os")
    case True
    then have "?os[k := last ?os] = ?os" by (metis l diff_Suc_1 diff_Suc_Suc diff_zero list_update_id)
    then have "mset (take k ?os) = mset ?os - {#?os ! k#}" using e True by (metis diff_Suc_1 diff_Suc_Suc diff_zero)
    moreover have "length ?os - Suc 0 = k" "?os \<noteq> []" using True by auto
    ultimately show ?thesis using True assms k
      by (simp add: bindio_delete_obj_def bindio_scan_object_by_id_eq delete_props.simps Let_def ftell_def
          fseek_end_def rewind_def trunc_obj_def ftruncate_def nat_int_pred at_obj_def)
  next
    case False
    moreover have "?os \<noteq> []" using k by auto
    ultimately show ?thesis using assms k e l
      by (simp add: bindio_delete_obj_def bindio_scan_object_by_id_eq delete_props.simps Let_def ftell_def
          fseek_end_def fseek_set_def fread_def rewind_def trunc_obj_def ftruncate_def write_obj_def fwrite_def
          nat_int_pred at_obj_def)
  qed
qed

end
