(* ===== verification/Fr_Trustee.thy ===== *)
theory Fr_Trustee
  imports Fr_Fs Fr_Bindery Fr_BinderyDel
begin

text \<open>
  \<^verbatim>\<open>src/server/trustee.c\<close>: trustee files (lists of object id and rights, one file in each directory),
  and the effective rights of a connection on a path. The files are the field \<open>tfiles\<close> of the state,
  by host path. A rights argument that the C code passes by reference is threaded as a
  \<open>trust_record\<close>.
\<close>

abbreviation (input) TRUST_ERROR_OK :: int where "TRUST_ERROR_OK \<equiv> 0"
abbreviation (input) TRUST_ERROR_NOTFOUND :: int where "TRUST_ERROR_NOTFOUND \<equiv> 0xfe"
abbreviation (input) TRUST_ERROR_IOERROR :: int where "TRUST_ERROR_IOERROR \<equiv> 0xff"
abbreviation (input) TRUST_ERROR_NORECORD :: int where "TRUST_ERROR_NORECORD \<equiv> 0x100"

abbreviation (input) TRUST_RIGHT_READ :: u16 where "TRUST_RIGHT_READ \<equiv> 0x001"
abbreviation (input) TRUST_RIGHT_WRITE :: u16 where "TRUST_RIGHT_WRITE \<equiv> 0x002"
abbreviation (input) TRUST_RIGHT_CREATE :: u16 where "TRUST_RIGHT_CREATE \<equiv> 0x008"
abbreviation (input) TRUST_RIGHT_ERASE :: u16 where "TRUST_RIGHT_ERASE \<equiv> 0x010"
abbreviation (input) TRUST_RIGHT_ACCESSCONTROL :: u16 where "TRUST_RIGHT_ACCESSCONTROL \<equiv> 0x020"
abbreviation (input) TRUST_RIGHT_FILESCAN :: u16 where "TRUST_RIGHT_FILESCAN \<equiv> 0x040"
abbreviation (input) TRUST_RIGHT_MODIFY :: u16 where "TRUST_RIGHT_MODIFY \<equiv> 0x080"
abbreviation (input) TRUST_RIGHT_SUPERVISORY :: u16 where "TRUST_RIGHT_SUPERVISORY \<equiv> 0x100"

definition TRUST_SYSFILE :: bytes where
  "TRUST_SYSFILE = ascii ''$TRUSTEE.SYS''"

record trust_record =
  t_obj_id :: u32
  t_rights :: u16

definition zero_trust :: trust_record where
  "zero_trust = \<lparr>t_obj_id = 0, t_rights = 0\<rparr>"

definition trust_conv_rec :: "trust_rec \<Rightarrow> trust_record" where
  "trust_conv_rec r = \<lparr>t_obj_id = be32 (obj_id r), t_rights = be16 (rights r)\<rparr>"

definition trust_build_trustfile ::
  "nat \<Rightarrow> nat \<Rightarrow> bytes option \<Rightarrow> bytes \<Rightarrow> nat \<Rightarrow> srv \<Rightarrow> (int \<times> bytes) option" where
  "trust_build_trustfile c d path dest destlen s = do {
     (e, dest) \<leftarrow> fs_build_path c d path dest destlen 0 s;
     (if e \<noteq> FS_ERROR_OK then Some (e, dest)
      else do {
        dest \<leftarrow> strncat dest [slash] destlen;
        dest \<leftarrow> strncat dest TRUST_SYSFILE destlen;
        Some (TRUST_ERROR_OK, dest)
      })
   }"

text \<open>When there is no record for the object, the caller's structure holds the last record of the file.\<close>

definition trust_grab_rights :: "bytes \<Rightarrow> u32 \<Rightarrow> trust_record \<Rightarrow> srv \<Rightarrow> int \<times> trust_record" where
  "trust_grab_rights fname objid rc s =
     (case tfiles s fname of
        None \<Rightarrow> (-1, rc)
      | Some rs \<Rightarrow>
          (case first_index (\<lambda>r. t_obj_id (trust_conv_rec r) = objid) rs of
             Some k \<Rightarrow> (0, trust_conv_rec (rs ! k))
           | None \<Rightarrow> (-1, if rs = [] then rc else trust_conv_rec (last rs))))"

text \<open>
  The walk up the directories. Each turn cuts the path at its last slash, so it ends at a path
  without one at the latest.
\<close>

function trust_scan_rights :: "int \<Rightarrow> u32 \<Rightarrow> bytes \<Rightarrow> trust_record \<Rightarrow> srv \<Rightarrow> (int \<times> trust_record) option" where
  "trust_scan_rights volno objid path rc s =
     (let tmp = take (VOL_MAX_VOL_PATH_LEN - 1) (path @ slash # TRUST_SYSFILE);
          (r, rc1) = trust_grab_rights tmp objid rc s
      in if r = 0 then Some (TRUST_ERROR_OK, rc1)
         else
           (case strrchr path slash of
              None \<Rightarrow> Some (-1, rc1)
            | Some i \<Rightarrow> do {
                vol \<leftarrow> load_int (volumes s) volno;
                root \<leftarrow> streq path (vol_path vol);
                (if root then Some (TRUST_ERROR_NORECORD, zero_trust)
                 else trust_scan_rights volno objid (take i path) rc1 s)
              }))"
  by pat_completeness auto
termination
  by (relation "measure (\<lambda>(volno, objid, path, rc, s). length path)") (auto dest: strrchr_lessD)

declare trust_scan_rights.simps [simp del]

text \<open>
  The loop over the objects the user is security equivalent to. The loop variable is also assigned
  the result of the scan, and incremented after that.
\<close>

partial_function (option) equals_loop ::
  "int \<Rightarrow> bytes \<Rightarrow> int \<Rightarrow> bytes \<Rightarrow> trust_record \<Rightarrow> srv \<Rightarrow> (int option \<times> trust_record) option" where
  "equals_loop i d volno path rc s =
     (if i \<ge> 32 then Some (None, rc)
      else if set_word d (nat i) = 0 then equals_loop (i + 1) d volno path rc s
      else do {
        (r, rc1) \<leftarrow> trust_scan_rights volno (set_word d (nat i)) path rc s;
        (if r = TRUST_ERROR_OK then Some (Some r, rc1) else equals_loop (r + 1) d volno path rc1 s)
      })"

definition is_prefix :: "bytes \<Rightarrow> bytes \<Rightarrow> bool" where
  "is_prefix p s \<longleftrightarrow> take (length p) s = p"

definition trust_get_rights ::
  "nat \<Rightarrow> nat \<Rightarrow> bytes option \<Rightarrow> trust_record \<Rightarrow> srv \<Rightarrow> (int \<times> trust_record \<times> srv) option" where
  "trust_get_rights c d path rc s = do {
     k \<leftarrow> get_conn c s;
     (if object_supervisor k \<noteq> 0
      then Some (TRUST_ERROR_OK, \<lparr>t_obj_id = c_object_id k, t_rights = 0xffff\<rparr>, s)
      else do {
        (e, realpath) \<leftarrow> fs_build_path c d path (replicate VOL_MAX_VOL_PATH_LEN 0) VOL_MAX_VOL_PATH_LEN 0 s;
        (if e \<noteq> FS_ERROR_OK then Some (TRUST_ERROR_OK, zero_trust, s)
         else do {
           rp \<leftarrow> cstr realpath;
           h \<leftarrow> get_dh c d s;
           vol \<leftarrow> load_int (volumes s) (dh_volno h);
           vp \<leftarrow> cstr (vol_path vol);
           (if is_prefix (take (VOL_MAX_VOL_PATH_LEN - 1) (vp @ ascii ''/login'')) rp
            then Some (TRUST_ERROR_OK,
              \<lparr>t_obj_id = c_object_id k, t_rights = push_bit 8 (TRUST_RIGHT_READ OR TRUST_RIGHT_FILESCAN)\<rparr>, s)
            else do {
              (i, tf) \<leftarrow> trust_build_trustfile c d path realpath VOL_MAX_VOL_PATH_LEN s;
              (if i \<noteq> TRUST_ERROR_OK then Some (i, zero_trust, s)
               else do {
                 t \<leftarrow> cstr tf;
                 (case strrchr t slash of
                    None \<Rightarrow> Some (FS_ERROR_INVALIDPATH, zero_trust, s)
                  | Some p \<Rightarrow> do {
                      (j, rc1) \<leftarrow> trust_scan_rights (dh_volno h) (c_object_id k) (take p t) zero_trust s;
                      (if j \<noteq> TRUST_ERROR_NORECORD then Some (j, rc1, s)
                       else do {
                         (v, s1) \<leftarrow> on_db (bindio_read_prop (c_object_id k) (ascii ''SECURITY_EQUALS'') 1) s;
                         (case v of
                            Inl _ \<Rightarrow> Some (j, rc1, s1)
                          | Inr (v, _) \<Rightarrow> do {
                              (r, rc2) \<leftarrow> equals_loop 0 (vl_data v) (dh_volno h) (take p t) rc1 s1;
                              Some (case r of Some i \<Rightarrow> i | None \<Rightarrow> j, rc2, s1)
                            })
                       })
                    })
               })
            })
         })
      })
   }"

definition trust_check_rights :: "nat \<Rightarrow> nat \<Rightarrow> bytes option \<Rightarrow> u16 \<Rightarrow> srv \<Rightarrow> (int \<times> srv) option" where
  "trust_check_rights c d path right s = do {
     (e, rc, s1) \<leftarrow> trust_get_rights c d path zero_trust s;
     Some (if e \<noteq> TRUST_ERROR_OK then -1
           else if drop_bit 8 (t_rights rc) AND right = right then 0 else -1, s1)
   }"

section \<open>Changing trustee files\<close>

definition trust_entry :: "u32 \<Rightarrow> u16 \<Rightarrow> trust_rec" where
  "trust_entry i r = \<lparr>obj_id = to_be32 i, rights = to_be16 r\<rparr>"

definition set_tfile :: "bytes \<Rightarrow> trust_rec list \<Rightarrow> srv \<Rightarrow> srv" where
  "set_tfile fname rs s = s\<lparr>tfiles := (tfiles s)(fname \<mapsto> rs)\<rparr>"

text \<open>The file part of \<^verbatim>\<open>trust_grant_right\<close>, on the opened stream.\<close>

definition grant_in_file :: "bool \<Rightarrow> u32 \<Rightarrow> u16 \<Rightarrow> trust_rec rfile \<Rightarrow> int \<times> trust_rec rfile" where
  "grant_in_file ok objid rgt f =
     (case scan_file (\<lambda>r. Some (trust_conv_rec r)) (\<lambda>t. t_obj_id t = objid) f of
        Some (Some (r, t), f1) \<Rightarrow>
          let (w, f2) = fwrite ok (trust_entry 0 0) (r\<lparr>rights := to_be16 rgt\<rparr>) (fseek_set f1 (ftell f1 - 1))
          in (if \<not> w then TRUST_ERROR_IOERROR else TRUST_ERROR_OK, f2)
      | Some (None, f1) \<Rightarrow>
          let (w, f2) = fwrite ok (trust_entry 0 0) (trust_entry objid rgt) f1
          in (if \<not> w then TRUST_ERROR_IOERROR else TRUST_ERROR_OK, f2)
      | None \<Rightarrow> (TRUST_ERROR_IOERROR, f))"

text \<open>
  \<^verbatim>\<open>fopen (..., "r+b")\<close> needs the file to exist; \<^verbatim>\<open>"w+b"\<close> creates an empty one. Either can be refused.
\<close>

definition trust_grant_right :: "nat \<Rightarrow> nat \<Rightarrow> bytes option \<Rightarrow> u32 \<Rightarrow> u16 \<Rightarrow> srv \<Rightarrow> (int \<times> srv) option" where
  "trust_grant_right c d path objid rgt s = do {
     (i, b) \<leftarrow> trust_build_trustfile c d path (replicate VOL_MAX_VOL_PATH_LEN 0) VOL_MAX_VOL_PATH_LEN s;
     (if i \<noteq> TRUST_ERROR_OK then Some (i, s)
      else do {
        fname \<leftarrow> cstr b;
        let (ok1, s1) = sys_ok s;
        let (f, s2) =
          (case (tfiles s1 fname, ok1) of
             (Some rs, True) \<Rightarrow> (Some rs, s1)
           | _ \<Rightarrow> let (ok2, s2) = sys_ok s1 in (if ok2 then Some [] else None, s2));
        (case f of
           None \<Rightarrow> Some (TRUST_ERROR_IOERROR, s2)
         | Some rs \<Rightarrow>
             (let (w, s3) = sys_ok s2;
                  (e, g) = grant_in_file w objid rgt \<lparr>recs = rs, fpos = 0\<rparr>
              in Some (e, set_tfile fname (recs g) s3)))
      })
   }"

text \<open>
  The file part of \<^verbatim>\<open>trust_remove_right\<close>: \<open>rid\<close> is the object id of the record read last, which is not
  set when the file is empty (\<open>junk\<close>).
\<close>

definition remove_in_file :: "bool \<Rightarrow> bool \<Rightarrow> u32 \<Rightarrow> u32 \<Rightarrow> trust_rec rfile \<Rightarrow> int \<times> trust_rec rfile" where
  "remove_in_file okw okt junk objid f =
     (case scan_file (\<lambda>r. Some (trust_conv_rec r)) (\<lambda>t. t_obj_id t = objid) f of
        None \<Rightarrow> (TRUST_ERROR_IOERROR, f)
      | Some (x, f1) \<Rightarrow>
          let rid = (case x of Some (_, t) \<Rightarrow> t_obj_id t
                     | None \<Rightarrow> if recs f1 = [] then junk else t_obj_id (trust_conv_rec (last (recs f1))))
          in if rid \<noteq> objid then (TRUST_ERROR_NOTFOUND, f1)
             else
               (let pos = ftell f1 - 1;
                    maxpos = ftell (fseek_end f1) - 1;
                    f2 = rewind f1
                in if pos = maxpos then
                     (let (t, f3) = ftruncate okt pos f2
                      in (if t then TRUST_ERROR_OK else TRUST_ERROR_IOERROR, f3))
                   else
                     (case fread (fseek_set f2 maxpos) of
                        (None, f3) \<Rightarrow> (TRUST_ERROR_IOERROR, f3)
                      | (Some r, f3) \<Rightarrow>
                          let (w, f4) = fwrite okw (trust_entry 0 0) r (fseek_set f3 pos)
                          in if \<not> w then (TRUST_ERROR_IOERROR, f4)
                             else let (t, f5) = ftruncate okt maxpos (rewind f4)
                                  in (if t then TRUST_ERROR_OK else TRUST_ERROR_IOERROR, f5))))"

definition trust_remove_right :: "nat \<Rightarrow> nat \<Rightarrow> bytes option \<Rightarrow> u32 \<Rightarrow> srv \<Rightarrow> (int \<times> srv) option" where
  "trust_remove_right c d path objid s = do {
     (i, b) \<leftarrow> trust_build_trustfile c d path (replicate VOL_MAX_VOL_PATH_LEN 0) VOL_MAX_VOL_PATH_LEN s;
     (if i \<noteq> TRUST_ERROR_OK then Some (i, s)
      else do {
        fname \<leftarrow> cstr b;
        let (ok1, s1) = sys_ok s;
        (case (tfiles s1 fname, ok1) of
           (Some rs, True) \<Rightarrow>
             (let (okw, s2) = sys_ok s1;
                  (okt, s3) = sys_ok s2;
                  junk = le32 (stack s (tk s) 0, stack s (tk s) 1, stack s (tk s) 2, stack s (tk s) 3);
                  (e, g) = remove_in_file okw okt junk objid \<lparr>recs = rs, fpos = 0\<rparr>
              in Some (e, set_tfile fname (recs g) s3))
         | _ \<Rightarrow> Some (TRUST_ERROR_IOERROR, s1))
      })
   }"


section \<open>A trustee file is a finite map\<close>

text \<open>The abstract content: the rights of each object. The files never hold an object twice.\<close>

definition trust_map :: "trust_rec list \<Rightarrow> u32 \<Rightarrow> u16 option" where
  "trust_map rs = map_of (map (\<lambda>r. (be32 (obj_id r), be16 (rights r))) rs)"

definition trust_ok :: "trust_rec list \<Rightarrow> bool" where
  "trust_ok rs \<longleftrightarrow> distinct (map obj_id rs)"

abbreviation trust_index :: "u32 \<Rightarrow> trust_rec list \<Rightarrow> nat option" where
  "trust_index i \<equiv> first_index (\<lambda>r. be32 (obj_id r) = i)"

lemma trust_map_index: "trust_map rs i = map_option (\<lambda>k. be16 (rights (rs ! k))) (trust_index i rs)"
  by (induction rs) (auto simp: trust_map_def option.map_comp comp_def)

lemma trust_map_Some:
  assumes "trust_ok rs"
  shows "trust_map rs i = Some r \<longleftrightarrow> (i, r) \<in> set (map (\<lambda>r. (be32 (obj_id r), be16 (rights r))) rs)"
proof -
  have "distinct (map (be32 \<circ> obj_id) rs)"
    using assms by (simp add: trust_ok_def distinct_map inj_on_def be32.dec_inject)
  then show ?thesis unfolding trust_map_def by (intro map_of_eq_Some_iff) (simp add: comp_def)
qed

lemma t_obj_id_conv [simp]: "t_obj_id (trust_conv_rec r) = be32 (obj_id r)" "t_rights (trust_conv_rec r) = be16 (rights r)"
  by (simp_all add: trust_conv_rec_def)

lemma scan_trust:
  "scan_file (\<lambda>r. Some (trust_conv_rec r)) (\<lambda>t. t_obj_id t = i) \<lparr>recs = rs, fpos = 0\<rparr> =
    Some (case trust_index i rs of None \<Rightarrow> (None, \<lparr>recs = rs, fpos = length rs\<rparr>)
      | Some k \<Rightarrow> (Some (rs ! k, trust_conv_rec (rs ! k)), \<lparr>recs = rs, fpos = Suc k\<rparr>))"
  using scan_file_from [of "\<lparr>recs = rs, fpos = 0\<rparr>" "\<lambda>r. Some (trust_conv_rec r)" trust_conv_rec "\<lambda>t. t_obj_id t = i"]
  by (simp cong: option.case_cong)

definition trust_put :: "u32 \<Rightarrow> u16 \<Rightarrow> trust_rec list \<Rightarrow> trust_rec list" where
  "trust_put i r rs = (case trust_index i rs of Some k \<Rightarrow> rs[k := (rs ! k)\<lparr>rights := to_be16 r\<rparr>]
     | None \<Rightarrow> rs @ [trust_entry i r])"

definition trust_del :: "u32 \<Rightarrow> trust_rec list \<Rightarrow> trust_rec list" where
  "trust_del i rs = (case trust_index i rs of Some k \<Rightarrow> butlast (rs[k := last rs]) | None \<Rightarrow> rs)"

lemma grant_in_file_eq:
  "\<exists>g. grant_in_file ok i r \<lparr>recs = rs, fpos = 0\<rparr> = (if ok then TRUST_ERROR_OK else TRUST_ERROR_IOERROR, g) \<and>
    recs g = (if ok then trust_put i r rs else rs)"
proof (cases "trust_index i rs")
  case None
  then show ?thesis by (cases ok) (auto simp: grant_in_file_def scan_trust fwrite_def trust_put_def)
next
  case (Some k)
  then have "k < length rs" by (rule first_index_lessD)
  then show ?thesis using Some
    by (cases ok) (auto simp: grant_in_file_def scan_trust fwrite_def trust_put_def fseek_set_def ftell_def)
qed

lemma trust_ok_put: "trust_ok rs \<Longrightarrow> trust_ok (trust_put i r rs)"
proof (cases "trust_index i rs")
  case None
  then have "to_be32 i \<notin> obj_id ` set rs" by (auto simp: first_index_None be32.dec_eq_iff)
  then show "trust_ok rs \<Longrightarrow> ?thesis" using None by (simp add: trust_ok_def trust_put_def trust_entry_def)
next
  case (Some k)
  then have k: "k < length rs" by (rule first_index_lessD)
  then have "map obj_id (rs[k := (rs ! k)\<lparr>rights := to_be16 r\<rparr>]) = map obj_id rs"
    by (simp add: map_update_same)
  then show "trust_ok rs \<Longrightarrow> ?thesis" using Some by (simp add: trust_ok_def trust_put_def)
qed

lemma trust_put_map:
  "trust_map (trust_put i r rs) = (trust_map rs)(i \<mapsto> r)"
proof
  fix j
  show "trust_map (trust_put i r rs) j = ((trust_map rs)(i \<mapsto> r)) j"
  proof (cases "trust_index i rs")
    case None
    then show ?thesis
      by (auto simp: trust_map_index trust_put_def first_index_append trust_entry_def nth_append
          dest: first_index_lessD split: option.splits)
  next
    case (Some k)
    let ?rs = "rs[k := (rs ! k)\<lparr>rights := to_be16 r\<rparr>]"
    have k: "k < length rs" "be32 (obj_id (rs ! k)) = i" using Some by (auto simp: first_index_Some)
    have "trust_index j ?rs = trust_index j rs"
    proof (rule first_index_cong)
      fix l assume "l < length ?rs"
      then show "(be32 (obj_id (?rs ! l)) = j) = (be32 (obj_id (rs ! l)) = j)" by (cases "l = k") auto
    qed simp
    moreover have "trust_index j rs = Some k \<Longrightarrow> j = i" using k by (auto simp: first_index_Some)
    ultimately show ?thesis using Some k
      by (cases "trust_index j rs") (auto simp: trust_map_index trust_put_def nth_list_update)
  qed
qed

lemma distinct_submset:
  assumes "mset xs \<subseteq># mset ys" "distinct ys"
  shows "distinct xs"
proof -
  obtain zs where "mset ys = mset xs + mset zs"
    using assms(1) by (metis ex_mset mset_subset_eq_exists_conv)
  then have "distinct (xs @ zs)" using assms(2) by (metis mset_append mset_eq_imp_distinct_iff)
  then show ?thesis by simp
qed

lemma mset_trust_del:
  "trust_index i rs = Some k \<Longrightarrow> mset (trust_del i rs) = mset rs - {#rs ! k#}"
  using mset_swap_out_last [of k rs] by (simp add: trust_del_def first_index_lessD)

lemma trust_ok_del: "trust_ok rs \<Longrightarrow> trust_ok (trust_del i rs)"
proof (cases "trust_index i rs")
  case (Some k)
  have "mset (map obj_id (trust_del i rs)) \<subseteq># mset (map obj_id rs)"
    using mset_trust_del [OF Some] by (auto intro!: image_mset_subseteq_mono)
  then show "trust_ok rs \<Longrightarrow> ?thesis" unfolding trust_ok_def by (rule distinct_submset)
qed (simp add: trust_del_def)

lemma set_remove_distinct:
  assumes "mset ys = mset xs - {#x#}" "distinct xs"
  shows "set ys = set xs - {x}"
proof -
  have "set ys = set (remove1 x xs)" using assms(1) by (intro mset_eq_setD) simp
  then show ?thesis using assms(2) by simp
qed

lemma trust_del_map:
  assumes "trust_ok rs"
  shows "trust_map (trust_del i rs) = (trust_map rs)(i := None)"
proof (cases "trust_index i rs")
  case None
  then show ?thesis by (auto simp: trust_del_def fun_eq_iff trust_map_index)
next
  case (Some k)
  have k: "k < length rs" "be32 (obj_id (rs ! k)) = i" using Some by (auto simp: first_index_Some)
  have "distinct rs" using assms by (simp add: trust_ok_def distinct_map)
  then have st: "set (trust_del i rs) = set rs - {rs ! k}"
    using set_remove_distinct [OF mset_trust_del [OF Some]] by simp
  have uniq: "r \<in> set rs \<Longrightarrow> be32 (obj_id r) = i \<Longrightarrow> r = rs ! k" for r
    using assms k by (auto simp: trust_ok_def distinct_map inj_on_def be32.dec_inject)
  have "trust_map (trust_del i rs) j = Some r \<longleftrightarrow> ((trust_map rs)(i := None)) j = Some r" for j r
    using uniq k by (auto simp: trust_map_Some [OF trust_ok_del [OF assms]] trust_map_Some [OF assms] st)
  then show ?thesis by (metis option.exhaust ext)
qed

lemma remove_in_file_eq:
  assumes "rs \<noteq> []"
  shows "\<exists>g. remove_in_file True True junk i \<lparr>recs = rs, fpos = 0\<rparr> =
      (if trust_index i rs = None then TRUST_ERROR_NOTFOUND else TRUST_ERROR_OK, g) \<and>
    recs g = trust_del i rs"
proof (cases "trust_index i rs")
  case None
  then have "be32 (obj_id (last rs)) \<noteq> i" using assms by (auto simp: first_index_None)
  then show ?thesis using None assms by (simp add: remove_in_file_def scan_trust trust_del_def)
next
  case (Some k)
  have k: "k < length rs" "be32 (obj_id (rs ! k)) = i" using Some by (auto simp: first_index_Some)
  have l: "rs ! (length rs - Suc 0) = last rs" using assms by (simp add: last_conv_nth)
  show ?thesis
  proof (cases "Suc k = length rs")
    case True
    then have "rs[k := last rs] = rs" by (metis l diff_Suc_1 diff_Suc_Suc diff_zero list_update_id)
    then show ?thesis using Some k True assms
      by (simp add: remove_in_file_def scan_trust trust_del_def ftell_def fseek_end_def rewind_def ftruncate_def
          butlast_conv_take nat_int_pred Let_def)
  next
    case False
    then show ?thesis using Some k l assms
      by (simp add: remove_in_file_def scan_trust trust_del_def ftell_def fseek_end_def rewind_def ftruncate_def
          butlast_conv_take nat_int_pred fseek_set_def fread_def fwrite_def Let_def)
  qed
qed


section \<open>From a grant to the rights of a user\<close>

text \<open>The host path of a NetWare path, when it can be built.\<close>

definition host_path :: "nat \<Rightarrow> nat \<Rightarrow> bytes option \<Rightarrow> srv \<Rightarrow> bytes option" where
  "host_path c d path s =
     (case fs_build_path c d path (replicate VOL_MAX_VOL_PATH_LEN 0) VOL_MAX_VOL_PATH_LEN 0 s of
        Some (e, b) \<Rightarrow> if e = FS_ERROR_OK then cstr b else None
      | None \<Rightarrow> None)"

lemma sysfile_no_slash: "slash \<notin> set TRUST_SYSFILE" "no_nul TRUST_SYSFILE" "length TRUST_SYSFILE = 12"
  by (simp_all add: TRUST_SYSFILE_def)

lemma fs_build_path_cong:
  assumes "conns s' = conns s" "volumes s' = volumes s"
  shows "fs_build_path c d p b n fl s' = fs_build_path c d p b n fl s"
  unfolding fs_build_path_def path_root_def path_rest_def get_dh_def get_conn_def assms ..

lemma build_trustfile_string:
  assumes "trust_build_trustfile c d path (replicate VOL_MAX_VOL_PATH_LEN 0) VOL_MAX_VOL_PATH_LEN s = Some (TRUST_ERROR_OK, b)"
    and "host_path c d path s = Some p" "length b = VOL_MAX_VOL_PATH_LEN"
  shows "cstr b = Some (p @ slash # TRUST_SYSFILE)" "length (p @ slash # TRUST_SYSFILE) < VOL_MAX_VOL_PATH_LEN"
proof -
  obtain b0 where f: "fs_build_path c d path (replicate VOL_MAX_VOL_PATH_LEN 0) VOL_MAX_VOL_PATH_LEN 0 s = Some (FS_ERROR_OK, b0)"
    "cstr b0 = Some p"
    using assms(2) by (auto simp: host_path_def split: option.splits if_splits)
  obtain b1 where b1: "strncat b0 [slash] VOL_MAX_VOL_PATH_LEN = Some b1"
    "strncat b1 TRUST_SYSFILE VOL_MAX_VOL_PATH_LEN = Some b"
    using assms(1) f by (auto simp: trust_build_trustfile_def bind_eq_Some_conv)
  have c1: "cstr b1 = Some (p @ [slash])"
    using b1(1) cstr_strcat [OF _ _ f(2), of "[slash]" b1] by (simp add: strncat_def)
  have "strcat b1 TRUST_SYSFILE = Some b"
    using b1(2) sysfile_no_slash(3) by (simp add: strncat_def)
  then show "cstr b = Some (p @ slash # TRUST_SYSFILE)"
    using cstr_strcat [OF _ sysfile_no_slash(2) c1, of b] by simp
  then show "length (p @ slash # TRUST_SYSFILE) < VOL_MAX_VOL_PATH_LEN"
    using cstr_SomeD(2) assms(3) by fastforce
qed

text \<open>The right of a user on a directory with a record for him is what the record says.\<close>

lemma scan_rights_here:
  assumes "length (p @ slash # TRUST_SYSFILE) < VOL_MAX_VOL_PATH_LEN"
    and "tfiles s (p @ slash # TRUST_SYSFILE) = Some rs" "trust_map rs i = Some r"
  shows "trust_scan_rights v i p rc s = Some (TRUST_ERROR_OK, \<lparr>t_obj_id = i, t_rights = r\<rparr>)"
proof -
  obtain k where k: "trust_index i rs = Some k" "be16 (rights (rs ! k)) = r"
    using assms(3) by (auto simp: trust_map_index)
  have "be32 (obj_id (rs ! k)) = i" using k(1) by (simp add: first_index_Some)
  then have "trust_grab_rights (p @ slash # TRUST_SYSFILE) i rc s = (0, \<lparr>t_obj_id = i, t_rights = r\<rparr>)"
    using k by (simp add: trust_grab_rights_def assms(2) trust_conv_rec_def)
  then show ?thesis using assms(1) by (subst trust_scan_rights.simps) simp
qed


lemma trust_build_trustfile_cong:
  assumes "conns s' = conns s" "volumes s' = volumes s"
  shows "trust_build_trustfile c d p b n s' = trust_build_trustfile c d p b n s"
  unfolding trust_build_trustfile_def fs_build_path_cong [OF assms] ..

lemma trust_build_trustfile_length:
  assumes "trust_build_trustfile c d path dest n s = Some (e, b)" "length dest = n"
  shows "length b = n"
  using assms length_fs_build_path [of c d path dest n 0 s]
  by (auto simp: trust_build_trustfile_def bind_eq_Some_conv split: if_splits dest!: buffer_lengths)

text \<open>What a successful \<^verbatim>\<open>trust_grant_right\<close> did.\<close>

lemma grant_effect:
  assumes "trust_grant_right c d path i r s = Some (TRUST_ERROR_OK, s')"
  obtains b fname where
    "trust_build_trustfile c d path (replicate VOL_MAX_VOL_PATH_LEN 0) VOL_MAX_VOL_PATH_LEN s = Some (TRUST_ERROR_OK, b)"
    "cstr b = Some fname" "conns s' = conns s" "volumes s' = volumes s" "db s' = db s"
    "\<exists>rs. (rs = [] \<or> tfiles s fname = Some rs) \<and> tfiles s' = (tfiles s)(fname \<mapsto> trust_put i r rs)"
proof -
  obtain b where b: "trust_build_trustfile c d path (replicate VOL_MAX_VOL_PATH_LEN 0) VOL_MAX_VOL_PATH_LEN s = Some (TRUST_ERROR_OK, b)"
    using assms by (auto simp: trust_grant_right_def bind_eq_Some_conv split: if_splits)
  obtain fname where f: "cstr b = Some fname"
    using assms b by (auto simp: trust_grant_right_def bind_eq_Some_conv)
  define open1 where "open1 = (case (tfiles s fname, os_ok s (tk s)) of
          (Some rs, True) \<Rightarrow> (Some rs, s\<lparr>tk := Suc (tk s)\<rparr>)
        | _ \<Rightarrow> (if os_ok s (Suc (tk s)) then Some [] else None, s\<lparr>tk := Suc (Suc (tk s))\<rparr>))"
  have run: "trust_grant_right c d path i r s =
      (case open1 of (None, s2) \<Rightarrow> Some (TRUST_ERROR_IOERROR, s2)
       | (Some rs, s2) \<Rightarrow> (let (e, g) = grant_in_file (os_ok s2 (tk s2)) i r \<lparr>recs = rs, fpos = 0\<rparr>
            in Some (e, set_tfile fname (recs g) (s2\<lparr>tk := Suc (tk s2)\<rparr>))))"
    using b f by (simp add: trust_grant_right_def sys_ok_def open1_def Let_def split: option.splits bool.splits)
  obtain rs s2 where o: "open1 = (Some rs, s2)"
    using assms run by (cases open1) (auto split: option.splits)
  have s2: "conns s2 = conns s" "volumes s2 = volumes s" "db s2 = db s" "tfiles s2 = tfiles s"
    "rs = [] \<or> tfiles s fname = Some rs"
    using o by (auto simp: open1_def split: option.splits bool.splits if_splits)
  obtain g where g: "grant_in_file (os_ok s2 (tk s2)) i r \<lparr>recs = rs, fpos = 0\<rparr> =
      (if os_ok s2 (tk s2) then TRUST_ERROR_OK else TRUST_ERROR_IOERROR, g)"
    "recs g = (if os_ok s2 (tk s2) then trust_put i r rs else rs)"
    using grant_in_file_eq by blast
  have ok: "os_ok s2 (tk s2)" and s': "s' = set_tfile fname (recs g) (s2\<lparr>tk := Suc (tk s2)\<rparr>)"
    using assms run o g(1) by (auto split: if_splits)
  show thesis
    by (rule that [OF b f]) (use s' s2 g(2) ok in \<open>auto simp: set_tfile_def\<close>)
qed

text \<open>The user himself gets the rights granted to him on the directory.\<close>

lemma grant_then_get:
  assumes grant: "trust_grant_right c d path i r s = Some (TRUST_ERROR_OK, s')"
    and p: "host_path c d path s = Some p"
    and k: "c < length (conns s)" "object_supervisor (conns s ! c) = 0" "c_object_id (conns s ! c) = i"
    and h: "get_dh c d s = Some h" "load_int (volumes s) (dh_volno h) = Some vol" "cstr (vol_path vol) = Some vp"
    and nl: "\<not> is_prefix (take (VOL_MAX_VOL_PATH_LEN - 1) (vp @ ascii ''/login'')) p"
  shows "trust_get_rights c d path rc s' = Some (TRUST_ERROR_OK, \<lparr>t_obj_id = i, t_rights = r\<rparr>, s')"
proof -
  let ?z = "replicate VOL_MAX_VOL_PATH_LEN (0 :: u8)"
  obtain b fname rs where b: "trust_build_trustfile c d path ?z VOL_MAX_VOL_PATH_LEN s = Some (TRUST_ERROR_OK, b)"
    "cstr b = Some fname" and cv: "conns s' = conns s" "volumes s' = volumes s"
    and tf: "tfiles s' = (tfiles s)(fname \<mapsto> trust_put i r rs)"
    using grant_effect [OF grant] by metis
  have lb: "length b = VOL_MAX_VOL_PATH_LEN" using trust_build_trustfile_length [OF b(1)] by simp
  note st = build_trustfile_string [OF b(1) p lb]
  have fn: "fname = p @ slash # TRUST_SYSFILE" using b(2) st(1) by simp
  obtain b0 where b0: "fs_build_path c d path ?z VOL_MAX_VOL_PATH_LEN 0 s = Some (FS_ERROR_OK, b0)" "cstr b0 = Some p"
    using p by (auto simp: host_path_def split: option.splits if_splits)
  have lb0: "length b0 = VOL_MAX_VOL_PATH_LEN" using length_fs_build_path [OF b0(1)] by simp
  have t2: "trust_build_trustfile c d path b0 VOL_MAX_VOL_PATH_LEN s' = Some (TRUST_ERROR_OK, b)"
    using b(1) b0(1) fs_build_path_dest [OF b0(1), of b0] lb0
    unfolding trust_build_trustfile_cong [OF cv] by (simp add: trust_build_trustfile_def)
  have f2: "fs_build_path c d path ?z VOL_MAX_VOL_PATH_LEN 0 s' = Some (FS_ERROR_OK, b0)"
    using b0(1) fs_build_path_cong [OF cv] by simp
  have sl: "strrchr (p @ slash # TRUST_SYSFILE) slash = Some (length p)"
    by (rule strrchr_split [OF sysfile_no_slash(1)])
  have "trust_map (trust_put i r rs) i = Some r" by (simp add: trust_put_map)
  then have sc: "trust_scan_rights (dh_volno h) i p zero_trust s' = Some (TRUST_ERROR_OK, \<lparr>t_obj_id = i, t_rights = r\<rparr>)"
    using scan_rights_here [OF st(2), of s'] tf fn by simp
  have h': "get_dh c d s' = Some h" "load_int (volumes s') (dh_volno h) = Some vol" "get_conn c s' = Some (conns s ! c)"
    using h k(1) by (simp_all add: get_dh_def get_conn_def cv)
  show ?thesis
    using k(2,3) f2 b0(2) h' h(3) nl t2 st(1) sl sc
    by (simp add: trust_get_rights_def del: ascii_simps)
qed

end
