(* ===== verification/Fr_Files.thy ===== *)
theory Fr_Files
  imports Fr_Trustee
begin

text \<open>
  \<^verbatim>\<open>src/server/fs.c\<close>, second part: search handles and file handles, whose allocation checks the
  trustee rights.
\<close>

section \<open>Search handles\<close>

text \<open>
  The path is built in the array of the handle; an error return leaves there what has been built.
\<close>

definition fs_con_alloc_sh :: "nat \<Rightarrow> nat \<Rightarrow> bytes option \<Rightarrow> srv \<Rightarrow> (int \<times> srv) option" where
  "fs_con_alloc_sh c d path s = do {
     i \<leftarrow> fs_con_find_free_sh c s;
     (if i < 0 then Some (-1, s)
      else do {
        k \<leftarrow> get_conn c s;
        h \<leftarrow> load (sh k) (nat i);
        (e, buf) \<leftarrow> fs_build_path c d path (sh_path h) CONN_SH_MAX_PATH_LEN 0 s;
        let s1 = upd_conn c (\<lambda>k. k\<lparr>sh := (sh k)[nat i := h\<lparr>sh_path := buf\<rparr>]\<rparr>) s;
        (if e \<noteq> FS_ERROR_OK then Some (-1, s1)
         else do {
           rel \<leftarrow> strcpy (sh_relpath h) (opt_path path);
           let h2 = h\<lparr>sh_path := buf, sh_relpath := rel, sh_dh := int d\<rparr>;
           let s2 = upd_conn c (\<lambda>k. k\<lparr>sh := (sh k)[nat i := h2]\<rparr>) s1;
           (r, s3) \<leftarrow> trust_check_rights c d path TRUST_RIGHT_FILESCAN s2;
           let h3 = h2\<lparr>sh_scan_right := (if r < 0 then 0 else 1)\<rparr>;
           Some (i, upd_conn c (\<lambda>k. k\<lparr>sh := (sh k)[nat i := h3]\<rparr>) s3)
         })
      })
   }"

section \<open>Opening a file\<close>

abbreviation (input) O_RDONLY :: nat where "O_RDONLY \<equiv> 0"
abbreviation (input) O_WRONLY :: nat where "O_WRONLY \<equiv> 1"
abbreviation (input) O_RDWR :: nat where "O_RDWR \<equiv> 2"
abbreviation (input) O_CREAT_TRUNC :: nat where "O_CREAT_TRUNC \<equiv> 0x600"
abbreviation (input) S_IFDIR :: nat where "S_IFDIR \<equiv> 0x4000"

text \<open>The open mode and the right needed; a later test overrides an earlier one. The right -1 is 0xffff as \<^verbatim>\<open>uint16\<close>.\<close>

definition open_mode :: "u8 \<Rightarrow> nat \<times> u16" where
  "open_mode rgt =
     (let (m, t) = (0, 0xffff);
          (m, t) = (if rgt AND 1 \<noteq> 0 then (O_RDONLY, TRUST_RIGHT_READ) else (m, t));
          (m, t) = (if rgt AND 2 \<noteq> 0 then (O_WRONLY, TRUST_RIGHT_WRITE) else (m, t));
          (m, t) = (if rgt AND 4 \<noteq> 0 then (O_RDWR, TRUST_RIGHT_READ OR TRUST_RIGHT_WRITE) else (m, t));
          (m, t) = (if rgt AND 128 \<noteq> 0 then (or m O_CREAT_TRUNC, TRUST_RIGHT_CREATE) else (m, t))
      in (m, t))"

text \<open>The directory part of a name, or the null pointer.\<close>

definition dir_part :: "bytes \<Rightarrow> bytes option" where
  "dir_part p = map_option (\<lambda>i. take i (unslash p)) (strrchr (unslash p) slash)"

definition base_name :: "bytes \<Rightarrow> bytes" where
  "base_name p = (case strrchr p slash of None \<Rightarrow> p | Some i \<Rightarrow> drop (Suc i) p)"

text \<open>The result, the handle when the result is \<open>FS_ERROR_OK\<close>, and the state.\<close>

definition fs_open_file :: "nat \<Rightarrow> nat \<Rightarrow> u8 \<Rightarrow> bytes \<Rightarrow> srv \<Rightarrow> (int \<times> nat \<times> srv) option" where
  "fs_open_file c d rgt fname s = do {
     h \<leftarrow> fs_con_find_free_fh c s;
     (if h < 0 then Some (FS_ERROR_OUTOFHANDLES, 0, s)
      else do {
        let (mode, right) = open_mode rgt;
        (if VOL_MAX_VOL_PATH_LEN \<le> length fname then None else Some ());
        (r, s1) \<leftarrow> trust_check_rights c d (dir_part fname) right s;
        (if r < 0 then Some (FS_ERROR_NOFILE, 0, s1)
         else do {
           (i, b) \<leftarrow> fs_build_path c d (Some fname) (replicate VOL_MAX_VOL_PATH_LEN 0) VOL_MAX_VOL_PATH_LEN 0 s1;
           (if i \<noteq> FS_ERROR_OK then Some (i, 0, s1)
            else do {
              p \<leftarrow> cstr b;
              (if strcaseeq (base_name p) TRUST_SYSFILE then Some (FS_ERROR_CANTWRITE, 0, s1)
               else do {
                 let path = map (\<lambda>x. if x = 0xae then dot else x) p;
                 let (go, s2) =
                   (if rgt AND 128 = 0
                    then (let (st, s2) = sys_stat path s1
                          in (case st of None \<Rightarrow> False | Some m \<Rightarrow> st_mode m \<noteq> S_IFDIR, s2))
                    else (True, s1));
                 (if \<not> go then Some (-1, 0, s2)
                  else do {
                    let (fd, s3) = sys_open path mode s2;
                    let s4 = upd_conn c (\<lambda>k. k\<lparr>fh := (fh k)[nat h := fd]\<rparr>) s3;
                    Some (if fd < 0 then (-1, 0, s4) else (FS_ERROR_OK, nat h, s4))
                  })
               })
            })
         })
      })
   }"

end
