(* ===== verification/Fr_Conn.thy ===== *)
theory Fr_Conn
  imports Fr_Files
begin

text \<open>
  \<^verbatim>\<open>src/server/conn.c\<close> and \<^verbatim>\<open>src/server/wdog.c\<close>: attaching, logging out, clearing and timing out
  connections. Connection numbers run from 1 to \<^verbatim>\<open>conf_nofconns\<close>; entry 0 of the table is never
  allocated. \<^verbatim>\<open>time ()\<close> returns the field \<open>now\<close>.
\<close>

abbreviation (input) CONN_ERROR_NOCONSRIGHTS :: u8 where "CONN_ERROR_NOCONSRIGHTS \<equiv> 0xc6"
abbreviation (input) CONN_ERROR_FAILURE :: u8 where "CONN_ERROR_FAILURE \<equiv> 0xff"
abbreviation (input) CONN_TIMEOUT_LENGTH :: int where "CONN_TIMEOUT_LENGTH \<equiv> 300"

section \<open>Searching the table\<close>

definition free_slot :: "connection list \<Rightarrow> nat option" where
  "free_slot ks = first_index (\<lambda>k. status k = Unused) ks"

definition conn_find_free_conn :: "srv \<Rightarrow> int" where
  "conn_find_free_conn s = (case free_slot (tl (conns s)) of None \<Rightarrow> -1 | Some i \<Rightarrow> int i + 1)"

definition conn_count_used :: "srv \<Rightarrow> nat" where
  "conn_count_used s = length (filter (\<lambda>k. status k \<noteq> Unused) (tl (conns s)))"

text \<open>Network and node of the address are compared, whatever the status of the connection.\<close>

definition same_station :: "ipx_addr \<Rightarrow> ipx_addr \<Rightarrow> bool" where
  "same_station a b \<longleftrightarrow> x_net a = x_net b \<and> x_host a = x_host b"

definition conn_scan_client_by_addr :: "ipx_addr option \<Rightarrow> srv \<Rightarrow> int" where
  "conn_scan_client_by_addr a s =
     (case a of
        None \<Rightarrow> -1
      | Some a \<Rightarrow>
          (case first_index (\<lambda>k. same_station (addr k) a) (tl (conns s)) of
             None \<Rightarrow> -1 | Some i \<Rightarrow> int i + 1))"

section \<open>Logging out\<close>

text \<open>The loop over the file handles: every descriptor but -1 is closed.\<close>

definition close_all :: "nat \<Rightarrow> srv \<Rightarrow> srv" where
  "close_all c s =
     (let fds = fh (conns s ! c) in
      upd_conn c (\<lambda>k. k\<lparr>fh := map (\<lambda>_. -1) fds\<rparr>)
        (fold (\<lambda>fd s. if fd \<noteq> -1 then sys_close fd s else s) fds s))"

definition conn_logout :: "nat \<Rightarrow> srv \<Rightarrow> srv option" where
  "conn_logout c s = do {
     k \<leftarrow> get_conn c s;
     let s1 = upd_conn c (\<lambda>k. k\<lparr>status := Attached, dh := replicate CONN_DH_PER_CONN zero_dh,
                sh := replicate CONN_SH_PER_CONN zero_sh\<rparr>) (close_all c s);
     (r, s2) \<leftarrow> fs_con_alloc_dh c FS_DH_PERM 0 (ascii ''login'') s1;
     Some (upd_conn c (\<lambda>k. k\<lparr>dh := (dh k)[1 := dh k ! 0], c_object_id := 0xffffffff,
                c_object_type := 0xffff, object_supervisor := 0, message := (message k)[0 := 0],
                message_ok := 1\<rparr>) s2)
   }"

definition conn_attach_client :: "ipx_addr option \<Rightarrow> srv \<Rightarrow> (int \<times> srv) option" where
  "conn_attach_client a s =
     (let c0 = (case a of Some a \<Rightarrow> conn_scan_client_by_addr (Some a) s | None \<Rightarrow> -1);
          c = (if c0 < 0 then conn_find_free_conn s else c0)
      in if c < 0 then Some (-1, s)
         else do {
           s1 \<leftarrow> conn_logout (nat c) s;
           Some (c, upd_conn (nat c) (\<lambda>k. (case a of None \<Rightarrow> k | Some a \<Rightarrow> k\<lparr>addr := a\<rparr>)
                      \<lparr>login_time := now s1, last_time := now s1, wdog_time := 0\<rparr>) s1)
         })"

definition conn_clear :: "nat \<Rightarrow> srv \<Rightarrow> srv option" where
  "conn_clear c s = do {
     s1 \<leftarrow> conn_logout c s;
     Some (upd_conn c (\<lambda>_. zero_conn) s1)
   }"

text \<open>\<^verbatim>\<open>conn_init\<close>: \<open>n\<close> is \<^verbatim>\<open>conf_nofconns\<close>; the allocations are assumed to succeed.\<close>

definition conn_init :: "nat \<Rightarrow> connection list" where
  "conn_init n = replicate (Suc n) zero_conn"

section \<open>Privileges\<close>

definition conn_get_bind_accesslevel :: "nat \<Rightarrow> srv \<Rightarrow> u8 option" where
  "conn_get_bind_accesslevel c s = do {
     k \<leftarrow> get_conn c s;
     Some (if c_object_id k = 0xffffffff then 0x00
           else if object_supervisor k \<noteq> 0 then 0x33 else 0x22)
   }"

definition conn_is_manager :: "nat \<Rightarrow> srv \<Rightarrow> (int \<times> srv) option" where
  "conn_is_manager c s = do {
     k \<leftarrow> get_conn c s;
     (if object_supervisor k \<noteq> 0 then Some (0, s)
      else do {
        (e, s1) \<leftarrow> bind_is_objinset 0 0 None (c_object_id k) (ascii ''MANAGERS'') 0 None 1 s;
        Some (if e = BINDERY_ERROR_OK then 0 else -1, s1)
      })
   }"

definition conn_is_operator :: "nat \<Rightarrow> srv \<Rightarrow> (int \<times> srv) option" where
  "conn_is_operator c s = do {
     k \<leftarrow> get_conn c s;
     (if object_supervisor k \<noteq> 0 then Some (0, s)
      else do {
        (e, s1) \<leftarrow> bind_is_objinset 0 0x4 (Some (conf_servername s)) 0 (ascii ''OPERATORS'') 0 None (c_object_id k) s;
        Some (if e = BINDERY_ERROR_OK then 0 else -1, s1)
      })
   }"

section \<open>Watchdog\<close>

definition wdog_send_watchdog :: "nat \<Rightarrow> u8 \<Rightarrow> srv \<Rightarrow> srv option" where
  "wdog_send_watchdog c sign_char s = do {
     k \<leftarrow> get_conn c s;
     Some (s\<lparr>sent := Watchdog (zero_addr\<lparr>x_net := x_net (addr k), x_host := x_host (addr k),
             x_port := x_port (addr k) + 1\<rparr>) (of_nat c) sign_char # sent s\<rparr>)
   }"

text \<open>A packet of two bytes: the connection number and the sign character.\<close>

definition wdog_handle_packet :: "bytes \<Rightarrow> nat \<Rightarrow> ipx_addr \<Rightarrow> srv \<Rightarrow> srv option" where
  "wdog_handle_packet data sz from s =
     (if sz \<noteq> 2 then Some s
      else do {
        cid \<leftarrow> load data 0;
        sign \<leftarrow> load data 1;
        let c = unat cid;
        (if c > nofconns s then Some s
         else do {
           k \<leftarrow> get_conn c s;
           Some (if same_station (addr k) from \<and> sign = of_char CHR ''N''
                 then upd_conn c (\<lambda>k. k\<lparr>last_time := now s, wdog_time := 0\<rparr>) s
                 else s)
         })
      })"

text \<open>One turn of the loop of \<^verbatim>\<open>conn_cleanup\<close>.\<close>

definition cleanup_conn :: "nat \<Rightarrow> srv \<Rightarrow> srv option" where
  "cleanup_conn i s = do {
     k \<leftarrow> get_conn i s;
     (if status k \<noteq> Unused \<and> now s > last_time k + CONN_TIMEOUT_LENGTH
      then (if wdog_time k = 0
            then wdog_send_watchdog i (of_char CHR ''?'') (upd_conn i (\<lambda>k. k\<lparr>wdog_time := now s\<rparr>) s)
            else conn_clear i s)
      else Some s)
   }"

fun cleanup_from :: "nat list \<Rightarrow> srv \<Rightarrow> srv option" where
  "cleanup_from [] s = Some s"
| "cleanup_from (i # is) s = do { s1 \<leftarrow> cleanup_conn i s; cleanup_from is s1 }"

definition conn_cleanup :: "srv \<Rightarrow> srv option" where
  "conn_cleanup s = cleanup_from [1..<Suc (nofconns s)] s"

section \<open>The table of connections\<close>

interpretation connections: slot_table "\<lambda>k. status k = Unused" "\<lambda>ks. ks" free_slot
  by unfold_locales (simp add: free_slot_def)


section \<open>What logging out does\<close>

text \<open>The arrays of a connection have the sizes of \<^verbatim>\<open>conn.h\<close>.\<close>

definition conn_ok :: "connection \<Rightarrow> bool" where
  "conn_ok k \<longleftrightarrow> length (dh k) = CONN_DH_PER_CONN \<and> length (sh k) = CONN_SH_PER_CONN \<and>
     length (fh k) = CONN_FH_PER_CONN \<and> length (message k) = CONN_MAX_MSG_LEN \<and> length (login_key k) = 8 \<and>
     (\<forall>h\<in>set (dh k). length (dh_path h) = CONN_DH_MAX_PATH_LEN) \<and>
     (\<forall>h\<in>set (sh k). length (sh_path h) = CONN_SH_MAX_PATH_LEN \<and> length (sh_relpath h) = CONN_SH_MAX_PATH_LEN)"

text \<open>The first volume is SYS and has a path that leaves room for the login directory.\<close>

definition sys_volume_ok :: "srv \<Rightarrow> bool" where
  "sys_volume_ok s \<longleftrightarrow> volumes s \<noteq> [] \<and> cstr (vol_name (volumes s ! 0)) = Some (ascii ''SYS'') \<and>
     (\<exists>vp. cstr (vol_path (volumes s ! 0)) = Some vp \<and> length vp < 250 \<and> colon \<notin> set vp)"

definition login_dh :: dirhandle where
  "login_dh = \<lparr>dh_flags = FS_DH_PERM, dh_volno = 0, dh_path = mkbuf CONN_DH_MAX_PATH_LEN (ascii ''login'')\<rparr>"

definition logged_out :: "bool \<Rightarrow> connection \<Rightarrow> connection" where
  "logged_out ok k = k\<lparr>fh := map (\<lambda>_. -1) (fh k), status := Attached,
     sh := replicate CONN_SH_PER_CONN zero_sh,
     dh := (let h = (if ok then login_dh else zero_dh) in (replicate CONN_DH_PER_CONN zero_dh)[0 := h, 1 := h]),
     c_object_id := 0xffffffff, c_object_type := 0xffff,
     object_supervisor := 0, message := (message k)[0 := 0], message_ok := 1\<rparr>"

lemma fold_close:
  "fold (\<lambda>fd s. if fd \<noteq> -1 then sys_close fd s else s) fds s = s\<lparr>closed := rev (filter (\<lambda>fd. fd \<noteq> -1) fds) @ closed s\<rparr>"
  by (induction fds arbitrary: s) (simp_all add: sys_close_def)

lemma close_all_simps [simp]:
  "conns (close_all c s) = (conns s)[c := (conns s ! c)\<lparr>fh := map (\<lambda>_. -1) (fh (conns s ! c))\<rparr>]"
  "closed (close_all c s) = rev (filter (\<lambda>fd. fd \<noteq> -1) (fh (conns s ! c))) @ closed s"
  "volumes (close_all c s) = volumes s" "db (close_all c s) = db s" "tfiles (close_all c s) = tfiles s"
  "sent (close_all c s) = sent s" "tk (close_all c s) = tk s" "os_stat (close_all c s) = os_stat s"
  "now (close_all c s) = now s" "down_flag (close_all c s) = down_flag s"
  by (simp_all add: close_all_def fold_close upd_conn_def Let_def)

lemma login_path:
  assumes "c < length (conns s)" "conns s ! c = k" "dh k = (replicate CONN_DH_PER_CONN zero_dh)[0 := login_dh]" "sys_volume_ok s"
  shows "\<exists>b vp. fs_build_path c 0 None (replicate VOL_MAX_VOL_PATH_LEN 0) VOL_MAX_VOL_PATH_LEN 0 s = Some (FS_ERROR_OK, b) \<and>
    cstr (vol_path (volumes s ! 0)) = Some vp \<and> cstr b = Some (unslash vp @ slash # ascii ''login'')"
proof -
  obtain vp where vp: "volumes s \<noteq> []" "cstr (vol_path (volumes s ! 0)) = Some vp" "length vp < 250" "colon \<notin> set vp"
    using assms(4) by (auto simp: sys_volume_ok_def)
  have h: "dh k ! 0 = login_dh" "0 < length (dh k)" using assms(3) by simp_all
  have at: "dh_at s c 0 vp (ascii ''login'')"
    using assms(1,2) h vp(1,2) by (simp add: dh_at_def Let_def login_dh_def del: ascii_simps) simp
  let ?full = "join_path (join_path vp (ascii ''login'')) (opt_path None)"
  have full: "?full = vp @ slash # ascii ''login''" by (simp add: join_path_def opt_path_def)
  have ncol: "colon \<notin> set (unslash ?full)" using vp(4) unfolding full by auto
  from fs_build_path_steps(2) [OF at, of None "replicate 256 0" 256] vp(3) ncol obtain b where
    "cstr b = Some (unslash ?full)" "fs_build_path c 0 None (replicate 256 0) 256 0 s = Some (FS_ERROR_OK, b)"
    unfolding full by (auto simp del: ascii_simps simp: strchr_def first_index_None split: option.splits)
  moreover have "unslash ?full = unslash vp @ slash # ascii ''login''" unfolding full by simp
  ultimately show ?thesis using vp(2) by (auto simp del: ascii_simps)
qed

lemma conn_logout_full:
  assumes "c < length (conns s)" "conn_ok (conns s ! c)" "sys_volume_ok s"
  obtains s' vp where "conn_logout c s = Some s'" "cstr (vol_path (volumes s ! 0)) = Some vp"
    "conns s' = (conns s)[c := logged_out (os_stat s (tk s) (unslash vp @ slash # ascii ''login'') \<noteq> None) (conns s ! c)]"
    "closed s' = rev (filter (\<lambda>fd. fd \<noteq> -1) (fh (conns s ! c))) @ closed s"
    "volumes s' = volumes s" "db s' = db s" "tfiles s' = tfiles s" "sent s' = sent s" "now s' = now s"
proof -
  let ?k = "conns s ! c"
  define s1 where "s1 = upd_conn c (\<lambda>k. k\<lparr>status := Attached, dh := replicate CONN_DH_PER_CONN zero_dh,
                sh := replicate CONN_SH_PER_CONN zero_sh\<rparr>) (close_all c s)"
  define s2 where "s2 = upd_dh c 0 login_dh s1"
  have k1: "c < length (conns s1)" "dh (conns s1 ! c) = replicate CONN_DH_PER_CONN zero_dh"
    using assms(1) by (simp_all add: s1_def upd_conn_def)
  have k2: "c < length (conns s2)" "dh (conns s2 ! c) = (replicate CONN_DH_PER_CONN zero_dh)[0 := login_dh]"
    using k1 by (simp_all add: s2_def upd_dh_def)
  have "sys_volume_ok s2" using assms(3) by (simp add: sys_volume_ok_def s2_def upd_dh_def s1_def)
  from login_path [OF k2(1) refl k2(2) this] obtain b vp where
    b: "fs_build_path c 0 None (replicate VOL_MAX_VOL_PATH_LEN 0) VOL_MAX_VOL_PATH_LEN 0 s2 = Some (FS_ERROR_OK, b)"
      "cstr (vol_path (volumes s2 ! 0)) = Some vp" "cstr b = Some (unslash vp @ slash # ascii ''login'')"
    by blast
  define p where "p = unslash vp @ slash # ascii ''login''"
  note b(3) [folded p_def]
  have free: "fs_con_find_free_dh c s1 = Some 0"
    using k1 by (simp add: fs_con_find_free_dh_def free_dh_def zero_dh_def replicate_eq_replicate numeral_eq_Suc)
  have buf: "strncpy (dh_path zero_dh) (ascii ''login'') CONN_DH_MAX_PATH_LEN = Some (mkbuf CONN_DH_MAX_PATH_LEN (ascii ''login''))"
    by (simp add: strncpy_def zero_dh_def)
  have nocol: "split_volume 0 (ascii ''login'') s1 = Some (0, ascii ''login'')"
    by (simp add: split_volume_def strchr_def)
  have gd: "get_dh c 0 s1 = Some zero_dh" using k1 by (simp add: get_dh_def load_def)
  define ok where "ok = (os_stat s2 (tk s2) p \<noteq> None)"
  have ok: "ok = (os_stat s (tk s) p \<noteq> None)" by (simp add: ok_def s2_def s1_def upd_dh_def upd_conn_def)
  define s3 where "s3 = s2\<lparr>tk := Suc (tk s2)\<rparr>"
  have al: "fs_con_alloc_dh c FS_DH_PERM 0 (ascii ''login'') s1 = Some (if ok then (0, s3) else (-1, upd_dh c 0 zero_dh s3))"
    using free nocol gd buf b(1) \<open>cstr b = Some p\<close>
    by (simp add: fs_con_alloc_dh_def sys_stat_def ok_def s3_def s2_def login_dh_def Let_def del: ascii_simps)
  show thesis
  proof (rule that)
    show "conn_logout c s = Some (upd_conn c (\<lambda>k. k\<lparr>dh := (dh k)[1 := dh k ! 0], c_object_id := 0xffffffff,
                c_object_type := 0xffff, object_supervisor := 0, message := (message k)[0 := 0],
                message_ok := 1\<rparr>) (snd (if ok then (0 :: int, s3) else (-1, upd_dh c 0 zero_dh s3))))" (is "_ = Some ?s'")
      using assms(1) al by (simp add: conn_logout_def Let_def s1_def del: ascii_simps)
    have up: "(replicate CONN_DH_PER_CONN zero_dh)[0 := zero_dh] = replicate CONN_DH_PER_CONN zero_dh"
      by (simp add: list_update_id numeral_eq_Suc)
    show "cstr (vol_path (volumes s ! 0)) = Some vp" using b(2) by (simp add: s2_def s1_def upd_dh_def)
    show "conns ?s' = (conns s)[c := logged_out (os_stat s (tk s) (unslash vp @ slash # ascii ''login'') \<noteq> None) (conns s ! c)]"
      unfolding p_def [symmetric] ok [symmetric] using assms(1) up
      by (simp add: logged_out_def s3_def s2_def s1_def upd_dh_def upd_conn_def Let_def nth_list_update)
  qed (simp_all add: s3_def s2_def s1_def upd_dh_def)
qed


lemma conn_logout_eq:
  assumes "c < length (conns s)" "conn_ok (conns s ! c)" "sys_volume_ok s"
  obtains s' where "conn_logout c s = Some s'"
    "\<exists>ok. conns s' = (conns s)[c := logged_out ok (conns s ! c)]"
    "closed s' = rev (filter (\<lambda>fd. fd \<noteq> -1) (fh (conns s ! c))) @ closed s"
    "volumes s' = volumes s" "db s' = db s" "tfiles s' = tfiles s" "sent s' = sent s" "now s' = now s"
  by (rule conn_logout_full [OF assms]) blast

section \<open>The invariant of the table\<close>

definition station_of :: "connection \<Rightarrow> b4 \<times> b6" where
  "station_of k = (x_net (addr k), x_host (addr k))"

text \<open>
  The arrays have their sizes, an unused entry has the zero address, and no two entries in use belong to the
  same station, unless it is the all-zero one. Entry 0 is never given to a station, but it is there, with the
  zero address: packets that come from that address are served on it (and on the unused entries), because
  \<^verbatim>\<open>ncp_handle_packet\<close> lets the connection number 0 pass.
\<close>

definition real_station :: "ipx_addr \<Rightarrow> bool" where
  "real_station a \<longleftrightarrow> \<not> same_station a zero_addr"

definition table_inv :: "connection list \<Rightarrow> bool" where
  "table_inv ks \<longleftrightarrow> ks \<noteq> [] \<and> (\<forall>k\<in>set ks. conn_ok k) \<and> addr (hd ks) = zero_addr \<and>
     (\<forall>k\<in>set ks. status k = Unused \<longrightarrow> addr k = zero_addr) \<and>
     (\<forall>i<length ks. \<forall>j<length ks. i \<noteq> j \<and> status (ks ! i) \<noteq> Unused \<and> status (ks ! j) \<noteq> Unused \<and>
        real_station (addr (ks ! i)) \<longrightarrow> station_of (ks ! i) \<noteq> station_of (ks ! j))"

definition conn_inv :: "srv \<Rightarrow> bool" where
  "conn_inv s \<longleftrightarrow> table_inv (conns s) \<and> sys_volume_ok s"

lemma zero_conn_simps [simp]: "status zero_conn = Unused" "addr zero_conn = zero_addr"
  by (simp_all add: zero_conn_def)

lemma conn_ok_zero [simp]: "conn_ok zero_conn"
  by (simp add: conn_ok_def zero_conn_def zero_dh_def zero_sh_def)

lemma conn_ok_logged_out [simp]:
  assumes "conn_ok k"
  shows "conn_ok (logged_out ok k)"
proof -
  have "set ((replicate CONN_DH_PER_CONN zero_dh)[0 := h, 1 := h]) \<subseteq> {h, zero_dh}" for h :: dirhandle
    by (rule order_trans [OF set_update_subset_insert], rule insert_mono [THEN subset_trans],
        rule set_update_subset_insert) (auto simp: set_replicate_conv_if)
  then have "\<forall>x\<in>set ((replicate CONN_DH_PER_CONN zero_dh)[0 := h, 1 := h]). length (dh_path x) = CONN_DH_MAX_PATH_LEN"
    if "length (dh_path h) = CONN_DH_MAX_PATH_LEN" for h
    using that by (fastforce simp: zero_dh_def)
  moreover have "length (dh_path login_dh) = CONN_DH_MAX_PATH_LEN" "length (dh_path zero_dh) = CONN_DH_MAX_PATH_LEN"
    by (simp_all add: login_dh_def zero_dh_def)
  ultimately show ?thesis using assms
    by (auto simp: conn_ok_def logged_out_def Let_def zero_sh_def)
qed

lemma logged_out_simps [simp]:
  "status (logged_out ok k) = Attached" "addr (logged_out ok k) = addr k" "station_of (logged_out ok k) = station_of k"
  "c_object_id (logged_out ok k) = 0xffffffff" "object_supervisor (logged_out ok k) = 0"
  "fh (logged_out ok k) = map (\<lambda>_. -1) (fh k)"
  by (simp_all add: logged_out_def station_of_def)

lemma real_station_station: "station_of k = station_of k' \<Longrightarrow> real_station (addr k) = real_station (addr k')"
  by (simp add: station_of_def real_station_def same_station_def)

lemma table_inv_uniq:
  assumes "table_inv ks" "i < length ks" "j < length ks" "i \<noteq> j" "status (ks ! i) \<noteq> Unused" "status (ks ! j) \<noteq> Unused"
    "real_station (addr (ks ! i)) \<or> real_station (addr (ks ! j))"
  shows "station_of (ks ! i) \<noteq> station_of (ks ! j)"
proof
  assume e: "station_of (ks ! i) = station_of (ks ! j)"
  then have "real_station (addr (ks ! i))" using assms(7) real_station_station [OF e] by simp
  with e assms show False by (auto simp: table_inv_def)
qed

lemma table_inv_update:
  assumes inv: "table_inv ks" and c: "c = 0 \<longrightarrow> addr k = zero_addr" "c < length ks" and k: "conn_ok k" "status k = Unused \<longrightarrow> addr k = zero_addr"
    and st: "\<And>j. status k \<noteq> Unused \<Longrightarrow> real_station (addr k) \<Longrightarrow> j < length ks \<Longrightarrow> j \<noteq> c \<Longrightarrow>
      status (ks ! j) \<noteq> Unused \<Longrightarrow> station_of (ks ! j) \<noteq> station_of k"
  shows "table_inv (ks[c := k])"
proof -
  have h: "c \<noteq> 0 \<Longrightarrow> hd (ks[c := k]) = hd ks" "c = 0 \<Longrightarrow> hd (ks[c := k]) = k" using c(2) by (cases ks; cases c; simp)+
  have m: "x \<in> set (ks[c := k]) \<Longrightarrow> x = k \<or> x \<in> set ks" for x
    using set_update_subset_insert by fastforce
  have "station_of (ks[c := k] ! i) \<noteq> station_of (ks[c := k] ! j)"
    if "i < length ks" "j < length ks" "i \<noteq> j" "status (ks[c := k] ! i) \<noteq> Unused" "status (ks[c := k] ! j) \<noteq> Unused"
      "real_station (addr (ks[c := k] ! i))" for i j
  proof -
    consider "i = c" | "j = c" | "i \<noteq> c" "j \<noteq> c" by blast
    then show ?thesis
    proof cases
      case 1
      then show ?thesis using that c st [of j] by (metis nth_list_update_eq nth_list_update_neq)
    next
      case 2
      show ?thesis
      proof
        assume e: "station_of (ks[c := k] ! i) = station_of (ks[c := k] ! j)"
        then have "real_station (addr k)" using 2 that c real_station_station [OF e] by simp
        then show False using 2 that c st [of i] e by simp
      qed
    next
      case 3
      then show ?thesis using that table_inv_uniq [OF inv, of i j] by simp
    qed
  qed
  moreover have "\<forall>x\<in>set (ks[c := k]). conn_ok x" "\<forall>x\<in>set (ks[c := k]). status x = Unused \<longrightarrow> addr x = zero_addr"
    using m k inv by (auto simp: table_inv_def dest!: m)
  moreover have "ks[c := k] \<noteq> []" "addr (hd (ks[c := k])) = zero_addr" using h inv c(1) by (cases "c = 0"; auto simp: table_inv_def)+
  ultimately show ?thesis by (simp add: table_inv_def)
qed

lemma conn_inv_init: "sys_volume_ok (s\<lparr>conns := conn_init n\<rparr>) \<Longrightarrow> conn_inv (s\<lparr>conns := conn_init n\<rparr>)"
  by (auto simp: conn_inv_def table_inv_def conn_init_def zero_conn_def [THEN arg_cong [where f = status]] nth_Cons split: nat.splits)

text \<open>Logging out an entry, and clearing it.\<close>

lemma conn_logout_inv:
  assumes "conn_inv s" "c < length (conns s)"
  shows "\<exists>s' ok. conn_logout c s = Some s' \<and> conn_inv s' \<and> conns s' = (conns s)[c := logged_out ok (conns s ! c)] \<and>
    volumes s' = volumes s \<and> db s' = db s \<and> sent s' = sent s \<and> now s' = now s"
proof -
  have ok: "conn_ok (conns s ! c)" and sv: "sys_volume_ok s"
    using assms by (auto simp: conn_inv_def table_inv_def)
  have unused: "status (conns s ! c) = Unused \<longrightarrow> \<not> real_station (addr (conns s ! c))"
    using assms by (auto simp: conn_inv_def table_inv_def real_station_def same_station_def)
  from conn_logout_eq [OF assms(2) ok sv] obtain s' ok' where s':
    "conn_logout c s = Some s'" "conns s' = (conns s)[c := logged_out ok' (conns s ! c)]"
    "volumes s' = volumes s" "db s' = db s" "sent s' = sent s" "now s' = now s" by metis
  have "table_inv (conns s')"
    unfolding s'(2)
  proof (rule table_inv_update)
    show "table_inv (conns s)" using assms(1) by (simp add: conn_inv_def)
    then show "station_of (conns s ! j) \<noteq> station_of (logged_out ok' (conns s ! c))"
      if "real_station (addr (logged_out ok' (conns s ! c)))" "j < length (conns s)" "j \<noteq> c" "status (conns s ! j) \<noteq> Unused" for j
      using that table_inv_uniq [of "conns s" j c] assms unused by auto
  qed (use assms ok in \<open>auto simp: conn_inv_def table_inv_def hd_conv_nth\<close>)
  then have "conn_inv s'" using sv s'(3) by (simp add: conn_inv_def sys_volume_ok_def)
  then show ?thesis using s' by blast
qed

lemma conn_clear_eq:
  assumes "table_inv (conns s)" "sys_volume_ok s" "c < length (conns s)"
  shows "\<exists>s'. conn_clear c s = Some s' \<and> conns s' = (conns s)[c := zero_conn] \<and> conn_inv s' \<and>
    volumes s' = volumes s \<and> db s' = db s \<and> sent s' = sent s \<and> now s' = now s"
proof -
  have ok: "conn_ok (conns s ! c)" using assms by (auto simp: table_inv_def)
  from conn_logout_eq [OF assms(3) ok assms(2)] obtain s1 ok' where s1:
    "conn_logout c s = Some s1" "conns s1 = (conns s)[c := logged_out ok' (conns s ! c)]"
    "volumes s1 = volumes s" "db s1 = db s" "sent s1 = sent s" "now s1 = now s" by metis
  let ?s' = "upd_conn c (\<lambda>_. zero_conn) s1"
  have e: "conns ?s' = (conns s)[c := zero_conn]" by (simp add: upd_conn_def s1(2))
  have "table_inv ((conns s)[c := zero_conn])"
    by (rule table_inv_update) (use assms in \<open>auto\<close>)
  then have "conn_inv ?s'" using e s1(3) assms(2) by (simp add: conn_inv_def sys_volume_ok_def)
  then show ?thesis using s1 e by (intro exI [of _ ?s']) (simp add: conn_clear_def)
qed

text \<open>What \<^verbatim>\<open>conn_attach_client\<close> does.\<close>

lemma same_station_of: "same_station (addr k) (addr k') \<longleftrightarrow> station_of k = station_of k'"
  by (simp add: same_station_def station_of_def)

lemma station_not_zero: "real_station a \<Longrightarrow> \<not> same_station zero_addr a"
  by (auto simp: real_station_def same_station_def)

definition attached :: "ipx_addr option \<Rightarrow> int \<Rightarrow> bool \<Rightarrow> connection \<Rightarrow> connection" where
  "attached a t ok k = (case a of None \<Rightarrow> logged_out ok k | Some a \<Rightarrow> (logged_out ok k)\<lparr>addr := a\<rparr>)
     \<lparr>login_time := t, last_time := t, wdog_time := 0\<rparr>"

lemma attached_simps [simp]:
  "status (attached a t ok k) = Attached" "addr (attached a t ok k) = (case a of None \<Rightarrow> addr k | Some a \<Rightarrow> a)"
  "c_object_id (attached a t ok k) = 0xffffffff" "object_supervisor (attached a t ok k) = 0"
  by (simp_all add: attached_def split: option.splits)

lemma conn_ok_attached [simp]: "conn_ok k \<Longrightarrow> conn_ok (attached a t ok k)"
  using conn_ok_logged_out [of k ok] by (auto simp: attached_def conn_ok_def split: option.splits)

text \<open>The slot chosen: the one of the station, or a free one.\<close>

definition attach_slot :: "ipx_addr option \<Rightarrow> connection list \<Rightarrow> nat option" where
  "attach_slot a ks =
     (case Option.bind a (\<lambda>a. first_index (\<lambda>k. same_station (addr k) a) (tl ks)) of
        Some i \<Rightarrow> Some (Suc i)
      | None \<Rightarrow> map_option Suc (free_slot (tl ks)))"

lemma conn_attach_client_slot:
  "conn_attach_client a s = (case attach_slot a (conns s) of
     None \<Rightarrow> Some (-1, s)
   | Some c \<Rightarrow> do {
       s1 \<leftarrow> conn_logout c s;
       Some (int c, upd_conn c (\<lambda>k. (case a of None \<Rightarrow> k | Some a \<Rightarrow> k\<lparr>addr := a\<rparr>)
                      \<lparr>login_time := now s1, last_time := now s1, wdog_time := 0\<rparr>) s1)
     })"
  by (auto simp: conn_attach_client_def attach_slot_def conn_scan_client_by_addr_def conn_find_free_conn_def
      Let_def nat_add_distrib add.commute split: option.splits)

lemma attach_slot_SomeD:
  assumes "attach_slot a ks = Some c"
  shows "0 < c" "c < length ks"
  using assms by (auto simp: attach_slot_def first_index_Some free_slot_def split: option.splits Option.bind_splits)

lemma attach_slot_station:
  assumes "attach_slot (Some a) ks = Some c" "table_inv ks" "real_station a"
  shows "\<forall>j<length ks. j \<noteq> c \<and> status (ks ! j) \<noteq> Unused \<longrightarrow> \<not> same_station (addr (ks ! j)) a"
proof (intro allI impI notI, elim conjE)
  fix j
  assume j: "j < length ks" "j \<noteq> c" "status (ks ! j) \<noteq> Unused" "same_station (addr (ks ! j)) a"
  have j0: "0 < j" using j assms(2,3) station_not_zero by (cases j) (auto simp: table_inv_def hd_conv_nth)
  then have tj: "tl ks ! (j - 1) = ks ! j" "j - 1 < length (tl ks)" using j(1) by (auto simp: nth_tl)
  show False
  proof (cases "first_index (\<lambda>k. same_station (addr k) a) (tl ks)")
    case None
    then have "\<not> same_station (addr (tl ks ! (j - 1))) a" using tj(2) nth_mem by (fastforce simp: first_index_None)
    then show False using tj(1) j(4) by simp
  next
    case (Some i)
    then have c: "c = Suc i" using assms(1) by (simp add: attach_slot_def)
    have i: "i < length (tl ks)" "same_station (addr (tl ks ! i)) a" using Some by (auto simp: first_index_Some)
    then have kc: "ks ! c = tl ks ! i" "c < length ks" using c by (auto simp: nth_tl)
    have "addr (ks ! c) \<noteq> zero_addr" using i(2) station_not_zero [OF assms(3)] kc(1) by metis
    then have "status (ks ! c) \<noteq> Unused" using assms(2) kc(2) by (auto simp: table_inv_def)
    moreover have "real_station (addr (ks ! c))" "station_of (ks ! c) = station_of (ks ! j)"
      using i(2) kc(1) assms(3) j(4) by (auto simp: real_station_def same_station_def station_of_def)
    ultimately show False using assms(2) j kc(2) by (auto simp: table_inv_def)
  qed
qed

lemma conn_attach_client_eq:
  assumes "conn_inv s"
  shows "(attach_slot a (conns s) = None \<and> conn_attach_client a s = Some (-1, s)) \<or>
    (\<exists>c s' ok. attach_slot a (conns s) = Some c \<and> conn_attach_client a s = Some (int c, s') \<and>
       conns s' = (conns s)[c := attached a (now s) ok (conns s ! c)] \<and> conn_inv s' \<and>
       db s' = db s \<and> sent s' = sent s \<and> now s' = now s)"
proof (cases "attach_slot a (conns s)")
  case None
  then show ?thesis by (simp add: conn_attach_client_slot)
next
  case (Some c)
  have tab: "table_inv (conns s)" "sys_volume_ok s" using assms(1) by (auto simp: conn_inv_def)
  note c = attach_slot_SomeD [OF Some]
  have ok: "conn_ok (conns s ! c)" using tab(1) c by (auto simp: table_inv_def)
  from conn_logout_eq [OF c(2) ok tab(2)] obtain s1 ok' where s1:
    "conn_logout c s = Some s1" "conns s1 = (conns s)[c := logged_out ok' (conns s ! c)]"
    "volumes s1 = volumes s" "db s1 = db s" "sent s1 = sent s" "now s1 = now s" by metis
  let ?s' = "upd_conn c (\<lambda>k. (case a of None \<Rightarrow> k | Some a \<Rightarrow> k\<lparr>addr := a\<rparr>)
                      \<lparr>login_time := now s1, last_time := now s1, wdog_time := 0\<rparr>) s1"
  let ?k = "attached a (now s) ok' (conns s ! c)"
  have e: "conns ?s' = (conns s)[c := ?k]"
    using c by (simp add: upd_conn_def s1(2,6) attached_def split: option.splits)
  have "\<forall>j<length (conns s). j \<noteq> c \<and> status (conns s ! j) \<noteq> Unused \<longrightarrow> station_of (conns s ! j) \<noteq> station_of ?k"
    if "real_station (addr ?k)"
  proof (cases a)
    case (Some x)
    with attach_slot_station [of x "conns s" c] \<open>attach_slot a _ = _\<close> tab(1) that show ?thesis
      by (auto simp: same_station_def station_of_def)
  next
    case None
    then have "status (conns s ! c) = Unused"
      using Some by (auto simp: attach_slot_def free_slot_def first_index_Some nth_tl)
    then have "addr (conns s ! c) = zero_addr" using tab(1) c by (auto simp: table_inv_def)
    then show ?thesis using that None by (simp add: real_station_def same_station_def)
  qed
  then have "table_inv ((conns s)[c := ?k])"
    by (intro table_inv_update) (use tab(1) ok c in auto)
  then have "conn_inv ?s'" using e s1(3) tab(2) by (simp add: conn_inv_def sys_volume_ok_def)
  then show ?thesis using s1 e Some by (intro disjI2 exI [of _ c] exI [of _ ?s'] exI [of _ ok']) (simp add: conn_attach_client_slot)
qed

text \<open>
  What the cleanup makes of a connection at time \<open>t\<close>: idle for more than five minutes, it is first
  sent a watchdog, and dropped when it is still idle at a later cleanup.
\<close>

definition cleaned :: "int \<Rightarrow> connection \<Rightarrow> connection" where
  "cleaned t k = (if status k \<noteq> Unused \<and> t > last_time k + CONN_TIMEOUT_LENGTH
                  then (if wdog_time k = 0 then k\<lparr>wdog_time := t\<rparr> else zero_conn) else k)"

text \<open>The connections it asks, and what it sends them.\<close>

definition to_ask :: "srv \<Rightarrow> nat \<Rightarrow> bool" where
  "to_ask s j \<longleftrightarrow> status (conns s ! j) \<noteq> Unused \<and> now s > last_time (conns s ! j) + CONN_TIMEOUT_LENGTH \<and> wdog_time (conns s ! j) = 0"

definition wdog_question :: "srv \<Rightarrow> nat \<Rightarrow> packet" where
  "wdog_question s j = Watchdog \<lparr>x_net = x_net (addr (conns s ! j)), x_host = x_host (addr (conns s ! j)),
     x_port = x_port (addr (conns s ! j)) + 1\<rparr> (of_nat j) (of_char CHR ''?'')"

definition wdog_questions :: "srv \<Rightarrow> nat list \<Rightarrow> packet list" where
  "wdog_questions s is = rev (map (wdog_question s) (filter (to_ask s) is))"

lemma conn_inv_fields:
  assumes "conn_inv s" "c < length (conns s)" "k = f (conns s ! c)" "conn_ok k"
    "status k = Unused \<longrightarrow> status (conns s ! c) = Unused" "addr k = addr (conns s ! c)"
  shows "conn_inv (upd_conn c f s)"
proof -
  have inv: "table_inv (conns s)" using assms(1) by (simp add: conn_inv_def)
  have "table_inv ((conns s)[c := k])"
  proof (rule table_inv_update [OF inv _ assms(2,4)])
    show "c = 0 \<longrightarrow> addr k = zero_addr" using assms inv by (auto simp: table_inv_def hd_conv_nth)
    show "status k = Unused \<longrightarrow> addr k = zero_addr" using assms inv by (auto simp: table_inv_def)
    show "station_of (conns s ! j) \<noteq> station_of k"
      if r: "real_station (addr k)" and j: "j < length (conns s)" "j \<noteq> c" "status (conns s ! j) \<noteq> Unused" for j
    proof -
      have "status (conns s ! c) \<noteq> Unused"
        using r inv assms(2,6) by (auto simp: table_inv_def real_station_def same_station_def)
      then show ?thesis using r j table_inv_uniq [OF inv, of j c] assms(2,6) by (simp add: station_of_def)
    qed
  qed
  then show ?thesis using assms(1,3) by (simp add: conn_inv_def sys_volume_ok_def) (simp add: upd_conn_def)
qed

lemma conn_ok_fields [simp]:
  "conn_ok (k\<lparr>wdog_time := t\<rparr>) = conn_ok k" "conn_ok (k\<lparr>last_time := t\<rparr>) = conn_ok k"
  by (simp_all add: conn_ok_def)

lemma cleanup_conn_eq:
  assumes "conn_inv s" "0 < i" "i < length (conns s)"
  shows "\<exists>s'. cleanup_conn i s = Some s' \<and> conns s' = (conns s)[i := cleaned (now s) (conns s ! i)] \<and> conn_inv s' \<and>
    now s' = now s \<and> sent s' = wdog_questions s [i] @ sent s \<and> volumes s' = volumes s \<and> db s' = db s"
proof -
  let ?k = "conns s ! i"
  consider "\<not> (status ?k \<noteq> Unused \<and> now s > last_time ?k + CONN_TIMEOUT_LENGTH)"
    | (wdog) "status ?k \<noteq> Unused" "now s > last_time ?k + CONN_TIMEOUT_LENGTH" "wdog_time ?k = 0"
    | (drop) "status ?k \<noteq> Unused" "now s > last_time ?k + CONN_TIMEOUT_LENGTH" "wdog_time ?k \<noteq> 0" by blast
  then show ?thesis
  proof cases
    case 1
    then have "cleanup_conn i s = Some s" "cleaned (now s) ?k = ?k" using assms by (auto simp: cleanup_conn_def cleaned_def)
    then show ?thesis using assms 1 by (auto simp: wdog_questions_def to_ask_def)
  next
    case wdog
    let ?s1 = "upd_conn i (\<lambda>k. k\<lparr>wdog_time := now s\<rparr>) s"
    have "conn_inv ?s1"
      by (rule conn_inv_fields [OF assms(1,3) refl]) (use assms wdog in \<open>auto simp: conn_inv_def table_inv_def\<close>)
    then show ?thesis using assms wdog
      by (auto simp: cleanup_conn_def cleaned_def wdog_send_watchdog_def conn_inv_def sys_volume_ok_def
          wdog_questions_def to_ask_def wdog_question_def zero_addr_def) (auto simp: upd_conn_def)
  next
    case drop
    have "table_inv (conns s)" "sys_volume_ok s" using assms(1) by (auto simp: conn_inv_def)
    from conn_clear_eq [OF this assms(3)] drop assms(3) show ?thesis
      by (auto simp: cleanup_conn_def cleaned_def wdog_questions_def to_ask_def)
  qed
qed

lemma cleanup_from_eq:
  assumes "conn_inv s" "\<forall>i\<in>set is. 0 < i \<and> i < length (conns s)" "distinct is"
  shows "\<exists>s'. cleanup_from is s = Some s' \<and> length (conns s') = length (conns s) \<and> conn_inv s' \<and>
    (\<forall>j<length (conns s). conns s' ! j = (if j \<in> set is then cleaned (now s) (conns s ! j) else conns s ! j)) \<and> now s' = now s \<and>
    sent s' = wdog_questions s is @ sent s \<and> volumes s' = volumes s \<and> db s' = db s"
  using assms
proof (induction "is" arbitrary: s)
  case (Cons i rest)
  then obtain s1 where s1: "cleanup_conn i s = Some s1" "conns s1 = (conns s)[i := cleaned (now s) (conns s ! i)]"
    "conn_inv s1" "now s1 = now s" "sent s1 = wdog_questions s [i] @ sent s" "volumes s1 = volumes s" "db s1 = db s"
    using cleanup_conn_eq [of s i] by auto
  with Cons obtain s' where s': "cleanup_from rest s1 = Some s'" "length (conns s') = length (conns s1)" "conn_inv s'"
    "\<forall>j<length (conns s1). conns s' ! j = (if j \<in> set rest then cleaned (now s1) (conns s1 ! j) else conns s1 ! j)"
    "now s' = now s1" "sent s' = wdog_questions s1 rest @ sent s1" "volumes s' = volumes s1" "db s' = db s1"
    using Cons.IH [of s1] by auto
  have rest: "conns s1 ! j = conns s ! j" if "j \<in> set rest" for j
    using that s1(2) Cons.prems(3) by (cases "j = i") auto
  have f: "filter (to_ask s1) rest = filter (to_ask s) rest" using rest s1(4) by (intro filter_cong) (auto simp: to_ask_def)
  have "map (wdog_question s1) (filter (to_ask s) rest) = map (wdog_question s) (filter (to_ask s) rest)"
    using rest by (intro map_cong) (auto simp: wdog_question_def)
  then have q: "wdog_questions s1 rest @ wdog_questions s [i] = wdog_questions s (i # rest)" by (simp add: wdog_questions_def f)
  have "conns s' ! j = (if j \<in> set (i # rest) then cleaned (now s) (conns s ! j) else conns s ! j)"
    if "j < length (conns s)" for j
    using s'(4) s1(2,4) that Cons.prems(3) by (cases "j = i") auto
  then show ?case using s1 s' by (intro exI [of _ s']) (simp add: q [symmetric])
qed (simp add: wdog_questions_def)

text \<open>A connection dropped after a second silent period: it takes two cleanups.\<close>

lemma cleaned_twice:
  assumes "status k \<noteq> Unused" "t > last_time k + CONN_TIMEOUT_LENGTH" "t \<le> t'" "t \<noteq> 0"
  shows "cleaned t' (cleaned t k) = zero_conn"
  using assms by (simp add: cleaned_def zero_conn_def)

section \<open>The watchdog and the cleanup keep the invariant\<close>

lemma wdog_inv:
  assumes "conn_inv s" "wdog_handle_packet data sz from s = Some s'"
  shows "conn_inv s'"
proof (cases "s' = s")
  case True
  then show ?thesis using assms(1) by simp
next
  case False
  have sz: "sz = 2" using assms(2) False by (auto simp: wdog_handle_packet_def split: if_splits)
  obtain cid sign where ld: "load data 0 = Some cid" "load data 1 = Some sign"
    using assms(2) sz by (cases "load data 0"; cases "load data 1") (simp_all add: wdog_handle_packet_def del: load_Some load_None)
  have rng: "\<not> unat cid > nofconns s" using assms(2) sz ld False by (auto simp: wdog_handle_packet_def simp del: load_Some)
  obtain k where k: "get_conn (unat cid) s = Some k"
    using assms(2) sz ld rng by (cases "get_conn (unat cid) s") (simp_all add: wdog_handle_packet_def Let_def del: load_Some)
  have cid: "unat cid < length (conns s)" "same_station (addr (conns s ! unat cid)) from"
    "s' = upd_conn (unat cid) (\<lambda>k. k\<lparr>last_time := now s, wdog_time := 0\<rparr>) s"
    using assms(2) sz ld rng k False
    by (simp_all add: wdog_handle_packet_def Let_def del: load_Some split: if_splits)
  let ?k = "conns s ! unat cid"
  have inv: "table_inv (conns s)" using assms(1) by (simp add: conn_inv_def)
  show ?thesis unfolding cid(3)
    by (intro conn_inv_fields [OF assms(1) cid(1) refl]) (use inv cid(1) in \<open>auto simp: table_inv_def\<close>)
qed

lemma conn_cleanup_eq:
  assumes "conn_inv s"
  shows "\<exists>s'. conn_cleanup s = Some s' \<and> length (conns s') = length (conns s) \<and> conn_inv s' \<and>
    (\<forall>j<length (conns s). 0 < j \<longrightarrow> conns s' ! j = cleaned (now s) (conns s ! j)) \<and>
    conns s' ! 0 = conns s ! 0 \<and> now s' = now s \<and> sent s' = wdog_questions s [1..<length (conns s)] @ sent s \<and>
    volumes s' = volumes s \<and> db s' = db s"
proof -
  have n: "[1..<Suc (nofconns s)] = [1..<length (conns s)]" and ne: "conns s \<noteq> []"
    using assms by (auto simp: nofconns_def conn_inv_def table_inv_def simp del: upt_Suc)
  show ?thesis using cleanup_from_eq [OF assms, of "[1..<length (conns s)]"] ne
    unfolding conn_cleanup_def n by (auto simp: length_greater_0_conv [symmetric] simp del: length_greater_0_conv)
qed

end
