(* ===== verification/Fr_Ncp.thy ===== *)
theory Fr_Ncp
  imports Fr_Conn
begin

text \<open>
  \<^verbatim>\<open>src/server/ncp.c\<close>, first part, and \<^verbatim>\<open>ncp_34.c\<close>, \<^verbatim>\<open>ncp_87.c\<close>: replies, the fields of a request, the
  requests that concern a connection as a whole. A handler gets the connection number, the bytes of
  the receive buffer from its data pointer on (also those behind the packet received), the size that
  the packet claims for the data, and the state. \<open>None\<close> is an access outside an array.
\<close>

abbreviation (input) NCP_DATASIZE :: nat where "NCP_DATASIZE \<equiv> 4096"
abbreviation (input) PACKET_BUFSIZE :: nat where "PACKET_BUFSIZE \<equiv> 2048"
abbreviation (input) NCP_ERROR_WRONGLENGTH :: u8 where "NCP_ERROR_WRONGLENGTH \<equiv> 0xff"

section \<open>Replies\<close>

definition ncp_send_reply :: "nat \<Rightarrow> u8 option list \<Rightarrow> u8 \<Rightarrow> srv \<Rightarrow> srv option" where
  "ncp_send_reply c d code s = do {
     k \<leftarrow> get_conn c s;
     m0 \<leftarrow> load (message k) 0;
     Some (s\<lparr>sent := Reply \<lparr>rep_to = addr k, con_no = of_nat c, rep_reserved = of_nat (c div 256),
        rep_task_no = task_no k, rep_seq_no = seq_no k, comp_code = code,
        conn_stat = (if down_flag s then 0x8 else 0) OR (if m0 \<noteq> 0 then 0x40 else 0),
        rep_data = d\<rparr> # sent s\<rparr>)
   }"

definition ncp_send_compcode :: "nat \<Rightarrow> u8 \<Rightarrow> srv \<Rightarrow> srv option" where
  "ncp_send_compcode c code s = ncp_send_reply c [] code s"

definition ncp_send_compcode_addr :: "ipx_addr \<Rightarrow> nat \<Rightarrow> u8 \<Rightarrow> u8 \<Rightarrow> u8 \<Rightarrow> u8 \<Rightarrow> srv \<Rightarrow> srv" where
  "ncp_send_compcode_addr a c task seq code flags s =
     s\<lparr>sent := Reply \<lparr>rep_to = a, con_no = of_nat c, rep_reserved = 0, rep_task_no = task,
        rep_seq_no = seq, comp_code = code, conn_stat = flags, rep_data = []\<rparr> # sent s\<rparr>"

text \<open>\<^verbatim>\<open>NCP_REQUIRE_LENGTH\<close> and \<^verbatim>\<open>NCP_REQUIRE_LENGTH_MIN\<close>: the rest of the handler, or the error code.\<close>

definition require :: "bool \<Rightarrow> nat \<Rightarrow> srv \<Rightarrow> srv option \<Rightarrow> srv option" where
  "require ok c s rest = (if ok then rest else ncp_send_compcode c NCP_ERROR_WRONGLENGTH s)"

section \<open>Fields of a request\<close>

definition get_be8 :: "bytes \<Rightarrow> nat \<Rightarrow> u8 option" where
  "get_be8 data i = load data i"

definition get_be16 :: "bytes \<Rightarrow> nat \<Rightarrow> u16 option" where
  "get_be16 data i = do { a \<leftarrow> load data i; b \<leftarrow> load data (i + 1); Some (be16 (a, b)) }"

definition get_be32 :: "bytes \<Rightarrow> nat \<Rightarrow> u32 option" where
  "get_be32 data i = do {
     a \<leftarrow> load data i; b \<leftarrow> load data (i + 1); c \<leftarrow> load data (i + 2); d \<leftarrow> load data (i + 3);
     Some (be32 (a, b, c, d))
   }"

definition get_le32 :: "bytes \<Rightarrow> nat \<Rightarrow> u32 option" where
  "get_le32 data i = do {
     a \<leftarrow> load data i; b \<leftarrow> load data (i + 1); c \<leftarrow> load data (i + 2); d \<leftarrow> load data (i + 3);
     Some (le32 (a, b, c, d))
   }"

text \<open>\<open>n\<close> bytes copied into a cleared array of \<^verbatim>\<open>NCP_MAX_FIELD_LEN\<close> bytes, and the string it then holds.\<close>

definition ncp_field :: "bytes \<Rightarrow> nat \<Rightarrow> nat \<Rightarrow> bytes option" where
  "ncp_field data i n =
     (if i + n \<le> length data \<and> n \<le> NCP_MAX_FIELD_LEN
      then Some (mkbuf NCP_MAX_FIELD_LEN (take n (drop i data))) else None)"

definition ncp_str :: "bytes \<Rightarrow> nat \<Rightarrow> nat \<Rightarrow> bytes option" where
  "ncp_str data i n = Option.bind (ncp_field data i n) cstr"

text \<open>\<open>n\<close> bytes copied into an array of exactly that size.\<close>

definition get_bytes :: "bytes \<Rightarrow> nat \<Rightarrow> nat \<Rightarrow> bytes option" where
  "get_bytes data i n = (if i + n \<le> length data then Some (take n (drop i data)) else None)"

text \<open>The bytes of an \<^verbatim>\<open>int\<close>, the high one first: \<^verbatim>\<open>i >> 8\<close> and \<^verbatim>\<open>i & 0xff\<close>, and for four bytes.\<close>

definition int_b2 :: "int \<Rightarrow> bytes" where
  "int_b2 i = [word_of_int (drop_bit 8 i), word_of_int i]"

definition int_b4 :: "int \<Rightarrow> bytes" where
  "int_b4 i = [word_of_int (drop_bit 24 i), word_of_int (drop_bit 16 i), word_of_int (drop_bit 8 i), word_of_int i]"

section \<open>Making and breaking a connection\<close>

definition ncp_create_conn :: "ipx_addr \<Rightarrow> srv \<Rightarrow> srv option" where
  "ncp_create_conn from s = do {
     (i, s1) \<leftarrow> conn_attach_client (Some from) s;
     (if i < 0 then Some s1 else ncp_send_compcode (nat i) 0 s1)
   }"

definition ncp_destroy_conn :: "nat \<Rightarrow> ipx_addr \<Rightarrow> srv \<Rightarrow> srv option" where
  "ncp_destroy_conn c from s = do {
     k \<leftarrow> get_conn c s;
     let s1 = s\<lparr>sent := Reply \<lparr>rep_to = from, con_no = of_nat c, rep_reserved = 0, rep_task_no = task_no k,
        rep_seq_no = seq_no k, comp_code = 0, conn_stat = 0, rep_data = []\<rparr> # sent s\<rparr>;
     Some (upd_conn c (\<lambda>_. zero_conn) s1)
   }"

section \<open>Requests about the connection\<close>

definition ncp_handle_buffersize :: "nat \<Rightarrow> bytes \<Rightarrow> int \<Rightarrow> srv \<Rightarrow> srv option" where
  "ncp_handle_buffersize c data sz s = ncp_send_reply c (map Some (int_b2 (int PACKET_BUFSIZE))) 0 s"

text \<open>The seven bytes of a broken-down time, also used for the login time of a station.\<close>

definition servertime :: "tm \<Rightarrow> bytes" where
  "servertime t = [word_of_int (tm_year t), word_of_int (tm_mon t + 1), word_of_int (tm_mday t),
     word_of_int (tm_hour t), word_of_int (tm_min t), word_of_int (tm_sec t), word_of_int (tm_wday t)]"

definition ncp_handle_timedate :: "nat \<Rightarrow> srv \<Rightarrow> srv option" where
  "ncp_handle_timedate c s = ncp_send_reply c (map Some (servertime (localtime s (now s)))) 0 s"

text \<open>End of job: the search handles are freed by clearing the first character of their path.\<close>

definition ncp_handle_eoj :: "nat \<Rightarrow> bytes \<Rightarrow> int \<Rightarrow> srv \<Rightarrow> srv option" where
  "ncp_handle_eoj c data sz s =
     require (sz = 0) c s
       (ncp_send_compcode c 0
          (upd_conn c (\<lambda>k. k\<lparr>sh := map (\<lambda>h. h\<lparr>sh_path := (sh_path h)[0 := 0]\<rparr>) (sh k)\<rparr>) s))"

definition ncp_handle_logout :: "nat \<Rightarrow> bytes \<Rightarrow> int \<Rightarrow> srv \<Rightarrow> srv option" where
  "ncp_handle_logout c data sz s =
     require (sz = 0) c s (do { s1 \<leftarrow> conn_logout c s; ncp_send_compcode c 0 s1 })"

text \<open>Packet burst is compiled out (\<^verbatim>\<open>PBURST_WORKS\<close> is not defined).\<close>

definition ncp_handle_maxpacket :: "nat \<Rightarrow> bytes \<Rightarrow> int \<Rightarrow> srv \<Rightarrow> srv option" where
  "ncp_handle_maxpacket c data sz s =
     require (sz = 3) c s (do {
       prop_size \<leftarrow> get_be16 data 0;
       sec_flag \<leftarrow> get_be8 data 1;
       ncp_send_compcode c 0xfb s
     })"

section \<open>Transaction tracking and filesystem services\<close>

definition ncp_handle_tts_isavail :: "nat \<Rightarrow> bytes \<Rightarrow> int \<Rightarrow> srv \<Rightarrow> srv option" where
  "ncp_handle_tts_isavail c data sz s = require (sz = 0) c s (ncp_send_compcode c 0 s)"

definition ncp_handle_r34 :: "nat \<Rightarrow> bytes \<Rightarrow> int \<Rightarrow> srv \<Rightarrow> srv option" where
  "ncp_handle_r34 c data sz s = do {
     sub_func \<leftarrow> load data 0;
     (if sub_func = 0 then ncp_handle_tts_isavail c (drop 1 data) (sz - 1) s
      else ncp_send_compcode c 0xff s)
   }"

definition ncp_handle_genbasevolno :: "nat \<Rightarrow> bytes \<Rightarrow> int \<Rightarrow> srv \<Rightarrow> srv option" where
  "ncp_handle_genbasevolno c data sz s = ncp_send_compcode c 0xff s"

definition ncp_handle_r87 :: "nat \<Rightarrow> bytes \<Rightarrow> int \<Rightarrow> srv \<Rightarrow> srv option" where
  "ncp_handle_r87 c data sz s = do {
     sub_func \<leftarrow> load data 0;
     (if sub_func = 22 then ncp_handle_genbasevolno c (drop 1 data) sz s
      else ncp_send_compcode c 0xff s)
   }"

section \<open>Subfunction packets\<close>

text \<open>
  The head of the handlers of requests 21, 22 and 23: two bytes of length, then the subfunction. The
  cast to \<^verbatim>\<open>uint8\<close> in \<^verbatim>\<open>(uint8)((*(data)) << 8)\<close> loses the high byte of the length; a length that does not
  fit the packet is replaced. The result is a \<^verbatim>\<open>uint16\<close>.
\<close>

definition sub_size :: "bytes \<Rightarrow> int \<Rightarrow> int option" where
  "sub_size data sz = do {
     hi \<leftarrow> load data 0;
     lo \<leftarrow> load data 1;
     let n = uint ((ucast (push_bit 8 hi) :: u16) OR ucast lo);
     Some (if n + 2 \<noteq> sz then uint (word_of_int (sz - 2) :: u16) else n)
   }"

end
