(* ===== verification/Fr_NcpFile.thy ===== *)
theory Fr_NcpFile
  imports Fr_Ncp
begin

text \<open>
  \<^verbatim>\<open>src/server/ncp.c\<close>, second part: searching, opening, creating, reading, writing, renaming and erasing
  files, and the volume information. The operating system's answers come from the state; the
  changes it is asked to make are logged in \<open>os_log\<close>.
\<close>

abbreviation (input) FS_ERROR_ALLNAMESEXIST :: u8 where "FS_ERROR_ALLNAMESEXIST \<equiv> 0x92"
abbreviation (input) VOL_FLAG_REMOVABLE :: int where "VOL_FLAG_REMOVABLE \<equiv> 2"
abbreviation (input) DT_DIR :: nat where "DT_DIR \<equiv> 4"

text \<open>A result of \<^verbatim>\<open>fs.c\<close> as a completion code.\<close>

abbreviation code8 :: "int \<Rightarrow> u8" where "code8 i \<equiv> word_of_int i"

text \<open>A path field: copied, then its \<open>n\<close> bytes turned to lower case (the zeros behind stay zero).\<close>

definition ncp_path :: "bytes \<Rightarrow> nat \<Rightarrow> nat \<Rightarrow> bytes option" where
  "ncp_path data i n = map_option (map tolower) (ncp_field data i n)"

section \<open>Searching\<close>

text \<open>The first \<open>m\<close> bytes of a directory entry's name: those behind the terminator are not set.\<close>

definition dname_bytes :: "nat \<Rightarrow> bytes \<Rightarrow> u8 option list" where
  "dname_bytes m n =
     map (\<lambda>i. if i < length n then Some (toupper (n ! i)) else if i = length n then Some 0 else None) [0..<m]"

text \<open>Fields taken from a \<^verbatim>\<open>struct stat\<close>; when \<^verbatim>\<open>stat\<close> failed the structure was never set.\<close>

definition stat_field :: "(stat_rec \<Rightarrow> bytes) \<Rightarrow> nat \<Rightarrow> stat_rec option \<Rightarrow> u8 option list" where
  "stat_field f n st = (case st of None \<Rightarrow> replicate n None | Some x \<Rightarrow> map Some (f x))"

definition nwdate :: "tm \<Rightarrow> bytes" where "nwdate t = list_b2 (to_be16 (date2nw t))"
definition nwtime :: "tm \<Rightarrow> bytes" where "nwtime t = list_b2 (to_be16 (time2nw t))"

text \<open>\<^verbatim>\<open>NCP_SEARCHFILE\<close> and \<^verbatim>\<open>NCP_SEARCHDIR\<close>, 32 bytes each.\<close>

definition searchfile :: "u16 \<Rightarrow> u16 \<Rightarrow> bytes \<Rightarrow> stat_rec option \<Rightarrow> u8 option list" where
  "searchfile sq did name st =
     map Some (list_b2 (to_be16 sq) @ list_b2 (to_be16 did)) @ dname_bytes 14 name @ [Some 0x00, Some 0xff] @
     stat_field (\<lambda>x. int_b4 (st_size x)) 4 st @ stat_field (\<lambda>x. nwdate (st_mtime x)) 2 st @
     stat_field (\<lambda>x. nwdate (st_atime x)) 2 st @ stat_field (\<lambda>x. nwdate (st_mtime x)) 2 st @
     stat_field (\<lambda>x. nwtime (st_mtime x)) 2 st"

definition searchdir :: "u16 \<Rightarrow> u16 \<Rightarrow> bytes \<Rightarrow> stat_rec option \<Rightarrow> u8 option list" where
  "searchdir sq did name st =
     map Some (list_b2 (to_be16 sq) @ list_b2 (to_be16 did)) @ dname_bytes 14 name @ [Some 0x10, Some 0xff] @
     stat_field (\<lambda>x. nwdate (st_mtime x)) 2 st @ stat_field (\<lambda>x. nwtime (st_mtime x)) 2 st @
     map Some [0, 0, 0, 1, 0, 0, 0xd1, 0xd1]"

definition ncp_handle_fs_init :: "nat \<Rightarrow> bytes \<Rightarrow> int \<Rightarrow> srv \<Rightarrow> srv option" where
  "ncp_handle_fs_init c data sz s =
     require (sz \<ge> 2) c s (do {
       d \<leftarrow> get_be8 data 0;
       path_len \<leftarrow> get_be8 data 1;
       require (sz = uint path_len + 2) c s (do {
         buf \<leftarrow> ncp_path data 2 (unat path_len);
         path \<leftarrow> cstr buf;
         (i, s1) \<leftarrow> fs_con_alloc_sh c (unat d) (Some path) s;
         (if i < 0 then ncp_send_compcode c 0xff s1
          else do {
            h \<leftarrow> get_dh c (unat d) s1;
            ncp_send_reply c (map Some ([word_of_int (dh_volno h)] @ int_b2 i @ [0xff, 0xff] @ [0xff])) 0 s1
          })
       })
     })"

text \<open>What the loop of \<^verbatim>\<open>ncp_handle_fs_cont\<close> does with one directory entry: the new sequence number.\<close>

definition fs_cont_entry :: "nat \<Rightarrow> searchandle \<Rightarrow> u8 \<Rightarrow> bytes \<Rightarrow> dirent \<Rightarrow> u16 \<Rightarrow> srv \<Rightarrow> (u16 \<times> srv) option" where
  "fs_cont_entry c h attr path e seqno s =
     (if (match_fn (d_name e) path \<or> d_name e = path) \<and> d_name e \<noteq> TRUST_SYSFILE
      then (if and (d_type e) DT_DIR \<noteq> 0
            then (if attr AND 0x10 \<noteq> 0 \<and> d_name e \<noteq> ascii ''.'' \<and> d_name e \<noteq> ascii ''..''
                  then do {
                    rel \<leftarrow> cstr (sh_relpath h);
                    let tmp = (if rel \<noteq> [] then take (NCP_MAX_FIELD_LEN - 1) (rel @ slash # d_name e) else d_name e);
                    (i, s1) \<leftarrow> trust_check_rights c (nat (sh_dh h)) (Some tmp) TRUST_RIGHT_FILESCAN s;
                    Some (if i = 0 then seqno + 1 else seqno, s1)
                  }
                  else Some (seqno, s))
            else Some (if attr AND 0x10 = 0 \<and> sh_scan_right h \<noteq> 0 then seqno + 1 else seqno, s))
      else Some (seqno, s))"

fun fs_cont_scan :: "nat \<Rightarrow> searchandle \<Rightarrow> u8 \<Rightarrow> bytes \<Rightarrow> u16 \<Rightarrow> dirent list \<Rightarrow> u16 \<Rightarrow> srv \<Rightarrow> (dirent option \<times> srv) option" where
  "fs_cont_scan c h attr path destseq [] seqno s = Some (None, s)"
| "fs_cont_scan c h attr path destseq (e # es) seqno s = do {
     (seqno1, s1) \<leftarrow> fs_cont_entry c h attr path e seqno s;
     (if seqno1 = destseq then Some (Some e, s1) else fs_cont_scan c h attr path destseq es seqno1 s1)
   }"

definition ncp_handle_fs_cont :: "nat \<Rightarrow> bytes \<Rightarrow> int \<Rightarrow> srv \<Rightarrow> srv option" where
  "ncp_handle_fs_cont c data sz s =
     require (sz \<ge> 7) c s (do {
       shno \<leftarrow> get_be16 data 1;
       seqno \<leftarrow> get_be16 data 3;
       attr \<leftarrow> get_be8 data 5;
       path_len \<leftarrow> get_be8 data 6;
       require (sz = 7 + uint path_len) c s (do {
         buf \<leftarrow> ncp_path data 7 (unat path_len);
         path \<leftarrow> cstr buf;
         k \<leftarrow> get_conn c s;
         h \<leftarrow> load (sh k) (unat shno);
         p \<leftarrow> cstr (sh_path h);
         let (dir, s1) = sys_dir p s;
         (case dir of
            None \<Rightarrow> ncp_send_compcode c 0xff s1
          | Some es \<Rightarrow> do {
              let destseq = seqno + 1;
              (dent, s2) \<leftarrow> fs_cont_scan c h attr path destseq es 0xffff s1;
              (case dent of
                 None \<Rightarrow> ncp_send_compcode c 0xff s2
               | Some e \<Rightarrow>
                   (let (st, s3) = sys_stat (take (NCP_MAX_FIELD_LEN - 1) (p @ slash # d_name e)) s2
                    in ncp_send_reply c (if attr AND 0x10 = 0 then searchfile destseq shno (d_name e) st
                                         else searchdir destseq shno (d_name e) st) 0 s3))
            })
       })
     })"

fun filesearch_scan :: "bytes \<Rightarrow> u16 \<Rightarrow> dirent list \<Rightarrow> u16 \<Rightarrow> dirent option" where
  "filesearch_scan pat destseq [] seqno = None"
| "filesearch_scan pat destseq (e # es) seqno =
     (let seqno1 = (if match_fn (d_name e) pat \<or> d_name e = pat then seqno + 1 else seqno)
      in if seqno1 = destseq then Some e else filesearch_scan pat destseq es seqno1)"

definition ncp_handle_filesearch :: "nat \<Rightarrow> bytes \<Rightarrow> int \<Rightarrow> srv \<Rightarrow> srv option" where
  "ncp_handle_filesearch c data sz s =
     require (sz \<ge> 6) c s (do {
       seqno \<leftarrow> get_be16 data 0;
       d \<leftarrow> get_be8 data 2;
       attr \<leftarrow> get_be8 data 3;
       namelen \<leftarrow> get_be8 data 4;
       buf \<leftarrow> ncp_path data 5 (unat namelen);
       name \<leftarrow> cstr buf;
       (i, b) \<leftarrow> fs_build_path c (unat d) (Some name) (replicate VOL_MAX_VOL_PATH_LEN 0) VOL_MAX_VOL_PATH_LEN 0 s;
       (if i \<noteq> FS_ERROR_OK then ncp_send_compcode c (code8 i) s
        else do {
          full \<leftarrow> cstr b;
          (case strrchr full slash of
             None \<Rightarrow> ncp_send_compcode c 0xff s
           | Some n \<Rightarrow> do {
               let path = take n full;
               let (dir, s1) = sys_dir path s;
               (case dir of
                  None \<Rightarrow> ncp_send_compcode c 0xff s1
                | Some es \<Rightarrow>
                    (case filesearch_scan (drop (Suc n) full) (seqno + 1) es 0xffff of
                       None \<Rightarrow> ncp_send_compcode c 0xff s1
                     | Some e \<Rightarrow>
                         (let (st, s2) = sys_stat (take (NCP_MAX_FIELD_LEN - 1) (path @ slash # d_name e)) s1
                          in ncp_send_reply c (searchfile (seqno + 1) 0 (d_name e) st) 0 s2)))
             })
        })
     })"

section \<open>Opening, creating and closing\<close>

text \<open>The rights field in compatibility mode overrides the attributes.\<close>

definition open_attr :: "u8 \<Rightarrow> u8 \<Rightarrow> u8" where
  "open_attr rgts attr =
     (if rgts AND 0x10 \<noteq> 0
      then (let a = (if rgts AND 1 \<noteq> 0 then 1 else 0) OR (if rgts AND 2 \<noteq> 0 then 2 else 0)
            in if a = 3 then a OR 4 else a)
      else attr)"

text \<open>\<^verbatim>\<open>NCP_OPENFILE\<close>, 36 bytes; the name is the path that was asked for.\<close>

definition openfile :: "nat \<Rightarrow> bytes \<Rightarrow> stat_rec \<Rightarrow> bytes" where
  "openfile h buf st = [0, 0, 0, 0] @ int_b2 (int h) @ [0, 0] @ map toupper (take 14 buf) @ [0x20, 0] @
     int_b4 (st_size st) @ nwdate (st_mtime st) @ nwdate (st_mtime st) @ nwdate (st_mtime st) @ nwtime (st_mtime st)"

text \<open>The common end of opening and creating: \<^verbatim>\<open>fstat\<close>, and the reply or a closed handle.\<close>

definition answer_open :: "nat \<Rightarrow> bytes \<Rightarrow> nat \<Rightarrow> int \<Rightarrow> srv \<Rightarrow> srv option" where
  "answer_open c buf h fd s =
     (let (st, s1) = sys_fstat fd s
      in case st of
           None \<Rightarrow> ncp_send_compcode c (code8 FS_ERROR_IOERROR)
                     (upd_conn c (\<lambda>k. k\<lparr>fh := (fh k)[h := -1]\<rparr>) (sys_close fd s1))
         | Some st \<Rightarrow> ncp_send_reply c (map Some (openfile h buf st)) 0 s1)"

definition ncp_handle_fopen :: "nat \<Rightarrow> bytes \<Rightarrow> int \<Rightarrow> srv \<Rightarrow> srv option" where
  "ncp_handle_fopen c data sz s =
     require (sz \<ge> 4) c s (do {
       d \<leftarrow> get_be8 data 0;
       attr \<leftarrow> get_be8 data 1;
       rgts \<leftarrow> get_be8 data 2;
       path_len \<leftarrow> get_be8 data 3;
       require (sz = 4 + uint path_len) c s (do {
         buf \<leftarrow> ncp_path data 4 (unat path_len);
         path \<leftarrow> cstr buf;
         (i, h, s1) \<leftarrow> fs_open_file c (unat d) (open_attr rgts attr) path s;
         (if i \<noteq> FS_ERROR_OK then ncp_send_compcode c (code8 i) s1
          else do {
            k \<leftarrow> get_conn c s1;
            fd \<leftarrow> load (fh k) h;
            answer_open c buf h fd s1
          })
       })
     })"

definition ncp_handle_fcreate :: "nat \<Rightarrow> bytes \<Rightarrow> int \<Rightarrow> srv \<Rightarrow> srv option" where
  "ncp_handle_fcreate c data sz s =
     require (sz \<ge> 4) c s (do {
       d \<leftarrow> get_be8 data 0;
       attr \<leftarrow> get_be8 data 1;
       path_len \<leftarrow> get_be8 data 2;
       buf \<leftarrow> ncp_path data 3 (unat path_len);
       path \<leftarrow> cstr buf;
       (i, h, s1) \<leftarrow> fs_open_file c (unat d) 0x84 path s;
       (if i \<noteq> FS_ERROR_OK then ncp_send_compcode c (code8 i) s1
        else do {
          k \<leftarrow> get_conn c s1;
          fd \<leftarrow> load (fh k) h;
          let (ok, s2) = sys_do (OpChmod fd) s1;
          answer_open c buf h fd s2
        })
     })"

definition ncp_handle_fclose :: "nat \<Rightarrow> bytes \<Rightarrow> int \<Rightarrow> srv \<Rightarrow> srv option" where
  "ncp_handle_fclose c data sz s =
     require (sz = 7) c s (do {
       h \<leftarrow> get_be16 data 5;
       (e, s1) \<leftarrow> fs_close_file c (unat h) s;
       ncp_send_compcode c (code8 e) s1
     })"

section \<open>Reading and writing\<close>

text \<open>
  Reading: two bytes of length, one byte of padding when the offset is odd, then the data, in an
  array of \<^verbatim>\<open>NCP_DATASIZE\<close> bytes.
\<close>

definition ncp_handle_fread :: "nat \<Rightarrow> bytes \<Rightarrow> int \<Rightarrow> srv \<Rightarrow> srv option" where
  "ncp_handle_fread c data sz s =
     require (sz = 13) c s (do {
       h \<leftarrow> get_be16 data 5;
       offset \<leftarrow> get_be32 data 7;
       len \<leftarrow> get_be16 data 11;
       k \<leftarrow> get_conn c s;
       fd \<leftarrow> load (fh k) (unat h);
       (if fd < 0 then ncp_send_compcode c (code8 FS_ERROR_BADHANDLE) s
        else do {
          let (ok, s1) = sys_ok s;
          (if \<not> ok then ncp_send_compcode c (code8 FS_ERROR_IOERROR) s1
           else do {
             let odd = (if offset AND 1 \<noteq> 0 then [None] else []);
             let (r, s2) = sys_read fd offset (unat len) s1;
             (case r of
                None \<Rightarrow> ncp_send_compcode c (code8 FS_ERROR_IOERROR) s2
              | Some x \<Rightarrow>
                  if 2 + length odd + length x > NCP_DATASIZE then None
                  else ncp_send_reply c (map Some (int_b2 (int (length x))) @ odd @ map Some x) 0 s2)
           })
        })
     })"

text \<open>Writing checks neither the size of the packet nor that of the data.\<close>

definition ncp_handle_fwrite :: "nat \<Rightarrow> bytes \<Rightarrow> int \<Rightarrow> srv \<Rightarrow> srv option" where
  "ncp_handle_fwrite c data sz s = do {
     h \<leftarrow> get_be16 data 5;
     offset \<leftarrow> get_be32 data 7;
     len \<leftarrow> get_be16 data 11;
     k \<leftarrow> get_conn c s;
     fd \<leftarrow> load (fh k) (unat h);
     (if fd < 0 then ncp_send_compcode c (code8 FS_ERROR_BADHANDLE) s
      else do {
        let (ok, s1) = sys_ok s;
        (if \<not> ok then ncp_send_compcode c (code8 FS_ERROR_IOERROR) s1
         else do {
           x \<leftarrow> (if len = 0 then Some [] else get_bytes data 13 (unat len));
           let (ok, s2) = sys_do (if len = 0 then OpTruncate fd offset else OpWrite fd offset x) s1;
           ncp_send_compcode c (if ok then 0 else 0xff) s2
         })
      })
   }"

definition ncp_handle_fsize :: "nat \<Rightarrow> bytes \<Rightarrow> int \<Rightarrow> srv \<Rightarrow> srv option" where
  "ncp_handle_fsize c data sz s =
     require (sz = 7) c s (do {
       h \<leftarrow> get_be16 data 5;
       k \<leftarrow> get_conn c s;
       fd \<leftarrow> load (fh k) (unat h);
       (if fd < 0 then ncp_send_compcode c (code8 FS_ERROR_BADHANDLE) s
        else (let (st, s1) = sys_fstat fd s
              in case st of
                   None \<Rightarrow> ncp_send_compcode c 0xff s1
                 | Some st \<Rightarrow> ncp_send_reply c (map Some (int_b4 (st_size st))) 0 s1))
     })"

section \<open>Renaming and erasing\<close>

text \<open>
  The two names: the loop over the source turns slashes into backslashes and 0xae into a dot; the one
  over the destination, which has no braces, only turns the slashes.
\<close>

definition rename_source :: "bytes \<Rightarrow> bytes" where
  "rename_source = map (\<lambda>x. let y = (if x = slash then backslash else x) in if y = 0xae then dot else y)"

definition rename_dest :: "nat \<Rightarrow> bytes \<Rightarrow> bytes" where
  "rename_dest n buf =
     (let b = map (\<lambda>x. if x = slash then backslash else x) buf
      in if b ! n = 0xae then b[n := dot] else b)"

text \<open>The directory part that the rights are checked on: the name is cut at its last slash.\<close>

definition cut_name :: "bytes \<Rightarrow> bytes" where
  "cut_name p = (case strrchr p slash of None \<Rightarrow> p | Some i \<Rightarrow> take i p)"

definition ncp_handle_frename :: "nat \<Rightarrow> bytes \<Rightarrow> int \<Rightarrow> srv \<Rightarrow> srv option" where
  "ncp_handle_frename c data sz s =
     require (sz \<ge> 7) c s (do {
       source_dh \<leftarrow> get_be8 data 0;
       source_len \<leftarrow> get_be8 data 2;
       sbuf \<leftarrow> ncp_path data 3 (unat source_len);
       let j = 3 + unat source_len;
       dest_dh \<leftarrow> get_be8 data j;
       dest_len \<leftarrow> get_be8 data (j + 1);
       dbuf \<leftarrow> ncp_path data (j + 2) (unat dest_len);
       source \<leftarrow> cstr (rename_source sbuf);
       dest \<leftarrow> cstr (rename_dest (unat dest_len) dbuf);
       (r1, s1) \<leftarrow> trust_check_rights c (unat source_dh) (Some (cut_name source)) TRUST_RIGHT_MODIFY s;
       (if r1 < 0 then ncp_send_compcode c (code8 FS_ERROR_NORENAMEPRIV) s1
        else do {
          (r2, s2) \<leftarrow> trust_check_rights c (unat dest_dh) (Some (cut_name dest)) TRUST_RIGHT_MODIFY s1;
          (if r2 < 0 then ncp_send_compcode c (code8 FS_ERROR_NORENAMEPRIV) s2
           else do {
             (i, b1) \<leftarrow> fs_build_path c (unat source_dh) (Some source) (replicate NCP_MAX_FIELD_LEN 0) NCP_MAX_FIELD_LEN 0 s2;
             (if i \<noteq> FS_ERROR_OK then ncp_send_compcode c (code8 i) s2
              else do {
                (i, b2) \<leftarrow> fs_build_path c (unat dest_dh) (Some dest) (replicate NCP_MAX_FIELD_LEN 0) NCP_MAX_FIELD_LEN 0 s2;
                (if i \<noteq> FS_ERROR_OK then ncp_send_compcode c (code8 i) s2
                 else do {
                   f1 \<leftarrow> cstr b1;
                   f2 \<leftarrow> cstr b2;
                   let (st, s3) = sys_stat f1 s2;
                   (if st = None then ncp_send_compcode c FS_ERROR_ALLNAMESEXIST s3
                    else (let (ok, s4) = sys_do (OpRename f1 f2) s3
                          in ncp_send_compcode c (if ok then 0 else code8 FS_ERROR_IOERROR) s4))
                 })
              })
           })
        })
     })"

text \<open>The erasing loop: the number of files erased, or the failure of \<^verbatim>\<open>unlink\<close>.\<close>

fun erase_entries :: "bytes \<Rightarrow> bytes \<Rightarrow> dirent list \<Rightarrow> int \<Rightarrow> srv \<Rightarrow> int option \<times> srv" where
  "erase_entries path pat [] n s = (Some n, s)"
| "erase_entries path pat (e # es) n s =
     (if match_fn (d_name e) pat \<and> d_type e \<noteq> DT_DIR
      then (let (ok, s1) = sys_do (OpUnlink (take (VOL_MAX_VOL_PATH_LEN - 1) (path @ slash # d_name e))) s
            in if ok then erase_entries path pat es (n + 1) s1 else (None, s1))
      else erase_entries path pat es n s)"

definition ncp_handle_ferase :: "nat \<Rightarrow> bytes \<Rightarrow> int \<Rightarrow> srv \<Rightarrow> srv option" where
  "ncp_handle_ferase c data sz s =
     require (sz \<ge> 4) c s (do {
       d \<leftarrow> get_be8 data 0;
       attr \<leftarrow> get_be8 data 1;
       name_len \<leftarrow> get_be8 data 2;
       buf \<leftarrow> ncp_path data 3 (unat name_len);
       name \<leftarrow> cstr buf;
       (r, s1) \<leftarrow> trust_check_rights c (unat d) (Some (unslash name)) TRUST_RIGHT_ERASE s;
       (if r < 0 then ncp_send_compcode c (code8 FS_ERROR_NODELETEPRIV) s1
        else do {
          (i, b) \<leftarrow> fs_build_path c (unat d) (Some name) (replicate VOL_MAX_VOL_PATH_LEN 0) VOL_MAX_VOL_PATH_LEN 0 s1;
          (if i \<noteq> FS_ERROR_OK then ncp_send_compcode c (code8 i) s1
           else do {
             full \<leftarrow> cstr b;
             (case strrchr full slash of
                None \<Rightarrow> ncp_send_compcode c 0xff s1
              | Some n \<Rightarrow> do {
                  let (dir, s2) = sys_dir (take n full) s1;
                  (case dir of
                     None \<Rightarrow> ncp_send_compcode c (code8 FS_ERROR_INVALIDPATH) s2
                   | Some es \<Rightarrow>
                       (let (r, s3) = erase_entries (take n full) (drop (Suc n) full) es 0 s2
                        in ncp_send_compcode c (case r of None \<Rightarrow> 0xff | Some m \<Rightarrow> if m = 0 then 0xff else 0) s3))
                })
           })
        })
     })"

section \<open>Volumes\<close>

lemma sdiv_nonneg: "0 \<le> x \<Longrightarrow> (x :: int) sdiv int n = x div int n"
  by (simp add: signed_divide_int_def sgn_if)

lemma sdiv_large:
  assumes "x sdiv int n > k" "0 < k"
  shows "k * int n < x" "0 < n"
proof -
  show n: "0 < n" using assms by (cases n) auto
  have x: "0 \<le> x"
  proof (rule ccontr)
    assume neg: "\<not> 0 \<le> x"
    then have "0 \<le> - x div int n" using n by (simp add: pos_imp_zdiv_nonneg_iff)
    then have "x sdiv int n \<le> 0" using n neg by (simp add: signed_divide_int_def sgn_if)
    then show False using assms by simp
  qed
  then have "k + 1 \<le> x div int n" using assms(1) by (simp add: sdiv_nonneg)
  then have "(k + 1) * int n \<le> (x div int n) * int n" by (rule mult_right_mono) simp
  also have "\<dots> \<le> x" using div_mult_mod_eq [of x "int n"] pos_mod_sign [of "int n" x] n by linarith
  finally show "k * int n < x" using n by (simp add: algebra_simps)
qed

text \<open>\<^verbatim>\<open>while (st->f_blocks / scale > 0xffff) scale += 2;\<close>\<close>

function vol_scale :: "int \<Rightarrow> nat \<Rightarrow> nat" where
  "vol_scale blocks scale = (if blocks sdiv int scale > 0xffff then vol_scale blocks (scale + 2) else scale)"
  by pat_completeness auto
termination
proof (relation "measure (\<lambda>(blocks, scale). nat (blocks - int scale))")
  fix blocks :: int and scale :: nat
  assume a: "blocks sdiv int scale > 0xffff"
  have "int scale < blocks" using sdiv_large [OF a] by simp
  then show "((blocks, scale + 2), blocks, scale) \<in> measure (\<lambda>(blocks, scale). nat (blocks - int scale))" by simp
qed simp

declare vol_scale.simps [simp del]

text \<open>\<^verbatim>\<open>NCP_VOLINFO\<close>, 28 bytes.\<close>

definition ncp_send_volinfo :: "nat \<Rightarrow> volume \<Rightarrow> statfs_rec \<Rightarrow> srv \<Rightarrow> srv option" where
  "ncp_send_volinfo c v st s =
     (let scale = int (vol_scale (f_blocks st) 1)
      in ncp_send_reply c (map Some (int_b2 scale @ int_b2 (f_blocks st sdiv scale) @ int_b2 (f_bavail st sdiv scale) @
           int_b2 (f_files st) @ int_b2 (f_ffree st) @ take 16 (vol_name v) @
           (if vol_flags v AND VOL_FLAG_REMOVABLE \<noteq> 0 then [0xff, 0xff] else [0, 0]))) 0 s)"

definition ncp_send_volinfobyno :: "nat \<Rightarrow> bytes \<Rightarrow> int \<Rightarrow> srv \<Rightarrow> srv option" where
  "ncp_send_volinfobyno c data sz s =
     require (sz = 1) c s (do {
       volno \<leftarrow> get_be8 data 0;
       (if unat volno \<ge> VOL_MAX_VOLS then ncp_send_compcode c 0xff s
        else do {
          v \<leftarrow> load (volumes s) (unat volno);
          (if vol_flags v AND VOL_FLAG_USED = 0 then ncp_send_compcode c 0xff s
           else do {
             p \<leftarrow> cstr (vol_path v);
             let (st, s1) = sys_statfs p s;
             (case st of None \<Rightarrow> ncp_send_compcode c 0xff s1 | Some st \<Rightarrow> ncp_send_volinfo c v st s1)
           })
        })
     })"

end
