(* ===== verification/Fr_Ncp22.thy ===== *)
theory Fr_Ncp22
  imports Fr_NcpFile
begin

text \<open>
  \<^verbatim>\<open>src/server/ncp_22.c\<close>: the directory services: directory handles, paths and effective rights,
  trustees, creating, deleting and scanning directories, volume information.
\<close>

section \<open>Directory handles\<close>

text \<open>
  Both allocations ignore the source handle and take volume 0 unless the path names a volume.
\<close>

definition alloc_dirhandle :: "int \<Rightarrow> nat \<Rightarrow> bytes \<Rightarrow> int \<Rightarrow> srv \<Rightarrow> srv option" where
  "alloc_dirhandle flags c data sz s =
     require (sz \<ge> 4) c s (do {
       path_len \<leftarrow> get_be8 data 2;
       require (sz = uint path_len + 4) c s (do {
         buf \<leftarrow> ncp_path data 3 (unat path_len);
         path \<leftarrow> cstr buf;
         (i, s1) \<leftarrow> fs_con_alloc_dh c flags 0 path s;
         (if i < 0 then ncp_send_compcode c 0xff s1
          else do {
            (e, rc, s2) \<leftarrow> trust_get_rights c (nat i) None zero_trust s1;
            let rgt = (if e \<noteq> TRUST_ERROR_OK then 0 else t_rights rc);
            ncp_send_reply c (map Some [word_of_int i, ucast rgt]) 0 s2
          })
       })
     })"

definition ncp_alloc_temp_dirhandle :: "nat \<Rightarrow> bytes \<Rightarrow> int \<Rightarrow> srv \<Rightarrow> srv option" where
  "ncp_alloc_temp_dirhandle = alloc_dirhandle FS_DH_TEMP"

definition ncp_alloc_perm_dirhandle :: "nat \<Rightarrow> bytes \<Rightarrow> int \<Rightarrow> srv \<Rightarrow> srv option" where
  "ncp_alloc_perm_dirhandle = alloc_dirhandle FS_DH_PERM"

definition ncp_dealloc_dirhandle :: "nat \<Rightarrow> bytes \<Rightarrow> int \<Rightarrow> srv \<Rightarrow> srv option" where
  "ncp_dealloc_dirhandle c data sz s =
     require (sz \<ge> 2) c s (do {
       d \<leftarrow> get_be8 data 0;
       (r, s1) \<leftarrow> fs_con_dealloc_dh c (uint d) s;
       ncp_send_compcode c (if r < 0 then code8 FS_ERROR_BAD_DH else 0) s1
     })"

text \<open>
  The path of a handle, as \<^verbatim>\<open>VOLUME:PATH\<close> in upper case with its length in front (as one byte).
\<close>

definition ncp_handle_getdirpath :: "nat \<Rightarrow> bytes \<Rightarrow> int \<Rightarrow> srv \<Rightarrow> srv option" where
  "ncp_handle_getdirpath c data sz s =
     require (sz = 2) c s (do {
       d \<leftarrow> get_be8 data 0;
       h \<leftarrow> get_dh c (unat d) s;
       v \<leftarrow> load_int (volumes s) (dh_volno h);
       vn \<leftarrow> cstr (vol_name v);
       p \<leftarrow> cstr (dh_path h);
       let t = map toupper (vn @ colon # p);
       ncp_send_reply c (map Some (of_nat (length t) # t)) 0 s
     })"

text \<open>
  Changing the path of a handle: the source handle is copied, then the path is appended, or the last
  component cut off for \<^verbatim>\<open>..\<close>. No rights are checked (the check is commented out). The formatted
  print reads and writes the same array; it is taken to append.
\<close>

definition ncp_handle_setdirpath :: "nat \<Rightarrow> bytes \<Rightarrow> int \<Rightarrow> srv \<Rightarrow> srv option" where
  "ncp_handle_setdirpath c data sz s =
     require (sz \<ge> 4) c s (do {
       dest_dh \<leftarrow> get_be8 data 0;
       source_dh \<leftarrow> get_be8 data 1;
       path_len \<leftarrow> get_be8 data 2;
       require (sz = uint path_len + 4) c s (do {
         buf \<leftarrow> ncp_path data 3 (unat path_len);
         path \<leftarrow> cstr buf;
         let tmpath = unslash path;
         h0 \<leftarrow> get_dh c (unat dest_dh) s;
         h \<leftarrow> get_dh c (unat source_dh) s;
         p \<leftarrow> cstr (dh_path h);
         b \<leftarrow> (if tmpath = ascii ''..''
              then Some (case strrchr p slash of None \<Rightarrow> dh_path h | Some i \<Rightarrow> (dh_path h)[i := 0])
              else snprintf (dh_path h) CONN_DH_MAX_PATH_LEN (p @ slash # tmpath));
         ncp_send_compcode c 0 (upd_dh c (unat dest_dh) (h\<lparr>dh_path := b\<rparr>) s)
       })
     })"

section \<open>Rights\<close>

definition ncp_handle_effrights :: "nat \<Rightarrow> bytes \<Rightarrow> int \<Rightarrow> srv \<Rightarrow> srv option" where
  "ncp_handle_effrights c data sz s =
     require (sz \<ge> 3) c s (do {
       d \<leftarrow> get_be8 data 0;
       path_len \<leftarrow> get_be8 data 1;
       require (sz = 3 + uint path_len) c s (do {
         buf \<leftarrow> ncp_path data 2 (unat path_len);
         path \<leftarrow> cstr buf;
         (i, b) \<leftarrow> fs_build_path c (unat d) (Some path) (replicate NCP_MAX_FIELD_LEN 0) NCP_MAX_FIELD_LEN 0 s;
         (if i \<noteq> FS_ERROR_OK then ncp_send_compcode c (code8 i) s
          else do {
            p \<leftarrow> cstr b;
            let (st, s1) = sys_stat p s;
            (if (case st of None \<Rightarrow> True | Some x \<Rightarrow> and (st_mode x) S_IFDIR = 0)
             then ncp_send_compcode c (code8 FS_ERROR_INVALIDPATH) s1
             else do {
               (e, rc, s2) \<leftarrow> trust_get_rights c (unat d) (Some path) zero_trust s1;
               let rgt = (if e \<noteq> TRUST_ERROR_OK then 0 else t_rights rc);
               h \<leftarrow> get_dh c (unat d) s2;
               v \<leftarrow> load_int (volumes s2) (dh_volno h);
               vp \<leftarrow> cstr (vol_path v);
               (if rgt = 0 \<and> p \<noteq> vp then ncp_send_compcode c (code8 FS_ERROR_INVALIDPATH) s2
                else ncp_send_reply c [Some (ucast rgt)] 0 s2)
             })
          })
       })
     })"

definition ncp_handle_geteffrights :: "nat \<Rightarrow> bytes \<Rightarrow> int \<Rightarrow> srv \<Rightarrow> srv option" where
  "ncp_handle_geteffrights c data sz s =
     require (sz \<ge> 3) c s (do {
       d \<leftarrow> get_be8 data 0;
       path_len \<leftarrow> get_be8 data 1;
       buf \<leftarrow> ncp_path data 2 (unat path_len);
       path \<leftarrow> cstr buf;
       (e, rc, s1) \<leftarrow> trust_get_rights c (unat d) (Some path) zero_trust s;
       (if e \<noteq> TRUST_ERROR_OK then ncp_send_compcode c (code8 e) s1
        else ncp_send_reply c (map Some (list_b2 (to_be16 (t_rights rc)))) 0 s1)
     })"

text \<open>Trustees are added without asking whether the station may control access to the directory.\<close>

definition ncp_handle_addtrusteetodir :: "nat \<Rightarrow> bytes \<Rightarrow> int \<Rightarrow> srv \<Rightarrow> srv option" where
  "ncp_handle_addtrusteetodir c data sz s =
     require (sz \<ge> 9) c s (do {
       d \<leftarrow> get_be8 data 0;
       trustee \<leftarrow> get_be32 data 1;
       mask \<leftarrow> get_be8 data 5;
       path_len \<leftarrow> get_be8 data 6;
       buf \<leftarrow> ncp_path data 7 (unat path_len);
       path \<leftarrow> cstr buf;
       (e, s1) \<leftarrow> trust_grant_right c (unat d) (Some path) trustee (ucast mask) s;
       ncp_send_compcode c (code8 e) s1
     })"

definition ncp_handle_addexttrustee :: "nat \<Rightarrow> bytes \<Rightarrow> int \<Rightarrow> srv \<Rightarrow> srv option" where
  "ncp_handle_addexttrustee c data sz s =
     require (sz \<ge> 9) c s (do {
       d \<leftarrow> get_be8 data 0;
       trustee \<leftarrow> get_be32 data 1;
       mask \<leftarrow> get_be16 data 5;
       path_len \<leftarrow> get_be8 data 7;
       buf \<leftarrow> ncp_path data 8 (unat path_len);
       path \<leftarrow> cstr buf;
       (e, s1) \<leftarrow> trust_grant_right c (unat d) (Some path) trustee mask s;
       ncp_send_compcode c (code8 e) s1
     })"

definition ncp_handle_removetrusteefromdir :: "nat \<Rightarrow> bytes \<Rightarrow> int \<Rightarrow> srv \<Rightarrow> srv option" where
  "ncp_handle_removetrusteefromdir c data sz s =
     require (sz \<ge> 5) c s (do {
       d \<leftarrow> get_be8 data 0;
       objid \<leftarrow> get_be32 data 1;
       path_len \<leftarrow> get_be8 data 6;
       buf \<leftarrow> ncp_path data 7 (unat path_len);
       path \<leftarrow> cstr buf;
       (e, s1) \<leftarrow> trust_remove_right c (unat d) (Some path) objid s;
       ncp_send_compcode c (code8 e) s1
     })"

text \<open>Twenty trustees of the file, in \<^verbatim>\<open>NCP_SCANTRUST\<close>: the count, 80 bytes of identifiers, 40 of rights.\<close>

definition scantrust :: "trust_rec list \<Rightarrow> bytes" where
  "scantrust rs =
     [of_nat (length rs)] @
     mkbuf 80 (concat (map (\<lambda>r. list_b4 (to_be32 (t_obj_id (trust_conv_rec r)))) rs)) @
     mkbuf 40 (concat (map (\<lambda>r. list_b2 (to_be16 (t_rights (trust_conv_rec r)))) rs))"

definition ncp_handle_scanextrust :: "nat \<Rightarrow> bytes \<Rightarrow> int \<Rightarrow> srv \<Rightarrow> srv option" where
  "ncp_handle_scanextrust c data sz s =
     require (sz \<ge> 4) c s (do {
       d \<leftarrow> get_be8 data 0;
       sq \<leftarrow> get_be8 data 1;
       path_len \<leftarrow> get_be8 data 2;
       buf \<leftarrow> ncp_path data 3 (unat path_len);
       path \<leftarrow> cstr buf;
       (i, b) \<leftarrow> trust_build_trustfile c (unat d) (Some path) (replicate VOL_MAX_VOL_PATH_LEN 0) VOL_MAX_VOL_PATH_LEN s;
       (if i \<noteq> FS_ERROR_OK then ncp_send_compcode c (code8 i) s
        else do {
          fname \<leftarrow> cstr b;
          let rs = (case tfiles s fname of None \<Rightarrow> [] | Some rs \<Rightarrow> take 20 (drop (20 * unat sq) rs));
          ncp_send_reply c (map Some (scantrust rs)) (if rs = [] then 0x9c else 0) s
        })
     })"

section \<open>Directories\<close>

definition ncp_handle_createdir :: "nat \<Rightarrow> bytes \<Rightarrow> int \<Rightarrow> srv \<Rightarrow> srv option" where
  "ncp_handle_createdir c data sz s =
     require (sz \<ge> 4) c s (do {
       d \<leftarrow> get_be8 data 0;
       path_len \<leftarrow> get_be8 data 2;
       path \<leftarrow> ncp_str data 3 (unat path_len);
       (i, b) \<leftarrow> fs_build_path c (unat d) (Some (map tolower path)) (replicate VOL_MAX_VOL_PATH_LEN 0) VOL_MAX_VOL_PATH_LEN 0 s;
       (if i \<noteq> FS_ERROR_OK then ncp_send_compcode c (code8 i) s
        else do {
          p \<leftarrow> cstr b;
          let (ok, s1) = sys_do (OpMkdir p) s;
          ncp_send_compcode c (if ok then 0 else 0xff) s1
        })
     })"

text \<open>The array of the name is not cleared: the string goes on with what the stack holds.\<close>

definition ncp_handle_deletedir :: "nat \<Rightarrow> bytes \<Rightarrow> int \<Rightarrow> srv \<Rightarrow> srv option" where
  "ncp_handle_deletedir c data sz s =
     require (sz \<ge> 5) c s (do {
       d \<leftarrow> get_be8 data 0;
       name_len \<leftarrow> get_be8 data 2;
       x \<leftarrow> get_bytes data 3 (unat name_len);
       name \<leftarrow> cstr (map tolower x @ map (stack s (tk s)) [unat name_len..<NCP_MAX_FIELD_LEN]);
       (i, b) \<leftarrow> fs_build_path c (unat d) (Some name) (replicate VOL_MAX_VOL_PATH_LEN 0) VOL_MAX_VOL_PATH_LEN 0 s;
       (if i \<noteq> FS_ERROR_OK then ncp_send_compcode c (code8 i) s
        else do {
          p \<leftarrow> cstr b;
          let (ok, s1) = sys_do (OpRmdir p) s;
          ncp_send_compcode c (if ok then 0 else 0xff) s1
        })
     })"

text \<open>The loop over the entries, with the sequence number reached so far.\<close>

fun scandir_scan :: "u8 \<Rightarrow> bytes \<Rightarrow> u32 \<Rightarrow> dirent list \<Rightarrow> u32 \<Rightarrow> dirent option" where
  "scandir_scan attr pat seqno [] cur = None"
| "scandir_scan attr pat seqno (e # es) cur =
     (let hit = (match_fn (d_name e) pat \<or> d_name e = pat) \<and> d_name e \<noteq> TRUST_SYSFILE;
          isdir = (and (d_type e) DT_DIR \<noteq> 0);
          cur1 = (if hit \<and> (if isdir then attr AND 0x10 \<noteq> 0 \<and> d_name e \<noteq> ascii ''.'' \<and> d_name e \<noteq> ascii ''..''
                             else attr AND 0x10 = 0)
                  then cur + 1 else cur)
      in if seqno = cur1 then Some e else scandir_scan attr pat seqno es cur1)"

text \<open>\<^verbatim>\<open>NCP_SCANFILE\<close>, 132 bytes.\<close>

definition scanfile :: "u32 \<Rightarrow> dirent \<Rightarrow> stat_rec option \<Rightarrow> u8 option list" where
  "scanfile sq e st =
     (let isdir = (and (d_type e) DT_DIR \<noteq> 0);
          tm2 = stat_field (\<lambda>x. rev (nwtime (st_mtime x))) 2 st @ stat_field (\<lambda>x. rev (nwdate (st_mtime x))) 2 st
      in map Some (list_b4 (to_be32 sq) @ [0, 0, 0, 0] @ [if isdir then 0x10 else 0x20, 0, 0, 0] @
           [0, 0, 0, of_nat (length (d_name e))]) @
         dname_bytes 12 (d_name e) @ tm2 @ map Some [0, 0, 0, 1] @ map Some (replicate 8 0) @ tm2 @
         map Some [0, 0, 0, 0] @
         (if isdir then map Some [0, 0, 0, 0] else stat_field (\<lambda>x. rev (int_b4 (st_size x))) 4 st) @
         map Some (replicate 76 0))"

definition ncp_handle_scandir :: "nat \<Rightarrow> bytes \<Rightarrow> int \<Rightarrow> srv \<Rightarrow> srv option" where
  "ncp_handle_scandir c data sz s =
     require (sz \<ge> 7) c s (do {
       d \<leftarrow> get_be8 data 0;
       attr \<leftarrow> get_be8 data 1;
       seqno \<leftarrow> get_be32 data 2;
       path_len \<leftarrow> get_be8 data 6;
       path \<leftarrow> ncp_str data 7 (unat path_len);
       (i, b) \<leftarrow> fs_build_path c (unat d) (Some path) (replicate VOL_MAX_VOL_PATH_LEN 0) VOL_MAX_VOL_PATH_LEN 0 s;
       (if i \<noteq> FS_ERROR_OK then ncp_send_compcode c (code8 FS_ERROR_IOERROR) s
        else do {
          full \<leftarrow> cstr b;
          n \<leftarrow> strrchr full slash;
          let p = take n full;
          let (dir, s1) = sys_dir p s;
          (case dir of
             None \<Rightarrow> ncp_send_compcode c (code8 FS_ERROR_INVALIDPATH) s1
           | Some es \<Rightarrow>
               (case scandir_scan attr (drop (Suc n) full) seqno es 0xfffffffe of
                  None \<Rightarrow> ncp_send_compcode c 0xff s1
                | Some e \<Rightarrow>
                    (let (st, s2) = sys_stat (take (VOL_MAX_VOL_PATH_LEN - 1) (p @ slash # d_name e)) s1
                     in ncp_send_reply c (scanfile (seqno + 1) e st) 0 s2)))
        })
     })"

section \<open>Volumes\<close>

definition ncp_get_volinfo_handle :: "nat \<Rightarrow> bytes \<Rightarrow> int \<Rightarrow> srv \<Rightarrow> srv option" where
  "ncp_get_volinfo_handle c data sz s =
     require (sz = 2) c s (do {
       d \<leftarrow> get_be8 data 0;
       (i, b) \<leftarrow> fs_build_path c (unat d) None (replicate VOL_MAX_VOL_PATH_LEN 0) VOL_MAX_VOL_PATH_LEN 0 s;
       (if i \<noteq> FS_ERROR_OK then ncp_send_compcode c (code8 i) s
        else do {
          p \<leftarrow> cstr b;
          let (st, s1) = sys_statfs p s;
          (case st of
             None \<Rightarrow> ncp_send_compcode c 0xff s1
           | Some st \<Rightarrow> do {
               h \<leftarrow> get_dh c (unat d) s1;
               v \<leftarrow> load_int (volumes s1) (dh_volno h);
               ncp_send_volinfo c v st s1
             })
        })
     })"

definition ncp_handle_getvolno :: "nat \<Rightarrow> bytes \<Rightarrow> int \<Rightarrow> srv \<Rightarrow> srv option" where
  "ncp_handle_getvolno c data sz s =
     require (sz \<ge> 2) c s (do {
       vol_len \<leftarrow> get_be8 data 0;
       require (sz = uint vol_len + 2) c s (do {
         vol \<leftarrow> ncp_str data 1 (unat vol_len);
         i \<leftarrow> vol_find_volume (map toupper vol) (volumes s);
         (case i of
            None \<Rightarrow> ncp_send_compcode c 0xff s
          | Some i \<Rightarrow> ncp_send_reply c [Some (of_nat i)] 0 s)
       })
     })"

definition ncp_handle_getvolname :: "nat \<Rightarrow> bytes \<Rightarrow> int \<Rightarrow> srv \<Rightarrow> srv option" where
  "ncp_handle_getvolname c data sz s =
     require (sz = 2) c s (do {
       n \<leftarrow> get_be8 data 0;
       (if unat n \<ge> VOL_MAX_VOLS then ncp_send_compcode c (code8 FS_ERROR_NOSUCHVOLUME) s
        else do {
          v \<leftarrow> load (volumes s) (unat n);
          vn \<leftarrow> cstr (vol_name v);
          ncp_send_reply c (map Some (of_nat (length vn) # vn)) 0 s
        })
     })"

definition ncp_handle_scandiskrestrictions :: "nat \<Rightarrow> bytes \<Rightarrow> int \<Rightarrow> srv \<Rightarrow> srv option" where
  "ncp_handle_scandiskrestrictions c data sz s =
     require (sz = 6) c s (do {
       vol_no \<leftarrow> get_be8 data 0;
       seq_no \<leftarrow> get_be32 data 1;
       ncp_send_reply c [Some 0] 0 s
     })"

definition ncp_handle_spacerest :: "nat \<Rightarrow> bytes \<Rightarrow> int \<Rightarrow> srv \<Rightarrow> srv option" where
  "ncp_handle_spacerest c data sz s =
     require (sz = 6) c s (do {
       volno \<leftarrow> get_be8 data 0;
       obj_id \<leftarrow> get_be32 data 1;
       ncp_send_reply c (map Some [0, 0, 0, 0x40, 0, 0, 0, 0]) 0 s
     })"

text \<open>The volume number is used as an index unchecked. \<^verbatim>\<open>NCP_VOLPURGEINFO\<close> is 30 bytes; the name follows.\<close>

definition ncp_getvolpurgeinfo :: "nat \<Rightarrow> bytes \<Rightarrow> int \<Rightarrow> srv \<Rightarrow> srv option" where
  "ncp_getvolpurgeinfo c data sz s =
     require (sz \<ge> 1) c s (do {
       volno \<leftarrow> get_be8 data 0;
       v \<leftarrow> load (volumes s) (unat volno);
       (if vol_flags v AND VOL_FLAG_USED = 0 then ncp_send_compcode c (code8 FS_ERROR_NOSUCHVOLUME) s
        else do {
          p \<leftarrow> cstr (vol_path v);
          let (st, s1) = sys_statfs p s;
          (case st of
             None \<Rightarrow> ncp_send_compcode c (code8 FS_ERROR_IOERROR) s1
           | Some st \<Rightarrow> do {
               tb \<leftarrow> convert_blocks (word_of_int (f_blocks st)) (f_bsize st) 512;
               fb \<leftarrow> convert_blocks (word_of_int (f_bavail st)) (f_bsize st) 512;
               vn \<leftarrow> cstr (vol_name v);
               ncp_send_reply c (map Some (list_b4 (to_le32 (tb div 8)) @ list_b4 (to_le32 (fb div 8)) @
                 replicate 8 0 @ rev (int_b4 (f_files st)) @ rev (int_b4 (f_ffree st)) @ replicate 4 0 @
                 [8, of_nat (length vn)] @ vn)) 0 s1
             })
        })
     })"

section \<open>Dispatch\<close>

definition r22_handler :: "nat \<Rightarrow> (nat \<Rightarrow> bytes \<Rightarrow> int \<Rightarrow> srv \<Rightarrow> srv option) option" where
  "r22_handler f =
     map_of [(0, ncp_handle_setdirpath), (1, ncp_handle_getdirpath), (3, ncp_handle_effrights),
       (5, ncp_handle_getvolno), (6, ncp_handle_getvolname), (10, ncp_handle_createdir),
       (11, ncp_handle_deletedir), (13, ncp_handle_addtrusteetodir), (18, ncp_alloc_perm_dirhandle),
       (19, ncp_alloc_temp_dirhandle), (20, ncp_dealloc_dirhandle), (21, ncp_get_volinfo_handle),
       (30, ncp_handle_scandir), (32, ncp_handle_scandiskrestrictions), (38, ncp_handle_scanextrust),
       (39, ncp_handle_addexttrustee), (41, ncp_handle_spacerest), (42, ncp_handle_geteffrights),
       (43, ncp_handle_removetrusteefromdir), (44, ncp_getvolpurgeinfo), (55, ncp_getvolpurgeinfo)] f"

definition ncp_handle_r22 :: "nat \<Rightarrow> bytes \<Rightarrow> int \<Rightarrow> srv \<Rightarrow> srv option" where
  "ncp_handle_r22 c data sz s = do {
     sub_func \<leftarrow> load data 2;
     sub_sz \<leftarrow> sub_size data sz;
     (case r22_handler (unat sub_func) of
        Some h \<Rightarrow> h c (drop 3 data) sub_sz s
      | None \<Rightarrow> ncp_send_compcode c 0xff s)
   }"

end
