(* ===== verification/Fr_Ncp21.thy ===== *)
theory Fr_Ncp21
  imports Fr_Ncp
begin

text \<open>\<^verbatim>\<open>src/server/ncp_21.c\<close>: the messaging services. A connection holds one message of up to 127 characters.\<close>

text \<open>A message copied into a cleared array of \<^verbatim>\<open>CONN_MAX_MSG_LEN\<close> bytes.\<close>

definition message_field :: "bytes \<Rightarrow> nat \<Rightarrow> nat \<Rightarrow> bytes option" where
  "message_field data i n =
     (if i + n \<le> length data \<and> n \<le> CONN_MAX_MSG_LEN
      then Some (mkbuf CONN_MAX_MSG_LEN (take n (drop i data))) else None)"

text \<open>\<^verbatim>\<open>strcpy (conn[j]->message, m)\<close>\<close>

definition put_message :: "nat \<Rightarrow> bytes \<Rightarrow> srv \<Rightarrow> srv option" where
  "put_message j m s = do {
     k \<leftarrow> get_conn j s;
     b \<leftarrow> strcpy (message k) m;
     Some (upd_conn j (\<lambda>k. k\<lparr>message := b\<rparr>) s)
   }"

fun put_messages :: "nat list \<Rightarrow> bytes \<Rightarrow> srv \<Rightarrow> srv option" where
  "put_messages [] m s = Some s"
| "put_messages (j # js) m s = do { s1 \<leftarrow> put_message j m s; put_messages js m s1 }"

definition ncp_handle_enable_bcast :: "nat \<Rightarrow> bytes \<Rightarrow> int \<Rightarrow> srv \<Rightarrow> srv option" where
  "ncp_handle_enable_bcast c data sz s =
     require (sz = 1) c s (ncp_send_compcode c 0 (upd_conn c (\<lambda>k. k\<lparr>message_ok := 1\<rparr>) s))"

definition ncp_handle_disable_bcast :: "nat \<Rightarrow> bytes \<Rightarrow> int \<Rightarrow> srv \<Rightarrow> srv option" where
  "ncp_handle_disable_bcast c data sz s =
     require (sz = 1) c s (ncp_send_compcode c 0 (upd_conn c (\<lambda>k. k\<lparr>message_ok := 0\<rparr>) s))"

text \<open>The message is handed over and cleared. The two requests for it have the same code.\<close>

definition ncp_handle_getmsg :: "nat \<Rightarrow> bytes \<Rightarrow> int \<Rightarrow> srv \<Rightarrow> srv option" where
  "ncp_handle_getmsg c data sz s =
     require (sz = 1) c s (do {
       k \<leftarrow> get_conn c s;
       m \<leftarrow> cstr (message k);
       ncp_send_reply c (map Some (of_nat (length m) # m)) 0
         (upd_conn c (\<lambda>k. k\<lparr>message := (message k)[0 := 0]\<rparr>) s)
     })"

definition ncp_handle_getmsg_old :: "nat \<Rightarrow> bytes \<Rightarrow> int \<Rightarrow> srv \<Rightarrow> srv option" where
  "ncp_handle_getmsg_old c data sz s =
     require (sz = 1) c s (do {
       k \<leftarrow> get_conn c s;
       m \<leftarrow> cstr (message k);
       ncp_send_reply c (map Some (of_nat (length m) # m)) 0
         (upd_conn c (\<lambda>k. k\<lparr>message := (message k)[0 := 0]\<rparr>) s)
     })"

text \<open>Console commands: \<^verbatim>\<open>SHUTDOWN\<close> only logs, and any command counts as handled.\<close>

definition ncp_handle_consolecmd :: "bytes \<Rightarrow> int" where
  "ncp_handle_consolecmd msg = (if strcaseeq msg (ascii ''SHUTDOWN'') then 0 else 0)"

definition ncp_handle_console_bcast :: "nat \<Rightarrow> bytes \<Rightarrow> int \<Rightarrow> srv \<Rightarrow> srv option" where
  "ncp_handle_console_bcast c data sz s =
     require (sz \<ge> 2) c s (do {
       n \<leftarrow> get_be8 data 0;
       buf \<leftarrow> message_field data 1 (unat n);
       k \<leftarrow> get_conn c s;
       (x, s1) \<leftarrow> on_db (bindio_scan_object_by_id (c_object_id k)) s;
       (if object_supervisor k \<noteq> 0
        then do {
          m \<leftarrow> cstr buf;
          (case strchr m (of_char CHR ''#'') of
             None \<Rightarrow> ncp_send_compcode c 0 s1
           | Some i \<Rightarrow> if ncp_handle_consolecmd (drop (Suc i) m) = 0 then ncp_send_compcode c 0 s1
                       else ncp_send_compcode c 0 s1)
        }
        else ncp_send_compcode c 0 s1)
     })"

text \<open>
  Sending a message to the stations of a list: the loop copies the message into the buffer of the
  calling connection, once for each station.
\<close>

definition ncp_send_bcast_old :: "nat \<Rightarrow> bytes \<Rightarrow> int \<Rightarrow> srv \<Rightarrow> srv option" where
  "ncp_send_bcast_old c data sz s =
     require (sz \<ge> 3) c s (do {
       n \<leftarrow> get_be8 data 0;
       stations \<leftarrow> get_bytes data 1 (unat n);
       msg_len \<leftarrow> get_be8 data (1 + unat n);
       buf \<leftarrow> message_field data (2 + unat n) (unat msg_len);
       s1 \<leftarrow> (if stations = [] then Some s
             else do { m \<leftarrow> cstr buf; put_messages (map (\<lambda>_. c) stations) m s });
       ncp_send_reply c (map Some (n # map (\<lambda>_. 0) stations)) 0 s1
     })"

definition ncp_handle_r21 :: "nat \<Rightarrow> bytes \<Rightarrow> int \<Rightarrow> srv \<Rightarrow> srv option" where
  "ncp_handle_r21 c data sz s = do {
     sub_func \<leftarrow> load data 2;
     sub_sz \<leftarrow> sub_size data sz;
     let d = drop 3 data;
     (if sub_func = 0 then ncp_send_bcast_old c d sub_sz s
      else if sub_func = 1 then ncp_handle_getmsg_old c d sub_sz s
      else if sub_func = 2 then ncp_handle_disable_bcast c d sub_sz s
      else if sub_func = 3 then ncp_handle_enable_bcast c d sub_sz s
      else if sub_func = 9 then ncp_handle_console_bcast c d sub_sz s
      else if sub_func = 11 then ncp_handle_getmsg c d sub_sz s
      else ncp_send_compcode c 0xff s)
   }"

end
