(* ===== verification/Fr_Ncp23.thy ===== *)
theory Fr_Ncp23
  imports Fr_Ncp21
begin

text \<open>
  \<^verbatim>\<open>src/server/ncp_23.c\<close>, first part: the bindery requests. Names arrive as length-prefixed fields; a
  failed search answers with the completion code of \<^verbatim>\<open>bindery.h\<close>.
\<close>

text \<open>The first \<open>n\<close> bytes of the name array of an object.\<close>

definition ob_name_bytes :: "nat \<Rightarrow> bindery_obj \<Rightarrow> bytes option" where
  "ob_name_bytes n ob = (if n \<le> length (ob_name ob) then Some (take n (ob_name ob)) else None)"

section \<open>Properties\<close>

definition ncp_handle_readprop :: "nat \<Rightarrow> bytes \<Rightarrow> int \<Rightarrow> srv \<Rightarrow> srv option" where
  "ncp_handle_readprop c data sz s =
     require (sz \<ge> 6) c s (do {
       obj_type \<leftarrow> get_be16 data 0;
       obj_len \<leftarrow> get_be8 data 2;
       obj_name \<leftarrow> ncp_str data 3 (unat obj_len);
       let j = 3 + unat obj_len;
       seg_no \<leftarrow> get_be8 data j;
       prop_len \<leftarrow> get_be8 data (j + 1);
       pname \<leftarrow> ncp_str data (j + 2) (unat prop_len);
       require (sz = 6 + uint prop_len + uint obj_len) c s
         (if seg_no \<noteq> 1 then ncp_send_compcode c BINDERY_ERROR_NOSUCHPROPERTY s
          else do {
            (x, s1) \<leftarrow> on_db (bindio_scan_object obj_name obj_type) s;
            (case x of
               None \<Rightarrow> ncp_send_compcode c BINDERY_ERROR_NOSUCHOBJECT s1
             | Some (_, ob) \<Rightarrow> do {
                 (r, s2) \<leftarrow> on_db (bindio_read_prop (ob_id ob) pname seg_no) s1;
                 (case r of
                    Inl e \<Rightarrow> ncp_send_compcode c e s2
                  | Inr (v, p) \<Rightarrow> do {
                      (a, s3) \<leftarrow> bind_check_access c (ob_id ob) (pr_security p) 0 s2;
                      (if a < 0 then ncp_send_compcode c BINDERY_ERROR_SECURITY s3
                       else ncp_send_reply c (map Some (take 128 (vl_data v) @ [0, 0])) 0 s3)
                    })
               })
          })
     })"

definition ncp_handle_writeprop :: "nat \<Rightarrow> bytes \<Rightarrow> int \<Rightarrow> srv \<Rightarrow> srv option" where
  "ncp_handle_writeprop c data sz s =
     require (sz \<ge> 135) c s (do {
       obj_type \<leftarrow> get_be16 data 0;
       obj_len \<leftarrow> get_be8 data 2;
       obj_name \<leftarrow> ncp_str data 3 (unat obj_len);
       let j = 3 + unat obj_len;
       seg_no \<leftarrow> get_be8 data j;
       more \<leftarrow> get_be8 data (j + 1);
       prop_len \<leftarrow> get_be8 data (j + 2);
       pname \<leftarrow> ncp_str data (j + 3) (unat prop_len);
       val \<leftarrow> get_bytes data (j + 3 + unat prop_len) 128;
       require (sz = 135 + uint prop_len + uint obj_len) c s (do {
         (x, s1) \<leftarrow> on_db (bindio_scan_object obj_name obj_type) s;
         (case x of
            None \<Rightarrow> ncp_send_compcode c BINDERY_ERROR_NOSUCHOBJECT s1
          | Some (_, ob) \<Rightarrow> do {
              (y, s2) \<leftarrow> on_db (bindio_scan_prop (ob_id ob) pname) s1;
              (case y of
                 None \<Rightarrow> ncp_send_compcode c BINDERY_ERROR_NOSUCHPROPERTY s2
               | Some p \<Rightarrow> do {
                   (a, s3) \<leftarrow> bind_check_access c (ob_id ob) (pr_security p) 1 s2;
                   (if a < 0 then ncp_send_compcode c BINDERY_ERROR_SECURITY s3
                    else do {
                      (e, s4) \<leftarrow> on_db (bindio_write_prop (ob_id ob) pname seg_no more val) s3;
                      ncp_send_compcode c e s4
                    })
                 })
            })
       })
     })"

definition ncp_handle_createprop :: "nat \<Rightarrow> bytes \<Rightarrow> int \<Rightarrow> srv \<Rightarrow> srv option" where
  "ncp_handle_createprop c data sz s =
     require (sz \<ge> 9) c s (do {
       obj_type \<leftarrow> get_be16 data 0;
       obj_len \<leftarrow> get_be8 data 2;
       obj_name \<leftarrow> ncp_str data 3 (unat obj_len);
       let j = 3 + unat obj_len;
       flags \<leftarrow> get_be8 data j;
       security \<leftarrow> get_be8 data (j + 1);
       prop_len \<leftarrow> get_be8 data (j + 2);
       pname \<leftarrow> ncp_str data (j + 3) (unat prop_len);
       (x, s1) \<leftarrow> on_db (bindio_scan_object obj_name obj_type) s;
       (case x of
          None \<Rightarrow> ncp_send_compcode c BINDERY_ERROR_NOSUCHOBJECT s1
        | Some (_, ob) \<Rightarrow> do {
            (a, s2) \<leftarrow> bind_check_access c (ob_id ob) (ob_security ob) 1 s1;
            (if a < 0 then ncp_send_compcode c BINDERY_ERROR_SECURITY s2
             else do {
               (r, s3) \<leftarrow> on_db (bindio_add_prop (ob_id ob) pname flags security None) s2;
               ncp_send_compcode c (case r of Inl e \<Rightarrow> e | Inr _ \<Rightarrow> 0) s3
             })
          })
     })"

text \<open>Scanning the properties is not implemented: the answer is always an error.\<close>

definition ncp_handle_scanproperty :: "nat \<Rightarrow> bytes \<Rightarrow> int \<Rightarrow> srv \<Rightarrow> srv option" where
  "ncp_handle_scanproperty c data sz s =
     require (sz \<ge> 11) c s (do {
       obj_type \<leftarrow> get_be16 data 0;
       obj_len \<leftarrow> get_be8 data 2;
       obj_name \<leftarrow> ncp_str data 3 (unat obj_len);
       let j = 3 + unat obj_len;
       inst \<leftarrow> get_be32 data j;
       prop_len \<leftarrow> get_be8 data (j + 4);
       pname \<leftarrow> ncp_str data (j + 5) (unat prop_len);
       ncp_send_compcode c 0xff s
     })"

section \<open>Objects\<close>

text \<open>\<^verbatim>\<open>NCP_OBJID\<close>: identifier, type, name.\<close>

definition objid_reply :: "bindery_obj \<Rightarrow> bytes option" where
  "objid_reply ob = do {
     nm \<leftarrow> ob_name_bytes 48 ob;
     Some (list_b4 (to_be32 (ob_id ob)) @ list_b2 (to_be16 (ob_type ob)) @ nm)
   }"

definition ncp_handle_getobjid :: "nat \<Rightarrow> bytes \<Rightarrow> int \<Rightarrow> srv \<Rightarrow> srv option" where
  "ncp_handle_getobjid c data sz s =
     require (sz \<ge> 4) c s (do {
       obj_type \<leftarrow> get_be16 data 0;
       obj_len \<leftarrow> get_be8 data 2;
       require (sz = 4 + uint obj_len) c s (do {
         obj_name \<leftarrow> ncp_str data 3 (unat obj_len);
         (x, s1) \<leftarrow> on_db (bindio_scan_object obj_name obj_type) s;
         (case x of
            None \<Rightarrow> ncp_send_compcode c BINDERY_ERROR_NOSUCHOBJECT s1
          | Some (_, ob) \<Rightarrow> do { d \<leftarrow> objid_reply ob; ncp_send_reply c (map Some d) 0 s1 })
       })
     })"

definition ncp_handle_getobjname :: "nat \<Rightarrow> bytes \<Rightarrow> int \<Rightarrow> srv \<Rightarrow> srv option" where
  "ncp_handle_getobjname c data sz s =
     require (sz = 5) c s (do {
       i \<leftarrow> get_be32 data 0;
       (x, s1) \<leftarrow> on_db (bindio_scan_object_by_id i) s;
       (case x of
          None \<Rightarrow> ncp_send_compcode c BINDERY_ERROR_NOSUCHOBJECT s1
        | Some (_, ob) \<Rightarrow> do {
            (a, s2) \<leftarrow> bind_check_access c (ob_id ob) (ob_security ob) 0 s1;
            (if a < 0 then ncp_send_compcode c BINDERY_ERROR_SECURITY s2
             else do { d \<leftarrow> objid_reply ob; ncp_send_reply c (map Some d) 0 s2 })
          })
     })"

definition ncp_handle_scanobj :: "nat \<Rightarrow> bytes \<Rightarrow> int \<Rightarrow> srv \<Rightarrow> srv option" where
  "ncp_handle_scanobj c data sz s =
     require (sz \<ge> 8) c s (do {
       last_obj \<leftarrow> get_be32 data 0;
       obj_type \<leftarrow> get_be16 data 4;
       obj_len \<leftarrow> get_be8 data 6;
       obj_name \<leftarrow> ncp_str data 7 (unat obj_len);
       (x, s1) \<leftarrow> on_db (bindio_scan_object_wild obj_name obj_type last_obj) s;
       (case x of
          None \<Rightarrow> ncp_send_compcode c BINDERY_ERROR_NOSUCHOBJECT s1
        | Some ob \<Rightarrow> do {
            d \<leftarrow> objid_reply ob;
            ncp_send_reply c (map Some (d @ [ob_flags ob, ob_security ob, 1])) 0 s1
          })
     })"

definition ncp_handle_createobj :: "nat \<Rightarrow> bytes \<Rightarrow> int \<Rightarrow> srv \<Rightarrow> srv option" where
  "ncp_handle_createobj c data sz s =
     require (sz \<ge> 6) c s (do {
       flags \<leftarrow> get_be8 data 0;
       security \<leftarrow> get_be8 data 1;
       obj_type \<leftarrow> get_be16 data 2;
       name_len \<leftarrow> get_be8 data 4;
       obj_name \<leftarrow> ncp_str data 5 (unat name_len);
       k \<leftarrow> get_conn c s;
       (if object_supervisor k = 0 then ncp_send_compcode c BINDERY_ERROR_SECURITY s
        else do {
          (r, s1) \<leftarrow> on_db (bindio_add_object obj_name obj_type flags security) s;
          ncp_send_compcode c (case r of Inl e \<Rightarrow> e | Inr _ \<Rightarrow> 0) s1
        })
     })"

definition ncp_handle_deleteobj :: "nat \<Rightarrow> bytes \<Rightarrow> int \<Rightarrow> srv \<Rightarrow> srv option" where
  "ncp_handle_deleteobj c data sz s =
     require (sz \<ge> 5) c s (do {
       obj_type \<leftarrow> get_be16 data 0;
       obj_len \<leftarrow> get_be8 data 2;
       obj_name \<leftarrow> ncp_str data 3 (unat obj_len);
       k \<leftarrow> get_conn c s;
       (if object_supervisor k = 0 then ncp_send_compcode c BINDERY_ERROR_SECURITY s
        else do {
          (x, s1) \<leftarrow> on_db (bindio_scan_object obj_name obj_type) s;
          (case x of
             None \<Rightarrow> ncp_send_compcode c BINDERY_ERROR_NOSUCHOBJECT s1
           | Some (_, ob) \<Rightarrow> do {
               (e, s2) \<leftarrow> on_db (bindio_delete_obj (ob_id ob)) s1;
               ncp_send_compcode c e s2
             })
        })
     })"

section \<open>Sets\<close>

text \<open>The three set requests share the layout of their fields; the length is not checked.\<close>

definition set_fields :: "bytes \<Rightarrow> (u16 \<times> bytes \<times> bytes \<times> u16 \<times> bytes) option" where
  "set_fields data = do {
     obj_type \<leftarrow> get_be16 data 0;
     obj_len \<leftarrow> get_be8 data 2;
     obj_name \<leftarrow> ncp_str data 3 (unat obj_len);
     let j = 3 + unat obj_len;
     prop_len \<leftarrow> get_be8 data j;
     pname \<leftarrow> ncp_str data (j + 1) (unat prop_len);
     let l = j + 1 + unat prop_len;
     mem_type \<leftarrow> get_be16 data l;
     mem_len \<leftarrow> get_be8 data (l + 2);
     mem_name \<leftarrow> ncp_str data (l + 3) (unat mem_len);
     Some (obj_type, obj_name, pname, mem_type, mem_name)
   }"

definition ncp_handle_addobjtoset :: "nat \<Rightarrow> bytes \<Rightarrow> int \<Rightarrow> srv \<Rightarrow> srv option" where
  "ncp_handle_addobjtoset c data sz s = do {
     (ty, n, pn, mty, mn) \<leftarrow> set_fields data;
     (e, s1) \<leftarrow> bind_add_remove_objfromset c ty n pn mty mn 0 s;
     ncp_send_compcode c e s1
   }"

definition ncp_handle_deleteobjfromset :: "nat \<Rightarrow> bytes \<Rightarrow> int \<Rightarrow> srv \<Rightarrow> srv option" where
  "ncp_handle_deleteobjfromset c data sz s = do {
     (ty, n, pn, mty, mn) \<leftarrow> set_fields data;
     (e, s1) \<leftarrow> bind_add_remove_objfromset c ty n pn mty mn 1 s;
     ncp_send_compcode c e s1
   }"

definition ncp_handle_isobjinset :: "nat \<Rightarrow> bytes \<Rightarrow> int \<Rightarrow> srv \<Rightarrow> srv option" where
  "ncp_handle_isobjinset c data sz s = do {
     (ty, n, pn, mty, mn) \<leftarrow> set_fields data;
     (e, s1) \<leftarrow> bind_is_objinset c ty (Some n) 0 pn mty (Some mn) 0 s;
     ncp_send_compcode c e s1
   }"

end
