(* ===== verification/Fr_NcpLogin.thy ===== *)
theory Fr_NcpLogin
  imports Fr_Ncp23
begin

text \<open>
  \<^verbatim>\<open>src/server/ncp_23.c\<close>, second part: logging in, passwords, access levels, and the requests about
  stations and the server; then the dispatcher of request 23.
\<close>

section \<open>Access levels\<close>

definition ncp_handle_accesslevel :: "nat \<Rightarrow> bytes \<Rightarrow> int \<Rightarrow> srv \<Rightarrow> srv option" where
  "ncp_handle_accesslevel c data sz s =
     require (sz = 1) c s (do {
       al \<leftarrow> conn_get_bind_accesslevel c s;
       k \<leftarrow> get_conn c s;
       ncp_send_reply c (map Some (al # list_b4 (to_be32 (c_object_id k)))) 0 s
     })"

definition ncp_handle_objaccesslevel :: "nat \<Rightarrow> bytes \<Rightarrow> int \<Rightarrow> srv \<Rightarrow> srv option" where
  "ncp_handle_objaccesslevel c data sz s =
     require (sz = 5) c s (do {
       i \<leftarrow> get_be32 data 0;
       k \<leftarrow> get_conn c s;
       (if object_supervisor k \<noteq> 0 then ncp_send_reply c [Some 0x33] 0 s
        else if c_object_id k = i then ncp_send_reply c [Some 0x22] 0 s
        else do {
          (e, s1) \<leftarrow> bind_is_objinset 0 0 None i (ascii ''OBJ_SUPERVISORS'') 0x1 None (c_object_id k) s;
          ncp_send_reply c [Some (if e = BINDERY_ERROR_OK then 0x33
                                  else if c_object_id k = 0xffffffff then 0x00 else 0x11)] 0 s1
        })
     })"

definition ncp_handle_consoleprivs :: "nat \<Rightarrow> bytes \<Rightarrow> int \<Rightarrow> srv \<Rightarrow> srv option" where
  "ncp_handle_consoleprivs c data sz s =
     require (sz = 1) c s (do {
       (r, s1) \<leftarrow> conn_is_operator c s;
       ncp_send_compcode c (if r < 0 then 0xc6 else 0) s1
     })"

definition ncp_handle_ismanager :: "nat \<Rightarrow> bytes \<Rightarrow> int \<Rightarrow> srv \<Rightarrow> srv option" where
  "ncp_handle_ismanager c data sz s =
     require (sz = 1) c s (do {
       (r, s1) \<leftarrow> conn_is_manager c s;
       ncp_send_compcode c (word_of_int r) s1
     })"

text \<open>Opening and closing the bindery do nothing, and succeed for a supervisor.\<close>

definition ncp_handle_closebindery :: "nat \<Rightarrow> bytes \<Rightarrow> int \<Rightarrow> srv \<Rightarrow> srv option" where
  "ncp_handle_closebindery c data sz s =
     require (sz = 1) c s (do {
       k \<leftarrow> get_conn c s;
       ncp_send_compcode c (if object_supervisor k \<noteq> 0 then 0 else 0xff) s
     })"

definition ncp_handle_openbindery :: "nat \<Rightarrow> bytes \<Rightarrow> int \<Rightarrow> srv \<Rightarrow> srv option" where
  "ncp_handle_openbindery c data sz s =
     require (sz = 1) c s (do {
       k \<leftarrow> get_conn c s;
       ncp_send_compcode c (if object_supervisor k \<noteq> 0 then 0 else 0xff) s
     })"

definition ncp_handle_scanobjtrusteepaths :: "nat \<Rightarrow> bytes \<Rightarrow> int \<Rightarrow> srv \<Rightarrow> srv option" where
  "ncp_handle_scanobjtrusteepaths c data sz s =
     require (sz = 8) c s (do {
       i \<leftarrow> get_be32 data 3;
       k \<leftarrow> get_conn c s;
       (if i \<noteq> c_object_id k
        then do {
          (e, s1) \<leftarrow> bind_is_objinset 0 0 None (c_object_id k) (ascii ''SECURITY_EQUALS'') 0 None i s;
          (if e \<noteq> BINDERY_ERROR_OK \<and> object_supervisor k = 0
           then ncp_send_compcode c BINDERY_ERROR_SECURITY s1
           else ncp_send_compcode c 0xff s1)
        }
        else ncp_send_compcode c 0xff s)
     })"

section \<open>Logging in\<close>

text \<open>Eight values of \<^verbatim>\<open>random ()\<close>.\<close>

fun random_bytes :: "nat \<Rightarrow> bindery \<Rightarrow> bytes \<times> bindery" where
  "random_bytes 0 b = ([], b)"
| "random_bytes (Suc n) b =
     (let (x, b1) = next_random b; (xs, b2) = random_bytes n b1 in (ucast x # xs, b2))"

definition ncp_handle_loginkey :: "nat \<Rightarrow> bytes \<Rightarrow> int \<Rightarrow> srv \<Rightarrow> srv option" where
  "ncp_handle_loginkey c data sz s =
     require (sz = 1) c s
       (let (key, b) = random_bytes 8 (db s)
        in ncp_send_reply c (map Some key) 0 (upd_conn c (\<lambda>k. k\<lparr>login_key := key\<rparr>) (s\<lparr>db := b\<rparr>)))"

definition ncp_handle_keyedlogin :: "nat \<Rightarrow> bytes \<Rightarrow> int \<Rightarrow> srv \<Rightarrow> srv option" where
  "ncp_handle_keyedlogin c data sz s =
     require (sz \<ge> 12) c s (do {
       key \<leftarrow> get_bytes data 0 8;
       obj_type \<leftarrow> get_be16 data 8;
       obj_len \<leftarrow> get_be8 data 10;
       require (sz = 12 + uint obj_len) c s (do {
         obj_name \<leftarrow> ncp_str data 11 (unat obj_len);
         (x, s1) \<leftarrow> on_db (bindio_scan_object obj_name obj_type) s;
         (case x of
            None \<Rightarrow> ncp_send_compcode c BINDERY_ERROR_NOSUCHOBJECT s1
          | Some (_, ob) \<Rightarrow> do {
              k \<leftarrow> get_conn c s1;
              (v, s2) \<leftarrow> on_db (bind_verify_pwd (ob_id ob) key (login_key k)) s1;
              (if v < 0 then ncp_send_compcode c BINDERY_ERROR_BADPASSWORD s2
               else do {
                 let s3 = upd_conn c (\<lambda>k. k\<lparr>status := LoggedIn, c_object_id := ob_id ob, c_object_type := obj_type\<rparr>) s2;
                 (r, s4) \<leftarrow> bind_obj_is_supervisor (ob_id ob) s3;
                 ncp_send_compcode c 0 (upd_conn c (\<lambda>k. k\<lparr>object_supervisor := (if r < 0 then 0 else 1)\<rparr>) s4)
               })
            })
       })
     })"

definition ncp_handle_keyedverifypwd :: "nat \<Rightarrow> bytes \<Rightarrow> int \<Rightarrow> srv \<Rightarrow> srv option" where
  "ncp_handle_keyedverifypwd c data sz s =
     require (sz \<ge> 12) c s (do {
       key \<leftarrow> get_bytes data 0 8;
       obj_type \<leftarrow> get_be16 data 8;
       obj_len \<leftarrow> get_be8 data 10;
       obj_name \<leftarrow> ncp_str data 11 (unat obj_len);
       (x, s1) \<leftarrow> on_db (bindio_scan_object obj_name obj_type) s;
       (case x of
          None \<Rightarrow> ncp_send_compcode c BINDERY_ERROR_NOSUCHOBJECT s1
        | Some (_, ob) \<Rightarrow> do {
            k \<leftarrow> get_conn c s1;
            (v, s2) \<leftarrow> on_db (bind_verify_pwd (ob_id ob) key (login_key k)) s1;
            ncp_send_compcode c (if v < 0 then 0xff else 0) s2
          })
     })"

text \<open>
  The last part of a password change: the two halves of the new hash are decrypted with those of the
  old one, in place, and the first 128 bytes of the field are stored.
\<close>

definition store_new_pwd :: "nat \<Rightarrow> u32 \<Rightarrow> bytes \<Rightarrow> bytes \<Rightarrow> srv \<Rightarrow> srv option" where
  "store_new_pwd c i old pwd s = do {
     let new = nw_decrypt_newpass (take 8 old) (take 8 pwd) @
               nw_decrypt_newpass (take 8 (drop 8 old)) (take 8 (drop 8 pwd)) @ drop 16 pwd;
     (e, s1) \<leftarrow> on_db (bindio_write_prop i (ascii ''PASSWORD'') 1 0 (take 128 new)) s;
     ncp_send_compcode c e s1
   }"

text \<open>
  The checks of the old password. When the answer is wrong and the station is no supervisor, the
  error is sent but the handler goes on. A supervisor may claim a blank password instead.
\<close>

definition ncp_handle_keyedchangepwd :: "nat \<Rightarrow> bytes \<Rightarrow> int \<Rightarrow> srv \<Rightarrow> srv option" where
  "ncp_handle_keyedchangepwd c data sz s =
     require (sz \<ge> 15) c s (do {
       key \<leftarrow> get_bytes data 0 8;
       obj_type \<leftarrow> get_be16 data 8;
       obj_len \<leftarrow> get_be8 data 10;
       obj_name \<leftarrow> ncp_str data 11 (unat obj_len);
       let j = 11 + unat obj_len;
       pwd_len \<leftarrow> get_be8 data j;
       pwd \<leftarrow> ncp_field data (j + 1) (unat pwd_len);
       (x, s1) \<leftarrow> on_db (bindio_scan_object obj_name obj_type) s;
       (case x of
          None \<Rightarrow> ncp_send_compcode c BINDERY_ERROR_NOSUCHOBJECT s1
        | Some (_, ob) \<Rightarrow> do {
            k \<leftarrow> get_conn c s1;
            (r, s2) \<leftarrow> on_db (bindio_read_prop (ob_id ob) (ascii ''PASSWORD'') 1) s1;
            (case r of
               Inr (v, p) \<Rightarrow>
                 if key = nw_encrypt (login_key k) (vl_data v) then store_new_pwd c (ob_id ob) (vl_data v) pwd s2
                 else if object_supervisor k \<noteq> 0 then
                   (let blank = shuffle (list_b4 (to_be32 (ob_id ob))) [] 0 @ drop 16 (vl_data v)
                    in if key = nw_encrypt (login_key k) blank then store_new_pwd c (ob_id ob) blank pwd s2
                       else ncp_send_compcode c 0xff s2)
                 else do { s3 \<leftarrow> ncp_send_compcode c 0xff s2; store_new_pwd c (ob_id ob) (vl_data v) pwd s3 }
             | Inl _ \<Rightarrow> do {
                 (r, s3) \<leftarrow> on_db (bindio_add_prop (ob_id ob) (ascii ''PASSWORD'') 0 0x44 None) s2;
                 (case r of
                    Inl e \<Rightarrow> ncp_send_compcode c e s3
                  | Inr _ \<Rightarrow> store_new_pwd c (ob_id ob) (map (stack s3 (tk s3)) [0..<128]) pwd s3)
               })
          })
     })"

section \<open>Stations\<close>

text \<open>\<^verbatim>\<open>NCP_STATIONINFO\<close>, 62 bytes; the name is cleared when the object does not exist.\<close>

definition ncp_handle_loggedinfo :: "nat \<Rightarrow> nat \<Rightarrow> srv \<Rightarrow> srv option" where
  "ncp_handle_loggedinfo c conn_no s = do {
     k \<leftarrow> get_conn conn_no s;
     (x, s1) \<leftarrow> on_db (bindio_scan_object_by_id (c_object_id k)) s;
     nm \<leftarrow> (case x of None \<Rightarrow> Some (replicate 47 0) | Some (_, ob) \<Rightarrow> ob_name_bytes 47 ob);
     ncp_send_reply c (map Some (list_b4 (to_be32 (c_object_id k)) @ list_b2 (to_be16 (c_object_type k)) @
       nm @ [0] @ servertime (localtime s (login_time k)) @ [0])) 0 s1
   }"

definition conn_range_ok :: "nat \<Rightarrow> srv \<Rightarrow> bool" where
  "conn_range_ok n s \<longleftrightarrow> 0 < n \<and> n \<le> nofconns s"

definition ncp_handle_getloggedinfo :: "nat \<Rightarrow> bytes \<Rightarrow> int \<Rightarrow> srv \<Rightarrow> srv option" where
  "ncp_handle_getloggedinfo c data sz s =
     require (sz = 5) c s (do {
       n \<leftarrow> get_le32 data 0;
       (if conn_range_ok (unat n) s then ncp_handle_loggedinfo c (unat n) s
        else ncp_send_compcode c CONN_ERROR_FAILURE s)
     })"

definition ncp_handle_getloggedinfo2 :: "nat \<Rightarrow> bytes \<Rightarrow> int \<Rightarrow> srv \<Rightarrow> srv option" where
  "ncp_handle_getloggedinfo2 c data sz s =
     require (sz = 2) c s (do {
       n \<leftarrow> get_be8 data 0;
       (if conn_range_ok (unat n) s then ncp_handle_loggedinfo c (unat n) s
        else ncp_send_compcode c CONN_ERROR_FAILURE s)
     })"

definition ncp_handle_getinteraddr :: "nat \<Rightarrow> bytes \<Rightarrow> int \<Rightarrow> srv \<Rightarrow> srv option" where
  "ncp_handle_getinteraddr c data sz s =
     require (sz = 5) c s (do {
       n \<leftarrow> get_be32 data 0;
       ncp_send_reply c (map Some (replicate 12 0 @ [2])) 0 s
     })"

text \<open>The socket number of the reply is never set.\<close>

definition ncp_get_interaddr_old :: "nat \<Rightarrow> bytes \<Rightarrow> int \<Rightarrow> srv \<Rightarrow> srv option" where
  "ncp_get_interaddr_old c data sz s =
     require (sz = 2) c s (do {
       i \<leftarrow> get_be8 data 0;
       k \<leftarrow> get_conn (unat i) s;
       ncp_send_reply c (map Some (list_b4 (x_net (addr k)) @ list_b6 (x_host (addr k))) @ [None, None]) 0 s
     })"

text \<open>
  The connections of an object: at most 31, four bytes each; the count then overwrites the first byte,
  and the last byte sent is not set.
\<close>

definition ncp_get_connlist_old :: "nat \<Rightarrow> bytes \<Rightarrow> int \<Rightarrow> srv \<Rightarrow> srv option" where
  "ncp_get_connlist_old c data sz s =
     require (sz \<ge> 5) c s (do {
       obj_type \<leftarrow> get_be16 data 0;
       obj_len \<leftarrow> get_be8 data 2;
       obj_name \<leftarrow> ncp_str data 3 (unat obj_len);
       (x, s1) \<leftarrow> on_db (bindio_scan_object obj_name obj_type) s;
       (case x of
          None \<Rightarrow> ncp_send_compcode c BINDERY_ERROR_NOSUCHOBJECT s1
        | Some (_, ob) \<Rightarrow>
            (let found = take 31 (filter (\<lambda>i. c_object_id (conns s1 ! i) = ob_id ob \<and>
                           c_object_type (conns s1 ! i) = obj_type) [1..<length (conns s1)])
             in ncp_send_reply c ((map Some (concat (map (\<lambda>i. int_b4 (int i)) found)) @ [None])
                  [0 := Some (of_nat (length found))]) 0 s1))
     })"

text \<open>
  The later request: connections after \<^verbatim>\<open>con_no\<close>, at most 30; each entry holds the identifier of the
  object itself, the low byte first. A start outside the table is an access outside it.
\<close>

definition ncp_handle_getobjconnlist :: "nat \<Rightarrow> bytes \<Rightarrow> int \<Rightarrow> srv \<Rightarrow> srv option" where
  "ncp_handle_getobjconnlist c data sz s =
     require (sz \<ge> 8) c s (do {
       con_no \<leftarrow> get_be32 data 0;
       obj_type \<leftarrow> get_be16 data 4;
       obj_len \<leftarrow> get_be8 data 6;
       obj_name \<leftarrow> ncp_str data 7 (unat obj_len);
       (x, s1) \<leftarrow> on_db (bindio_scan_object obj_name obj_type) s;
       (case x of
          None \<Rightarrow> ncp_send_compcode c BINDERY_ERROR_NOSUCHOBJECT s1
        | Some (_, ob) \<Rightarrow> do {
            let start = sint (con_no + 1);
            (if start < 0 then None else Some ());
            let found = take 30 (filter (\<lambda>i. c_object_id (conns s1 ! i) = ob_id ob) [nat start..<length (conns s1)]);
            ncp_send_reply c (map Some (of_nat (length found) #
              concat (map (\<lambda>i. list_b4 (to_le32 (ob_id ob))) found))) 0 s1
          })
     })"

definition ncp_handle_clearconn :: "nat \<Rightarrow> bytes \<Rightarrow> int \<Rightarrow> srv \<Rightarrow> srv option" where
  "ncp_handle_clearconn c data sz s =
     require (sz = 2) c s (do {
       n \<leftarrow> get_be8 data 0;
       k \<leftarrow> get_conn c s;
       (if object_supervisor k = 0 then ncp_send_compcode c CONN_ERROR_NOCONSRIGHTS s
        else do { s1 \<leftarrow> conn_clear (unat n) s; ncp_send_compcode c 0 s1 })
     })"

text \<open>
  A message of the console operator: to the stations listed, or to every connection when the calling
  one is in use and takes messages.
\<close>

definition ncp_handle_broadcast_old :: "nat \<Rightarrow> bytes \<Rightarrow> int \<Rightarrow> srv \<Rightarrow> srv option" where
  "ncp_handle_broadcast_old c data sz s =
     require (sz \<ge> 5) c s (do {
       n \<leftarrow> get_be8 data 0;
       stations \<leftarrow> get_bytes data 1 (unat n);
       messagelen \<leftarrow> get_be8 data (1 + unat n);
       buf \<leftarrow> message_field data (2 + unat n) (unat messagelen);
       (r, s1) \<leftarrow> conn_is_operator c s;
       (if r < 0 then ncp_send_compcode c 0xc6 s1
        else do {
          k \<leftarrow> get_conn c s1;
          let targets = (if n \<noteq> 0 then map unat stations
                         else if status k \<noteq> Unused \<and> message_ok k \<noteq> 0 then [1..<length (conns s1)] else []);
          s2 \<leftarrow> (if targets = [] then Some s1 else do { m \<leftarrow> cstr buf; put_messages targets m s1 });
          ncp_send_compcode c 0 s2
        })
     })"

section \<open>The server\<close>

text \<open>\<^verbatim>\<open>NCP_SERVERINFO\<close>, 128 bytes.\<close>

definition ncp_handle_server_info :: "nat \<Rightarrow> bytes \<Rightarrow> int \<Rightarrow> srv \<Rightarrow> srv option" where
  "ncp_handle_server_info c data sz s =
     require (sz = 1) c s
       (let used = int_b2 (int (conn_count_used s))
        in ncp_send_reply c (map Some (mkbuf 48 (take 48 (conf_servername s)) @
             [word_of_int (conf_nwversion s sdiv 100), word_of_int (conf_nwversion s smod 100)] @
             int_b2 (int (nofconns s)) @ used @ int_b2 (int VOL_MAX_VOLS) @ [0, 2, 1] @ used @
             [1, 1, 1, 1, 1, 1, 0, 0] @ replicate 59 0)) 0 s)"

definition ncp_handle_serialno :: "nat \<Rightarrow> bytes \<Rightarrow> int \<Rightarrow> srv \<Rightarrow> srv option" where
  "ncp_handle_serialno c data sz s =
     require (sz = 1) c s
       (ncp_send_reply c (map Some (int_b4 (conf_serialno s) @ int_b2 (conf_appno s))) 0 s)"

definition ncp_handle_getloginstat :: "nat \<Rightarrow> bytes \<Rightarrow> int \<Rightarrow> srv \<Rightarrow> srv option" where
  "ncp_handle_getloginstat c data sz s =
     require (sz = 1) c s (ncp_send_reply c [Some (word_of_int (loginenabled s))] 0 s)"

text \<open>Four strings one after the other in a cleared array of 512 bytes.\<close>

definition ncp_handle_fsdesc :: "nat \<Rightarrow> bytes \<Rightarrow> int \<Rightarrow> srv \<Rightarrow> srv option" where
  "ncp_handle_fsdesc c data sz s =
     require (sz = 1) c s (do {
       let d = ascii ''Frommel'' @ [0] @ ascii ''Version '' @ frommel_version s @ [0] @
               ascii ''28 Aug 2001'' @ [0] @ ascii ''(c) 2001 Rink Springer'' @ [0];
       (if length d > NCP_DATASIZE then None
        else ncp_send_reply c (map Some (take 512 (mkbuf 512 d))) 0 s)
     })"

text \<open>Taking the server down is not implemented: a supervisor is told that it worked.\<close>

definition ncp_handle_downserver :: "nat \<Rightarrow> bytes \<Rightarrow> int \<Rightarrow> srv \<Rightarrow> srv option" where
  "ncp_handle_downserver c data sz s =
     require (sz = 2) c s (do {
       force_flag \<leftarrow> get_be8 data 0;
       k \<leftarrow> get_conn c s;
       (if object_supervisor k = 0 then ncp_send_compcode c CONN_ERROR_NOCONSRIGHTS s
        else do {
          (x, s1) \<leftarrow> on_db (bindio_scan_object_by_id (c_object_id k)) s;
          ncp_send_compcode c 0 s1
        })
     })"

section \<open>Dispatch\<close>

definition r23_handler :: "nat \<Rightarrow> (nat \<Rightarrow> bytes \<Rightarrow> int \<Rightarrow> srv \<Rightarrow> srv option) option" where
  "r23_handler f =
     map_of [(17, ncp_handle_server_info), (18, ncp_handle_serialno), (19, ncp_get_interaddr_old),
       (21, ncp_get_connlist_old), (22, ncp_handle_getloggedinfo2), (23, ncp_handle_loginkey),
       (24, ncp_handle_keyedlogin), (26, ncp_handle_getinteraddr), (27, ncp_handle_getobjconnlist),
       (28, ncp_handle_getloggedinfo), (50, ncp_handle_createobj), (51, ncp_handle_deleteobj),
       (53, ncp_handle_getobjid), (54, ncp_handle_getobjname), (55, ncp_handle_scanobj),
       (57, ncp_handle_createprop), (60, ncp_handle_scanproperty), (61, ncp_handle_readprop),
       (62, ncp_handle_writeprop), (65, ncp_handle_addobjtoset), (66, ncp_handle_deleteobjfromset),
       (67, ncp_handle_isobjinset), (68, ncp_handle_closebindery), (69, ncp_handle_openbindery),
       (70, ncp_handle_accesslevel), (71, ncp_handle_scanobjtrusteepaths), (72, ncp_handle_objaccesslevel),
       (73, ncp_handle_ismanager), (74, ncp_handle_keyedverifypwd), (75, ncp_handle_keyedchangepwd),
       (200, ncp_handle_consoleprivs), (201, ncp_handle_fsdesc), (205, ncp_handle_getloginstat),
       (209, ncp_handle_broadcast_old), (210, ncp_handle_clearconn), (211, ncp_handle_downserver)] f"

definition ncp_handle_r23 :: "nat \<Rightarrow> bytes \<Rightarrow> int \<Rightarrow> srv \<Rightarrow> srv option" where
  "ncp_handle_r23 c data sz s = do {
     sub_func \<leftarrow> load data 2;
     sub_sz \<leftarrow> sub_size data sz;
     (case r23_handler (unat sub_func) of
        Some h \<Rightarrow> h c (drop 3 data) sub_sz s
      | None \<Rightarrow> ncp_send_compcode c 0xff s)
   }"

end
