(* ===== verification/Fr_NcpMain.thy ===== *)
theory Fr_NcpMain
  imports Fr_Ncp22 Fr_NcpLogin
begin

text \<open>
  \<^verbatim>\<open>src/server/ncp.c\<close>, last part: the dispatcher of the requests, and the entry point for a packet with
  its checks of the connection number and the station's address.
\<close>

section \<open>Requests\<close>

definition request_handler :: "nat \<Rightarrow> (nat \<Rightarrow> bytes \<Rightarrow> int \<Rightarrow> srv \<Rightarrow> srv option) option" where
  "request_handler f =
     map_of [(18, ncp_send_volinfobyno), (20, \<lambda>c data sz s. ncp_handle_timedate c s), (21, ncp_handle_r21),
       (22, ncp_handle_r22), (23, ncp_handle_r23), (24, ncp_handle_eoj), (25, ncp_handle_logout),
       (33, ncp_handle_buffersize), (34, ncp_handle_r34), (62, ncp_handle_fs_init), (63, ncp_handle_fs_cont),
       (64, ncp_handle_filesearch), (66, ncp_handle_fclose), (67, ncp_handle_fcreate), (68, ncp_handle_ferase),
       (69, ncp_handle_frename), (71, ncp_handle_fsize), (72, ncp_handle_fread), (73, ncp_handle_fwrite),
       (76, ncp_handle_fopen), (87, ncp_handle_r87), (97, ncp_handle_maxpacket),
       (101, \<lambda>c data sz s. ncp_send_compcode c 0xff s)] f"

definition ncp_handle_request :: "nat \<Rightarrow> u8 \<Rightarrow> bytes \<Rightarrow> int \<Rightarrow> srv \<Rightarrow> srv option" where
  "ncp_handle_request c req_code data sz s =
     (case request_handler (unat req_code) of
        Some h \<Rightarrow> h c data sz s
      | None \<Rightarrow> ncp_send_compcode c 0xff s)"

section \<open>Packets\<close>

text \<open>The outcome of a packet: the server goes on, or has called \<^verbatim>\<open>exit\<close>.\<close>

datatype outcome = Running srv | Exited int

text \<open>\<^verbatim>\<open>NCP_REQUEST\<close>: two bytes of type, sequence number, connection number, task, high connection byte, code.\<close>

abbreviation (input) NCP_REQUEST_SIZE :: nat where "NCP_REQUEST_SIZE \<equiv> 7"

definition ncp_handle_packet :: "bytes \<Rightarrow> int \<Rightarrow> ipx_addr \<Rightarrow> srv \<Rightarrow> outcome option" where
  "ncp_handle_packet packet sz from s =
     (if sz < int NCP_REQUEST_SIZE then Some (Exited 1)
      else do {
        t0 \<leftarrow> load packet 0; t1 \<leftarrow> load packet 1;
        seq \<leftarrow> load packet 2; con \<leftarrow> load packet 3; task \<leftarrow> load packet 4; res \<leftarrow> load packet 5;
        code \<leftarrow> load packet 6;
        let data = drop NCP_REQUEST_SIZE packet;
        let dsz = sz - int NCP_REQUEST_SIZE;
        let req_type = be16 (t0, t1);
        let c = unat res * 256 + unat con;
        (if req_type = 0x2222 \<or> req_type = 0x5555 then
           (if c > nofconns s
            then Some (Running (ncp_send_compcode_addr from c task seq CONN_ERROR_FAILURE 0 s))
            else do {
              k \<leftarrow> get_conn c s;
              (if from \<noteq> addr k
               then Some (Running (ncp_send_compcode_addr from c task seq CONN_ERROR_FAILURE 0 s))
               else do {
                 let s1 = upd_conn c (\<lambda>k. k\<lparr>task_no := task, seq_no := seq, last_time := now s\<rparr>) s;
                 s2 \<leftarrow> (if req_type = 0x2222 then ncp_handle_request c code data dsz s1
                        else ncp_destroy_conn c from s1);
                 Some (Running s2)
               })
            })
         else if req_type = 0x1111 then do { s1 \<leftarrow> ncp_create_conn from s; Some (Running s1) }
         else Some (Running s))
      })"

end
