(* ===== verification/Fr_Frame.thy ===== *)
theory Fr_Frame
  imports Fr_NcpMain
begin

text \<open>
  What a request can change: a small calculus for "whenever this code returns, its result satisfies
  P", and for each function of the server the part of the state it leaves alone. A request of a
  connection changes no other connection (two requests of the console operator excepted), keeps the
  address and the use of its own, and answers only to the station that sent it.
\<close>

section \<open>Results that satisfy a property\<close>

definition post :: "('a \<Rightarrow> bool) \<Rightarrow> 'a option \<Rightarrow> bool" where
  "post P m \<longleftrightarrow> (\<forall>x. m = Some x \<longrightarrow> P x)"

named_theorems post_rules \<open>decomposition of a program whose results satisfy a property\<close>

lemma postI: "(\<And>x. m = Some x \<Longrightarrow> P x) \<Longrightarrow> post P m"
  by (simp add: post_def)

lemma postD: "post P m \<Longrightarrow> m = Some x \<Longrightarrow> P x"
  by (simp add: post_def)

lemma post_pair: "post (\<lambda>(r, s'). P s') m \<Longrightarrow> m = Some (r, s') \<Longrightarrow> P s'"
  by (auto simp: post_def)

lemma post_Some [post_rules]: "P x \<Longrightarrow> post P (Some x)"
  by (simp add: post_def)

lemma post_None [post_rules]: "post P None"
  by (simp add: post_def)

lemma post_bind [post_rules]: "(\<And>x. m = Some x \<Longrightarrow> post P (f x)) \<Longrightarrow> post P (m \<bind> f)"
  by (auto simp: post_def bind_eq_Some_conv)

lemma post_if [post_rules]: "(b \<Longrightarrow> post P m) \<Longrightarrow> (\<not> b \<Longrightarrow> post P n) \<Longrightarrow> post P (if b then m else n)"
  by simp

lemma post_option [post_rules]:
  "(x = None \<Longrightarrow> post P m) \<Longrightarrow> (\<And>y. x = Some y \<Longrightarrow> post P (f y)) \<Longrightarrow> post P (case x of None \<Rightarrow> m | Some y \<Rightarrow> f y)"
  by (cases x) simp_all

lemma post_sum [post_rules]:
  "(\<And>y. x = Inl y \<Longrightarrow> post P (f y)) \<Longrightarrow> (\<And>y. x = Inr y \<Longrightarrow> post P (g y)) \<Longrightarrow>
   post P (case x of Inl y \<Rightarrow> f y | Inr y \<Rightarrow> g y)"
  by (cases x) simp_all

lemma post_prod [post_rules]: "(\<And>a b. x = (a, b) \<Longrightarrow> post P (f a b)) \<Longrightarrow> post P (case x of (a, b) \<Rightarrow> f a b)"
  by (cases x) simp

lemma post_let [post_rules]: "(\<And>x. v = x \<Longrightarrow> post P (f x)) \<Longrightarrow> post P (Let v f)"
  by simp

section \<open>States that differ outside the table of connections\<close>

definition quiet :: "srv \<Rightarrow> srv \<Rightarrow> bool" where
  "quiet s s' \<longleftrightarrow> conns s' = conns s \<and> volumes s' = volumes s \<and> now s' = now s \<and> sent s' = sent s"

named_theorems quiet_dests \<open>functions that touch neither connections nor packets\<close>

lemma quiet_refl [simp, intro]: "quiet s s"
  by (simp add: quiet_def)

lemma quiet_trans: "quiet s t \<Longrightarrow> quiet t u \<Longrightarrow> quiet s u"
  by (simp add: quiet_def)

lemma quiet_on_db [quiet_dests]: "on_db f s = Some (r, s') \<Longrightarrow> quiet s s'"
  by (auto simp: on_db_def quiet_def bind_eq_Some_conv)

lemma quiet_sys [quiet_dests]:
  "sys_stat p s = (a1, s') \<Longrightarrow> quiet s s'" "sys_open p m s = (a2, s') \<Longrightarrow> quiet s s'"
  "sys_ok s = (a3, s') \<Longrightarrow> quiet s s'" "sys_fstat fd s = (a4, s') \<Longrightarrow> quiet s s'"
  "sys_statfs p s = (a5, s') \<Longrightarrow> quiet s s'" "sys_dir p s = (a6, s') \<Longrightarrow> quiet s s'"
  "sys_read fd off n s = (a7, s') \<Longrightarrow> quiet s s'" "sys_do x s = (a8, s') \<Longrightarrow> quiet s s'"
  by (auto simp: quiet_def sys_stat_def sys_open_def sys_ok_def sys_fstat_def sys_statfs_def sys_dir_def
      sys_read_def sys_do_def)

lemma quiet_fields [simp]:
  "quiet s (set_tfile f rs s)" "quiet s (sys_close fd s)"
  by (auto simp: quiet_def set_tfile_def sys_close_def)

text \<open>A program run from \<open>s\<close> with a state as the last part of its result, which is quiet.\<close>

abbreviation quietly :: "srv \<Rightarrow> ('a \<times> srv) option \<Rightarrow> bool" where
  "quietly s m \<equiv> post (\<lambda>(r, s'). quiet s s') m"

lemma quiet_objinset:
  assumes "\<And>i sec s. quietly s (access i sec s)"
  shows "quietly s (objinset_with access ty n i p mt mn m s)"
  unfolding objinset_with_def
  by (intro post_rules) (auto dest!: quiet_dests post_pair [OF assms] simp: quiet_def bind_eq_Some_conv split: option.splits)

lemma quiet_check_access [quiet_dests]:
  assumes "bind_check_access c i sec rw s = Some (r, s')"
  shows "quiet s s'"
proof -
  have o: "quietly s (objinset_with no_check ty n i p mt mn m s)" for ty n i p mt mn m s
    by (rule quiet_objinset) (simp add: post_def)
  have "quietly s (bind_check_access c i sec rw s)"
    unfolding bind_check_access_def
    by (intro post_rules) (auto dest!: quiet_dests post_pair [OF o])
  then show ?thesis using assms by (rule post_pair)
qed

lemma quiet_is_objinset [quiet_dests]:
  assumes "bind_is_objinset c ty n i p mt mn m s = Some (r, s')"
  shows "quiet s s'"
proof -
  have "quietly s (bind_is_objinset c ty n i p mt mn m s)"
    unfolding bind_is_objinset_def
    by (rule quiet_objinset) (auto simp: post_def dest!: quiet_dests)
  then show ?thesis using assms by (rule post_pair)
qed

lemma quiet_supervisor [quiet_dests]: "bind_obj_is_supervisor i s = Some (r, s') \<Longrightarrow> quiet s s'"
  by (auto simp: bind_obj_is_supervisor_def bind_eq_Some_conv dest!: quiet_dests split: if_splits)

lemma quiet_add_remove [quiet_dests]:
  assumes "bind_add_remove_objfromset c ty n p mt mn ad s = Some (r, s')"
  shows "quiet s s'"
proof -
  have "quietly s (bind_add_remove_objfromset c ty n p mt mn ad s)"
    unfolding bind_add_remove_objfromset_def
    by (intro post_rules) (auto dest!: quiet_dests simp: quiet_def post_def split: if_splits)
  then show ?thesis using assms by (rule post_pair)
qed

lemma quiet_roles [quiet_dests]:
  "conn_is_manager c s = Some (r1, s') \<Longrightarrow> quiet s s'" "conn_is_operator c s = Some (r2, s') \<Longrightarrow> quiet s s'"
  by (auto simp: conn_is_manager_def conn_is_operator_def bind_eq_Some_conv dest!: quiet_dests split: if_splits)

section \<open>Trustees\<close>

lemma quiet_get_rights [quiet_dests]:
  assumes "trust_get_rights c d p rc s = Some (e, r, s')"
  shows "quiet s s'"
proof -
  have "post (\<lambda>(e, r, s'). quiet s s') (trust_get_rights c d p rc s)"
    unfolding trust_get_rights_def
    by (intro post_rules) (auto dest!: quiet_dests)
  then show ?thesis using assms by (auto simp: post_def)
qed

lemma quiet_trust [quiet_dests]:
  "trust_check_rights c d p r s = Some (e, s') \<Longrightarrow> quiet s s'"
  by (auto simp: trust_check_rights_def bind_eq_Some_conv dest!: quiet_dests)

lemma quiet_grant [quiet_dests]:
  assumes "trust_grant_right c d p i r s = Some (e, s')"
  shows "quiet s s'"
proof -
  have "quietly s (trust_grant_right c d p i r s)"
    unfolding trust_grant_right_def
    by (intro post_rules) (auto simp: sys_ok_def quiet_def set_tfile_def split: option.splits if_splits bool.splits)
  then show ?thesis using assms by (rule post_pair)
qed

lemma quiet_remove [quiet_dests]:
  assumes "trust_remove_right c d p i s = Some (e, s')"
  shows "quiet s s'"
proof -
  have "quietly s (trust_remove_right c d p i s)"
    unfolding trust_remove_right_def
    by (intro post_rules) (auto simp: sys_ok_def quiet_def set_tfile_def post_def split: option.splits if_splits bool.splits prod.splits)
  then show ?thesis using assms by (rule post_pair)
qed

section \<open>Changes of one connection\<close>

text \<open>
  The connection keeps its address, the task and sequence number of the request and the times of the
  watchdog; an entry in use
  stays in use, with arrays of the right sizes.
\<close>

definition use_ok :: "connection \<Rightarrow> connection \<Rightarrow> bool" where
  "use_ok k k' \<longleftrightarrow> addr k' = addr k \<and> seq_no k' = seq_no k \<and> task_no k' = task_no k \<and>
     last_time k' = last_time k \<and> wdog_time k' = wdog_time k \<and> (conn_ok k \<longrightarrow> conn_ok k') \<and> (status k \<noteq> Unused \<longrightarrow> status k' \<noteq> Unused)"

lemma use_ok_refl [simp]: "use_ok k k"
  by (simp add: use_ok_def)

lemma use_ok_trans: "use_ok k l \<Longrightarrow> use_ok l m \<Longrightarrow> use_ok k m"
  by (auto simp: use_ok_def)

text \<open>A reply to the request that connection \<open>k\<close>, number \<open>c\<close>, has made.\<close>

definition reply_for :: "nat \<Rightarrow> connection \<Rightarrow> packet \<Rightarrow> bool" where
  "reply_for c k p \<longleftrightarrow> (\<exists>r. p = Reply r \<and> rep_to r = addr k \<and> con_no r = of_nat c \<and> rep_seq_no r = seq_no k \<and>
     rep_task_no r = task_no k)"

definition only_conn :: "nat \<Rightarrow> srv \<Rightarrow> srv \<Rightarrow> bool" where
  "only_conn c s s' \<longleftrightarrow> length (conns s') = length (conns s) \<and> volumes s' = volumes s \<and> now s' = now s \<and>
     (\<forall>d. d \<noteq> c \<longrightarrow> conns s' ! d = conns s ! d) \<and> use_ok (conns s ! c) (conns s' ! c) \<and>
     (\<exists>ps. sent s' = ps @ sent s \<and> (\<forall>p\<in>set ps. reply_for c (conns s ! c) p))"

named_theorems only_dests \<open>functions that change one connection only\<close>

lemma only_refl [simp]: "only_conn c s s"
  by (simp add: only_conn_def)

lemma reply_for_use_ok: "use_ok k k' \<Longrightarrow> reply_for c k' p = reply_for c k p"
  by (simp add: use_ok_def reply_for_def)

lemma only_trans [trans]:
  assumes "only_conn c s t" "only_conn c t u"
  shows "only_conn c s u"
proof -
  obtain ps qs where p: "sent t = ps @ sent s" "\<forall>p\<in>set ps. reply_for c (conns s ! c) p"
    and q: "sent u = qs @ sent t" "\<forall>p\<in>set qs. reply_for c (conns t ! c) p"
    using assms by (auto simp: only_conn_def)
  have "\<forall>p\<in>set qs. reply_for c (conns s ! c) p"
    using q(2) assms(1) reply_for_use_ok by (auto simp: only_conn_def)
  then have "\<exists>rs. sent u = rs @ sent s \<and> (\<forall>p\<in>set rs. reply_for c (conns s ! c) p)"
    using p q by (intro exI [of _ "qs @ ps"]) auto
  moreover have "use_ok (conns s ! c) (conns u ! c)"
    using assms use_ok_trans [of "conns s ! c" "conns t ! c"] by (simp add: only_conn_def)
  ultimately show ?thesis using assms by (simp add: only_conn_def)
qed

lemma quiet_only: "quiet s s' \<Longrightarrow> only_conn c s s'"
  by (simp add: quiet_def only_conn_def)

lemma only_upd [intro]:
  assumes "use_ok (conns s ! c) (f (conns s ! c))"
  shows "only_conn c s (upd_conn c f s)"
proof (cases "c < length (conns s)")
  case True
  then show ?thesis using assms by (simp add: only_conn_def)
next
  case False
  then have "conns (upd_conn c f s) = conns s" by (simp add: upd_conn_def list_update_beyond)
  then show ?thesis by (simp add: only_conn_def)
qed

lemma only_send [only_dests]:
  "ncp_send_reply c d e s = Some s' \<Longrightarrow> only_conn c s s'"
  by (auto simp: ncp_send_reply_def bind_eq_Some_conv only_conn_def reply_for_def)

text \<open>A request is answered: at least one packet is sent.\<close>

definition answered :: "nat \<Rightarrow> srv \<Rightarrow> srv \<Rightarrow> bool" where
  "answered c s s' \<longleftrightarrow> only_conn c s s' \<and> length (sent s) < length (sent s')"

lemma only_sent_length: "only_conn c s s' \<Longrightarrow> length (sent s) \<le> length (sent s')"
  by (auto simp: only_conn_def)

lemma answered_reply:
  assumes "only_conn c s t"
  shows "post (answered c s) (ncp_send_reply c d e t)"
proof (rule postI)
  fix u assume r: "ncp_send_reply c d e t = Some u"
  then have "only_conn c s u" using assms only_send only_trans by blast
  moreover have "length (sent u) = Suc (length (sent t))" using r by (auto simp: ncp_send_reply_def bind_eq_Some_conv)
  ultimately show "answered c s u" using only_sent_length [OF assms] by (simp add: answered_def)
qed

lemma answered_compcode: "only_conn c s t \<Longrightarrow> post (answered c s) (ncp_send_compcode c e t)"
  by (simp add: ncp_send_compcode_def answered_reply)

lemma answered_require: "post (answered c s) m \<Longrightarrow> post (answered c s) (require b c s m)"
  by (simp add: require_def answered_compcode)

lemmas answer_rules = answered_require answered_reply answered_compcode post_rules

section \<open>Handles\<close>

lemma set_update_ok: "\<forall>x\<in>set xs. P x \<Longrightarrow> P y \<Longrightarrow> \<forall>x\<in>set (xs[i := y]). P x"
  using set_update_subset_insert [of xs i y] by blast

lemma use_ok_dh:
  assumes "conn_ok k \<Longrightarrow> length (dh_path h) = CONN_DH_MAX_PATH_LEN"
  shows "use_ok k (k\<lparr>dh := (dh k)[d := h]\<rparr>)"
  using assms by (auto simp: use_ok_def conn_ok_def dest!: set_update_subset_insert [THEN subsetD])

lemma use_ok_sh:
  assumes "conn_ok k \<Longrightarrow> length (sh_path h) = CONN_SH_MAX_PATH_LEN \<and> length (sh_relpath h) = CONN_SH_MAX_PATH_LEN"
  shows "use_ok k (k\<lparr>sh := (sh k)[d := h]\<rparr>)"
  using assms by (auto simp: use_ok_def conn_ok_def dest!: set_update_subset_insert [THEN subsetD])

lemma use_ok_fields [simp]:
  "use_ok k (k\<lparr>fh := (fh k)[h := fd]\<rparr>)" "use_ok k (k\<lparr>message_ok := m\<rparr>)" "use_ok k (k\<lparr>object_supervisor := v\<rparr>)"
  "use_ok k (k\<lparr>message := (message k)[i := x]\<rparr>)" "length key = 8 \<Longrightarrow> use_ok k (k\<lparr>login_key := key\<rparr>)"
  "use_ok k (k\<lparr>status := LoggedIn, c_object_id := oi, c_object_type := ot\<rparr>)"
  by (auto simp: use_ok_def conn_ok_def)

lemma length_zero_dh [simp]: "length (dh_path zero_dh) = CONN_DH_MAX_PATH_LEN"
  by (simp add: zero_dh_def)

lemma only_upd_dh: "(conn_ok (conns s ! c) \<Longrightarrow> length (dh_path h) = CONN_DH_MAX_PATH_LEN) \<Longrightarrow> only_conn c s (upd_dh c d h s)"
  unfolding upd_dh_def by (intro only_upd use_ok_dh)

lemma get_dh_length: "get_dh c d s = Some h \<Longrightarrow> conn_ok (conns s ! c) \<Longrightarrow> length (dh_path h) = CONN_DH_MAX_PATH_LEN"
  by (auto simp: get_dh_def bind_eq_Some_conv conn_ok_def)

lemma only_alloc_dh [only_dests]:
  assumes "fs_con_alloc_dh c fl v p s = Some (r, s')"
  shows "only_conn c s s'"
proof -
  have z: "only_conn c s (upd_dh c d zero_dh t)" if "only_conn c s t" for d t
    using that only_upd_dh [of t c zero_dh] only_trans by simp
  have u: "only_conn c s (upd_dh c d \<lparr>dh_flags = fl, dh_volno = v', dh_path = buf\<rparr> s)"
    if "get_dh c d s = Some h" "strncpy (dh_path h) p' n = Some buf" for d h p' n buf v'
    using that length_strncpy get_dh_length by (intro only_upd_dh) simp
  have q: "only_conn c s t'" if "only_conn c s t" "sys_stat pp t = (st, t')" for t pp st t'
    using that quiet_sys(1) quiet_only only_trans by blast
  have "post (\<lambda>(r, s'). only_conn c s s') (fs_con_alloc_dh c fl v p s)"
    unfolding fs_con_alloc_dh_def
    by (intro post_rules) (auto intro!: z dest!: q [rotated] intro: u)
  then show ?thesis using assms by (rule post_pair)
qed

lemma only_dealloc_dh [only_dests]: "fs_con_dealloc_dh c d s = Some (r, s') \<Longrightarrow> only_conn c s s'"
  by (auto simp: fs_con_dealloc_dh_def bind_eq_Some_conv simp flip: upd_dh_def intro!: only_upd split: if_splits)
    (metis length_zero_dh use_ok_dh)

lemma only_close_file [only_dests]: "fs_close_file c h s = Some (r, s') \<Longrightarrow> only_conn c s s'"
proof -
  assume a: "fs_close_file c h s = Some (r, s')"
  have "only_conn c s (upd_conn c (\<lambda>k. k\<lparr>fh := (fh k)[h := -1]\<rparr>) (sys_close fd s))" for fd
    by (rule only_trans [OF quiet_only [OF quiet_fields(2)]]) auto
  then show ?thesis using a by (auto simp: fs_close_file_def bind_eq_Some_conv split: if_splits)
qed

lemma only_open_file [only_dests]:
  assumes "fs_open_file c d rgt n s = Some (e, h, s')"
  shows "only_conn c s s'"
proof -
  have f: "only_conn c s (upd_conn c (\<lambda>k. k\<lparr>fh := (fh k)[h := fd]\<rparr>) t)" if "quiet s t" for h fd t
    using only_trans [OF quiet_only [OF that] only_upd] by simp
  have "post (\<lambda>(e, h, s'). only_conn c s s') (fs_open_file c d rgt n s)"
    unfolding fs_open_file_def
    by (intro post_rules) (auto dest!: quiet_dests intro!: quiet_only f simp: quiet_def post_def split: if_splits prod.splits)
  then show ?thesis using assms by (auto simp: post_def)
qed

lemma upd_sh_twice [simp]:
  "upd_conn c (\<lambda>k. k\<lparr>sh := (sh k)[i := h']\<rparr>) (upd_conn c (\<lambda>k. k\<lparr>sh := (sh k)[i := h]\<rparr>) s) =
   upd_conn c (\<lambda>k. k\<lparr>sh := (sh k)[i := h']\<rparr>) s"
  by (cases "c < length (conns s)") (simp_all add: upd_conn_def list_update_beyond)

lemma only_upd_quiet: "quiet t t' \<Longrightarrow> only_conn c s (upd_conn c f t) \<Longrightarrow> only_conn c s (upd_conn c f t')"
  by (simp add: only_conn_def quiet_def) (simp add: upd_conn_def)

lemma only_alloc_sh [only_dests]:
  assumes "fs_con_alloc_sh c d p s = Some (r, s')"
  shows "only_conn c s s'"
proof -
  let ?put = "\<lambda>i h. upd_conn c (\<lambda>k. k\<lparr>sh := (sh k)[i := h]\<rparr>)"
  have l: "length buf = CONN_SH_MAX_PATH_LEN" "length (sh_relpath h) = CONN_SH_MAX_PATH_LEN"
    if "load (sh (conns s ! c)) i = Some h" "fs_build_path c d p (sh_path h) n fl s = Some (e, buf)"
      "conn_ok (conns s ! c)" for i h n fl e buf
    using that length_fs_build_path by (auto simp: conn_ok_def)
  have r: "length rel = CONN_SH_MAX_PATH_LEN"
    if "load (sh (conns s ! c)) i = Some h" "strcpy (sh_relpath h) q = Some rel" "conn_ok (conns s ! c)" for i h q rel
    using that length_strcpy by (auto simp: conn_ok_def)
  have u: "only_conn c s (?put i h s)"
    if "conn_ok (conns s ! c) \<Longrightarrow> length (sh_path h) = CONN_SH_MAX_PATH_LEN \<and> length (sh_relpath h) = CONN_SH_MAX_PATH_LEN" for i h
    using that by (intro only_upd use_ok_sh)
  have q: "only_conn c s (?put i h t')" if "quiet (?put i h' s) t'" "only_conn c s (?put i h s)" for i h h' t'
    using only_upd_quiet [OF that(1), of c s] that(2) by simp
  have "post (\<lambda>(r, s'). only_conn c s s') (fs_con_alloc_sh c d p s)"
    unfolding fs_con_alloc_sh_def
    by (intro post_rules) (auto dest!: quiet_dests simp: bind_eq_Some_conv simp del: load_Some intro!: q u intro: l r)
  then show ?thesis using assms by (rule post_pair)
qed

lemma upd_conn_upd_conn: "upd_conn c g (upd_conn c f s) = upd_conn c (\<lambda>k. g (f k)) s"
  by (cases "c < length (conns s)") (simp_all add: upd_conn_def list_update_beyond)

lemma only_logout [only_dests]:
  assumes "conn_logout c s = Some s'"
  shows "only_conn c s s'"
proof -
  obtain t where t: "fs_con_alloc_dh c FS_DH_PERM 0 (ascii ''login'')
      (upd_conn c (\<lambda>k. k\<lparr>status := Attached, dh := replicate CONN_DH_PER_CONN zero_dh,
                sh := replicate CONN_SH_PER_CONN zero_sh\<rparr>) (close_all c s)) = Some t"
    and s': "s' = upd_conn c (\<lambda>k. k\<lparr>dh := (dh k)[1 := dh k ! 0], c_object_id := 0xffffffff,
                c_object_type := 0xffff, object_supervisor := 0, message := (message k)[0 := 0], message_ok := 1\<rparr>) (snd t)"
    using assms by (auto simp: conn_logout_def bind_eq_Some_conv Let_def)
  have "only_conn c s (upd_conn c (\<lambda>k. k\<lparr>fh := map (\<lambda>_. -1) (fh (conns s ! c))\<rparr>)
      (s\<lparr>closed := rev (filter (\<lambda>fd. fd \<noteq> -1) (fh (conns s ! c))) @ closed s\<rparr>))"
    by (rule only_trans [OF quiet_only only_upd]) (auto simp: quiet_def use_ok_def conn_ok_def)
  then have "only_conn c s (close_all c s)" by (simp add: close_all_def Let_def fold_close)
  also have "only_conn c (close_all c s) (upd_conn c (\<lambda>k. k\<lparr>status := Attached, dh := replicate CONN_DH_PER_CONN zero_dh,
                sh := replicate CONN_SH_PER_CONN zero_sh\<rparr>) (close_all c s))"
    by (rule only_upd) (simp add: use_ok_def conn_ok_def zero_dh_def zero_sh_def)
  also have "only_conn c \<dots> (snd t)" using only_alloc_dh [of c _ _ _ _ "fst t" "snd t"] t by simp
  also have "only_conn c (snd t) s'"
    unfolding s' by (rule only_upd) (auto simp: use_ok_def conn_ok_def nth_list_update in_set_conv_nth[of _ "_[_ := _]"])
  finally show ?thesis .
qed

lemma quiet_erase [quiet_dests]: "erase_entries p q es n s = (r, s') \<Longrightarrow> quiet s s'"
  by (induction p q es n s rule: erase_entries.induct) (auto dest!: quiet_dests simp: quiet_def split: if_splits prod.splits)

lemma quiet_cont_entry [quiet_dests]: "fs_cont_entry c h attr p e n s = Some (r, s') \<Longrightarrow> quiet s s'"
  by (auto simp: fs_cont_entry_def bind_eq_Some_conv dest!: quiet_dests split: if_splits)

lemma quiet_cont_scan [quiet_dests]: "fs_cont_scan c h attr p dq es n s = Some (r, s') \<Longrightarrow> quiet s s'"
proof (induction es arbitrary: n s)
  case (Cons e es)
  then obtain n1 s1 where e: "fs_cont_entry c h attr p e n s = Some (n1, s1)"
    and r: "(if n1 = dq then Some (Some e, s1) else fs_cont_scan c h attr p dq es n1 s1) = Some (r, s')"
    by (auto simp: bind_eq_Some_conv)
  from r have "quiet s1 s'" by (cases "n1 = dq") (auto intro: Cons.IH)
  then show ?case by (rule quiet_trans [OF quiet_cont_entry [OF e]])
qed simp

lemma answered_only: "only_conn c s t \<Longrightarrow> post (answered c t) m \<Longrightarrow> post (answered c s) m"
  using only_trans only_sent_length by (fastforce simp: post_def answered_def)

lemma only_close_fd: "quiet t u \<Longrightarrow> only_conn c t (upd_conn c (\<lambda>k. k\<lparr>fh := (fh k)[h := -1]\<rparr>) (sys_close fd u))"
  by (rule only_trans [OF quiet_only [OF quiet_trans [OF _ quiet_fields(2)]] only_upd]) auto

lemma answered_open: "only_conn c s t \<Longrightarrow> post (answered c s) (answer_open c buf h fd t)"
  unfolding answer_open_def
  by (rule answered_only, assumption, intro answer_rules) (auto dest!: quiet_dests intro: only_close_fd quiet_only)

section \<open>Running a handler\<close>

text \<open>One rule for each function that a handler calls: what holds of the state it returns.\<close>

lemma calls_only:
  "post (\<lambda>(r, u). only_conn c t u) (on_db f t)"
  "post (\<lambda>(r, u). only_conn c t u) (bind_check_access c' i sec rw t)"
  "post (\<lambda>(r, u). only_conn c t u) (bind_is_objinset c' ty n i p mt mn m t)"
  "post (\<lambda>(r, u). only_conn c t u) (bind_obj_is_supervisor i t)"
  "post (\<lambda>(r, u). only_conn c t u) (bind_add_remove_objfromset c' ty n' p mt mn' ad t)"
  "post (\<lambda>(r, u). only_conn c t u) (conn_is_manager c' t)"
  "post (\<lambda>(r, u). only_conn c t u) (conn_is_operator c' t)"
  "post (\<lambda>(r, u). only_conn c t u) (trust_check_rights c' d q rgt t)"
  "post (\<lambda>(r, u). only_conn c t u) (trust_grant_right c' d q i rgt t)"
  "post (\<lambda>(r, u). only_conn c t u) (trust_remove_right c' d q i t)"
  "post (\<lambda>(r, u). only_conn c t u) (fs_cont_scan c' h attr pat dq es sq t)"
  "post (\<lambda>(r, u). only_conn c t u) (fs_con_alloc_dh c fl v p t)"
  "post (\<lambda>(r, u). only_conn c t u) (fs_con_dealloc_dh c d' t)"
  "post (\<lambda>(r, u). only_conn c t u) (fs_close_file c d t)"
  "post (\<lambda>(r, u). only_conn c t u) (fs_con_alloc_sh c d q t)"
  by (auto simp: post_def dest!: quiet_dests only_dests intro: quiet_only)

lemma calls_only3:
  "post (\<lambda>(q, r, u). only_conn c t u) (trust_get_rights c' d p rc t)"
  "post (\<lambda>(q, r, u). only_conn c t u) (fs_open_file c d rgt n t)"
  by (auto simp: post_def dest!: quiet_dests only_dests intro: quiet_only)

lemma calls_only1:
  "post (only_conn c t) (conn_logout c t)" "post (only_conn c t) (ncp_send_compcode c e t)"
  by (auto simp: post_def ncp_send_compcode_def dest!: only_dests)

lemma calls_let:
  "case sys_stat p t of (r, u) \<Rightarrow> only_conn c t u" "case sys_ok t of (r, u) \<Rightarrow> only_conn c t u"
  "case sys_fstat fd t of (r, u) \<Rightarrow> only_conn c t u" "case sys_statfs p t of (r, u) \<Rightarrow> only_conn c t u"
  "case sys_dir p t of (r, u) \<Rightarrow> only_conn c t u" "case sys_read fd off n t of (r, u) \<Rightarrow> only_conn c t u"
  "case sys_do x t of (r, u) \<Rightarrow> only_conn c t u" "case erase_entries p q es k t of (r, u) \<Rightarrow> only_conn c t u"
  by (auto dest!: quiet_dests intro: quiet_only split: prod.splits)

lemma bind_only:
  assumes "post (\<lambda>(r, u). only_conn c t u) m" "only_conn c s t"
    and "\<And>r u. only_conn c s u \<Longrightarrow> post (answered c s) (g r u)"
  shows "post (answered c s) (m \<bind> (\<lambda>(r, u). g r u))"
  using assms(1) by (intro post_rules) (auto dest!: postD intro!: assms(3) only_trans [OF assms(2)])

lemma bind_only3:
  assumes "post (\<lambda>(q, r, u). only_conn c t u) m" "only_conn c s t"
    and "\<And>q r u. only_conn c s u \<Longrightarrow> post (answered c s) (g q r u)"
  shows "post (answered c s) (m \<bind> (\<lambda>(q, r, u). g q r u))"
  using assms(1) by (intro post_rules) (auto dest!: postD intro!: assms(3) only_trans [OF assms(2)])

lemma bind_only1:
  assumes "post (only_conn c t) m" "only_conn c s t" "\<And>u. only_conn c s u \<Longrightarrow> post (answered c s) (g u)"
  shows "post (answered c s) (m \<bind> g)"
  using assms(1) by (intro post_rules) (auto dest!: postD intro!: assms(3) only_trans [OF assms(2)])

lemma let_only:
  assumes "case m of (r, u) \<Rightarrow> only_conn c t u" "only_conn c s t"
    and "\<And>r u. only_conn c s u \<Longrightarrow> post (answered c s) (g r u)"
  shows "post (answered c s) (let (r, u) = m in g r u)"
  using assms only_trans by (auto split: prod.splits)

lemmas run_rules = calls_only [THEN bind_only] calls_only3 [THEN bind_only3] calls_only1 [THEN bind_only1]
  calls_let [THEN let_only]

section \<open>Every handler\<close>

text \<open>
  A handler that returns has answered the request, and changed nothing but the connection of the
  station that asked. Two requests of the console operator (23/209, a broadcast, and 23/210, clearing
  a connection) are meant to change others.
\<close>

lemma answered_volinfo: "only_conn c s t \<Longrightarrow> post (answered c s) (ncp_send_volinfo c v st t)"
  by (simp add: ncp_send_volinfo_def Let_def answered_reply)

lemma answered_loggedinfo: "post (answered c s) (ncp_handle_loggedinfo c n s)"
  unfolding ncp_handle_loggedinfo_def by (intro run_rules answer_rules) simp_all

lemma use_ok_eoj [simp]: "use_ok k (k\<lparr>sh := map (\<lambda>h. h\<lparr>sh_path := (sh_path h)[0 := 0]\<rparr>) (sh k)\<rparr>)"
  by (auto simp: use_ok_def conn_ok_def)

lemma length_random_bytes: "random_bytes n b = (xs, b') \<Longrightarrow> length xs = n"
  by (induction n arbitrary: b xs) (auto split: prod.splits)

lemma setdirpath_answered: "post (answered c s) (ncp_handle_setdirpath c data sz s)"
proof -
  have l: "length b = CONN_DH_MAX_PATH_LEN"
    if "(if x then Some (case m of None \<Rightarrow> dh_path h | Some i \<Rightarrow> (dh_path h)[i := 0])
         else snprintf (dh_path h) CONN_DH_MAX_PATH_LEN t) = Some b" "get_dh c d s = Some h" "conn_ok (conns s ! c)"
    for x m h t b d
    using that get_dh_length length_strcpy by (auto simp: snprintf_def split: if_splits option.splits)
  show ?thesis unfolding ncp_handle_setdirpath_def
    by (intro run_rules answer_rules) (auto intro!: only_upd_dh intro: l)
qed

lemma only_put_messages: "put_messages (map (\<lambda>_. c) xs) m s = Some s' \<Longrightarrow> only_conn c s s'"
proof (induction xs arbitrary: s)
  case (Cons x xs)
  then obtain b t where b: "strcpy (message (conns s ! c)) m = Some b" "t = upd_conn c (\<lambda>k. k\<lparr>message := b\<rparr>) s"
    and t: "put_messages (map (\<lambda>_. c) xs) m t = Some s'"
    by (auto simp: put_message_def bind_eq_Some_conv)
  have "only_conn c s t"
    unfolding b(2) by (rule only_upd) (use length_strcpy [OF b(1)] in \<open>auto simp: use_ok_def conn_ok_def\<close>)
  then show ?case using Cons.IH [OF t] only_trans by blast
qed simp

lemma answered_store_pwd: "only_conn c s t \<Longrightarrow> post (answered c s) (store_new_pwd c i old pwd t)"
  unfolding store_new_pwd_def by (intro run_rules answer_rules)

lemma keyedchangepwd_answered: "post (answered c s) (ncp_handle_keyedchangepwd c data sz s)"
  unfolding ncp_handle_keyedchangepwd_def
  by (intro run_rules answered_store_pwd answer_rules) simp_all

lemma loginkey_answered: "post (answered c s) (ncp_handle_loginkey c data sz s)"
proof -
  have "only_conn c s (upd_conn c (\<lambda>k. k\<lparr>login_key := key\<rparr>) (s\<lparr>db := b\<rparr>))" if "random_bytes 8 (db s) = (key, b)" for key b
    using length_random_bytes [OF that] only_trans [OF quiet_only [of s "s\<lparr>db := b\<rparr>"] only_upd] by (simp add: quiet_def)
  then show ?thesis unfolding ncp_handle_loginkey_def
    by (intro answer_rules) auto
qed

lemmas handler_rules = run_rules answered_open answered_volinfo answered_loggedinfo answer_rules

lemmas ncp_core_defs =
  ncp_handle_buffersize_def ncp_handle_eoj_def ncp_handle_logout_def ncp_handle_maxpacket_def
  ncp_handle_tts_isavail_def ncp_handle_genbasevolno_def

lemma ncp_core_answered:
  "post (answered c s) (ncp_handle_buffersize c data sz s)"
  "post (answered c s) (ncp_handle_eoj c data sz s)"
  "post (answered c s) (ncp_handle_logout c data sz s)"
  "post (answered c s) (ncp_handle_maxpacket c data sz s)"
  "post (answered c s) (ncp_handle_tts_isavail c data sz s)"
  "post (answered c s) (ncp_handle_genbasevolno c data sz s)"
  by (unfold ncp_core_defs, (intro handler_rules; auto intro: only_trans [OF _ only_upd])+)

lemmas ncp_file_defs =
  ncp_handle_fs_init_def ncp_handle_fs_cont_def ncp_handle_filesearch_def ncp_handle_fopen_def
  ncp_handle_fcreate_def ncp_handle_fclose_def ncp_handle_fread_def ncp_handle_fwrite_def ncp_handle_fsize_def
  ncp_handle_frename_def ncp_handle_ferase_def ncp_send_volinfobyno_def

lemma ncp_file_answered:
  "post (answered c s) (ncp_handle_fs_init c data sz s)"
  "post (answered c s) (ncp_handle_fs_cont c data sz s)"
  "post (answered c s) (ncp_handle_filesearch c data sz s)"
  "post (answered c s) (ncp_handle_fopen c data sz s)"
  "post (answered c s) (ncp_handle_fcreate c data sz s)"
  "post (answered c s) (ncp_handle_fclose c data sz s)"
  "post (answered c s) (ncp_handle_fread c data sz s)"
  "post (answered c s) (ncp_handle_fwrite c data sz s)"
  "post (answered c s) (ncp_handle_fsize c data sz s)"
  "post (answered c s) (ncp_handle_frename c data sz s)"
  "post (answered c s) (ncp_handle_ferase c data sz s)"
  "post (answered c s) (ncp_send_volinfobyno c data sz s)"
  by (unfold ncp_file_defs, (intro handler_rules; auto intro: only_trans [OF _ only_upd])+)

lemmas ncp_21_defs =
  ncp_handle_enable_bcast_def ncp_handle_disable_bcast_def ncp_handle_getmsg_def ncp_handle_getmsg_old_def
  ncp_handle_console_bcast_def ncp_send_bcast_old_def

lemma ncp_21_answered:
  "post (answered c s) (ncp_handle_enable_bcast c data sz s)"
  "post (answered c s) (ncp_handle_disable_bcast c data sz s)"
  "post (answered c s) (ncp_handle_getmsg c data sz s)"
  "post (answered c s) (ncp_handle_getmsg_old c data sz s)"
  "post (answered c s) (ncp_handle_console_bcast c data sz s)"
  "post (answered c s) (ncp_send_bcast_old c data sz s)"
  by (unfold ncp_21_defs, (intro handler_rules; auto dest: only_put_messages simp: bind_eq_Some_conv split: if_splits intro: only_trans [OF _ only_upd])+)

lemmas ncp_22_defs =
  ncp_alloc_temp_dirhandle_def alloc_dirhandle_def ncp_alloc_perm_dirhandle_def ncp_dealloc_dirhandle_def ncp_handle_getdirpath_def
  ncp_handle_effrights_def ncp_handle_geteffrights_def ncp_handle_addtrusteetodir_def
  ncp_handle_addexttrustee_def ncp_handle_removetrusteefromdir_def ncp_handle_scanextrust_def
  ncp_handle_createdir_def ncp_handle_deletedir_def ncp_handle_scandir_def ncp_get_volinfo_handle_def
  ncp_handle_getvolno_def ncp_handle_getvolname_def ncp_handle_scandiskrestrictions_def ncp_handle_spacerest_def
  ncp_getvolpurgeinfo_def

lemma ncp_22_answered:
  "post (answered c s) (ncp_alloc_temp_dirhandle c data sz s)"
  "post (answered c s) (ncp_alloc_perm_dirhandle c data sz s)"
  "post (answered c s) (ncp_dealloc_dirhandle c data sz s)"
  "post (answered c s) (ncp_handle_getdirpath c data sz s)"
  "post (answered c s) (ncp_handle_effrights c data sz s)"
  "post (answered c s) (ncp_handle_geteffrights c data sz s)"
  "post (answered c s) (ncp_handle_addtrusteetodir c data sz s)"
  "post (answered c s) (ncp_handle_addexttrustee c data sz s)"
  "post (answered c s) (ncp_handle_removetrusteefromdir c data sz s)"
  "post (answered c s) (ncp_handle_scanextrust c data sz s)"
  "post (answered c s) (ncp_handle_createdir c data sz s)"
  "post (answered c s) (ncp_handle_deletedir c data sz s)"
  "post (answered c s) (ncp_handle_scandir c data sz s)"
  "post (answered c s) (ncp_get_volinfo_handle c data sz s)"
  "post (answered c s) (ncp_handle_getvolno c data sz s)"
  "post (answered c s) (ncp_handle_getvolname c data sz s)"
  "post (answered c s) (ncp_handle_scandiskrestrictions c data sz s)"
  "post (answered c s) (ncp_handle_spacerest c data sz s)"
  "post (answered c s) (ncp_getvolpurgeinfo c data sz s)"
  by (unfold ncp_22_defs, (intro handler_rules; auto intro: only_trans [OF _ only_upd])+)

lemmas ncp_23_defs =
  ncp_handle_readprop_def ncp_handle_writeprop_def ncp_handle_createprop_def ncp_handle_scanproperty_def
  ncp_handle_getobjid_def ncp_handle_getobjname_def ncp_handle_scanobj_def ncp_handle_createobj_def
  ncp_handle_deleteobj_def ncp_handle_addobjtoset_def ncp_handle_deleteobjfromset_def ncp_handle_isobjinset_def

lemma ncp_23_answered:
  "post (answered c s) (ncp_handle_readprop c data sz s)"
  "post (answered c s) (ncp_handle_writeprop c data sz s)"
  "post (answered c s) (ncp_handle_createprop c data sz s)"
  "post (answered c s) (ncp_handle_scanproperty c data sz s)"
  "post (answered c s) (ncp_handle_getobjid c data sz s)"
  "post (answered c s) (ncp_handle_getobjname c data sz s)"
  "post (answered c s) (ncp_handle_scanobj c data sz s)"
  "post (answered c s) (ncp_handle_createobj c data sz s)"
  "post (answered c s) (ncp_handle_deleteobj c data sz s)"
  "post (answered c s) (ncp_handle_addobjtoset c data sz s)"
  "post (answered c s) (ncp_handle_deleteobjfromset c data sz s)"
  "post (answered c s) (ncp_handle_isobjinset c data sz s)"
  by (unfold ncp_23_defs, (intro handler_rules; auto intro: only_trans [OF _ only_upd])+)

lemmas ncp_login_defs =
  ncp_handle_accesslevel_def ncp_handle_objaccesslevel_def ncp_handle_consoleprivs_def ncp_handle_ismanager_def
  ncp_handle_closebindery_def ncp_handle_openbindery_def ncp_handle_scanobjtrusteepaths_def
  ncp_handle_keyedlogin_def ncp_handle_keyedverifypwd_def
  ncp_handle_getloggedinfo_def ncp_handle_getloggedinfo2_def ncp_handle_getinteraddr_def
  ncp_get_interaddr_old_def ncp_get_connlist_old_def ncp_handle_getobjconnlist_def ncp_handle_server_info_def
  ncp_handle_serialno_def ncp_handle_getloginstat_def ncp_handle_fsdesc_def ncp_handle_downserver_def

lemma ncp_login_answered:
  "post (answered c s) (ncp_handle_accesslevel c data sz s)"
  "post (answered c s) (ncp_handle_objaccesslevel c data sz s)"
  "post (answered c s) (ncp_handle_consoleprivs c data sz s)"
  "post (answered c s) (ncp_handle_ismanager c data sz s)"
  "post (answered c s) (ncp_handle_closebindery c data sz s)"
  "post (answered c s) (ncp_handle_openbindery c data sz s)"
  "post (answered c s) (ncp_handle_scanobjtrusteepaths c data sz s)"
  "post (answered c s) (ncp_handle_keyedlogin c data sz s)"
  "post (answered c s) (ncp_handle_keyedverifypwd c data sz s)"
  "post (answered c s) (ncp_handle_getloggedinfo c data sz s)"
  "post (answered c s) (ncp_handle_getloggedinfo2 c data sz s)"
  "post (answered c s) (ncp_handle_getinteraddr c data sz s)"
  "post (answered c s) (ncp_get_interaddr_old c data sz s)"
  "post (answered c s) (ncp_get_connlist_old c data sz s)"
  "post (answered c s) (ncp_handle_getobjconnlist c data sz s)"
  "post (answered c s) (ncp_handle_server_info c data sz s)"
  "post (answered c s) (ncp_handle_serialno c data sz s)"
  "post (answered c s) (ncp_handle_getloginstat c data sz s)"
  "post (answered c s) (ncp_handle_fsdesc c data sz s)"
  "post (answered c s) (ncp_handle_downserver c data sz s)"
  by (unfold ncp_login_defs, (intro handler_rules; auto intro: only_trans [OF _ only_upd])+)

end
