(* ===== verification/Fr_Server.thy ===== *)
theory Fr_Server
  imports Fr_Frame
begin

text \<open>
  The server as a state machine: the packets of the stations, the answers to the watchdog, the cleanup
  of idle connections and the passing of time. Every reachable state satisfies the invariant of the
  connection table, and no request but the two of the console operator touches the connection of
  another station.
\<close>

section \<open>The dispatchers\<close>

lemma r22_handler_answered: "r22_handler f = Some h \<Longrightarrow> post (answered c s) (h c data sz s)"
  by (auto simp: r22_handler_def ncp_22_answered setdirpath_answered split: if_splits)

lemma r23_handler_answered:
  "r23_handler f = Some h \<Longrightarrow> f \<noteq> 209 \<Longrightarrow> f \<noteq> 210 \<Longrightarrow> post (answered c s) (h c data sz s)"
  by (auto simp: r23_handler_def ncp_23_answered ncp_login_answered loginkey_answered keyedchangepwd_answered
      split: if_splits)

lemma r21_answered: "post (answered c s) (ncp_handle_r21 c data sz s)"
  unfolding ncp_handle_r21_def by (intro post_rules ncp_21_answered answered_compcode) auto

lemma r22_answered: "post (answered c s) (ncp_handle_r22 c data sz s)"
  unfolding ncp_handle_r22_def by (intro post_rules r22_handler_answered answered_compcode) auto

lemma r23_answered:
  assumes "unat (data ! 2) \<noteq> 209" "unat (data ! 2) \<noteq> 210"
  shows "post (answered c s) (ncp_handle_r23 c data sz s)"
  unfolding ncp_handle_r23_def by (intro post_rules r23_handler_answered answered_compcode) (use assms in auto)

lemma small_answered:
  "post (answered c s) (ncp_handle_r34 c data sz s)" "post (answered c s) (ncp_handle_r87 c data sz s)"
  "post (answered c s) (ncp_handle_timedate c s)"
  unfolding ncp_handle_r34_def ncp_handle_r87_def ncp_handle_timedate_def
  by (intro post_rules ncp_core_answered answered_reply answered_compcode; simp)+

text \<open>The two requests that reach other connections.\<close>

definition console_request :: "u8 \<Rightarrow> bytes \<Rightarrow> bool" where
  "console_request code data \<longleftrightarrow> code = 23 \<and> 2 < length data \<and> (data ! 2 = 209 \<or> data ! 2 = 210)"

lemma request_answered:
  assumes "\<not> console_request code data"
  shows "post (answered c s) (ncp_handle_request c code data sz s)"
proof (cases "code = 23")
  case True
  then have r: "ncp_handle_request c code data sz s = ncp_handle_r23 c data sz s"
    by (simp add: ncp_handle_request_def request_handler_def)
  show ?thesis
  proof (cases "2 < length data")
    case True
    then have "unat (data ! 2) \<noteq> 209" "unat (data ! 2) \<noteq> 210"
      using assms \<open>code = 23\<close> by (auto simp: console_request_def word_unat_eq_iff)
    then show ?thesis unfolding r by (rule r23_answered)
  next
    case False
    then have "ncp_handle_r23 c data sz s = None" by (simp add: ncp_handle_r23_def load_def)
    then show ?thesis unfolding r by (simp add: post_None)
  qed
next
  case False
  then have "unat code \<noteq> 23" by (simp add: word_unat_eq_iff)
  then show ?thesis
    unfolding ncp_handle_request_def request_handler_def
    by (auto simp: r21_answered r22_answered small_answered ncp_core_answered ncp_file_answered answered_compcode
        split: if_splits option.splits)
qed

section \<open>The invariant of the table\<close>

lemma only_conn_inv:
  assumes "conn_inv s" "only_conn c s s'" "c < length (conns s)"
  shows "conn_inv s'"
proof -
  have inv: "table_inv (conns s)" using assms(1) by (simp add: conn_inv_def)
  have len: "length (conns s') = length (conns s)" and o: "\<And>d. d \<noteq> c \<Longrightarrow> conns s' ! d = conns s ! d"
    and u: "use_ok (conns s ! c) (conns s' ! c)" and v: "volumes s' = volumes s"
    using assms(2) by (auto simp: only_conn_def)
  let ?k = "conns s' ! c"
  have eq: "conns s' = (conns s)[c := ?k]"
  proof (rule nth_equalityI)
    show "conns s' ! i = (conns s)[c := ?k] ! i" if "i < length (conns s')" for i
      using that len o [of i] by (cases "i = c") auto
  qed (simp add: len)
  have "conn_ok (conns s ! c)" using inv assms(3) by (auto simp: table_inv_def)
  then have k: "conn_ok ?k" "status ?k = Unused \<longrightarrow> status (conns s ! c) = Unused" "addr ?k = addr (conns s ! c)"
    using u by (auto simp: use_ok_def)
  have "conn_inv (upd_conn c (\<lambda>_. ?k) s)" by (rule conn_inv_fields [OF assms(1,3) refl k])
  then show ?thesis using v eq by (simp add: conn_inv_def sys_volume_ok_def upd_conn_def)
qed

lemma put_message_inv:
  assumes "conn_inv s" "put_message j m s = Some s'"
  shows "conn_inv s'"
proof -
  obtain b where b: "j < length (conns s)" "strcpy (message (conns s ! j)) m = Some b" "s' = upd_conn j (\<lambda>k. k\<lparr>message := b\<rparr>) s"
    using assms(2) by (auto simp: put_message_def bind_eq_Some_conv)
  have "conn_ok (conns s ! j)" using assms(1) b(1) by (auto simp: conn_inv_def table_inv_def)
  then have "conn_ok ((conns s ! j)\<lparr>message := b\<rparr>)" using length_strcpy [OF b(2)] by (simp add: conn_ok_def)
  then show ?thesis unfolding b(3) by (intro conn_inv_fields [OF assms(1) b(1) refl]) auto
qed

lemma put_messages_inv: "conn_inv s \<Longrightarrow> put_messages js m s = Some s' \<Longrightarrow> conn_inv s'"
  by (induction js arbitrary: s) (auto simp: bind_eq_Some_conv dest: put_message_inv)

lemma send_inv: "conn_inv s \<Longrightarrow> ncp_send_compcode c e s = Some s' \<Longrightarrow> conn_inv s'"
  by (auto simp: ncp_send_compcode_def ncp_send_reply_def bind_eq_Some_conv conn_inv_def sys_volume_ok_def)

lemma broadcast_inv:
  assumes "conn_inv s" "ncp_handle_broadcast_old c data sz s = Some s'"
  shows "conn_inv s'"
proof -
  have q: "conn_inv u" if "quiet s u" for u using that assms(1) by (simp add: quiet_def conn_inv_def sys_volume_ok_def)
  have ps: "conn_inv u" if "quiet s t" "put_messages js m t = Some w" "ncp_send_compcode c e w = Some u" for t js m w e u
    using send_inv [OF put_messages_inv [OF q [OF that(1)] that(2)] that(3)] .
  have "post conn_inv (ncp_handle_broadcast_old c data sz s)"
    unfolding ncp_handle_broadcast_old_def require_def
    by (intro post_rules)
      (auto simp: post_def bind_eq_Some_conv dest!: quiet_dests dest: ps send_inv [OF q] split: if_splits
        intro: send_inv [OF assms(1)])
  then show ?thesis using assms(2) by (rule postD)
qed

lemma clearconn_inv:
  assumes "conn_inv s" "ncp_handle_clearconn c data sz s = Some s'"
  shows "conn_inv s'"
proof -
  have c: "conn_inv u" if "conn_clear n s = Some u" for n u
  proof -
    have "n < length (conns s)" using that by (auto simp: conn_clear_def conn_logout_def bind_eq_Some_conv)
    from conn_clear_eq [OF _ _ this] that assms(1) show ?thesis by (auto simp: conn_inv_def)
  qed
  have "post conn_inv (ncp_handle_clearconn c data sz s)"
    unfolding ncp_handle_clearconn_def require_def
    by (intro post_rules) (auto simp: post_def dest: c send_inv intro: send_inv [OF assms(1)])
  then show ?thesis using assms(2) by (rule postD)
qed

lemma request_inv:
  assumes "conn_inv s" "c < length (conns s)"
    and "ncp_handle_request c code data sz s = Some s'"
  shows "conn_inv s'"
proof (cases "console_request code data")
  case False
  from postD [OF request_answered [OF this] assms(3)] show ?thesis
    using only_conn_inv assms(1,2) by (auto simp: answered_def)
next
  case True
  then have "ncp_handle_request c code data sz s = ncp_handle_r23 c data sz s"
    by (simp add: ncp_handle_request_def request_handler_def console_request_def)
  with assms(3) obtain n where n: "sub_size data sz = Some n"
    "(case r23_handler (unat (data ! 2)) of Some h \<Rightarrow> h c (drop 3 data) n s | None \<Rightarrow> ncp_send_compcode c 0xff s) = Some s'"
    by (auto simp: ncp_handle_r23_def bind_eq_Some_conv)
  consider "data ! 2 = 209" | "data ! 2 = 210" using True by (auto simp: console_request_def)
  then show ?thesis
  proof cases
    case 1
    then show ?thesis using n(2) by (intro broadcast_inv [OF assms(1)]) (simp add: r23_handler_def)
  next
    case 2
    then show ?thesis using n(2) by (intro clearconn_inv [OF assms(1)]) (simp add: r23_handler_def)
  qed
qed

text \<open>Every packet keeps the invariant, whoever sends it.\<close>

lemma packet_inv:
  assumes "conn_inv s" "ncp_handle_packet p sz from s = Some (Running s')"
  shows "conn_inv s'"
proof -
  have inv: "table_inv (conns s)" and sv: "sys_volume_ok s" using assms(1) by (auto simp: conn_inv_def)
  have req: "conn_inv u"
    if k: "get_conn c s = Some k" "from = addr k"
      and r: "(if b then ncp_handle_request c code d n t else ncp_destroy_conn c from t) = Some u"
      and t: "t = upd_conn c (\<lambda>k. k\<lparr>task_no := task, seq_no := sq, last_time := now s\<rparr>) s" for c k b code d n t u task sq
  proof -
    have c: "c < length (conns s)" "k = conns s ! c" using k(1) by auto
    have ok: "conn_ok k" using inv c by (auto simp: table_inv_def)
    have ti: "conn_inv t" unfolding t
      by (rule conn_inv_fields [OF assms(1) c(1) refl]) (use ok c in \<open>auto simp: conn_ok_def\<close>)
    show ?thesis
    proof (cases b)
      case True
      then show ?thesis using r c by (intro request_inv [OF ti, of c]) (auto simp: t)
    next
      case False
      then have u: "conns u = (conns t)[c := zero_conn]" "volumes u = volumes t"
        using r by (auto simp: ncp_destroy_conn_def bind_eq_Some_conv upd_conn_def Let_def)
      have "table_inv ((conns t)[c := zero_conn])"
        by (rule table_inv_update) (use ti c in \<open>auto simp: conn_inv_def t\<close>)
      then show ?thesis using u ti by (simp add: conn_inv_def sys_volume_ok_def)
    qed
  qed
  have err: "conn_inv (ncp_send_compcode_addr from c task sq e fl s)" for c task sq e fl
    using assms(1) by (simp add: ncp_send_compcode_addr_def conn_inv_def sys_volume_ok_def)
  have cre: "conn_inv u" if "ncp_create_conn from s = Some u" for u
    using that conn_attach_client_eq [OF assms(1), of "Some from"] assms(1) send_inv
    by (auto simp: ncp_create_conn_def bind_eq_Some_conv split: if_splits)
  have "post (\<lambda>x. \<forall>u. x = Running u \<longrightarrow> conn_inv u) (ncp_handle_packet p sz from s)"
    unfolding ncp_handle_packet_def
    by (intro post_rules) (auto simp: err cre assms(1) intro: req)
  then show ?thesis using assms(2) by (auto simp: post_def)
qed

section \<open>Reachable states\<close>

text \<open>
  The main loop: packets on the NCP and the watchdog socket, of any size, contents and sender, the cleanup,
  and the clock. A packet that
  makes the server exit, or access memory outside an array, leads to no state.
\<close>

inductive server_step :: "srv \<Rightarrow> srv \<Rightarrow> bool" where
  packet: "server_step s s'" if "ncp_handle_packet p sz from s = Some (Running s')"
| wdog: "server_step s s'" if "wdog_handle_packet d n from s = Some s'"
| cleanup: "server_step s s'" if "conn_cleanup s = Some s'"
| clock: "server_step s (s\<lparr>now := t\<rparr>)"

inductive reachable :: "nat \<Rightarrow> srv \<Rightarrow> bool" for n where
  start: "reachable n s" if "conns s = conn_init n" "sys_volume_ok s"
| step: "reachable n s'" if "reachable n s" "server_step s s'"

inductive_cases server_stepE: "server_step s s'"

lemma step_inv: "server_step s s' \<Longrightarrow> conn_inv s \<Longrightarrow> conn_inv s'"
proof (induction rule: server_step.induct)
  case (packet p sz "from" s s')
  then show ?case using packet_inv by blast
next
  case (wdog d n "from" s s')
  then show ?case using wdog_inv by blast
next
  case (cleanup s s')
  then show ?case using conn_cleanup_eq [of s] by auto
next
  case (clock s t)
  then show ?case by (simp add: conn_inv_def sys_volume_ok_def)
qed

lemma start_inv: "conns s = conn_init n \<Longrightarrow> sys_volume_ok s \<Longrightarrow> conn_inv s"
  using conn_inv_init [where s = s and n = n] by (cases s) simp

lemma reachable_inv: "reachable n s \<Longrightarrow> conn_inv s"
  by (induction rule: reachable.induct) (blast intro: start_inv step_inv)+

section \<open>A station connects\<close>

lemma create_packet:
  assumes "int NCP_REQUEST_SIZE \<le> sz" "NCP_REQUEST_SIZE \<le> length p" "p ! 0 = 0x11" "p ! 1 = 0x11"
  shows "ncp_handle_packet p sz from s = map_option Running (ncp_create_conn from s)"
proof -
  have "p \<noteq> []" using assms(2) by auto
  then show ?thesis using assms
    by (simp add: ncp_handle_packet_def load_def bind_map_option comp_def map_conv_bind_option)
qed

lemma create_conn_eq:
  assumes "conn_inv s"
  shows "case attach_slot (Some from) (conns s) of
      None \<Rightarrow> ncp_create_conn from s = Some s
    | Some c \<Rightarrow> \<exists>s' ok r. ncp_create_conn from s = Some s' \<and> conn_inv s' \<and> now s' = now s \<and>
        conns s' = (conns s)[c := attached (Some from) (now s) ok (conns s ! c)] \<and>
        sent s' = Reply r # sent s \<and> con_no r = of_nat c \<and> rep_to r = from \<and> comp_code r = 0"
proof (cases "attach_slot (Some from) (conns s)")
  case None
  then show ?thesis using conn_attach_client_eq [OF assms, of "Some from"] by (simp add: ncp_create_conn_def)
next
  case (Some c)
  note c = attach_slot_SomeD [OF Some]
  from Some conn_attach_client_eq [OF assms, of "Some from"] obtain t ok where
    t: "conn_attach_client (Some from) s = Some (int c, t)" "conns t = (conns s)[c := attached (Some from) (now s) ok (conns s ! c)]"
      "conn_inv t" "sent t = sent s" "now t = now s" by auto
  have k: "get_conn c t = Some (attached (Some from) (now s) ok (conns s ! c))" using t(2) c by simp
  have m: "message (attached (Some from) (now s) ok (conns s ! c)) \<noteq> []"
    using t(3) c by (auto simp: conn_inv_def table_inv_def conn_ok_def t(2) dest!: bspec [OF _ set_update_memI])
  obtain u r where u: "ncp_send_compcode c 0 t = Some u" "u = t\<lparr>sent := Reply r # sent t\<rparr>" "con_no r = of_nat c"
    "rep_to r = addr (attached (Some from) (now s) ok (conns s ! c))" "comp_code r = 0"
    using k m by (simp add: ncp_send_compcode_def ncp_send_reply_def load_def)
  have run: "ncp_create_conn from s = Some u" using t(1) u(1) by (simp add: ncp_create_conn_def)
  have "conn_inv u \<and> now u = now s \<and> conns u = (conns s)[c := attached (Some from) (now s) ok (conns s ! c)] \<and>
      sent u = Reply r # sent s \<and> con_no r = of_nat c \<and> rep_to r = from \<and> comp_code r = 0"
    using u t send_inv [OF t(3) u(1)] by simp
  then show ?thesis using Some run by (simp del: ex_simps) blast
qed

end
