(* ===== verification/Fr_Samples.thy ===== *)
theory Fr_Samples
  imports Fr_Server Fr_PropStore
begin

text \<open>
  A small bindery and a small server, at which the properties are instantiated: the supervisor with
  a password property and a set property, a user, a group, and two connections.
\<close>

definition demo_set :: bytes where
  "demo_set = mkbuf 128 [0, 0, 0, 7]"

definition demo_props :: "netprop_rec list" where
  "demo_props = [(prop_entry 1 (ascii ''PASSWORD'') 0 0x44 0x10 0x20)\<lparr>prop_nextid := to_be32 0x11\<rparr>,
     prop_entry 1 (ascii ''MEMBERS'') 1 0x31 0x11 0x21]"

definition demo_db :: bindery where
  "demo_db = \<lparr>net_obj = \<lparr>recs = [(obj_entry (ascii ''SUP'') 1 0 0x31 1)\<lparr>object_prop_id := to_be32 0x10\<rparr>,
       obj_entry (ascii ''BOB'') 1 0 0x31 7, obj_entry (ascii ''ALL'') 2 0 0x31 9], fpos = 0\<rparr>,
     net_prop = \<lparr>recs = demo_props, fpos = 0\<rparr>,
     net_val = \<lparr>recs = [val_entry 0x20 0x10 (mkbuf 128 []), val_entry 0x21 0x11 demo_set], fpos = 0\<rparr>,
     wok = \<lambda>_. True, wn = 0, rnd = \<lambda>n. of_nat (0x100 + n), rn = 0,
     junk_obj = \<lambda>_. zero_obj, junk_prop = \<lambda>_. zero_prop\<rparr>"

definition demo_addr :: "u8 \<Rightarrow> ipx_addr" where
  "demo_addr n = \<lparr>x_net = (0, 0, 0, 1), x_host = (0, 0, 0, 0, 0, n), x_port = 0x4003\<rparr>"

definition demo_conn :: "u8 \<Rightarrow> u32 \<Rightarrow> u8 \<Rightarrow> connection" where
  "demo_conn n i sv = zero_conn\<lparr>status := LoggedIn, addr := demo_addr n, c_object_id := i, c_object_type := 1,
     object_supervisor := sv, fh := replicate CONN_FH_PER_CONN (-1), dh := (replicate CONN_DH_PER_CONN zero_dh)[0 := login_dh]\<rparr>"

definition demo_tm :: tm where
  "demo_tm = \<lparr>tm_year = 103, tm_mon = 3, tm_mday = 20, tm_hour = 12, tm_min = 15, tm_sec = 30, tm_wday = 0\<rparr>"

definition demo_vols :: "volume list" where
  "demo_vols = snd (vol_add_volume (ascii ''SYS'') (ascii ''/sys'') 0 vol_init)"

text \<open>Connection 1 is the supervisor, 2 the user with the id 7, 3 is free.\<close>
definition demo_srv :: srv where
  "demo_srv = \<lparr>conns = [zero_conn, demo_conn 1 1 1, demo_conn 2 7 0, zero_conn], volumes = demo_vols, db = demo_db,
     tfiles = \<lambda>_. None, os_stat = \<lambda>_ _. None, os_fstat = \<lambda>_ _. None, os_statfs = \<lambda>_ _. None, os_dir = \<lambda>_ _. None,
     os_read = \<lambda>_ _ _ _. None, os_open = \<lambda>_ _ _. -1, os_ok = \<lambda>_. True, stack = \<lambda>_ _. 0, tk = 0, now = 1000,
     localtime = \<lambda>_. demo_tm, sent = [], closed = [], os_log = [], down_flag = False, loginenabled = 1,
     server_addr = demo_addr 0, conf_servername = ascii ''FROMMEL'', conf_nwversion = 312, conf_serialno = 1,
     conf_appno = 1, frommel_version = ascii ''1.0''\<rparr>"

lemma demo_store_inv: "store_inv demo_db"
  by (simp add: store_inv_def db_ok_def demo_db_def demo_props_def obj_rec_ok_def prop_rec_ok_def val_rec_ok_def obj_entry_def
      prop_entry_def val_entry_def zero_obj_def zero_prop_def zero_val_def demo_set_def to_be32_def)

lemma demo_chains: "chain_ends demo_props no_id" "chain_ends demo_props 0x11" "chain_ends demo_props 0x10"
proof -
  show n: "chain_ends demo_props no_id" by (rule chain_stop)
  show c1: "chain_ends demo_props 0x11"
    by (rule chain_next [where k = 1]) (simp_all add: demo_props_def prop_entry_def chain_stop)
  have "be32 (prop_nextid (demo_props ! 0)) = 0x11" "id_index demo_props 0x10 = Some 0"
    by (simp_all add: demo_props_def)
  then show "chain_ends demo_props 0x10"
    by - (rule chain_next [where k = 0], simp_all only: c1, simp)
qed

lemma demo_bind_inv: "bind_inv demo_db"
proof -
  have "\<forall>r\<in>set demo_props. be32 (prop_id r) \<noteq> no_id" by (simp add: demo_props_def)
  then show ?thesis using demo_store_inv demo_chains
    by (simp add: bind_inv_def demo_db_def obj_entry_def)
qed

lemma vol_init_Cons: "vol_init = zero_volume # replicate 15 zero_volume"
  unfolding vol_init_def by (subst replicate_Suc [symmetric]) simp

lemma demo_vols_eq: "demo_vols = \<lparr>vol_flags = 1, vol_name = mkbuf 16 (ascii ''SYS''), vol_path = mkbuf 256 (ascii ''/sys'')\<rparr> #
    replicate 15 zero_volume"
  by (simp add: demo_vols_def vol_add_volume_def vol_find_free_def vol_init_Cons) (simp add: zero_volume_def)

lemma demo_vols_0: "cstr (vol_path (demo_vols ! 0)) = Some (ascii ''/sys'')" "cstr (vol_name (demo_vols ! 0)) = Some (ascii ''SYS'')"
  "demo_vols \<noteq> []" "length demo_vols = VOL_MAX_VOLS"
  by (simp_all add: demo_vols_eq)

lemma demo_sys: "sys_volume_ok (demo_srv\<lparr>conns := ks\<rparr>)"
  using demo_vols_0 by (simp add: sys_volume_ok_def demo_srv_def)

lemma demo_real: "real_station (demo_addr n)"
  by (simp add: real_station_def same_station_def demo_addr_def zero_addr_def)

lemma demo_conn_ok: "conn_ok (demo_conn n i v)"
  by (auto simp: demo_conn_def conn_ok_def zero_conn_def zero_dh_def zero_sh_def login_dh_def nth_Cons in_set_conv_nth nth_list_update)

text \<open>A table of three connections, two of them made by packets of stations.\<close>

lemma demo_reachable:
  "\<exists>s. reachable 3 s \<and> length (conns s) = 4 \<and> status (conns s ! 1) = Attached \<and> addr (conns s ! 1) = demo_addr 1 \<and>
     status (conns s ! 2) = Attached \<and> addr (conns s ! 2) = demo_addr 2"
proof -
  let ?s = "demo_srv\<lparr>conns := conn_init 3\<rparr>" and ?p = "[0x11, 0x11, 0, 0, 0, 0, 0] :: bytes"
  have r0: "reachable 3 ?s" by (rule reachable.start) (simp_all add: demo_sys)
  have step: "reachable 3 u" if "reachable 3 t" "ncp_create_conn (demo_addr n) t = Some u" for t u n
    by (rule reachable.step [OF that(1) server_step.packet [of ?p 7 "demo_addr n"]])
      (use create_packet [of 7 ?p "demo_addr n" t] that(2) in simp)
  have z: "conns ?s = [zero_conn, zero_conn, zero_conn, zero_conn]" by (simp add: conn_init_def numeral_eq_Suc)
  have a1: "attach_slot (Some (demo_addr 1)) (conns ?s) = Some 1"
    by (simp add: z attach_slot_def same_station_def demo_addr_def zero_addr_def free_slot_def)
  obtain s1 ok1 where s1: "ncp_create_conn (demo_addr 1) ?s = Some s1" "conn_inv s1"
    "conns s1 = (conns ?s)[1 := attached (Some (demo_addr 1)) (now ?s) ok1 (conns ?s ! 1)]"
    using create_conn_eq [OF reachable_inv [OF r0], of "demo_addr 1"] a1 by auto
  note r1 = step [OF r0 s1(1)]
  have a2: "attach_slot (Some (demo_addr 2)) (conns s1) = Some 2"
    unfolding s1(3) z by (simp add: attach_slot_def same_station_def demo_addr_def zero_addr_def free_slot_def)
  obtain s2 ok2 where s2: "ncp_create_conn (demo_addr 2) s1 = Some s2"
    "conns s2 = (conns s1)[2 := attached (Some (demo_addr 2)) (now s1) ok2 (conns s1 ! 2)]"
    using create_conn_eq [OF s1(2), of "demo_addr 2"] a2 by auto
  show ?thesis by (rule exI [of _ s2]) (use step [OF r1 s2(1)] s2(2) s1(3) z in simp)
qed

end
