(* ===== verification/Fr_Config.thy ===== *)
theory Fr_Config
  imports Fr_Volume Fr_Misc
begin

text \<open>
  \<^verbatim>\<open>src/lib/config.c\<close>: the configuration file. Its variables are the fields of \<open>config\<close>, the strings
  among them as arrays. A run ends with \<open>Inl\<close> of the exit code (the message goes to standard error),
  or with \<open>Inr\<close> of the result; \<open>None\<close> is an access outside an array, or the overflow of an \<^verbatim>\<open>int\<close>.
  The accounts of the system are the arguments \<open>pw\<close> and \<open>gr\<close>.
\<close>

abbreviation (input) CONFIG_MAX_IFNAME_LEN :: nat where "CONFIG_MAX_IFNAME_LEN \<equiv> 8"
abbreviation (input) CONFIG_MAX_SQL_LEN :: nat where "CONFIG_MAX_SQL_LEN \<equiv> 64"
abbreviation (input) WEB_MAX_VALUE_LEN :: nat where "WEB_MAX_VALUE_LEN \<equiv> 1024"
abbreviation (input) FROMMEL_MAX_CONFIG_LINE :: nat where "FROMMEL_MAX_CONFIG_LINE \<equiv> 1024"
abbreviation (input) LINK_MAX_SERVERS :: nat where "LINK_MAX_SERVERS \<equiv> 8"

section \<open>The configuration\<close>

record link_server =
  ls_name :: bytes
  ls_addr :: bytes

record config =
  cf_servername :: bytes
  cf_ifname :: bytes
  cf_logfile :: bytes
  cf_tmpvol :: bytes
  cf_tmpath :: bytes
  cf_binderypath :: bytes
  cf_nwversion :: int
  cf_debuglevel :: int
  cf_uid :: int
  cf_gid :: int
  cf_serialno :: int
  cf_appno :: int
  cf_filemode :: int
  cf_dirmode :: int
  cf_trusteemode :: int
  cf_sap_interval :: int
  cf_nofconns :: int
  cf_sap_enabled :: int
  cf_sap_nearest :: int
  cf_sql_hostname :: bytes
  cf_sql_username :: bytes
  cf_sql_password :: bytes
  cf_sql_database :: bytes
  cf_web_enabled :: int
  cf_web_port :: int
  cf_web_templatedir :: bytes
  cf_web_username :: bytes
  cf_web_password :: bytes
  cf_link_enabled :: int
  cf_link_key :: int
  cf_link_nofservers :: nat
  cf_link_servers :: "link_server list"
  cf_volumes :: "volume list"

text \<open>The values before the file is read; the table of volumes is the one of \<^verbatim>\<open>vol_init\<close>.\<close>

definition conf_start :: config where
  "conf_start = \<lparr>cf_servername = replicate 49 0, cf_ifname = replicate CONFIG_MAX_IFNAME_LEN 0,
     cf_logfile = replicate VOL_MAX_VOL_PATH_LEN 0, cf_tmpvol = replicate 16 0,
     cf_tmpath = replicate VOL_MAX_VOL_PATH_LEN 0, cf_binderypath = replicate VOL_MAX_VOL_PATH_LEN 0,
     cf_nwversion = 0, cf_debuglevel = 10, cf_uid = 0, cf_gid = 0,
     cf_serialno = 0xdeadc0de - 2 ^ 32, cf_appno = 0xbabe, cf_filemode = 0x180, cf_dirmode = 0x1c0,
     cf_trusteemode = 0x180, cf_sap_interval = 30, cf_nofconns = 25, cf_sap_enabled = 0, cf_sap_nearest = 1,
     cf_sql_hostname = replicate CONFIG_MAX_SQL_LEN 0, cf_sql_username = replicate CONFIG_MAX_SQL_LEN 0,
     cf_sql_password = replicate CONFIG_MAX_SQL_LEN 0, cf_sql_database = replicate CONFIG_MAX_SQL_LEN 0,
     cf_web_enabled = 0, cf_web_port = 1854, cf_web_templatedir = replicate VOL_MAX_VOL_PATH_LEN 0,
     cf_web_username = replicate WEB_MAX_VALUE_LEN 0, cf_web_password = replicate WEB_MAX_VALUE_LEN 0,
     cf_link_enabled = 0, cf_link_key = 0, cf_link_nofservers = 0,
     cf_link_servers = replicate LINK_MAX_SERVERS \<lparr>ls_name = replicate 48 0, ls_addr = replicate 8 0\<rparr>,
     cf_volumes = vol_init\<rparr>"

section \<open>Runs\<close>

type_synonym 'a run = "(int + 'a) option"

definition fatal :: "'a run" where
  "fatal = Some (Inl 0xf0)"

definition ok :: "'a \<Rightarrow> 'a run" where
  "ok x = Some (Inr x)"

definition andthen :: "'a run \<Rightarrow> ('a \<Rightarrow> 'b run) \<Rightarrow> 'b run" where
  "andthen m f = (case m of None \<Rightarrow> None | Some (Inl e) \<Rightarrow> Some (Inl e) | Some (Inr x) \<Rightarrow> f x)"

lemma run_simps [simp]: "andthen fatal f = fatal" "andthen (ok x) f = f x" "andthen None f = None"
  by (simp_all add: andthen_def fatal_def ok_def)

lemma andthen_ok: "andthen m f = ok y \<longleftrightarrow> (\<exists>x. m = ok x \<and> f x = ok y)"
  by (auto simp: andthen_def ok_def split: option.splits sum.splits)

lemma ok_not_fatal [simp]: "ok x \<noteq> fatal" "fatal \<noteq> ok x" "ok x = ok y \<longleftrightarrow> x = y" "ok x \<noteq> None" "fatal \<noteq> None" "None \<noteq> ok x" "None \<noteq> fatal"
  by (simp_all add: ok_def fatal_def)

section \<open>Numbers\<close>

definition isspace :: "u8 \<Rightarrow> bool" where
  "isspace c \<longleftrightarrow> c = 0x20 \<or> (9 \<le> c \<and> c \<le> 13)"

text \<open>The value of a digit; 99 for every other character.\<close>

definition digit_of :: "u8 \<Rightarrow> nat" where
  "digit_of c =
     (if 0x30 \<le> c \<and> c \<le> 0x39 then unat c - 48
      else if 0x61 \<le> c \<and> c \<le> 0x7a then unat c - 87
      else if 0x41 \<le> c \<and> c \<le> 0x5a then unat c - 55 else 99)"

definition number :: "nat \<Rightarrow> bytes \<Rightarrow> nat" where
  "number base ds = foldl (\<lambda>a c. a * base + digit_of c) 0 ds"

definition hex_prefix :: "bytes \<Rightarrow> bool" where
  "hex_prefix s \<longleftrightarrow> 2 < length s \<and> s ! 0 = 0x30 \<and> (s ! 1 = 0x78 \<or> s ! 1 = 0x58) \<and> digit_of (s ! 2) < 16"

text \<open>What \<^verbatim>\<open>strtol\<close> and \<^verbatim>\<open>strtoull\<close> read: the sign, the digits' value and the rest; \<open>None\<close> when there is no digit.\<close>

definition read_number :: "nat \<Rightarrow> bytes \<Rightarrow> (bool \<times> nat \<times> bytes) option" where
  "read_number base s =
     (let s1 = dropWhile isspace s;
          neg = (s1 \<noteq> [] \<and> hd s1 = 0x2d);
          s2 = (if s1 \<noteq> [] \<and> (hd s1 = 0x2d \<or> hd s1 = 0x2b) then tl s1 else s1);
          s3 = (if base = 16 \<and> hex_prefix s2 then drop 2 s2 else s2);
          ds = takeWhile (\<lambda>c. digit_of c < base) s3
      in if ds = [] then None else Some (neg, number base ds, drop (length ds) s3))"

text \<open>\<^verbatim>\<open>long\<close> has 32 bits: larger values become the largest one.\<close>

definition strtol :: "nat \<Rightarrow> bytes \<Rightarrow> int option" where
  "strtol base s = map_option (\<lambda>(neg, n, r). max (- (2 ^ 31)) (min (2 ^ 31 - 1) (if neg then - int n else int n))) (read_number base s)"

definition strtoull :: "nat \<Rightarrow> bytes \<Rightarrow> 64 word \<times> bytes" where
  "strtoull base s =
     (case read_number base s of
        None \<Rightarrow> (0, s)
      | Some (neg, n, r) \<Rightarrow> (if n \<ge> 2 ^ 64 then - 1 else if neg then - of_nat n else of_nat n, r))"

section \<open>Values\<close>

definition conf_lookup_yesno :: "bytes \<Rightarrow> int" where
  "conf_lookup_yesno name =
     (if strcaseeq name (ascii ''yes'') then 1 else if strcaseeq name (ascii ''on'') then 1
      else if strcaseeq name (ascii ''true'') then 1 else if strcaseeq name (ascii ''no'') then 0
      else if strcaseeq name (ascii ''off'') then 0 else if strcaseeq name (ascii ''false'') then 0 else -1)"

text \<open>A text that may not be longer than \<open>n\<close>, copied into its array.\<close>

definition conf_text :: "nat \<Rightarrow> bytes \<Rightarrow> bytes \<Rightarrow> bytes run" where
  "conf_text n buf v = (if length v > n then fatal else map_option Inr (strcpy buf v))"

definition conf_number :: "nat \<Rightarrow> bytes \<Rightarrow> int run" where
  "conf_number base v = (case strtol base v of None \<Rightarrow> fatal | Some i \<Rightarrow> ok i)"

definition conf_yesno :: "bytes \<Rightarrow> int run" where
  "conf_yesno v = (if conf_lookup_yesno v < 0 then fatal else ok (conf_lookup_yesno v))"

definition fits_int :: "int \<Rightarrow> bool" where
  "fits_int i \<longleftrightarrow> - (2 ^ 31) \<le> i \<and> i < 2 ^ 31"

text \<open>\<open>major.minor\<close> as one number.\<close>

definition conf_version :: "bytes \<Rightarrow> int run" where
  "conf_version v =
     (case strchr v 0x2e of
        None \<Rightarrow> fatal
      | Some k \<Rightarrow> andthen (conf_number 10 (take k v)) (\<lambda>i. andthen (conf_number 10 (drop (Suc k) v)) (\<lambda>j.
          if fits_int (i * 100) \<and> fits_int (i * 100 + j) then ok (i * 100 + j) else None)))"

section \<open>Lines\<close>

text \<open>
  The name of an option ends at its first blank, the value begins behind the blanks that follow the
  equals sign.
\<close>

definition conf_split :: "bytes \<Rightarrow> (bytes \<times> bytes) option" where
  "conf_split line =
     (case strchr line 0x3d of
        None \<Rightarrow> None
      | Some k \<Rightarrow> Some (takeWhile (\<lambda>c. c \<noteq> 0x20) (take k line), dropWhile (\<lambda>c. c = 0x20) (drop (Suc k) line)))"

definition lookup_name :: "(bytes \<times> 'a) list \<Rightarrow> bytes \<Rightarrow> 'a option" where
  "lookup_name t name = map_option snd (find (\<lambda>(k, _). strcaseeq name k) t)"

text \<open>A line of a section: split, its option looked up by \<open>look\<close>, and handled by \<open>act\<close>.\<close>

definition with_option :: "(bytes \<Rightarrow> 'o option) \<Rightarrow> ('o \<Rightarrow> bytes \<Rightarrow> bytes \<Rightarrow> config run) \<Rightarrow> bytes \<Rightarrow> config run" where
  "with_option look act line =
     (case conf_split line of
        None \<Rightarrow> fatal
      | Some (name, value) \<Rightarrow> (case look name of None \<Rightarrow> fatal | Some i \<Rightarrow> act i name value))"

datatype general_option = GName | GVersion | GDebuglevel | GLogfile | GInterface | GUser | GGroup | GSerialno | GAppno |
  GFilemode | GDirmode | GSapinterval | GNofconns | GBinderypath | GTrusteemode

definition conf_lookup_general :: "bytes \<Rightarrow> general_option option" where
  "conf_lookup_general = lookup_name
     [(ascii ''name'', GName), (ascii ''version'', GVersion), (ascii ''debuglevel'', GDebuglevel), (ascii ''logfile'', GLogfile),
      (ascii ''interface'', GInterface), (ascii ''user'', GUser), (ascii ''group'', GGroup), (ascii ''serialno'', GSerialno),
      (ascii ''appno'', GAppno), (ascii ''filemode'', GFilemode), (ascii ''dirmode'', GDirmode),
      (ascii ''sap_update_interval'', GSapinterval), (ascii ''nofconns'', GNofconns), (ascii ''binderypath'', GBinderypath),
      (ascii ''trusteemode'', GTrusteemode)]"

type_synonym accounts = "bytes \<Rightarrow> int option"

fun set_general :: "accounts \<Rightarrow> accounts \<Rightarrow> config \<Rightarrow> general_option \<Rightarrow> bytes \<Rightarrow> config run" where
  "set_general pw gr c GName v = andthen (conf_text 48 (cf_servername c) v) (\<lambda>b. ok (c\<lparr>cf_servername := b\<rparr>))"
| "set_general pw gr c GVersion v = andthen (conf_version v) (\<lambda>i. ok (c\<lparr>cf_nwversion := i\<rparr>))"
| "set_general pw gr c GDebuglevel v = andthen (conf_number 10 v) (\<lambda>i. ok (c\<lparr>cf_debuglevel := i\<rparr>))"
| "set_general pw gr c GLogfile v = andthen (conf_text VOL_MAX_VOL_PATH_LEN (cf_logfile c) v) (\<lambda>b. ok (c\<lparr>cf_logfile := b\<rparr>))"
| "set_general pw gr c GInterface v = andthen (conf_text CONFIG_MAX_IFNAME_LEN (cf_ifname c) v) (\<lambda>b. ok (c\<lparr>cf_ifname := b\<rparr>))"
| "set_general pw gr c GUser v =
     (case pw v of None \<Rightarrow> fatal | Some uid \<Rightarrow> if uid = 0 then fatal else ok (c\<lparr>cf_uid := uid\<rparr>))"
| "set_general pw gr c GGroup v = (case gr v of None \<Rightarrow> fatal | Some gid \<Rightarrow> ok (c\<lparr>cf_gid := gid\<rparr>))"
| "set_general pw gr c GSerialno v = andthen (conf_number 16 v) (\<lambda>i. ok (c\<lparr>cf_serialno := i\<rparr>))"
| "set_general pw gr c GAppno v = andthen (conf_number 16 v) (\<lambda>i. ok (c\<lparr>cf_appno := i\<rparr>))"
| "set_general pw gr c GFilemode v = andthen (conf_number 8 v) (\<lambda>i. ok (c\<lparr>cf_filemode := i\<rparr>))"
| "set_general pw gr c GDirmode v = andthen (conf_number 8 v) (\<lambda>i. ok (c\<lparr>cf_dirmode := i\<rparr>))"
| "set_general pw gr c GSapinterval v = andthen (conf_number 10 v) (\<lambda>i. ok (c\<lparr>cf_sap_interval := i\<rparr>))"
| "set_general pw gr c GNofconns v = andthen (conf_number 10 v) (\<lambda>i. ok (c\<lparr>cf_nofconns := i\<rparr>))"
| "set_general pw gr c GBinderypath v =
     andthen (conf_text VOL_MAX_VOL_PATH_LEN (cf_binderypath c) v) (\<lambda>b. ok (c\<lparr>cf_binderypath := b\<rparr>))"
| "set_general pw gr c GTrusteemode v = andthen (conf_number 8 v) (\<lambda>i. ok (c\<lparr>cf_trusteemode := i\<rparr>))"

definition conf_handle_general :: "accounts \<Rightarrow> accounts \<Rightarrow> bytes \<Rightarrow> config \<Rightarrow> config run" where
  "conf_handle_general pw gr line c = with_option conf_lookup_general (\<lambda>i name v. set_general pw gr c i v) line"

datatype volume_option = VPath

definition conf_lookup_volume :: "bytes \<Rightarrow> volume_option option" where
  "conf_lookup_volume = lookup_name [(ascii ''path'', VPath)]"

definition conf_handle_volume :: "bytes \<Rightarrow> config \<Rightarrow> config run" where
  "conf_handle_volume line c =
     with_option conf_lookup_volume (\<lambda>i name v.
       andthen (conf_text VOL_MAX_VOL_PATH_LEN (cf_tmpath c) v) (\<lambda>b. ok (c\<lparr>cf_tmpath := b\<rparr>))) line"

datatype sap_option = SEnabled | SNearest

definition conf_lookup_sap :: "bytes \<Rightarrow> sap_option option" where
  "conf_lookup_sap = lookup_name [(ascii ''enabled'', SEnabled), (ascii ''nearest'', SNearest)]"

definition conf_handle_sap :: "bytes \<Rightarrow> config \<Rightarrow> config run" where
  "conf_handle_sap line c =
     with_option conf_lookup_sap (\<lambda>i name v. andthen (conf_yesno v) (\<lambda>j.
       ok (case i of SEnabled \<Rightarrow> c\<lparr>cf_sap_enabled := j\<rparr> | SNearest \<Rightarrow> c\<lparr>cf_sap_nearest := j\<rparr>))) line"

datatype database_option = DHostname | DUsername | DPassword | DDatabase

definition conf_lookup_database :: "bytes \<Rightarrow> database_option option" where
  "conf_lookup_database = lookup_name
     [(ascii ''hostname'', DHostname), (ascii ''username'', DUsername), (ascii ''password'', DPassword), (ascii ''database'', DDatabase)]"

fun set_database :: "config \<Rightarrow> database_option \<Rightarrow> bytes \<Rightarrow> config run" where
  "set_database c DHostname v = andthen (conf_text CONFIG_MAX_SQL_LEN (cf_sql_hostname c) v) (\<lambda>b. ok (c\<lparr>cf_sql_hostname := b\<rparr>))"
| "set_database c DUsername v = andthen (conf_text CONFIG_MAX_SQL_LEN (cf_sql_username c) v) (\<lambda>b. ok (c\<lparr>cf_sql_username := b\<rparr>))"
| "set_database c DPassword v = andthen (conf_text CONFIG_MAX_SQL_LEN (cf_sql_password c) v) (\<lambda>b. ok (c\<lparr>cf_sql_password := b\<rparr>))"
| "set_database c DDatabase v = andthen (conf_text CONFIG_MAX_SQL_LEN (cf_sql_database c) v) (\<lambda>b. ok (c\<lparr>cf_sql_database := b\<rparr>))"

definition conf_handle_database :: "bytes \<Rightarrow> config \<Rightarrow> config run" where
  "conf_handle_database line c = with_option conf_lookup_database (\<lambda>i name v. set_database c i v) line"

datatype web_option = WEnabled | WPort | WTemplatedir | WUsername | WPassword

definition conf_lookup_web :: "bytes \<Rightarrow> web_option option" where
  "conf_lookup_web = lookup_name
     [(ascii ''enabled'', WEnabled), (ascii ''port'', WPort), (ascii ''templatedir'', WTemplatedir),
      (ascii ''username'', WUsername), (ascii ''password'', WPassword)]"

fun set_web :: "config \<Rightarrow> web_option \<Rightarrow> bytes \<Rightarrow> config run" where
  "set_web c WEnabled v = andthen (conf_yesno v) (\<lambda>j. ok (c\<lparr>cf_web_enabled := j\<rparr>))"
| "set_web c WPort v = andthen (conf_number 10 v) (\<lambda>i. ok (c\<lparr>cf_web_port := i\<rparr>))"
| "set_web c WTemplatedir v = andthen (conf_text VOL_MAX_VOL_PATH_LEN (cf_web_templatedir c) v) (\<lambda>b. ok (c\<lparr>cf_web_templatedir := b\<rparr>))"
| "set_web c WUsername v = andthen (conf_text WEB_MAX_VALUE_LEN (cf_web_username c) v) (\<lambda>b. ok (c\<lparr>cf_web_username := b\<rparr>))"
| "set_web c WPassword v = andthen (conf_text WEB_MAX_VALUE_LEN (cf_web_password c) v) (\<lambda>b. ok (c\<lparr>cf_web_password := b\<rparr>))"

definition conf_handle_web :: "bytes \<Rightarrow> config \<Rightarrow> config run" where
  "conf_handle_web line c = with_option conf_lookup_web (\<lambda>i name v. set_web c i v) line"

datatype link_option = LEnabled | LKey | LServer

definition conf_lookup_link :: "bytes \<Rightarrow> link_option option" where
  "conf_lookup_link name = (case lookup_name [(ascii ''enabled'', LEnabled), (ascii ''key'', LKey)] name of
     Some i \<Rightarrow> Some i | None \<Rightarrow> Some LServer)"

text \<open>The address is a number of which 48 bits are kept.\<close>

definition conf_link_addserver :: "bytes \<Rightarrow> bytes \<Rightarrow> config \<Rightarrow> config run" where
  "conf_link_addserver name address c =
     (case load (cf_link_servers c) (cf_link_nofservers c) of
        None \<Rightarrow> None
      | Some s \<Rightarrow>
          (case strncpy (ls_name s) name 48 of
             None \<Rightarrow> None
           | Some nm \<Rightarrow>
               (case strtoull 16 address of (l, rest) \<Rightarrow>
                  if rest \<noteq> [] then fatal
                  else (case map_str toupper nm of
                          None \<Rightarrow> None
                        | Some up \<Rightarrow> ok (c\<lparr>cf_link_nofservers := Suc (cf_link_nofservers c),
                            cf_link_servers := (cf_link_servers c)[cf_link_nofservers c := s\<lparr>ls_name := up,
                              ls_addr := map (\<lambda>k. ucast (drop_bit (8 * (5 - k)) l)) [0..<6] @ drop 6 (ls_addr s)\<rparr>]\<rparr>)))))"

definition conf_handle_link :: "bytes \<Rightarrow> config \<Rightarrow> config run" where
  "conf_handle_link line c =
     with_option conf_lookup_link (\<lambda>i name v.
       case i of
         LEnabled \<Rightarrow> andthen (conf_yesno v) (\<lambda>j. ok (c\<lparr>cf_link_enabled := j\<rparr>))
       | LKey \<Rightarrow> andthen (conf_number 16 v) (\<lambda>k. ok (c\<lparr>cf_link_key := k\<rparr>))
       | LServer \<Rightarrow> if cf_link_nofservers c = LINK_MAX_SERVERS then ok c else conf_link_addserver name v c) line"

section \<open>Sections\<close>

datatype conf_section = SecGeneral | SecVolume | SecSap | SecDatabase | SecWeb | SecLink

text \<open>The section of a heading; that of a volume also sets the name of the volume.\<close>

definition conf_lookup_section :: "bytes \<Rightarrow> config \<Rightarrow> (conf_section \<times> config) run" where
  "conf_lookup_section name c =
     (case lookup_name [(ascii ''general'', SecGeneral), (ascii ''sap'', SecSap), (ascii ''database'', SecDatabase),
        (ascii ''web'', SecWeb), (ascii ''link'', SecLink)] name of
        Some s \<Rightarrow> ok (s, c)
      | None \<Rightarrow>
          if strncaseeq name (ascii ''volume:'') 7
          then andthen (conf_text 16 (cf_tmpvol c) (drop 7 name)) (\<lambda>b. ok (SecVolume, c\<lparr>cf_tmpvol := b\<rparr>))
          else fatal)"

definition conf_add_vol :: "config \<Rightarrow> config run" where
  "conf_add_vol c = do {
     b0 \<leftarrow> load (cf_tmpvol c) 0;
     (if b0 = 0 then ok c
      else do {
        up \<leftarrow> map_str toupper (cf_tmpvol c);
        name \<leftarrow> cstr up;
        path \<leftarrow> cstr (cf_tmpath c);
        f \<leftarrow> vol_find_volume name (cf_volumes c);
        (case f of
           Some _ \<Rightarrow> fatal
         | None \<Rightarrow>
             (case vol_add_volume name path 0 (cf_volumes c) of
                (None, _) \<Rightarrow> fatal
              | (Some _, vs) \<Rightarrow> ok (c\<lparr>cf_tmpvol := up, cf_volumes := vs\<rparr>)))
      })
   }"

text \<open>The volume of the section that ends, when it was one of a volume.\<close>

definition end_section :: "conf_section option \<Rightarrow> config \<Rightarrow> config run" where
  "end_section sec c = (if sec = Some SecVolume then conf_add_vol c else ok c)"

definition conf_heading :: "bytes \<Rightarrow> conf_section option \<Rightarrow> config \<Rightarrow> (conf_section option \<times> config) run" where
  "conf_heading line sec c =
     (if 0x5b \<notin> set line then fatal
      else andthen (end_section sec c) (\<lambda>c1.
        andthen (conf_lookup_section (drop 1 line) (c1\<lparr>cf_tmpvol := (cf_tmpvol c1)[0 := 0]\<rparr>)) (\<lambda>(s, c2). ok (Some s, c2))))"

definition conf_option :: "accounts \<Rightarrow> accounts \<Rightarrow> bytes \<Rightarrow> conf_section option \<Rightarrow> config \<Rightarrow> config run" where
  "conf_option pw gr line sec c =
     (case sec of
        Some SecGeneral \<Rightarrow> conf_handle_general pw gr line c
      | Some SecVolume \<Rightarrow> conf_handle_volume line c
      | Some SecSap \<Rightarrow> conf_handle_sap line c
      | Some SecDatabase \<Rightarrow> conf_handle_database line c
      | Some SecWeb \<Rightarrow> conf_handle_web line c
      | Some SecLink \<Rightarrow> conf_handle_link line c
      | None \<Rightarrow> fatal)"

text \<open>One line, without the line end. A closing bracket anywhere makes it a heading.\<close>

definition conf_line :: "accounts \<Rightarrow> accounts \<Rightarrow> bytes \<Rightarrow> conf_section option \<times> config \<Rightarrow> (conf_section option \<times> config) run" where
  "conf_line pw gr line sc =
     (case sc of (sec, c) \<Rightarrow>
        if line = [] \<or> hd line = 0x23 then ok sc
        else (case strchr line 0x5d of
                Some k \<Rightarrow> conf_heading (take k line) sec c
              | None \<Rightarrow> andthen (conf_option pw gr line sec c) (\<lambda>c1. ok (sec, c1))))"

section \<open>The file\<close>

text \<open>\<^verbatim>\<open>fgets\<close>: up to the end of the line, but no more than the array holds with its terminator.\<close>

definition chunk_length :: "bytes \<Rightarrow> nat" where
  "chunk_length f = min (FROMMEL_MAX_CONFIG_LINE - 1) (case strchr f 10 of Some k \<Rightarrow> Suc k | None \<Rightarrow> length f)"

function fgets_all :: "bytes \<Rightarrow> bytes list" where
  "fgets_all f = (if f = [] then [] else take (chunk_length f) f # fgets_all (drop (chunk_length f) f))"
  by auto
termination
  by (relation "measure length") (auto simp: chunk_length_def split: option.splits)

declare fgets_all.simps [simp del]

text \<open>The string of a line read: up to its end, or to a zero byte in the file.\<close>

definition line_text :: "bytes \<Rightarrow> bytes" where
  "line_text l = takeWhile (\<lambda>c. c \<noteq> 0 \<and> c \<noteq> 10) l"

fun conf_lines :: "accounts \<Rightarrow> accounts \<Rightarrow> bytes list \<Rightarrow> conf_section option \<times> config \<Rightarrow> (conf_section option \<times> config) run" where
  "conf_lines pw gr [] sc = ok sc"
| "conf_lines pw gr (l # ls) sc = andthen (conf_line pw gr l sc) (conf_lines pw gr ls)"

definition empty_text :: "bytes \<Rightarrow> bool option" where
  "empty_text b = map_option (\<lambda>x. x = 0) (load b 0)"

text \<open>The checks after the last line: the volume SYS, the name, the version, the interface and the bindery's path.\<close>

definition conf_check_volumes :: "bool \<Rightarrow> config \<Rightarrow> config run" where
  "conf_check_volumes novolcheck c =
     (if novolcheck then ok c
      else do {
        i \<leftarrow> vol_find_volume (ascii ''SYS'') (cf_volumes c);
        (if i = Some 0 then ok c else fatal)
      })"

definition conf_required :: "bytes \<Rightarrow> config \<Rightarrow> config run" where
  "conf_required b c = (case empty_text b of None \<Rightarrow> None | Some e \<Rightarrow> if e then fatal else ok c)"

definition conf_check :: "config \<Rightarrow> config run" where
  "conf_check c =
     andthen (conf_required (cf_servername c) c) (\<lambda>c.
     andthen (if cf_nwversion c = 0 then fatal else ok c) (\<lambda>c.
     andthen (conf_required (cf_ifname c) c) (\<lambda>c.
     andthen (conf_required (cf_binderypath c) c) (\<lambda>c.
     if cf_web_enabled c = 0 then ok c
     else andthen (conf_required (cf_web_templatedir c) c) (\<lambda>c.
          andthen (conf_required (cf_web_username c) c) (\<lambda>c. conf_required (cf_web_password c) c))))))"

definition first_zero :: "bytes \<Rightarrow> bytes" where
  "first_zero b = b[0 := 0]"

definition conf_reset :: "config \<Rightarrow> config" where
  "conf_reset c = c\<lparr>cf_servername := first_zero (cf_servername c), cf_logfile := first_zero (cf_logfile c),
     cf_ifname := first_zero (cf_ifname c), cf_binderypath := first_zero (cf_binderypath c),
     cf_sql_hostname := first_zero (cf_sql_hostname c), cf_sql_username := first_zero (cf_sql_username c),
     cf_sql_password := first_zero (cf_sql_password c), cf_sql_database := first_zero (cf_sql_database c),
     cf_web_templatedir := first_zero (cf_web_templatedir c), cf_web_username := first_zero (cf_web_username c),
     cf_web_password := first_zero (cf_web_password c), cf_tmpvol := first_zero (cf_tmpvol c)\<rparr>"

text \<open>\<open>file\<close> is \<open>None\<close> when it cannot be opened; \<open>novolcheck\<close> the flag \<^verbatim>\<open>CONFIG_FLAG_NOVOLCHECK\<close>.\<close>

definition parse_config :: "accounts \<Rightarrow> accounts \<Rightarrow> bytes option \<Rightarrow> bool \<Rightarrow> config \<Rightarrow> config run" where
  "parse_config pw gr file novolcheck c =
     (case file of
        None \<Rightarrow> fatal
      | Some f \<Rightarrow>
          andthen (conf_lines pw gr (map line_text (fgets_all f)) (None, conf_reset c)) (\<lambda>(sec, c1).
          andthen (end_section sec c1) (\<lambda>c2.
          andthen (conf_check_volumes novolcheck c2) (\<lambda>c3.
          andthen (conf_check c3) (\<lambda>c4.
            case map_str toupper (cf_servername c4) of None \<Rightarrow> None | Some b \<Rightarrow> ok (c4\<lparr>cf_servername := b\<rparr>))))))"

end
