(* ===== verification/Fr_ConfigLaws.thy ===== *)
theory Fr_ConfigLaws
  imports Fr_Config
begin

text \<open>
  What every line of a configuration keeps: the arrays have their sizes and hold strings, the table of
  volumes is well formed, and no two volumes have the same name.
\<close>

section \<open>Texts\<close>

definition text_ok :: "nat \<Rightarrow> bytes \<Rightarrow> bool" where
  "text_ok n b \<longleftrightarrow> length b = n \<and> 0 \<in> set b"

lemma text_ok_cstr: "text_ok n b \<Longrightarrow> \<exists>s. cstr b = Some s \<and> no_nul s \<and> length s < n"
proof -
  assume t: "text_ok n b"
  then obtain s where s: "cstr b = Some s" by (auto simp: text_ok_def cstr_def)
  then show ?thesis using cstr_SomeD(1,2) [OF s] t by (auto simp: text_ok_def)
qed

lemma text_ok_strcpy: "strcpy b v = Some b' \<Longrightarrow> length b = n \<Longrightarrow> text_ok n b'"
  using length_strcpy [of b v b'] by (auto simp: text_ok_def strcpy_def split: if_splits)

lemma text_ok_conf_text: "conf_text m b v = ok b' \<Longrightarrow> text_ok n b \<Longrightarrow> text_ok n b'"
  by (auto simp: conf_text_def ok_def fatal_def split: if_splits intro: text_ok_strcpy simp: text_ok_def [of n b])

lemma text_ok_zero [simp]: "0 < n \<Longrightarrow> text_ok n (replicate n 0)"
  by (simp add: text_ok_def)

lemma text_ok_first_zero: "text_ok n b \<Longrightarrow> text_ok n (first_zero b)"
  by (cases b) (auto simp: text_ok_def first_zero_def)

lemma text_ok_map_str: "map_str toupper b = Some b' \<Longrightarrow> text_ok n b \<Longrightarrow> text_ok n b'"
proof -
  assume m: "map_str toupper b = Some b'" and t: "text_ok n b"
  then obtain s where s: "cstr b = Some s" "b' = map toupper s @ drop (length s) b" by (auto simp: map_str_def bind_eq_Some_conv)
  have "cstr b' = Some (map toupper s)" using cstr_map_str [OF m s(1)] cstr_SomeD(1) [OF s(1)] by simp
  then have "0 \<in> set b'" by (auto simp: cstr_def split: if_splits)
  then show ?thesis using length_map_str [OF m] t by (simp add: text_ok_def)
qed

section \<open>The invariant\<close>

definition upper :: "bytes \<Rightarrow> bool" where
  "upper s \<longleftrightarrow> (\<forall>c\<in>set s. toupper c = c)"

lemma upper_map [simp]: "upper (map toupper s)"
  by (simp add: upper_def)

definition vol_names :: "volume list \<Rightarrow> bytes list" where
  "vol_names vs = map (\<lambda>v. takeWhile (\<lambda>x. x \<noteq> 0) (vol_name v)) (filter (\<lambda>v. vol_flags v \<noteq> 0) vs)"

definition volumes_inv :: "volume list \<Rightarrow> bool" where
  "volumes_inv vs \<longleftrightarrow> vols_ok vs \<and> distinct (vol_names vs) \<and> (\<forall>s\<in>set (vol_names vs). s \<noteq> [] \<and> upper s)"

definition link_ok :: "link_server \<Rightarrow> bool" where
  "link_ok l \<longleftrightarrow> text_ok 48 (ls_name l) \<and> length (ls_addr l) = 8"

definition conf_inv :: "config \<Rightarrow> bool" where
  "conf_inv c \<longleftrightarrow> text_ok 49 (cf_servername c) \<and> text_ok CONFIG_MAX_IFNAME_LEN (cf_ifname c) \<and>
     text_ok VOL_MAX_VOL_PATH_LEN (cf_logfile c) \<and> text_ok 16 (cf_tmpvol c) \<and>
     text_ok VOL_MAX_VOL_PATH_LEN (cf_tmpath c) \<and> text_ok VOL_MAX_VOL_PATH_LEN (cf_binderypath c) \<and>
     text_ok CONFIG_MAX_SQL_LEN (cf_sql_hostname c) \<and> text_ok CONFIG_MAX_SQL_LEN (cf_sql_username c) \<and>
     text_ok CONFIG_MAX_SQL_LEN (cf_sql_password c) \<and> text_ok CONFIG_MAX_SQL_LEN (cf_sql_database c) \<and>
     text_ok VOL_MAX_VOL_PATH_LEN (cf_web_templatedir c) \<and> text_ok WEB_MAX_VALUE_LEN (cf_web_username c) \<and>
     text_ok WEB_MAX_VALUE_LEN (cf_web_password c) \<and>
     cf_link_nofservers c \<le> LINK_MAX_SERVERS \<and> length (cf_link_servers c) = LINK_MAX_SERVERS \<and>
     (\<forall>l\<in>set (cf_link_servers c). link_ok l) \<and> volumes_inv (cf_volumes c)"

lemma vol_names_init [simp]: "vol_names vol_init = []"
  by (simp add: vol_names_def vol_init_def zero_volume_def)

lemma conf_inv_start: "conf_inv conf_start"
  by (simp add: conf_inv_def conf_start_def volumes_inv_def vols_ok_init link_ok_def)

lemma conf_inv_reset: "conf_inv c \<Longrightarrow> conf_inv (conf_reset c)"
  by (simp add: conf_inv_def conf_reset_def text_ok_first_zero)

section \<open>Options\<close>

definition keeps_inv :: "config run \<Rightarrow> bool" where
  "keeps_inv m \<longleftrightarrow> (\<forall>c. m = ok c \<longrightarrow> conf_inv c)"

lemma keeps_fatal [simp]: "keeps_inv fatal" "keeps_inv None"
  by (auto simp: keeps_inv_def ok_def fatal_def)

lemma keeps_ok [simp]: "keeps_inv (ok c) = conf_inv c"
  by (simp add: keeps_inv_def)

lemma keeps_andthen: "(\<And>x. m = ok x \<Longrightarrow> keeps_inv (f x)) \<Longrightarrow> keeps_inv (andthen m f)"
  by (auto simp: keeps_inv_def andthen_ok)

lemma keeps_option: "(\<And>i n v. keeps_inv (act i n v)) \<Longrightarrow> keeps_inv (with_option look act line)"
  by (simp add: with_option_def split: option.split)

lemma keeps_general: "conf_inv c \<Longrightarrow> keeps_inv (set_general pw gr c i v)"
  by (cases i) (auto intro!: keeps_andthen simp: conf_inv_def dest: text_ok_conf_text split: option.split)

lemma keeps_database: "conf_inv c \<Longrightarrow> keeps_inv (set_database c i v)"
  by (cases i) (auto intro!: keeps_andthen simp: conf_inv_def dest: text_ok_conf_text)

lemma keeps_web: "conf_inv c \<Longrightarrow> keeps_inv (set_web c i v)"
  by (cases i) (auto intro!: keeps_andthen simp: conf_inv_def dest: text_ok_conf_text)

lemma keeps_addserver:
  assumes "conf_inv c" "cf_link_nofservers c \<noteq> LINK_MAX_SERVERS"
  shows "keeps_inv (conf_link_addserver n a c)"
proof -
  let ?s = "cf_link_servers c ! cf_link_nofservers c"
  let ?c = "\<lambda>up l. c\<lparr>cf_link_nofservers := Suc (cf_link_nofservers c),
       cf_link_servers := (cf_link_servers c)[cf_link_nofservers c := ?s\<lparr>ls_name := up,
         ls_addr := map (\<lambda>k. ucast (drop_bit (8 * (5 - k)) (l :: 64 word))) [0..<6] @ drop 6 (ls_addr ?s)\<rparr>]\<rparr>"
  have i: "cf_link_nofservers c < length (cf_link_servers c)" using assms by (simp add: conf_inv_def)
  then have so: "link_ok ?s" using assms(1) by (simp add: conf_inv_def)
  have main: "conf_inv (?c up l)" if n: "strncpy (ls_name ?s) n 48 = Some nm" and u: "map_str toupper nm = Some up" for nm up l
  proof -
    have "length nm = 48" using length_strncpy [OF n] so by (simp add: link_ok_def text_ok_def)
    moreover have "0 \<in> set nm" using u by (auto simp: map_str_def bind_eq_Some_conv cstr_def split: if_splits)
    ultimately have "text_ok 48 up" using text_ok_map_str [OF u, of 48] by (simp add: text_ok_def)
    then have "link_ok (?s\<lparr>ls_name := up, ls_addr := map (\<lambda>k. ucast (drop_bit (8 * (5 - k)) l)) [0..<6] @ drop 6 (ls_addr ?s)\<rparr>)"
      using so by (simp add: link_ok_def del: upt_rec_numeral)
    then show ?thesis using assms set_update_subset_insert [of "cf_link_servers c" "cf_link_nofservers c"]
      unfolding conf_inv_def by auto
  qed
  show ?thesis unfolding keeps_inv_def conf_link_addserver_def
    using main i by (auto simp: load_def split: option.splits prod.splits if_splits)
qed

lemma keeps_conf_option:
  assumes "conf_inv c"
  shows "keeps_inv (conf_option pw gr line sec c)"
proof -
  have v: "keeps_inv (andthen (conf_text VOL_MAX_VOL_PATH_LEN (cf_tmpath c) v) (\<lambda>b. ok (c\<lparr>cf_tmpath := b\<rparr>)))" for v
    using assms by (auto intro!: keeps_andthen simp: conf_inv_def dest: text_ok_conf_text)
  have y: "keeps_inv (andthen (conf_yesno v) (\<lambda>j. ok (case i of SEnabled \<Rightarrow> c\<lparr>cf_sap_enabled := j\<rparr> | SNearest \<Rightarrow> c\<lparr>cf_sap_nearest := j\<rparr>)))" for v i
    using assms by (intro keeps_andthen) (cases i; simp add: conf_inv_def)
  have l: "keeps_inv (case i of LEnabled \<Rightarrow> andthen (conf_yesno v) (\<lambda>j. ok (c\<lparr>cf_link_enabled := j\<rparr>))
       | LKey \<Rightarrow> andthen (conf_number 16 v) (\<lambda>k. ok (c\<lparr>cf_link_key := k\<rparr>))
       | LServer \<Rightarrow> if cf_link_nofservers c = LINK_MAX_SERVERS then ok c else conf_link_addserver name v c)" for i name v
    using assms keeps_addserver [of c] by (cases i) (auto intro!: keeps_andthen simp: conf_inv_def)
  show ?thesis
    unfolding conf_option_def conf_handle_general_def conf_handle_volume_def conf_handle_sap_def conf_handle_database_def
      conf_handle_web_def conf_handle_link_def
    by (auto intro!: keeps_option keeps_general keeps_database keeps_web assms v y l split: option.split conf_section.split)
qed

section \<open>Volumes\<close>

lemma vol_names_update:
  assumes "i < length vs" "vol_flags (vs ! i) = 0" "vol_flags v \<noteq> 0"
  obtains as bs where "vol_names vs = as @ bs" "vol_names (vs[i := v]) = as @ takeWhile (\<lambda>x. x \<noteq> 0) (vol_name v) # bs"
proof
  show "vol_names vs = vol_names (take i vs) @ vol_names (drop (Suc i) vs)"
    using assms(2) by (subst id_take_nth_drop [OF assms(1)]) (simp add: vol_names_def)
  show "vol_names (vs[i := v]) = vol_names (take i vs) @ takeWhile (\<lambda>x. x \<noteq> 0) (vol_name v) # vol_names (drop (Suc i) vs)"
    using assms(3) by (simp add: upd_conv_take_nth_drop [OF assms(1)] vol_names_def)
qed

lemma vol_names_cstr:
  assumes "v \<in> set vs" "vols_ok vs"
  shows "cstr (vol_name v) = Some (takeWhile (\<lambda>x. x \<noteq> 0) (vol_name v))"
  using assms by (auto simp: vols_ok_def cstr_def split: if_splits)

lemma takeWhile_mkbuf: "no_nul s \<Longrightarrow> takeWhile (\<lambda>x. x \<noteq> 0) (mkbuf n s) = s"
proof -
  assume "no_nul s"
  then have s: "\<forall>x\<in>set s. x \<noteq> 0" by (auto simp: no_nul_def)
  have "takeWhile (\<lambda>x. x \<noteq> 0) (replicate k 0) = ([] :: bytes)" for k by (cases k) simp_all
  then show ?thesis using s by (simp add: mkbuf_def takeWhile_append)
qed

lemma vol_names_found:
  assumes "vols_ok vs" "no_nul name"
  shows "vol_find_volume name vs = Some None \<longleftrightarrow> name \<notin> set (vol_names vs)"
proof -
  have "vol_find_volume name vs = Some (first_index (vol_named name) vs)" by (rule vol_find_volume_eq [OF assms])
  then have "vol_find_volume name vs = Some None \<longleftrightarrow> (\<forall>v\<in>set vs. \<not> vol_named name v)" by (simp add: first_index_None)
  also have "\<dots> \<longleftrightarrow> name \<notin> set (vol_names vs)"
    using vol_names_cstr [OF _ assms(1)] by (auto simp: vol_named_def vol_names_def)
  finally show ?thesis .
qed

lemma add_volume_inv:
  assumes "volumes_inv vs" "no_nul name" "length name < 16" "no_nul path" "length path < 256" "name \<noteq> []" "upper name"
    and "vol_find_volume name vs = Some None" "vol_add_volume name path 0 vs = (Some i, vs')"
  shows "volumes_inv vs'"
proof -
  have ok: "vols_ok vs" using assms(1) by (simp add: volumes_inv_def)
  let ?v = "\<lparr>vol_flags = 0 OR VOL_FLAG_USED, vol_name = mkbuf 16 name, vol_path = mkbuf 256 path\<rparr>"
  have f: "vol_find_free vs = Some i" and e: "vs' = vs[i := ?v]"
    using assms(2-5,9) by (auto simp: vol_add_volume_def split: option.splits)
  have i: "i < length vs" "vol_flags (vs ! i) = 0" using vols.find_SomeD [OF f] by auto
  have fv: "vol_flags ?v \<noteq> 0" by simp
  obtain as bs where ab: "vol_names vs = as @ bs" "vol_names vs' = as @ name # bs"
    using vol_names_update [OF i fv] takeWhile_mkbuf [OF assms(2), of 16] unfolding e by (metis volume.select_convs(2))
  have "name \<notin> set (vol_names vs)" using assms(8) vol_names_found [OF ok assms(2)] by simp
  moreover have "vols_ok vs'" using vols_ok_add [OF ok assms(2-5), of 0] assms(9) by simp
  ultimately show ?thesis using assms(1,6,7) ab by (auto simp: volumes_inv_def)
qed

lemma keeps_add_vol:
  assumes "conf_inv c"
  shows "keeps_inv (conf_add_vol c)"
  unfolding keeps_inv_def
proof (intro allI impI)
  fix c' assume run: "conf_add_vol c = ok c'"
  have tv: "text_ok 16 (cf_tmpvol c)" "text_ok 256 (cf_tmpath c)" "volumes_inv (cf_volumes c)"
    using assms by (simp_all add: conf_inv_def)
  then have ld: "load (cf_tmpvol c) 0 = Some (cf_tmpvol c ! 0)" by (auto simp: text_ok_def)
  show "conf_inv c'"
  proof (cases "cf_tmpvol c ! 0 = 0")
    case True
    then show ?thesis using run assms ld by (simp add: conf_add_vol_def)
  next
    case False
    with run ld obtain up name path i vs where r: "map_str toupper (cf_tmpvol c) = Some up" "cstr up = Some name" "cstr (cf_tmpath c) = Some path"
      "vol_find_volume name (cf_volumes c) = Some None" "vol_add_volume name path 0 (cf_volumes c) = (Some i, vs)"
      "c' = c\<lparr>cf_tmpvol := up, cf_volumes := vs\<rparr>"
      by (auto simp: conf_add_vol_def bind_eq_Some_conv ok_def fatal_def split: option.splits prod.splits)
    obtain s where s: "cstr (cf_tmpvol c) = Some s" using text_ok_cstr [OF tv(1)] by blast
    have "cstr up = Some (map toupper s)" using cstr_map_str [OF r(1) s] cstr_SomeD(1) [OF s] by simp
    then have n: "name = map toupper s" using r(2) by simp
    have "s \<noteq> []" using False s by (cases "cf_tmpvol c") (auto split: if_splits)
    moreover have "length name < 16" "no_nul name" using text_ok_cstr [OF tv(1)] s n by auto
    moreover have "length path < 256" "no_nul path" using text_ok_cstr [OF tv(2)] r(3) by auto
    ultimately have "volumes_inv vs" using add_volume_inv [OF tv(3) _ _ _ _ _ _ r(4,5)] n by simp
    then show ?thesis using assms text_ok_map_str [OF r(1) tv(1)] by (simp add: conf_inv_def r(6))
  qed
qed

section \<open>Lines and files\<close>

lemma keeps_end_section: "conf_inv c \<Longrightarrow> keeps_inv (end_section sec c)"
  by (simp add: end_section_def keeps_add_vol)

lemma heading_inv:
  assumes "conf_inv c" "conf_heading line sec c = ok (sec', c')"
  shows "conf_inv c'"
proof -
  obtain c1 s where c1: "end_section sec c = ok c1" "conf_lookup_section (drop 1 line) (c1\<lparr>cf_tmpvol := (cf_tmpvol c1)[0 := 0]\<rparr>) = ok (s, c')"
    using assms(2) by (auto simp: conf_heading_def andthen_ok split: if_splits)
  have i1: "conf_inv c1" using keeps_end_section [OF assms(1)] c1(1) by (simp add: keeps_inv_def)
  then have i2: "conf_inv (c1\<lparr>cf_tmpvol := (cf_tmpvol c1)[0 := 0]\<rparr>)"
    using text_ok_first_zero [of 16 "cf_tmpvol c1"] by (simp add: conf_inv_def first_zero_def)
  then show ?thesis using c1(2)
    by (auto simp: conf_lookup_section_def andthen_ok conf_inv_def dest: text_ok_conf_text split: option.splits if_splits)
qed

lemma conf_line_inv:
  assumes "conf_inv c" "conf_line pw gr line (sec, c) = ok (sec', c')"
  shows "conf_inv c'"
  using assms heading_inv [OF assms(1)] keeps_conf_option [OF assms(1), of pw gr line sec]
  by (auto simp: conf_line_def andthen_ok keeps_inv_def split: if_splits option.splits)

lemma conf_lines_inv: "conf_lines pw gr ls (sec, c) = ok (sec', c') \<Longrightarrow> conf_inv c \<Longrightarrow> conf_inv c'"
proof (induction ls arbitrary: sec c)
  case (Cons l ls)
  then show ?case using conf_line_inv by (fastforce simp: andthen_ok)
qed simp

section \<open>Files of statements\<close>

text \<open>What a file means, statement by statement, without the reading of characters.\<close>

datatype conf_stmt = Heading bytes | Setting bytes bytes | Comment bytes | Blank

fun stmt_line :: "conf_stmt \<Rightarrow> bytes" where
  "stmt_line (Heading t) = 0x5b # t @ [0x5d]"
| "stmt_line (Setting n v) = n @ 0x3d # v"
| "stmt_line (Comment t) = 0x23 # t"
| "stmt_line Blank = []"

definition conf_file :: "conf_stmt list \<Rightarrow> bytes" where
  "conf_file ss = concat (map (\<lambda>s. stmt_line s @ [10]) ss)"

definition apply_option :: "accounts \<Rightarrow> accounts \<Rightarrow> conf_section option \<Rightarrow> bytes \<Rightarrow> bytes \<Rightarrow> config \<Rightarrow> config run" where
  "apply_option pw gr sec n v c =
     (case sec of
        None \<Rightarrow> fatal
      | Some SecGeneral \<Rightarrow> (case conf_lookup_general n of None \<Rightarrow> fatal | Some i \<Rightarrow> set_general pw gr c i v)
      | Some SecVolume \<Rightarrow> (case conf_lookup_volume n of None \<Rightarrow> fatal
          | Some i \<Rightarrow> andthen (conf_text VOL_MAX_VOL_PATH_LEN (cf_tmpath c) v) (\<lambda>b. ok (c\<lparr>cf_tmpath := b\<rparr>)))
      | Some SecSap \<Rightarrow> (case conf_lookup_sap n of None \<Rightarrow> fatal
          | Some SEnabled \<Rightarrow> andthen (conf_yesno v) (\<lambda>j. ok (c\<lparr>cf_sap_enabled := j\<rparr>))
          | Some SNearest \<Rightarrow> andthen (conf_yesno v) (\<lambda>j. ok (c\<lparr>cf_sap_nearest := j\<rparr>)))
      | Some SecDatabase \<Rightarrow> (case conf_lookup_database n of None \<Rightarrow> fatal | Some i \<Rightarrow> set_database c i v)
      | Some SecWeb \<Rightarrow> (case conf_lookup_web n of None \<Rightarrow> fatal | Some i \<Rightarrow> set_web c i v)
      | Some SecLink \<Rightarrow>
          (case conf_lookup_link n of None \<Rightarrow> fatal
           | Some LEnabled \<Rightarrow> andthen (conf_yesno v) (\<lambda>j. ok (c\<lparr>cf_link_enabled := j\<rparr>))
           | Some LKey \<Rightarrow> andthen (conf_number 16 v) (\<lambda>k. ok (c\<lparr>cf_link_key := k\<rparr>))
           | Some LServer \<Rightarrow> if cf_link_nofservers c = LINK_MAX_SERVERS then ok c else conf_link_addserver n v c))"

fun exec_stmt :: "accounts \<Rightarrow> accounts \<Rightarrow> conf_stmt \<Rightarrow> conf_section option \<times> config \<Rightarrow> (conf_section option \<times> config) run" where
  "exec_stmt pw gr (Heading t) (sec, c) =
     andthen (end_section sec c) (\<lambda>c1.
     andthen (conf_lookup_section t (c1\<lparr>cf_tmpvol := first_zero (cf_tmpvol c1)\<rparr>)) (\<lambda>(s, c2). ok (Some s, c2)))"
| "exec_stmt pw gr (Setting n v) (sec, c) = andthen (apply_option pw gr sec n v c) (\<lambda>c1. ok (sec, c1))"
| "exec_stmt pw gr (Comment t) sc = ok sc"
| "exec_stmt pw gr Blank sc = ok sc"

fun exec_stmts :: "accounts \<Rightarrow> accounts \<Rightarrow> conf_stmt list \<Rightarrow> conf_section option \<times> config \<Rightarrow> (conf_section option \<times> config) run" where
  "exec_stmts pw gr [] sc = ok sc"
| "exec_stmts pw gr (s # ss) sc = andthen (exec_stmt pw gr s sc) (exec_stmts pw gr ss)"

text \<open>A text that can stand in a line.\<close>

definition plain :: "bytes \<Rightarrow> bool" where
  "plain t \<longleftrightarrow> 0 \<notin> set t \<and> 10 \<notin> set t \<and> 0x5d \<notin> set t"

fun stmt_ok :: "conf_stmt \<Rightarrow> bool" where
  "stmt_ok (Heading t) \<longleftrightarrow> plain t \<and> length t < 1021"
| "stmt_ok (Setting n v) \<longleftrightarrow> plain n \<and> plain v \<and> length n + length v < 1022 \<and> take 1 n \<noteq> [0x23] \<and>
     0x20 \<notin> set n \<and> 0x3d \<notin> set n \<and> take 1 v \<noteq> [0x20]"
| "stmt_ok (Comment t) \<longleftrightarrow> 0 \<notin> set t \<and> 10 \<notin> set t \<and> length t < 1022"
| "stmt_ok Blank \<longleftrightarrow> True"

lemma strchr_first: "c \<notin> set a \<Longrightarrow> strchr (a @ c # b) c = Some (length a)"
  by (induction a) (auto simp: strchr_def)

lemma strchr_none: "c \<notin> set a \<Longrightarrow> strchr a c = None"
  by (auto simp: strchr_def first_index_None)

lemma fgets_line:
  assumes "10 \<notin> set l" "length l < 1023"
  shows "fgets_all (l @ 10 # r) = (l @ [10]) # fgets_all r"
proof -
  have "chunk_length (l @ 10 # r) = Suc (length l)"
    using assms by (simp add: chunk_length_def strchr_first)
  then show ?thesis by (subst fgets_all.simps) simp
qed

lemma line_text_line: "0 \<notin> set l \<Longrightarrow> 10 \<notin> set l \<Longrightarrow> line_text (l @ [10]) = l"
  unfolding line_text_def by (subst takeWhile_append2) auto

lemma stmt_line_ok: "stmt_ok s \<Longrightarrow> 0 \<notin> set (stmt_line s) \<and> 10 \<notin> set (stmt_line s) \<and> length (stmt_line s) < 1023"
  by (cases s) (auto simp: plain_def)

lemma file_lines: "list_all stmt_ok ss \<Longrightarrow> map line_text (fgets_all (conf_file ss)) = map stmt_line ss"
proof (induction ss)
  case Nil
  then show ?case by (simp add: conf_file_def fgets_all.simps)
next
  case (Cons s ss)
  have s: "0 \<notin> set (stmt_line s)" "10 \<notin> set (stmt_line s)" "length (stmt_line s) < 1023"
    using Cons.prems stmt_line_ok [of s] by simp_all
  have "conf_file (s # ss) = stmt_line s @ 10 # conf_file ss" by (simp add: conf_file_def)
  then show ?case using Cons s by (simp add: fgets_line line_text_line)
qed

lemma split_setting:
  "0x20 \<notin> set n \<Longrightarrow> 0x3d \<notin> set n \<Longrightarrow> take 1 v \<noteq> [0x20] \<Longrightarrow> conf_split (n @ 0x3d # v) = Some (n, v)"
proof -
  assume n: "0x20 \<notin> set n" "0x3d \<notin> set n" and v: "take 1 v \<noteq> [0x20]"
  have "takeWhile (\<lambda>c. c \<noteq> 0x20) n = n" using n(1) by (auto simp: takeWhile_eq_all_conv)
  moreover have "dropWhile (\<lambda>c. c = 0x20) v = v" using v by (cases v) auto
  ultimately show ?thesis using n(2) by (simp add: conf_split_def strchr_first)
qed

lemma option_setting:
  assumes "stmt_ok (Setting n v)"
  shows "conf_option pw gr (n @ 0x3d # v) sec c = apply_option pw gr sec n v c"
  using assms split_setting [of n v]
  by (auto simp: conf_option_def apply_option_def conf_handle_general_def conf_handle_volume_def conf_handle_sap_def
      conf_handle_database_def conf_handle_web_def conf_handle_link_def with_option_def
      split: option.split conf_section.split sap_option.split link_option.split)

lemma line_stmt: "stmt_ok s \<Longrightarrow> conf_line pw gr (stmt_line s) sc = exec_stmt pw gr s sc"
proof (cases s)
  case (Heading t)
  assume "stmt_ok s"
  then have "0x5d \<notin> set (0x5b # t)" using Heading by (simp add: plain_def)
  then have "strchr (stmt_line s) 0x5d = Some (Suc (length t))"
    using Heading strchr_first [of "0x5d" "0x5b # t" "[]"] by simp
  then show ?thesis using Heading by (cases sc) (simp add: conf_line_def conf_heading_def first_zero_def)
next
  case (Setting n v)
  assume s: "stmt_ok s"
  then have "strchr (stmt_line s) 0x5d = None" "stmt_line s \<noteq> []" "hd (stmt_line s) \<noteq> 0x23"
    using Setting by (cases n; auto simp: plain_def intro!: strchr_none)+
  then show ?thesis using Setting s option_setting [of n v pw gr] by (cases sc) (simp add: conf_line_def strchr_none)
qed (simp_all add: conf_line_def split: prod.split)

lemma lines_stmts: "list_all stmt_ok ss \<Longrightarrow> conf_lines pw gr (map stmt_line ss) sc = exec_stmts pw gr ss sc"
proof (induction ss arbitrary: sc)
  case (Cons s ss)
  then show ?case by (simp add: line_stmt andthen_def split: option.split sum.split)
qed simp

end
