(* ===== verification/Thm_Config.thy ===== *)
theory Thm_Config
  imports Fr_ConfigLaws
begin

text \<open>
  The properties of the configuration file: what an accepted file promises to the rest of the server,
  what a file of well-formed lines means, the limits of texts, and the path of a volume that gives none.
\<close>

section \<open>A sample\<close>

definition demo_stmts :: "conf_stmt list" where
  "demo_stmts =
     [Comment (ascii '' sample''), Heading (ascii ''general''), Setting (ascii ''name'') (ascii ''frommel''), Setting (ascii ''version'') (ascii ''3.12''),
      Setting (ascii ''interface'') (ascii ''ed0''), Setting (ascii ''binderypath'') (ascii ''/sys/b''), Blank,
      Heading (ascii ''volume:sys''), Setting (ascii ''path'') (ascii ''/sys'')]"

lemma demo_accepted:
  "\<exists>c. parse_config (\<lambda>_. None) (\<lambda>_. None) (Some (conf_file demo_stmts)) False conf_start = ok c \<and>
     cf_nofconns c = 25 \<and> cf_link_enabled c = 0 \<and> cstr (vol_path (cf_volumes c ! 0)) = Some (ascii ''/sys'') \<and>
     cstr (cf_ifname c) = Some (ascii ''ed0'')"
proof -
  have "(case parse_config (\<lambda>_. None) (\<lambda>_. None) (Some (conf_file demo_stmts)) False conf_start of
      Some (Inr c) \<Rightarrow> cf_nofconns c = 25 \<and> cf_link_enabled c = 0 \<and> cstr (vol_path (cf_volumes c ! 0)) = Some (ascii ''/sys'') \<and>
        cstr (cf_ifname c) = Some (ascii ''ed0'')
    | _ \<Rightarrow> False)"
    by code_simp
  then show ?thesis by (auto simp: ok_def split: option.splits sum.splits)
qed

section \<open>Accepted files\<close>

lemma required_ok: "conf_required b c = ok c' \<longleftrightarrow> c' = c \<and> b \<noteq> [] \<and> b ! 0 \<noteq> 0"
  by (cases b) (auto simp: conf_required_def empty_text_def load_def ok_def fatal_def)

lemma first_char: "text_ok n b \<Longrightarrow> b ! 0 \<noteq> 0 \<Longrightarrow> cstr b = Some s \<Longrightarrow> s \<noteq> []"
  by (cases b) (auto simp: text_ok_def split: if_splits)

lemma check_ok:
  assumes "conf_check c = ok c'"
  shows "c' = c" "cf_servername c ! 0 \<noteq> 0" "cf_nwversion c \<noteq> 0" "cf_ifname c ! 0 \<noteq> 0" "cf_binderypath c ! 0 \<noteq> 0"
    "cf_web_enabled c \<noteq> 0 \<longrightarrow> cf_web_templatedir c ! 0 \<noteq> 0 \<and> cf_web_username c ! 0 \<noteq> 0 \<and> cf_web_password c ! 0 \<noteq> 0"
  using assms by (auto simp: conf_check_def andthen_ok required_ok split: if_splits)

lemma parse_ok:
  assumes "parse_config pw gr file nv c0 = ok c" "conf_inv c0"
  obtains f sec c1 c2 b where "file = Some f" "conf_lines pw gr (map line_text (fgets_all f)) (None, conf_reset c0) = ok (sec, c1)"
    "end_section sec c1 = ok c2" "conf_inv c2" "conf_check_volumes nv c2 = ok c2" "conf_check c2 = ok c2"
    "map_str toupper (cf_servername c2) = Some b" "c = c2\<lparr>cf_servername := b\<rparr>"
proof -
  from assms(1) obtain f sec c1 c2 c3 c4 b where r: "file = Some f" "conf_lines pw gr (map line_text (fgets_all f)) (None, conf_reset c0) = ok (sec, c1)"
    "end_section sec c1 = ok c2" "conf_check_volumes nv c2 = ok c3" "conf_check c3 = ok c4"
    "map_str toupper (cf_servername c4) = Some b" "c = c4\<lparr>cf_servername := b\<rparr>"
    by (auto simp: parse_config_def andthen_ok split: option.splits prod.splits)
  have "c3 = c2" using r(4) by (auto simp: conf_check_volumes_def bind_eq_Some_conv ok_def fatal_def split: if_splits)
  moreover have "c4 = c3" using r(5) by (rule check_ok)
  moreover have "conf_inv c1" using conf_lines_inv [OF r(2)] conf_inv_reset [OF assms(2)] by simp
  then have "conf_inv c2" using keeps_end_section [of c1 sec] r(3) by (simp add: keeps_inv_def)
  ultimately show thesis using that r by simp
qed

lemma accepted:
  assumes "parse_config pw gr file False conf_start = ok c"
  shows "conf_inv c" "vol_find_volume (ascii ''SYS'') (cf_volumes c) = Some (Some 0)"
    "\<exists>s. cstr (cf_servername c) = Some s \<and> s \<noteq> [] \<and> length s \<le> 48 \<and> upper s"
proof -
  from parse_ok [OF assms conf_inv_start] obtain f sec c1 c2 b where r: "file = Some f"
    "conf_lines pw gr (map line_text (fgets_all f)) (None, conf_reset conf_start) = ok (sec, c1)"
    "end_section sec c1 = ok c2" "conf_inv c2" "conf_check_volumes False c2 = ok c2" "conf_check c2 = ok c2"
    "map_str toupper (cf_servername c2) = Some b" "c = c2\<lparr>cf_servername := b\<rparr>" .
  have t: "text_ok 49 (cf_servername c2)" "text_ok 49 b" using r(4) text_ok_map_str [OF r(7)] by (simp_all add: conf_inv_def)
  then obtain s where s: "cstr (cf_servername c2) = Some s" "length s < 49" "no_nul s" using text_ok_cstr by blast
  have m: "cstr b = Some (map toupper s)" using cstr_map_str [OF r(7) s(1)] s(3) by simp
  have e: "s \<noteq> []" using first_char [OF t(1) check_ok(2) [OF r(6)] s(1)] .
  show "vol_find_volume (ascii ''SYS'') (cf_volumes c) = Some (Some 0)"
    using r(5,8) by (auto simp: conf_check_volumes_def bind_eq_Some_conv ok_def fatal_def split: if_splits)
  show "conf_inv c" using r(4,8) t(2) by (simp add: conf_inv_def)
  show "\<exists>s. cstr (cf_servername c) = Some s \<and> s \<noteq> [] \<and> length s \<le> 48 \<and> upper s"
    using m e s(2) r(8) by (simp add: upper_def)
qed

text \<open>
  C17. A configuration that is accepted is well typed: every text in it is a string that fits its
  array, every volume has a terminated name and path, the names of the volumes are in upper case, not
  empty and different from each other, and volume 0 is SYS. The server has a name of 1 to 48
  characters in upper case, a version other than 0, an interface and a bindery; and a template
  directory, a user and a password when the web interface is enabled.
\<close>
theorem config_accepted:
  assumes "parse_config pw gr file False conf_start = ok c"
  shows "conf_inv c \<and> distinct (vol_names (cf_volumes c)) \<and> (\<forall>s\<in>set (vol_names (cf_volumes c)). s \<noteq> [] \<and> upper s) \<and>
    vol_find_volume (ascii ''SYS'') (cf_volumes c) = Some (Some 0) \<and>
    (\<exists>s. cstr (cf_servername c) = Some s \<and> s \<noteq> [] \<and> length s \<le> 48 \<and> upper s) \<and> cf_nwversion c \<noteq> 0 \<and>
    cf_ifname c ! 0 \<noteq> 0 \<and> cf_binderypath c ! 0 \<noteq> 0 \<and>
    (cf_web_enabled c \<noteq> 0 \<longrightarrow> cf_web_templatedir c ! 0 \<noteq> 0 \<and> cf_web_username c ! 0 \<noteq> 0 \<and> cf_web_password c ! 0 \<noteq> 0)"
proof -
  from parse_ok [OF assms conf_inv_start] obtain c2 b where r: "conf_check c2 = ok c2" "c = c2\<lparr>cf_servername := b\<rparr>" .
  then show ?thesis using check_ok(3-) [OF r(1)] accepted [OF assms] by (simp add: conf_inv_def volumes_inv_def)
qed

theorem config_accepted_witness:
  "\<exists>c. parse_config (\<lambda>_. None) (\<lambda>_. None) (Some (conf_file demo_stmts)) False conf_start = ok c \<and>
     conf_inv c \<and> vol_find_volume (ascii ''SYS'') (cf_volumes c) = Some (Some 0)"
  using demo_accepted config_accepted by blast

section \<open>Files of well-formed lines\<close>

text \<open>
  C18. A file written from statements (headings, settings, comments and empty lines, each a line shorter
  than 1023 characters, its texts free of line ends and closing brackets) is read back as those
  statements: the result is that of executing them one by one, and of the checks at the end.
\<close>
theorem config_file_read:
  assumes "list_all stmt_ok ss"
  shows "parse_config pw gr (Some (conf_file ss)) nv c =
    andthen (exec_stmts pw gr ss (None, conf_reset c)) (\<lambda>(sec, c1).
    andthen (end_section sec c1) (\<lambda>c2. andthen (conf_check_volumes nv c2) (\<lambda>c3. andthen (conf_check c3) (\<lambda>c4.
      case map_str toupper (cf_servername c4) of None \<Rightarrow> None | Some b \<Rightarrow> ok (c4\<lparr>cf_servername := b\<rparr>)))))"
  by (simp add: parse_config_def file_lines [OF assms] lines_stmts [OF assms])

lemma demo_stmts_ok: "list_all stmt_ok demo_stmts"
  by code_simp

theorem config_file_read_witness:
  "parse_config (\<lambda>_. None) (\<lambda>_. None) (Some (conf_file demo_stmts)) False conf_start =
    andthen (exec_stmts (\<lambda>_. None) (\<lambda>_. None) demo_stmts (None, conf_reset conf_start)) (\<lambda>(sec, c1).
    andthen (end_section sec c1) (\<lambda>c2. andthen (conf_check_volumes False c2) (\<lambda>c3. andthen (conf_check c3) (\<lambda>c4.
      case map_str toupper (cf_servername c4) of None \<Rightarrow> None | Some b \<Rightarrow> ok (c4\<lparr>cf_servername := b\<rparr>)))))"
  by (rule config_file_read [OF demo_stmts_ok])

section \<open>Limits of texts\<close>

text \<open>The options that hold a text: handler, name, the length the code compares with, and the array.\<close>

definition text_options ::
  "accounts \<Rightarrow> accounts \<Rightarrow> ((bytes \<Rightarrow> config \<Rightarrow> config run) \<times> bytes \<times> nat \<times> (config \<Rightarrow> bytes)) list" where
  "text_options pw gr =
     [(conf_handle_general pw gr, ascii ''name'', 48, cf_servername),
      (conf_handle_general pw gr, ascii ''logfile'', VOL_MAX_VOL_PATH_LEN, cf_logfile),
      (conf_handle_general pw gr, ascii ''interface'', CONFIG_MAX_IFNAME_LEN, cf_ifname),
      (conf_handle_general pw gr, ascii ''binderypath'', VOL_MAX_VOL_PATH_LEN, cf_binderypath),
      (conf_handle_volume, ascii ''path'', VOL_MAX_VOL_PATH_LEN, cf_tmpath),
      (conf_handle_database, ascii ''hostname'', CONFIG_MAX_SQL_LEN, cf_sql_hostname),
      (conf_handle_database, ascii ''username'', CONFIG_MAX_SQL_LEN, cf_sql_username),
      (conf_handle_database, ascii ''password'', CONFIG_MAX_SQL_LEN, cf_sql_password),
      (conf_handle_database, ascii ''database'', CONFIG_MAX_SQL_LEN, cf_sql_database),
      (conf_handle_web, ascii ''templatedir'', VOL_MAX_VOL_PATH_LEN, cf_web_templatedir),
      (conf_handle_web, ascii ''username'', WEB_MAX_VALUE_LEN, cf_web_username),
      (conf_handle_web, ascii ''password'', WEB_MAX_VALUE_LEN, cf_web_password)]"

definition stored :: "(config \<Rightarrow> bytes) \<Rightarrow> bytes \<Rightarrow> config run \<Rightarrow> bool" where
  "stored get v m \<longleftrightarrow> (\<exists>c. m = ok c \<and> cstr (get c) = Some v)"

lemma conf_text_fits: "length v \<le> m \<Longrightarrow> length v < length b \<Longrightarrow> conf_text m b v = ok (v @ 0 # drop (Suc (length v)) b)"
  by (simp add: conf_text_def strcpy_def ok_def)

lemma conf_text_full: "length v = length b \<Longrightarrow> conf_text (length b) b v = None"
  by (simp add: conf_text_def strcpy_def)

lemma conf_text_long: "m < length v \<Longrightarrow> conf_text m b v = fatal"
  by (simp add: conf_text_def)

lemma text_lines:
  assumes "take 1 v \<noteq> [0x20]" "(handle, n, len, get) \<in> set (text_options pw gr)"
  shows "\<exists>put. handle (n @ 0x3d # v) c = andthen (conf_text len (get c) v) (\<lambda>b. ok (put b)) \<and> (\<forall>b. get (put b) = b)"
proof -
  have n: "0x20 \<notin> set n \<and> 0x3d \<notin> set n" using assms(2) by (auto simp: text_options_def)
  then have s: "conf_split (n @ 0x3d # v) = Some (n, v)" using assms(1) by (intro split_setting) auto
  note d = conf_handle_general_def conf_handle_volume_def conf_handle_database_def conf_handle_web_def
    with_option_def conf_lookup_general_def conf_lookup_volume_def conf_lookup_database_def conf_lookup_web_def
    lookup_name_def strcaseeq_def tolower_def
  show ?thesis using assms(2) s unfolding text_options_def list.set insert_iff empty_iff prod.inject
    apply (elim disjE conjE FalseE)
    apply (simp_all add: d s, (rule exI, rule conjI, rule refl, simp)+)
    done
qed

text \<open>
  A setting that holds a text reports an error when the text is longer than the limit the code
  compares with, and stores a shorter one, to be read back. One of exactly the length of the limit fits
  only the array of the server's name: for every other option the end of the string is written behind
  the array.
\<close>
lemma text_limit:
  assumes "conf_inv c" "no_nul v" "take 1 v \<noteq> [0x20]" "(handle, n, len, get) \<in> set (text_options pw gr)"
  shows "(len < length v \<longrightarrow> handle (n @ 0x3d # v) c = fatal) \<and> (length v < len \<longrightarrow> stored get v (handle (n @ 0x3d # v) c)) \<and>
    (length v = len \<longrightarrow> (if n = ascii ''name'' then stored get v (handle (n @ 0x3d # v) c) else handle (n @ 0x3d # v) c = None))"
proof -
  from text_lines [OF assms(3,4), of c] obtain put where p: "handle (n @ 0x3d # v) c = andthen (conf_text len (get c) v) (\<lambda>b. ok (put b))"
    "get (put b) = b" for b by blast
  have l: "length (get c) = (if n = ascii ''name'' then Suc len else len)"
    using assms(1,4) by (auto simp: text_options_def conf_inv_def text_ok_def)
  have st: "stored get v (handle (n @ 0x3d # v) c)" if "length v \<le> len" "length v < length (get c)"
    using that assms(2) p by (auto simp: stored_def conf_text_fits)
  show ?thesis using l st p(1) conf_text_full [of v "get c"] by (auto simp: conf_text_long)
qed

lemma text_limit_witness:
  "conf_handle_general (\<lambda>_. None) (\<lambda>_. None) (ascii ''interface'' @ 0x3d # ascii ''ethernet'') conf_start = None"
  using text_limit [OF conf_inv_start, of "ascii ''ethernet''" "conf_handle_general (\<lambda>_. None) (\<lambda>_. None)" "ascii ''interface''" 8 cf_ifname
      "\<lambda>_. None" "\<lambda>_. None"] by (simp add: text_options_def no_nul_def)

section \<open>The path of a volume\<close>

text \<open>Executing the lines of a section that declares a volume and its path, and of one that gives no path.\<close>

definition two_volumes :: "bytes \<Rightarrow> bytes \<Rightarrow> bytes \<Rightarrow> bytes list" where
  "two_volumes a p b =
     map stmt_line [Heading (ascii ''volume:'' @ a), Setting (ascii ''path'') p, Heading (ascii ''volume:'' @ b)]"

definition volume_text :: "bytes \<Rightarrow> bool" where
  "volume_text n \<longleftrightarrow> plain n \<and> n \<noteq> [] \<and> length n < 16"

lemma volume_heading:
  assumes "volume_text n" "length (cf_tmpvol c) = 16"
  shows "conf_lookup_section (ascii ''volume:'' @ n) c = ok (SecVolume, c\<lparr>cf_tmpvol := n @ 0 # drop (Suc (length n)) (cf_tmpvol c)\<rparr>)"
proof -
  have "conf_text 16 (cf_tmpvol c) n = ok (n @ 0 # drop (Suc (length n)) (cf_tmpvol c))"
    using assms by (intro conf_text_fits) (auto simp: volume_text_def)
  then show ?thesis
    by (simp add: conf_lookup_section_def lookup_name_def strcaseeq_def strncaseeq_def tolower_def)
qed

lemma add_vol_run:
  assumes "volume_text n" "cf_tmpvol c = n @ 0 # r" "cf_tmpath c = p @ 0 # q" "no_nul p" "length p < 256"
    "vols_ok (cf_volumes c)" "vol_find_volume (map toupper n) (cf_volumes c) = Some None" "vol_find_free (cf_volumes c) = Some i"
  shows "conf_add_vol c = ok (c\<lparr>cf_tmpvol := map toupper n @ 0 # r,
    cf_volumes := (cf_volumes c)[i := \<lparr>vol_flags = 0 OR VOL_FLAG_USED, vol_name = mkbuf 16 (map toupper n), vol_path = mkbuf 256 p\<rparr>]\<rparr>)"
proof -
  have n: "no_nul n" "n \<noteq> []" "length n < 16" using assms(1) by (auto simp: volume_text_def plain_def no_nul_def)
  have s: "cstr (n @ 0 # r) = Some n" "cstr (map toupper n @ 0 # r) = Some (map toupper n)" "cstr (p @ 0 # q) = Some p" using n(1) assms(4) by simp_all
  have l: "load (n @ 0 # r) 0 = Some (n ! 0)" using n(2) by (simp add: nth_append)
  have z: "n ! 0 \<noteq> 0" using n(1,2) by (cases n) (auto simp: no_nul_def)
  have m: "map_str toupper (n @ 0 # r) = Some (map toupper n @ 0 # r)" using s(1) by (simp add: map_str_def)
  show ?thesis using n(1,3) z assms(2-8) by (simp add: conf_add_vol_def vol_add_volume_def l m s del: load_Some map_map)
qed

text \<open>A table with one and with two volumes.\<close>

definition volume_of :: "bytes \<Rightarrow> bytes \<Rightarrow> volume" where
  "volume_of n p = \<lparr>vol_flags = 0 OR VOL_FLAG_USED, vol_name = mkbuf 16 n, vol_path = mkbuf 256 p\<rparr>"

lemma vol_init_split: "vol_init = zero_volume # zero_volume # zero_volume # replicate 13 zero_volume"
  by (simp add: vol_init_def numeral_eq_Suc)

lemma first_volume:
  assumes "no_nul n" "length n < 16" "no_nul p" "length p < 256"
  shows "vol_find_free vol_init = Some 0" "vols_ok (vol_init[0 := volume_of n p])"
    "vol_find_free (vol_init[0 := volume_of n p]) = Some (Suc 0)" "vol_names (vol_init[0 := volume_of n p]) = [n]"
proof -
  show f: "vol_find_free vol_init = Some 0" by (simp add: vol_find_free_def vol_init_split zero_volume_def)
  show "vols_ok (vol_init[0 := volume_of n p])"
    using vols_ok_add [OF vols_ok_init assms, of 0] assms(2,4) by (simp add: vol_add_volume_def f volume_of_def)
  show "vol_find_free (vol_init[0 := volume_of n p]) = Some (Suc 0)"
    by (simp add: vol_find_free_def vol_init_split zero_volume_def volume_of_def)
  show "vol_names (vol_init[0 := volume_of n p]) = [n]"
    using takeWhile_mkbuf [OF assms(1), of 16] by (simp add: vol_names_def vol_init_split zero_volume_def volume_of_def)
qed

text \<open>
  A volume whose section gives no path is accepted, with the path of the volume declared before it:
  both volumes are the same directory of the host.
\<close>
lemma volume_inherits_path:
  assumes "volume_text a" "volume_text b" "map toupper a \<noteq> map toupper b" "plain p" "length p < 256" "take 1 p \<noteq> [0x20]"
  shows "\<exists>c. andthen (conf_lines pw gr (two_volumes a p b) (None, conf_start)) (\<lambda>(sec, c). end_section sec c) = ok c \<and>
    map vol_flags (take 3 (cf_volumes c)) = [1, 1, 0] \<and>
    map (\<lambda>v. (cstr (vol_name v), cstr (vol_path v))) (take 2 (cf_volumes c)) =
      [(Some (map toupper a), Some p), (Some (map toupper b), Some p)]"
proof -
  define r where "r = replicate (16 - Suc (length a)) (0 :: u8)"
  define q where "q = replicate (256 - Suc (length p)) (0 :: u8)"
  define c2 where "c2 = conf_start\<lparr>cf_tmpvol := a @ 0 # r, cf_tmpath := p @ 0 # q\<rparr>"
  define c3 where "c3 = c2\<lparr>cf_tmpvol := map toupper a @ 0 # r, cf_volumes := vol_init[0 := volume_of (map toupper a) p]\<rparr>"
  define c4 where "c4 = c3\<lparr>cf_tmpvol := b @ 0 # drop (Suc (length b)) (first_zero (map toupper a @ 0 # r))\<rparr>"
  note la = assms(1,2) [unfolded volume_text_def] and ok = volume_text_def plain_def no_nul_def
  have s: "stmt_ok (Heading (ascii ''volume:'' @ a))" "stmt_ok (Setting (ascii ''path'') p)" "stmt_ok (Heading (ascii ''volume:'' @ b))"
    using assms(1,2,4-6) by (auto simp: ok)
  have n: "no_nul p" "no_nul (map toupper a)" "no_nul (map toupper b)" "length (map toupper a) < 16"
    using assms(1,2,4) by (auto simp: ok)
  have st: "cf_tmpvol conf_start = replicate 16 0" "cf_tmpath conf_start = replicate 256 0" "cf_volumes conf_start = vol_init"
    by (simp_all add: conf_start_def)
  have l1: "conf_line pw gr (stmt_line (Heading (ascii ''volume:'' @ a))) (None, conf_start) =
      ok (Some SecVolume, conf_start\<lparr>cf_tmpvol := a @ 0 # r\<rparr>)"
    using volume_heading [OF assms(1), of "conf_start\<lparr>cf_tmpvol := first_zero (cf_tmpvol conf_start)\<rparr>"] la
    by (simp only: line_stmt [OF s(1)]) (simp add: end_section_def first_zero_def st r_def)
  have pt: "conf_lookup_volume (ascii ''path'') = Some VPath" by code_simp
  have l2: "conf_line pw gr (stmt_line (Setting (ascii ''path'') p)) (Some SecVolume, conf_start\<lparr>cf_tmpvol := a @ 0 # r\<rparr>) =
      ok (Some SecVolume, c2)"
    using assms(5) by (simp only: line_stmt [OF s(2)]) (simp add: apply_option_def pt conf_text_fits st q_def c2_def del: ascii_simps)
  note f = first_volume [OF n(2,4) n(1) assms(5)]
  have a1: "conf_add_vol c2 = ok c3"
    using add_vol_run [of a c2 r p q 0] assms(1,5) n(1) f(1) vols_ok_init vol_names_found [OF vols_ok_init n(2)]
    by (simp add: c2_def c3_def st volume_of_def)
  have l3: "conf_line pw gr (stmt_line (Heading (ascii ''volume:'' @ b))) (Some SecVolume, c2) = ok (Some SecVolume, c4)"
    using volume_heading [OF assms(2), of "c3\<lparr>cf_tmpvol := first_zero (cf_tmpvol c3)\<rparr>"] la
    by (simp only: line_stmt [OF s(3)]) (simp add: end_section_def a1 c4_def first_zero_def r_def, simp add: c3_def first_zero_def r_def)
  have a2: "conf_add_vol c4 = ok (c4\<lparr>cf_tmpvol := map toupper b @ 0 # drop (Suc (length b)) (first_zero (map toupper a @ 0 # r)),
      cf_volumes := vol_init[0 := volume_of (map toupper a) p, Suc 0 := volume_of (map toupper b) p]\<rparr>)"
    using add_vol_run [OF assms(2), of c4 "drop (Suc (length b)) (first_zero (map toupper a @ 0 # r))" p q "Suc 0"] f assms(3,5) n(1)
      vol_names_found [OF f(2) n(3)]
    by (simp add: c4_def c3_def c2_def volume_of_def)
  show ?thesis
    using l1 l2 l3 a2 n la assms(5)
    by (simp add: two_volumes_def end_section_def vol_init_split volume_of_def zero_volume_def del: stmt_line.simps ascii_simps)
qed

lemma volume_inherits_path_witness:
  "\<exists>c. andthen (conf_lines (\<lambda>_. None) (\<lambda>_. None) (two_volumes (ascii ''sys'') (ascii ''/x'') (ascii ''data'')) (None, conf_start)) (\<lambda>(sec, c). end_section sec c) = ok c \<and>
    map (\<lambda>v. cstr (vol_path v)) (take 2 (cf_volumes c)) = [Some (ascii ''/x''), Some (ascii ''/x'')]"
proof -
  have "volume_text (ascii ''sys'')" "volume_text (ascii ''data'')" "map toupper (ascii ''sys'') \<noteq> map toupper (ascii ''data'')" "plain (ascii ''/x'')"
    by (simp_all add: volume_text_def plain_def)
  from volume_inherits_path [OF this, of "\<lambda>_. None" "\<lambda>_. None"] show ?thesis by (auto simp del: ascii_simps) auto
qed

end
