(* ===== verification/Fr_Sql.thy ===== *)
theory Fr_Sql
  imports Fr_BinderyIO Fr_Config
begin

text \<open>
  What \<^verbatim>\<open>binderyio_mysql.c\<close> and \<^verbatim>\<open>binderyio_pgsql.c\<close> share: the text of statements, the conversion of the
  columns of a result, and the statements that differ in the quoting of names only. The database is not
  part of the sources: what it answers is an argument, a function of everything sent to it so far.
\<close>

abbreviation (input) SQL_MAX_QUERY_LENGTH :: nat where "SQL_MAX_QUERY_LENGTH \<equiv> 8192"

section \<open>Text\<close>

fun decimal :: "nat \<Rightarrow> bytes" where
  "decimal n = (if n < 10 then [of_nat (48 + n)] else decimal (n div 10) @ [of_nat (48 + n mod 10)])"

declare decimal.simps [simp del]

text \<open>\<^verbatim>\<open>%u\<close>\<close>

definition pr_u :: "'a :: len word \<Rightarrow> bytes" where
  "pr_u w = decimal (unat w)"

definition squoted :: "bytes \<Rightarrow> bytes" where
  "squoted s = 0x27 # s @ [0x27]"

text \<open>\<^verbatim>\<open>snprintf (query, SQL_MAX_QUERY_LENGTH, ...)\<close>\<close>

definition stmt :: "bytes list \<Rightarrow> bytes" where
  "stmt ts = take (SQL_MAX_QUERY_LENGTH - 1) (concat ts)"

section \<open>Columns\<close>

text \<open>\<^verbatim>\<open>atoi\<close>: 0 when there is no number, undefined when it is no \<^verbatim>\<open>int\<close>.\<close>

definition atoi :: "bytes \<Rightarrow> int option" where
  "atoi s = (case read_number 10 s of
     None \<Rightarrow> Some 0
   | Some (neg, n, _) \<Rightarrow> let i = (if neg then - int n else int n) in if fits_int i then Some i else None)"

text \<open>A row of a result; a column that is absent or null is a null pointer.\<close>

type_synonym row = "bytes option list"

definition col :: "row \<Rightarrow> nat \<Rightarrow> bytes option" where
  "col r i = (case load r i of Some (Some t) \<Rightarrow> Some t | _ \<Rightarrow> None)"

definition col_int :: "row \<Rightarrow> nat \<Rightarrow> int option" where
  "col_int r i = do { t \<leftarrow> col r i; atoi t }"

definition zero_obj :: bindery_obj where
  "zero_obj = \<lparr>ob_id = 0, ob_type = 0, ob_name = replicate 48 0, ob_flags = 0, ob_security = 0, ob_prop_id = 0\<rparr>"

definition zero_prop :: bindery_prop where
  "zero_prop = \<lparr>pr_id = 0, pr_name = replicate 16 0, pr_flags = 0, pr_security = 0, pr_object_id = 0, pr_value_id = 0, pr_next_id = 0\<rparr>"

text \<open>The structures filled from a row. Names are cut to 15 characters.\<close>

definition row_object :: "row \<Rightarrow> bindery_obj option" where
  "row_object r = do {
     i \<leftarrow> col_int r 0; t \<leftarrow> col_int r 1; name \<leftarrow> col r 2; f \<leftarrow> col_int r 3; s \<leftarrow> col_int r 4;
     Some (zero_obj\<lparr>ob_id := of_int i, ob_type := of_int t, ob_name := mkbuf 48 (take 15 name),
       ob_flags := of_int f, ob_security := of_int s, ob_prop_id := 0\<rparr>)
   }"

definition row_prop :: "row \<Rightarrow> bindery_prop option" where
  "row_prop r = do {
     i \<leftarrow> col_int r 0; name \<leftarrow> col r 1; f \<leftarrow> col_int r 2; s \<leftarrow> col_int r 3; ob \<leftarrow> col_int r 4; v \<leftarrow> col_int r 5;
     Some (zero_prop\<lparr>pr_id := of_int i, pr_name := mkbuf 16 (take 15 name), pr_flags := of_int f, pr_security := of_int s,
       pr_object_id := of_int ob, pr_value_id := of_int v\<rparr>)
   }"

section \<open>Statements\<close>

definition sel_object :: bytes where
  "sel_object = ascii ''SELECT id,type,name,flags,security FROM object''"

definition sel_prop :: bytes where
  "sel_prop = ascii ''SELECT id,name,flags,security,objectid,valueid FROM prop''"

definition q_object :: "bytes \<Rightarrow> u16 \<Rightarrow> bytes" where
  "q_object quoted type = stmt [sel_object, ascii '' WHERE name='', squoted quoted, ascii '' AND type='', squoted (pr_u type)]"

definition q_object_id :: "u32 \<Rightarrow> bytes" where
  "q_object_id i = stmt [sel_object, ascii '' WHERE id='', pr_u i]"

definition q_propid :: "u32 \<Rightarrow> bytes" where
  "q_propid i = stmt [sel_prop, ascii '' WHERE id='', pr_u i]"

definition q_prop :: "u32 \<Rightarrow> bytes \<Rightarrow> bytes" where
  "q_prop objid quoted = stmt [sel_prop, ascii '' WHERE objectid='', pr_u objid, ascii '' AND name='', squoted quoted]"

definition q_value :: "u32 \<Rightarrow> bytes" where
  "q_value i = stmt [ascii ''SELECT propid,nextid,size,data FROM value WHERE id='', pr_u i]"

definition q_delete :: "string \<Rightarrow> string \<Rightarrow> u32 \<Rightarrow> bytes" where
  "q_delete table column i = stmt [ascii ''DELETE FROM '', ascii table, ascii '' WHERE '', ascii column, ascii ''='', pr_u i]"

definition q_link_value :: "u32 \<Rightarrow> u32 \<Rightarrow> bytes" where
  "q_link_value propid i = stmt [ascii ''UPDATE value SET propid='', pr_u propid, ascii '' WHERE id='', pr_u i]"

text \<open>
  The search for the next object. Each condition is printed behind the ones before, with \<^verbatim>\<open>query\<close> both the
  destination and an argument of \<^verbatim>\<open>snprintf\<close>; as with the C libraries the program is written for, this appends.
\<close>

definition q_append :: "bytes \<Rightarrow> bytes list \<Rightarrow> bytes" where
  "q_append query ts = stmt (query # ts)"

definition q_connect :: "nat \<Rightarrow> bytes \<Rightarrow> bytes" where
  "q_connect i query = q_append query [if i = 0 then ascii '' WHERE'' else ascii '' AND'']"

definition q_wild :: "bytes \<Rightarrow> bytes \<Rightarrow> u16 \<Rightarrow> u32 \<Rightarrow> bytes" where
  "q_wild objname quoted type last_obj =
     (let q0 = stmt [sel_object];
          (i1, q1) = (if last_obj \<noteq> 0xffffffff then (1, q_append q0 [ascii '' WHERE (id>'', pr_u last_obj, ascii '')'']) else (0, q0));
          (i2, q2) = (if objname \<noteq> ascii ''*'' then (1, q_append (q_connect i1 q1) [ascii '' (name LIKE '', squoted quoted, ascii '')'']) else (i1, q1));
          q3 = (if type \<noteq> 0xffff then q_append (q_connect i2 q2) [ascii '' (type='', pr_u type, ascii '')''] else q2)
      in q_append q3 [ascii '' LIMIT 1''])"

text \<open>\<^verbatim>\<open>bindio_change_object\<close>: both modules report success and do nothing.\<close>

definition bindio_change_object_sql :: "u32 \<Rightarrow> u32 \<Rightarrow> bytes option \<Rightarrow> 's \<Rightarrow> u8 \<times> 's" where
  "bindio_change_object_sql objid new_objid new_name s = (BINDERY_ERROR_OK, s)"

section \<open>Connecting\<close>

text \<open>
  \<^verbatim>\<open>bindio_open\<close>: \<open>connects\<close> says whether the database accepts host, user, password and database. The password
  is cleared once it has served.
\<close>

definition bindio_open_my :: "(bytes \<Rightarrow> bytes \<Rightarrow> bytes \<Rightarrow> bytes \<Rightarrow> bool) \<Rightarrow> config \<Rightarrow> (int \<times> config) option" where
  "bindio_open_my connects c = do {
     h \<leftarrow> cstr (cf_sql_hostname c); u \<leftarrow> cstr (cf_sql_username c); p \<leftarrow> cstr (cf_sql_password c); d \<leftarrow> cstr (cf_sql_database c);
     Some (if connects h u p d then (0, c\<lparr>cf_sql_password := replicate CONFIG_MAX_SQL_LEN 0\<rparr>) else (-1, c))
   }"

text \<open>PostgreSQL is given no host for \<^verbatim>\<open>localhost\<close>.\<close>

definition bindio_open_pg :: "(bytes option \<Rightarrow> bytes \<Rightarrow> bytes \<Rightarrow> bytes \<Rightarrow> bool) \<Rightarrow> config \<Rightarrow> (int \<times> config) option" where
  "bindio_open_pg connects c = do {
     h \<leftarrow> cstr (cf_sql_hostname c); u \<leftarrow> cstr (cf_sql_username c); p \<leftarrow> cstr (cf_sql_password c); d \<leftarrow> cstr (cf_sql_database c);
     Some (if connects (if strcaseeq h (ascii ''localhost'') then None else Some h) u p d
           then (0, c\<lparr>cf_sql_password := replicate CONFIG_MAX_SQL_LEN 0\<rparr>) else (-1, c))
   }"

end
