(* ===== verification/Fr_Mysql.thy ===== *)
theory Fr_Mysql
  imports Fr_Sql
begin

text \<open>
  \<^verbatim>\<open>src/server/binderyio_mysql.c\<close>. The state is the list of the statements sent, the latest first. The client
  library is the record \<open>mysql\<close>: whether the latest statement succeeded, the rows it gave (\<open>None\<close> for a
  null result), the number of the row it inserted, and the quoting of strings. \<open>None\<close> as the result of an
  operation is a null pointer followed or an array overrun.
\<close>

type_synonym my_log = "bytes list"

record mysql =
  my_ok :: "my_log \<Rightarrow> bool"
  my_rows :: "my_log \<Rightarrow> row list option"
  my_insert_id :: "my_log \<Rightarrow> u32"
  my_escape :: "bytes \<Rightarrow> bytes"

section \<open>Queries\<close>

definition bindio_do_query_my :: "mysql \<Rightarrow> bytes \<Rightarrow> my_log \<Rightarrow> int \<times> my_log" where
  "bindio_do_query_my m query l = (if my_ok m (query # l) then 0 else -1, query # l)"

text \<open>The row of a query that gives exactly one.\<close>

definition one_row_my :: "mysql \<Rightarrow> bytes \<Rightarrow> my_log \<Rightarrow> row option \<times> my_log" where
  "one_row_my m query l =
     (case bindio_do_query_my m query l of (r, l1) \<Rightarrow>
        if r < 0 then (None, l1)
        else (case my_rows m l1 of
                None \<Rightarrow> (None, l1)
              | Some rows \<Rightarrow> (if length rows \<noteq> 1 then None else Some (hd rows), l1)))"

definition bindio_handle_prop_query_my :: "mysql \<Rightarrow> bytes \<Rightarrow> bool \<Rightarrow> my_log \<Rightarrow> (bindery_prop option \<times> my_log) option" where
  "bindio_handle_prop_query_my m query wanted l =
     (case one_row_my m query l of
        (None, l1) \<Rightarrow> Some (None, l1)
      | (Some r, l1) \<Rightarrow> if wanted then do { p \<leftarrow> row_prop r; Some (Some p, l1) } else Some (Some zero_prop, l1))"

definition bindio_handle_object_query_my :: "mysql \<Rightarrow> bytes \<Rightarrow> bool \<Rightarrow> my_log \<Rightarrow> (bindery_obj option \<times> my_log) option" where
  "bindio_handle_object_query_my m query wanted l =
     (case one_row_my m query l of
        (None, l1) \<Rightarrow> Some (None, l1)
      | (Some r, l1) \<Rightarrow> if wanted then do { ob \<leftarrow> row_object r; Some (Some ob, l1) } else Some (Some zero_obj, l1))"

text \<open>The quoted text, in an array of \<^verbatim>\<open>SQL_MAX_QUERY_LENGTH + 1\<close> characters.\<close>

definition quote_my :: "mysql \<Rightarrow> bytes \<Rightarrow> bytes option" where
  "quote_my m s = (if length (my_escape m s) \<le> SQL_MAX_QUERY_LENGTH then Some (takeWhile (\<lambda>c. c \<noteq> 0) (my_escape m s)) else None)"

section \<open>Lookups\<close>

definition bindio_prop_seek_my :: "mysql \<Rightarrow> u32 \<Rightarrow> bool \<Rightarrow> my_log \<Rightarrow> (bindery_prop option \<times> my_log) option" where
  "bindio_prop_seek_my m i wanted l = bindio_handle_prop_query_my m (q_propid i) wanted l"

definition bindio_scan_object_my :: "mysql \<Rightarrow> bytes \<Rightarrow> u16 \<Rightarrow> bool \<Rightarrow> my_log \<Rightarrow> (bindery_obj option \<times> my_log) option" where
  "bindio_scan_object_my m objname type wanted l = do {
     temp \<leftarrow> quote_my m objname;
     bindio_handle_object_query_my m (q_object temp type) wanted l
   }"

definition bindio_scan_object_by_id_my :: "mysql \<Rightarrow> u32 \<Rightarrow> bool \<Rightarrow> my_log \<Rightarrow> (bindery_obj option \<times> my_log) option" where
  "bindio_scan_object_by_id_my m objid wanted l = bindio_handle_object_query_my m (q_object_id objid) wanted l"

definition bindio_scan_propid_my :: "mysql \<Rightarrow> u32 \<Rightarrow> bool \<Rightarrow> my_log \<Rightarrow> (bindery_prop option \<times> my_log) option" where
  "bindio_scan_propid_my m propid wanted l = bindio_handle_prop_query_my m (q_propid propid) wanted l"

definition bindio_scan_prop_my :: "mysql \<Rightarrow> u32 \<Rightarrow> bytes \<Rightarrow> bool \<Rightarrow> my_log \<Rightarrow> (bindery_prop option \<times> my_log) option" where
  "bindio_scan_prop_my m objid propname wanted l = do {
     temp \<leftarrow> quote_my m propname;
     bindio_handle_prop_query_my m (q_prop objid temp) wanted l
   }"

definition bindio_scan_object_wild_my :: "mysql \<Rightarrow> bytes \<Rightarrow> u16 \<Rightarrow> u32 \<Rightarrow> my_log \<Rightarrow> (bindery_obj option \<times> my_log) option" where
  "bindio_scan_object_wild_my m objname type last_obj l = do {
     temp \<leftarrow> quote_my m objname;
     bindio_handle_object_query_my m (q_wild objname temp type last_obj) True l
   }"

text \<open>The data of a value are the first 128 bytes of the column.\<close>

definition row_value_my :: "u32 \<Rightarrow> row \<Rightarrow> bindery_val option" where
  "row_value_my valid r = do {
     p \<leftarrow> col_int r 0; n \<leftarrow> col_int r 1; z \<leftarrow> col_int r 2; d \<leftarrow> col r 3;
     (if length d < 128 then None
      else Some \<lparr>vl_id = valid, vl_prop_id = of_int p, vl_next_id = of_int n, vl_size = of_int z, vl_data = take 128 d\<rparr>)
   }"

definition bindio_scan_val_my :: "mysql \<Rightarrow> u32 \<Rightarrow> my_log \<Rightarrow> (bindery_val option \<times> my_log) option" where
  "bindio_scan_val_my m valid l =
     (case one_row_my m (q_value valid) l of
        (None, l1) \<Rightarrow> Some (None, l1)
      | (Some r, l1) \<Rightarrow> do { v \<leftarrow> row_value_my valid r; Some (Some v, l1) })"

definition bindio_read_prop_my ::
  "mysql \<Rightarrow> u32 \<Rightarrow> bytes \<Rightarrow> u8 \<Rightarrow> my_log \<Rightarrow> ((u8 + bindery_val \<times> bindery_prop) \<times> my_log) option" where
  "bindio_read_prop_my m objid propname segno l = do {
     (x, l1) \<leftarrow> bindio_scan_prop_my m objid propname True l;
     (case x of
        None \<Rightarrow> Some (Inl BINDERY_ERROR_NOSUCHPROPERTY, l1)
      | Some p \<Rightarrow> do {
          (y, l2) \<leftarrow> bindio_scan_val_my m (pr_value_id p) l1;
          (case y of None \<Rightarrow> Some (Inl BINDERY_ERROR_NOSUCHPROPERTY, l2) | Some v \<Rightarrow> Some (Inr (v, p), l2))
        })
   }"

section \<open>Changes\<close>

definition bindio_add_object_my ::
  "mysql \<Rightarrow> bytes \<Rightarrow> u16 \<Rightarrow> u8 \<Rightarrow> u8 \<Rightarrow> my_log \<Rightarrow> ((u8 + u32) \<times> my_log) option" where
  "bindio_add_object_my m objname type flags security l = do {
     temp \<leftarrow> quote_my m objname;
     (x, l1) \<leftarrow> bindio_scan_object_my m objname type False l;
     (if x \<noteq> None then Some (Inl BINDERY_ERROR_OBJEXISTS, l1)
      else (case bindio_do_query_my m
              (stmt [ascii ''INSERT INTO object VALUES (NULL,'', pr_u type, ascii '','', squoted temp, ascii '','', pr_u flags, ascii '','', pr_u security, ascii '')'']) l1
            of (r, l2) \<Rightarrow> Some (if r = 0 then Inr (my_insert_id m l2) else Inl BINDERY_ERROR_IOERROR, l2)))
   }"

text \<open>Without data, 128 zero bytes are stored.\<close>

definition bindio_add_prop_my ::
  "mysql \<Rightarrow> u32 \<Rightarrow> bytes \<Rightarrow> u8 \<Rightarrow> u8 \<Rightarrow> bytes option \<Rightarrow> my_log \<Rightarrow> ((u8 + u32) \<times> my_log) option" where
  "bindio_add_prop_my m objid propname flags security data l = do {
     (x, l1) \<leftarrow> bindio_scan_object_by_id_my m objid True l;
     (if x = None then Some (Inl BINDERY_ERROR_NOSUCHOBJECT, l1)
      else do {
        (y, l2) \<leftarrow> bindio_scan_prop_my m objid propname False l1;
        (if y \<noteq> None then Some (Inl BINDERY_ERROR_PROPEXISTS, l2)
         else do {
           d \<leftarrow> (case data of None \<Rightarrow> Some (replicate 128 0) | Some d \<Rightarrow> if length d < 128 then None else Some (take 128 d));
           temp \<leftarrow> quote_my m d;
           (case bindio_do_query_my m (stmt [ascii ''INSERT INTO value VALUES (NULL,-1,-1,1,'', squoted (pr_u objid), ascii '','', squoted temp, ascii '')'']) l2 of (r, l3) \<Rightarrow>
              if r < 0 then Some (Inl BINDERY_ERROR_IOERROR, l3)
              else do {
                let value_id = my_insert_id m l3;
                name \<leftarrow> quote_my m propname;
                (case bindio_do_query_my m
                   (stmt [ascii ''INSERT INTO prop VALUES (NULL,'', squoted name, ascii '','', pr_u flags, ascii '','', pr_u security, ascii '','', pr_u objid, ascii '','', pr_u value_id, ascii '')'']) l3 of (r, l4) \<Rightarrow>
                   if r < 0 then Some (Inl BINDERY_ERROR_IOERROR, snd (bindio_do_query_my m (q_delete ''value'' ''id'' value_id) l4))
                   else (let pid = my_insert_id m l4 in
                     case bindio_do_query_my m (q_link_value pid value_id) l4 of (r, l5) \<Rightarrow>
                       if r < 0
                       then Some (Inl BINDERY_ERROR_IOERROR,
                         snd (bindio_do_query_my m (q_delete ''prop'' ''id'' pid) (snd (bindio_do_query_my m (q_delete ''value'' ''id'' value_id) l5))))
                       else Some (Inr pid, l5)))
              })
         })
      })
   }"

definition bindio_write_prop_my ::
  "mysql \<Rightarrow> u32 \<Rightarrow> bytes \<Rightarrow> u8 \<Rightarrow> u8 \<Rightarrow> bytes \<Rightarrow> my_log \<Rightarrow> (int \<times> my_log) option" where
  "bindio_write_prop_my m objid propname segno trunc dataval l = do {
     (x, l1) \<leftarrow> bindio_scan_prop_my m objid propname True l;
     (case x of
        None \<Rightarrow> Some (uint BINDERY_ERROR_NOSUCHPROPERTY, l1)
      | Some p \<Rightarrow>
          (if segno \<noteq> 1 \<or> trunc \<noteq> 0 then Some (uint BINDERY_ERROR_IOERROR, l1)
           else do {
             (y, l2) \<leftarrow> bindio_scan_val_my m (pr_value_id p) l1;
             (if y = None then Some (uint BINDERY_ERROR_NOSUCHPROPERTY, l2)
              else if length dataval < 128 then None
              else do {
                temp \<leftarrow> quote_my m (take 128 dataval);
                Some (bindio_do_query_my m (stmt [ascii ''UPDATE value SET data='', squoted temp, ascii '' WHERE id='', pr_u (pr_value_id p)]) l2)
              })
           }))
   }"

text \<open>A list of statements, up to the first that fails.\<close>

fun queries_my :: "mysql \<Rightarrow> bytes list \<Rightarrow> my_log \<Rightarrow> u8 \<times> my_log" where
  "queries_my m [] l = (BINDERY_ERROR_OK, l)"
| "queries_my m (q # qs) l =
     (case bindio_do_query_my m q l of (r, l1) \<Rightarrow> if r < 0 then (BINDERY_ERROR_IOERROR, l1) else queries_my m qs l1)"

definition bindio_delete_prop_my :: "mysql \<Rightarrow> u32 \<Rightarrow> my_log \<Rightarrow> (u8 \<times> my_log) option" where
  "bindio_delete_prop_my m propid l = do {
     (x, l1) \<leftarrow> bindio_scan_propid_my m propid True l;
     (case x of
        None \<Rightarrow> Some (BINDERY_ERROR_NOSUCHPROPERTY, l1)
      | Some p \<Rightarrow> Some (queries_my m [q_delete ''value'' ''id'' (pr_value_id p), q_delete ''prop'' ''id'' propid] l1))
   }"

definition bindio_delete_obj_my :: "mysql \<Rightarrow> u32 \<Rightarrow> my_log \<Rightarrow> (u8 \<times> my_log) option" where
  "bindio_delete_obj_my m objid l = do {
     (x, l1) \<leftarrow> bindio_scan_object_by_id_my m objid True l;
     (if x = None then Some (BINDERY_ERROR_NOSUCHOBJECT, l1)
      else Some (queries_my m [q_delete ''prop'' ''objectid'' objid, q_delete ''value'' ''objectid'' objid, q_delete ''object'' ''id'' objid] l1))
   }"

definition bindio_truncate_my :: "mysql \<Rightarrow> my_log \<Rightarrow> my_log" where
  "bindio_truncate_my m l =
     snd (bindio_do_query_my m (stmt [ascii ''DELETE FROM value'']) (snd (bindio_do_query_my m (stmt [ascii ''DELETE FROM prop''])
       (snd (bindio_do_query_my m (stmt [ascii ''DELETE FROM object'']) l)))))"

section \<open>Printing\<close>

text \<open>Only the statements sent are kept of \<^verbatim>\<open>bindio_dump\<close>; a null result or column is followed as a pointer.\<close>

fun dump_props_my :: "row list \<Rightarrow> unit option" where
  "dump_props_my [] = Some ()"
| "dump_props_my (r # rs) = do { i \<leftarrow> col_int r 0; name \<leftarrow> col r 1; s \<leftarrow> col_int r 2; dump_props_my rs }"

fun dump_rows_my :: "mysql \<Rightarrow> row list \<Rightarrow> my_log \<Rightarrow> my_log option" where
  "dump_rows_my m [] l = Some l"
| "dump_rows_my m (r # rs) l = do {
     i \<leftarrow> col_int r 0; t \<leftarrow> col_int r 1; name \<leftarrow> col r 2; s \<leftarrow> col_int r 3;
     (case bindio_do_query_my m (stmt [ascii ''SELECT id,name,security FROM prop WHERE objectid='', pr_u (of_int i :: u32)]) l of (q, l1) \<Rightarrow>
        if q < 0 then dump_rows_my m rs l1
        else do { ps \<leftarrow> my_rows m l1; u \<leftarrow> dump_props_my ps; dump_rows_my m rs l1 })
   }"

definition bindio_dump_my :: "mysql \<Rightarrow> my_log \<Rightarrow> my_log option" where
  "bindio_dump_my m l =
     (case bindio_do_query_my m (stmt [ascii ''SELECT id,type,name,security FROM object'']) l of (r, l1) \<Rightarrow>
        if r < 0 then Some l1 else do { rows \<leftarrow> my_rows m l1; dump_rows_my m rows l1 })"

end
