(* ===== verification/Fr_Pgsql.thy ===== *)
theory Fr_Pgsql
  imports Fr_Sql
begin

text \<open>
  \<^verbatim>\<open>src/server/binderyio_pgsql.c\<close>. The state is the list of the calls of the client library that reach the
  database, the latest first; the record \<open>pgsql\<close> says what the latest one answers: the rows of a query
  (\<open>None\<close> when it fails), the number a call on a large object returns, the bytes it reads. A null column is
  given as the empty string; one that is absent is a null pointer, which \<^verbatim>\<open>atoi\<close> follows (\<open>None\<close>).
\<close>

datatype pg_call = Query bytes | LoCreat | LoOpen u32 | LoWrite int bytes | LoRead int | LoClose int | LoUnlink u32

type_synonym pg_log = "pg_call list"

record pgsql =
  pg_rows :: "pg_log \<Rightarrow> bytes list list option"
  pg_int :: "pg_log \<Rightarrow> int"
  pg_data :: "pg_log \<Rightarrow> bytes option"

section \<open>Quoting\<close>

text \<open>\<^verbatim>\<open>sprintf (out, "%s...", out)\<close> appends to \<^verbatim>\<open>out\<close>, as in the libraries the program is written for.\<close>

definition octal :: "u8 \<Rightarrow> bytes" where
  "octal c = [of_nat (48 + unat c div 64), of_nat (48 + unat c div 8 mod 8), of_nat (48 + unat c mod 8)]"

fun PQescape_from :: "bytes \<Rightarrow> bytes \<Rightarrow> bytes" where
  "PQescape_from out [] = out"
| "PQescape_from out (c # cs) = PQescape_from (if c \<noteq> 0x5c then out @ 0x5c # octal c else out @ [0x5c, 0x5c]) cs"

definition PQescapeString :: "bytes \<Rightarrow> bytes" where
  "PQescapeString s = PQescape_from [] s"

text \<open>The quoted text, in an array of \<^verbatim>\<open>SQL_MAX_QUERY_LENGTH + 1\<close> characters.\<close>

definition quote_pg :: "bytes \<Rightarrow> bytes option" where
  "quote_pg s = (if length (PQescapeString s) \<le> SQL_MAX_QUERY_LENGTH then Some (PQescapeString s) else None)"

section \<open>Queries\<close>

definition bindio_do_query_res :: "pgsql \<Rightarrow> bytes \<Rightarrow> pg_log \<Rightarrow> bytes list list option \<times> pg_log" where
  "bindio_do_query_res d query l = (pg_rows d (Query query # l), Query query # l)"

definition bindio_do_query_pg :: "pgsql \<Rightarrow> bytes \<Rightarrow> pg_log \<Rightarrow> int \<times> pg_log" where
  "bindio_do_query_pg d query l = (if pg_rows d (Query query # l) \<noteq> None then 0 else -1, Query query # l)"

definition bindio_begin_trans :: "pgsql \<Rightarrow> pg_log \<Rightarrow> pg_log" where
  "bindio_begin_trans d l = snd (bindio_do_query_pg d (ascii ''BEGIN'') l)"

definition bindio_end_trans :: "pgsql \<Rightarrow> pg_log \<Rightarrow> pg_log" where
  "bindio_end_trans d l = snd (bindio_do_query_pg d (ascii ''COMMIT'') l)"

definition one_row_pg :: "pgsql \<Rightarrow> bytes \<Rightarrow> pg_log \<Rightarrow> row option \<times> pg_log" where
  "one_row_pg d query l =
     (case bindio_do_query_res d query l of
        (None, l1) \<Rightarrow> (None, l1)
      | (Some rows, l1) \<Rightarrow> (if length rows \<noteq> 1 then None else Some (map Some (hd rows)), l1))"

text \<open>\<^verbatim>\<open>atoi (PQgetvalue (res, 0, 0))\<close>\<close>

definition first_int :: "bytes list list \<Rightarrow> int option" where
  "first_int rows = do { r \<leftarrow> load rows 0; col_int (map Some r) 0 }"

definition bindio_handle_prop_query_pg :: "pgsql \<Rightarrow> bytes \<Rightarrow> bool \<Rightarrow> pg_log \<Rightarrow> (bindery_prop option \<times> pg_log) option" where
  "bindio_handle_prop_query_pg d query wanted l =
     (case one_row_pg d query l of
        (None, l1) \<Rightarrow> Some (None, l1)
      | (Some r, l1) \<Rightarrow> if wanted then do { p \<leftarrow> row_prop r; Some (Some p, l1) } else Some (Some zero_prop, l1))"

definition bindio_handle_object_query_pg :: "pgsql \<Rightarrow> bytes \<Rightarrow> bool \<Rightarrow> pg_log \<Rightarrow> (bindery_obj option \<times> pg_log) option" where
  "bindio_handle_object_query_pg d query wanted l =
     (case one_row_pg d query l of
        (None, l1) \<Rightarrow> Some (None, l1)
      | (Some r, l1) \<Rightarrow> if wanted then do { ob \<leftarrow> row_object r; Some (Some ob, l1) } else Some (Some zero_obj, l1))"

section \<open>Lookups\<close>

definition bindio_prop_seek_pg :: "pgsql \<Rightarrow> u32 \<Rightarrow> bool \<Rightarrow> pg_log \<Rightarrow> (bindery_prop option \<times> pg_log) option" where
  "bindio_prop_seek_pg d i wanted l = bindio_handle_prop_query_pg d (q_propid i) wanted l"

definition bindio_scan_object_pg :: "pgsql \<Rightarrow> bytes \<Rightarrow> u16 \<Rightarrow> bool \<Rightarrow> pg_log \<Rightarrow> (bindery_obj option \<times> pg_log) option" where
  "bindio_scan_object_pg d objname type wanted l = do {
     temp \<leftarrow> quote_pg objname;
     bindio_handle_object_query_pg d (q_object temp type) wanted l
   }"

definition bindio_scan_object_by_id_pg :: "pgsql \<Rightarrow> u32 \<Rightarrow> bool \<Rightarrow> pg_log \<Rightarrow> (bindery_obj option \<times> pg_log) option" where
  "bindio_scan_object_by_id_pg d objid wanted l = bindio_handle_object_query_pg d (q_object_id objid) wanted l"

definition bindio_scan_propid_pg :: "pgsql \<Rightarrow> u32 \<Rightarrow> bool \<Rightarrow> pg_log \<Rightarrow> (bindery_prop option \<times> pg_log) option" where
  "bindio_scan_propid_pg d propid wanted l = bindio_handle_prop_query_pg d (q_propid propid) wanted l"

definition bindio_scan_prop_pg :: "pgsql \<Rightarrow> u32 \<Rightarrow> bytes \<Rightarrow> bool \<Rightarrow> pg_log \<Rightarrow> (bindery_prop option \<times> pg_log) option" where
  "bindio_scan_prop_pg d objid propname wanted l = do {
     temp \<leftarrow> quote_pg propname;
     bindio_handle_prop_query_pg d (q_prop objid temp) wanted l
   }"

definition bindio_scan_object_wild_pg :: "pgsql \<Rightarrow> bytes \<Rightarrow> u16 \<Rightarrow> u32 \<Rightarrow> pg_log \<Rightarrow> (bindery_obj option \<times> pg_log) option" where
  "bindio_scan_object_wild_pg d objname type last_obj l = do {
     temp \<leftarrow> quote_pg objname;
     bindio_handle_object_query_pg d (q_wild objname temp type last_obj) True l
   }"

text \<open>The data of a value are in a large object, read within a transaction.\<close>

definition lo_data :: "pgsql \<Rightarrow> u32 \<Rightarrow> pg_log \<Rightarrow> bytes option \<times> pg_log" where
  "lo_data d oid l =
     (let l1 = LoOpen oid # bindio_begin_trans d l; fd = pg_int d l1
      in if fd < 0 then (None, bindio_end_trans d l1)
         else let l2 = LoRead fd # l1; l3 = bindio_end_trans d (LoClose fd # l2)
              in case pg_data d l2 of
                   None \<Rightarrow> (None, l3)
                 | Some t \<Rightarrow> (if length t < 128 then None else Some (take 128 t), l3))"

definition bindio_scan_val_pg :: "pgsql \<Rightarrow> u32 \<Rightarrow> pg_log \<Rightarrow> (bindery_val option \<times> pg_log) option" where
  "bindio_scan_val_pg d valid l =
     (case one_row_pg d (q_value valid) l of
        (None, l1) \<Rightarrow> Some (None, l1)
      | (Some r, l1) \<Rightarrow> do {
          p \<leftarrow> col_int r 0; n \<leftarrow> col_int r 1; z \<leftarrow> col_int r 2; oid \<leftarrow> col_int r 3;
          (case lo_data d (of_int oid) l1 of
             (None, l2) \<Rightarrow> Some (None, l2)
           | (Some t, l2) \<Rightarrow> Some (Some \<lparr>vl_id = valid, vl_prop_id = of_int p, vl_next_id = of_int n, vl_size = of_int z, vl_data = t\<rparr>, l2))
        })"

definition bindio_read_prop_pg ::
  "pgsql \<Rightarrow> u32 \<Rightarrow> bytes \<Rightarrow> u8 \<Rightarrow> pg_log \<Rightarrow> ((u8 + bindery_val \<times> bindery_prop) \<times> pg_log) option" where
  "bindio_read_prop_pg d objid propname segno l = do {
     (x, l1) \<leftarrow> bindio_scan_prop_pg d objid propname True l;
     (case x of
        None \<Rightarrow> Some (Inl BINDERY_ERROR_NOSUCHPROPERTY, l1)
      | Some p \<Rightarrow> do {
          (y, l2) \<leftarrow> bindio_scan_val_pg d (pr_value_id p) l1;
          (case y of None \<Rightarrow> Some (Inl BINDERY_ERROR_NOSUCHPROPERTY, l2) | Some v \<Rightarrow> Some (Inr (v, p), l2))
        })
   }"

section \<open>Changes\<close>

text \<open>The number of the row just inserted, from the sequence of its table.\<close>

definition current_id :: "pgsql \<Rightarrow> string \<Rightarrow> pg_log \<Rightarrow> (u32 option \<times> pg_log) option" where
  "current_id d table l =
     (case bindio_do_query_res d (stmt [ascii ''SELECT CURRVAL('', squoted (ascii table @ ascii ''_id_seq''), ascii '')'']) l of
        (None, l1) \<Rightarrow> Some (None, l1)
      | (Some rows, l1) \<Rightarrow> do { i \<leftarrow> first_int rows; Some (Some (of_int i), l1) })"

definition bindio_add_object_pg ::
  "pgsql \<Rightarrow> bytes \<Rightarrow> u16 \<Rightarrow> u8 \<Rightarrow> u8 \<Rightarrow> pg_log \<Rightarrow> ((u8 + u32) \<times> pg_log) option" where
  "bindio_add_object_pg d objname type flags security l = do {
     temp \<leftarrow> quote_pg objname;
     (x, l1) \<leftarrow> bindio_scan_object_pg d objname type False l;
     (if x \<noteq> None then Some (Inl BINDERY_ERROR_OBJEXISTS, l1)
      else (case bindio_do_query_pg d
              (stmt [ascii ''INSERT INTO object VALUES (NEXTVAL('', squoted (ascii ''object_id_seq''), ascii ''),'', pr_u type, ascii '','', squoted temp, ascii '','', pr_u flags, ascii '','', pr_u security, ascii '')'']) l1 of (r, l2) \<Rightarrow>
        if r \<noteq> 0 then Some (Inl BINDERY_ERROR_IOERROR, l2)
        else do {
          (i, l3) \<leftarrow> current_id d ''object'' l2;
          Some (case i of None \<Rightarrow> Inl BINDERY_ERROR_IOERROR | Some i \<Rightarrow> Inr i, l3)
        }))
   }"

text \<open>
  The large object of a new value: created, opened and written in a transaction, which ends only when
  all went well. The result of \<^verbatim>\<open>lo_open\<close> is not looked at.
\<close>

definition lo_new :: "pgsql \<Rightarrow> bytes \<Rightarrow> pg_log \<Rightarrow> u32 option \<times> pg_log" where
  "lo_new d t l =
     (let l1 = LoCreat # bindio_begin_trans d l; oid = of_int (pg_int d l1)
      in if oid = 0 then (None, l1)
         else let l2 = LoOpen oid # l1; fd = pg_int d l2; l3 = LoWrite fd t # l2
              in if pg_int d l3 < 128 then (None, l3) else (Some oid, bindio_end_trans d (LoClose fd # l3)))"

definition bindio_add_prop_pg ::
  "pgsql \<Rightarrow> u32 \<Rightarrow> bytes \<Rightarrow> u8 \<Rightarrow> u8 \<Rightarrow> bytes option \<Rightarrow> pg_log \<Rightarrow> ((u8 + u32) \<times> pg_log) option" where
  "bindio_add_prop_pg d objid propname flags security data l = do {
     (x, l1) \<leftarrow> bindio_scan_object_by_id_pg d objid True l;
     (if x = None then Some (Inl BINDERY_ERROR_NOSUCHOBJECT, l1)
      else do {
        (y, l2) \<leftarrow> bindio_scan_prop_pg d objid propname False l1;
        (if y \<noteq> None then Some (Inl BINDERY_ERROR_PROPEXISTS, l2)
         else do {
           t \<leftarrow> (case data of None \<Rightarrow> Some (replicate 128 0) | Some t \<Rightarrow> if length t < 128 then None else Some (take 128 t));
           (case lo_new d t l2 of
              (None, l3) \<Rightarrow> Some (Inl BINDERY_ERROR_IOERROR, l3)
            | (Some oid, l3) \<Rightarrow>
                (case bindio_do_query_res d
                   (stmt [ascii ''INSERT INTO value VALUES (NEXTVAL ('', squoted (ascii ''value_id_seq''), ascii ''),-1,-1,1,'', squoted (pr_u objid), ascii '','', squoted (pr_u oid), ascii '')'']) l3 of
                   (None, l4) \<Rightarrow> Some (Inl BINDERY_ERROR_IOERROR, l4)
                 | (Some _, l4) \<Rightarrow> do {
                     (vi, l5) \<leftarrow> current_id d ''value'' l4;
                     (case vi of
                        None \<Rightarrow> Some (Inl BINDERY_ERROR_IOERROR, l5)
                      | Some value_id \<Rightarrow> do {
                          name \<leftarrow> quote_pg propname;
                          (case bindio_do_query_res d
                             (stmt [ascii ''INSERT INTO prop VALUES (NEXTVAL ('', squoted (ascii ''prop_id_seq''), ascii ''),'', squoted name, ascii '','', pr_u flags, ascii '','', pr_u security, ascii '','', pr_u objid, ascii '','', pr_u value_id, ascii '')'']) l5 of
                             (None, l6) \<Rightarrow> Some (Inl BINDERY_ERROR_IOERROR, snd (bindio_do_query_pg d (q_delete ''value'' ''id'' value_id) l6))
                           | (Some _, l6) \<Rightarrow> do {
                               (pi, l7) \<leftarrow> current_id d ''prop'' l6;
                               (case pi of
                                  None \<Rightarrow> Some (Inl BINDERY_ERROR_IOERROR, l7)
                                | Some pid \<Rightarrow>
                                    (case bindio_do_query_pg d (q_link_value pid value_id) l7 of (r, l8) \<Rightarrow>
                                       if r < 0
                                       then Some (Inl BINDERY_ERROR_IOERROR,
                                         snd (bindio_do_query_pg d (q_delete ''prop'' ''id'' pid) (snd (bindio_do_query_pg d (q_delete ''value'' ''id'' value_id) l8))))
                                       else Some (Inr pid, l8)))
                             })
                        })
                   }))
         })
      })
   }"

text \<open>The text quoted from the new data is not used, but it has to fit.\<close>

definition bindio_write_prop_pg ::
  "pgsql \<Rightarrow> u32 \<Rightarrow> bytes \<Rightarrow> u8 \<Rightarrow> u8 \<Rightarrow> bytes \<Rightarrow> pg_log \<Rightarrow> (u8 \<times> pg_log) option" where
  "bindio_write_prop_pg d objid propname segno trunc dataval l = do {
     (x, l1) \<leftarrow> bindio_scan_prop_pg d objid propname True l;
     (case x of
        None \<Rightarrow> Some (BINDERY_ERROR_NOSUCHPROPERTY, l1)
      | Some p \<Rightarrow>
          (if segno \<noteq> 1 \<or> trunc \<noteq> 0 then Some (BINDERY_ERROR_IOERROR, l1)
           else do {
             (y, l2) \<leftarrow> bindio_scan_val_pg d (pr_value_id p) l1;
             (if y = None then Some (BINDERY_ERROR_NOSUCHPROPERTY, l2)
              else if length dataval < 128 then None
              else do {
                temp \<leftarrow> quote_pg (take 128 dataval);
                (case bindio_do_query_res d (stmt [ascii ''SELECT data FROM value WHERE id='', pr_u (pr_value_id p)]) l2 of
                   (None, l3) \<Rightarrow> Some (BINDERY_ERROR_NOSUCHPROPERTY, l3)
                 | (Some rows, l3) \<Rightarrow> do {
                     oid \<leftarrow> first_int rows;
                     let l4 = LoOpen (of_int oid) # bindio_begin_trans d l3;
                     let fd = pg_int d l4;
                     (if fd < 0 then Some (BINDERY_ERROR_IOERROR, LoClose fd # l4)
                      else let l5 = LoWrite fd (take 128 dataval) # l4
                           in if pg_int d l5 < 128 then Some (BINDERY_ERROR_IOERROR, LoClose fd # l5)
                              else Some (BINDERY_ERROR_OK, bindio_end_trans d (LoClose fd # l5)))
                   })
              })
           }))
   }"

text \<open>A list of statements, up to the first that fails.\<close>

fun queries_pg :: "pgsql \<Rightarrow> bytes list \<Rightarrow> pg_log \<Rightarrow> u8 \<times> pg_log" where
  "queries_pg d [] l = (BINDERY_ERROR_OK, l)"
| "queries_pg d (q # qs) l =
     (case bindio_do_query_pg d q l of (r, l1) \<Rightarrow> if r < 0 then (BINDERY_ERROR_IOERROR, l1) else queries_pg d qs l1)"

definition bindio_delete_prop_pg :: "pgsql \<Rightarrow> u32 \<Rightarrow> pg_log \<Rightarrow> (u8 \<times> pg_log) option" where
  "bindio_delete_prop_pg d propid l = do {
     (x, l1) \<leftarrow> bindio_scan_propid_pg d propid True l;
     (case x of
        None \<Rightarrow> Some (BINDERY_ERROR_NOSUCHPROPERTY, l1)
      | Some p \<Rightarrow> do {
          l2 \<leftarrow> (case bindio_do_query_res d (stmt [ascii ''SELECT data FROM value WHERE id='', pr_u (pr_value_id p)]) l1 of
                  (None, l2) \<Rightarrow> Some l2
                | (Some rows, l2) \<Rightarrow> do { oid \<leftarrow> first_int rows; Some (LoUnlink (of_int oid) # l2) });
          Some (queries_pg d [q_delete ''value'' ''id'' (pr_value_id p), q_delete ''prop'' ''id'' propid] l2)
        })
   }"

definition bindio_delete_obj_pg :: "pgsql \<Rightarrow> u32 \<Rightarrow> pg_log \<Rightarrow> (u8 \<times> pg_log) option" where
  "bindio_delete_obj_pg d objid l = do {
     (x, l1) \<leftarrow> bindio_scan_object_by_id_pg d objid True l;
     (if x = None then Some (BINDERY_ERROR_NOSUCHOBJECT, l1)
      else Some (queries_pg d [q_delete ''prop'' ''objectid'' objid, q_delete ''value'' ''objectid'' objid, q_delete ''object'' ''id'' objid] l1))
   }"

definition bindio_truncate_pg :: "pgsql \<Rightarrow> pg_log \<Rightarrow> pg_log" where
  "bindio_truncate_pg d l =
     snd (bindio_do_query_pg d (stmt [ascii ''DELETE FROM value'']) (snd (bindio_do_query_pg d (stmt [ascii ''DELETE FROM prop''])
       (snd (bindio_do_query_pg d (stmt [ascii ''DELETE FROM object'']) l)))))"

section \<open>Printing\<close>

fun dump_props_pg :: "bytes list list \<Rightarrow> unit option" where
  "dump_props_pg [] = Some ()"
| "dump_props_pg (r # rs) = do { i \<leftarrow> col_int (map Some r) 0; name \<leftarrow> col (map Some r) 1; s \<leftarrow> col_int (map Some r) 2; dump_props_pg rs }"

fun dump_rows_pg :: "pgsql \<Rightarrow> bytes list list \<Rightarrow> pg_log \<Rightarrow> pg_log option" where
  "dump_rows_pg d [] l = Some l"
| "dump_rows_pg d (r # rs) l = do {
     i \<leftarrow> col_int (map Some r) 0; t \<leftarrow> col_int (map Some r) 1; name \<leftarrow> col (map Some r) 2; s \<leftarrow> col_int (map Some r) 3;
     (case bindio_do_query_res d (stmt [ascii ''SELECT id,name,security,valueid FROM prop WHERE objectid='', pr_u (of_int i :: u32)]) l of
        (None, l1) \<Rightarrow> dump_rows_pg d rs l1
      | (Some ps, l1) \<Rightarrow> do { u \<leftarrow> dump_props_pg ps; dump_rows_pg d rs l1 })
   }"

definition bindio_dump_pg :: "pgsql \<Rightarrow> pg_log \<Rightarrow> pg_log option" where
  "bindio_dump_pg d l =
     (case bindio_do_query_res d (stmt [ascii ''SELECT id,type,name,security FROM object'']) l of
        (None, l1) \<Rightarrow> Some l1
      | (Some rows, l1) \<Rightarrow> dump_rows_pg d rows l1)"

end
