(* ===== verification/Thm_Sql.thy ===== *)
theory Thm_Sql
  imports Fr_Mysql Fr_Pgsql Fr_Frame
begin

text \<open>
  The properties of the bindery modules for databases: names cannot leave their string literals, a
  search is the conjunction of its conditions, a failed addition is taken back, and which failures leave a
  transaction open.
\<close>

section \<open>String literals\<close>

text \<open>
  How PostgreSQL reads a string literal behind its opening quote: a doubled quote is a quote, a
  backslash is followed by up to three octal digits or by the character meant.
\<close>

definition octal_digit :: "u8 \<Rightarrow> bool" where
  "octal_digit c \<longleftrightarrow> digit_of c < 8"

function read_literal :: "bytes \<Rightarrow> (bytes \<times> bytes) option" where
  "read_literal [] = None"
| "read_literal (c # cs) =
     (if c = 0x27 then
        (if take 1 cs = [0x27] then map_option (apfst (Cons 0x27)) (read_literal (drop 1 cs)) else Some ([], cs))
      else if c = 0x5c then
        (let ds = takeWhile octal_digit (take 3 cs)
         in if ds \<noteq> [] then map_option (apfst (Cons (of_nat (number 8 ds)))) (read_literal (drop (length ds) cs))
            else if cs = [] then None
            else map_option (apfst (Cons (hd cs))) (read_literal (drop 1 cs)))
      else map_option (apfst (Cons c)) (read_literal cs))"
  by pat_completeness auto
termination by (relation "measure length") auto

definition pg_char :: "u8 \<Rightarrow> bytes" where
  "pg_char c = (if c \<noteq> 0x5c then 0x5c # octal c else [0x5c, 0x5c])"

lemma PQescape_chars: "PQescapeString s = concat (map pg_char s)"
proof -
  have "PQescape_from out s = out @ concat (map pg_char s)" for out
    by (induction s arbitrary: out) (auto simp: pg_char_def)
  then show ?thesis by (simp add: PQescapeString_def)
qed

lemma octal_digits: "k < 8 \<Longrightarrow> digit_of (of_nat (48 + k)) = k"
  by (cases "k = 0 \<or> k = 1 \<or> k = 2 \<or> k = 3 \<or> k = 4 \<or> k = 5 \<or> k = 6 \<or> k = 7") (auto simp: digit_of_def)

lemma octal_value: "takeWhile octal_digit (take 3 (octal c @ r)) = octal c" "number 8 (octal c) = unat c" "length (octal c) = 3"
proof -
  have unat_less: "unat c < 256" using unsigned_less [of c] by simp
  have c: "unat c div 64 < 8" "unat c div 8 mod 8 < 8" "unat c mod 8 < 8" using unat_less by simp_all
  show "takeWhile octal_digit (take 3 (octal c @ r)) = octal c"
    using c by (simp add: octal_def octal_digit_def octal_digits del: of_nat_add)
  have "n = (n div 64 * 8 + n div 8 mod 8) * 8 + n mod 8" for n :: nat
    using div_mult_mod_eq [of "n div 8" 8] div_mult_mod_eq [of n 8] div_mult2_eq [of n 8 8] by simp
  then show "number 8 (octal c) = unat c"
    unfolding octal_def number_def foldl.simps octal_digits [OF c(1)] octal_digits [OF c(2)] octal_digits [OF c(3)] by simp
  show "length (octal c) = 3" by (simp add: octal_def)
qed

lemma read_pg_char: "read_literal (pg_char c @ r) = map_option (apfst (Cons c)) (read_literal r)"
proof (cases "c = 0x5c")
  case True
  have "\<not> octal_digit 0x5c" by (simp add: octal_digit_def digit_of_def)
  then show ?thesis using True by (simp add: pg_char_def)
next
  case False
  have "octal c \<noteq> []" by (simp add: octal_def)
  then show ?thesis using False octal_value(1) [of c r] octal_value(2,3) [of c] by (simp add: pg_char_def Let_def del: take_append)
qed

lemma read_quoted: "take 1 r \<noteq> [0x27] \<Longrightarrow> read_literal (PQescapeString s @ 0x27 # r) = Some (s, r)"
  by (induction s) (simp_all add: PQescape_chars read_pg_char)

lemma length_PQescape: "length (PQescapeString s) \<le> 4 * length s"
  by (induction s) (simp_all add: PQescape_chars pg_char_def octal_def)

lemma length_decimal: "n < 10 ^ Suc k \<Longrightarrow> length (decimal n) \<le> Suc k"
proof (induction k arbitrary: n)
  case 0
  then show ?case by (simp add: decimal.simps)
next
  case (Suc k)
  then have "n div 10 < 10 ^ Suc k" by (simp add: less_mult_imp_div_less mult.commute)
  then show ?case using Suc.IH [of "n div 10"] by (subst decimal.simps) simp
qed

lemma stmt_short: "length (concat ts) < SQL_MAX_QUERY_LENGTH \<Longrightarrow> stmt ts = concat ts"
  by (simp add: stmt_def)

lemma length_pr_u16: "length (pr_u (w :: u16)) \<le> 10"
  using length_decimal [of "unat w" 9] unsigned_less [of w, where ?'a = nat] by (simp add: pr_u_def)

lemma length_pr_u32: "length (pr_u (w :: u32)) \<le> 10"
  using length_decimal [of "unat w" 9] unsigned_less [of w, where ?'a = nat] by (simp add: pr_u_def)

lemma quote_pg_short: "length s \<le> 1000 \<Longrightarrow> quote_pg s = Some (PQescapeString s)"
  using length_PQescape [of s] by (simp add: quote_pg_def)

lemma one_row_log [simp]: "snd (one_row_pg d q l) = Query q # l"
  by (auto simp: one_row_pg_def bindio_do_query_res_def split: option.split)

lemma object_query_log: "bindio_handle_object_query_pg d q w l = Some (x, l') \<Longrightarrow> l' = Query q # l"
  using one_row_log [of d q l]
  by (auto simp: bindio_handle_object_query_pg_def bind_eq_Some_conv split: prod.splits option.splits if_splits simp del: one_row_log)

lemma prop_query_log: "bindio_handle_prop_query_pg d q w l = Some (x, l') \<Longrightarrow> l' = Query q # l"
  using one_row_log [of d q l]
  by (auto simp: bindio_handle_prop_query_pg_def bind_eq_Some_conv split: prod.splits option.splits if_splits simp del: one_row_log)

text \<open>
  C26. With PostgreSQL, a lookup by name sends one statement, in which the server reads the name as one
  literal, whatever characters it has, followed by the rest of the statement as written: a name of a
  client cannot change the statement.
\<close>
theorem pg_name_is_literal:
  assumes "length name \<le> 1000"
  shows "(bindio_scan_object_pg d name type wanted l = Some (x, l1) \<longrightarrow>
      (\<exists>t. l1 = Query (sel_object @ ascii '' WHERE name='' @ 0x27 # t) # l \<and> read_literal t = Some (name, ascii '' AND type='' @ squoted (pr_u type)))) \<and>
    (bindio_scan_prop_pg d objid name wanted l = Some (y, l2) \<longrightarrow>
      (\<exists>t. l2 = Query (sel_prop @ ascii '' WHERE objectid='' @ pr_u objid @ ascii '' AND name='' @ 0x27 # t) # l \<and> read_literal t = Some (name, [])))"
proof -
  have e: "length (PQescapeString name) \<le> 4000" using length_PQescape [of name] assms by simp
  have 1: "q_object (PQescapeString name) type =
      sel_object @ ascii '' WHERE name='' @ 0x27 # PQescapeString name @ 0x27 # ascii '' AND type='' @ squoted (pr_u type)"
    using e length_pr_u16 [of type] by (simp add: q_object_def stmt_short sel_object_def squoted_def)
  have 2: "q_prop objid (PQescapeString name) =
      sel_prop @ ascii '' WHERE objectid='' @ pr_u objid @ ascii '' AND name='' @ 0x27 # PQescapeString name @ 0x27 # []"
    using e length_pr_u32 [of objid] by (simp add: q_prop_def stmt_short sel_prop_def squoted_def)
  have "\<exists>t. l1 = Query (sel_object @ ascii '' WHERE name='' @ 0x27 # t) # l \<and> read_literal t = Some (name, ascii '' AND type='' @ squoted (pr_u type))"
    if "bindio_scan_object_pg d name type wanted l = Some (x, l1)"
    using that read_quoted [of "ascii '' AND type='' @ squoted (pr_u type)" name]
    by (auto simp: bindio_scan_object_pg_def quote_pg_short [OF assms] 1 simp del: ascii_simps dest!: object_query_log) simp
  moreover have "\<exists>t. l2 = Query (sel_prop @ ascii '' WHERE objectid='' @ pr_u objid @ ascii '' AND name='' @ 0x27 # t) # l \<and> read_literal t = Some (name, [])"
    if "bindio_scan_prop_pg d objid name wanted l = Some (y, l2)"
    using that read_quoted [of "[]" name]
    by (auto simp: bindio_scan_prop_pg_def quote_pg_short [OF assms] 2 simp del: ascii_simps dest!: prop_query_log)
  ultimately show ?thesis by blast
qed

section \<open>The search\<close>

fun where_clause :: "bytes list \<Rightarrow> bytes" where
  "where_clause [] = []"
| "where_clause (c # cs) = ascii '' WHERE'' @ c @ concat (map (\<lambda>c. ascii '' AND'' @ c) cs)"

definition wild_conditions :: "bytes \<Rightarrow> bytes \<Rightarrow> u16 \<Rightarrow> u32 \<Rightarrow> bytes list" where
  "wild_conditions objname quoted type last_obj =
     (if last_obj \<noteq> 0xffffffff then [ascii '' (id>'' @ pr_u last_obj @ ascii '')''] else []) @
     (if objname \<noteq> ascii ''*'' then [ascii '' (name LIKE '' @ squoted quoted @ ascii '')''] else []) @
     (if type \<noteq> 0xffff then [ascii '' (type='' @ pr_u type @ ascii '')''] else [])"

lemma stmt_append: "q_append (stmt ts) us = stmt (ts @ us)"
  by (simp add: q_append_def stmt_def min_def take_append)

text \<open>
  The statement that searches the next object, printed piece by piece, is the selection of all
  objects with the conditions asked for (a number behind the last one, the name, the type) joined by AND
  and limited to one row; as a whole it is cut after 8191 characters.
\<close>
lemma wild_statement:
  "q_wild objname quoted type last_obj =
     take 8191 (sel_object @ where_clause (wild_conditions objname quoted type last_obj) @ ascii '' LIMIT 1'')"
proof -
  have s: "take 8191 (concat ts) = stmt ts" for ts by (simp add: stmt_def)
  have "q_wild objname quoted type last_obj = stmt [sel_object, where_clause (wild_conditions objname quoted type last_obj), ascii '' LIMIT 1'']"
    unfolding q_wild_def q_connect_def wild_conditions_def Let_def
    by (auto simp: stmt_append simp del: ascii_simps split: prod.split) (simp_all add: stmt_def)
  then show ?thesis using s [of "[sel_object, where_clause (wild_conditions objname quoted type last_obj), ascii '' LIMIT 1'']"] by simp
qed

section \<open>Failed additions\<close>

lemma my_one_row_log [simp]: "snd (one_row_my m q l) = q # l"
  by (auto simp: one_row_my_def bindio_do_query_my_def split: option.split)

lemma my_object_log: "bindio_handle_object_query_my m q w l = Some (x, l') \<Longrightarrow> l' = q # l"
  using my_one_row_log [of m q l]
  by (auto simp: bindio_handle_object_query_my_def bind_eq_Some_conv split: prod.splits option.splits if_splits simp del: my_one_row_log)

lemma my_prop_log: "bindio_handle_prop_query_my m q w l = Some (x, l') \<Longrightarrow> l' = q # l"
  using my_one_row_log [of m q l]
  by (auto simp: bindio_handle_prop_query_my_def bind_eq_Some_conv split: prod.splits option.splits if_splits simp del: my_one_row_log)

lemma my_lookups:
  "bindio_scan_object_by_id_my m i w l = Some (x, l1) \<Longrightarrow> length l1 = Suc (length l)"
  "bindio_scan_prop_my m i n w l = Some (y, l1) \<Longrightarrow> length l1 = Suc (length l)"
  by (auto simp: bindio_scan_object_by_id_my_def bindio_scan_prop_my_def bind_eq_Some_conv dest: my_object_log my_prop_log)

definition undone :: "mysql \<Rightarrow> my_log \<Rightarrow> my_log \<Rightarrow> bool" where
  "undone m l l' \<longleftrightarrow> (\<exists>s vq pq. length s = length l + 2 \<and>
    (l' = vq # s \<and> \<not> my_ok m l' \<or>
     my_ok m (vq # s) \<and> \<not> my_ok m (pq # vq # s) \<and> l' = q_delete ''value'' ''id'' (my_insert_id m (vq # s)) # pq # vq # s \<or>
     my_ok m (vq # s) \<and> my_ok m (pq # vq # s) \<and>
       (let v = my_insert_id m (vq # s); p = my_insert_id m (pq # vq # s)
        in \<not> my_ok m (q_link_value p v # pq # vq # s) \<and>
           l' = q_delete ''prop'' ''id'' p # q_delete ''value'' ''id'' v # q_link_value p v # pq # vq # s)))"

lemma add_prop_undone:
  "post (\<lambda>(r, l'). r = Inl BINDERY_ERROR_IOERROR \<longrightarrow> undone m l l') (bindio_add_prop_my m objid propname flags security data l)"
  unfolding bindio_add_prop_my_def bindio_do_query_my_def
  by (intro post_rules) (auto simp: undone_def Let_def dest!: my_lookups simp del: ascii_simps split: if_splits)

text \<open>
  C37. With MySQL, when adding a property fails in the database, every row that was inserted for it is
  deleted again by its number: nothing when the value could not be inserted, the value when the property could
  not, both when they could not be linked.
\<close>
theorem my_failed_addition_undone:
  assumes "bindio_add_prop_my m objid propname flags security data l = Some (Inl BINDERY_ERROR_IOERROR, l')"
  shows "\<exists>s vq pq. length s = length l + 2 \<and>
    (l' = vq # s \<and> \<not> my_ok m l' \<or>
     my_ok m (vq # s) \<and> \<not> my_ok m (pq # vq # s) \<and> l' = q_delete ''value'' ''id'' (my_insert_id m (vq # s)) # pq # vq # s \<or>
     my_ok m (vq # s) \<and> my_ok m (pq # vq # s) \<and>
       (let v = my_insert_id m (vq # s); p = my_insert_id m (pq # vq # s)
        in \<not> my_ok m (q_link_value p v # pq # vq # s) \<and>
           l' = q_delete ''prop'' ''id'' p # q_delete ''value'' ''id'' v # q_link_value p v # pq # vq # s))"
  using postD [OF add_prop_undone assms] by (simp add: undone_def)

section \<open>Transactions\<close>

fun in_trans :: "pg_log \<Rightarrow> bool" where
  "in_trans [] = False"
| "in_trans (Query q # l) = (if q = ascii ''BEGIN'' then True else if q = ascii ''COMMIT'' then False else in_trans l)"
| "in_trans (c # l) = in_trans l"

lemma begin_trans [simp]: "in_trans (bindio_begin_trans d l)"
  by (simp add: bindio_begin_trans_def bindio_do_query_pg_def)

lemma end_trans [simp]: "\<not> in_trans (bindio_end_trans d l)"
  by (simp add: bindio_end_trans_def bindio_do_query_pg_def)

declare in_trans.simps(2) [simp del]

text \<open>The statements on the tables begin neither nor end a transaction.\<close>

lemma plain_stmt: "ts \<noteq> [] \<Longrightarrow> hd ts \<noteq> [] \<Longrightarrow> hd (hd ts) \<in> {0x53, 0x44, 0x49, 0x55} \<Longrightarrow> in_trans (Query (stmt ts) # l) = in_trans l"
  by (cases ts; cases "hd ts") (auto simp: stmt_def in_trans.simps(2))

lemma plain_queries [simp]:
  "in_trans (Query (q_object t ty) # l) = in_trans l" "in_trans (Query (q_prop i t) # l) = in_trans l"
  "in_trans (Query (q_object_id i) # l) = in_trans l" "in_trans (Query (q_propid i) # l) = in_trans l"
  "in_trans (Query (q_value i) # l) = in_trans l"
  unfolding q_object_def q_prop_def q_object_id_def q_propid_def q_value_def
  by (rule plain_stmt; simp add: sel_object_def sel_prop_def)+

lemma lo_data_ends: "lo_data d oid l = (x, l') \<Longrightarrow> \<not> in_trans l'"
  by (auto simp: lo_data_def Let_def split: if_splits option.splits)

lemma one_row_pgD: "one_row_pg d q l = (x, l') \<Longrightarrow> l' = Query q # l"
  using one_row_log [of d q l] by simp

lemma scan_val_trans: "\<not> in_trans l \<Longrightarrow> post (\<lambda>(x, l'). \<not> in_trans l') (bindio_scan_val_pg d i l)"
  unfolding bindio_scan_val_pg_def by (intro post_rules) (auto dest!: lo_data_ends one_row_pgD)

lemma scan_prop_trans: "post (\<lambda>(x, l'). in_trans l' = in_trans l) (bindio_scan_prop_pg d i n w l)"
  unfolding bindio_scan_prop_pg_def by (intro post_rules) (auto simp: post_def dest: prop_query_log)

lemma select_data_trans: "in_trans (Query (stmt [ascii ''SELECT data FROM value WHERE id='', t]) # l) = in_trans l"
  by (rule plain_stmt) simp_all

lemma read_trans: "\<not> in_trans l \<Longrightarrow> post (\<lambda>(y, l1). \<not> in_trans l1) (bindio_read_prop_pg d i n s l)"
  unfolding bindio_read_prop_pg_def
  by (intro post_rules) (auto dest: post_pair [OF scan_prop_trans] post_pair [OF scan_val_trans])

lemma write_trans:
  "\<not> in_trans l \<Longrightarrow> post (\<lambda>(r, l2). in_trans l2 \<longleftrightarrow> r = BINDERY_ERROR_IOERROR \<and> segno = 1 \<and> trunc = 0) (bindio_write_prop_pg d i n segno trunc v l)"
  unfolding bindio_write_prop_pg_def bindio_do_query_res_def
  by (intro post_rules)
    (auto simp: select_data_trans simp del: ascii_simps dest: post_pair [OF scan_prop_trans] post_pair [OF scan_val_trans])

text \<open>
  C38. With PostgreSQL, reading a property leaves no transaction open. Writing one ends its transaction
  when it succeeds; but every failure of the large object that holds the data (opening it, or writing less than
  128 bytes) is reported with the transaction still open.
\<close>
theorem pg_write_leaves_transaction:
  assumes "\<not> in_trans l"
  shows "(bindio_read_prop_pg d objid propname segno l = Some (y, l1) \<longrightarrow> \<not> in_trans l1) \<and>
    (bindio_write_prop_pg d objid propname segno trunc dataval l = Some (r, l2) \<longrightarrow>
       (in_trans l2 \<longleftrightarrow> r = BINDERY_ERROR_IOERROR \<and> segno = 1 \<and> trunc = 0))"
  using read_trans [OF assms] write_trans [OF assms] by (auto simp: post_def)

section \<open>Samples\<close>

text \<open>A database that finds every row, and whose large objects can be read but not written.\<close>

definition demo_pg :: pgsql where
  "demo_pg = \<lparr>pg_rows = \<lambda>_. Some [replicate 6 [0x31]], pg_int = \<lambda>l. if length l < 6 then 3 else -1, pg_data = \<lambda>_. Some (replicate 128 0)\<rparr>"

definition demo_name :: bytes where
  "demo_name = 0x78 # 0x27 # ascii '' OR 1=1; --''"

lemma demo_rows:
  "row_object (replicate 6 (Some [0x31])) \<noteq> None" "row_prop (replicate 6 (Some [0x31])) \<noteq> None"
  "col_int (replicate 6 (Some [0x31])) 0 = Some 1" "col_int (replicate 6 (Some [0x31])) 1 = Some 1" "col_int (replicate 6 (Some [0x31])) 2 = Some 1"
  "col_int (replicate 6 (Some [0x31])) 3 = Some 1" "first_int [replicate 6 [0x31]] = Some 1"
  by code_simp+

theorem pg_name_is_literal_witness:
  "\<exists>x l1 t. bindio_scan_object_pg demo_pg demo_name 1 False [] = Some (x, l1) \<and>
     l1 = [Query (sel_object @ ascii '' WHERE name='' @ 0x27 # t)] \<and> read_literal t = Some (demo_name, ascii '' AND type='' @ squoted (pr_u (1 :: u16)))"
proof -
  have n: "length demo_name \<le> 1000" by (simp add: demo_name_def)
  obtain x l1 where r: "bindio_scan_object_pg demo_pg demo_name 1 False [] = Some (x, l1)"
    by (simp add: bindio_scan_object_pg_def quote_pg_short [OF n] bindio_handle_object_query_pg_def one_row_pg_def bindio_do_query_res_def demo_pg_def)
  from conjunct1 [OF pg_name_is_literal [OF n, of demo_pg 1 False "[]" x l1]] r obtain t where
    "l1 = [Query (sel_object @ ascii '' WHERE name='' @ 0x27 # t)]" "read_literal t = Some (demo_name, ascii '' AND type='' @ squoted (pr_u (1 :: u16)))"
    by blast
  then show ?thesis using r by (intro exI conjI)
qed

theorem pg_write_leaves_transaction_witness:
  "\<exists>l2. bindio_write_prop_pg demo_pg 1 (ascii ''P'') 1 0 (replicate 128 0) [] = Some (BINDERY_ERROR_IOERROR, l2) \<and> in_trans l2"
proof -
  have q: "quote_pg (ascii ''P'') = Some (PQescapeString (ascii ''P''))" "quote_pg (replicate 128 0) = Some (PQescapeString (replicate 128 0))"
    by (simp_all add: quote_pg_short del: replicate.simps replicate_Suc)
  obtain pr where "row_prop (replicate 6 (Some [0x31])) = Some pr" using demo_rows(2) by blast
  then have "map_option fst (bindio_write_prop_pg demo_pg 1 (ascii ''P'') 1 0 (replicate 128 0) []) = Some BINDERY_ERROR_IOERROR"
    using demo_rows(3-) by (simp add: bindio_write_prop_pg_def bindio_scan_prop_pg_def bindio_handle_prop_query_pg_def q one_row_pg_def
        bindio_do_query_res_def bindio_scan_val_pg_def lo_data_def bindio_begin_trans_def bindio_end_trans_def bindio_do_query_pg_def
        Let_def demo_pg_def del: replicate.simps replicate_Suc ascii_simps)
  then obtain l2 where "bindio_write_prop_pg demo_pg 1 (ascii ''P'') 1 0 (replicate 128 0) [] = Some (BINDERY_ERROR_IOERROR, l2)" by auto
  then show ?thesis using pg_write_leaves_transaction [of "[]" demo_pg 1 "ascii ''P''" 1] by auto
qed

text \<open>A database that fails at the fourth statement: the value is inserted, the property is not.\<close>

definition demo_my :: mysql where
  "demo_my = \<lparr>my_ok = \<lambda>l. length l \<noteq> 4, my_rows = \<lambda>l. Some (if length l = 1 then [replicate 6 (Some [0x31])] else []),
     my_insert_id = \<lambda>_. 7, my_escape = \<lambda>s. s\<rparr>"

theorem my_failed_addition_undone_witness:
  "\<exists>l'. bindio_add_prop_my demo_my 1 (ascii ''P'') 0 0 None [] = Some (Inl BINDERY_ERROR_IOERROR, l') \<and> hd l' = q_delete ''value'' ''id'' 7"
proof -
  obtain ob where "row_object (replicate 6 (Some [0x31])) = Some ob" using demo_rows(1) by blast
  then have "map_option (\<lambda>(r, l). (r, length l)) (bindio_add_prop_my demo_my 1 (ascii ''P'') 0 0 None []) = Some (Inl BINDERY_ERROR_IOERROR, 5)"
    by (simp add: bindio_add_prop_my_def bindio_scan_object_by_id_my_def bindio_handle_object_query_my_def one_row_my_def bindio_do_query_my_def
        bindio_scan_prop_my_def quote_my_def bindio_handle_prop_query_my_def Let_def demo_my_def del: replicate.simps replicate_Suc)
  then obtain l' where l': "bindio_add_prop_my demo_my 1 (ascii ''P'') 0 0 None [] = Some (Inl BINDERY_ERROR_IOERROR, l')" "length l' = 5" by auto
  have "my_insert_id demo_my k = 7" for k by (simp add: demo_my_def)
  then have "hd l' = q_delete ''value'' ''id'' 7" using my_failed_addition_undone [OF l'(1)] l'(2) by (auto simp: Let_def)
  then show ?thesis using l'(1) by blast
qed

end
