(* ===== verification/Fr_Web.thy ===== *)
theory Fr_Web
  imports Fr_Sql
begin

text \<open>
  \<^verbatim>\<open>src/server/web.c\<close>, up to the page: the slots of connections, the template files, the parameters of a
  request, the decoding of its credentials, and the handler of a request, which ends in an error or in the
  template to be shown. \<open>None\<close> is an access outside an array. Characters are signed, as on the machines the server runs on.
\<close>

unbundle bit_operations_syntax

abbreviation (input) WEB_MAX_CONNS :: nat where "WEB_MAX_CONNS \<equiv> 4"
abbreviation (input) WEB_MAX_PACKET_LEN :: nat where "WEB_MAX_PACKET_LEN \<equiv> 4096"
abbreviation (input) WEB_MAX_TEMPLATE_NAME :: nat where "WEB_MAX_TEMPLATE_NAME \<equiv> 64"

section \<open>Connections\<close>

definition web_find_free_conn :: "int list \<Rightarrow> nat option" where
  "web_find_free_conn fds = first_index (\<lambda>fd. fd < 0) fds"

text \<open>\<open>fd\<close> is what \<^verbatim>\<open>accept\<close> returns; without a free slot it is not called.\<close>

definition web_handle_conn :: "int \<Rightarrow> int list \<Rightarrow> int list" where
  "web_handle_conn fd fds = (case web_find_free_conn fds of None \<Rightarrow> fds | Some i \<Rightarrow> fds[i := fd])"

section \<open>Templates\<close>

text \<open>
  \<open>files\<close> gives the contents of the files of the host. The name is cut to 254 characters; an empty file
  cannot be read. The text ends at its first zero byte.
\<close>

definition web_load_template :: "(bytes \<Rightarrow> bytes option) \<Rightarrow> bytes \<Rightarrow> bytes \<Rightarrow> bytes option" where
  "web_load_template files templatedir filename =
     (case files (take (VOL_MAX_VOL_PATH_LEN - 2) (templatedir @ 0x2f # filename)) of
        None \<Rightarrow> None
      | Some t \<Rightarrow> if t = [] then None else Some (takeWhile (\<lambda>c. c \<noteq> 0) t))"

section \<open>Initialisation\<close>

record web =
  fd_web :: int
  fd_web_conn :: "int list"
  web_header :: "bytes option"
  web_footer :: "bytes option"

text \<open>\<open>fd\<close> is the new socket, \<open>binds\<close> and \<open>listens\<close> tell whether the calls on it succeed.\<close>

definition web_init :: "bool \<Rightarrow> int \<Rightarrow> bool \<Rightarrow> bool \<Rightarrow> (bytes \<Rightarrow> bytes option) \<Rightarrow> bytes \<Rightarrow> web \<Rightarrow> web" where
  "web_init enabled fd binds listens files templatedir w =
     (let w0 = w\<lparr>fd_web_conn := replicate WEB_MAX_CONNS (-1)\<rparr>
      in if \<not> enabled then w0
         else if fd < 0 then w0\<lparr>fd_web := fd\<rparr>
         else if \<not> binds \<or> \<not> listens then w0\<lparr>fd_web := -1\<rparr>
         else (case web_load_template files templatedir (ascii ''header.html'') of
                 None \<Rightarrow> w0\<lparr>fd_web := -1, web_header := None\<rparr>
               | Some h \<Rightarrow>
                   (case web_load_template files templatedir (ascii ''footer.html'') of
                      None \<Rightarrow> w0\<lparr>fd_web := -1, web_header := Some h, web_footer := None\<rparr>
                    | Some f \<Rightarrow> w0\<lparr>fd_web := fd, web_header := Some h, web_footer := Some f\<rparr>)))"

section \<open>Values and parameters\<close>

datatype web_value = VServerName | VServerVersion | VUsedConns | VTotalConns | VMountedVols | VVolNames | VConnList |
  VConnNo | VConnAddr | VConnObject | VConnLogintime | VConnClear | VConnSendmsg | VVolList | VVolNo | VVolName | VVolPath | VVolDismount

definition web_resolve_value :: "bytes \<Rightarrow> web_value option" where
  "web_resolve_value = lookup_name
     [(ascii ''SERVER_NAME'', VServerName), (ascii ''SERVER_VERSION'', VServerVersion), (ascii ''USED_CONNECTIONS'', VUsedConns),
      (ascii ''TOTAL_CONNECTIONS'', VTotalConns), (ascii ''MOUNTED_VOLS'', VMountedVols), (ascii ''VOL_NAMES'', VVolNames),
      (ascii ''CONN_LIST'', VConnList), (ascii ''CONN_NO'', VConnNo), (ascii ''CONN_ADDR'', VConnAddr), (ascii ''CONN_OBJECT'', VConnObject),
      (ascii ''CONN_LOGINTIME'', VConnLogintime), (ascii ''CONN_CLEAR'', VConnClear), (ascii ''CONN_SEND_MSG'', VConnSendmsg),
      (ascii ''VOL_LIST'', VVolList), (ascii ''VOL_NO'', VVolNo), (ascii ''VOL_NAME'', VVolName), (ascii ''VOL_PATH'', VVolPath),
      (ascii ''VOL_DISMOUNT'', VVolDismount)]"

datatype web_parm = PConn | PMessage | PVol

definition web_resolve_parm :: "bytes \<Rightarrow> web_parm option" where
  "web_resolve_parm = lookup_name [(ascii ''conn'', PConn), (ascii ''message'', PMessage), (ascii ''vol'', PVol)]"

text \<open>What the parameters of a request select; the message points into the packet and is lost with it.\<close>

record web_temp =
  temp_conn :: int
  temp_vol :: int
  temp_msg :: "bytes option"

definition web_temp_start :: web_temp where
  "web_temp_start = \<lparr>temp_conn = -1, temp_vol = -1, temp_msg = None\<rparr>"

text \<open>One pair; without an equals sign it is skipped. A number that is no \<^verbatim>\<open>int\<close> is undefined for \<^verbatim>\<open>atoi\<close>.\<close>

definition handle_parm :: "bytes \<Rightarrow> web_temp \<Rightarrow> web_temp option" where
  "handle_parm p t =
     (case strchr p 0x3d of
        None \<Rightarrow> Some t
      | Some k \<Rightarrow>
          let value = drop (Suc k) p in
          (case web_resolve_parm (take k p) of
             None \<Rightarrow> Some t
           | Some PConn \<Rightarrow> map_option (\<lambda>i. t\<lparr>temp_conn := i\<rparr>) (atoi value)
           | Some PMessage \<Rightarrow> Some (t\<lparr>temp_msg := Some value\<rparr>)
           | Some PVol \<Rightarrow> map_option (\<lambda>i. t\<lparr>temp_vol := i\<rparr>) (atoi value)))"

function web_handle_parms :: "bytes \<Rightarrow> web_temp \<Rightarrow> web_temp option" where
  "web_handle_parms pos t =
     (case strchr pos 0x26 of
        None \<Rightarrow> handle_parm pos t
      | Some k \<Rightarrow> do {
          t1 \<leftarrow> handle_parm (take k pos) t;
          (if drop (Suc k) pos = [] then Some t1 else web_handle_parms (drop (Suc k) pos) t1)
        })"
  by pat_completeness auto
termination by (relation "measure (\<lambda>(pos, t). length pos)") (auto simp: strchr_Some)

declare web_handle_parms.simps [simp del]

section \<open>Base 64\<close>

text \<open>\<^verbatim>\<open>b64_decode_table\<close>, with the inner \<open>None\<close> for -1; a character from 128 is a negative index.\<close>

definition b64_decode_table :: "u8 \<Rightarrow> u8 option option" where
  "b64_decode_table c =
     (if 0x80 \<le> c then None
      else Some (if 0x41 \<le> c \<and> c \<le> 0x5a then Some (c - 0x41)
                 else if 0x61 \<le> c \<and> c \<le> 0x7a then Some (c - 0x61 + 26)
                 else if 0x30 \<le> c \<and> c \<le> 0x39 then Some (c - 0x30 + 52)
                 else if c = 0x2b then Some 62 else if c = 0x2f then Some 63 else None))"

definition put_char :: "nat \<Rightarrow> u8 \<Rightarrow> bytes \<Rightarrow> bytes" where
  "put_char sz c out = (if length out < sz then out @ [c] else out)"

fun b64_from :: "nat \<Rightarrow> nat \<Rightarrow> u8 \<Rightarrow> bytes \<Rightarrow> bytes \<Rightarrow> bytes option" where
  "b64_from sz phase prev_d out [] = Some out"
| "b64_from sz phase prev_d out (c # cs) =
     (case b64_decode_table c of
        None \<Rightarrow> None
      | Some None \<Rightarrow> b64_from sz phase prev_d out cs
      | Some (Some d) \<Rightarrow>
          (if phase = 0 then b64_from sz 1 d out cs
           else if phase = 1 then b64_from sz 2 d (put_char sz (push_bit 2 prev_d OR drop_bit 4 (d AND 0x30)) out) cs
           else if phase = 2 then b64_from sz 3 d (put_char sz (push_bit 4 (prev_d AND 0xf) OR drop_bit 2 (d AND 0x3c)) out) cs
           else b64_from sz 0 d (put_char sz (push_bit 6 (prev_d AND 0x03) OR d) out) cs))"

definition web_b64decode :: "bytes \<Rightarrow> nat \<Rightarrow> bytes option" where
  "web_b64decode str sz = b64_from sz 0 0 [] str"

section \<open>Requests\<close>

datatype web_answer = Error nat | Page bytes

fun lines_of :: "nat \<Rightarrow> bytes \<Rightarrow> bytes list" where
  "lines_of 0 s = [s]"
| "lines_of (Suc n) s = (case strchr s 10 of None \<Rightarrow> [s] | Some k \<Rightarrow> take k s # lines_of n (drop (Suc k) s))"

text \<open>
  The value of the header \<^verbatim>\<open>Authorization\<close>, the inner \<open>None\<close> when there is none. Its carriage return ends the
  search, because \<^verbatim>\<open>headers = ptr\<close> goes on at the zero byte put there. Without one \<^verbatim>\<open>ptr\<close> is \<^verbatim>\<open>NULL\<close>: on the last
  line the loop ends with the whole line, on every other one the next \<^verbatim>\<open>strchr (headers, '\n')\<close> reads through \<^verbatim>\<open>NULL\<close>,
  which is the outer \<open>None\<close>.
\<close>

fun find_auth :: "bytes list \<Rightarrow> bytes option \<Rightarrow> bytes option option" where
  "find_auth [] auth = Some auth"
| "find_auth (l # ls) auth =
     (if strncaseeq l (ascii ''Authorization:'') 14
      then (let a = dropWhile (\<lambda>c. c = 0x20) (drop 14 l)
            in if 13 \<in> set a then Some (Some (takeWhile (\<lambda>c. c \<noteq> 13) a))
               else if ls = [] then Some (Some a) else None)
      else find_auth ls auth)"

definition headers_auth :: "bytes \<Rightarrow> bytes option option" where
  "headers_auth headers = find_auth (lines_of (length headers) headers) None"

text \<open>The file and the parameters asked for; \<open>Inl\<close> of the error code.\<close>

definition request_target :: "bytes \<Rightarrow> nat + bytes \<times> bytes option" where
  "request_target line =
     (if \<not> strncaseeq line (ascii ''GET '') 4 then Inl 501
      else let p = dropWhile (\<lambda>c. c = 0x20) (drop 3 line) in
        if p = [] then Inl 400
        else (case strchr p 0x20 of
                None \<Rightarrow> Inl 400
              | Some k \<Rightarrow>
                  if hd p \<noteq> 0x2f then Inl 400
                  else let f = takeWhile (\<lambda>c. c \<noteq> 0x2f) (tl (take k p)) in
                    (case strchr f 0x3f of None \<Rightarrow> Inr (f, None) | Some q \<Rightarrow> Inr (take q f, Some (drop (Suc q) f)))))"

definition template_name :: "bytes \<Rightarrow> bytes" where
  "template_name f = (if f = [] then ascii ''overview.html'' else take (WEB_MAX_TEMPLATE_NAME - 1) (f @ ascii ''.html''))"

text \<open>Whether the credentials are those of the configuration; the decoded text ends at its first zero byte.\<close>

definition credentials_ok :: "bytes \<Rightarrow> bytes \<Rightarrow> bytes option \<Rightarrow> bool option" where
  "credentials_ok username password auth =
     (case auth of
        None \<Rightarrow> Some False
      | Some a \<Rightarrow>
          if \<not> strncaseeq a (ascii ''Basic'') 5 then Some False
          else do {
            d \<leftarrow> web_b64decode (dropWhile (\<lambda>c. c = 0x20) (drop 5 a)) (WEB_MAX_VALUE_LEN - 1);
            let t = takeWhile (\<lambda>c. c \<noteq> 0) d;
            Some (case strchr t 0x3a of None \<Rightarrow> False | Some k \<Rightarrow> take k t = username \<and> drop (Suc k) t = password)
          })"

text \<open>
  The handler of a packet of \<open>size\<close> bytes, of which the last is overwritten. The parameters take effect
  before the credentials are looked at.
\<close>

definition web_handle_packet ::
  "(bytes \<Rightarrow> bytes option) \<Rightarrow> bytes \<Rightarrow> bytes \<Rightarrow> bytes \<Rightarrow> bytes \<Rightarrow> nat \<Rightarrow> web_temp \<Rightarrow> (web_answer \<times> web_temp) option" where
  "web_handle_packet files templatedir username password packet sz t =
     (if sz = 0 \<or> length packet < sz then None
      else let s = takeWhile (\<lambda>c. c \<noteq> 0) (take (sz - 1) packet) in
        (case strchr s 10 of
           None \<Rightarrow> Some (Error 400, t)
         | Some k \<Rightarrow>
             (case request_target (take k s) of
                Inl e \<Rightarrow> Some (Error e, t)
              | Inr (f, parms) \<Rightarrow> do {
                  t1 \<leftarrow> (case parms of None \<Rightarrow> Some t | Some p \<Rightarrow> web_handle_parms p t);
                  auth \<leftarrow> headers_auth (drop (Suc k) s);
                  good \<leftarrow> credentials_ok username password auth;
                  Some (if \<not> good then Error 401
                        else (case web_load_template files templatedir (template_name f) of None \<Rightarrow> Error 404 | Some x \<Rightarrow> Page x), t1)
                })))"

text \<open>\<open>received\<close> is what \<^verbatim>\<open>recv\<close> put into the buffer, \<open>None\<close> when it failed or the connection was closed.\<close>

definition web_handle_data ::
  "(bytes \<Rightarrow> bytes option) \<Rightarrow> bytes \<Rightarrow> bytes \<Rightarrow> bytes \<Rightarrow> bytes option \<Rightarrow> web_temp \<Rightarrow> (web_answer option \<times> web_temp) option" where
  "web_handle_data files templatedir username password received t =
     (case received of
        None \<Rightarrow> Some (None, t)
      | Some r \<Rightarrow>
          if r = [] then Some (None, t)
          else map_option (\<lambda>(a, t1). (Some a, t1))
            (web_handle_packet files templatedir username password (take WEB_MAX_PACKET_LEN r) (min WEB_MAX_PACKET_LEN (length r)) t))"

end
