(* ===== verification/Thm_Web.thy ===== *)
theory Thm_Web
  imports Fr_Web Fr_ConfigLaws
begin

text \<open>
  The properties of the web interface: the decoder of credentials against a reference encoder, who is shown
  a page and from which file, and what a request without credentials does all the same.
\<close>

unbundle bit_operations_syntax

section \<open>Base 64\<close>

definition b64_char :: "u8 \<Rightarrow> u8" where
  "b64_char v = (if v < 26 then v + 0x41 else if v < 52 then v - 26 + 0x61 else if v < 62 then v - 52 + 0x30 else if v = 62 then 0x2b else 0x2f)"

text \<open>The encoding, three bytes to four characters, padded with equals signs.\<close>

fun b64_encode :: "bytes \<Rightarrow> bytes" where
  "b64_encode [] = []"
| "b64_encode [a] = [b64_char (drop_bit 2 a), b64_char (push_bit 4 (a AND 3)), 0x3d, 0x3d]"
| "b64_encode [a, b] = [b64_char (drop_bit 2 a), b64_char (push_bit 4 (a AND 3) OR drop_bit 4 b), b64_char (push_bit 2 (b AND 0xf)), 0x3d]"
| "b64_encode (a # b # c # s) = [b64_char (drop_bit 2 a), b64_char (push_bit 4 (a AND 3) OR drop_bit 4 b),
     b64_char (push_bit 2 (b AND 0xf) OR drop_bit 6 c), b64_char (c AND 0x3f)] @ b64_encode s"

lemma table_char: "v < 64 \<Longrightarrow> b64_decode_table (b64_char v) = Some (Some v)"
proof -
  assume "v < 64"
  then have v: "unat v \<in> set [0..<64]" by (simp add: word_less_nat_alt)
  have "list_all (\<lambda>n. b64_decode_table (b64_char (of_nat n)) = Some (Some (of_nat n))) [0..<64]" by code_simp
  then have "b64_decode_table (b64_char (of_nat (unat v))) = Some (Some (of_nat (unat v)))"
    using v unfolding list_all_iff by (rule bspec)
  then show ?thesis by simp
qed

lemma table_pad [simp]: "b64_decode_table 0x3d = Some None"
  by (simp add: b64_decode_table_def)

text \<open>Equations between bytes, bit by bit.\<close>

lemma u8_eqI:
  assumes "bit x 0 = bit y 0" "bit x 1 = bit y 1" "bit x 2 = bit y 2" "bit x 3 = bit y 3"
    "bit x 4 = bit y 4" "bit x 5 = bit y 5" "bit x 6 = bit y 6" "bit x 7 = bit y 7"
  shows "(x :: u8) = y"
proof (rule bit_word_eqI)
  fix n assume "n < LENGTH(8)"
  then have "n = 0 \<or> n = 1 \<or> n = 2 \<or> n = 3 \<or> n = 4 \<or> n = 5 \<or> n = 6 \<or> n = 7" by auto
  then show "bit x n = bit y n" using assms by (elim disjE) simp_all
qed

lemma masks: "(3 :: u8) = mask 2" "(0xf :: u8) = mask 4" "(0x3f :: u8) = mask 6" "(0x30 :: u8) = push_bit 4 (mask 2)" "(0x3c :: u8) = push_bit 2 (mask 4)"
  by (simp_all add: mask_eq_exp_minus_1 push_bit_eq_mult)

text \<open>Six bits are less than 64.\<close>

lemma six_bits: "\<not> bit x 6 \<Longrightarrow> \<not> bit x 7 \<Longrightarrow> (x :: u8) < 64"
proof -
  assume b: "\<not> bit x 6" "\<not> bit x 7"
  have "x = take_bit 6 x" by (rule u8_eqI) (use b in \<open>simp_all add: bit_take_bit_iff\<close>)
  moreover have "unat (take_bit 6 x) < 64" using take_bit_nat_less_exp [of 6 "unat x"] by (simp add: unsigned_take_bit_eq)
  ultimately have "unat x < 64" by simp
  then show ?thesis by (simp add: word_less_nat_alt)
qed

lemma groups_small:
  "drop_bit 2 a < (64 :: u8)" "push_bit 4 (a AND 3) < (64 :: u8)" "push_bit 4 (a AND 3) OR drop_bit 4 b < (64 :: u8)"
  "push_bit 2 (b AND 0xf) < (64 :: u8)" "push_bit 2 (b AND 0xf) OR drop_bit 6 c < (64 :: u8)" "c AND 0x3f < (64 :: u8)"
  unfolding masks by (rule six_bits; simp add: bit_simps)+

lemma bytes_back:
  "push_bit 2 (drop_bit 2 a) OR drop_bit 4 ((push_bit 4 (a AND 3) OR drop_bit 4 b) AND 0x30) = (a :: u8)"
  "push_bit 2 (drop_bit 2 a) OR drop_bit 4 (push_bit 4 (a AND 3) AND 0x30) = (a :: u8)"
  "push_bit 4 ((push_bit 4 (a AND 3) OR drop_bit 4 b) AND 0xf) OR drop_bit 2 ((push_bit 2 (b AND 0xf) OR drop_bit 6 c) AND 0x3c) = (b :: u8)"
  "push_bit 4 ((push_bit 4 (a AND 3) OR drop_bit 4 b) AND 0xf) OR drop_bit 2 (push_bit 2 (b AND 0xf) AND 0x3c) = (b :: u8)"
  "push_bit 6 ((push_bit 2 (b AND 0xf) OR drop_bit 6 c) AND 3) OR (c AND 0x3f) = (c :: u8)"
  unfolding masks by (rule u8_eqI; simp add: bit_simps)+

lemma put_chars: "put_char sz c (take sz s) = take sz (s @ [c])"
  by (simp add: put_char_def min_def)

lemma b64_steps:
  assumes "w < 64" "x < 64"
  shows "b64_from sz 0 p out (b64_char w # b64_char x # cs) = b64_from sz 2 x (put_char sz (push_bit 2 w OR drop_bit 4 (x AND 0x30)) out) cs"
    "y < 64 \<Longrightarrow> b64_from sz 2 x out (b64_char y # cs) = b64_from sz 3 y (put_char sz (push_bit 4 (x AND 0xf) OR drop_bit 2 (y AND 0x3c)) out) cs"
    "z < 64 \<Longrightarrow> b64_from sz 3 y out (b64_char z # cs) = b64_from sz 0 z (put_char sz (push_bit 6 (y AND 3) OR z) out) cs"
  using assms by (simp_all add: table_char)

lemmas b64_group = b64_steps(1) [OF groups_small(1,2)] b64_steps(1) [OF groups_small(1,3)]
  b64_steps(2) [OF groups_small(1,3,4)] b64_steps(2) [OF groups_small(1,3,5)] b64_steps(3) [OF groups_small(1,2,6)]

lemma b64_pad: "b64_from sz ph p out [0x3d] = Some out" "b64_from sz ph p out [0x3d, 0x3d] = Some out"
  by simp_all

lemma b64_from_encode: "b64_from sz 0 p (take sz s) (b64_encode r) = Some (take sz (s @ r))"
proof (induction r arbitrary: p s rule: b64_encode.induct)
  case (2 a)
  show ?case by (simp only: b64_encode.simps b64_group bytes_back b64_pad put_chars)
next
  case (3 a b)
  show ?case by (simp only: b64_encode.simps b64_group bytes_back b64_pad put_chars append_assoc append.simps)
next
  case (4 a b c r)
  show ?case by (simp only: b64_encode.simps append.simps b64_group bytes_back put_chars 4 append_assoc)
qed simp

text \<open>
  C36. The decoder gives back any bytes from their base 64 encoding, padded or not by their number, as far
  as the array has room.
\<close>
theorem b64_round_trip: "web_b64decode (b64_encode s) sz = Some (take sz s)"
  using b64_from_encode [of sz 0 "[]" s] by (simp add: web_b64decode_def)

section \<open>Credentials\<close>

lemma encode_no_blank: "dropWhile (\<lambda>c. c = 0x20) (0x20 # b64_encode s) = b64_encode s"
proof -
  have "b64_char v \<noteq> 0x20" if "v < 64" for v
    using table_char [OF that] by (auto simp: b64_decode_table_def)
  then show ?thesis by (cases s rule: b64_encode.cases) (simp_all add: groups_small(1))
qed

text \<open>
  Basic credentials encoded as the protocol says are accepted exactly when user and password are
  those of the configuration; the user has no colon, and both fit the array together.
\<close>
lemma basic_credentials:
  assumes "no_nul u" "0x3a \<notin> set u" "no_nul p" "length u + length p < 1023"
  shows "credentials_ok username password (Some (ascii ''Basic '' @ b64_encode (u @ 0x3a # p))) = Some (u = username \<and> p = password)"
proof -
  let ?t = "u @ 0x3a # p"
  have d: "web_b64decode (b64_encode ?t) 1023 = Some ?t" using b64_from_encode [of 1023 0 "[]" ?t] assms(4) by (simp add: web_b64decode_def)
  have z: "\<forall>c\<in>set u. c \<noteq> 0" "takeWhile (\<lambda>c. c \<noteq> 0) p = p" using assms(1,3) by (auto simp: takeWhile_eq_all_conv no_nul_def)
  have c: "strchr ?t 0x3a = Some (length u)" using assms(2) strchr_first by simp
  show ?thesis using encode_no_blank [of ?t] d c by (simp add: credentials_ok_def strncaseeq_def tolower_def z)
qed

lemma basic_credentials_witness:
  "credentials_ok (ascii ''admin'') (ascii ''secret'') (Some (ascii ''Basic '' @ b64_encode (ascii ''admin'' @ 0x3a # ascii ''secret''))) = Some True"
  using basic_credentials [of "ascii ''admin''" "ascii ''secret''" "ascii ''admin''" "ascii ''secret''"] by (simp add: no_nul_def)

lemma page_credentials:
  assumes "web_handle_packet files templatedir username password packet sz t = Some (Page x, t')"
  shows "\<exists>s k a d f y. s = takeWhile (\<lambda>c. c \<noteq> 0) (take (sz - 1) packet) \<and> strchr s 10 = Some k \<and>
    headers_auth (drop (Suc k) s) = Some (Some a) \<and> strncaseeq a (ascii ''Basic'') 5 \<and>
    web_b64decode (dropWhile (\<lambda>c. c = 0x20) (drop 5 a)) 1023 = Some d \<and>
    takeWhile (\<lambda>c. c \<noteq> 0) d = username @ 0x3a # password \<and> 0x3a \<notin> set username \<and>
    0x2f \<notin> set (template_name f) \<and> files (take 254 (templatedir @ 0x2f # template_name f)) = Some y \<and>
    x = takeWhile (\<lambda>c. c \<noteq> 0) y \<and>
    (length templatedir \<le> 190 \<longrightarrow> take 254 (templatedir @ 0x2f # template_name f) = templatedir @ 0x2f # template_name f)"
proof -
  let ?s = "takeWhile (\<lambda>c. c \<noteq> 0) (take (sz - 1) packet)"
  from assms obtain k f parms auth where k: "strchr ?s 10 = Some k" "request_target (take k ?s) = Inr (f, parms)"
    "headers_auth (drop (Suc k) ?s) = Some auth" "credentials_ok username password auth = Some True"
    "web_load_template files templatedir (template_name f) = Some x"
    by (auto simp: web_handle_packet_def bind_eq_Some_conv Let_def simp del: strchr_None split: if_splits option.splits sum.splits prod.splits)
  from k(3,4) obtain a d j where a: "headers_auth (drop (Suc k) ?s) = Some (Some a)" "strncaseeq a (ascii ''Basic'') 5"
    "web_b64decode (dropWhile (\<lambda>c. c = 0x20) (drop 5 a)) 1023 = Some d" "strchr (takeWhile (\<lambda>c. c \<noteq> 0) d) 0x3a = Some j"
    "take j (takeWhile (\<lambda>c. c \<noteq> 0) d) = username" "drop (Suc j) (takeWhile (\<lambda>c. c \<noteq> 0) d) = password"
    by (auto simp: credentials_ok_def bind_eq_Some_conv Let_def simp del: strchr_None split: if_splits option.splits)
  have "0x3a \<notin> set (take j (takeWhile (\<lambda>c. c \<noteq> 0) d))" using a(4) by (auto simp: strchr_Some in_set_conv_nth)
  then have j: "0x3a \<notin> set username" unfolding a(5) .
  have e: "takeWhile (\<lambda>c. c \<noteq> 0) d = username @ 0x3a # password"
    using a(4-6) id_take_nth_drop [of j "takeWhile (\<lambda>c. c \<noteq> 0) d"] by (simp add: strchr_Some)
  have "0x2f \<notin> set f"
    using k(2) by (auto simp: request_target_def Let_def split: if_splits option.splits dest: in_set_takeD set_takeWhileD)
  then have n: "0x2f \<notin> set (template_name f)" by (auto simp: template_name_def dest: in_set_takeD)
  from k(5) obtain y where y: "files (take 254 (templatedir @ 0x2f # template_name f)) = Some y" "x = takeWhile (\<lambda>c. c \<noteq> 0) y"
    by (auto simp: web_load_template_def split: option.splits if_splits)
  have "length (template_name f) \<le> 63" by (simp add: template_name_def del: take_append)
  then have l: "length templatedir \<le> 190 \<longrightarrow>
      take 254 (templatedir @ 0x2f # template_name f) = templatedir @ 0x2f # template_name f" by simp
  show ?thesis by (intro exI conjI) (fact refl, fact k(1), fact a(1), fact a(2), fact a(3), fact e, fact j, fact n, fact y(1), fact y(2), fact l)
qed

text \<open>
  C19. A page is only shown to a request whose credentials decode to the user and the password of the
  configuration, and it is the text of the file that is named by the directory of the templates, a slash and a
  name without a slash, cut to 254 characters; a directory of at most 190 characters is never cut, so
  the file then lies directly in it.
\<close>
theorem page_needs_credentials:
  assumes "web_handle_packet files templatedir username password packet sz t = Some (Page x, t')"
  shows "\<exists>s k a d f y. s = takeWhile (\<lambda>c. c \<noteq> 0) (take (sz - 1) packet) \<and> strchr s 10 = Some k \<and>
    headers_auth (drop (Suc k) s) = Some (Some a) \<and> strncaseeq a (ascii ''Basic'') 5 \<and>
    web_b64decode (dropWhile (\<lambda>c. c = 0x20) (drop 5 a)) 1023 = Some d \<and>
    takeWhile (\<lambda>c. c \<noteq> 0) d = username @ 0x3a # password \<and> 0x3a \<notin> set username \<and>
    0x2f \<notin> set (template_name f) \<and> files (take 254 (templatedir @ 0x2f # template_name f)) = Some y \<and>
    x = takeWhile (\<lambda>c. c \<noteq> 0) y \<and>
    (length templatedir \<le> 190 \<longrightarrow> take 254 (templatedir @ 0x2f # template_name f) = templatedir @ 0x2f # template_name f)"
  by (rule page_credentials [OF assms])

text \<open>A request with the credentials of the sample, for the page of that name.\<close>

definition demo_request :: bytes where
  "demo_request = ascii ''GET /conns?conn=3 HTTP/1.1'' @ [13, 10] @ ascii ''Authorization: Basic '' @ b64_encode (ascii ''admin'' @ 0x3a # ascii ''secret'') @ [13, 10, 13, 10]"

theorem page_needs_credentials_witness:
  "\<exists>t'. web_handle_packet (\<lambda>n. if n = ascii ''/t/conns.html'' then Some (ascii ''page'') else None) (ascii ''/t'') (ascii ''admin'') (ascii ''secret'')
       demo_request (length demo_request) web_temp_start = Some (Page (ascii ''page''), t') \<and> 0x3a \<notin> set (ascii ''admin'')"
proof -
  have "map_option fst (web_handle_packet (\<lambda>n. if n = ascii ''/t/conns.html'' then Some (ascii ''page'') else None) (ascii ''/t'') (ascii ''admin'') (ascii ''secret'')
       demo_request (length demo_request) web_temp_start) = Some (Page (ascii ''page''))" by code_simp
  then obtain t' where t': "web_handle_packet (\<lambda>n. if n = ascii ''/t/conns.html'' then Some (ascii ''page'') else None) (ascii ''/t'') (ascii ''admin'') (ascii ''secret'')
       demo_request (length demo_request) web_temp_start = Some (Page (ascii ''page''), t')" by auto
  from page_needs_credentials [OF t'] show ?thesis using t' by blast
qed

text \<open>
  A line of credentials that ends in a newline alone, with another line behind it, makes the server read
  through a null pointer, before it has looked at the user or the password; the files and the configuration do
  not matter.
\<close>

definition bare_newline_request :: bytes where
  "bare_newline_request = ascii ''GET / HTTP/1.0'' @ [10] @ ascii ''Authorization: Basic'' @ [10, 10, 0]"

lemma bare_newline_crashes:
  "web_handle_packet files templatedir username password bare_newline_request (length bare_newline_request) t = None"
proof -
  have r: "take (length bare_newline_request - 1) bare_newline_request = ascii ''GET / HTTP/1.0'' @ 10 # ascii ''Authorization: Basic'' @ [10, 10]"
    by (simp add: bare_newline_request_def)
  have k: "strchr (ascii ''GET / HTTP/1.0'' @ 10 # ascii ''Authorization: Basic'' @ [10, 10]) 10 = Some 14"
    "request_target (ascii ''GET / HTTP/1.0'') = Inr ([], None)" "headers_auth (ascii ''Authorization: Basic'' @ [10, 10]) = None"
    by code_simp+
  have z: "takeWhile (\<lambda>c. c \<noteq> 0) (ascii ''GET / HTTP/1.0'' @ 10 # ascii ''Authorization: Basic'' @ [10, 10]) =
      ascii ''GET / HTTP/1.0'' @ 10 # ascii ''Authorization: Basic'' @ [10, 10]" by simp
  have d: "take 14 (ascii ''GET / HTTP/1.0'' @ 10 # x) = ascii ''GET / HTTP/1.0''" "drop (Suc 14) (ascii ''GET / HTTP/1.0'' @ 10 # x) = x" for x
    by simp_all
  have l: "length bare_newline_request \<noteq> 0" by (simp add: bare_newline_request_def)
  show ?thesis unfolding web_handle_packet_def Let_def r z k d using k l by (simp del: ascii_simps)
qed

section \<open>Parameters\<close>

lemma decimal_digit: "d < 10 \<Longrightarrow> digit_of (of_nat (48 + d)) = d"
  by (cases "d = 0 \<or> d = 1 \<or> d = 2 \<or> d = 3 \<or> d = 4 \<or> d = 5 \<or> d = 6 \<or> d = 7 \<or> d = 8 \<or> d = 9") (auto simp: digit_of_def)

lemma decimal_char: "d < 10 \<Longrightarrow> of_nat (48 + d) \<in> {0x30, 0x31, 0x32, 0x33, 0x34, 0x35, 0x36, 0x37, 0x38, 0x39 :: u8}"
  by (cases "d = 0 \<or> d = 1 \<or> d = 2 \<or> d = 3 \<or> d = 4 \<or> d = 5 \<or> d = 6 \<or> d = 7 \<or> d = 8 \<or> d = 9") auto

lemma number_snoc: "number b (xs @ [d]) = number b xs * b + digit_of d"
  by (simp add: number_def)

lemma decimal_spec:
  "set (decimal n) \<subseteq> {0x30, 0x31, 0x32, 0x33, 0x34, 0x35, 0x36, 0x37, 0x38, 0x39} \<and> decimal n \<noteq> [] \<and> number 10 (decimal n) = n"
proof (induction n rule: decimal.induct)
  case (1 n)
  show ?case
  proof (cases "n < 10")
    case True
    then show ?thesis using decimal_char [of n] decimal_digit [of n] number_snoc [of 10 "[]"]
      by (subst (1 2 3) decimal.simps) (simp add: number_def del: of_nat_add)
  next
    case False
    then show ?thesis using 1 decimal_char [of "n mod 10"] decimal_digit [of "n mod 10"]
      by (subst (1 2 3) decimal.simps) (simp add: number_snoc div_mult_mod_eq del: of_nat_add)
  qed
qed

lemma atoi_decimal: "n < 2 ^ 31 \<Longrightarrow> atoi (decimal n) = Some (int n)"
proof -
  assume n: "n < 2 ^ 31"
  obtain c cs where c: "decimal n = c # cs" "c \<in> {0x30, 0x31, 0x32, 0x33, 0x34, 0x35, 0x36, 0x37, 0x38, 0x39}"
    using decimal_spec [of n] by (cases "decimal n") auto
  have w: "takeWhile (\<lambda>c. digit_of c < 10) (decimal n) = decimal n"
    using decimal_spec [of n] by (auto simp: takeWhile_eq_all_conv digit_of_def)
  have "dropWhile isspace (decimal n) = decimal n" "hd (decimal n) \<noteq> 0x2d" "hd (decimal n) \<noteq> 0x2b" using c by (auto simp: isspace_def)
  then show ?thesis using decimal_spec [of n] n by (simp add: atoi_def read_number_def fits_int_def Let_def w)
qed

text \<open>
  The parameters of a request take effect before its credentials are looked at: a request without any
  is answered with the error 401, but the connection it names is selected for the pages that follow.
\<close>
lemma parameters_before_credentials:
  assumes "n < 2 ^ 31"
  shows "web_handle_packet files templatedir username password (ascii ''GET /?conn='' @ decimal n @ ascii '' HTTP/1.0'' @ [10, 10]) (length (decimal n) + 22) t =
    Some (Error 401, t\<lparr>temp_conn := int n\<rparr>)"
proof -
  have d: "c \<in> set (decimal n) \<Longrightarrow> c \<in> {0x30, 0x31, 0x32, 0x33, 0x34, 0x35, 0x36, 0x37, 0x38, 0x39}" for c using decimal_spec [of n] by blast
  have nd: "0 \<notin> set (decimal n)" "10 \<notin> set (decimal n)" "0x20 \<notin> set (decimal n)" "0x26 \<notin> set (decimal n)" "0x2f \<notin> set (decimal n)"
    using d [of 0] d [of 10] d [of "0x20"] d [of "0x26"] d [of "0x2f"] by auto
  define line where "line = ascii ''GET /?conn='' @ decimal n @ ascii '' HTTP/1.0''"
  have z: "takeWhile (\<lambda>c. c \<noteq> 0) (line @ [10]) = line @ [10]" using nd by (auto simp: takeWhile_eq_all_conv line_def)
  have l: "strchr (line @ [10]) 10 = Some (length line)" using nd by (intro strchr_first) (simp add: line_def)
  have f: "takeWhile (\<lambda>c. c \<noteq> 0x2f) (ascii ''?conn='' @ decimal n) = ascii ''?conn='' @ decimal n" using nd by (auto simp: takeWhile_eq_all_conv)
  have s: "strchr (ascii ''/?conn='' @ decimal n @ ascii '' HTTP/1.0'') 0x20 = Some (length (decimal n) + 7)"
    using nd strchr_first [of "0x20" "ascii ''/?conn='' @ decimal n" "ascii ''HTTP/1.0''"] by simp
  have t: "request_target line = Inr ([], Some (ascii ''conn='' @ decimal n))"
    using s f by (simp add: line_def request_target_def strncaseeq_def tolower_def strchr_def Let_def)
  have "strchr (ascii ''conn='' @ decimal n) 0x26 = None" using nd by (intro strchr_none) simp
  moreover have "web_resolve_parm (ascii ''conn'') = Some PConn" by code_simp
  ultimately have p: "web_handle_parms (ascii ''conn='' @ decimal n) t = Some (t\<lparr>temp_conn := int n\<rparr>)"
    using atoi_decimal [OF assms] by (subst web_handle_parms.simps) (simp add: handle_parm_def strchr_def)
  have h: "headers_auth [] = Some None" by (simp add: headers_auth_def strncaseeq_def)
  have k: "length line = length (decimal n) + 20" by (simp add: line_def)
  have "web_handle_packet files templatedir username password (line @ [10, 10]) (length (decimal n) + 22) t = Some (Error 401, t\<lparr>temp_conn := int n\<rparr>)"
    using z l t p h k by (simp add: web_handle_packet_def credentials_ok_def)
  then show ?thesis unfolding line_def append_assoc by simp
qed

lemma parameters_before_credentials_witness:
  "web_handle_packet (\<lambda>_. None) [] (ascii ''admin'') (ascii ''secret'') (ascii ''GET /?conn='' @ decimal 3 @ ascii '' HTTP/1.0'' @ [10, 10])
     (length (decimal 3) + 22) web_temp_start = Some (Error 401, web_temp_start\<lparr>temp_conn := 3\<rparr>)"
  using parameters_before_credentials [of 3] by simp

end
