(* ===== verification/Fr_WebPage.thy ===== *)
theory Fr_WebPage
  imports Fr_Web Fr_Ncp21
begin

text \<open>
  \<^verbatim>\<open>src/server/web.c\<close>: the page. A template is sent line by line, each field in braces replaced by its value;
  a list field shows another template once for each connection or volume, and a field may also act on the
  server. The state is that of the server, the selection of the request, and the bytes sent.

  Before each line the code calls \<^verbatim>\<open>bzero (&temp_ptr, WEB_MAX_LINE_LEN)\<close>, which clears 4096 bytes at an \<^verbatim>\<open>int\<close>: what
  that does is not defined by C. \<open>pe_frame k\<close> is what the array of the line holds after it, for the \<open>k\<close>-th line,
  in a compiled program where it harms nothing else; it was meant to be all zeros.
\<close>

abbreviation (input) WEB_MAX_LINE_LEN :: nat where "WEB_MAX_LINE_LEN \<equiv> 4096"

section \<open>The state\<close>

text \<open>\<open>pg_stale\<close>: the message selected was in a packet that is gone, its pointer is not valid any more.\<close>

record page =
  pg_host :: srv
  pg_temp :: web_temp
  pg_stale :: bool
  pg_out :: bytes
  pg_lines :: nat

text \<open>
  \<open>pe_ntoa\<close> is \<^verbatim>\<open>ipx_ntoa\<close> of the system, \<open>pe_date\<close> the time as \<^verbatim>\<open>strftime\<close> writes it, \<open>pe_files\<close> the files of the host.
\<close>

record page_env =
  pe_files :: "bytes \<Rightarrow> bytes option"
  pe_templatedir :: bytes
  pe_ntoa :: "ipx_addr \<Rightarrow> bytes"
  pe_date :: bytes
  pe_frame :: "nat \<Rightarrow> bytes"

definition write_out :: "bytes \<Rightarrow> page \<Rightarrow> page" where
  "write_out b w = w\<lparr>pg_out := pg_out w @ b\<rparr>"

text \<open>A text used as a format without arguments: a percent sign may only stand for itself, doubled.\<close>

fun c_format :: "bytes \<Rightarrow> bytes option" where
  "c_format [] = Some []"
| "c_format (c # cs) =
     (if c \<noteq> 0x25 then map_option (Cons c) (c_format cs)
      else (case cs of [] \<Rightarrow> None | d # ds \<Rightarrow> if d = 0x25 then map_option (Cons 0x25) (c_format ds) else None))"

text \<open>\<^verbatim>\<open>snprintf (value, WEB_MAX_VALUE_LEN, ...)\<close>\<close>

definition web_text :: "bytes \<Rightarrow> bytes" where
  "web_text t = take (WEB_MAX_VALUE_LEN - 1) t"

section \<open>Headers and errors\<close>

definition web_send_response :: "bytes \<Rightarrow> page \<Rightarrow> page option" where
  "web_send_response t w = do { b \<leftarrow> c_format t; Some (write_out b w) }"

definition http_line :: "bytes \<Rightarrow> bytes" where
  "http_line t = take 1022 (t @ [13, 10])"

definition web_send_header :: "bytes \<Rightarrow> nat \<Rightarrow> string \<Rightarrow> page \<Rightarrow> page" where
  "web_send_header date code msg w =
     write_out (http_line (ascii ''HTTP/1.1 '' @ decimal code @ ascii '' '' @ ascii msg) @
       http_line (ascii ''Date: '' @ date) @
       http_line (ascii ''Server: Frommel Version 2.0a (c) 2001 Rink Springer'') @
       http_line (ascii ''WWW-Authenticate: Basic realm='' @ 0x22 # ascii ''FART'' @ [0x22]) @
       ascii ''Content-Type: text/html'' @ [13, 10, 13, 10]) w"

definition web_send_error :: "bytes \<Rightarrow> nat \<Rightarrow> string \<Rightarrow> string \<Rightarrow> page \<Rightarrow> page" where
  "web_send_error date code msg expl w =
     write_out (ascii ''<h1>Error</h1><p>'' @ ascii expl) (web_send_header date code msg w)"

section \<open>Lists\<close>

text \<open>
  \<open>disp\<close> shows a template. The variable of the loop is the selection of the request itself, which the
  template may set by a list of its own, to the end of the table; so the fuel of one turn for each entry is
  enough.
\<close>

fun conn_list_loop :: "(bytes \<Rightarrow> page \<Rightarrow> page option) \<Rightarrow> bytes \<Rightarrow> nat \<Rightarrow> page \<Rightarrow> page option" where
  "conn_list_loop disp templ 0 w = None"
| "conn_list_loop disp templ (Suc n) w =
     (let i = temp_conn (pg_temp w) in
      if i > int (nofconns (pg_host w)) then Some w
      else if i < 0 then None
      else do {
        k \<leftarrow> get_conn (nat i) (pg_host w);
        w1 \<leftarrow> (if status k \<noteq> Unused then disp templ w else Some w);
        conn_list_loop disp templ n (w1\<lparr>pg_temp := (pg_temp w1)\<lparr>temp_conn := temp_conn (pg_temp w1) + 1\<rparr>\<rparr>)
      })"

definition web_do_conn_list :: "(bytes \<Rightarrow> page \<Rightarrow> page option) \<Rightarrow> page_env \<Rightarrow> page \<Rightarrow> page option" where
  "web_do_conn_list disp e w =
     (case web_load_template (pe_files e) (pe_templatedir e) (ascii ''conn_entry.html'') of
        None \<Rightarrow> Some w
      | Some templ \<Rightarrow> conn_list_loop disp templ (Suc (nofconns (pg_host w))) (w\<lparr>pg_temp := (pg_temp w)\<lparr>temp_conn := 1\<rparr>\<rparr>))"

fun vol_list_loop :: "(bytes \<Rightarrow> page \<Rightarrow> page option) \<Rightarrow> bytes \<Rightarrow> nat \<Rightarrow> page \<Rightarrow> page option" where
  "vol_list_loop disp templ 0 w = None"
| "vol_list_loop disp templ (Suc n) w =
     (let i = temp_vol (pg_temp w) in
      if i \<ge> int VOL_MAX_VOLS then Some w
      else if i < 0 then None
      else do {
        v \<leftarrow> load (volumes (pg_host w)) (nat i);
        w1 \<leftarrow> (if vol_flags v \<noteq> 0 then disp templ w else Some w);
        vol_list_loop disp templ n (w1\<lparr>pg_temp := (pg_temp w1)\<lparr>temp_vol := temp_vol (pg_temp w1) + 1\<rparr>\<rparr>)
      })"

definition web_do_vol_list :: "(bytes \<Rightarrow> page \<Rightarrow> page option) \<Rightarrow> page_env \<Rightarrow> page \<Rightarrow> page option" where
  "web_do_vol_list disp e w =
     (case web_load_template (pe_files e) (pe_templatedir e) (ascii ''vol_entry.html'') of
        None \<Rightarrow> Some w
      | Some templ \<Rightarrow> vol_list_loop disp templ (Suc VOL_MAX_VOLS) (w\<lparr>pg_temp := (pg_temp w)\<lparr>temp_vol := 0\<rparr>\<rparr>))"

section \<open>Values\<close>

text \<open>The division of C, towards zero, printed without a sign.\<close>

definition version_text :: "int \<Rightarrow> bytes" where
  "version_text v =
     (let q = (if v < 0 then - (- v div 100) else v div 100) in
      pr_u (word_of_int q :: u32) @ 0x2e # pr_u (word_of_int (v - 100 * q) :: u32))"

fun join_names :: "volume list \<Rightarrow> bytes \<Rightarrow> bytes option" where
  "join_names [] value = Some value"
| "join_names (v # vs) value =
     (if vol_flags v = 0 then join_names vs value
      else do {
        n \<leftarrow> cstr (vol_name v);
        join_names vs (web_text ((if value = [] then [] else web_text (value @ ascii '', '')) @ n))
      })"

text \<open>The connection and the volume that are selected; outside the tables: \<open>None\<close>.\<close>

definition sel_conn :: "page \<Rightarrow> connection option" where
  "sel_conn w = (let i = temp_conn (pg_temp w) in if i < 0 then None else get_conn (nat i) (pg_host w))"

definition sel_vol :: "page \<Rightarrow> volume option" where
  "sel_vol w = (let i = temp_vol (pg_temp w) in if i < 0 then None else load (volumes (pg_host w)) (nat i))"

definition conn_object :: "page \<Rightarrow> (bytes \<times> page) option" where
  "conn_object w = do {
     k \<leftarrow> sel_conn w;
     (if status k = Attached then Some (ascii ''NOT-LOGGED-IN'', w)
      else do {
        (x, h) \<leftarrow> on_db (bindio_scan_object_by_id (c_object_id k)) (pg_host w);
        n \<leftarrow> (case x of None \<Rightarrow> Some (ascii ''???'') | Some (_, ob) \<Rightarrow> cstr (ob_name ob));
        Some (n, w\<lparr>pg_host := h\<rparr>)
      })
   }"

definition conn_clear_field :: "page \<Rightarrow> page option" where
  "conn_clear_field w =
     (let i = temp_conn (pg_temp w) in
      if i = 0 then Some w
      else if i < 0 then None
      else do { h \<leftarrow> conn_clear (nat i) (pg_host w); Some (w\<lparr>pg_host := h\<rparr>) })"

definition conn_sendmsg_field :: "page \<Rightarrow> page option" where
  "conn_sendmsg_field w =
     (let i = temp_conn (pg_temp w) in
      case temp_msg (pg_temp w) of
        None \<Rightarrow> Some w
      | Some m \<Rightarrow>
          if i = 0 then Some w
          else if i < 0 \<or> pg_stale w then None
          else do { h \<leftarrow> put_message (nat i) m (pg_host w); Some (w\<lparr>pg_host := h\<rparr>) })"

definition vol_dismount_field :: "page \<Rightarrow> (bytes \<times> page) option" where
  "vol_dismount_field w = do {
     v \<leftarrow> sel_vol w;
     sys \<leftarrow> streq (map tolower (ascii ''SYS'')) (map tolower (vol_name v));
     (if sys then Some (ascii ''Can'' @ 0x27 # ascii ''t dismount SYS volume'', w)
      else if fs_volume_inuse (temp_vol (pg_temp w)) (pg_host w) < 0
      then do {
        vs \<leftarrow> fs_delete_volume (nat (temp_vol (pg_temp w))) (volumes (pg_host w));
        Some (ascii ''Success'', w\<lparr>pg_host := (pg_host w)\<lparr>volumes := vs\<rparr>\<rparr>)
      }
      else Some (ascii ''Volume is in use'', w))
   }"

text \<open>The time of the login has a name but no case of its own.\<close>

definition web_value :: "(bytes \<Rightarrow> page \<Rightarrow> page option) \<Rightarrow> page_env \<Rightarrow> bytes \<Rightarrow> page \<Rightarrow> (bytes \<times> page) option" where
  "web_value disp e valuename w =
     (let say = (\<lambda>t. Some (web_text t, w)) in
      case web_resolve_value valuename of
        Some VServerName \<Rightarrow> do { t \<leftarrow> c_format (conf_servername (pg_host w)); say t }
      | Some VServerVersion \<Rightarrow> say (version_text (conf_nwversion (pg_host w)))
      | Some VUsedConns \<Rightarrow> say (decimal (conn_count_used (pg_host w)))
      | Some VTotalConns \<Rightarrow> say (decimal (nofconns (pg_host w)))
      | Some VMountedVols \<Rightarrow> say (decimal (vol_count_vols (volumes (pg_host w))))
      | Some VVolNames \<Rightarrow> do { t \<leftarrow> join_names (volumes (pg_host w)) []; say t }
      | Some VConnList \<Rightarrow> map_option (Pair []) (web_do_conn_list disp e w)
      | Some VConnNo \<Rightarrow> say (pr_u (word_of_int (temp_conn (pg_temp w)) :: u32))
      | Some VConnAddr \<Rightarrow> do { k \<leftarrow> sel_conn w; say (pe_ntoa e (addr k)) }
      | Some VConnObject \<Rightarrow> map_option (\<lambda>(t, w1). (web_text t, w1)) (conn_object w)
      | Some VConnClear \<Rightarrow> map_option (Pair []) (conn_clear_field w)
      | Some VConnSendmsg \<Rightarrow> map_option (Pair []) (conn_sendmsg_field w)
      | Some VVolList \<Rightarrow> map_option (Pair []) (web_do_vol_list disp e w)
      | Some VVolNo \<Rightarrow> say (pr_u (word_of_int (temp_vol (pg_temp w)) :: u32))
      | Some VVolName \<Rightarrow> do { v \<leftarrow> sel_vol w; t \<leftarrow> cstr (vol_name v); say t }
      | Some VVolPath \<Rightarrow> do { v \<leftarrow> sel_vol w; t \<leftarrow> cstr (vol_path v); say t }
      | Some VVolDismount \<Rightarrow> map_option (\<lambda>(t, w1). (web_text t, w1)) (vol_dismount_field w)
      | _ \<Rightarrow> say (ascii ''???''))"

text \<open>The value is put behind the string in the array, as far as there is room.\<close>

definition web_insert_value :: "(bytes \<Rightarrow> page \<Rightarrow> page option) \<Rightarrow> page_env \<Rightarrow> bytes \<Rightarrow> bytes \<Rightarrow> page \<Rightarrow> (bytes \<times> page) option" where
  "web_insert_value disp e valuename dest w = do {
     (value, w1) \<leftarrow> web_value disp e valuename w;
     d \<leftarrow> cstr dest;
     dest1 \<leftarrow> snprintf dest WEB_MAX_LINE_LEN (d @ value);
     Some (dest1, w1)
   }"

section \<open>Lines\<close>

text \<open>
  The rest of a line, into the array \<open>t\<close> at \<open>p\<close>. A brace without its partner is a character. When the
  array is nearly full the rest is skipped.
\<close>

function fill_line ::
  "(bytes \<Rightarrow> page \<Rightarrow> page option) \<Rightarrow> page_env \<Rightarrow> bytes \<Rightarrow> bytes \<Rightarrow> nat \<Rightarrow> page \<Rightarrow> (bytes \<times> nat \<times> page) option" where
  "fill_line disp e [] t p w = Some (t, p, w)"
| "fill_line disp e (c # cs) t p w =
     (case (if c = 0x7b then strchr cs 0x7d else None) of
        Some k \<Rightarrow> do {
          (t1, w1) \<leftarrow> web_insert_value disp e (take k cs) t w;
          s \<leftarrow> cstr t1;
          (if length s \<ge> WEB_MAX_LINE_LEN - 2 then Some (t1, length s, w1)
           else fill_line disp e (drop (Suc k) cs) t1 (length s) w1)
        }
      | None \<Rightarrow> do {
          t1 \<leftarrow> store t p c;
          (if Suc p \<ge> WEB_MAX_LINE_LEN - 2 then Some (t1, Suc p, w) else fill_line disp e cs t1 (Suc p) w)
        })"
  by pat_completeness auto
termination by (relation "measure (\<lambda>(disp, e, cs, t, p, w). length cs)") auto

definition show_line :: "(bytes \<Rightarrow> page \<Rightarrow> page option) \<Rightarrow> page_env \<Rightarrow> bytes \<Rightarrow> page \<Rightarrow> page option" where
  "show_line disp e line w = do {
     (t, p, w1) \<leftarrow> fill_line disp e line (pe_frame e (pg_lines w)) 0 (w\<lparr>pg_lines := Suc (pg_lines w)\<rparr>);
     t1 \<leftarrow> store t p 10;
     t2 \<leftarrow> store t1 (Suc p) 0;
     s \<leftarrow> cstr t2;
     Some (write_out s w1)
   }"

function show_lines :: "(bytes \<Rightarrow> page \<Rightarrow> page option) \<Rightarrow> page_env \<Rightarrow> bytes \<Rightarrow> page \<Rightarrow> page option" where
  "show_lines disp e text w =
     (case strchr text 10 of
        None \<Rightarrow> show_line disp e text w
      | Some k \<Rightarrow> do {
          w1 \<leftarrow> show_line disp e (take k text) w;
          (if drop (Suc k) text = [] then Some w1 else show_lines disp e (drop (Suc k) text) w1)
        })"
  by pat_completeness auto
termination by (relation "measure (\<lambda>(disp, e, text, w). length text)") (auto simp: strchr_Some)

declare show_lines.simps [simp del]

text \<open>
  A template that shows itself never ends; the fuel is the depth of templates inside each other, \<open>None\<close> when
  it is used up.
\<close>

fun web_show_template :: "nat \<Rightarrow> page_env \<Rightarrow> bytes \<Rightarrow> page \<Rightarrow> page option" where
  "web_show_template 0 e text w = None"
| "web_show_template (Suc d) e text w = show_lines (web_show_template d e) e text w"

section \<open>The answer to a request\<close>

definition error_text :: "nat \<Rightarrow> string \<times> string" where
  "error_text code =
     (if code = 400 then (''Bad Request'', ''This request was not understood'')
      else if code = 501 then (''Not supported'', ''Sorry, but this action is not supported'')
      else if code = 401 then (''Unauthorized'', ''Authorization is required'')
      else (''File not found'', ''Sorry, but this file could not be found''))"

text \<open>
  The whole handler, with the header and footer that were loaded at the start. Whether the message that is
  selected was set by this request is seen from a run without one.
\<close>

definition web_serve ::
  "nat \<Rightarrow> page_env \<Rightarrow> bytes \<Rightarrow> bytes \<Rightarrow> bytes \<Rightarrow> bytes \<Rightarrow> bytes option \<Rightarrow> page \<Rightarrow> page option" where
  "web_serve d e header footer username password received w = do {
     (_, t0) \<leftarrow> web_handle_data (pe_files e) (pe_templatedir e) username password received ((pg_temp w)\<lparr>temp_msg := None\<rparr>);
     (a, t) \<leftarrow> web_handle_data (pe_files e) (pe_templatedir e) username password received (pg_temp w);
     let w1 = w\<lparr>pg_temp := t, pg_stale := (temp_msg t0 = None)\<rparr>;
     (case a of
        None \<Rightarrow> Some w1
      | Some (Error code) \<Rightarrow> Some (web_send_error (pe_date e) code (fst (error_text code)) (snd (error_text code)) w1)
      | Some (Page x) \<Rightarrow> do {
          w2 \<leftarrow> web_send_response header (web_send_header (pe_date e) 200 ''OK'' w1);
          w3 \<leftarrow> web_show_template d e x w2;
          web_send_response footer w3
        })
   }"

end
