(* ===== verification/Fr_Sap.thy ===== *)
theory Fr_Sap
  imports Fr_NcpMain Fr_Config
begin

text \<open>
  \<^verbatim>\<open>src/server/sap.c\<close>: the table of the services that other servers announce, the answers to service
  requests and the periodic announcement; with the state of the subsystems beside NCP (service table,
  sessions of the management protocol, linked servers). \<open>out\<close> lists the datagrams handed to the
  network, the last one first. A packet is given as the whole receive buffer (also what is left there
  behind the packet) and the size received.
\<close>

abbreviation (input) SAP_MAX_SERVICES :: nat where "SAP_MAX_SERVICES \<equiv> 16"
abbreviation (input) SAP_PACKET_SIZE :: nat where "SAP_PACKET_SIZE \<equiv> 66"
abbreviation (input) SAP_TIMEOUT_LENGTH :: int where "SAP_TIMEOUT_LENGTH \<equiv> 150"
abbreviation (input) PACKET_MAXLEN :: nat where "PACKET_MAXLEN \<equiv> 2048"
abbreviation (input) IPXPORT_SAP :: u16 where "IPXPORT_SAP \<equiv> 0x0452"

section \<open>The state\<close>

record sap_entry =
  se_type :: u16
  se_name :: bytes
  se_net :: b4
  se_node :: b6
  se_socket :: u16
  se_hops :: u16
  se_update :: int

record gasp_session =
  gs_status :: int
  gs_addr :: ipx_addr
  gs_key :: bytes

text \<open>A byte of a reply is \<open>None\<close> when the code never set it.\<close>

datatype dgram =
    Broadcast u16 bytes
  | SapReply ipx_addr bytes
  | GaspReply ipx_addr "u8 option list"
  | LinkPacket ipx_addr bytes

text \<open>\<open>rand_key\<close> is the low byte of the values that \<^verbatim>\<open>rand ()\<close> will return; \<open>rconsole\<close> whether \<^verbatim>\<open>RCONSOLE\<close> is defined.\<close>

record net =
  host :: srv
  sap_service :: "sap_entry list"
  gasp_sessions :: "gasp_session list"
  out :: "dgram list"
  rand_key :: "nat \<Rightarrow> u8"
  rk :: nat
  rconsole :: bool
  conf_sap_enabled :: int
  conf_sap_nearest :: int
  conf_link_enabled :: int
  conf_link_key :: u32
  conf_link_nofservers :: nat
  conf_link_servers :: "link_server list"

definition on_host :: "(srv \<Rightarrow> ('a \<times> srv) option) \<Rightarrow> net \<Rightarrow> ('a \<times> net) option" where
  "on_host f n = do { (r, h) \<leftarrow> f (host n); Some (r, n\<lparr>host := h\<rparr>) }"

definition run_host :: "(srv \<Rightarrow> srv option) \<Rightarrow> net \<Rightarrow> net option" where
  "run_host f n = map_option (\<lambda>h. n\<lparr>host := h\<rparr>) (f (host n))"

definition send_out :: "dgram \<Rightarrow> net \<Rightarrow> net" where
  "send_out d n = n\<lparr>out := d # out n\<rparr>"

section \<open>Packets\<close>

record sap_packet =
  sp_operation :: b2
  sp_type :: b2
  sp_name :: bytes
  sp_net :: b4
  sp_node :: b6
  sp_socket :: b2
  sp_hops :: b2

definition get_sap :: "bytes \<Rightarrow> nat \<Rightarrow> sap_packet option" where
  "get_sap data i =
     (if i + SAP_PACKET_SIZE \<le> length data then
        let d = drop i data in
        Some \<lparr>sp_operation = (d ! 0, d ! 1), sp_type = (d ! 2, d ! 3), sp_name = take 48 (drop 4 d),
          sp_net = (d ! 52, d ! 53, d ! 54, d ! 55),
          sp_node = (d ! 56, d ! 57, d ! 58, d ! 59, d ! 60, d ! 61),
          sp_socket = (d ! 62, d ! 63), sp_hops = (d ! 64, d ! 65)\<rparr>
      else None)"

definition put_sap :: "sap_packet \<Rightarrow> bytes" where
  "put_sap p = list_b2 (sp_operation p) @ list_b2 (sp_type p) @ sp_name p @ list_b4 (sp_net p) @
     list_b6 (sp_node p) @ list_b2 (sp_socket p) @ list_b2 (sp_hops p)"

text \<open>The announcement; a server name longer than the field would be written behind it.\<close>

definition sap_broadcast_identity :: "u16 \<Rightarrow> net \<Rightarrow> net option" where
  "sap_broadcast_identity type n =
     (let s = host n in
      if length (conf_servername s) > 48 then None
      else Some (send_out (Broadcast IPXPORT_SAP (put_sap \<lparr>sp_operation = (0, 2), sp_type = to_be16 type,
        sp_name = mkbuf 48 (conf_servername s), sp_net = x_net (server_addr s), sp_node = x_host (server_addr s),
        sp_socket = (0x04, 0x51), sp_hops = (0, 1)\<rparr>)) n))"

section \<open>The table\<close>

text \<open>\<^verbatim>\<open>strncasecmp (a, b, 48) == 0\<close> on two arrays of 48 bytes.\<close>

definition same_name :: "bytes \<Rightarrow> bytes \<Rightarrow> bool" where
  "same_name a b \<longleftrightarrow> map tolower (takeWhile (\<lambda>x. x \<noteq> 0) (take 48 a)) = map tolower (takeWhile (\<lambda>x. x \<noteq> 0) (take 48 b))"

definition sap_scan_service :: "bytes \<Rightarrow> u16 \<Rightarrow> sap_entry list \<Rightarrow> nat option" where
  "sap_scan_service name type t = first_index (\<lambda>e. same_name name (se_name e) \<and> se_type e = type) t"

definition sap_scan_freeserviceno :: "sap_entry list \<Rightarrow> nat option" where
  "sap_scan_freeserviceno t = first_index (\<lambda>e. se_type e = 0) t"

definition sap_entry_of :: "sap_packet \<Rightarrow> int \<Rightarrow> sap_entry" where
  "sap_entry_of p t = \<lparr>se_type = be16 (sp_type p), se_name = sp_name p, se_net = sp_net p, se_node = sp_node p,
     se_socket = be16 (sp_socket p), se_hops = be16 (sp_hops p), se_update = t\<rparr>"

text \<open>The slot of a service: the one it has already, or the first free one.\<close>

definition sap_slot :: "sap_packet \<Rightarrow> sap_entry list \<Rightarrow> nat option" where
  "sap_slot p t =
     (case sap_scan_service (sp_name p) (be16 (sp_type p)) t of
        Some i \<Rightarrow> Some i
      | None \<Rightarrow> sap_scan_freeserviceno t)"

text \<open>
  A file server is also kept in the bindery, with its address as a property. \<open>tmp\<close> is the local array
  for the address: its bytes behind the address are set only when the object is created. An id with
  the highest bit set is negative as an \<^verbatim>\<open>int\<close>.
\<close>

definition sap_bindery :: "bytes \<Rightarrow> sap_packet \<Rightarrow> bytes \<Rightarrow> net \<Rightarrow> (bytes \<times> net) option" where
  "sap_bindery name p tmp n = do {
     (x, n1) \<leftarrow> on_host (on_db (bindio_scan_object name (be16 (sp_type p)))) n;
     (objid, tmp1, n2) \<leftarrow>
       (case x of
          Some (_, ob) \<Rightarrow> Some (ob_id ob, tmp, n1)
        | None \<Rightarrow> do {
            (r, n2) \<leftarrow> on_host (on_db (bindio_add_object name 0x4 0 0x40)) n1;
            (case r of
               Inl e \<Rightarrow> Some (-1, tmp, n2)
             | Inr i \<Rightarrow>
                 if sint i < 0 then Some (i, tmp, n2)
                 else do {
                   (q, n3) \<leftarrow> on_host (on_db (bindio_add_prop i (ascii ''NET_ADDRESS'') 0 0x40 (Some (replicate 128 0)))) n2;
                   Some (i, replicate 128 0, n3)
                 })
          });
     (if sint objid > 0
      then do {
        let t = list_b4 (sp_net p) @ list_b6 (sp_node p) @ list_b2 (sp_socket p) @ drop 12 tmp1;
        (e, n3) \<leftarrow> on_host (on_db (bindio_write_prop objid (ascii ''NET_ADDRESS'') 1 0 t)) n2;
        Some (t, n3)
      }
      else Some (tmp1, n2))
   }"

text \<open>The entries of a response, \<open>k\<close> of them from the offset \<open>i\<close> on; the loop ends when the table is full.\<close>

fun sap_responses :: "nat \<Rightarrow> nat \<Rightarrow> bytes \<Rightarrow> bytes \<Rightarrow> net \<Rightarrow> net option" where
  "sap_responses 0 i data tmp n = Some n"
| "sap_responses (Suc k) i data tmp n = do {
     p \<leftarrow> get_sap data i;
     (case sap_slot p (sap_service n) of
        None \<Rightarrow> Some n
      | Some j \<Rightarrow> do {
          let n1 = n\<lparr>sap_service := (sap_service n)[j := sap_entry_of p (now (host n))]\<rparr>;
          (tmp1, n2) \<leftarrow>
            (if be16 (sp_type p) = 4
             then do { name \<leftarrow> cstr (drop (i + 4) data); sap_bindery name p tmp n1 }
             else Some (tmp, n1));
          sap_responses k (i + SAP_PACKET_SIZE) data tmp1 n2
        })
   }"

definition sap_handle_response :: "bytes \<Rightarrow> int \<Rightarrow> net \<Rightarrow> net option" where
  "sap_handle_response data sz n =
     (if sz = 0 \<or> sz mod int SAP_PACKET_SIZE \<noteq> 0 then Some n
      else sap_responses (nat (sz div int SAP_PACKET_SIZE)) 0 data (map (stack (host n) (tk (host n))) [0..<128]) n)"

section \<open>Answers\<close>

definition sap_answer :: "u16 \<Rightarrow> sap_entry \<Rightarrow> sap_packet" where
  "sap_answer operation e = \<lparr>sp_operation = to_be16 (operation + 1), sp_type = to_be16 (se_type e),
     sp_name = se_name e, sp_net = se_net e, sp_node = se_node e, sp_socket = to_be16 (se_socket e),
     sp_hops = to_be16 (se_hops e)\<rparr>"

text \<open>The services of a type, after \<open>k\<close> were added, until no other fits the packet.\<close>

fun sap_collect :: "u16 \<Rightarrow> u16 \<Rightarrow> sap_entry list \<Rightarrow> nat \<Rightarrow> bytes" where
  "sap_collect operation type [] k = []"
| "sap_collect operation type (e # es) k =
     (if se_type e = type
      then put_sap (sap_answer operation e) @
           (if (Suc k + 1) * SAP_PACKET_SIZE > PACKET_MAXLEN then [] else sap_collect operation type es (Suc k))
      else sap_collect operation type es k)"

definition sap_handle_genserv :: "bytes \<Rightarrow> int \<Rightarrow> ipx_addr \<Rightarrow> net \<Rightarrow> net option" where
  "sap_handle_genserv data sz a n =
     (if sz \<noteq> 4 then Some n
      else do {
        operation \<leftarrow> get_be16 data 0;
        type \<leftarrow> get_be16 data 2;
        Some (send_out (SapReply a (sap_collect operation type (sap_service n) 0)) n)
      })"

section \<open>Events\<close>

definition sap_cleanup :: "net \<Rightarrow> net" where
  "sap_cleanup n = n\<lparr>sap_service := map (\<lambda>e. if se_type e \<noteq> 0 \<and> now (host n) > se_update e + SAP_TIMEOUT_LENGTH
     then e\<lparr>se_type := 0\<rparr> else e) (sap_service n)\<rparr>"

definition sap_event :: "net \<Rightarrow> net option" where
  "sap_event n = do {
     n1 \<leftarrow> sap_broadcast_identity 0x4 n;
     n2 \<leftarrow> (if rconsole n then sap_broadcast_identity 0x107 n1 else Some n1);
     run_host conn_cleanup (sap_cleanup n2)
   }"

definition sap_handle_packet :: "bytes \<Rightarrow> int \<Rightarrow> ipx_addr \<Rightarrow> net \<Rightarrow> net option" where
  "sap_handle_packet data sz a n = do {
     type \<leftarrow> get_be16 data 0;
     (if type = 1 then sap_handle_genserv data sz a n
      else if type = 2 then sap_handle_response data sz n
      else if type = 3 then (if conf_sap_nearest n \<noteq> 0 then sap_handle_genserv data sz a n else Some n)
      else if type = 4 then sap_handle_response data sz n
      else Some n)
   }"

text \<open>The start, without the socket and the timer: the table is cleared, then the first announcement is sent.\<close>

definition zero_sap :: sap_entry where
  "zero_sap = \<lparr>se_type = 0, se_name = replicate 48 0, se_net = (0, 0, 0, 0), se_node = (0, 0, 0, 0, 0, 0),
     se_socket = 0, se_hops = 0, se_update = 0\<rparr>"

definition sap_init :: "net \<Rightarrow> net option" where
  "sap_init n = sap_event (n\<lparr>sap_service := replicate SAP_MAX_SERVICES zero_sap\<rparr>)"

section \<open>The slots\<close>

interpretation services: slot_table "\<lambda>e. se_type e = 0" "\<lambda>t. t" sap_scan_freeserviceno
  by unfold_locales (simp add: sap_scan_freeserviceno_def)

text \<open>One entry for each service: entries in use that have the same type have different names.\<close>

definition sap_inv :: "sap_entry list \<Rightarrow> bool" where
  "sap_inv t \<longleftrightarrow> length t = SAP_MAX_SERVICES \<and> (\<forall>e\<in>set t. length (se_name e) = 48) \<and>
     (\<forall>i<length t. \<forall>j<length t. i \<noteq> j \<longrightarrow> se_type (t ! i) \<noteq> 0 \<longrightarrow> se_type (t ! j) = se_type (t ! i) \<longrightarrow>
        \<not> same_name (se_name (t ! i)) (se_name (t ! j)))"

end
