(* ===== verification/Fr_Gasp.thy ===== *)
theory Fr_Gasp
  imports Fr_Sap Fr_Ncp21
begin

text \<open>
  \<^verbatim>\<open>src/server/gasp_server.c\<close>: the management protocol, a table of eight sessions, each with the
  address it was opened from, a login key and a status. Packets as in the theory of the service
  announcements; the first six bytes are the header. A reply is five bytes of header and the data.
  Also \<^verbatim>\<open>src/lib/gasp_client.c\<close>, the request a console sends.
\<close>

abbreviation (input) GASP_MAX_SESSIONS :: nat where "GASP_MAX_SESSIONS \<equiv> 8"
abbreviation (input) GASP_DATASIZE :: nat where "GASP_DATASIZE \<equiv> 512"

abbreviation (input) GASP_STATUS_UNUSED :: int where "GASP_STATUS_UNUSED \<equiv> 0"
abbreviation (input) GASP_STATUS_CONNECTED :: int where "GASP_STATUS_CONNECTED \<equiv> 1"
abbreviation (input) GASP_STATUS_AUTH :: int where "GASP_STATUS_AUTH \<equiv> 2"

abbreviation (input) GASP_CMD_HELLO :: u16 where "GASP_CMD_HELLO \<equiv> 0"
abbreviation (input) GASP_CMD_AUTH :: u16 where "GASP_CMD_AUTH \<equiv> 2"
abbreviation (input) GASP_CMD_DISCON :: u16 where "GASP_CMD_DISCON \<equiv> 3"
abbreviation (input) GASP_CMD_DOWN :: u16 where "GASP_CMD_DOWN \<equiv> 4"
abbreviation (input) GASP_CMD_LENABLE :: u16 where "GASP_CMD_LENABLE \<equiv> 6"
abbreviation (input) GASP_CMD_LDISABLE :: u16 where "GASP_CMD_LDISABLE \<equiv> 7"
abbreviation (input) GASP_CMD_BROADCAST :: u16 where "GASP_CMD_BROADCAST \<equiv> 8"
abbreviation (input) GASP_CMD_GETINFO :: u16 where "GASP_CMD_GETINFO \<equiv> 9"
abbreviation (input) GASP_CMD_GETCONN :: u16 where "GASP_CMD_GETCONN \<equiv> 10"
abbreviation (input) GASP_CMD_CLEARCONN :: u16 where "GASP_CMD_CLEARCONN \<equiv> 11"
abbreviation (input) GASP_CMD_GETSESS :: u16 where "GASP_CMD_GETSESS \<equiv> 12"
abbreviation (input) GASP_CMD_GETSAPINFO :: u16 where "GASP_CMD_GETSAPINFO \<equiv> 13"

abbreviation (input) GASP_STATUS_OK :: u8 where "GASP_STATUS_OK \<equiv> 0"
abbreviation (input) GASP_STATUS_NOTAUTH :: u8 where "GASP_STATUS_NOTAUTH \<equiv> 1"
abbreviation (input) GASP_STATUS_BADAUTH :: u8 where "GASP_STATUS_BADAUTH \<equiv> 2"
abbreviation (input) GASP_STATUS_OUTOFSESS :: u8 where "GASP_STATUS_OUTOFSESS \<equiv> 3"
abbreviation (input) GASP_STATUS_NOCONN :: u8 where "GASP_STATUS_NOCONN \<equiv> 4"
abbreviation (input) GASP_STATUS_NOSESS :: u8 where "GASP_STATUS_NOSESS \<equiv> 5"
abbreviation (input) GASP_STATUS_NOSAP :: u8 where "GASP_STATUS_NOSAP \<equiv> 6"
abbreviation (input) GASP_STATUS_BADSESS :: u8 where "GASP_STATUS_BADSESS \<equiv> 253"
abbreviation (input) GASP_STATUS_BADCMD :: u8 where "GASP_STATUS_BADCMD \<equiv> 254"
abbreviation (input) GASP_STATUS_UNKNOWNCMD :: u8 where "GASP_STATUS_UNKNOWNCMD \<equiv> 255"

section \<open>Sessions and replies\<close>

definition zero_session :: gasp_session where
  "zero_session = \<lparr>gs_status = 0, gs_addr = zero_addr, gs_key = replicate 8 0\<rparr>"

text \<open>The start, without the socket: only the status is set.\<close>

definition gasp_init :: "net \<Rightarrow> net" where
  "gasp_init n = n\<lparr>gasp_sessions := map (\<lambda>g. g\<lparr>gs_status := GASP_STATUS_UNUSED\<rparr>) (gasp_sessions n)\<rparr>"

definition upd_session :: "nat \<Rightarrow> (gasp_session \<Rightarrow> gasp_session) \<Rightarrow> net \<Rightarrow> net" where
  "upd_session i f n = n\<lparr>gasp_sessions := (gasp_sessions n)[i := f (gasp_sessions n ! i)]\<rparr>"

definition gasp_send_reply :: "ipx_addr \<Rightarrow> u16 \<Rightarrow> u8 \<Rightarrow> u8 option list \<Rightarrow> net \<Rightarrow> net" where
  "gasp_send_reply a sessionid statuscode d n =
     send_out (GaspReply a (map Some ([0x77, 0x77] @ list_b2 (to_be16 sessionid) @ [statuscode]) @ d)) n"

definition gasp_send_reply_session :: "u16 \<Rightarrow> u8 \<Rightarrow> u8 option list \<Rightarrow> net \<Rightarrow> net option" where
  "gasp_send_reply_session sessionid statuscode d n = do {
     g \<leftarrow> load (gasp_sessions n) (unat sessionid);
     Some (gasp_send_reply (gs_addr g) sessionid statuscode d n)
   }"

definition free_session :: "gasp_session list \<Rightarrow> nat option" where
  "free_session gs = first_index (\<lambda>g. gs_status g = GASP_STATUS_UNUSED) gs"

text \<open>The eight bytes of a new login key.\<close>

definition gasp_key :: "net \<Rightarrow> bytes \<times> net" where
  "gasp_key n = (map (\<lambda>j. rand_key n (rk n + j)) [0..<8], n\<lparr>rk := rk n + 8\<rparr>)"

definition gasp_handle_hello :: "u16 \<Rightarrow> ipx_addr \<Rightarrow> bytes \<Rightarrow> int \<Rightarrow> net \<Rightarrow> net option" where
  "gasp_handle_hello sessionid a data sz n =
     (case free_session (gasp_sessions n) of
        None \<Rightarrow> Some (gasp_send_reply a sessionid GASP_STATUS_OUTOFSESS [] n)
      | Some i \<Rightarrow>
          (case gasp_key n of (key, n1) \<Rightarrow>
             gasp_send_reply_session (of_nat i) GASP_STATUS_OK (map Some key)
               (upd_session i (\<lambda>g. g\<lparr>gs_status := GASP_STATUS_CONNECTED, gs_addr := a, gs_key := key\<rparr>) n1)))"

definition gasp_handle_auth :: "u16 \<Rightarrow> bytes \<Rightarrow> int \<Rightarrow> net \<Rightarrow> net option" where
  "gasp_handle_auth sessionid data sz n =
     (if sz \<noteq> 8 then gasp_send_reply_session sessionid GASP_STATUS_BADCMD [] n
      else do {
        pwd \<leftarrow> get_bytes data 0 8;
        g \<leftarrow> load (gasp_sessions n) (unat sessionid);
        (r, n1) \<leftarrow> on_host (on_db (bind_verify_pwd 1 pwd (gs_key g))) n;
        (if r < 0 then gasp_send_reply_session sessionid GASP_STATUS_BADAUTH [] n1
         else gasp_send_reply_session sessionid GASP_STATUS_OK []
                (upd_session (unat sessionid) (\<lambda>g. g\<lparr>gs_status := GASP_STATUS_AUTH\<rparr>) n1))
      })"

section \<open>Information\<close>

text \<open>The array of the server name holds zeros behind the name. The two numbers are copied as the host keeps them.\<close>

definition gasp_send_serverinfo :: "u16 \<Rightarrow> net \<Rightarrow> net option" where
  "gasp_send_serverinfo sessionid n =
     (let s = host n; v = (word_of_int (conf_nwversion s) :: u16) in
      gasp_send_reply_session sessionid GASP_STATUS_OK
        (map Some (take 48 (mkbuf 48 (conf_servername s)) @ rev (list_b2 (to_be16 v)) @
           list_b4 (to_le32 (of_nat (nofconns s))) @ [of_nat GASP_MAX_SESSIONS])) n)"

text \<open>
  A request about a connection: the number is checked, then \<open>act\<close> runs for it.
\<close>

definition with_conn :: "u16 \<Rightarrow> bytes \<Rightarrow> int \<Rightarrow> (nat \<Rightarrow> net option) \<Rightarrow> net \<Rightarrow> net option" where
  "with_conn sessionid data sz act n =
     (if sz \<noteq> 4 then gasp_send_reply_session sessionid GASP_STATUS_BADCMD [] n
      else do {
        conn_no \<leftarrow> get_be32 data 0;
        (if unat conn_no < 1 \<or> unat conn_no > nofconns (host n)
         then gasp_send_reply_session sessionid GASP_STATUS_NOCONN [] n
         else act (unat conn_no))
      })"

definition gasp_send_coninfo :: "u16 \<Rightarrow> bytes \<Rightarrow> int \<Rightarrow> net \<Rightarrow> net option" where
  "gasp_send_coninfo sessionid data sz n =
     with_conn sessionid data sz (\<lambda>c. do {
       k \<leftarrow> get_conn c (host n);
       (x, n1) \<leftarrow> on_host (on_db (bindio_scan_object_by_id (c_object_id k))) n;
       let name = (case x of Some (_, ob) \<Rightarrow> ob_name ob | None \<Rightarrow> replicate 48 0);
       gasp_send_reply_session sessionid GASP_STATUS_OK
         (map Some (list_b4 (to_be32 (c_object_id k)) @ list_b2 (to_be16 (c_object_type k)) @ name @
            list_b4 (x_net (addr k)) @ list_b6 (x_host (addr k)) @ [0, 0])) n1
     }) n"

definition gasp_clear_conn :: "u16 \<Rightarrow> bytes \<Rightarrow> int \<Rightarrow> net \<Rightarrow> net option" where
  "gasp_clear_conn sessionid data sz n =
     with_conn sessionid data sz (\<lambda>c. do {
       n1 \<leftarrow> run_host (conn_clear c) n;
       gasp_send_reply_session sessionid GASP_STATUS_OK [] n1
     }) n"

text \<open>The message is copied into an array of \<^verbatim>\<open>GASP_DATASIZE\<close> bytes and from there to every connection in use.\<close>

definition used_conns :: "srv \<Rightarrow> nat list" where
  "used_conns s = filter (\<lambda>i. status (conns s ! i) \<noteq> Unused) [1..<Suc (nofconns s)]"

definition gasp_send_broadcast :: "u16 \<Rightarrow> bytes \<Rightarrow> int \<Rightarrow> net \<Rightarrow> net option" where
  "gasp_send_broadcast sessionid data sz n = do {
     d \<leftarrow> get_bytes data 0 (nat sz);
     msg \<leftarrow> bcopy d (replicate GASP_DATASIZE 0);
     n1 \<leftarrow> (if used_conns (host n) = [] then Some n
             else do { m \<leftarrow> cstr msg; run_host (put_messages (used_conns (host n)) m) n });
     gasp_send_reply_session sessionid GASP_STATUS_OK [] n1
   }"

text \<open>The number of the session may be one too high: \<open>None\<close>. The last two bytes of the address are not set.\<close>

definition gasp_send_sessinfo :: "u16 \<Rightarrow> bytes \<Rightarrow> int \<Rightarrow> net \<Rightarrow> net option" where
  "gasp_send_sessinfo sessionid data sz n =
     (if sz \<noteq> 4 then gasp_send_reply_session sessionid GASP_STATUS_BADCMD [] n
      else do {
        sess_no \<leftarrow> get_be32 data 0;
        (if unat sess_no > GASP_MAX_SESSIONS then gasp_send_reply_session sessionid GASP_STATUS_NOSESS [] n
         else do {
           g \<leftarrow> load (gasp_sessions n) (unat sess_no);
           gasp_send_reply_session sessionid GASP_STATUS_OK
             (map Some (word_of_int (gs_status g) # list_b4 (x_net (gs_addr g)) @ list_b6 (x_host (gs_addr g))) @
              [None, None]) n
         })
      })"

definition gasp_send_sapinfo :: "u16 \<Rightarrow> bytes \<Rightarrow> int \<Rightarrow> net \<Rightarrow> net option" where
  "gasp_send_sapinfo sessionid data sz n =
     (if sz \<noteq> 4 then gasp_send_reply_session sessionid GASP_STATUS_BADCMD [] n
      else do {
        indexno \<leftarrow> get_be32 data 0;
        (if unat indexno \<ge> SAP_MAX_SERVICES then gasp_send_reply_session sessionid GASP_STATUS_NOSAP [] n
         else do {
           e \<leftarrow> load (sap_service n) (unat indexno);
           gasp_send_reply_session sessionid GASP_STATUS_OK
             (map Some (list_b2 (to_be16 (se_type e)) @ se_name e @ list_b4 (se_net e) @ list_b6 (se_node e)) @
              [None, None]) n
         })
      })"

section \<open>Packets\<close>

text \<open>The server goes on, or has called \<^verbatim>\<open>exit (0)\<close> after the last reply.\<close>

datatype net_outcome = Up net | Down net

definition go :: "net option \<Rightarrow> net_outcome option" where
  "go m = map_option Up m"

text \<open>The commands of a session that is not waiting for its password.\<close>

definition gasp_command :: "u16 \<Rightarrow> u16 \<Rightarrow> bytes \<Rightarrow> int \<Rightarrow> ipx_addr \<Rightarrow> net \<Rightarrow> net_outcome option" where
  "gasp_command sid command data sz a n =
     (if command = GASP_CMD_DISCON
      then Some (Up (gasp_send_reply a sid GASP_STATUS_OK []
             (upd_session (unat sid) (\<lambda>g. g\<lparr>gs_status := GASP_STATUS_UNUSED\<rparr>) n)))
      else if command = GASP_CMD_LENABLE \<or> command = GASP_CMD_LDISABLE
      then Some (Up (gasp_send_reply a sid GASP_STATUS_OK [] n))
      else if command = GASP_CMD_BROADCAST then go (gasp_send_broadcast sid data sz n)
      else if command = GASP_CMD_DOWN then Some (Down (gasp_send_reply a sid GASP_STATUS_OK [] n))
      else if command = GASP_CMD_GETINFO then go (gasp_send_serverinfo sid n)
      else if command = GASP_CMD_GETCONN then go (gasp_send_coninfo sid data sz n)
      else if command = GASP_CMD_CLEARCONN then go (gasp_clear_conn sid data sz n)
      else if command = GASP_CMD_GETSESS then go (gasp_send_sessinfo sid data sz n)
      else if command = GASP_CMD_GETSAPINFO then go (gasp_send_sapinfo sid data sz n)
      else Some (Up (gasp_send_reply a sid GASP_STATUS_UNKNOWNCMD [] n)))"

text \<open>The type of the packet is not looked at, and neither is the address it came from.\<close>

definition gasp_handle_packet :: "bytes \<Rightarrow> int \<Rightarrow> ipx_addr \<Rightarrow> net \<Rightarrow> net_outcome option" where
  "gasp_handle_packet packet sz a n =
     (if sz < 6 then Some (Up n)
      else do {
        sid \<leftarrow> get_be16 packet 2;
        command \<leftarrow> get_be16 packet 4;
        let data = drop 6 packet;
        (if sid = 0xffff
         then (if command \<noteq> GASP_CMD_HELLO then Some (Up (gasp_send_reply a sid GASP_STATUS_BADSESS [] n))
               else go (gasp_handle_hello sid a data (sz - 6) n))
         else do {
           g \<leftarrow> load (gasp_sessions n) (unat sid);
           (if gs_status g = GASP_STATUS_CONNECTED
            then (if command \<noteq> GASP_CMD_AUTH then Some (Up (gasp_send_reply a sid GASP_STATUS_NOTAUTH [] n))
                  else go (gasp_handle_auth sid data (sz - 6) n))
            else gasp_command sid command data (sz - 6) a n)
         })
      })"

section \<open>The console's side\<close>

text \<open>The bytes handed to \<^verbatim>\<open>net_send_local_packet\<close>; more data than the array holds is outside of it.\<close>

definition gasp_send_request :: "u16 \<Rightarrow> u16 \<Rightarrow> bytes \<Rightarrow> bytes option" where
  "gasp_send_request sessionid command data =
     (if length data > GASP_DATASIZE then None
      else Some ([0x66, 0x66] @ list_b2 (to_be16 sessionid) @ list_b2 (to_be16 command) @ data))"

interpretation sessions: slot_table "\<lambda>g. gs_status g = GASP_STATUS_UNUSED" "\<lambda>gs. gs" free_session
  by unfold_locales (simp add: free_session_def)

end
