(* ===== verification/Fr_Link.thy ===== *)
theory Fr_Link
  imports Fr_Gasp
begin

text \<open>
  \<^verbatim>\<open>src/server/link.c\<close>: the links to other servers of the configuration. A greeting is sent to each of
  them at the start; a greeting received is answered when its name is configured for the sender's node.
  The key of the greeting is sent but never compared.
\<close>

abbreviation (input) LINK_HELLO_SIZE :: nat where "LINK_HELLO_SIZE \<equiv> 52"
abbreviation (input) IPXPORT_LINK :: u16 where "IPXPORT_LINK \<equiv> 0x0460"
abbreviation (input) LINK_CMD_HELLO :: u16 where "LINK_CMD_HELLO \<equiv> 0"
abbreviation (input) LINK_STATUS_OK :: u8 where "LINK_STATUS_OK \<equiv> 0"

text \<open>\<^verbatim>\<open>strcmp (a, b) == 0\<close> on two arrays: \<open>None\<close> when it goes on behind one of them.\<close>

fun bufeq :: "bytes \<Rightarrow> bytes \<Rightarrow> bool option" where
  "bufeq (x # xs) (y # ys) = (if x \<noteq> y then Some False else if x = 0 then Some True else bufeq xs ys)"
| "bufeq [] ys = None"
| "bufeq xs [] = None"

text \<open>All entries are compared, also those that are not in use. The inner \<open>None\<close> is the code's -1.\<close>

fun link_scan_from :: "bytes \<Rightarrow> nat \<Rightarrow> link_server list \<Rightarrow> nat option option" where
  "link_scan_from sname i [] = Some None"
| "link_scan_from sname i (l # ls) =
     (case bufeq (ls_name l) sname of
        None \<Rightarrow> None
      | Some True \<Rightarrow> Some (Some i)
      | Some False \<Rightarrow> link_scan_from sname (Suc i) ls)"

definition link_scan_server :: "bytes \<Rightarrow> net \<Rightarrow> nat option option" where
  "link_scan_server sname n = link_scan_from sname 0 (conf_link_servers n)"

section \<open>The start\<close>

definition link_hello :: "net \<Rightarrow> bytes" where
  "link_hello n = mkbuf 48 (take 48 (conf_servername (host n))) @ list_b4 (to_be32 (conf_link_key n))"

fun b6_of :: "bytes \<Rightarrow> b6" where
  "b6_of xs = (xs ! 0, xs ! 1, xs ! 2, xs ! 3, xs ! 4, xs ! 5)"

text \<open>The greeting to entry \<open>i\<close> of the table.\<close>

definition link_greet :: "nat \<Rightarrow> net \<Rightarrow> net option" where
  "link_greet i n = do {
     l \<leftarrow> load (conf_link_servers n) i;
     Some (send_out (LinkPacket
       \<lparr>x_net = x_net (server_addr (host n)), x_host = b6_of (ls_addr l), x_port = IPXPORT_LINK\<rparr>
       ([0x88, 0x88, 0xff, 0xff, 0, 0] @ link_hello n)) n)
   }"

fun link_greet_all :: "nat list \<Rightarrow> net \<Rightarrow> net option" where
  "link_greet_all [] n = Some n"
| "link_greet_all (i # is) n = do { n1 \<leftarrow> link_greet i n; link_greet_all is n1 }"

text \<open>Without the socket. Whether the datagrams can be sent is only logged.\<close>

definition link_init :: "net \<Rightarrow> net option" where
  "link_init n =
     (if conf_link_enabled n = 0 then Some n
      else link_greet_all [0..<conf_link_nofservers n] n)"

section \<open>Packets\<close>

record gasp_packet =
  p_type :: u16
  p_sessionid :: u16
  p_command :: u16
  p_datalen :: u16
  p_data :: bytes

definition link_send_response :: "u16 \<Rightarrow> u8 \<Rightarrow> ipx_addr \<Rightarrow> bytes \<Rightarrow> net \<Rightarrow> net" where
  "link_send_response sessionid statuscode a d n =
     send_out (LinkPacket a ([0x99, 0x99] @ list_b2 (to_be16 sessionid) @ [statuscode] @ d)) n"

definition link_handle_hello :: "gasp_packet \<Rightarrow> ipx_addr \<Rightarrow> net \<Rightarrow> net option" where
  "link_handle_hello p a n =
     (if p_datalen p \<noteq> of_nat LINK_HELLO_SIZE then Some n
      else do {
        x \<leftarrow> link_scan_server (p_data p) n;
        (case x of
           None \<Rightarrow> Some n
         | Some i \<Rightarrow> do {
             l \<leftarrow> load (conf_link_servers n) i;
             Some (if take 6 (ls_addr l) \<noteq> list_b6 (x_host a) then n
                   else link_send_response (p_sessionid p) LINK_STATUS_OK a [] n)
           })
      })"

definition link_handle_command :: "gasp_packet \<Rightarrow> ipx_addr \<Rightarrow> net \<Rightarrow> net option" where
  "link_handle_command p a n = (if p_command p = LINK_CMD_HELLO then link_handle_hello p a n else Some n)"

definition link_handle_packet :: "bytes \<Rightarrow> int \<Rightarrow> ipx_addr \<Rightarrow> net \<Rightarrow> net option" where
  "link_handle_packet data sz a n =
     (if sz < 5 then Some n
      else do {
        type \<leftarrow> get_be16 data 0;
        sid \<leftarrow> get_be16 data 2;
        command \<leftarrow> get_be16 data 4;
        let p = \<lparr>p_type = type, p_sessionid = sid, p_command = command,
                 p_datalen = word_of_int (sz - 6), p_data = drop 6 data\<rparr>;
        (if p_type p = 0x8888 then link_handle_command p a n else Some n)
      })"

section \<open>Names\<close>

text \<open>The comparison of arrays that both hold strings.\<close>

lemma bufeq_cstr: "cstr a = Some s \<Longrightarrow> cstr b = Some t \<Longrightarrow> bufeq a b = Some (s = t)"
  by (induction a b arbitrary: s t rule: bufeq.induct) (auto split: if_splits)

definition link_named :: "bytes \<Rightarrow> link_server \<Rightarrow> bool" where
  "link_named s l \<longleftrightarrow> cstr (ls_name l) = Some s"

lemma link_scan_from_eq:
  assumes "\<forall>l\<in>set ls. \<exists>m. cstr (ls_name l) = Some m" "cstr b = Some s"
  shows "link_scan_from b i ls = Some (map_option (\<lambda>k. i + k) (first_index (link_named s) ls))"
  using assms(1)
proof (induction ls arbitrary: i)
  case (Cons l ls)
  obtain m where m: "cstr (ls_name l) = Some m" using Cons.prems by auto
  then have "bufeq (ls_name l) b = Some (m = s)" using assms(2) by (rule bufeq_cstr)
  moreover have "link_scan_from b (Suc i) ls = Some (map_option (\<lambda>k. Suc i + k) (first_index (link_named s) ls))"
    by (rule Cons.IH) (use Cons.prems in simp)
  ultimately show ?case using m by (auto simp: link_named_def [of s l] option.map_comp comp_def)
qed simp

lemma link_scan_server_eq:
  assumes "\<forall>l\<in>set (conf_link_servers n). \<exists>m. cstr (ls_name l) = Some m" "cstr b = Some s"
  shows "link_scan_server b n = Some (first_index (link_named s) (conf_link_servers n))"
  by (simp add: link_scan_server_def link_scan_from_eq [OF assms] option.map_ident)

end
