(* ===== verification/Fr_Poll.thy ===== *)
theory Fr_Poll
  imports Fr_Link Fr_Server
begin

text \<open>
  \<^verbatim>\<open>src/server/main.c\<close>: the start of the subsystems and one turn of the main loop, for a server built
  without the remote console inside the server, and without the web interface (\<^verbatim>\<open>Fr_WebPoll\<close> adds it). The datagrams that wait on the
  sockets are an argument, and so are the answer of \<^verbatim>\<open>select\<close> and what the receive buffer holds first.
\<close>

datatype socket = Fd_ncp | Fd_sap | Fd_wdog | Fd_gasp | Fd_link

type_synonym arrivals = "socket \<Rightarrow> (bytes \<times> ipx_addr) option"

text \<open>The sockets in the set given to \<^verbatim>\<open>select\<close>: the one for links is commented out.\<close>

definition watched :: "net \<Rightarrow> socket set" where
  "watched n = {Fd_ncp, Fd_wdog, Fd_gasp} \<union> (if conf_sap_enabled n \<noteq> 0 then {Fd_sap} else {})"

definition is_ready :: "net \<Rightarrow> arrivals \<Rightarrow> arrivals" where
  "is_ready n arrived s = (if s \<in> watched n then arrived s else None)"

text \<open>
  One socket: a datagram is read into the buffer, over what was there, and handled when it is not
  empty. A failure of the receive call is an empty datagram here. \<open>Inr\<close>: the server has ended.
\<close>

type_synonym handler = "bytes \<Rightarrow> int \<Rightarrow> ipx_addr \<Rightarrow> net \<Rightarrow> net_outcome option"

definition poll_socket :: "(bytes \<times> ipx_addr) option \<Rightarrow> handler \<Rightarrow> bytes \<Rightarrow> net \<Rightarrow> (bytes \<times> net + net) option" where
  "poll_socket ready h buf n =
     (case ready of
        None \<Rightarrow> Some (Inl (buf, n))
      | Some (dgram, a) \<Rightarrow>
          let d = take PACKET_MAXLEN dgram; buf1 = d @ drop (length d) buf in
          if d = [] then Some (Inl (buf1, n))
          else map_option (\<lambda>x. case x of Up n1 \<Rightarrow> Inl (buf1, n1) | Down n1 \<Rightarrow> Inr n1) (h buf1 (int (length d)) a n))"

fun poll_sockets :: "arrivals \<Rightarrow> (socket \<times> handler) list \<Rightarrow> bytes \<Rightarrow> net \<Rightarrow> net_outcome option" where
  "poll_sockets ready [] buf n = Some (Up n)"
| "poll_sockets ready ((s, h) # hs) buf n = do {
     r \<leftarrow> poll_socket (ready s) h buf n;
     (case r of Inl (buf1, n1) \<Rightarrow> poll_sockets ready hs buf1 n1 | Inr n1 \<Rightarrow> Some (Down n1))
   }"

definition ncp_on_net :: handler where
  "ncp_on_net data sz a n =
     map_option (\<lambda>x. case x of Running h \<Rightarrow> Up (n\<lparr>host := h\<rparr>) | Exited _ \<Rightarrow> Down n)
       (ncp_handle_packet data sz a (host n))"

definition wdog_on_net :: handler where
  "wdog_on_net data sz a n = go (run_host (wdog_handle_packet data (nat sz) a) n)"

definition handlers :: "(socket \<times> handler) list" where
  "handlers = [(Fd_ncp, ncp_on_net), (Fd_sap, \<lambda>data sz a n. go (sap_handle_packet data sz a n)),
     (Fd_wdog, wdog_on_net), (Fd_gasp, gasp_handle_packet),
     (Fd_link, \<lambda>data sz a n. go (link_handle_packet data sz a n))]"

definition poll :: "bool \<Rightarrow> arrivals \<Rightarrow> bytes \<Rightarrow> net \<Rightarrow> net_outcome option" where
  "poll selected arrived buf n =
     (if \<not> selected then Some (Up n) else poll_sockets (is_ready n arrived) handlers buf n)"

section \<open>The start\<close>

text \<open>
  From the configuration on; the sockets are assumed to open. The first announcement is sent before
  the bindery is opened.
\<close>

definition main_init :: "nat \<Rightarrow> bool \<Rightarrow> bool \<Rightarrow> bool \<Rightarrow> (nat \<Rightarrow> u8) \<Rightarrow> net \<Rightarrow> net_outcome option" where
  "main_init conf_nofconns opens creates recreate junk n = do {
     n1 \<leftarrow> sap_init (n\<lparr>host := (host n)\<lparr>conns := conn_init conf_nofconns\<rparr>\<rparr>);
     r \<leftarrow> bind_init opens creates recreate (conf_servername (host n1)) (server_addr (host n1)) junk (db (host n1));
     (case r of
        None \<Rightarrow> Some (Down n1)
      | Some b \<Rightarrow> go (link_init (gasp_init (n1\<lparr>host := (host n1)\<lparr>db := b\<rparr>\<rparr>))))
   }"

section \<open>From the configuration to the start\<close>

text \<open>
  The variables of the configuration that the subsystems read. The name of an interface and the path of
  the bindery only go to the operating system; the modes and the interval likewise.
\<close>

definition configure :: "config \<Rightarrow> net \<Rightarrow> net" where
  "configure c n =
     n\<lparr>host := (host n)\<lparr>volumes := cf_volumes c, conf_servername := takeWhile (\<lambda>x. x \<noteq> 0) (cf_servername c),
          conf_nwversion := cf_nwversion c, conf_serialno := cf_serialno c, conf_appno := cf_appno c\<rparr>,
       conf_sap_enabled := cf_sap_enabled c, conf_sap_nearest := cf_sap_nearest c, conf_link_enabled := cf_link_enabled c,
       conf_link_key := of_int (cf_link_key c), conf_link_nofservers := cf_link_nofservers c,
       conf_link_servers := cf_link_servers c\<rparr>"

text \<open>
  \<^verbatim>\<open>main\<close> from \<^verbatim>\<open>vol_init\<close> to \<^verbatim>\<open>link_init\<close>. The number of connections is not checked: the array of their
  pointers has 65535 entries, of which entry 0 is one; a negative number is left out.
\<close>

definition main_start ::
  "accounts \<Rightarrow> accounts \<Rightarrow> bytes option \<Rightarrow> bool \<Rightarrow> bool \<Rightarrow> bool \<Rightarrow> (nat \<Rightarrow> u8) \<Rightarrow> net \<Rightarrow> net_outcome option" where
  "main_start pw gr file opens creates recreate junk n =
     (case parse_config pw gr file False conf_start of
        None \<Rightarrow> None
      | Some (Inl e) \<Rightarrow> Some (Down n)
      | Some (Inr c) \<Rightarrow>
          if cf_nofconns c < 0 \<or> 65535 \<le> cf_nofconns c then None
          else main_init (nat (cf_nofconns c)) opens creates recreate junk (configure c n))"

end
