(* ===== verification/Fr_Net.thy ===== *)
theory Fr_Net
  imports Fr_Poll
begin

text \<open>
  The server with all its subsystems as a state machine: turns of the main loop, the alarm of the
  announcements, and the clock. Every reachable state satisfies the invariants of the connection table,
  of the table of services and of the table of sessions.
\<close>

section \<open>The table of services\<close>

definition name_key :: "bytes \<Rightarrow> bytes" where
  "name_key a = map tolower (takeWhile (\<lambda>x. x \<noteq> 0) (take 48 a))"

lemma same_name_key: "same_name a b \<longleftrightarrow> name_key a = name_key b"
  by (simp add: same_name_def name_key_def)

text \<open>A service is identified by its type and its name.\<close>

definition service_key :: "sap_entry \<Rightarrow> u16 \<times> bytes" where
  "service_key e = (se_type e, name_key (se_name e))"

lemma sap_inv_alt:
  "sap_inv t \<longleftrightarrow> length t = SAP_MAX_SERVICES \<and> (\<forall>e\<in>set t. length (se_name e) = 48) \<and>
     (\<forall>i<length t. \<forall>j<length t. i \<noteq> j \<longrightarrow> se_type (t ! i) \<noteq> 0 \<longrightarrow> service_key (t ! i) \<noteq> service_key (t ! j))"
  unfolding sap_inv_def service_key_def same_name_key by auto

lemma sap_invD:
  assumes "sap_inv t" "i < length t" "j < length t" "i \<noteq> j" "se_type (t ! i) \<noteq> 0"
  shows "service_key (t ! i) \<noteq> service_key (t ! j)"
  using assms by (simp add: sap_inv_alt)

definition packet_key :: "sap_packet \<Rightarrow> u16 \<times> bytes" where
  "packet_key p = (be16 (sp_type p), name_key (sp_name p))"

lemma service_key_entry [simp]: "service_key (sap_entry_of p t) = packet_key p"
  by (simp add: service_key_def sap_entry_of_def packet_key_def)

lemma sap_scan_service_key:
  "sap_scan_service (sp_name p) (be16 (sp_type p)) t = first_index (\<lambda>e. service_key e = packet_key p) t"
  unfolding sap_scan_service_def same_name_key service_key_def packet_key_def by (rule first_index_cong) auto

lemma sap_slot_SomeD:
  assumes "sap_slot p t = Some j"
  shows "j < length t"
    "service_key (t ! j) = packet_key p \<or> se_type (t ! j) = 0 \<and> (\<forall>e\<in>set t. service_key e \<noteq> packet_key p)"
  using assms services.find_SomeD [of t j]
  by (auto simp: sap_slot_def sap_scan_service_key first_index_None dest: first_index_lessD first_index_satD split: option.splits)

lemma sap_slot_None:
  "sap_slot p t = None \<longleftrightarrow> (\<forall>e\<in>set t. service_key e \<noteq> packet_key p \<and> se_type e \<noteq> 0)"
  by (auto simp: sap_slot_def sap_scan_service_key first_index_None services.find_None split: option.splits
      dest!: first_index_Some [THEN iffD1])

lemma sap_inv_learn:
  assumes inv: "sap_inv t" and j: "sap_slot p t = Some j" and p: "length (sp_name p) = 48"
  shows "sap_inv (t[j := sap_entry_of p u])"
proof -
  let ?t = "t[j := sap_entry_of p u]"
  note jl = sap_slot_SomeD [OF j]
  have other: "service_key (t ! i) \<noteq> packet_key p" if "i < length t" "i \<noteq> j" "be16 (sp_type p) \<noteq> 0" for i
  proof (cases "service_key (t ! j) = packet_key p")
    case True
    then have "se_type (t ! j) \<noteq> 0" using that(3) by (simp add: service_key_def packet_key_def)
    then show ?thesis using sap_invD [OF inv jl(1) that(1)] that(2) True by auto
  qed (use jl(2) that(1) in auto)
  have "service_key (?t ! a) \<noteq> service_key (?t ! b)"
    if ab: "a < length t" "b < length t" "a \<noteq> b" "se_type (?t ! a) \<noteq> 0" for a b
  proof -
    consider "a = j" "b \<noteq> j" | "b = j" "a \<noteq> j" | "a \<noteq> j" "b \<noteq> j" using ab(3) by blast
    then show ?thesis
    proof cases
      case 1
      then have "be16 (sp_type p) \<noteq> 0" using ab(1,4) by (simp add: sap_entry_of_def)
      then show ?thesis using other [OF ab(2)] 1 ab(1) by auto
    next
      case 2
      show ?thesis
      proof (cases "be16 (sp_type p) = 0")
        case True
        then show ?thesis using 2 ab(1,2,4) by (auto simp: service_key_def sap_entry_of_def)
      next
        case False
        then show ?thesis using other [OF ab(1)] 2 ab(2) by auto
      qed
    next
      case 3
      then show ?thesis using sap_invD [OF inv ab(1,2,3)] ab(4) by simp
    qed
  qed
  moreover have "\<forall>e\<in>set ?t. length (se_name e) = 48"
    using inv p set_update_subset_insert [of t j] by (fastforce simp: sap_inv_alt sap_entry_of_def)
  ultimately show ?thesis using inv by (simp add: sap_inv_alt)
qed

lemma sap_inv_zero: "sap_inv (replicate SAP_MAX_SERVICES zero_sap)"
  by (simp add: sap_inv_alt zero_sap_def)

lemma sap_inv_cleanup: "sap_inv (sap_service n) \<Longrightarrow> sap_inv (sap_service (sap_cleanup n))"
  unfolding sap_cleanup_def sap_inv_alt
  by (auto simp: service_key_def)

lemma get_sap_name: "get_sap data i = Some p \<Longrightarrow> length (sp_name p) = 48"
  by (auto simp: get_sap_def Let_def split: if_splits)

section \<open>What the subsystems leave alone\<close>

text \<open>A state whose host differs in the bindery only.\<close>

definition db_only :: "net \<Rightarrow> net \<Rightarrow> bool" where
  "db_only n n' \<longleftrightarrow> (\<exists>b. n' = n\<lparr>host := (host n)\<lparr>db := b\<rparr>\<rparr>)"

lemma db_only_refl [simp]: "db_only n n"
  unfolding db_only_def by (intro exI [of _ "db (host n)"]) simp

lemma db_only_trans: "db_only n m \<Longrightarrow> db_only m u \<Longrightarrow> db_only n u"
  unfolding db_only_def by auto

lemma on_host_db: "on_host (on_db f) n = Some (r, n') \<Longrightarrow> db_only n n'"
  by (auto simp: on_host_def on_db_def db_only_def bind_eq_Some_conv)

lemma db_only_fields:
  assumes "db_only n n'"
  shows "sap_service n' = sap_service n" "gasp_sessions n' = gasp_sessions n" "out n' = out n"
    "conns (host n') = conns (host n)" "now (host n') = now (host n)" "conn_inv (host n') = conn_inv (host n)"
    "volumes (host n') = volumes (host n)" "sent (host n') = sent (host n)"
  using assms by (auto simp: db_only_def conn_inv_def sys_volume_ok_def)

lemma db_only_chain: "on_host (on_db f) n = Some (r, n') \<Longrightarrow> db_only m n \<Longrightarrow> db_only m n'"
  by (blast intro: on_host_db db_only_trans)

lemma sap_bindery_db_only:
  assumes "sap_bindery name p tmp n = Some (t, n')"
  shows "db_only n n'"
proof -
  let ?ob = "\<lambda>x n1. (case x of
          Some (_, ob) \<Rightarrow> Some (ob_id ob, tmp, n1)
        | None \<Rightarrow> do {
            (r, n2) \<leftarrow> on_host (on_db (bindio_add_object name 0x4 0 0x40)) n1;
            (case r of
               Inl e \<Rightarrow> Some (-1, tmp, n2)
             | Inr i \<Rightarrow>
                 if sint i < 0 then Some (i, tmp, n2)
                 else do {
                   (q, n3) \<leftarrow> on_host (on_db (bindio_add_prop i (ascii ''NET_ADDRESS'') 0 0x40 (Some (replicate 128 0)))) n2;
                   Some (i, replicate 128 0, n3)
                 })
          })"
  have ob: "db_only n n2" if "db_only n n1" "?ob x n1 = Some (i, u, n2)" for x n1 i u n2
  proof -
    have "post (\<lambda>(i, u, n2). db_only n n2) (?ob x n1)"
      by (intro post_rules) (use that(1) in \<open>auto intro: db_only_chain\<close>)
    then show ?thesis using that(2) by (simp add: post_def)
  qed
  have "post (\<lambda>(t, n'). db_only n n') (sap_bindery name p tmp n)"
    unfolding sap_bindery_def by (intro post_rules) (auto intro: db_only_chain dest: on_host_db ob)
  then show ?thesis using assms by (simp add: post_def)
qed

definition session_ok :: "gasp_session \<Rightarrow> bool" where
  "session_ok g \<longleftrightarrow> gs_status g \<in> {0, 1, 2} \<and> length (gs_key g) = 8"

definition net_inv :: "net \<Rightarrow> bool" where
  "net_inv n \<longleftrightarrow> conn_inv (host n) \<and> sap_inv (sap_service n) \<and>
     length (gasp_sessions n) = GASP_MAX_SESSIONS \<and>
     (\<forall>g\<in>set (gasp_sessions n). session_ok g)"

lemma net_inv_db_only: "net_inv n \<Longrightarrow> db_only n n' \<Longrightarrow> net_inv n'"
  by (simp add: net_inv_def db_only_fields)

lemma net_inv_out [simp]: "net_inv (send_out d n) = net_inv n"
  by (simp add: net_inv_def send_out_def)

lemma sap_responses_inv:
  "sap_responses k i data tmp n = Some n' \<Longrightarrow> net_inv n \<Longrightarrow> net_inv n'"
proof (induction k arbitrary: i tmp n)
  case (Suc k)
  obtain p where p: "get_sap data i = Some p" using Suc.prems(1) by (auto simp: bind_eq_Some_conv)
  show ?case
  proof (cases "sap_slot p (sap_service n)")
    case None
    then show ?thesis using Suc.prems p by simp
  next
    case (Some j)
    let ?n1 = "n\<lparr>sap_service := (sap_service n)[j := sap_entry_of p (now (host n))]\<rparr>"
    obtain tmp2 n2 where n2: "db_only ?n1 n2" "sap_responses k (i + SAP_PACKET_SIZE) data tmp2 n2 = Some n'"
    proof (cases "be16 (sp_type p) = 4")
      case True
      then obtain name t2 n2 where "sap_bindery name p tmp ?n1 = Some (t2, n2)" "sap_responses k (i + SAP_PACKET_SIZE) data t2 n2 = Some n'"
        using Suc.prems(1) p Some by (fastforce simp: bind_eq_Some_conv Let_def)
      then show ?thesis using that sap_bindery_db_only by blast
    next
      case False
      then show ?thesis using Suc.prems(1) p Some that [of ?n1] by (simp add: Let_def)
    qed
    have "net_inv ?n1" using Suc.prems(2) sap_inv_learn [OF _ Some get_sap_name [OF p]] by (simp add: net_inv_def)
    then show ?thesis using Suc.IH [OF n2(2)] net_inv_db_only n2(1) by blast
  qed
qed simp

lemma sap_handle_packet_inv: "sap_handle_packet data sz a n = Some n' \<Longrightarrow> net_inv n \<Longrightarrow> net_inv n'"
  by (auto simp: sap_handle_packet_def sap_handle_genserv_def sap_handle_response_def bind_eq_Some_conv
      dest: sap_responses_inv split: if_splits)

lemma sap_broadcast_out: "sap_broadcast_identity ty n = Some n' \<Longrightarrow> \<exists>d. n' = send_out d n"
  by (auto simp: sap_broadcast_identity_def Let_def split: if_splits)

text \<open>The event keeps the two tables, and touches no session.\<close>

definition tables_inv :: "net \<Rightarrow> bool" where
  "tables_inv n \<longleftrightarrow> conn_inv (host n) \<and> sap_inv (sap_service n)"

lemma sap_event_tables: "sap_event n = Some n' \<Longrightarrow> tables_inv n \<Longrightarrow> tables_inv n'"
proof -
  assume run: "sap_event n = Some n'" and inv: "tables_inv n"
  have b: "tables_inv v" if "sap_broadcast_identity ty u = Some v" "tables_inv u" for ty u v
    using sap_broadcast_out [OF that(1)] that(2) by (auto simp: tables_inv_def send_out_def)
  have "\<exists>n2. tables_inv n2 \<and> run_host conn_cleanup (sap_cleanup n2) = Some n'"
    using run inv b by (auto simp: sap_event_def bind_eq_Some_conv split: if_splits) blast+
  then obtain n2 where n2: "tables_inv n2" "run_host conn_cleanup (sap_cleanup n2) = Some n'" by blast
  have "tables_inv (sap_cleanup n2)" using n2(1) sap_inv_cleanup [of n2] by (simp add: tables_inv_def) (simp add: sap_cleanup_def)
  then show ?thesis using n2(2) conn_cleanup_eq [of "host (sap_cleanup n2)"]
    by (auto simp: run_host_def tables_inv_def)
qed

lemma sap_event_sessions: "sap_event n = Some n' \<Longrightarrow> gasp_sessions n' = gasp_sessions n"
  by (auto simp: sap_event_def sap_broadcast_identity_def send_out_def sap_cleanup_def run_host_def bind_eq_Some_conv Let_def
      split: if_splits)

lemma sap_event_inv: "sap_event n = Some n' \<Longrightarrow> net_inv n \<Longrightarrow> net_inv n'"
  using sap_event_tables [of n n'] sap_event_sessions [of n n'] by (simp add: net_inv_def tables_inv_def)

section \<open>The sessions\<close>

lemma net_inv_session:
  assumes "net_inv n" "\<And>g. session_ok g \<Longrightarrow> session_ok (f g)"
  shows "net_inv (upd_session i f n)"
proof (cases "i < length (gasp_sessions n)")
  case True
  have "session_ok (f (gasp_sessions n ! i))" using assms True by (simp add: net_inv_def)
  then have "\<forall>g\<in>set ((gasp_sessions n)[i := f (gasp_sessions n ! i)]). session_ok g"
    using assms(1) set_update_subset_insert [of "gasp_sessions n" i] by (auto simp: net_inv_def)
  then show ?thesis using assms(1) by (simp add: net_inv_def upd_session_def)
next
  case False
  then have "(gasp_sessions n)[i := g] = gasp_sessions n" for g by (simp add: list_update_beyond)
  then show ?thesis using assms(1) by (simp only: upd_session_def) (simp add: net_inv_def)
qed

lemma session_ok_status [simp]: "session_ok g \<Longrightarrow> st \<in> {0, 1, 2} \<Longrightarrow> session_ok (g\<lparr>gs_status := st\<rparr>)"
  by (simp add: session_ok_def)

lemma net_inv_reply [simp]: "net_inv (gasp_send_reply a sid st d n) = net_inv n"
  by (simp add: gasp_send_reply_def)

lemma net_inv_reply_session: "gasp_send_reply_session sid st d n = Some n' \<Longrightarrow> net_inv n \<Longrightarrow> net_inv n'"
  by (auto simp: gasp_send_reply_session_def bind_eq_Some_conv)

lemma net_inv_host: "net_inv n \<Longrightarrow> conn_inv h \<Longrightarrow> net_inv (n\<lparr>host := h\<rparr>)"
  by (simp add: net_inv_def)

lemma run_hostE:
  assumes "run_host f n = Some n'"
  obtains h where "f (host n) = Some h" "n' = n\<lparr>host := h\<rparr>"
  using assms by (auto simp: run_host_def)

text \<open>What a run of the handler keeps, whenever it returns.\<close>

abbreviation keeps :: "net option \<Rightarrow> bool" where
  "keeps m \<equiv> post net_inv m"

lemma keeps_reply: "net_inv n \<Longrightarrow> keeps (gasp_send_reply_session sid st d n)"
  by (auto simp: post_def intro: net_inv_reply_session)

lemma keeps_db: "on_host (on_db f) m = Some (r, n) \<Longrightarrow> net_inv m \<Longrightarrow> net_inv n"
  by (blast intro: net_inv_db_only on_host_db)

lemma keeps_with_conn: "net_inv n \<Longrightarrow> (\<And>c. keeps (act c)) \<Longrightarrow> keeps (with_conn sid data sz act n)"
  unfolding with_conn_def by (intro post_rules keeps_reply)

lemma keeps_coninfo: "net_inv n \<Longrightarrow> keeps (gasp_send_coninfo sid data sz n)"
  unfolding gasp_send_coninfo_def by (intro keeps_with_conn post_rules keeps_reply) (auto intro: keeps_db)

lemma keeps_clear: "net_inv n \<Longrightarrow> keeps (gasp_clear_conn sid data sz n)"
proof -
  assume inv: "net_inv n"
  have c: "net_inv m" if "run_host (conn_clear c) n = Some m" for c m
  proof -
    from that obtain h where h: "conn_clear c (host n) = Some h" "m = n\<lparr>host := h\<rparr>" by (rule run_hostE)
    then have "c < length (conns (host n))" by (auto simp: conn_clear_def conn_logout_def bind_eq_Some_conv)
    then have "conn_inv h" using conn_clear_eq [of "host n" c] h(1) inv by (auto simp: net_inv_def conn_inv_def)
    then show ?thesis using inv h(2) by (simp add: net_inv_host)
  qed
  show ?thesis unfolding gasp_clear_conn_def by (intro keeps_with_conn inv post_rules keeps_reply) (rule c)
qed

lemma keeps_broadcast:
  assumes "net_inv n"
  shows "keeps (gasp_send_broadcast sid data sz n)"
proof -
  have m: "net_inv u" if "run_host (put_messages js m) n = Some u" for js m u
    using that assms put_messages_inv by (elim run_hostE) (auto intro!: net_inv_host simp: net_inv_def)
  show ?thesis unfolding gasp_send_broadcast_def
    by (intro post_rules keeps_reply) (use assms m in \<open>auto split: if_splits simp: bind_eq_Some_conv\<close>)
qed

lemma keeps_infos:
  assumes "net_inv n"
  shows "keeps (gasp_send_serverinfo sid n)" "keeps (gasp_send_sessinfo sid data sz n)" "keeps (gasp_send_sapinfo sid data sz n)"
  unfolding gasp_send_serverinfo_def gasp_send_sessinfo_def gasp_send_sapinfo_def Let_def
  by (intro post_rules keeps_reply assms)+

lemma keeps_hello: "net_inv n \<Longrightarrow> keeps (gasp_handle_hello sid a data sz n)"
  unfolding gasp_handle_hello_def
  by (intro post_rules keeps_reply net_inv_session)
    (simp, auto simp: gasp_key_def net_inv_def session_ok_def)

lemma keeps_auth: "net_inv n \<Longrightarrow> keeps (gasp_handle_auth sid data sz n)"
  unfolding gasp_handle_auth_def
  by (intro post_rules keeps_reply net_inv_session) (auto intro: keeps_db)

fun outcome_net :: "net_outcome \<Rightarrow> net" where
  "outcome_net (Up n) = n"
| "outcome_net (Down n) = n"

lemma keeps_go: "keeps m \<Longrightarrow> post (\<lambda>x. net_inv (outcome_net x)) (go m)"
  by (auto simp: go_def post_def)

lemma gasp_command_inv:
  assumes "net_inv n"
  shows "post (\<lambda>x. net_inv (outcome_net x)) (gasp_command sid command data sz a n)"
  unfolding gasp_command_def
  by (intro post_rules keeps_go keeps_broadcast keeps_infos keeps_coninfo keeps_clear assms)
    (use assms in \<open>auto intro: net_inv_session\<close>)

lemma gasp_packet_inv:
  assumes "net_inv n"
  shows "post (\<lambda>x. net_inv (outcome_net x)) (gasp_handle_packet p sz a n)"
  unfolding gasp_handle_packet_def
  by (intro post_rules keeps_go keeps_hello keeps_auth gasp_command_inv assms) (use assms in auto)

section \<open>The main loop\<close>

lemma link_packet_inv: "link_handle_packet data sz a n = Some n' \<Longrightarrow> net_inv n \<Longrightarrow> net_inv n'"
  by (auto simp: link_handle_packet_def link_handle_command_def link_handle_hello_def link_send_response_def
      bind_eq_Some_conv Let_def split: if_splits option.splits)

lemma handlers_inv:
  assumes "(s, h) \<in> set handlers" "net_inv n"
  shows "post (\<lambda>x. net_inv (outcome_net x)) (h data sz a n)"
proof -
  have inv: "conn_inv (host n)" using assms(2) by (simp add: net_inv_def)
  have ncp: "post (\<lambda>x. net_inv (outcome_net x)) (ncp_on_net data sz a n)"
  proof (rule postI)
    fix x assume "ncp_on_net data sz a n = Some x"
    then obtain z where "ncp_handle_packet data sz a (host n) = Some z"
      "x = (case z of Running h \<Rightarrow> Up (n\<lparr>host := h\<rparr>) | Exited _ \<Rightarrow> Down n)"
      by (auto simp: ncp_on_net_def)
    then show "net_inv (outcome_net x)"
      using packet_inv [OF inv] assms(2) by (cases z) (auto intro: net_inv_host)
  qed
  have wd: "post (\<lambda>x. net_inv (outcome_net x)) (wdog_on_net data sz a n)"
    unfolding wdog_on_net_def using wdog_inv [OF inv] assms(2)
    by (intro keeps_go postI) (auto elim!: run_hostE intro!: net_inv_host)
  have sap: "keeps (sap_handle_packet data sz a n)" and link: "keeps (link_handle_packet data sz a n)"
    using assms(2) by (auto simp: post_def intro: sap_handle_packet_inv link_packet_inv)
  consider "h = ncp_on_net" | "h = wdog_on_net" | "h = gasp_handle_packet" | "h = (\<lambda>data sz a n. go (sap_handle_packet data sz a n))"
    | "h = (\<lambda>data sz a n. go (link_handle_packet data sz a n))"
    using assms(1) by (auto simp: handlers_def)
  then show ?thesis
    by cases (simp_all add: ncp wd gasp_packet_inv [OF assms(2)] keeps_go sap link)
qed

lemma post_map_option: "post (\<lambda>x. P (f x)) m \<Longrightarrow> post P (map_option f m)"
  by (auto simp: post_def)

lemma poll_socket_inv:
  assumes "poll_socket ready h buf n = Some r" "net_inv n"
    and "\<And>d a b z. ready = Some (d, a) \<Longrightarrow> post (\<lambda>x. net_inv (outcome_net x)) (h b z a n)"
  shows "case r of Inl (b, m) \<Rightarrow> net_inv m | Inr m \<Rightarrow> net_inv m"
proof -
  let ?P = "\<lambda>r. case r of Inl (b :: bytes, m) \<Rightarrow> net_inv m | Inr m \<Rightarrow> net_inv m"
  have k: "post (\<lambda>x. ?P (case x of Up n1 \<Rightarrow> Inl (c, n1) | Down n1 \<Rightarrow> Inr n1)) (h b z a n)" if "ready = Some (d, a)" for d a b z c
  proof (rule postI)
    fix x assume "h b z a n = Some x"
    then have "net_inv (outcome_net x)" by (rule postD [OF assms(3) [OF that]])
    then show "?P (case x of Up n1 \<Rightarrow> Inl (c, n1) | Down n1 \<Rightarrow> Inr n1)" by (cases x) simp_all
  qed
  have "post ?P (poll_socket ready h buf n)"
    unfolding poll_socket_def Let_def
    by (intro post_rules post_map_option k) (use assms(2) in auto)
  then show ?thesis using assms(1) by (rule postD)
qed

lemma poll_sockets_inv:
  "set hs \<subseteq> set handlers \<Longrightarrow> net_inv n \<Longrightarrow> poll_sockets ready hs buf n = Some x \<Longrightarrow> net_inv (outcome_net x)"
proof (induction hs arbitrary: buf n)
  case (Cons sh hs)
  obtain s h where sh: "sh = (s, h)" by (cases sh)
  obtain r where r: "poll_socket (ready s) h buf n = Some r"
    "(case r of Inl (b, m) \<Rightarrow> poll_sockets ready hs b m | Inr m \<Rightarrow> Some (Down m)) = Some x"
    using Cons.prems(3) by (auto simp: sh bind_eq_Some_conv)
  have ok: "case r of Inl (b, m) \<Rightarrow> net_inv m | Inr m \<Rightarrow> net_inv m"
    by (rule poll_socket_inv [OF r(1) Cons.prems(2)], rule handlers_inv)
      (use Cons.prems(1,2) sh in auto)
  show ?case
  proof (cases r)
    case (Inl bm)
    then show ?thesis using r(2) ok Cons.IH Cons.prems(1) by (cases bm) auto
  next
    case (Inr m)
    then show ?thesis using r(2) ok by auto
  qed
qed auto

lemma poll_inv:
  assumes "net_inv n" "poll sel arrived buf n = Some x"
  shows "net_inv (outcome_net x)"
proof (cases sel)
  case True
  then have "poll_sockets (is_ready n arrived) handlers buf n = Some x" using assms(2) by (simp add: poll_def)
  then show ?thesis by (rule poll_sockets_inv [OF order_refl assms(1)])
qed (use assms in \<open>auto simp: poll_def\<close>)

section \<open>Reachable states\<close>

inductive net_step :: "net \<Rightarrow> net \<Rightarrow> bool" where
  turn: "net_step n n'" if "poll sel arrived buf n = Some (Up n')"
| alarm: "net_step n n'" if "sap_event n = Some n'"
| clock: "net_step n (n\<lparr>host := (host n)\<lparr>now := t\<rparr>\<rparr>)"

text \<open>The states after the start of the subsystems with \<open>k\<close> connections.\<close>

inductive net_reachable :: "nat \<Rightarrow> net \<Rightarrow> bool" for k where
  start: "net_reachable k n'" if "main_init k opens creates recreate junk n = Some (Up n')" "sys_volume_ok (host n)"
    "length (gasp_sessions n) = GASP_MAX_SESSIONS" "\<forall>g\<in>set (gasp_sessions n). length (gs_key g) = 8"
| step: "net_reachable k n'" if "net_reachable k n" "net_step n n'"

inductive_cases net_stepE: "net_step n n'"

lemma net_step_inv: "net_step n n' \<Longrightarrow> net_inv n \<Longrightarrow> net_inv n'"
proof (induction rule: net_step.induct)
  case (turn sel arrived buf n n')
  then show ?case using poll_inv [of n sel arrived buf "Up n'"] by auto
next
  case (alarm n n')
  then show ?case by (rule sap_event_inv)
next
  case (clock n t)
  then show ?case by (intro net_inv_host) (auto simp: net_inv_def conn_inv_def sys_volume_ok_def)
qed

lemma link_init_inv: "link_init n = Some n' \<Longrightarrow> net_inv n \<Longrightarrow> net_inv n'"
proof -
  have g: "link_greet_all is n = Some n' \<Longrightarrow> net_inv n \<Longrightarrow> net_inv n'" for "is" n
    by (induction "is" arbitrary: n) (auto simp: link_greet_def bind_eq_Some_conv)
  then show "link_init n = Some n' \<Longrightarrow> net_inv n \<Longrightarrow> net_inv n'" by (auto simp: link_init_def split: if_splits)
qed

lemma main_init_inv:
  assumes "main_init k opens creates recreate junk n = Some (Up n')" "sys_volume_ok (host n)"
    "length (gasp_sessions n) = GASP_MAX_SESSIONS" "\<forall>g\<in>set (gasp_sessions n). length (gs_key g) = 8"
  shows "net_inv n'"
proof -
  let ?h = "(host n)\<lparr>conns := conn_init k\<rparr>"
  let ?n0 = "n\<lparr>host := ?h, sap_service := replicate SAP_MAX_SERVICES zero_sap\<rparr>"
  obtain n1 b where n1: "sap_event ?n0 = Some n1"
    "link_init (gasp_init (n1\<lparr>host := (host n1)\<lparr>db := b\<rparr>\<rparr>)) = Some n'"
    using assms(1) by (auto simp: main_init_def sap_init_def bind_eq_Some_conv go_def split: option.splits)
  have sv: "sys_volume_ok ?h" using assms(2) by (simp add: sys_volume_ok_def)
  have "tables_inv ?n0" using conn_inv_init [OF sv] sap_inv_zero by (simp add: tables_inv_def)
  then have "tables_inv n1" "gasp_sessions n1 = gasp_sessions n"
    using sap_event_tables [OF n1(1)] sap_event_sessions [OF n1(1)] by simp_all
  then have "net_inv (gasp_init (n1\<lparr>host := (host n1)\<lparr>db := b\<rparr>\<rparr>))"
    using assms(3,4) by (simp add: net_inv_def gasp_init_def conn_inv_def sys_volume_ok_def tables_inv_def session_ok_def)
  then show ?thesis using n1(2) link_init_inv by blast
qed

lemma net_reachable_inv: "net_reachable k n \<Longrightarrow> net_inv n"
  by (induction rule: net_reachable.induct) (blast intro: main_init_inv net_step_inv)+

end
