(* ===== verification/Fr_WebPoll.thy ===== *)
theory Fr_WebPoll
  imports Fr_WebPage Fr_Net
begin

text \<open>
  \<^verbatim>\<open>src/server/main.c\<close> for a server built with the web interface: the start of the interface behind that of the
  other subsystems, and a turn of the main loop, in which the web sockets come between the services and the
  watchdog. What was sent to web connections is kept, the latest first.
\<close>

record site =
  st_net :: net
  st_web :: web
  st_temp :: web_temp
  st_pages :: "bytes list"

text \<open>The configuration and surroundings of the interface, and the depth of templates in each other.\<close>

record site_env =
  se_page :: page_env
  se_username :: bytes
  se_password :: bytes
  se_depth :: nat

text \<open>
  What waits on the web sockets: a new connection, with what \<^verbatim>\<open>accept\<close> returns, and for a descriptor that is
  ready what \<^verbatim>\<open>recv\<close> gives.
\<close>

record web_arrivals =
  wa_conn :: "int option"
  wa_data :: "int \<Rightarrow> bytes option option"

section \<open>The web sockets\<close>

text \<open>A handler on one connection; header and footer were loaded when the interface has a socket.\<close>

definition serve_conn :: "site_env \<Rightarrow> bytes option \<Rightarrow> site \<Rightarrow> site option" where
  "serve_conn e received x = do {
     header \<leftarrow> web_header (st_web x);
     footer \<leftarrow> web_footer (st_web x);
     w \<leftarrow> web_serve (se_depth e) (se_page e) header footer (se_username e) (se_password e) received
            \<lparr>pg_host = host (st_net x), pg_temp = st_temp x, pg_stale = False, pg_out = [], pg_lines = 0\<rparr>;
     Some (x\<lparr>st_net := (st_net x)\<lparr>host := pg_host w\<rparr>, st_temp := pg_temp w, st_pages := pg_out w # st_pages x\<rparr>)
   }"

definition close_slot :: "nat \<Rightarrow> site \<Rightarrow> site" where
  "close_slot j x = x\<lparr>st_web := (st_web x)\<lparr>fd_web_conn := (fd_web_conn (st_web x))[j := -1]\<rparr>\<rparr>"

text \<open>\<open>watched\<close>: the descriptors that were in the set given to \<^verbatim>\<open>select\<close>. The connection is closed after one packet.\<close>

fun web_slots :: "site_env \<Rightarrow> (int \<Rightarrow> bytes option option) \<Rightarrow> int set \<Rightarrow> nat list \<Rightarrow> site \<Rightarrow> site option" where
  "web_slots e arrived fds [] x = Some x"
| "web_slots e arrived fds (j # js) x = do {
     fd \<leftarrow> load (fd_web_conn (st_web x)) j;
     (if fd = -1 \<or> fd \<notin> fds then web_slots e arrived fds js x
      else (case arrived fd of
              None \<Rightarrow> web_slots e arrived fds js x
            | Some received \<Rightarrow> do { y \<leftarrow> serve_conn e received x; web_slots e arrived fds js (close_slot j y) }))
   }"

definition web_watched :: "web \<Rightarrow> int set" where
  "web_watched w = (if fd_web w = -1 then {} else {fd \<in> set (fd_web_conn w). fd \<noteq> -1})"

definition web_turn :: "site_env \<Rightarrow> web_arrivals \<Rightarrow> int set \<Rightarrow> site \<Rightarrow> site option" where
  "web_turn e a fds x =
     (let y = (case wa_conn a of
                 Some fd \<Rightarrow> if fd_web (st_web x) \<noteq> -1
                            then x\<lparr>st_web := (st_web x)\<lparr>fd_web_conn := web_handle_conn fd (fd_web_conn (st_web x))\<rparr>\<rparr> else x
               | None \<Rightarrow> x)
      in web_slots e (wa_data a) fds [0..<WEB_MAX_CONNS] y)"

section \<open>A turn of the main loop\<close>

text \<open>The result: whether the server goes on.\<close>

definition poll_web :: "site_env \<Rightarrow> bool \<Rightarrow> arrivals \<Rightarrow> web_arrivals \<Rightarrow> bytes \<Rightarrow> site \<Rightarrow> (bool \<times> site) option" where
  "poll_web e selected arrived wa buf x =
     (if \<not> selected then Some (True, x)
      else let ready = is_ready (st_net x) arrived; fds = web_watched (st_web x) in do {
        r1 \<leftarrow> poll_socket (ready Fd_ncp) ncp_on_net buf (st_net x);
        (case r1 of
           Inr n1 \<Rightarrow> Some (False, x\<lparr>st_net := n1\<rparr>)
         | Inl (buf1, n1) \<Rightarrow> do {
             r2 \<leftarrow> poll_socket (ready Fd_sap) (\<lambda>data sz a n. go (sap_handle_packet data sz a n)) buf1 n1;
             (case r2 of
                Inr n2 \<Rightarrow> Some (False, x\<lparr>st_net := n2\<rparr>)
              | Inl (buf2, n2) \<Rightarrow> do {
                  y \<leftarrow> web_turn e wa fds (x\<lparr>st_net := n2\<rparr>);
                  r3 \<leftarrow> poll_sockets ready (drop 2 handlers) buf2 (st_net y);
                  Some (case r3 of Up n3 \<Rightarrow> (True, y\<lparr>st_net := n3\<rparr>) | Down n3 \<Rightarrow> (False, y\<lparr>st_net := n3\<rparr>))
                })
           })
      })"

section \<open>The start\<close>

text \<open>\<^verbatim>\<open>web_init\<close> comes between the watchdog and the sessions, none of which it touches.\<close>

definition site_start ::
  "accounts \<Rightarrow> accounts \<Rightarrow> bytes option \<Rightarrow> bool \<Rightarrow> bool \<Rightarrow> bool \<Rightarrow> (nat \<Rightarrow> u8) \<Rightarrow> int \<Rightarrow> bool \<Rightarrow> bool \<Rightarrow> (bytes \<Rightarrow> bytes option) \<Rightarrow> net \<Rightarrow> site option option" where
  "site_start pw gr file opens creates recreate junk fd binds listens files n =
     (case main_start pw gr file opens creates recreate junk n of
        None \<Rightarrow> None
      | Some (Down m) \<Rightarrow> Some None
      | Some (Up m) \<Rightarrow>
          (case parse_config pw gr file False conf_start of
             Some (Inr c) \<Rightarrow>
               Some (Some \<lparr>st_net = m,
                 st_web = web_init (cf_web_enabled c \<noteq> 0) fd binds listens files (takeWhile (\<lambda>x. x \<noteq> 0) (cf_web_templatedir c))
                   \<lparr>fd_web = -1, fd_web_conn = replicate WEB_MAX_CONNS 0, web_header = None, web_footer = None\<rparr>,
                 st_temp = web_temp_start, st_pages = []\<rparr>)
           | _ \<Rightarrow> None))"

end
