(* ===== verification/Fr_WebLaws.thy ===== *)
theory Fr_WebLaws
  imports Fr_WebPoll
begin

text \<open>
  What a page keeps of the state of the server. A law of the four actions of a page is a law of every page
  (\<open>page_law\<close>); there are three: the invariant of the connection table with the volume SYS, handles only on
  mounted volumes, and what nobody can change through a page. The first holds, with the invariants of the other
  subsystems, in every reachable state of a server with a web interface.
\<close>

section \<open>What a page does to the server\<close>

text \<open>
  All a page can do: look up an object, clear a connection, leave a message, dismount a volume. A law of the
  four is a law of every page. The volume dismounted is not SYS, and no handle is in use on it.
\<close>

definition dismounts :: "nat \<Rightarrow> srv \<Rightarrow> bool" where
  "dismounts i s \<longleftrightarrow> i < length (volumes s) \<and> fs_volume_inuse (int i) s < 0 \<and>
     streq (map tolower (ascii ''SYS'')) (map tolower (vol_name (volumes s ! i))) = Some False"

definition dismounted :: "nat \<Rightarrow> srv \<Rightarrow> srv" where
  "dismounted i s = s\<lparr>volumes := (volumes s)[i := zero_volume]\<rparr>"

lemma vol_dismount_field_cases:
  assumes "vol_dismount_field w = Some (t, w')"
  shows "w' = w \<or> (\<exists>i. dismounts i (pg_host w) \<and> w' = w\<lparr>pg_host := dismounted i (pg_host w)\<rparr>)"
proof (cases "w' = w")
  case False
  let ?i = "nat (temp_vol (pg_temp w))"
  have "dismounts ?i (pg_host w)" "w' = w\<lparr>pg_host := dismounted ?i (pg_host w)\<rparr>"
    using False assms
    by (auto simp: dismounts_def dismounted_def vol_dismount_field_def sel_vol_def bind_eq_Some_conv fs_delete_volume_def Let_def
        simp del: ascii_simps split: if_splits)
  then show ?thesis by blast
qed simp

definition show_keeps :: "(srv \<Rightarrow> bool) \<Rightarrow> (bytes \<Rightarrow> page \<Rightarrow> page option) \<Rightarrow> bool" where
  "show_keeps P disp \<longleftrightarrow> (\<forall>t w. P (pg_host w) \<longrightarrow> post (\<lambda>w'. P (pg_host w')) (disp t w))"

lemma show_keepsD: "show_keeps P disp \<Longrightarrow> P (pg_host w) \<Longrightarrow> disp t w = Some w' \<Longrightarrow> P (pg_host w')"
  by (auto simp: show_keeps_def post_def)

lemma sent_host [simp]:
  "pg_host (write_out b w) = pg_host w"
  "pg_host (web_send_header date code msg w) = pg_host w"
  "pg_host (web_send_error date code msg expl w) = pg_host w"
  by (simp_all add: write_out_def web_send_header_def web_send_error_def)

lemma web_send_response_host: "web_send_response t w = Some w' \<Longrightarrow> pg_host w' = pg_host w"
  by (auto simp: web_send_response_def bind_eq_Some_conv)

locale page_law =
  fixes P :: "srv \<Rightarrow> bool"
  assumes scan_law: "P s \<Longrightarrow> on_db (bindio_scan_object_by_id i) s = Some (x, u) \<Longrightarrow> P u"
    and clear_law: "P s \<Longrightarrow> conn_clear n s = Some u \<Longrightarrow> P u"
    and message_law: "P s \<Longrightarrow> put_message n m s = Some u \<Longrightarrow> P u"
    and dismount_law: "P s \<Longrightarrow> dismounts j s \<Longrightarrow> P (dismounted j s)"

context page_law begin

lemma list_loops_keep:
  assumes "show_keeps P disp"
  shows "conn_list_loop disp t n w = Some w' \<Longrightarrow> P (pg_host w) \<Longrightarrow> P (pg_host w')"
    and "vol_list_loop disp t n w = Some w' \<Longrightarrow> P (pg_host w) \<Longrightarrow> P (pg_host w')"
  by (induction n arbitrary: w)
    (auto simp: Let_def bind_eq_Some_conv split: if_splits dest: show_keepsD [OF assms])

lemma conn_object_keeps:
  assumes "conn_object w = Some (t, w')" "P (pg_host w)"
  shows "P (pg_host w')"
proof -
  have "w' = w \<or> (\<exists>i x u. on_db (bindio_scan_object_by_id i) (pg_host w) = Some (x, u) \<and> pg_host w' = u)"
    using assms(1) by (auto simp: conn_object_def bind_eq_Some_conv split: if_splits)
  then show ?thesis using scan_law [OF assms(2)] assms(2) by blast
qed

lemma dismount_keeps: "vol_dismount_field w = Some (t, w') \<Longrightarrow> P (pg_host w) \<Longrightarrow> P (pg_host w')"
  using vol_dismount_field_cases [of w t w'] dismount_law by auto

lemma value_keeps:
  assumes "show_keeps P disp" "P (pg_host w)" "web_value disp e n w = Some (v, w')"
  shows "P (pg_host w')"
proof -
  have l: "P (pg_host u)" if "web_do_conn_list disp e w = Some u" for u
    using that assms(2) by (auto simp: web_do_conn_list_def simp del: conn_list_loop.simps dest!: list_loops_keep(1) [OF assms(1)] split: option.splits)
  have m: "P (pg_host u)" if "web_do_vol_list disp e w = Some u" for u
    using that assms(2) by (auto simp: web_do_vol_list_def simp del: vol_list_loop.simps dest!: list_loops_keep(2) [OF assms(1)] split: option.splits)
  have c: "P (pg_host u)" if "conn_clear_field w = Some u" for u
    using that assms(2) by (auto simp: conn_clear_field_def Let_def bind_eq_Some_conv dest: clear_law split: if_splits)
  have g: "P (pg_host u)" if "conn_sendmsg_field w = Some u" for u
    using that assms(2) by (auto simp: conn_sendmsg_field_def Let_def bind_eq_Some_conv dest: message_law split: if_splits option.splits)
  show ?thesis
  proof (cases "web_resolve_value n")
    case None
    then show ?thesis using assms(2,3) by (simp add: web_value_def Let_def)
  next
    case (Some f)
    then show ?thesis using assms(2,3)
      by (cases f) (auto simp: web_value_def Let_def bind_eq_Some_conv dest: l m c g conn_object_keeps dismount_keeps)
  qed
qed

lemma fill_keeps:
  "fill_line disp e cs t p w = Some (t', p', w') \<Longrightarrow> show_keeps P disp \<Longrightarrow> P (pg_host w) \<Longrightarrow> P (pg_host w')"
proof (induction disp e cs t p w rule: fill_line.induct)
  case (2 disp e c cs t p w)
  show ?case
  proof (cases "if c = 0x7b then strchr cs 0x7d else None")
    case None
    with 2(1) [OF None] 2(3-5) show ?thesis by (auto simp del: strchr_None simp: bind_eq_Some_conv split: if_splits)
  next
    case (Some k)
    from 2(3) Some obtain t1 w1 s where r: "web_insert_value disp e (take k cs) t w = Some (t1, w1)" "cstr t1 = Some s"
      "(if length s \<ge> WEB_MAX_LINE_LEN - 2 then Some (t1, length s, w1) else fill_line disp e (drop (Suc k) cs) t1 (length s) w1) = Some (t', p', w')"
      by (auto simp: bind_eq_Some_conv simp del: strchr_None)
    have "P (pg_host w1)" using r(1) value_keeps [OF 2(4,5)] by (auto simp: web_insert_value_def bind_eq_Some_conv)
    then show ?thesis using r(2,3) 2(2) [OF Some] r(1) 2(4) by (auto split: if_splits)
  qed
qed simp

lemma line_keeps: "show_line disp e l w = Some w' \<Longrightarrow> show_keeps P disp \<Longrightarrow> P (pg_host w) \<Longrightarrow> P (pg_host w')"
  by (auto simp: show_line_def bind_eq_Some_conv write_out_def dest!: fill_keeps)

lemma lines_keep: "show_lines disp e tx w = Some w' \<Longrightarrow> show_keeps P disp \<Longrightarrow> P (pg_host w) \<Longrightarrow> P (pg_host w')"
proof (induction disp e tx w rule: show_lines.induct)
  case (1 disp e tx w)
  show ?case
  proof (cases "strchr tx 10")
    case None
    then show ?thesis using 1(2-4) line_keeps by (subst (asm) show_lines.simps) (auto simp del: strchr_None)
  next
    case (Some k)
    from 1(2) Some obtain w1 where r: "show_line disp e (take k tx) w = Some w1"
      "(if drop (Suc k) tx = [] then Some w1 else show_lines disp e (drop (Suc k) tx) w1) = Some w'"
      by (subst (asm) show_lines.simps) (auto simp: bind_eq_Some_conv simp del: strchr_None)
    have "P (pg_host w1)" using line_keeps [OF r(1) 1(3,4)] .
    then show ?thesis using r(2) 1(1) [OF Some r(1)] 1(3) by (auto split: if_splits)
  qed
qed

lemma template_keeps: "show_keeps P (web_show_template d e)"
proof (induction d)
  case (Suc d)
  then show ?case by (auto simp: show_keeps_def post_def intro: lines_keep [OF _ Suc])
qed (simp add: show_keeps_def post_rules)

lemma serve_page_keeps:
  assumes "do { w2 \<leftarrow> web_send_response header (web_send_header date 200 ''OK'' w1); w3 \<leftarrow> web_show_template d e x w2; web_send_response footer w3 } = Some w'"
    and "P (pg_host w1)"
  shows "P (pg_host w')"
proof -
  from assms(1) obtain w2 w3 where s: "web_send_response header (web_send_header date 200 ''OK'' w1) = Some w2"
    "web_show_template d e x w2 = Some w3" "web_send_response footer w3 = Some w'"
    by (auto simp: bind_eq_Some_conv)
  have "P (pg_host w2)" using web_send_response_host [OF s(1)] assms(2) by simp
  then show ?thesis using show_keepsD [OF template_keeps _ s(2)] web_send_response_host [OF s(3)] by simp
qed

lemma serve_keeps:
  assumes "web_serve d e h f u p r w = Some w'" "P (pg_host w)"
  shows "P (pg_host w')"
proof -
  from assms(1) obtain a t s where a: "(case a of
        None \<Rightarrow> Some (w\<lparr>pg_temp := t, pg_stale := s\<rparr>)
      | Some (Error code) \<Rightarrow> Some (web_send_error (pe_date e) code (fst (error_text code)) (snd (error_text code)) (w\<lparr>pg_temp := t, pg_stale := s\<rparr>))
      | Some (Page x) \<Rightarrow> do {
          w2 \<leftarrow> web_send_response h (web_send_header (pe_date e) 200 ''OK'' (w\<lparr>pg_temp := t, pg_stale := s\<rparr>));
          w3 \<leftarrow> web_show_template d e x w2;
          web_send_response f w3 }) = Some w'"
    by (clarsimp simp: web_serve_def bind_eq_Some_conv Let_def)
  have w1: "P (pg_host (w\<lparr>pg_temp := t, pg_stale := s\<rparr>))" using assms(2) by simp
  show ?thesis
  proof (cases a)
    case None
    then show ?thesis using a assms(2) by auto
  next
    case (Some b)
    then show ?thesis using a assms(2) serve_page_keeps [OF _ w1] by (cases b) auto
  qed
qed

end

section \<open>The table of connections and SYS\<close>

lemma scan_by_id_host:
  assumes "on_db (bindio_scan_object_by_id i) s = Some (x, u)"
  shows "\<exists>b. u = s\<lparr>db := b\<rparr> \<and> bindio_scan_object_by_id i (db s) = Some (x, b)"
  using assms by (auto simp: on_db_def bind_eq_Some_conv)

lemma conn_clear_conns:
  assumes "conn_clear n s = Some u" "conn_inv s"
  shows "n < length (conns s)" "conns u = (conns s)[n := zero_conn]" "conn_inv u" "volumes u = volumes s" "db u = db s" "sent u = sent s"
proof -
  show n: "n < length (conns s)" using assms by (auto simp: conn_clear_def conn_logout_def bind_eq_Some_conv)
  have "table_inv (conns s)" "sys_volume_ok s" using assms(2) by (simp_all add: conn_inv_def)
  from conn_clear_eq [OF this n] assms(1)
  show "conns u = (conns s)[n := zero_conn]" "conn_inv u" "volumes u = volumes s" "db u = db s" "sent u = sent s" by auto
qed

lemma cstr_map_tolower: "cstr (map tolower b) = map_option (map tolower) (cstr b)"
  by (induction b) (auto simp: option.map_comp comp_def)

lemma dismounts_later: "dismounts j s \<Longrightarrow> conn_inv s \<Longrightarrow> 0 < j"
proof (rule ccontr)
  assume a: "dismounts j s" "conn_inv s" "\<not> 0 < j"
  then have "cstr (map tolower (vol_name (volumes s ! j))) = Some (map tolower (ascii ''SYS''))"
    by (simp add: cstr_map_tolower conn_inv_def sys_volume_ok_def del: ascii_simps)
  from streq_cstr [OF this, of "map tolower (ascii ''SYS'')"] a(1) show False by (simp add: dismounts_def)
qed

lemma dismounted_inv: "conn_inv s \<Longrightarrow> dismounts j s \<Longrightarrow> conn_inv (dismounted j s)"
  using dismounts_later [of j s] by (simp add: conn_inv_def sys_volume_ok_def dismounted_def)

interpretation pages: page_law conn_inv
proof
  show "conn_inv u" if "conn_inv s" "on_db (bindio_scan_object_by_id i) s = Some (x, u)" for s i x u
    using scan_by_id_host [OF that(2)] that(1) by (auto simp: conn_inv_def sys_volume_ok_def)
qed (blast intro: conn_clear_conns(3) put_message_inv dismounted_inv)+

section \<open>Handles and volumes\<close>

text \<open>Every handle in use is on a volume that is mounted.\<close>

definition handles_mounted :: "srv \<Rightarrow> bool" where
  "handles_mounted s \<longleftrightarrow> (\<forall>k\<in>set (tl (conns s)). status k \<noteq> Unused \<longrightarrow> (\<forall>h\<in>set (dh k). dh_flags h \<noteq> 0 \<longrightarrow>
     (\<exists>i. dh_volno h = int i \<and> i < length (volumes s) \<and> vol_flags (volumes s ! i) \<noteq> 0)))"

definition host_safe :: "srv \<Rightarrow> bool" where
  "host_safe s \<longleftrightarrow> conn_inv s \<and> handles_mounted s"

lemma in_tl_update: "k \<in> set (tl (xs[n := x])) \<Longrightarrow> k \<in> set (tl xs) \<or> k = x"
  by (cases xs; cases n) (auto dest: set_update_subset_insert [THEN subsetD])

lemma in_tl_nth: "k \<in> set (tl xs) \<Longrightarrow> \<exists>i. 0 < i \<and> i < length xs \<and> k = xs ! i"
  by (cases xs) (fastforce simp: in_set_conv_nth)+

interpretation mounted: page_law host_safe
proof
  show "host_safe u" if "host_safe s" "on_db (bindio_scan_object_by_id i) s = Some (x, u)" for s i x u
    using scan_by_id_host [OF that(2)] that(1) by (auto simp: host_safe_def handles_mounted_def conn_inv_def sys_volume_ok_def)
  show "host_safe u" if "host_safe s" "conn_clear n s = Some u" for s n u
    using conn_clear_conns [OF that(2)] that(1)
    by (fastforce simp: host_safe_def handles_mounted_def dest: in_tl_update)
  show "host_safe u" if a: "host_safe s" "put_message n m s = Some u" for s n m u
  proof -
    obtain b where b: "n < length (conns s)" "conns u = (conns s)[n := (conns s ! n)\<lparr>message := b\<rparr>]" "volumes u = volumes s"
      using a(2) by (auto simp: put_message_def bind_eq_Some_conv upd_conn_def)
    have "handles_mounted u"
      unfolding handles_mounted_def
    proof (intro ballI impI)
      fix k h assume k: "k \<in> set (tl (conns u))" "status k \<noteq> Unused" "h \<in> set (dh k)" "dh_flags h \<noteq> 0"
      from in_tl_nth [OF k(1)] obtain i where i: "0 < i" "i < length (conns s)" "k = conns u ! i" unfolding b(2) by auto
      have "\<exists>k'\<in>set (tl (conns s)). status k' = status k \<and> dh k' = dh k"
      proof (rule bexI)
        show "conns s ! i \<in> set (tl (conns s))" using i(1,2) by (cases i; cases "conns s") auto
        show "status (conns s ! i) = status k \<and> dh (conns s ! i) = dh k" using i b by (cases "i = n") auto
      qed
      then show "\<exists>i. dh_volno h = int i \<and> i < length (volumes u) \<and> vol_flags (volumes u ! i) \<noteq> 0"
        using a(1) k(2-4) b(3) by (fastforce simp: host_safe_def handles_mounted_def)
    qed
    then show ?thesis using a put_message_inv by (auto simp: host_safe_def)
  qed
  show "host_safe (dismounted j s)" if a: "host_safe s" "dismounts j s" for s j
  proof -
    have "handles_mounted (dismounted j s)"
      unfolding handles_mounted_def
    proof (intro ballI impI)
      fix k h assume k: "k \<in> set (tl (conns (dismounted j s)))" "status k \<noteq> Unused" "h \<in> set (dh k)" "dh_flags h \<noteq> 0"
      then obtain i where i: "dh_volno h = int i" "i < length (volumes s)" "vol_flags (volumes s ! i) \<noteq> 0"
        using a(1) by (fastforce simp: host_safe_def handles_mounted_def dismounted_def)
      moreover have "i \<noteq> j" using a(2) k i(1) by (auto simp: dismounts_def dismounted_def fs_volume_inuse_def split: if_splits)
      ultimately show "\<exists>i. dh_volno h = int i \<and> i < length (volumes (dismounted j s)) \<and> vol_flags (volumes (dismounted j s) ! i) \<noteq> 0"
        by (auto simp: dismounted_def)
    qed
    then show ?thesis using a dismounted_inv by (auto simp: host_safe_def)
  qed
qed

section \<open>What a page leaves as it is\<close>

text \<open>
  \<open>s\<close> is \<open>s0\<close> but for messages left, connections cleared, volumes other than the first one dismounted, and the
  positions in the files of the bindery.
\<close>

definition page_frame :: "srv \<Rightarrow> srv \<Rightarrow> bool" where
  "page_frame s0 s \<longleftrightarrow> conn_inv s \<and> db_ok (db s) \<and> same_recs (db s0) (db s) \<and> sent s = sent s0 \<and>
     length (conns s) = length (conns s0) \<and>
     (\<forall>j<length (conns s0). conns s ! j = zero_conn\<lparr>message := message (conns s ! j)\<rparr> \<or>
        conns s ! j = (conns s0 ! j)\<lparr>message := message (conns s ! j)\<rparr>) \<and>
     length (volumes s) = length (volumes s0) \<and> volumes s ! 0 = volumes s0 ! 0 \<and>
     (\<forall>j<length (volumes s0). volumes s ! j = zero_volume \<or> volumes s ! j = volumes s0 ! j)"

lemma only_message:
  "k' = k\<lparr>message := message k'\<rparr> \<Longrightarrow> k = z\<lparr>message := message k\<rparr> \<Longrightarrow> k' = z\<lparr>message := message k'\<rparr>"
  by (cases k; cases z; cases k') simp

lemma page_frame_refl: "conn_inv s \<Longrightarrow> db_ok (db s) \<Longrightarrow> page_frame s s"
  by (simp add: page_frame_def)

interpretation framed: page_law "page_frame s0" for s0
proof
  show "page_frame s0 u" if a: "page_frame s0 s" "on_db (bindio_scan_object_by_id i) s = Some (x, u)" for s i x u
  proof -
    obtain b where b: "u = s\<lparr>db := b\<rparr>" "bindio_scan_object_by_id i (db s) = Some (x, b)" using scan_by_id_host [OF a(2)] by blast
    have "db_ok (db s)" using a(1) by (simp add: page_frame_def)
    then obtain n where "b = at_obj (db s) n" using b(2) by (auto simp: bindio_scan_object_by_id_eq split: option.splits)
    then have "same_recs (db s) b" by simp
    then have "db_ok b" "same_recs (db s0) b" using a(1) same_recs_db_ok same_recs_trans unfolding page_frame_def by metis+
    moreover have "conn_inv s" using a(1) by (simp add: page_frame_def)
    then have "conn_inv u" by (simp add: b(1) conn_inv_def sys_volume_ok_def)
    ultimately show ?thesis using a(1) by (simp add: page_frame_def b(1))
  qed
  show "page_frame s0 u" if "page_frame s0 s" "conn_clear n s = Some u" for s n u
  proof -
    have i: "conn_inv s" using that(1) by (simp add: page_frame_def)
    show ?thesis using conn_clear_conns [OF that(2) i] that(1)
      by (auto simp: page_frame_def nth_list_update)
  qed
  show "page_frame s0 u" if a: "page_frame s0 s" "put_message n m s = Some u" for s n m u
  proof -
    obtain b where b: "u = upd_conn n (\<lambda>k. k\<lparr>message := b\<rparr>) s" using a(2) by (auto simp: put_message_def bind_eq_Some_conv)
    have "conn_inv u" using put_message_inv a by (auto simp: page_frame_def)
    moreover have m: "conns u ! j = (conns s ! j)\<lparr>message := message (conns u ! j)\<rparr>" if "j < length (conns s)" for j
      using that b by (cases "j = n") (simp_all add: upd_conn_def)
    have "\<forall>j<length (conns s0). conns u ! j = zero_conn\<lparr>message := message (conns u ! j)\<rparr> \<or>
        conns u ! j = (conns s0 ! j)\<lparr>message := message (conns u ! j)\<rparr>"
      using only_message [OF m] a(1) unfolding page_frame_def by metis
    ultimately show ?thesis using a(1) by (simp add: page_frame_def b)
  qed
  show "page_frame s0 (dismounted j s)" if a: "page_frame s0 s" "dismounts j s" for s j
  proof -
    have "j < length (volumes s)" using a(2) by (simp add: dismounts_def)
    then show ?thesis using a(1) dismounted_inv [of s j] dismounts_later [of j s] a(2)
      by (auto simp: page_frame_def dismounted_def nth_list_update)
  qed
qed

section \<open>The server with its web interface\<close>

definition site_inv :: "site \<Rightarrow> bool" where
  "site_inv x \<longleftrightarrow> net_inv (st_net x) \<and> length (fd_web_conn (st_web x)) = WEB_MAX_CONNS"

lemma serve_conn_inv: "serve_conn e r x = Some y \<Longrightarrow> site_inv x \<Longrightarrow> site_inv y"
  by (auto simp: serve_conn_def bind_eq_Some_conv site_inv_def net_inv_def dest!: pages.serve_keeps)

lemma web_slots_inv: "web_slots e arrived fds js x = Some y \<Longrightarrow> site_inv x \<Longrightarrow> site_inv y"
proof (induction js arbitrary: x)
  case (Cons j js)
  have c: "site_inv (close_slot j z)" if "site_inv z" for z using that by (simp add: site_inv_def close_slot_def)
  show ?case using Cons.prems
    by (auto simp: bind_eq_Some_conv split: if_splits option.splits intro: Cons.IH dest: serve_conn_inv c)
qed simp

lemma web_turn_inv: "web_turn e a fds x = Some y \<Longrightarrow> site_inv x \<Longrightarrow> site_inv y"
  unfolding web_turn_def Let_def
  by (erule web_slots_inv) (auto simp: site_inv_def web_handle_conn_def split: option.splits)

lemma web_init_slots: "length (fd_web_conn (web_init b fd bi li fs d w)) = WEB_MAX_CONNS"
  by (auto simp: web_init_def Let_def split: option.splits)

lemma handlers_in: "(Fd_ncp, ncp_on_net) \<in> set handlers" "(Fd_sap, \<lambda>data sz a n. go (sap_handle_packet data sz a n)) \<in> set handlers"
  by (simp_all add: handlers_def)

lemma poll_web_inv:
  assumes "site_inv x" "poll_web e sel arrived wa buf x = Some (on, y)"
  shows "site_inv y"
proof (cases sel)
  case False
  then show ?thesis using assms(1,2) by (simp add: poll_web_def)
next
  case True
  let ?ready = "is_ready (st_net x) arrived"
  have upd: "site_inv (z\<lparr>st_net := n\<rparr>)" if "site_inv z" "net_inv n" for z n using that by (simp add: site_inv_def)
  have n0: "net_inv (st_net x)" using assms(1) by (simp add: site_inv_def)
  from assms(2) True obtain r1 where r1: "poll_socket (?ready Fd_ncp) ncp_on_net buf (st_net x) = Some r1"
    by (auto simp: poll_web_def Let_def bind_eq_Some_conv)
  have i1: "case r1 of Inl (b, m) \<Rightarrow> net_inv m | Inr m \<Rightarrow> net_inv m"
    by (rule poll_socket_inv [OF r1 n0], rule handlers_inv [OF handlers_in(1) n0])
  show ?thesis
  proof (cases r1)
    case (Inr m)
    then show ?thesis using assms(2) True r1 i1 upd [OF assms(1)] by (auto simp: poll_web_def Let_def)
  next
    case (Inl bm)
    then obtain buf1 n1 where b1: "r1 = Inl (buf1, n1)" by (cases bm) simp
    then have n1: "net_inv n1" using i1 by simp
    from assms(2) True r1 b1 obtain r2 where r2: "poll_socket (?ready Fd_sap) (\<lambda>data sz a n. go (sap_handle_packet data sz a n)) buf1 n1 = Some r2"
      by (auto simp: poll_web_def Let_def bind_eq_Some_conv)
    have i2: "case r2 of Inl (b, m) \<Rightarrow> net_inv m | Inr m \<Rightarrow> net_inv m"
      by (rule poll_socket_inv [OF r2 n1], rule handlers_inv [OF handlers_in(2) n1])
    show ?thesis
    proof (cases r2)
      case (Inr m)
      then show ?thesis using assms(2) True r1 b1 r2 i2 upd [OF assms(1)] by (auto simp: poll_web_def Let_def)
    next
      case (Inl bm)
      then obtain buf2 n2 where b2: "r2 = Inl (buf2, n2)" by (cases bm) simp
      with i2 have n2: "net_inv n2" by simp
      from assms(2) True r1 b1 r2 b2 obtain z r3 where z: "web_turn e wa (web_watched (st_web x)) (x\<lparr>st_net := n2\<rparr>) = Some z"
        "poll_sockets ?ready (drop 2 handlers) buf2 (st_net z) = Some r3"
        "(case r3 of Up n3 \<Rightarrow> (True, z\<lparr>st_net := n3\<rparr>) | Down n3 \<Rightarrow> (False, z\<lparr>st_net := n3\<rparr>)) = (on, y)"
        by (auto simp: poll_web_def Let_def bind_eq_Some_conv)
      have zi: "site_inv z" using web_turn_inv [OF z(1)] upd [OF assms(1) n2] by simp
      have "net_inv (outcome_net r3)"
        by (rule poll_sockets_inv [OF _ _ z(2)]) (use zi in \<open>auto simp: site_inv_def dest: in_set_dropD\<close>)
      then show ?thesis using zi z(3) upd by (cases r3) auto
    qed
  qed
qed

text \<open>
  Reachable states: those without a request to the interface, with the interface just started, and
  whatever turns, alarms and the clock make of them.
\<close>

inductive site_step :: "site_env \<Rightarrow> site \<Rightarrow> site \<Rightarrow> bool" for e where
  turn: "site_step e x y" if "poll_web e sel arrived wa buf x = Some (True, y)"
| alarm: "site_step e x (x\<lparr>st_net := n\<rparr>)" if "sap_event (st_net x) = Some n"
| clock: "site_step e x (x\<lparr>st_net := (st_net x)\<lparr>host := (host (st_net x))\<lparr>now := t\<rparr>\<rparr>\<rparr>)"

inductive site_reachable :: "site_env \<Rightarrow> nat \<Rightarrow> site \<Rightarrow> bool" for e k where
  start: "site_reachable e k x" if "net_reachable k (st_net x)" "st_web x = web_init enabled fd binds listens files dir w"
| step: "site_reachable e k y" if "site_reachable e k x" "site_step e x y"

lemma site_step_inv: "site_step e x y \<Longrightarrow> site_inv x \<Longrightarrow> site_inv y"
proof (induction rule: site_step.induct)
  case (turn sel arrived wa buf x y)
  then show ?case using poll_web_inv [of x e sel arrived wa buf True y] by blast
next
  case (alarm x n)
  then show ?case by (simp add: site_inv_def sap_event_inv)
next
  case (clock x t)
  then show ?case by (auto simp: site_inv_def intro!: net_step_inv [OF net_step.clock])
qed

lemma site_reachable_inv: "site_reachable e k x \<Longrightarrow> site_inv x"
proof (induction rule: site_reachable.induct)
  case (start x enabled fd binds listens files dir w)
  then show ?case by (simp add: site_inv_def net_reachable_inv web_init_slots)
qed (blast intro: site_step_inv)

end
