(* ===== verification/Thm_Net.thy ===== *)
theory Thm_Net
  imports Fr_Samples Fr_Net Thm_Config
begin

text \<open>
  The properties of the subsystems beside the file server: the management sessions, the services of
  other servers, the links, and the main loop over all of them.
\<close>

section \<open>A sample\<close>

definition demo_net :: net where
  "demo_net = \<lparr>host = demo_srv, sap_service = replicate SAP_MAX_SERVICES zero_sap,
     gasp_sessions = replicate GASP_MAX_SESSIONS zero_session, out = [], rand_key = of_nat, rk = 0, rconsole = False,
     conf_sap_enabled = 1, conf_sap_nearest = 1, conf_link_enabled = 0, conf_link_key = 0x1234, conf_link_nofservers = 1,
     conf_link_servers = \<lparr>ls_name = mkbuf 48 (ascii ''PEER''), ls_addr = [0, 0, 0, 0, 0, 9, 0, 0]\<rparr> #
       replicate 7 \<lparr>ls_name = replicate 48 0, ls_addr = replicate 8 0\<rparr>\<rparr>"

lemma demo_net_simps [simp]:
  "host demo_net = demo_srv" "sap_service demo_net = replicate 16 zero_sap"
  "gasp_sessions demo_net = replicate 8 zero_session" "conf_link_enabled demo_net = 0" "rconsole demo_net = False"
  "rand_key demo_net = of_nat" "rk demo_net = 0" "out demo_net = []"
  by (simp_all add: demo_net_def)

lemma demo_net_inv: "net_inv (demo_net\<lparr>host := demo_srv\<lparr>conns := conn_init k\<rparr>\<rparr>)"
proof -
  have "sys_volume_ok (demo_srv\<lparr>conns := conn_init k\<rparr>)" by (rule demo_sys)
  then have "conn_inv (demo_srv\<lparr>conns := conn_init k\<rparr>)" by (rule conn_inv_init)
  then show ?thesis using sap_inv_zero by (simp add: net_inv_def session_ok_def zero_session_def)
qed

lemma cleanup_unused:
  "\<forall>j\<in>set js. j < length (conns s) \<and> status (conns s ! j) = Unused \<Longrightarrow> cleanup_from js s = Some s"
  by (induction js) (auto simp: cleanup_conn_def)

lemma demo_init:
  assumes "length (conf_servername (host n)) \<le> 48" "conf_link_enabled n = 0" "db (host n) = demo_db" "\<not> rconsole n"
  shows "\<exists>n'. main_init k True True False (\<lambda>_. 0) n = Some (Up n')"
proof -
  let ?h = "(host n)\<lparr>conns := conn_init k\<rparr>"
  let ?n0 = "n\<lparr>host := ?h, sap_service := replicate SAP_MAX_SERVICES zero_sap\<rparr>"
  have cl: "conn_cleanup ?h = Some ?h"
    unfolding conn_cleanup_def by (rule cleanup_unused) (auto simp: conn_init_def nofconns_def nth_Cons' simp del: upt_rec_numeral)
  obtain n1 where n1: "sap_event ?n0 = Some n1" "host n1 = ?h" "conf_link_enabled n1 = 0"
    using assms cl by (cases "conf_sap_enabled n = 0")
      (simp_all add: sap_event_def sap_broadcast_identity_def send_out_def sap_cleanup_def run_host_def Let_def del: replicate_Suc)
  obtain b where "bindio_dump demo_db = Some b" using bindio_dump_eq [OF demo_bind_inv] by blast
  then have "bind_init True True False x y z (db ?h) = Some (Some b)" for x y z by (simp add: assms(3) bind_init_def)
  then show ?thesis using n1 by (simp add: main_init_def sap_init_def go_def link_init_def gasp_init_def)
qed

lemma demo_net_reachable: "\<exists>n. net_reachable 3 n"
proof -
  have "length (conf_servername (host demo_net)) \<le> 48" "db (host demo_net) = demo_db" "\<not> rconsole demo_net" by (simp_all add: demo_srv_def)
  then obtain n where "main_init 3 True True False (\<lambda>_. 0) demo_net = Some (Up n)" using demo_init [of demo_net 3] by auto
  moreover have "sys_volume_ok (host demo_net)" using demo_sys [of "conns demo_srv"] by simp
  ultimately have "net_reachable 3 n" by (rule net_reachable.start) (simp_all add: zero_session_def)
  then show ?thesis ..
qed

section \<open>Reading a request\<close>

text \<open>The header of a request as the console's routine writes it.\<close>

lemma request_fields:
  assumes "gasp_send_request sid command d = Some pkt"
  shows "get_be16 (pkt @ r) 2 = Some sid" "get_be16 (pkt @ r) 4 = Some command" "drop 6 (pkt @ r) = d @ r"
    "length pkt = length d + 6"
  using assms be16_to_be16 [of sid] be16_to_be16 [of command]
  by (auto simp: gasp_send_request_def get_be16_def load_def to_be16_def split: if_splits simp del: be16.simps)

lemma gasp_request:
  assumes "gasp_send_request sid command d = Some pkt"
  shows "gasp_handle_packet (pkt @ r) (int (length pkt)) a n =
    (if sid = 0xffff
     then (if command \<noteq> GASP_CMD_HELLO then Some (Up (gasp_send_reply a sid GASP_STATUS_BADSESS [] n))
           else go (gasp_handle_hello sid a (d @ r) (int (length d)) n))
     else if unat sid < length (gasp_sessions n)
     then (if gs_status (gasp_sessions n ! unat sid) = GASP_STATUS_CONNECTED
           then (if command \<noteq> GASP_CMD_AUTH then Some (Up (gasp_send_reply a sid GASP_STATUS_NOTAUTH [] n))
                 else go (gasp_handle_auth sid (d @ r) (int (length d)) n))
           else gasp_command sid command (d @ r) (int (length d)) a n)
     else None)"
  using request_fields(1-3) [OF assms, of r] request_fields(4) [OF assms]
  by (simp add: gasp_handle_packet_def load_def Let_def)

section \<open>Management sessions\<close>

text \<open>Who may become authenticated: programs that change no session.\<close>

abbreviation same_sessions :: "net \<Rightarrow> net option \<Rightarrow> bool" where
  "same_sessions n m \<equiv> post (\<lambda>n'. gasp_sessions n' = gasp_sessions n) m"

lemma reply_sessions [simp]: "gasp_sessions (gasp_send_reply a sid st d n) = gasp_sessions n"
  by (simp add: gasp_send_reply_def send_out_def)

lemma ss_reply: "gasp_sessions m = gasp_sessions n \<Longrightarrow> same_sessions n (gasp_send_reply_session sid st d m)"
  by (auto simp: post_def gasp_send_reply_session_def bind_eq_Some_conv)

lemma ss_run: "run_host f n = Some m \<Longrightarrow> gasp_sessions m = gasp_sessions n"
  by (auto simp: run_host_def)

lemma ss_on_host: "on_host f n = Some (r, m) \<Longrightarrow> gasp_sessions m = gasp_sessions n"
  by (auto simp: on_host_def bind_eq_Some_conv)

lemma ss_with_conn: "(\<And>c. same_sessions n (act c)) \<Longrightarrow> same_sessions n (with_conn sid data sz act n)"
  unfolding with_conn_def by (intro post_rules ss_reply) auto

lemma ss_commands:
  "same_sessions n (gasp_send_coninfo sid data sz n)" "same_sessions n (gasp_clear_conn sid data sz n)"
  "same_sessions n (gasp_send_broadcast sid data sz n)" "same_sessions n (gasp_send_serverinfo sid n)"
  "same_sessions n (gasp_send_sessinfo sid data sz n)" "same_sessions n (gasp_send_sapinfo sid data sz n)"
  unfolding gasp_send_coninfo_def gasp_clear_conn_def gasp_send_broadcast_def gasp_send_serverinfo_def
    gasp_send_sessinfo_def gasp_send_sapinfo_def Let_def
  by (intro ss_with_conn post_rules ss_reply; auto dest: ss_run ss_on_host split: if_splits simp: bind_eq_Some_conv)+

lemma post_go: "same_sessions n m \<Longrightarrow> post (\<lambda>x. gasp_sessions (outcome_net x) = gasp_sessions n) (go m)"
  by (auto simp: go_def post_def)

text \<open>No session gains the status \<open>st\<close>.\<close>

definition gains :: "int \<Rightarrow> net \<Rightarrow> net \<Rightarrow> nat \<Rightarrow> bool" where
  "gains st n n' i \<longleftrightarrow> i < length (gasp_sessions n) \<and> gs_status (gasp_sessions n' ! i) = st \<and> gs_status (gasp_sessions n ! i) \<noteq> st"

lemma gasp_command_gains:
  "st \<noteq> 0 \<Longrightarrow> post (\<lambda>x. \<not> gains st n (outcome_net x) i) (gasp_command sid command data sz a n)"
proof -
  assume st: "st \<noteq> 0"
  have w: "post (\<lambda>x. \<not> gains st n (outcome_net x) i) (go m)" if "same_sessions n m" for m
    using post_go [OF that] by (auto simp: post_def gains_def)
  have disc: "\<not> gains st n (gasp_send_reply a sid e [] (upd_session j (\<lambda>g. g\<lparr>gs_status := 0\<rparr>) n)) i" for e j
    using st by (cases "j < length (gasp_sessions n)")
      (auto simp: gains_def upd_session_def list_update_overwrite_nth list_update_beyond)
  show ?thesis unfolding gasp_command_def
    by (intro post_rules w ss_commands) (use st in \<open>auto simp: disc, auto simp: gains_def\<close>)
qed

lemma verify_values:
  assumes "bind_verify_pwd i d key b = Some (r, b')"
  obtains (ok) v q where "r = 0" "bindio_read_prop i (ascii ''PASSWORD'') 1 b = Some (Inr (v, q), b')" "take 8 d = nw_encrypt key (vl_data v)"
    | (bad) "r = -1"
proof -
  obtain x b1 where x: "bindio_read_prop i (ascii ''PASSWORD'') 1 b = Some (x, b1)"
    "(case x of Inl _ \<Rightarrow> Some (-1, b1) | Inr (v, p) \<Rightarrow> Some (if take 8 d = nw_encrypt key (vl_data v) then 0 else -1, b1)) = Some (r, b')"
    using assms unfolding bind_verify_pwd_def bind_eq_Some_conv by (elim exE conjE) auto
  show thesis
  proof (cases x)
    case (Inl e)
    then show ?thesis using x(2) bad by simp
  next
    case (Inr vq)
    then show ?thesis using x ok bad by (cases vq) (auto split: if_splits)
  qed
qed

lemma gasp_auth_run:
  assumes "gasp_handle_auth sid data 8 n = Some n'"
  obtains r b where "8 \<le> length data" "unat sid < length (gasp_sessions n)"
    "bind_verify_pwd 1 (take 8 data) (gs_key (gasp_sessions n ! unat sid)) (db (host n)) = Some (r, b)"
    "gasp_sessions n' = (if r < 0 then gasp_sessions n
       else (gasp_sessions n)[unat sid := (gasp_sessions n ! unat sid)\<lparr>gs_status := GASP_STATUS_AUTH\<rparr>])"
proof -
  obtain d g r n1 where d: "get_bytes data 0 8 = Some d" "load (gasp_sessions n) (unat sid) = Some g"
    "on_host (on_db (bind_verify_pwd 1 d (gs_key g))) n = Some (r, n1)"
    "(if r < 0 then gasp_send_reply_session sid GASP_STATUS_BADAUTH [] n1
      else gasp_send_reply_session sid GASP_STATUS_OK [] (upd_session (unat sid) (\<lambda>g. g\<lparr>gs_status := GASP_STATUS_AUTH\<rparr>) n1)) = Some n'"
    using assms unfolding gasp_handle_auth_def by (auto simp: bind_eq_Some_conv simp del: load_Some)
  have l: "8 \<le> length data" "d = take 8 data" using d(1) by (auto simp: get_bytes_def split: if_splits)
  have g: "unat sid < length (gasp_sessions n)" "g = gasp_sessions n ! unat sid" using d(2) by simp_all
  obtain b where b: "bind_verify_pwd 1 d (gs_key g) (db (host n)) = Some (r, b)"
    using d(3) unfolding on_host_def on_db_def by (auto simp: bind_eq_Some_conv)
  have s1: "gasp_sessions n1 = gasp_sessions n" using d(3) by (rule ss_on_host)
  have s2: "gasp_sessions n' = (if r < 0 then gasp_sessions n1
      else gasp_sessions (upd_session (unat sid) (\<lambda>g. g\<lparr>gs_status := GASP_STATUS_AUTH\<rparr>) n1))"
    using d(4) postD [OF ss_reply [OF refl]] by (simp split: if_splits)
  have "gasp_sessions n' = (if r < 0 then gasp_sessions n
      else (gasp_sessions n)[unat sid := (gasp_sessions n ! unat sid)\<lparr>gs_status := GASP_STATUS_AUTH\<rparr>])"
    using s1 s2 by (simp add: upd_session_def)
  moreover have "bind_verify_pwd 1 (take 8 data) (gs_key (gasp_sessions n ! unat sid)) (db (host n)) = Some (r, b)"
    using b l(2) g(2) by simp
  ultimately show thesis using that l(1) g(1) by blast
qed

lemma gasp_auth_gains:
  assumes "gasp_handle_auth sid data sz n = Some n'" "gains GASP_STATUS_AUTH n n' i"
  obtains v q b where "i = unat sid" "8 \<le> length data" "bindio_read_prop 1 (ascii ''PASSWORD'') 1 (db (host n)) = Some (Inr (v, q), b)"
    "take 8 data = nw_encrypt (gs_key (gasp_sessions n ! i)) (vl_data v)"
proof (cases "sz = 8")
  case False
  then have "gasp_send_reply_session sid GASP_STATUS_BADCMD [] n = Some n'" using assms(1) by (simp add: gasp_handle_auth_def)
  then have "gasp_sessions n' = gasp_sessions n" by (rule postD [OF ss_reply [OF refl]])
  then show ?thesis using assms(2) by (simp add: gains_def)
next
  case True
  from gasp_auth_run [OF assms(1) [unfolded True]] obtain r b where r: "8 \<le> length data" "unat sid < length (gasp_sessions n)"
    "bind_verify_pwd 1 (take 8 data) (gs_key (gasp_sessions n ! unat sid)) (db (host n)) = Some (r, b)"
    "gasp_sessions n' = (if r < 0 then gasp_sessions n
       else (gasp_sessions n)[unat sid := (gasp_sessions n ! unat sid)\<lparr>gs_status := GASP_STATUS_AUTH\<rparr>])" .
  have i: "i = unat sid" "\<not> r < 0"
    using assms(2) r(2,4) by (auto simp: gains_def list_update_overwrite_nth split: if_splits)
  from r(3) show ?thesis
  proof (cases rule: verify_values)
    case (ok v q)
    then show ?thesis using that i(1) r(1) by simp
  next
    case bad
    then show ?thesis using i(2) by simp
  qed
qed

lemma hello_gains_nothing:
  assumes "gasp_handle_hello sid a d sz n = Some n'"
  shows "\<not> gains GASP_STATUS_AUTH n n' i"
proof -
  have "gasp_sessions n' = gasp_sessions n \<or> (\<exists>j k. gasp_sessions n' = (gasp_sessions n)[j :=
      (gasp_sessions n ! j)\<lparr>gs_status := GASP_STATUS_CONNECTED, gs_addr := a, gs_key := k\<rparr>])"
    using assms by (auto simp: gasp_handle_hello_def gasp_key_def gasp_send_reply_session_def bind_eq_Some_conv upd_session_def
        split: option.splits) blast
  then show ?thesis
  proof (elim disjE exE)
    fix j k assume "gasp_sessions n' = (gasp_sessions n)[j := (gasp_sessions n ! j)\<lparr>gs_status := GASP_STATUS_CONNECTED, gs_addr := a, gs_key := k\<rparr>]"
    then show ?thesis by (cases "j = i") (auto simp: gains_def)
  qed (simp add: gains_def)
qed

text \<open>A packet of six bytes, for which session and with which command.\<close>

lemma gasp_packet_cases:
  assumes "gasp_handle_packet p sz a n = Some x" "\<not> sz < 6"
  defines "sid \<equiv> be16 (p ! 2, p ! 3)" and "cmd \<equiv> be16 (p ! 4, p ! 5)"
  shows "(if sid = 0xffff
      then (if cmd \<noteq> GASP_CMD_HELLO then Some (Up (gasp_send_reply a sid GASP_STATUS_BADSESS [] n))
            else go (gasp_handle_hello sid a (drop 6 p) (sz - 6) n))
      else do {
        g \<leftarrow> load (gasp_sessions n) (unat sid);
        (if gs_status g = GASP_STATUS_CONNECTED
         then (if cmd \<noteq> GASP_CMD_AUTH then Some (Up (gasp_send_reply a sid GASP_STATUS_NOTAUTH [] n))
               else go (gasp_handle_auth sid (drop 6 p) (sz - 6) n))
         else gasp_command sid cmd (drop 6 p) (sz - 6) a n)
      }) = Some x"
proof -
  from assms(1,2) have "get_be16 p 2 = Some sid" "get_be16 p 4 = Some cmd"
    unfolding gasp_handle_packet_def sid_def cmd_def
    by (auto simp: get_be16_def bind_eq_Some_conv simp del: be16.simps)
  then show ?thesis using assms(1,2) unfolding gasp_handle_packet_def Let_def by (simp del: load_Some)
qed

text \<open>
  C11. A management session becomes authenticated only by an authenticate request to it, and only when it
  was connected before and the eight bytes of the request are the encryption, with the login key of
  that session, of the password hash that the bindery holds for object 1 (the supervisor).
\<close>
theorem session_needs_password:
  assumes "gasp_handle_packet p sz a n = Some x" "i < length (gasp_sessions n)"
    and "gs_status (gasp_sessions (outcome_net x) ! i) = GASP_STATUS_AUTH" "gs_status (gasp_sessions n ! i) \<noteq> GASP_STATUS_AUTH"
  shows "gs_status (gasp_sessions n ! i) = GASP_STATUS_CONNECTED \<and> be16 (p ! 2, p ! 3) = of_nat i \<and> be16 (p ! 4, p ! 5) = GASP_CMD_AUTH \<and>
    (\<exists>v q b. bindio_read_prop 1 (ascii ''PASSWORD'') 1 (db (host n)) = Some (Inr (v, q), b) \<and>
       take 8 (drop 6 p) = nw_encrypt (gs_key (gasp_sessions n ! i)) (vl_data v))"
proof -
  have g: "gains GASP_STATUS_AUTH n (outcome_net x) i" using assms(2-4) by (simp add: gains_def)
  have "\<not> sz < 6" using assms(1) g by (auto simp: gasp_handle_packet_def gains_def)
  note h = gasp_packet_cases [OF assms(1) this]
  let ?sid = "be16 (p ! 2, p ! 3)" and ?cmd = "be16 (p ! 4, p ! 5)"
  have no: "\<not> gains GASP_STATUS_AUTH n (gasp_send_reply a ?sid e [] n) i" for e by (simp add: gains_def)
  show ?thesis
  proof (cases "?sid = 0xffff")
    case True
    then have "?cmd = GASP_CMD_HELLO" "go (gasp_handle_hello ?sid a (drop 6 p) (sz - 6) n) = Some x"
      using h g no [of GASP_STATUS_BADSESS] by (auto split: if_splits)
    then have False using hello_gains_nothing g by (auto simp: go_def)
    then show ?thesis ..
  next
    case False
    then obtain gs where gs: "unat ?sid < length (gasp_sessions n)" "gs = gasp_sessions n ! unat ?sid"
      "(if gs_status gs = GASP_STATUS_CONNECTED
         then (if ?cmd \<noteq> GASP_CMD_AUTH then Some (Up (gasp_send_reply a ?sid GASP_STATUS_NOTAUTH [] n))
               else go (gasp_handle_auth ?sid (drop 6 p) (sz - 6) n))
         else gasp_command ?sid ?cmd (drop 6 p) (sz - 6) a n) = Some x"
      using h by (auto simp: bind_eq_Some_conv)
    have "\<not> gs_status gs \<noteq> GASP_STATUS_CONNECTED"
    proof
      assume "gs_status gs \<noteq> GASP_STATUS_CONNECTED"
      then have "gasp_command ?sid ?cmd (drop 6 p) (sz - 6) a n = Some x" using gs(3) by simp
      from postD [OF gasp_command_gains this] g show False by simp
    qed
    then have c: "gs_status gs = GASP_STATUS_CONNECTED" "?cmd = GASP_CMD_AUTH" "go (gasp_handle_auth ?sid (drop 6 p) (sz - 6) n) = Some x"
      using gs(3) g no [of GASP_STATUS_NOTAUTH] by (auto split: if_splits)
    then obtain n' where "gasp_handle_auth ?sid (drop 6 p) (sz - 6) n = Some n'" "gains GASP_STATUS_AUTH n n' i"
      using g by (auto simp: go_def)
    then obtain v q b where v: "i = unat ?sid" "bindio_read_prop 1 (ascii ''PASSWORD'') 1 (db (host n)) = Some (Inr (v, q), b)"
      "take 8 (drop 6 p) = nw_encrypt (gs_key (gasp_sessions n ! i)) (vl_data v)"
      by (rule gasp_auth_gains)
    then have "be16 (p ! 2, p ! 3) = of_nat i" by (simp del: be16.simps)
    moreover have "gs_status (gasp_sessions n ! i) = GASP_STATUS_CONNECTED" using c(1) gs(2) v(1) by simp
    moreover have "be16 (p ! 4, p ! 5) = GASP_CMD_AUTH" using c(2) .
    ultimately show ?thesis using v(2,3) by (intro conjI exI)
  qed
qed

text \<open>The bytes of a request on the sample, and the state of its first session after a greeting.\<close>

definition demo_greeted :: net where
  "demo_greeted = (demo_net\<lparr>rk := 8\<rparr>)\<lparr>gasp_sessions := (replicate GASP_MAX_SESSIONS zero_session)[0 :=
     \<lparr>gs_status = GASP_STATUS_CONNECTED, gs_addr = demo_addr 5, gs_key = [0, 1, 2, 3, 4, 5, 6, 7]\<rparr>]\<rparr>"

definition demo_answer :: bytes where
  "demo_answer = nw_encrypt [0, 1, 2, 3, 4, 5, 6, 7] (mkbuf 128 [])"

lemma demo_greeted_simps [simp]:
  "host demo_greeted = demo_srv" "gasp_sessions demo_greeted ! 0 = \<lparr>gs_status = 1, gs_addr = demo_addr 5, gs_key = [0, 1, 2, 3, 4, 5, 6, 7]\<rparr>"
  "length (gasp_sessions demo_greeted) = 8"
  by (simp_all add: demo_greeted_def)

lemma length_demo_answer [simp]: "length demo_answer = 8"
  by (simp add: demo_answer_def)

text \<open>An authenticate request with an answer of eight bytes, on every branch.\<close>

lemma auth_eq:
  assumes "store_inv (db (host n))" "unat sid < length (gasp_sessions n)" "length d = 8"
  defines "s \<equiv> gasp_sessions n ! unat sid"
  defines "right \<equiv> (case store_data (db (host n)) 1 (ascii ''PASSWORD'') of None \<Rightarrow> False | Some h \<Rightarrow> d = nw_encrypt (gs_key s) h)"
  shows "\<exists>n'. gasp_handle_auth sid (d @ r) 8 n = Some n' \<and> conns (host n') = conns (host n) \<and>
    gasp_sessions n' = (if right then (gasp_sessions n)[unat sid := s\<lparr>gs_status := GASP_STATUS_AUTH\<rparr>] else gasp_sessions n) \<and>
    out n' = GaspReply (gs_addr s) (map Some ([0x77, 0x77] @ list_b2 (to_be16 sid) @
      [if right then GASP_STATUS_OK else GASP_STATUS_BADAUTH])) # out n"
proof -
  let ?b = "db (host n)"
  have dbok: "db_ok ?b" using assms(1) by (simp add: store_inv_def)
  obtain b' where b': "bindio_read_prop 1 (ascii ''PASSWORD'') 1 ?b = Some (case store_index ?b 1 (ascii ''PASSWORD'') of
       None \<Rightarrow> Inl BINDERY_ERROR_NOSUCHPROPERTY
     | Some l \<Rightarrow> Inr (bindio_conv_val (recs (net_val ?b) ! l), prop_of (recs (net_prop ?b) ! the (prop_index ?b 1 (ascii ''PASSWORD'')))), b')"
    using bindio_read_prop_eq [OF dbok, of 1 "ascii ''PASSWORD''" 1] by blast
  have v: "bind_verify_pwd 1 d (gs_key s) ?b = Some (if right then 0 else -1, b')"
    using assms(3) unfolding bind_verify_pwd_def b'
    by (auto simp: right_def store_data_def simp del: ascii_simps split: option.splits)
  have get: "get_bytes (d @ r) 0 8 = Some d" using assms(3) by (simp add: get_bytes_def)
  show ?thesis
    using assms(2) v get
    by (simp add: gasp_handle_auth_def s_def [symmetric] on_host_def on_db_def load_def gasp_send_reply_session_def
        upd_session_def gasp_send_reply_def send_out_def)
qed

lemma demo_auth_request:
  "\<exists>pkt n'. gasp_send_request 0 GASP_CMD_AUTH demo_answer = Some pkt \<and> length pkt = 14 \<and>
    gasp_handle_packet (pkt @ []) 14 (demo_addr 5) demo_greeted = Some (Up n') \<and>
    gasp_sessions n' = (gasp_sessions demo_greeted)[0 := (gasp_sessions demo_greeted ! 0)\<lparr>gs_status := GASP_STATUS_AUTH\<rparr>]"
proof -
  have inv: "store_inv (db (host demo_greeted))" using demo_store_inv by (simp add: demo_srv_def)
  have sd: "store_data (db demo_srv) 1 (ascii ''PASSWORD'') = Some (mkbuf 128 [])"
  proof -
    have "store_data demo_db 1 (ascii ''PASSWORD'') = Some (mkbuf 128 [])" by code_simp
    then show ?thesis by (simp add: demo_srv_def del: ascii_simps)
  qed
  obtain n' where n': "gasp_handle_auth 0 (demo_answer @ []) 8 demo_greeted = Some n'"
    "gasp_sessions n' = (gasp_sessions demo_greeted)[0 := (gasp_sessions demo_greeted ! 0)\<lparr>gs_status := GASP_STATUS_AUTH\<rparr>]"
    using auth_eq [OF inv, of 0 demo_answer "[]"] by (auto simp: sd demo_answer_def simp del: ascii_simps)
  obtain pkt where pkt: "gasp_send_request 0 GASP_CMD_AUTH demo_answer = Some pkt" by (simp add: gasp_send_request_def)
  then have "length pkt = 14" using request_fields(4) [OF pkt] by simp
  moreover have "gasp_handle_packet (pkt @ []) 14 (demo_addr 5) demo_greeted = Some (Up n')"
    using gasp_request [OF pkt, of "[]" "demo_addr 5" demo_greeted] n'(1) \<open>length pkt = 14\<close> by (simp add: go_def)
  ultimately show ?thesis using pkt n'(2) by blast
qed

theorem session_needs_password_witness:
  "\<exists>p x v q b. gasp_handle_packet p 14 (demo_addr 5) demo_greeted = Some x \<and> gs_status (gasp_sessions (outcome_net x) ! 0) = GASP_STATUS_AUTH \<and>
     bindio_read_prop 1 (ascii ''PASSWORD'') 1 (db demo_srv) = Some (Inr (v, q), b) \<and>
     take 8 (drop 6 p) = nw_encrypt [0, 1, 2, 3, 4, 5, 6, 7] (vl_data v)"
proof -
  obtain p n' where p: "gasp_handle_packet p 14 (demo_addr 5) demo_greeted = Some (Up n')"
    "gasp_sessions n' = (gasp_sessions demo_greeted)[0 := (gasp_sessions demo_greeted ! 0)\<lparr>gs_status := GASP_STATUS_AUTH\<rparr>]"
    using demo_auth_request by blast
  have s: "gs_status (gasp_sessions (outcome_net (Up n')) ! 0) = GASP_STATUS_AUTH"
  proof -
    have "0 < length (gasp_sessions demo_greeted)" by simp
    then show ?thesis using p(2) by (simp del: demo_greeted_simps(3))
  qed
  from session_needs_password [OF p(1) _ s] obtain v q b where
    "bindio_read_prop 1 (ascii ''PASSWORD'') 1 (db demo_srv) = Some (Inr (v, q), b)"
    "take 8 (drop 6 p) = nw_encrypt [0, 1, 2, 3, 4, 5, 6, 7] (vl_data v)"
    by (auto simp del: ascii_simps be16.simps)
  with p(1) s show ?thesis by blast
qed

text \<open>
  For a session that waits for its password, an authenticate request as the console sends it makes
  the session authenticated when its eight bytes are the encryption of the stored hash with the login
  key, and is answered with success; any other eight bytes are answered with the error and change no
  session. Both answers go to the address that opened the session. Connections are not touched.
\<close>
lemma session_authenticate:
  assumes "store_inv (db (host n))" "unat sid < length (gasp_sessions n)" "sid \<noteq> 0xffff"
    "gs_status (gasp_sessions n ! unat sid) = GASP_STATUS_CONNECTED"
    "length d = 8" "gasp_send_request sid GASP_CMD_AUTH d = Some pkt"
  defines "s \<equiv> gasp_sessions n ! unat sid"
  defines "right \<equiv> (case store_data (db (host n)) 1 (ascii ''PASSWORD'') of None \<Rightarrow> False | Some h \<Rightarrow> d = nw_encrypt (gs_key s) h)"
  shows "\<exists>n'. gasp_handle_packet (pkt @ r) (int (length pkt)) a n = Some (Up n') \<and> conns (host n') = conns (host n) \<and>
    gasp_sessions n' = (if right then (gasp_sessions n)[unat sid := s\<lparr>gs_status := GASP_STATUS_AUTH\<rparr>] else gasp_sessions n) \<and>
    out n' = GaspReply (gs_addr s) (map Some ([0x77, 0x77] @ list_b2 (to_be16 sid) @
      [if right then GASP_STATUS_OK else GASP_STATUS_BADAUTH])) # out n"
proof -
  have "gasp_handle_packet (pkt @ r) (int (length pkt)) a n = go (gasp_handle_auth sid (d @ r) 8 n)"
    using gasp_request [OF assms(6), of r a n] assms(2-5) by simp
  then show ?thesis using auth_eq [OF assms(1,2,5), of r] unfolding s_def right_def by (auto simp: go_def)
qed

lemma session_authenticate_witness:
  "\<exists>pkt n'. gasp_handle_packet (pkt @ []) (int (length pkt)) (demo_addr 9) demo_greeted = Some (Up n') \<and>
     length (gasp_sessions n') = 8 \<and> length (out n') = Suc (length (out demo_greeted))"
proof -
  have inv: "store_inv (db (host demo_greeted))" using demo_store_inv by (simp add: demo_srv_def)
  obtain pkt where pkt: "gasp_send_request 0 GASP_CMD_AUTH demo_answer = Some pkt" by (simp add: gasp_send_request_def)
  have a: "unat (0 :: u16) < length (gasp_sessions demo_greeted)" "gs_status (gasp_sessions demo_greeted ! unat (0 :: u16)) = GASP_STATUS_CONNECTED"
    by simp_all
  from session_authenticate [OF inv a(1) _ a(2) length_demo_answer pkt, of "[]" "demo_addr 9"] obtain n' where
    "gasp_handle_packet (pkt @ []) (int (length pkt)) (demo_addr 9) demo_greeted = Some (Up n')"
    "length (gasp_sessions n') = 8" "length (out n') = Suc (length (out demo_greeted))"
    by (auto split: if_splits)
  then show ?thesis by blast
qed

text \<open>
  C35. The commands of the management protocol need no login at all: for a session that nobody has
  opened, from any address, the command to clear a connection clears it, and the command to take the
  server down ends it. (Only sessions that wait for their password are refused.)
\<close>
theorem unopened_session_obeyed:
  assumes "net_inv n" "unat sid < GASP_MAX_SESSIONS" "gs_status (gasp_sessions n ! unat sid) = GASP_STATUS_UNUSED"
    and "gasp_send_request sid GASP_CMD_DOWN [] = Some p1" "gasp_send_request sid GASP_CMD_CLEARCONN (list_b4 (to_be32 c)) = Some p2"
    and "0 < unat c" "unat c < length (conns (host n))"
  shows "(\<exists>n'. gasp_handle_packet (p1 @ r) (int (length p1)) a n = Some (Down n')) \<and>
    (\<exists>n'. gasp_handle_packet (p2 @ r) (int (length p2)) a n = Some (Up n') \<and> conns (host n') = (conns (host n))[unat c := zero_conn])"
proof -
  have l: "length (gasp_sessions n) = 8" using assms(1) by (simp add: net_inv_def)
  have sid: "sid \<noteq> 0xffff" using assms(2) by auto
  have d: "gasp_handle_packet (p1 @ r) (int (length p1)) a n = Some (Down (gasp_send_reply a sid GASP_STATUS_OK [] n))"
    using gasp_request [OF assms(4), of r a n] sid l assms(2,3) by (simp add: gasp_command_def)
  have e: "gasp_handle_packet (p2 @ r) (int (length p2)) a n = go (gasp_clear_conn sid (list_b4 (to_be32 c) @ r) 4 n)"
    using gasp_request [OF assms(5), of r a n] sid l assms(2,3) by (simp add: gasp_command_def)
  have g: "get_be32 (list_b4 (to_be32 c) @ r) 0 = Some c"
    using be32_to_be32 [of c] by (cases "to_be32 c") (simp add: get_be32_def load_def del: be32.simps)
  have inv: "table_inv (conns (host n))" "sys_volume_ok (host n)" using assms(1) by (simp_all add: net_inv_def conn_inv_def)
  obtain h where h: "conn_clear (unat c) (host n) = Some h" "conns h = (conns (host n))[unat c := zero_conn]"
    using conn_clear_eq [OF inv assms(7)] by blast
  have "gasp_clear_conn sid (list_b4 (to_be32 c) @ r) 4 n =
      Some (gasp_send_reply (gs_addr (gasp_sessions n ! unat sid)) sid GASP_STATUS_OK [] (n\<lparr>host := h\<rparr>))"
    using assms(2,6,7) g h(1) l
    by (simp add: gasp_clear_conn_def with_conn_def nofconns_def run_host_def gasp_send_reply_session_def load_def)
  then show ?thesis using d e h(2) by (simp add: go_def gasp_send_reply_def send_out_def)
qed

theorem unopened_session_obeyed_witness:
  "\<exists>p1 n'. gasp_handle_packet (p1 @ []) (int (length p1)) (demo_addr 77)
     (demo_net\<lparr>host := demo_srv\<lparr>conns := conn_init 3\<rparr>\<rparr>) = Some (Down n')"
proof -
  let ?n = "demo_net\<lparr>host := demo_srv\<lparr>conns := conn_init 3\<rparr>\<rparr>"
  obtain p1 where p1: "gasp_send_request 5 GASP_CMD_DOWN [] = Some p1" by (simp add: gasp_send_request_def)
  obtain p2 where p2: "gasp_send_request 5 GASP_CMD_CLEARCONN (list_b4 (to_be32 2)) = Some p2" by (simp add: gasp_send_request_def)
  have "gs_status (gasp_sessions ?n ! unat (5 :: u16)) = GASP_STATUS_UNUSED" by (simp add: zero_session_def)
  with unopened_session_obeyed [OF demo_net_inv _ _ p1 p2, of 3 "[]" "demo_addr 77"] show ?thesis
    by (auto simp: conn_init_def)
qed

lemma session_all: "(g :: gasp_session)\<lparr>gs_status := s, gs_addr := a, gs_key := k\<rparr> = \<lparr>gs_status = s, gs_addr = a, gs_key = k\<rparr>"
  by (cases g) simp

text \<open>
  A greeting opens the first unused session for the sender, connected but not authenticated, with
  eight fresh key bytes, and answers with the number of the session and exactly this key; when all
  sessions are taken, it is answered with an error and changes nothing.
\<close>
lemma greeting_opens_session:
  assumes "net_inv n" "gasp_send_request 0xffff GASP_CMD_HELLO d = Some pkt"
  defines "key \<equiv> map (\<lambda>j. rand_key n (rk n + j)) [0..<8]"
  shows "gasp_handle_packet (pkt @ r) (int (length pkt)) a n = Some (Up
    (case first_index (\<lambda>g. gs_status g = GASP_STATUS_UNUSED) (gasp_sessions n) of
       None \<Rightarrow> n\<lparr>out := GaspReply a (map Some [0x77, 0x77, 0xff, 0xff, GASP_STATUS_OUTOFSESS]) # out n\<rparr>
     | Some i \<Rightarrow> n\<lparr>rk := rk n + 8,
         gasp_sessions := (gasp_sessions n)[i := \<lparr>gs_status = GASP_STATUS_CONNECTED, gs_addr = a, gs_key = key\<rparr>],
         out := GaspReply a (map Some ([0x77, 0x77] @ list_b2 (to_be16 (of_nat i)) @ [GASP_STATUS_OK] @ key)) # out n\<rparr>))"
proof -
  have p: "gasp_handle_packet (pkt @ r) (int (length pkt)) a n = go (gasp_handle_hello 0xffff a (d @ r) (int (length d)) n)"
    using gasp_request [OF assms(2), of r a n] by simp
  have l: "length (gasp_sessions n) = 8" using assms(1) by (simp add: net_inv_def)
  have to: "to_be16 (0xffff) = (0xff, 0xff)" by (simp add: to_be16_def)
  show ?thesis
  proof (cases "first_index (\<lambda>g. gs_status g = GASP_STATUS_UNUSED) (gasp_sessions n)")
    case None
    then show ?thesis unfolding p
      by (simp add: go_def gasp_handle_hello_def free_session_def gasp_send_reply_def send_out_def to)
  next
    case (Some i)
    then have i: "i < 8" using first_index_lessD l by metis
    then have u: "unat (of_nat i :: u16) = i" by (simp add: unat_of_nat)
    show ?thesis unfolding p
      using Some i u l by (simp add: go_def gasp_handle_hello_def free_session_def gasp_send_reply_session_def
          gasp_send_reply_def send_out_def gasp_key_def upd_session_def load_def key_def comp_def session_all)
  qed
qed

lemma greeting_opens_session_witness:
  "\<exists>pkt n'. gasp_handle_packet (pkt @ []) (int (length pkt)) (demo_addr 5) (demo_net\<lparr>host := demo_srv\<lparr>conns := conn_init 3\<rparr>\<rparr>) = Some (Up n') \<and>
     gs_key (gasp_sessions n' ! 0) = [0, 1, 2, 3, 4, 5, 6, 7]"
proof -
  obtain pkt where pkt: "gasp_send_request 0xffff GASP_CMD_HELLO [] = Some pkt" by (simp add: gasp_send_request_def)
  have f: "first_index (\<lambda>g. gs_status g = GASP_STATUS_UNUSED) (gasp_sessions (demo_net\<lparr>host := demo_srv\<lparr>conns := conn_init 3\<rparr>\<rparr>)) = Some 0"
    by (simp add: zero_session_def numeral_eq_Suc)
  note e = greeting_opens_session [OF demo_net_inv [of 3] pkt, where r = "[]" and a = "demo_addr 5", unfolded f option.case]
  show ?thesis by (rule exI, rule exI, rule conjI, rule e) (simp add: upt_rec)
qed

section \<open>Services\<close>

lemma get_put_sap:
  assumes "length (sp_name p) = 48"
  shows "get_sap (put_sap p @ r) 0 = Some p" "get_be16 (put_sap p @ r) 0 = Some (be16 (sp_operation p))" "length (put_sap p) = SAP_PACKET_SIZE"
proof -
  obtain o1 o2 t1 t2 nm n1 n2 n3 n4 h1 h2 h3 h4 h5 h6 s1 s2 c1 c2 where p: "p = \<lparr>sp_operation = (o1, o2), sp_type = (t1, t2), sp_name = nm,
      sp_net = (n1, n2, n3, n4), sp_node = (h1, h2, h3, h4, h5, h6), sp_socket = (s1, s2), sp_hops = (c1, c2)\<rparr>"
    by (cases p) auto
  have l: "length nm = 48" using assms by (simp add: p)
  show "length (put_sap p) = SAP_PACKET_SIZE" by (simp add: put_sap_def p l)
  show "get_sap (put_sap p @ r) 0 = Some p" by (simp add: get_sap_def put_sap_def p l nth_append Let_def)
  show "get_be16 (put_sap p @ r) 0 = Some (be16 (sp_operation p))"
    by (simp add: get_be16_def load_def put_sap_def p del: be16.simps)
qed

text \<open>With no more than sixteen services the reply is never cut short.\<close>

lemma sap_collect_all:
  "k + length es \<le> 30 \<Longrightarrow>
   sap_collect op ty es k = concat (map (\<lambda>e. put_sap (sap_answer op e)) (filter (\<lambda>e. se_type e = ty) es))"
  by (induction es arbitrary: k) auto

lemma length_sap_answers:
  "\<forall>e\<in>set es. length (se_name e) = 48 \<Longrightarrow> length (concat (map (\<lambda>e. put_sap (sap_answer op e)) es)) = SAP_PACKET_SIZE * length es"
  by (induction es) (auto simp: put_sap_def sap_answer_def)

lemma answer_learned: "sap_answer op (sap_entry_of p t) = p\<lparr>sp_operation := to_be16 (op + 1)\<rparr>"
  by (simp add: sap_answer_def sap_entry_of_def)

lemma genserv_eq:
  assumes "sap_inv (sap_service n)"
  shows "sap_handle_packet ([0, 1] @ list_b2 ty @ r) 4 a n = Some (n\<lparr>out := SapReply a
    (concat (map (\<lambda>e. put_sap (sap_answer 1 e)) (filter (\<lambda>e. se_type e = be16 ty) (sap_service n)))) # out n\<rparr>)"
proof -
  obtain t1 t2 where ty: "ty = (t1, t2)" by (cases ty)
  have l: "length (sap_service n) = 16" using assms by (simp add: sap_inv_def)
  have g: "get_be16 ([0, 1] @ list_b2 ty @ r) 0 = Some 1" "get_be16 ([0, 1] @ list_b2 ty @ r) 2 = Some (be16 ty)"
    by (simp add: get_be16_def load_def ty, simp add: get_be16_def load_def ty del: be16.simps)
  show ?thesis
    by (simp add: sap_handle_packet_def g sap_handle_genserv_def send_out_def sap_collect_all l del: append_Cons append_Nil)
qed

lemma response_eq:
  assumes "length (sp_name p) = 48" "sp_operation p = (0, 2)" "sap_slot p (sap_service n) = Some j"
  shows "sap_handle_packet (put_sap p @ r) 66 a n = Some n' \<Longrightarrow>
      sap_service n' = (sap_service n)[j := sap_entry_of p (now (host n))]"
    "be16 (sp_type p) \<noteq> 4 \<Longrightarrow> sap_handle_packet (put_sap p @ r) 66 a n =
      Some (n\<lparr>sap_service := (sap_service n)[j := sap_entry_of p (now (host n))]\<rparr>)"
proof -
  let ?n1 = "n\<lparr>sap_service := (sap_service n)[j := sap_entry_of p (now (host n))]\<rparr>"
  let ?tmp = "map (stack (host n) (tk (host n))) [0..<128]"
  have op: "be16 (sp_operation p) = 2" by (simp add: assms(2))
  have e: "sap_handle_packet (put_sap p @ r) 66 a n = sap_responses (Suc 0) 0 (put_sap p @ r) ?tmp n"
    using get_put_sap(2) [OF assms(1), of r] op by (simp add: sap_handle_packet_def sap_handle_response_def)
  show "be16 (sp_type p) \<noteq> 4 \<Longrightarrow> sap_handle_packet (put_sap p @ r) 66 a n = Some ?n1"
    by (simp add: e get_put_sap(1) [OF assms(1)] assms(3) Let_def)
  assume run: "sap_handle_packet (put_sap p @ r) 66 a n = Some n'"
  show "sap_service n' = (sap_service n)[j := sap_entry_of p (now (host n))]"
  proof (cases "be16 (sp_type p) = 4")
    case True
    then obtain name t2 where "sap_bindery name p ?tmp ?n1 = Some (t2, n')"
      using run e get_put_sap(1) [OF assms(1), of r] assms(3) by (fastforce simp: bind_eq_Some_conv Let_def)
    then show ?thesis using db_only_fields(1) [OF sap_bindery_db_only] by simp
  next
    case False
    then show ?thesis using run e get_put_sap(1) [OF assms(1), of r] assms(3) by (auto simp: Let_def)
  qed
qed

text \<open>
  C13. A service that another server announces is handed on: after its announcement was taken into the
  table, a station that asks for services of that type gets a reply which holds the announced entry,
  byte for byte (with the operation code of the reply), and fits a packet. An announcement that is not
  of a file server is always taken when a slot is free or the service is known; in the case of a file
  server the bindery is written as well.
\<close>
theorem announced_service_found:
  assumes "net_inv n" "length (sp_name p) = 48" "sp_operation p = (0, 2)" "sap_slot p (sap_service n) = Some j"
  shows "(be16 (sp_type p) \<noteq> 4 \<longrightarrow> sap_handle_packet (put_sap p @ r) 66 a n \<noteq> None) \<and>
    (\<forall>n'. sap_handle_packet (put_sap p @ r) 66 a n = Some n' \<longrightarrow>
      (\<exists>n'' xs ys. sap_handle_packet ([0, 1] @ list_b2 (sp_type p) @ r') 4 a' n' = Some n'' \<and>
        out n'' = SapReply a' (xs @ put_sap p @ ys) # out n' \<and> length (xs @ put_sap p @ ys) \<le> PACKET_MAXLEN))"
proof (intro conjI allI impI)
  show "sap_handle_packet (put_sap p @ r) 66 a n \<noteq> None" if "be16 (sp_type p) \<noteq> 4"
    using response_eq(2) [OF assms(2-4) that] by simp
next
  fix n' assume run: "sap_handle_packet (put_sap p @ r) 66 a n = Some n'"
  have inv: "net_inv n'" using sap_handle_packet_inv [OF run assms(1)] .
  let ?t = "sap_service n'"
  have t: "?t = (sap_service n)[j := sap_entry_of p (now (host n))]" by (rule response_eq(1) [OF assms(2-4) run])
  have jl: "j < length ?t" using sap_slot_SomeD(1) [OF assms(4)] t by simp
  let ?e = "sap_entry_of p (now (host n))"
  let ?es = "filter (\<lambda>e. se_type e = be16 (sp_type p)) ?t"
  have "?e \<in> set ?t" using jl unfolding t by (simp add: set_update_memI)
  then have "?e \<in> set ?es" by (simp add: sap_entry_of_def)
  then obtain us vs where uv: "?es = us @ ?e # vs" by (auto dest: split_list)
  have a: "put_sap (sap_answer 1 ?e) = put_sap p"
  proof -
    have "to_be16 (1 + 1) = (0, 2)" by (simp add: to_be16_def)
    then show ?thesis using assms(3) by (simp add: answer_learned) (metis sap_packet.surjective sap_packet.update_convs(1))
  qed
  let ?f = "\<lambda>es. concat (map (\<lambda>e. put_sap (sap_answer 1 e)) es)"
  have si: "sap_inv ?t" using inv by (simp add: net_inv_def)
  have "length (?f ?es) = SAP_PACKET_SIZE * length ?es"
    by (rule length_sap_answers) (use si in \<open>auto simp: sap_inv_def\<close>)
  also have "length ?es \<le> 16" using si length_filter_le [of "\<lambda>e. se_type e = be16 (sp_type p)" ?t] by (simp only: sap_inv_def)
  then have "SAP_PACKET_SIZE * length ?es \<le> PACKET_MAXLEN" by simp
  finally have "length (?f us @ put_sap p @ ?f vs) \<le> PACKET_MAXLEN" by (simp add: uv a)
  moreover have "?f ?es = ?f us @ put_sap p @ ?f vs" by (simp add: uv a)
  ultimately show "\<exists>n'' xs ys. sap_handle_packet ([0, 1] @ list_b2 (sp_type p) @ r') 4 a' n' = Some n'' \<and>
      out n'' = SapReply a' (xs @ put_sap p @ ys) # out n' \<and> length (xs @ put_sap p @ ys) \<le> PACKET_MAXLEN"
    using genserv_eq [OF si, of "sp_type p" r' a']
    by (intro exI [of _ "n'\<lparr>out := SapReply a' (?f ?es) # out n'\<rparr>"] exI [of _ "?f us"] exI [of _ "?f vs"])
      (simp del: append_Cons append_Nil append_assoc)
qed

definition demo_service :: sap_packet where
  "demo_service = \<lparr>sp_operation = (0, 2), sp_type = (1, 7), sp_name = mkbuf 48 (ascii ''PEER''), sp_net = (0, 0, 0, 2),
     sp_node = (0, 0, 0, 0, 0, 9), sp_socket = (4, 0x51), sp_hops = (0, 1)\<rparr>"

theorem announced_service_found_witness:
  "\<exists>n' n'' xs ys. sap_handle_packet (put_sap demo_service @ []) 66 (demo_addr 9) (demo_net\<lparr>host := demo_srv\<lparr>conns := conn_init 3\<rparr>\<rparr>) = Some n' \<and>
     sap_handle_packet ([0, 1] @ list_b2 (1, 7) @ []) 4 (demo_addr 1) n' = Some n'' \<and>
     out n'' = SapReply (demo_addr 1) (xs @ put_sap demo_service @ ys) # out n'"
proof -
  let ?n = "demo_net\<lparr>host := demo_srv\<lparr>conns := conn_init 3\<rparr>\<rparr>"
  have f: "length (sp_name demo_service) = 48" "sp_operation demo_service = (0, 2)" "sp_type demo_service = (1, 7)"
    by (simp_all add: demo_service_def)
  have "sap_slot demo_service (sap_service ?n) \<noteq> None"
    unfolding sap_slot_None by (auto simp: zero_sap_def)
  then obtain j where j: "sap_slot demo_service (sap_service ?n) = Some j" by blast
  note t = announced_service_found [OF demo_net_inv f(1,2) j, where r = "[]" and a = "demo_addr 9" and r' = "[]" and a' = "demo_addr 1", unfolded f(3)]
  have "be16 (1, 7) \<noteq> (4 :: u16)" by simp
  then obtain n' where "sap_handle_packet (put_sap demo_service @ []) 66 (demo_addr 9) ?n = Some n'" using t by blast
  with t show ?thesis by blast
qed

text \<open>
  C14. The periodic event always returns. It broadcasts the announcement of this server to the SAP socket, and then
  that of its remote console, when there is one: type, name padded to 48 bytes, network, node, the socket
  0x451, and one hop. It frees exactly the services that were not announced for more than 150 seconds, leaves
  the other ones as they are, and treats every connection as the cleanup of idle connections says: silent
  for more than 300 seconds, it is marked or, when it was marked before, dropped.
\<close>
theorem periodic_event:
  assumes "net_inv n" "length (conf_servername (host n)) \<le> 48"
  defines "announcement \<equiv> (\<lambda>type :: bytes. Broadcast IPXPORT_SAP ([0, 2] @ type @
      conf_servername (host n) @ replicate (48 - length (conf_servername (host n))) 0 @
      list_b4 (x_net (server_addr (host n))) @ list_b6 (x_host (server_addr (host n))) @ [0x04, 0x51, 0, 1]))"
  shows "\<exists>n'. sap_event n = Some n' \<and> net_inv n' \<and>
    sap_service n' = map (\<lambda>e. if se_type e \<noteq> 0 \<and> now (host n) > se_update e + 150 then e\<lparr>se_type := 0\<rparr> else e) (sap_service n) \<and>
    out n' = (if rconsole n then [announcement [1, 7], announcement [0, 4]] else [announcement [0, 4]]) @ out n \<and>
    (\<forall>j<length (conns (host n)). 0 < j \<longrightarrow> conns (host n') ! j =
       (let k = conns (host n) ! j in
        if status k \<noteq> Unused \<and> last_time k + 300 < now (host n)
        then if wdog_time k = 0 then k\<lparr>wdog_time := now (host n)\<rparr> else zero_conn
        else k)) \<and>
    gasp_sessions n' = gasp_sessions n"
proof -
  let ?p = "\<lambda>ty. put_sap \<lparr>sp_operation = (0, 2), sp_type = to_be16 ty, sp_name = mkbuf 48 (conf_servername (host n)),
     sp_net = x_net (server_addr (host n)), sp_node = x_host (server_addr (host n)), sp_socket = (0x04, 0x51), sp_hops = (0, 1)\<rparr>"
  have a: "Broadcast IPXPORT_SAP (?p 0x107) = announcement [1, 7]" "Broadcast IPXPORT_SAP (?p 0x4) = announcement [0, 4]"
    by (simp_all add: announcement_def put_sap_def mkbuf_def to_be16_def)
  let ?ds = "if rconsole n then [announcement [1, 7], announcement [0, 4]] else [announcement [0, 4]]"
  obtain h where h: "conn_cleanup (host n) = Some h"
    "\<forall>j<length (conns (host n)). 0 < j \<longrightarrow> conns h ! j = cleaned (now (host n)) (conns (host n) ! j)"
    using conn_cleanup_eq [of "host n"] assms(1) by (auto simp: net_inv_def)
  let ?n' = "(sap_cleanup (n\<lparr>out := ?ds @ out n\<rparr>))\<lparr>host := h\<rparr>"
  have e: "sap_event n = Some ?n'"
    using assms(2) h(1) by (simp add: sap_event_def sap_broadcast_identity_def send_out_def sap_cleanup_def run_host_def Let_def a)
  show ?thesis
    by (rule exI [of _ ?n']) (use sap_event_inv [OF e assms(1)] e h(2) in \<open>simp add: sap_cleanup_def cleaned_def Let_def\<close>)
qed

theorem periodic_event_witness:
  "\<exists>n'. sap_event (demo_net\<lparr>host := demo_srv\<lparr>conns := conn_init 3\<rparr>\<rparr>) = Some n' \<and> net_inv n'"
proof -
  have "length (conf_servername (host (demo_net\<lparr>host := demo_srv\<lparr>conns := conn_init 3\<rparr>\<rparr>))) \<le> 48" by (simp add: demo_srv_def)
  from periodic_event [OF demo_net_inv this] show ?thesis by blast
qed

section \<open>Links and the main loop\<close>

text \<open>
  A greeting of another server is answered exactly when the first server configured under its name
  has the node address of the sender; otherwise it is dropped without an answer. The key in the greeting,
  that of the sender's configuration, has no influence.
\<close>
lemma link_greeting:
  assumes "\<forall>l\<in>set (conf_link_servers n). length (ls_addr l) = 8 \<and> (\<exists>m. cstr (ls_name l) = Some m)"
    and "no_nul (conf_servername (host m))" "length (conf_servername (host m)) < 48"
  shows "link_handle_packet ([0x88, 0x88, 0xff, 0xff, 0, 0] @ link_hello m @ r) 58 a n = Some
    (case first_index (link_named (conf_servername (host m))) (conf_link_servers n) of
       None \<Rightarrow> n
     | Some i \<Rightarrow> if take 6 (ls_addr (conf_link_servers n ! i)) = list_b6 (x_host a)
         then n\<lparr>out := LinkPacket a [0x99, 0x99, 0xff, 0xff, LINK_STATUS_OK] # out n\<rparr> else n)"
proof -
  let ?s = "conf_servername (host m)" and ?q = "[0x88, 0x88, 0xff, 0xff, 0, 0] @ link_hello m @ r"
  have k: "48 - length ?s = Suc (47 - length ?s)" using assms(3) by simp
  have c: "cstr (link_hello m @ r) = Some ?s"
    using assms(2,3) by (simp add: link_hello_def mkbuf_def k)
  have d: "drop 6 ?q = link_hello m @ r" by simp
  have g: "get_be16 ?q 0 = Some 0x8888" "get_be16 ?q 2 = Some 0xffff" "get_be16 ?q 4 = Some 0"
    by (simp_all add: get_be16_def load_def)
  have sc: "link_scan_server (link_hello m @ r) n = Some (first_index (link_named ?s) (conf_link_servers n))"
    by (rule link_scan_server_eq) (use assms(1) c in auto)
  have to: "to_be16 0xffff = (0xff, 0xff)" by (simp add: to_be16_def)
  show ?thesis
    unfolding link_handle_packet_def g d
    by (auto simp: link_handle_command_def link_handle_hello_def sc Let_def link_send_response_def send_out_def to
        load_def dest: first_index_lessD split: option.splits)
qed

lemma link_greeting_witness:
  "link_handle_packet ([0x88, 0x88, 0xff, 0xff, 0, 0] @ link_hello (demo_net\<lparr>host := demo_srv\<lparr>conf_servername := ascii ''PEER''\<rparr>\<rparr>) @ []) 58
     (demo_addr 9) demo_net = Some (demo_net\<lparr>out := [LinkPacket (demo_addr 9) [0x99, 0x99, 0xff, 0xff, LINK_STATUS_OK]]\<rparr>)"
proof -
  have a: "\<forall>l\<in>set (conf_link_servers demo_net). length (ls_addr l) = 8 \<and> (\<exists>m. cstr (ls_name l) = Some m)"
    by (auto simp: demo_net_def)
  have f: "first_index (link_named (ascii ''PEER'')) (conf_link_servers demo_net) = Some 0"
    by (simp add: demo_net_def link_named_def)
  have n: "conf_link_servers demo_net ! 0 = \<lparr>ls_name = mkbuf 48 (ascii ''PEER''), ls_addr = [0, 0, 0, 0, 0, 9, 0, 0]\<rparr>"
    by (simp add: demo_net_def)
  let ?m = "demo_net\<lparr>host := demo_srv\<lparr>conf_servername := ascii ''PEER''\<rparr>\<rparr>"
  have c: "conf_servername (host ?m) = ascii ''PEER''" by simp
  have x: "list_b6 (x_host (demo_addr 9)) = [0, 0, 0, 0, 0, 9]" by (simp add: demo_addr_def)
  note t = link_greeting [OF a, where m = ?m and r = "[]" and a = "demo_addr 9", unfolded c f option.case n x]
  show ?thesis by (rule t [THEN trans]) simp_all
qed

text \<open>
  Datagrams on the socket of the links, and on that of the service announcements when these are not
  enabled, are never read: what a turn of the main loop does is the same with and without them.
\<close>
lemma unwatched_never_read:
  assumes "s = Fd_link \<or> s = Fd_sap \<and> conf_sap_enabled n = 0"
  shows "poll selected (arrived(s := x)) buf n = poll selected arrived buf n"
proof -
  have "is_ready n (arrived(s := x)) = is_ready n arrived"
    using assms by (auto simp: is_ready_def watched_def fun_eq_iff)
  then show ?thesis by (simp add: poll_def)
qed

lemma unwatched_never_read_witness:
  "poll True ((\<lambda>_. None)(Fd_link := Some ([0x88, 0x88], demo_addr 9))) (replicate 2048 0) demo_net = Some (Up demo_net)"
proof -
  have "poll True (\<lambda>_. None) buf demo_net = Some (Up demo_net)" for buf
    by (simp add: poll_def is_ready_def handlers_def poll_socket_def)
  then show ?thesis using unwatched_never_read [of Fd_link demo_net True "\<lambda>_. None"] by simp
qed

text \<open>
  C12. In every state that the whole program reaches from its start, by turns of the main loop with any
  datagrams of any senders, alarms, and the passing of time: no service is listed twice under one
  type and name, each of the eight sessions is unused, connected or authenticated, and no two connections
  in use belong to the same station, unless its address is zero.
\<close>
theorem reachable_net:
  assumes "net_reachable k n"
  shows "length (sap_service n) = SAP_MAX_SERVICES \<and>
    (\<forall>i j. i < SAP_MAX_SERVICES \<and> j < SAP_MAX_SERVICES \<and> i \<noteq> j \<and> se_type (sap_service n ! i) \<noteq> 0 \<and> se_type (sap_service n ! j) = se_type (sap_service n ! i) \<longrightarrow>
       \<not> same_name (se_name (sap_service n ! i)) (se_name (sap_service n ! j))) \<and>
    length (gasp_sessions n) = GASP_MAX_SESSIONS \<and> (\<forall>g\<in>set (gasp_sessions n). gs_status g \<in> {GASP_STATUS_UNUSED, GASP_STATUS_CONNECTED, GASP_STATUS_AUTH}) \<and>
    (\<forall>i j. i < length (conns (host n)) \<and> j < length (conns (host n)) \<and> i \<noteq> j \<and> status (conns (host n) ! i) \<noteq> Unused \<and>
       status (conns (host n) ! j) \<noteq> Unused \<and> real_station (addr (conns (host n) ! i)) \<longrightarrow>
       \<not> same_station (addr (conns (host n) ! i)) (addr (conns (host n) ! j)))"
proof -
  have inv: "net_inv n" using assms by (rule net_reachable_inv)
  then have t: "table_inv (conns (host n))" by (simp add: net_inv_def conn_inv_def)
  have s: "length (sap_service n) = SAP_MAX_SERVICES" using inv by (simp add: net_inv_def sap_inv_def)
  have u: "\<not> same_name (se_name (sap_service n ! i)) (se_name (sap_service n ! j))"
    if "i < SAP_MAX_SERVICES \<and> j < SAP_MAX_SERVICES \<and> i \<noteq> j \<and> se_type (sap_service n ! i) \<noteq> 0 \<and> se_type (sap_service n ! j) = se_type (sap_service n ! i)" for i j
    using inv that s by (simp add: net_inv_def sap_inv_def)
  have g: "length (gasp_sessions n) = GASP_MAX_SESSIONS" "\<forall>g\<in>set (gasp_sessions n). gs_status g \<in> {GASP_STATUS_UNUSED, GASP_STATUS_CONNECTED, GASP_STATUS_AUTH}"
    using inv by (simp_all add: net_inv_def session_ok_def)
  show ?thesis using s u g table_inv_uniq [OF t] unfolding same_station_of by (intro conjI allI impI) blast+
qed

theorem reachable_net_witness: "\<exists>n. net_reachable 3 n \<and> length (sap_service n) = SAP_MAX_SERVICES"
  using demo_net_reachable reachable_net by blast

section \<open>From the configuration to the reachable states\<close>

lemma started:
  assumes "main_start pw gr file opens creates recreate junk n = Some (Up n')"
  obtains c where "parse_config pw gr file False conf_start = ok c" "0 \<le> cf_nofconns c" "cf_nofconns c < 65535"
    "main_init (nat (cf_nofconns c)) opens creates recreate junk (configure c n) = Some (Up n')"
  using assms by (auto simp: main_start_def ok_def split: option.splits sum.splits if_splits)

lemma configured_sys:
  assumes "conf_inv c" "cstr (vol_path (cf_volumes c ! 0)) = Some p" "length p < 250" "colon \<notin> set p"
    and "vol_find_volume (ascii ''SYS'') (cf_volumes c) = Some (Some 0)"
  shows "sys_volume_ok (host (configure c n))"
proof -
  have "length (cf_volumes c) = 16" using assms(1) by (simp add: conf_inv_def volumes_inv_def vols_ok_def)
  then obtain v vs where vs: "cf_volumes c = v # vs" by (cases "cf_volumes c") auto
  have later: "vol_find_from n i us = Some (Some 0) \<Longrightarrow> i = 0" for n i us
    by (induction us arbitrary: i) (auto split: if_splits option.splits bool.splits)
  obtain nm where nm: "cstr (vol_name v) = Some nm" using assms(1) vs by (auto simp: conf_inv_def volumes_inv_def vols_ok_def)
  have "streq (ascii ''SYS'') (vol_name v) = Some True"
    using assms(5) later [of "ascii ''SYS''" "Suc 0" vs] by (simp add: vs vol_find_volume_def split: if_splits option.splits bool.splits)
  then have "nm = ascii ''SYS''" using streq_cstr [OF nm, of "ascii ''SYS''"] by simp
  then show ?thesis using assms(2-4) nm by (simp add: sys_volume_ok_def configure_def vs)
qed

text \<open>
  A server that comes up did accept its configuration file, with volume 0 as SYS; when the path of
  that volume is shorter than 250 characters and has no colon, it is in a start state of the
  reachable states, with as many connections as the file gives, and so keeps all their invariants.
\<close>
lemma server_started:
  assumes "main_start pw gr file opens creates recreate junk n = Some (Up n')"
    and "length (gasp_sessions n) = GASP_MAX_SESSIONS" "\<forall>g\<in>set (gasp_sessions n). length (gs_key g) = 8"
  shows "\<exists>c p. parse_config pw gr file False conf_start = ok c \<and> vol_find_volume (ascii ''SYS'') (cf_volumes c) = Some (Some 0) \<and>
    cstr (vol_path (cf_volumes c ! 0)) = Some p \<and>
    (length p < 250 \<and> colon \<notin> set p \<longrightarrow> net_reachable (nat (cf_nofconns c)) n' \<and> net_inv n')"
proof -
  from started [OF assms(1)] obtain c where c: "parse_config pw gr file False conf_start = ok c"
    "main_init (nat (cf_nofconns c)) opens creates recreate junk (configure c n) = Some (Up n')" .
  have a: "conf_inv c" "vol_find_volume (ascii ''SYS'') (cf_volumes c) = Some (Some 0)" using accepted [OF c(1)] by simp_all
  then have "vols_ok (cf_volumes c)" by (simp add: conf_inv_def volumes_inv_def)
  then have v: "length (cf_volumes c) = 16" "\<forall>v\<in>set (cf_volumes c). \<exists>p. cstr (vol_path v) = Some p" by (auto simp: vols_ok_def)
  from v(1) have "cf_volumes c ! 0 \<in> set (cf_volumes c)" by (intro nth_mem) linarith
  then obtain p where p: "cstr (vol_path (cf_volumes c ! 0)) = Some p" using v(2) by blast
  have "net_reachable (nat (cf_nofconns c)) n'" if "length p < 250" "colon \<notin> set p"
    by (rule net_reachable.start [OF c(2) configured_sys [OF a(1) p that a(2)]]) (use assms(2,3) in \<open>simp_all add: configure_def\<close>)
  then show ?thesis using c(1) a(2) p net_reachable_inv by blast
qed

lemma server_started_witness:
  "\<exists>n'. main_start (\<lambda>_. None) (\<lambda>_. None) (Some (conf_file demo_stmts)) True True False (\<lambda>_. 0) demo_net = Some (Up n') \<and> net_reachable 25 n'"
proof -
  obtain c where c: "parse_config (\<lambda>_. None) (\<lambda>_. None) (Some (conf_file demo_stmts)) False conf_start = ok c"
    "cf_nofconns c = 25" "cf_link_enabled c = 0" "cstr (vol_path (cf_volumes c ! 0)) = Some (ascii ''/sys'')" using demo_accepted by blast
  obtain s where s: "cstr (cf_servername c) = Some s" "length s \<le> 48" using accepted(3) [OF c(1)] by blast
  then have "takeWhile (\<lambda>x. x \<noteq> 0) (cf_servername c) = s" by (auto simp: cstr_def split: if_splits)
  then have "\<exists>n'. main_init 25 True True False (\<lambda>_. 0) (configure c demo_net) = Some (Up n')"
    using s(2) c(3) by (intro demo_init) (simp_all add: configure_def demo_srv_def)
  then obtain n' where n': "main_start (\<lambda>_. None) (\<lambda>_. None) (Some (conf_file demo_stmts)) True True False (\<lambda>_. 0) demo_net = Some (Up n')"
    using c(1,2) by (auto simp: main_start_def ok_def)
  from server_started [OF this] c show ?thesis using n' by (auto simp: zero_session_def)
qed

end
