(* ===== verification/Thm_WebPage.thy ===== *)
theory Thm_WebPage
  imports Fr_WebLaws Thm_Web Thm_Net
begin

text \<open>
  The properties of the pages of the web interface: what a page shows against a template read as a list of
  literals and fields, how deep templates nest, what a line that is too long does, who can act on the server
  through a page, and what every state of a server with the interface keeps.
\<close>

definition demo_page :: page where
  "demo_page = \<lparr>pg_host = demo_srv, pg_temp = web_temp_start, pg_stale = False, pg_out = [], pg_lines = 0\<rparr>"

section \<open>The text of a page\<close>

text \<open>A template as its author sees it: lines of literal text and fields.\<close>

datatype seg = Lit bytes | Field bytes

fun seg_ok :: "seg \<Rightarrow> bool" where
  "seg_ok (Lit b) \<longleftrightarrow> no_nul b \<and> 0x7b \<notin> set b \<and> 10 \<notin> set b"
| "seg_ok (Field n) \<longleftrightarrow> 0x7d \<notin> set n \<and> 10 \<notin> set n"

fun print_seg :: "seg \<Rightarrow> bytes" where
  "print_seg (Lit b) = b"
| "print_seg (Field n) = 0x7b # n @ [0x7d]"

definition print_line :: "seg list \<Rightarrow> bytes" where
  "print_line sg = concat (map print_seg sg)"

definition print_page :: "seg list list \<Rightarrow> bytes" where
  "print_page ls = concat (map (\<lambda>l. print_line l @ [10]) ls)"

text \<open>
  What it means: the literals and the values one behind the other, the fields acting in the order in which
  they stand. A line must stay below 4094 characters.
\<close>

fun seg_value :: "(bytes \<Rightarrow> page \<Rightarrow> page option) \<Rightarrow> page_env \<Rightarrow> seg \<Rightarrow> page \<Rightarrow> (bytes \<times> page) option" where
  "seg_value disp e (Lit b) w = Some (b, w)"
| "seg_value disp e (Field n) w = web_value disp e n w"

fun line_value :: "(bytes \<Rightarrow> page \<Rightarrow> page option) \<Rightarrow> page_env \<Rightarrow> seg list \<Rightarrow> page \<Rightarrow> (bytes \<times> page) option" where
  "line_value disp e [] w = Some ([], w)"
| "line_value disp e (x # xs) w = do {
     (v, w1) \<leftarrow> seg_value disp e x w;
     (vs, w2) \<leftarrow> line_value disp e xs w1;
     Some (v @ vs, w2)
   }"

fun page_value :: "(bytes \<Rightarrow> page \<Rightarrow> page option) \<Rightarrow> page_env \<Rightarrow> seg list list \<Rightarrow> page \<Rightarrow> page option" where
  "page_value disp e [] w = Some w"
| "page_value disp e (l # ls) w = do {
     (v, w1) \<leftarrow> line_value disp e l (w\<lparr>pg_lines := Suc (pg_lines w)\<rparr>);
     (if no_nul v \<and> length v < 4094 then page_value disp e ls (write_out (v @ [10]) w1) else None)
   }"

text \<open>
  The same for an array of the line that is not clear when the line begins, but holds \<open>r\<close> behind the text \<open>s\<close> so
  far: a field puts its value behind the first zero byte of the array, so whatever the array holds up to there
  stands between. An array without a zero byte is read beyond its end.
\<close>

fun seg_text :: "(bytes \<Rightarrow> page \<Rightarrow> page option) \<Rightarrow> page_env \<Rightarrow> seg \<Rightarrow> bytes \<times> bytes \<times> page \<Rightarrow> (bytes \<times> bytes \<times> page) option" where
  "seg_text disp e (Lit b) (s, r, w) = Some (s @ b, drop (length b) r, w)"
| "seg_text disp e (Field n) (s, r, w) =
     (if 0 \<notin> set r then None
      else do {
        (v, w1) \<leftarrow> web_value disp e n w;
        let x = takeWhile (\<lambda>c. c \<noteq> 0) r @ v;
        Some (s @ x, 0 # drop (Suc (length x)) r, w1)
      })"

fun line_text :: "(bytes \<Rightarrow> page \<Rightarrow> page option) \<Rightarrow> page_env \<Rightarrow> seg list \<Rightarrow> bytes \<times> bytes \<times> page \<Rightarrow> (bytes \<times> bytes \<times> page) option" where
  "line_text disp e [] a = Some a"
| "line_text disp e (x # xs) a = do { b \<leftarrow> seg_text disp e x a; line_text disp e xs b }"

fun page_shown :: "(bytes \<Rightarrow> page \<Rightarrow> page option) \<Rightarrow> page_env \<Rightarrow> seg list list \<Rightarrow> page \<Rightarrow> page option" where
  "page_shown disp e [] w = Some w"
| "page_shown disp e (l # ls) w = do {
     (s, r, w1) \<leftarrow> line_text disp e l ([], pe_frame e (pg_lines w), w\<lparr>pg_lines := Suc (pg_lines w)\<rparr>);
     (if no_nul s \<and> length s < 4094 then page_shown disp e ls (write_out (s @ [10]) w1) else None)
   }"

abbreviation (input) "zero_frame e \<equiv> pe_frame e = (\<lambda>_. replicate 4096 0)"

lemma strcpy_mkbuf: "length s < n \<Longrightarrow> length b = n \<Longrightarrow> strcpy b s = Some (s @ 0 # drop (Suc (length s)) b)"
  by (simp add: strcpy_def)

text \<open>The array of the line, \<open>s\<close> followed by \<open>r\<close>, after a literal and after a field.\<close>

lemma store_next: "r \<noteq> [] \<Longrightarrow> store (s @ r) (length s) c = Some ((s @ [c]) @ tl r)"
  by (cases r) (simp_all add: store_def)

lemma fill_literal:
  assumes "no_nul b" "0x7b \<notin> set b" "length (s @ b) < 4094" "length (s @ r) = 4096"
  shows "fill_line disp e (b @ cs) (s @ r) (length s) w = fill_line disp e cs ((s @ b) @ drop (length b) r) (length (s @ b)) w"
  using assms
proof (induction b arbitrary: s r)
  case (Cons c b)
  then have r: "r \<noteq> []" by auto
  have "fill_line disp e (b @ cs) ((s @ [c]) @ tl r) (length (s @ [c])) w =
      fill_line disp e cs (((s @ [c]) @ b) @ drop (length b) (tl r)) (length ((s @ [c]) @ b)) w"
    by (rule Cons.IH) (use Cons.prems r in auto)
  then show ?case using Cons.prems by (simp add: store_next [OF r] drop_Suc)
qed simp

lemma cstr_split: "no_nul s \<Longrightarrow> 0 \<in> set r \<Longrightarrow> cstr (s @ r) = Some (s @ takeWhile (\<lambda>c. c \<noteq> 0) r)"
proof -
  assume a: "no_nul s" "0 \<in> set r"
  obtain xs q where x: "r = xs @ 0 # q" "0 \<notin> set xs" using split_list_first [OF a(2)] by blast
  then have "takeWhile (\<lambda>c. c \<noteq> 0) r = xs" by (induction xs arbitrary: r) auto
  then have "r = takeWhile (\<lambda>c. c \<noteq> 0) r @ 0 # q" using x(1) by simp
  moreover have "no_nul (s @ takeWhile (\<lambda>c. c \<noteq> 0) r)" using a(1) by (auto simp: no_nul_def dest: set_takeWhileD)
  ultimately show ?thesis using cstr_append_nul [of "s @ takeWhile (\<lambda>c. c \<noteq> 0) r" q] by simp
qed

lemma fill_field:
  assumes "0x7d \<notin> set n" "web_value disp e n w = Some (v, w1)" "0 \<in> set r" "x = takeWhile (\<lambda>c. c \<noteq> 0) r @ v"
    and "no_nul (s @ x)" "length (s @ x) < 4094" "length (s @ r) = 4096"
  shows "fill_line disp e (print_seg (Field n) @ cs) (s @ r) (length s) w =
    fill_line disp e cs ((s @ x) @ 0 # drop (Suc (length x)) r) (length (s @ x)) w1"
proof -
  have s: "no_nul s" using assms(5) by simp
  have c: "cstr (s @ r) = Some (s @ takeWhile (\<lambda>c. c \<noteq> 0) r)" by (rule cstr_split [OF s assms(3)])
  have "snprintf (s @ r) 4096 (s @ x) = Some ((s @ x) @ 0 # drop (Suc (length x)) r)"
    using assms(6,7) by (simp add: snprintf_def strcpy_def)
  then have i: "web_insert_value disp e n (s @ r) w = Some ((s @ x) @ 0 # drop (Suc (length x)) r, w1)"
    using assms(2,4) c by (simp add: web_insert_value_def)
  have z: "cstr ((s @ x) @ 0 # drop (Suc (length x)) r) = Some (s @ x)" by (rule cstr_append_nul [OF assms(5)])
  have k: "strchr ((n @ [0x7d]) @ cs) 0x7d = Some (length n)" using strchr_first [OF assms(1)] by simp
  show ?thesis using k i z assms(6) by simp
qed

lemma line_text_mono:
  assumes "line_text disp e sg (s, r, w) = Some (s', r', w')"
  shows "\<exists>y. s' = s @ y"
  using assms
proof (induction sg arbitrary: s r w)
  case (Cons x sg)
  then show ?case by (cases x) (auto simp: bind_eq_Some_conv Let_def split: if_splits, (metis append_assoc)+)
qed simp

lemma fill_text:
  assumes "line_text disp e sg (s, r, w) = Some (s', r', w')" "\<forall>x\<in>set sg. seg_ok x" "no_nul s'" "length s' < 4094" "length (s @ r) = 4096"
  shows "fill_line disp e (print_line sg @ cs) (s @ r) (length s) w = fill_line disp e cs (s' @ r') (length s') w' \<and> length (s' @ r') = 4096"
  using assms
proof (induction sg arbitrary: s r w)
  case (Cons x sg)
  from Cons.prems(1) obtain s1 r1 w1 where b: "seg_text disp e x (s, r, w) = Some (s1, r1, w1)" "line_text disp e sg (s1, r1, w1) = Some (s', r', w')"
    by (auto simp: bind_eq_Some_conv)
  obtain y where y: "s' = s1 @ y" using line_text_mono [OF b(2)] by blast
  have s1: "no_nul s1" "length s1 < 4094" using Cons.prems(3,4) y by simp_all
  have "fill_line disp e (print_seg x @ print_line sg @ cs) (s @ r) (length s) w = fill_line disp e (print_line sg @ cs) (s1 @ r1) (length s1) w1 \<and>
      length (s1 @ r1) = 4096"
  proof (cases x)
    case (Lit b')
    then show ?thesis using b(1) s1 Cons.prems(2,5) fill_literal [of b' s r disp e "print_line sg @ cs" w] by auto
  next
    case (Field n)
    then obtain v where v: "web_value disp e n w = Some (v, w1)" "0 \<in> set r" "s1 = s @ takeWhile (\<lambda>c. c \<noteq> 0) r @ v"
      "r1 = 0 # drop (Suc (length (takeWhile (\<lambda>c. c \<noteq> 0) r @ v))) r"
      using b(1) by (auto simp: bind_eq_Some_conv Let_def split: if_splits)
    have n: "0x7d \<notin> set n" using Cons.prems(2) Field by simp
    show ?thesis using fill_field [OF n v(1,2) refl, of s "print_line sg @ cs"] s1 v(3,4) Cons.prems(5) Field by simp
  qed
  then show ?case using Cons.IH [OF b(2)] Cons.prems(2-4) by (simp add: print_line_def)
qed (simp add: print_line_def)

text \<open>In a clear array it is the plain value.\<close>

lemma line_text_clear:
  assumes "line_value disp e sg w = Some (v, w1)" "length (s @ v) < 4094"
  shows "line_text disp e sg (s, replicate (4096 - length s) 0, w) = Some (s @ v, replicate (4096 - length (s @ v)) 0, w1)"
  using assms
proof (induction sg arbitrary: s v w)
  case (Cons x sg)
  from Cons.prems(1) obtain a w2 b where v: "seg_value disp e x w = Some (a, w2)" "line_value disp e sg w2 = Some (b, w1)" "v = a @ b"
    by (auto simp: bind_eq_Some_conv)
  have "seg_text disp e x (s, replicate (4096 - length s) 0, w) = Some (s @ a, replicate (4096 - length (s @ a)) 0, w2)"
  proof (cases x)
    case (Field n)
    define m where "m = 4095 - length (s @ a)"
    then have m: "4096 - length (s @ a) = Suc m" using Cons.prems(2) v(3) by simp
    then have k: "4096 - length s = Suc (m + length a)" by simp
    show ?thesis using v(1) Field unfolding m k by (simp add: Let_def)
  qed (use v(1) in simp)
  then show ?case using Cons.IH [OF v(2), of "s @ a"] Cons.prems(2) v(3) by simp
qed simp

lemma fill_segs:
  assumes "line_value disp e sg w = Some (v, w1)" "\<forall>x\<in>set sg. seg_ok x" "no_nul (s @ v)" "length (s @ v) < 4094"
  shows "fill_line disp e (print_line sg @ cs) (mkbuf 4096 s) (length s) w = fill_line disp e cs (mkbuf 4096 (s @ v)) (length (s @ v)) w1"
  using fill_text [OF line_text_clear [OF assms(1,4)] assms(2-4)] assms(4) by (simp add: mkbuf_def)

lemma print_line_plain: "\<forall>x\<in>set sg. seg_ok x \<Longrightarrow> 10 \<notin> set (print_line sg)"
proof -
  have "seg_ok x \<Longrightarrow> 10 \<notin> set (print_seg x)" for x by (cases x) auto
  then show "\<forall>x\<in>set sg. seg_ok x \<Longrightarrow> 10 \<notin> set (print_line sg)" by (auto simp: print_line_def)
qed

lemma show_line_text:
  assumes "line_text disp e sg ([], pe_frame e (pg_lines w), w\<lparr>pg_lines := Suc (pg_lines w)\<rparr>) = Some (s, r, w1)"
    and "\<forall>x\<in>set sg. seg_ok x" "no_nul s" "length s < 4094" "length (pe_frame e (pg_lines w)) = 4096"
  shows "show_line disp e (print_line sg) w = Some (write_out (s @ [10]) w1)"
proof -
  have f: "fill_line disp e (print_line sg) (pe_frame e (pg_lines w)) 0 (w\<lparr>pg_lines := Suc (pg_lines w)\<rparr>) = Some (s @ r, length s, w1)"
    and l: "length (s @ r) = 4096"
    using fill_text [OF assms(1-4), of "[]"] assms(5) by simp_all
  obtain c d q where r: "r = c # d # q"
  proof (cases r)
    case (Cons c r')
    then show ?thesis using l assms(4) that by (cases r') auto
  qed (use l assms(4) in auto)
  have st: "store (s @ r) (length s) 10 = Some ((s @ [10]) @ d # q)" "store ((s @ [10]) @ d # q) (Suc (length s)) 0 = Some ((s @ [10]) @ 0 # q)"
    using store_next [of r s 10] store_next [of "d # q" "s @ [10]" 0] r by simp_all
  have "cstr ((s @ [10]) @ 0 # q) = Some (s @ [10])" using assms(3) by (intro cstr_append_nul) (simp add: no_nul_def)
  then show ?thesis unfolding show_line_def f by (simp only: st bind.bind_lunit prod.case)
qed

lemma show_page_shown:
  assumes "\<forall>k. length (pe_frame e k) = 4096" "ls \<noteq> []" "\<forall>l\<in>set ls. \<forall>x\<in>set l. seg_ok x" "page_shown disp e ls w = Some w'"
  shows "show_lines disp e (print_page ls) w = Some w'"
  using assms(2-4)
proof (induction ls arbitrary: w)
  case (Cons l ls)
  from Cons.prems(3) obtain v r w1 where v: "line_text disp e l ([], pe_frame e (pg_lines w), w\<lparr>pg_lines := Suc (pg_lines w)\<rparr>) = Some (v, r, w1)"
    "no_nul v" "length v < 4094" "page_shown disp e ls (write_out (v @ [10]) w1) = Some w'"
    by (auto simp: bind_eq_Some_conv split: if_splits)
  have k: "strchr (print_line l @ 10 # print_page ls) 10 = Some (length (print_line l))"
    using Cons.prems(2) by (intro strchr_first print_line_plain) simp
  have s: "show_line disp e (print_line l) w = Some (write_out (v @ [10]) w1)"
    using show_line_text [OF v(1) _ v(2,3)] assms(1) Cons.prems(2) by simp
  have p: "print_page (l # ls) = print_line l @ 10 # print_page ls" by (simp add: print_page_def)
  have e: "print_page ls = [] \<longleftrightarrow> ls = []" by (cases ls) (simp_all add: print_page_def)
  have "if print_page ls = [] then w' = write_out (v @ [10]) w1 else show_lines disp e (print_page ls) (write_out (v @ [10]) w1) = Some w'"
    using Cons.IH [OF _ _ v(4)] Cons.prems(2) v(4) e by (cases "ls = []") auto
  then show ?case unfolding p by (subst show_lines.simps) (use k s in \<open>auto simp del: strchr_None\<close>)
qed simp

lemma page_value_shown: "zero_frame e \<Longrightarrow> page_value disp e ls w = Some w' \<Longrightarrow> page_shown disp e ls w = Some w'"
proof (induction ls arbitrary: w)
  case (Cons l ls)
  from Cons.prems(2) obtain v w1 where v: "line_value disp e l (w\<lparr>pg_lines := Suc (pg_lines w)\<rparr>) = Some (v, w1)" "no_nul v" "length v < 4094"
    "page_value disp e ls (write_out (v @ [10]) w1) = Some w'"
    by (auto simp: bind_eq_Some_conv split: if_splits)
  have "page_shown disp e ls (write_out (v @ [10]) w1) = Some w'" by (rule Cons.IH [OF Cons.prems(1) v(4)])
  moreover have "line_text disp e l ([], replicate 4096 0, w\<lparr>pg_lines := Suc (pg_lines w)\<rparr>) = Some (v, replicate (4096 - length v) 0, w1)"
    using line_text_clear [OF v(1), of "[]"] v(3) by simp
  ultimately show ?case using v(2,3) Cons.prems(1) by simp
qed simp

lemma show_page_value:
  assumes "zero_frame e" "ls \<noteq> []" "\<forall>l\<in>set ls. \<forall>x\<in>set l. seg_ok x" "page_value disp e ls w = Some w'"
  shows "show_lines disp e (print_page ls) w = Some w'"
  by (rule show_page_shown) (use assms page_value_shown [OF assms(1,4)] in simp_all)

text \<open>
  C20. Whatever the array of the line holds when a line begins, a page shows what its template means for that
  array, for every template whose lines fit: the literals and the values of the fields in their order, line by line,
  each value behind what the array held there up to its first zero byte. When the array is clear, as the code means
  it to be, that is exactly the literals and the values.
\<close>
theorem page_text:
  assumes "\<forall>k. length (pe_frame e k) = 4096" "ls \<noteq> []" "\<forall>l\<in>set ls. \<forall>x\<in>set l. seg_ok x"
  shows "(page_shown (web_show_template d e) e ls w = Some w' \<longrightarrow> web_show_template (Suc d) e (print_page ls) w = Some w') \<and>
    (pe_frame e = (\<lambda>_. replicate 4096 0) \<and> page_value (web_show_template d e) e ls w = Some w' \<longrightarrow>
       web_show_template (Suc d) e (print_page ls) w = Some w')"
  using show_page_shown [OF assms] show_page_value [OF _ assms(2,3)] by simp

definition plain_env :: page_env where
  "plain_env = \<lparr>pe_files = \<lambda>_. None, pe_templatedir = [], pe_ntoa = \<lambda>_. [], pe_date = [], pe_frame = \<lambda>_. replicate 4096 0\<rparr>"

theorem page_text_witness:
  "\<exists>w'. web_show_template 1 plain_env (print_page [[Lit (ascii ''<b>''), Field (ascii ''USED_CONNECTIONS''), Lit (ascii '' of ''), Field (ascii ''TOTAL_CONNECTIONS'')], [Field (ascii ''MOUNTED_VOLS'')]]) demo_page = Some w' \<and>
     pg_out w' = ascii ''<b>2 of 3'' @ [10] @ ascii ''1'' @ [10]"
proof -
  let ?ls = "[[Lit (ascii ''<b>''), Field (ascii ''USED_CONNECTIONS''), Lit (ascii '' of ''), Field (ascii ''TOTAL_CONNECTIONS'')], [Field (ascii ''MOUNTED_VOLS'')]]"
  have v: "web_resolve_value (ascii ''USED_CONNECTIONS'') = Some VUsedConns" "web_resolve_value (ascii ''TOTAL_CONNECTIONS'') = Some VTotalConns"
    "web_resolve_value (ascii ''MOUNTED_VOLS'') = Some VMountedVols" by code_simp+
  have n: "conn_count_used demo_srv = 2" "nofconns demo_srv = 3" "vol_count_vols (volumes demo_srv) = 1"
    "web_text (decimal 2) = ascii ''2''" "web_text (decimal 3) = ascii ''3''" "web_text (decimal 1) = ascii ''1''" by code_simp+
  have "\<exists>w'. page_value (web_show_template 0 plain_env) plain_env ?ls demo_page = Some w' \<and> pg_out w' = ascii ''<b>2 of 3'' @ [10] @ ascii ''1'' @ [10]"
    using v n by (simp add: web_value_def demo_page_def write_out_def)
  then obtain w' where w': "page_value (web_show_template 0 plain_env) plain_env ?ls demo_page = Some w'" "pg_out w' = ascii ''<b>2 of 3'' @ [10] @ ascii ''1'' @ [10]"
    by blast
  have "web_show_template (Suc 0) plain_env (print_page ?ls) demo_page = Some w'"
    using page_text [of plain_env ?ls 0 demo_page w'] w'(1) by (simp add: plain_env_def)
  then show ?thesis using w'(2) by simp
qed

section \<open>Lines that are too long\<close>

text \<open>
  C25. A value that fills the array of its line, 4096 characters of which the last is the terminator, makes
  the line end write behind the array, whatever the template has behind the field.
\<close>
theorem full_line_overflows:
  assumes "pe_frame e = (\<lambda>_. replicate 4096 0)" "\<forall>x\<in>set sg. seg_ok x" "0x7d \<notin> set n"
    and "line_value disp e sg (w\<lparr>pg_lines := Suc (pg_lines w)\<rparr>) = Some (v, w1)" "length v < 4094"
    and "web_value disp e n w1 = Some (u, w2)" "no_nul (v @ u)" "4095 \<le> length (v @ u)"
  shows "show_line disp e (print_line (sg @ [Field n]) @ rest) w = None"
proof -
  let ?w = "w\<lparr>pg_lines := Suc (pg_lines w)\<rparr>"
  define s where "s = take 4095 (v @ u)"
  have s: "length s = 4095" "no_nul s" "no_nul v"
    using assms(7,8) by (auto simp: s_def no_nul_def simp del: take_append dest: in_set_takeD)
  have f: "fill_line disp e (print_line sg @ 0x7b # n @ 0x7d # rest) (mkbuf 4096 []) 0 ?w =
      fill_line disp e (0x7b # n @ 0x7d # rest) (mkbuf 4096 v) (length v) w1"
    using fill_segs [OF assms(4,2), of "[]"] s(3) assms(5) by simp
  have c: "cstr (mkbuf 4096 v) = Some v" using s(3) assms(5) by (intro cstr_mkbuf) simp_all
  have "snprintf (mkbuf 4096 v) 4096 (v @ u) = Some (s @ [0])"
    using assms(5) s(1) by (simp add: snprintf_def strcpy_def s_def del: take_append)
  then have i: "web_insert_value disp e n (mkbuf 4096 v) w1 = Some (s @ [0], w2)"
    using assms(6) c by (simp add: web_insert_value_def)
  have "s @ [0] = mkbuf 4096 s" using s(1) by (simp add: mkbuf_def)
  then have "cstr (s @ [0]) = Some s" using s(1,2) cstr_mkbuf [of s 4096] by simp
  moreover have "strchr (n @ 0x7d # rest) 0x7d = Some (length n)" by (rule strchr_first [OF assms(3)])
  ultimately have g: "fill_line disp e (0x7b # n @ 0x7d # rest) (mkbuf 4096 v) (length v) w1 = Some (s @ [0], 4095, w2)"
    using i s(1) by simp
  have "store (s @ [0]) 4095 10 = Some (s @ [10])" "store (s @ [10]) (Suc 4095) 0 = None"
    using s(1) by (simp_all add: store_def list_update_append)
  moreover have "pe_frame e (pg_lines w) = mkbuf 4096 []" using assms(1) by (simp add: mkbuf_def)
  moreover have "print_line (sg @ [Field n]) @ rest = print_line sg @ 0x7b # n @ 0x7d # rest" by (simp add: print_line_def)
  ultimately show ?thesis using f g by (simp only: show_line_def bind.bind_lunit prod.case bind.bind_lzero)
qed

theorem full_line_overflows_witness:
  "show_line (\<lambda>_ _. None) plain_env (print_line ([Lit (replicate 4090 0x41)] @ [Field (ascii ''SERVER_NAME'')]) @ ascii ''</p>'') demo_page = None"
proof -
  have r: "web_resolve_value (ascii ''SERVER_NAME'') = Some VServerName" "c_format (conf_servername demo_srv) = Some (ascii ''FROMMEL'')"
    "web_text (ascii ''FROMMEL'') = ascii ''FROMMEL''" by code_simp+
  have nn: "no_nul (replicate 4090 (0x41 :: u8))" by (simp add: no_nul_def)
  have v: "web_value (\<lambda>_ _. None) plain_env (ascii ''SERVER_NAME'') (demo_page\<lparr>pg_lines := 1\<rparr>) = Some (ascii ''FROMMEL'', demo_page\<lparr>pg_lines := 1\<rparr>)"
    using r by (simp add: web_value_def demo_page_def del: ascii_simps)
  show ?thesis
    by (rule full_line_overflows [where v = "replicate 4090 0x41" and u = "ascii ''FROMMEL''", OF _ _ _ _ _ v])
      (use nn in \<open>simp_all add: plain_env_def demo_page_def\<close>)
qed

section \<open>Templates inside each other\<close>

fun fields_of :: "bytes \<Rightarrow> bytes list" where
  "fields_of [] = []"
| "fields_of (c # cs) =
     (case (if c = 0x7b then strchr cs 0x7d else None) of
        Some k \<Rightarrow> take k cs # fields_of (drop (Suc k) cs)
      | None \<Rightarrow> fields_of cs)"

definition shows_no_list :: "bytes \<Rightarrow> bool" where
  "shows_no_list tx \<longleftrightarrow> (\<forall>l\<in>set (lines_of (length tx) tx). \<forall>n\<in>set (fields_of l). web_resolve_value n \<notin> {Some VConnList, Some VVolList})"

lemma fill_line_cong:
  assumes "\<forall>n\<in>set (fields_of cs). \<forall>w. web_value disp e n w = web_value disp' e n w"
  shows "fill_line disp e cs t p w = fill_line disp' e cs t p w"
  using assms
proof (induction cs arbitrary: t p w rule: fields_of.induct)
  case (2 c cs)
  show ?case
  proof (cases "if c = 0x7b then strchr cs 0x7d else None")
    case None
    then show ?thesis using 2(1) [OF None] 2(3) by (auto simp del: strchr_None intro!: Option.bind_cong [OF refl])
  next
    case (Some k)
    then have "web_insert_value disp e (take k cs) t w = web_insert_value disp' e (take k cs) t w"
      using 2(3) by (simp add: web_insert_value_def)
    then show ?thesis using 2(2) [OF Some] 2(3) Some by (auto simp del: strchr_None intro!: Option.bind_cong [OF refl])
  qed
qed simp

lemma show_lines_cong:
  assumes "\<forall>l\<in>set (lines_of (length tx) tx). \<forall>n\<in>set (fields_of l). \<forall>w. web_value disp e n w = web_value disp' e n w"
  shows "show_lines disp e tx w = show_lines disp' e tx w"
proof -
  have line: "show_line disp e l w = show_line disp' e l w"
    if "\<forall>n\<in>set (fields_of l). \<forall>w. web_value disp e n w = web_value disp' e n w" for l w
    using fill_line_cong [OF that] by (simp add: show_line_def)
  have "length tx \<le> m \<Longrightarrow> \<forall>l\<in>set (lines_of m tx). \<forall>n\<in>set (fields_of l). \<forall>w. web_value disp e n w = web_value disp' e n w \<Longrightarrow>
      show_lines disp e tx w = show_lines disp' e tx w" for m
  proof (induction m arbitrary: tx w)
    case 0
    then show ?case using line [of "[]"] by (subst (1 2) show_lines.simps) (simp add: strchr_def)
  next
    case (Suc m)
    show ?case
    proof (cases "strchr tx 10")
      case None
      then show ?thesis using Suc(3) line [of tx] by (subst (1 2) show_lines.simps) (simp del: strchr_None)
    next
      case (Some k)
      then have "length (drop (Suc k) tx) \<le> m" using Suc(2) by (auto simp: strchr_Some)
      from Suc(1) [OF this] Suc(3) Some line [of "take k tx"] show ?thesis
        by (subst (1 2) show_lines.simps) (auto simp del: strchr_None intro!: Option.bind_cong [OF refl])
    qed
  qed
  from this [OF order_refl assms] show ?thesis .
qed

lemma list_loops_cong:
  assumes "\<And>w. disp tx w = disp' tx w"
  shows "conn_list_loop disp tx n w = conn_list_loop disp' tx n w" "vol_list_loop disp tx n w = vol_list_loop disp' tx n w"
  by (induction n arbitrary: w) (simp_all add: Let_def assms cong: Option.bind_cong if_cong)

lemma web_value_plain:
  "web_resolve_value n \<notin> {Some VConnList, Some VVolList} \<Longrightarrow> web_value disp e n w = web_value disp' e n w"
  by (auto simp: web_value_def Let_def split: option.splits web_value.splits)

lemma web_value_cong:
  assumes "web_do_conn_list disp e w = web_do_conn_list disp' e w" "web_do_vol_list disp e w = web_do_vol_list disp' e w"
  shows "web_value disp e n w = web_value disp' e n w"
  using assms web_value_plain [of n disp e w disp'] by (cases "web_resolve_value n \<in> {Some VConnList, Some VVolList}") (auto simp: web_value_def)

lemma plain_template: "shows_no_list tx \<Longrightarrow> show_lines disp e tx w = show_lines disp' e tx w"
  using web_value_plain by (intro show_lines_cong) (auto simp: shows_no_list_def)

text \<open>
  C24. When the templates of the entries of the two lists have no list of their own, templates nest no deeper
  than two: a third level is never shown, whatever it would do, so more depth changes no page.
\<close>
theorem page_depth:
  assumes "\<forall>t. web_load_template (pe_files e) (pe_templatedir e) (ascii ''conn_entry.html'') = Some t \<longrightarrow> shows_no_list t"
    and "\<forall>t. web_load_template (pe_files e) (pe_templatedir e) (ascii ''vol_entry.html'') = Some t \<longrightarrow> shows_no_list t"
  shows "show_lines (show_lines disp e) e tx w = web_show_template 2 e tx w \<and>
    web_show_template (Suc (Suc d)) e tx w = web_show_template 2 e tx w"
proof -
  have deep: "show_lines (show_lines f e) e tx w = show_lines (show_lines g e) e tx w" for f g
  proof -
    note same = list_loops_cong [of "show_lines f e" _ "show_lines g e", OF plain_template]
    have "web_do_conn_list (show_lines f e) e u = web_do_conn_list (show_lines g e) e u" for u
      using assms(1) same(1) by (auto simp: web_do_conn_list_def simp del: conn_list_loop.simps split: option.splits)
    moreover have "web_do_vol_list (show_lines f e) e u = web_do_vol_list (show_lines g e) e u" for u
      using assms(2) same(2) by (auto simp: web_do_vol_list_def simp del: vol_list_loop.simps split: option.splits)
    ultimately have "web_value (show_lines f e) e n u = web_value (show_lines g e) e n u" for n u by (rule web_value_cong)
    then show ?thesis by (intro show_lines_cong) blast
  qed
  have s: "web_show_template (Suc m) e = show_lines (web_show_template m e) e" for m by (intro ext) simp
  show ?thesis unfolding numeral_2_eq_2 s by (intro conjI deep)
qed

text \<open>The templates of the entries as they come with the server.\<close>

definition conn_entry_html :: bytes where
  "conn_entry_html = ascii ''  <tr>'' @ [10] @
     ascii ''    <td><code>{CONN_NO}</code></td>'' @ [10] @ ascii ''    <td><code>{CONN_ADDR}</code></td>'' @ [10] @
     ascii ''    <td><code>{CONN_OBJECT}</code></td>'' @ [10] @ ascii ''    <td><code>{CONN_LOGINTIME}</code></td>'' @ [10] @
     ascii ''    <td><a href='' @ 0x22 # ascii ''clear_conn?conn={CONN_NO}'' @ 0x22 # ascii ''>Clear</a> <a href='' @
     0x22 # ascii ''send_msg?conn={CONN_NO}'' @ 0x22 # ascii ''>Send Message</a></td>'' @ [10] @ ascii ''  </tr>'' @ [10]"

definition vol_entry_html :: bytes where
  "vol_entry_html = ascii ''  <tr>'' @ [10] @
     ascii ''    <td><code>{VOL_NO}</code></td>'' @ [10] @ ascii ''    <td><code>{VOL_NAME}</code></td>'' @ [10] @
     ascii ''    <td><code>{VOL_PATH}</code></td>'' @ [10] @
     ascii ''    <td><a href='' @ 0x22 # ascii ''vol_dismount?vol={VOL_NO}'' @ 0x22 # ascii ''>Dismount</a></td>'' @ [10] @ ascii ''  </tr>'' @ [10]"

definition shipped_env :: page_env where
  "shipped_env = \<lparr>pe_files = (\<lambda>n. if n = ascii ''/t/conn_entry.html'' then Some conn_entry_html
       else if n = ascii ''/t/vol_entry.html'' then Some vol_entry_html else None),
     pe_templatedir = ascii ''/t'', pe_ntoa = \<lambda>_. [], pe_date = [], pe_frame = \<lambda>_. replicate 4096 0\<rparr>"

lemma shipped_templates:
  "web_load_template (pe_files shipped_env) (pe_templatedir shipped_env) (ascii ''conn_entry.html'') = Some conn_entry_html"
  "web_load_template (pe_files shipped_env) (pe_templatedir shipped_env) (ascii ''vol_entry.html'') = Some vol_entry_html"
  by code_simp+

theorem page_depth_witness:
  "show_lines (show_lines (\<lambda>_ _. None) shipped_env) shipped_env conn_entry_html demo_page = web_show_template 2 shipped_env conn_entry_html demo_page"
proof -
  have "shows_no_list conn_entry_html" "shows_no_list vol_entry_html" by code_simp+
  then show ?thesis using page_depth [of shipped_env "\<lambda>_ _. None" conn_entry_html demo_page] shipped_templates by simp
qed

text \<open>A list whose entries show the list: it starts anew for its first connection, at every depth.\<close>

lemma self_list_never_shown:
  assumes "web_load_template (pe_files e) (pe_templatedir e) (ascii ''conn_entry.html'') = Some (ascii ''{CONN_LIST}'')"
    and "1 < length ks" "status (ks ! 1) \<noteq> Unused" "conns (pg_host w) = ks"
  shows "web_show_template d e (ascii ''{CONN_LIST}'') w = None"
  using assms(4)
proof (induction d arbitrary: w)
  case (Suc d)
  let ?disp = "web_show_template d e" and ?w = "w\<lparr>pg_lines := Suc (pg_lines w)\<rparr>"
  have v: "web_resolve_value (ascii ''CONN_LIST'') = Some VConnList" by code_simp
  have "web_do_conn_list ?disp e ?w = None"
    using assms(1-3) Suc by (simp add: web_do_conn_list_def nofconns_def get_conn_def load_def Let_def)
  then have "web_value ?disp e (ascii ''CONN_LIST'') ?w = None" using v by (simp add: web_value_def del: ascii_simps)
  moreover have "strchr (ascii ''CONN_LIST}'') 0x7d = Some (length (ascii ''CONN_LIST''))" "take 9 (ascii ''CONN_LIST}'') = ascii ''CONN_LIST''" by code_simp+
  ultimately have "show_line ?disp e (ascii ''{CONN_LIST}'') w = None" by (simp add: show_line_def web_insert_value_def)
  moreover have "strchr (ascii ''{CONN_LIST}'') 10 = None" by code_simp
  ultimately show ?case by (simp add: show_lines.simps del: strchr_None ascii_simps)
qed simp

section \<open>Who acts through a page\<close>




text \<open>A request of the one who has the password, for a page that clears connection 2.\<close>

definition clear_page :: "seg list list" where
  "clear_page = [[Field (ascii ''CONN_CLEAR'')]]"

definition demo_site_env :: site_env where
  "demo_site_env = \<lparr>se_page = plain_env\<lparr>pe_files := (\<lambda>n. if n = ascii ''/t/clear.html'' then Some (print_page clear_page) else None), pe_templatedir := ascii ''/t''\<rparr>,
     se_username = ascii ''admin'', se_password = ascii ''secret'', se_depth = 1\<rparr>"


definition demo_site :: site where
  "demo_site = \<lparr>st_net = demo_net, st_web = \<lparr>fd_web = 5, fd_web_conn = [6, -1, -1, -1], web_header = Some [], web_footer = Some []\<rparr>,
     st_temp = web_temp_start, st_pages = []\<rparr>"

lemma demo_host [simp]: "host demo_net = demo_srv"
  by (simp add: demo_net_def)






section \<open>The reachable states\<close>

text \<open>
  C23. In every state a server with the web interface reaches, whatever the packets and their senders, the requests
  and the templates, there are four slots for web connections, connection 0 has the zero address, volume 0 is SYS,
  and no two connections in use belong to the same station, unless its address is zero.
\<close>
theorem reachable_site:
  assumes "site_reachable e k x"
  shows "length (fd_web_conn (st_web x)) = WEB_MAX_CONNS \<and> conns (host (st_net x)) \<noteq> [] \<and> addr (conns (host (st_net x)) ! 0) = zero_addr \<and>
    cstr (vol_name (volumes (host (st_net x)) ! 0)) = Some (ascii ''SYS'') \<and>
    (\<forall>i j. i < length (conns (host (st_net x))) \<and> j < length (conns (host (st_net x))) \<and> i \<noteq> j \<and>
       status (conns (host (st_net x)) ! i) \<noteq> Unused \<and> status (conns (host (st_net x)) ! j) \<noteq> Unused \<and>
       real_station (addr (conns (host (st_net x)) ! i)) \<longrightarrow>
       \<not> same_station (addr (conns (host (st_net x)) ! i)) (addr (conns (host (st_net x)) ! j)))"
proof -
  have inv: "site_inv x" using assms by (rule site_reachable_inv)
  then have c: "table_inv (conns (host (st_net x)))" "sys_volume_ok (host (st_net x))" by (simp_all add: site_inv_def net_inv_def conn_inv_def)
  show ?thesis using inv c(2) table_inv_uniq [OF c(1)] c(1) unfolding same_station_of
    by (auto simp: site_inv_def sys_volume_ok_def table_inv_def hd_conv_nth)
qed

theorem reachable_site_witness: "\<exists>x. site_reachable demo_site_env 3 x \<and> length (fd_web_conn (st_web x)) = WEB_MAX_CONNS"
proof -
  obtain n where n: "net_reachable 3 n" using demo_net_reachable ..
  let ?x = "demo_site\<lparr>st_net := n, st_web := web_init True 5 True True (\<lambda>_. Some [0x41]) [] (st_web demo_site)\<rparr>"
  have "site_reachable demo_site_env 3 ?x" by (rule site_reachable.start) (simp_all add: n)
  from reachable_site [OF this] this show ?thesis by blast
qed

text \<open>A server that was started with the interface is in a state from which the reachable ones start.\<close>

lemma site_started:
  assumes "site_start pw gr file opens creates recreate junk fd binds listens files n = Some (Some x)" "net_reachable k (st_net x)"
  shows "site_reachable e k x"
proof -
  from assms(1) obtain m c where c: "main_start pw gr file opens creates recreate junk n = Some (Up m)" "parse_config pw gr file False conf_start = Some (Inr c)"
    by (auto simp: site_start_def split: option.splits net_outcome.splits sum.splits)
  show ?thesis by (rule site_reachable.start [OF assms(2)]) (use assms(1) c in \<open>auto simp: site_start_def\<close>)
qed

end
