(* ===== verification/Fr_NetIf.thy ===== *)
theory Fr_NetIf
  imports Fr_Sap
begin

text \<open>
  \<^verbatim>\<open>src/lib/net.c\<close>: the search for an IPX interface in the list of the kernel, and the sockets that packets are
  sent from. The list is given message by message, as \<^verbatim>\<open>sysctl\<close> returns it. Of the sockets the state keeps
  which are open and what was sent; each kernel call succeeds or fails as \<open>works\<close> says.
\<close>

section \<open>Interfaces\<close>

text \<open>An address message: its interface address is absent (a null pointer), of the family IPX, or of another.\<close>

datatype if_addr = NoAddr | IpxAddr ipx_addr | OtherAddr

datatype rt_message = IfInfo (if_up: bool) (if_name: bytes) | NewAddr if_addr | OtherMessage

definition ipx_nullnet :: "ipx_addr \<Rightarrow> bool" where
  "ipx_nullnet a \<longleftrightarrow> x_net a = (0, 0, 0, 0)"

text \<open>
  The addresses of one interface; the outer \<open>None\<close> is the null pointer, the inner one the result -1. The
  socket that the function opens (when it can) is only used to be closed.
\<close>

fun scan_addrs :: "if_addr list \<Rightarrow> ipx_addr \<Rightarrow> ipx_addr option option" where
  "scan_addrs [] ad = Some None"
| "scan_addrs (NoAddr # as) ad = None"
| "scan_addrs (OtherAddr # as) ad = scan_addrs as ad"
| "scan_addrs (IpxAddr a # as) ad =
     (if ipx_nullnet a then scan_addrs as ad
      else if ipx_nullnet ad \<or> x_net a = x_net ad then Some (Some a)
      else scan_addrs as ad)"

definition net_ipxscan :: "bool \<Rightarrow> if_addr list \<Rightarrow> ipx_addr \<Rightarrow> ipx_addr option option" where
  "net_ipxscan sock as ad = (if \<not> sock then Some None else scan_addrs as ad)"

fun leading_addrs :: "rt_message list \<Rightarrow> if_addr list" where
  "leading_addrs (NewAddr a # ms) = a # leading_addrs ms"
| "leading_addrs ms = []"

fun skip_addrs :: "rt_message list \<Rightarrow> rt_message list" where
  "skip_addrs (NewAddr a # ms) = skip_addrs ms"
| "skip_addrs ms = ms"

lemma length_skip_addrs: "length (skip_addrs ms) \<le> length ms"
  by (induction ms rule: skip_addrs.induct) auto

text \<open>
  Which interfaces are looked at: all that are up, or the one of the name. The array for the name has 32
  bytes.
\<close>

abbreviation (input) IFNAME_SIZE :: nat where "IFNAME_SIZE \<equiv> 32"

definition if_wanted :: "bytes option \<Rightarrow> bool \<Rightarrow> bytes \<Rightarrow> bool" where
  "if_wanted name up nm \<longleftrightarrow> (case name of None \<Rightarrow> up | Some s \<Rightarrow> s = nm)"

text \<open>
  The loop over the interfaces. \<open>fnd\<close> is \<^verbatim>\<open>foundit == 0\<close>, which is how the search starts; the result is \<open>Inl ()\<close>
  for \<^verbatim>\<open>exit (1)\<close>, or whether the search succeeded, the address, and the interface that had it.
\<close>

function find_loop ::
  "bytes option \<Rightarrow> (bytes \<Rightarrow> bool) \<Rightarrow> rt_message list \<Rightarrow> bool \<Rightarrow> ipx_addr \<Rightarrow> (unit + bool \<times> ipx_addr \<times> bytes option) option" where
  "find_loop name sock [] fnd ad = Some (Inr (fnd, ad, None))"
| "find_loop name sock (IfInfo up nm # ms) fnd ad =
     (let rest = skip_addrs ms in
      if \<not> if_wanted name up nm then find_loop name sock rest fnd ad
      else if name = None \<and> length nm \<ge> IFNAME_SIZE then None
      else case net_ipxscan (sock nm) (leading_addrs ms) ad of
             None \<Rightarrow> None
           | Some None \<Rightarrow> find_loop name sock rest False ad
           | Some (Some a) \<Rightarrow> Some (Inr (True, a, Some nm)))"
| "find_loop name sock (NewAddr a # ms) fnd ad = Some (Inl ())"
| "find_loop name sock (OtherMessage # ms) fnd ad = Some (Inl ())"
  by pat_completeness auto
termination
  by (relation "measure (\<lambda>(name, sock, ms, fnd, ad). length ms)") (auto simp: length_skip_addrs le_imp_less_Suc)

text \<open>
  \<open>ifname\<close> is the array of the caller, if there is one; the list is absent when the kernel gives none. A name of
  31 bytes and more is copied without its terminator. The third part of the result is the caller's array
  afterwards: it takes the name of the interface found when it was empty.
\<close>

definition net_findif ::
  "bytes option \<Rightarrow> (bytes \<Rightarrow> bool) \<Rightarrow> rt_message list option \<Rightarrow> ipx_addr \<Rightarrow> (unit + bool \<times> ipx_addr \<times> bytes option) option" where
  "net_findif ifname sock klist ad = do {
     name \<leftarrow> (case ifname of
                 None \<Rightarrow> Some None
               | Some b \<Rightarrow> do { s \<leftarrow> cstr b; (if length s \<ge> IFNAME_SIZE - 1 then None else Some (if s = [] then None else Some s)) });
     (case klist of
        None \<Rightarrow> Some (Inl ())
      | Some ms \<Rightarrow> do {
          r \<leftarrow> find_loop name sock ms True ad;
          (case r of
             Inl u \<Rightarrow> Some (Inl u)
           | Inr (fnd, a, found) \<Rightarrow>
               (case (ifname, found, name) of
                  (Some b, Some nm, None) \<Rightarrow> do { b1 \<leftarrow> strcpy b nm; Some (Inr (fnd, a, Some b1)) }
                | _ \<Rightarrow> Some (Inr (fnd, a, ifname))))
        })
   }"

text \<open>The start: the address of the server, and the name of the interface; \<open>Inl\<close> for \<^verbatim>\<open>exit (1)\<close>.\<close>

definition net_init :: "bytes \<Rightarrow> (bytes \<Rightarrow> bool) \<Rightarrow> rt_message list option \<Rightarrow> ipx_addr \<Rightarrow> (unit + ipx_addr \<times> bytes) option" where
  "net_init ifname sock klist server = do {
     r \<leftarrow> net_findif (Some ifname) sock klist server;
     (case r of
        Inl u \<Rightarrow> Some (Inl u)
      | Inr (fnd, a, b) \<Rightarrow> Some (if fnd then Inr (a, the b) else Inl ()))
   }"

text \<open>
  An interface that qualifies is found, the first one; an address already known (its network is not 0)
  restricts the search to its network.
\<close>

definition if_has :: "ipx_addr \<Rightarrow> if_addr list \<Rightarrow> ipx_addr \<Rightarrow> bool" where
  "if_has ad as a \<longleftrightarrow> (\<exists>ps qs. as = ps @ IpxAddr a # qs \<and> NoAddr \<notin> set ps \<and> \<not> ipx_nullnet a \<and> (ipx_nullnet ad \<or> x_net a = x_net ad) \<and>
     (\<forall>b. IpxAddr b \<in> set ps \<longrightarrow> ipx_nullnet b \<or> \<not> ipx_nullnet ad \<and> x_net b \<noteq> x_net ad))"

lemma if_has_skip:
  assumes "if_has ad as a" "b \<noteq> NoAddr" "\<And>c. b = IpxAddr c \<Longrightarrow> ipx_nullnet c \<or> \<not> ipx_nullnet ad \<and> x_net c \<noteq> x_net ad"
  shows "if_has ad (b # as) a"
proof -
  obtain ps qs where "as = ps @ IpxAddr a # qs" "NoAddr \<notin> set ps" "\<not> ipx_nullnet a" "ipx_nullnet ad \<or> x_net a = x_net ad"
    "\<forall>c. IpxAddr c \<in> set ps \<longrightarrow> ipx_nullnet c \<or> \<not> ipx_nullnet ad \<and> x_net c \<noteq> x_net ad"
    using assms(1) unfolding if_has_def by blast
  then show ?thesis unfolding if_has_def using assms(2,3) by (intro exI [where x = "b # ps"] exI [where x = qs]) auto
qed

lemma if_has_first: "\<not> ipx_nullnet a \<Longrightarrow> ipx_nullnet ad \<or> x_net a = x_net ad \<Longrightarrow> if_has ad (IpxAddr a # as) a"
  unfolding if_has_def by (intro exI [where x = "[]"] exI [where x = as]) auto

lemma scan_addrs_found: "scan_addrs as ad = Some (Some a) \<Longrightarrow> if_has ad as a"
  by (induction as ad rule: scan_addrs.induct) (auto simp: if_has_first intro: if_has_skip split: if_splits)

text \<open>An address reported with an interface is one of that interface, on a network, and on the network asked for.\<close>

lemma find_loop_found:
  "find_loop name sock ms fnd ad = Some (Inr (r, a, Some nm)) \<Longrightarrow>
   \<exists>ps up qs. ms = ps @ IfInfo up nm # qs \<and> r \<and> if_wanted name up nm \<and> if_has ad (leading_addrs qs) a"
proof (induction name sock ms fnd ad rule: find_loop.induct)
  case (2 name sock up nm' ms fnd ad)
  have sk: "\<exists>zs. ms = zs @ skip_addrs ms" for ms
  proof (induction ms rule: skip_addrs.induct)
    case (1 a ms)
    then obtain zs where "ms = zs @ skip_addrs ms" by blast
    then show ?case by (intro exI [of _ "NewAddr a # zs"]) simp
  qed auto
  have step: ?case if rest: "\<exists>ps up qs. skip_addrs ms = ps @ IfInfo up nm # qs \<and> r \<and> if_wanted name up nm \<and> if_has ad (leading_addrs qs) a"
  proof -
    obtain zs ps up' qs where "ms = zs @ skip_addrs ms" "skip_addrs ms = ps @ IfInfo up' nm # qs" "r" "if_wanted name up' nm" "if_has ad (leading_addrs qs) a"
      using rest sk [of ms] by blast
    then show ?thesis by (intro exI [of _ "IfInfo up nm' # zs @ ps"] exI [of _ up'] exI [of _ qs]) simp
  qed
  consider (no) "\<not> if_wanted name up nm'"
    | (miss) "if_wanted name up nm'" "net_ipxscan (sock nm') (leading_addrs ms) ad = Some None" "\<not> (name = None \<and> IFNAME_SIZE \<le> length nm')"
    | (hit) a' where "if_wanted name up nm'" "net_ipxscan (sock nm') (leading_addrs ms) ad = Some (Some a')" "\<not> (name = None \<and> IFNAME_SIZE \<le> length nm')"
    using 2(3) by (fastforce simp: Let_def split: if_splits option.splits)
  then show ?case
  proof cases
    case no with 2 step show ?thesis by (simp add: Let_def)
  next
    case miss with 2 step show ?thesis by (auto simp: Let_def split: if_splits)
  next
    case hit
    with 2(3) have "a' = a" "nm' = nm" "r" by (auto simp: Let_def split: if_splits)
    with hit show ?thesis by (intro exI [of _ "[]"]) (auto simp: net_ipxscan_def scan_addrs_found split: if_splits)
  qed
qed simp_all

text \<open>The search starts with the mark of success: when no interface qualifies, nothing changes it.\<close>

lemma find_loop_none:
  "(\<forall>m\<in>set ms. m \<noteq> OtherMessage) \<Longrightarrow> (\<forall>up nm. IfInfo up nm \<in> set ms \<longrightarrow> \<not> if_wanted name up nm) \<Longrightarrow>
   (\<forall>a xs. ms \<noteq> NewAddr a # xs) \<Longrightarrow> find_loop name sock ms fnd ad = Some (Inr (fnd, ad, None))"
proof (induction name sock ms fnd ad rule: find_loop.induct)
  case (2 name sock up nm ms fnd ad)
  have sub: "set (skip_addrs ms) \<subseteq> set ms" for ms by (induction ms rule: skip_addrs.induct) auto
  have hd: "skip_addrs ms \<noteq> NewAddr a # xs" for ms a xs by (induction ms rule: skip_addrs.induct) auto
  have "find_loop name sock (skip_addrs ms) fnd ad = Some (Inr (fnd, ad, None))"
    using 2 sub [of ms] hd by (intro 2(1)) (auto simp: Let_def)
  then show ?case using 2(4) by (simp add: Let_def)
qed simp_all

section \<open>Sockets\<close>

text \<open>\<open>works\<close> is asked once per kernel call; \<open>open_socks\<close> are the descriptors in use, \<open>next_sock\<close> the one the kernel gives out next.\<close>

record netsys =
  open_socks :: "int list"
  next_sock :: int
  works :: "nat \<Rightarrow> bool"
  calls :: nat
  sent :: "(ipx_addr \<times> bytes) list"

definition sys_call :: "netsys \<Rightarrow> bool \<times> netsys" where
  "sys_call s = (works s (calls s), s\<lparr>calls := calls s + 1\<rparr>)"

text \<open>The calls that set the socket up, in their order: bind, default headers, broadcasts, all packets.\<close>

fun sys_calls :: "nat \<Rightarrow> netsys \<Rightarrow> bool \<times> netsys" where
  "sys_calls 0 s = (True, s)"
| "sys_calls (Suc k) s = (case sys_call s of (True, s1) \<Rightarrow> sys_calls k s1 | (False, s1) \<Rightarrow> (False, s1))"

definition net_create_socket :: "netsys \<Rightarrow> int \<times> netsys" where
  "net_create_socket s =
     (case sys_call s of
        (False, s1) \<Rightarrow> (-1, s1)
      | (True, s1) \<Rightarrow>
          let fd = next_sock s1; s2 = s1\<lparr>open_socks := fd # open_socks s1, next_sock := fd + 1\<rparr> in
          (case sys_calls 4 s2 of (True, s3) \<Rightarrow> (fd, s3) | (False, s3) \<Rightarrow> (-1, s3)))"

definition close_sock :: "int \<Rightarrow> netsys \<Rightarrow> netsys" where
  "close_sock fd s = s\<lparr>open_socks := remove1 fd (open_socks s)\<rparr>"

text \<open>
  What \<^verbatim>\<open>net_broadcast_packet\<close> and \<^verbatim>\<open>net_send_local_packet\<close> do around the address; \<open>found\<close> is the result of the search
  for the interface, whose address is then replaced.
\<close>

definition send_from_new_socket :: "bool \<Rightarrow> ipx_addr \<Rightarrow> bytes \<Rightarrow> netsys \<Rightarrow> netsys" where
  "send_from_new_socket found a data s =
     (case net_create_socket s of (fd, s1) \<Rightarrow>
        if fd < 0 then s1
        else if \<not> found then s1
        else case sys_call s1 of
               (False, s2) \<Rightarrow> s2
             | (True, s2) \<Rightarrow> close_sock fd (s2\<lparr>sent := (a, data) # sent s2\<rparr>))"

definition net_broadcast_packet :: "ipx_addr \<Rightarrow> bool \<Rightarrow> bytes \<Rightarrow> u16 \<Rightarrow> netsys \<Rightarrow> netsys" where
  "net_broadcast_packet server found data port s =
     send_from_new_socket found \<lparr>x_net = x_net server, x_host = (0xff, 0xff, 0xff, 0xff, 0xff, 0xff), x_port = port\<rparr> data s"

definition net_send_local_packet :: "ipx_addr \<Rightarrow> bool \<Rightarrow> bytes \<Rightarrow> u16 \<Rightarrow> netsys \<Rightarrow> netsys" where
  "net_send_local_packet server found data port s =
     send_from_new_socket found \<lparr>x_net = x_net server, x_host = x_host server, x_port = port\<rparr> data s"

text \<open>A descriptor is closed exactly when its packet was sent; every failure after \<^verbatim>\<open>socket\<close> keeps it open.\<close>

lemma sys_calls_keeps: "open_socks (snd (sys_calls k s)) = open_socks s" "sent (snd (sys_calls k s)) = sent s"
  "works (snd (sys_calls k s)) = works s" "next_sock (snd (sys_calls k s)) = next_sock s"
  by (induction k arbitrary: s) (auto simp: sys_call_def split: prod.splits bool.splits)

lemma send_from_new_socket_leak:
  assumes "0 \<le> next_sock s" "works s (calls s)"
  shows "(sent (send_from_new_socket found a data s) = (a, data) # sent s \<and> open_socks (send_from_new_socket found a data s) = open_socks s) \<or>
    (sent (send_from_new_socket found a data s) = sent s \<and> open_socks (send_from_new_socket found a data s) = next_sock s # open_socks s)"
proof -
  let ?s2 = "s\<lparr>calls := Suc (calls s), open_socks := next_sock s # open_socks s, next_sock := next_sock s + 1\<rparr>"
  obtain fnd s3 where r: "sys_calls 4 ?s2 = (fnd, s3)" by (cases "sys_calls 4 ?s2")
  have k: "open_socks s3 = next_sock s # open_socks s" "sent s3 = sent s"
    using sys_calls_keeps [of 4 ?s2] r by simp_all
  show ?thesis using assms r k
    by (cases fnd; cases found; cases "works s3 (calls s3)")
      (simp_all add: send_from_new_socket_def net_create_socket_def sys_call_def close_sock_def Let_def)
qed

end
