(* ===== verification/Fr_Main.thy ===== *)
theory Fr_Main
  imports Fr_WebLaws Fr_NetIf
begin

text \<open>
  \<^verbatim>\<open>src/server/main.c\<close>, the program as a whole: the options of the command line, the start of all parts with
  the search for the interface and the change of the user, and the loop; and \<^verbatim>\<open>DPRINTF\<close> of
  \<^verbatim>\<open>src/lib/misc.c\<close>, which the options and the configuration govern. What \<^verbatim>\<open>getopt\<close> finds is a list of the
  option letters and their arguments.
\<close>

unbundle bit_operations_syntax

abbreviation (input) FROMMEL_RECREATE_BINDERY :: u32 where "FROMMEL_RECREATE_BINDERY \<equiv> 1"
abbreviation (input) LOG_ALL :: u32 where "LOG_ALL \<equiv> 0x7ff"

section \<open>Options and the log\<close>

text \<open>\<open>logfile\<close>: the file that is open, and whether what it held is kept.\<close>

record options =
  frommel_options :: u32
  debuglevel :: int
  logfile :: "(bytes \<times> bool) option"

definition options_start :: options where
  "options_start = \<lparr>frommel_options = 0, debuglevel = 10, logfile = None\<rparr>"

text \<open>\<open>fopens\<close> tells which files can be opened; \<open>Inl\<close> of the exit code.\<close>

fun parse_options :: "(bytes \<Rightarrow> bool) \<Rightarrow> (u8 \<times> bytes) list \<Rightarrow> options \<Rightarrow> int + options" where
  "parse_options fopens [] opt = Inr opt"
| "parse_options fopens ((ch, optarg) # opts) opt =
     (if ch = 0x68 then Inl 1
      else if ch = 0x72 then parse_options fopens opts (opt\<lparr>frommel_options := frommel_options opt OR FROMMEL_RECREATE_BINDERY\<rparr>)
      else if ch = 0x6c then parse_options fopens opts (opt\<lparr>logfile := (if fopens optarg then Some (optarg, False) else None)\<rparr>)
      else if ch = 0x64
      then (case strtol 10 optarg of
              None \<Rightarrow> Inl 0xfe
            | Some i \<Rightarrow> parse_options fopens opts (opt\<lparr>debuglevel := i\<rparr>))
      else parse_options fopens opts opt)"

text \<open>Where a message goes: to standard error, and to the file.\<close>

definition DPRINTF :: "options \<Rightarrow> u32 \<Rightarrow> int \<Rightarrow> u32 \<Rightarrow> bool \<times> bool" where
  "DPRINTF opt debugmodules level module =
     (if debuglevel opt < level then (False, False)
      else if debugmodules AND module = 0 then (False, False)
      else (True, logfile opt \<noteq> None))"

section \<open>The start\<close>

text \<open>
  The surroundings of the start: the users and groups, the configuration file, whether the files of the bindery
  can be opened or made and what the memory held, the interfaces, the web socket and the files of the
  host, and whether the user and the group can be changed.
\<close>

record surroundings =
  su_pw :: accounts
  su_gr :: accounts
  su_config :: "bytes option"
  su_opens :: bool
  su_creates :: bool
  su_junk :: "nat \<Rightarrow> u8"
  su_sock :: "bytes \<Rightarrow> bool"
  su_ifs :: "rt_message list option"
  su_webfd :: int
  su_binds :: bool
  su_listens :: bool
  su_files :: "bytes \<Rightarrow> bytes option"
  su_setids :: "int \<Rightarrow> int \<Rightarrow> bool"
  su_fopens :: "bytes \<Rightarrow> bool"

text \<open>The log file of the configuration, unless an option gave one.\<close>

definition open_log :: "(bytes \<Rightarrow> bool) \<Rightarrow> bytes \<Rightarrow> options \<Rightarrow> options" where
  "open_log fopens name opt =
     (if name \<noteq> [] \<and> logfile opt = None then opt\<lparr>logfile := (if fopens name then Some (name, True) else None)\<rparr> else opt)"

text \<open>
  \<^verbatim>\<open>main\<close> up to its loop, for a server with the web interface; \<open>Inl\<close> of the exit code. The level of the log is that
  of the options until the file sets another. The parts end with the exit code 1.
\<close>

definition program_start :: "surroundings \<Rightarrow> (u8 \<times> bytes) list \<Rightarrow> net \<Rightarrow> (int + options \<times> config \<times> site) option" where
  "program_start u args n =
     (case parse_options (su_fopens u) args options_start of
        Inl code \<Rightarrow> Some (Inl code)
      | Inr o1 \<Rightarrow>
          (case parse_config (su_pw u) (su_gr u) (su_config u) False (conf_start\<lparr>cf_debuglevel := debuglevel o1\<rparr>) of
             None \<Rightarrow> None
           | Some (Inl code) \<Rightarrow> Some (Inl code)
           | Some (Inr c) \<Rightarrow> do {
               r \<leftarrow> net_init (cf_ifname c) (su_sock u) (su_ifs u) (server_addr (host n));
               (case r of
                  Inl _ \<Rightarrow> Some (Inl 1)
                | Inr (a, _) \<Rightarrow> do {
                    s \<leftarrow> site_start (su_pw u) (su_gr u) (su_config u) (su_opens u) (su_creates u)
                           (frommel_options o1 AND FROMMEL_RECREATE_BINDERY \<noteq> 0) (su_junk u)
                           (su_webfd u) (su_binds u) (su_listens u) (su_files u)
                           (n\<lparr>host := (host n)\<lparr>server_addr := a\<rparr>\<rparr>);
                    (case s of
                       None \<Rightarrow> Some (Inl 1)
                     | Some x \<Rightarrow>
                         if su_setids u (cf_gid c) (cf_uid c)
                         then Some (Inr (open_log (su_fopens u) (takeWhile (\<lambda>x. x \<noteq> 0) (cf_logfile c)) (o1\<lparr>debuglevel := cf_debuglevel c\<rparr>), c, x))
                         else Some (Inl 1))
                  })
             }))"

section \<open>The loop\<close>

text \<open>What happens in a turn: whether \<^verbatim>\<open>select\<close> succeeds, what waits on the sockets, and the buffer of the packets.\<close>

record turn =
  tu_selected :: bool
  tu_arrived :: arrivals
  tu_web :: web_arrivals
  tu_buf :: bytes

text \<open>The turns one after the other, until the server ends.\<close>

fun main_loop :: "site_env \<Rightarrow> turn list \<Rightarrow> site \<Rightarrow> (bool \<times> site) option" where
  "main_loop e [] x = Some (True, x)"
| "main_loop e (t # ts) x = do {
     (on, y) \<leftarrow> poll_web e (tu_selected t) (tu_arrived t) (tu_web t) (tu_buf t) x;
     (if on then main_loop e ts y else Some (False, y))
   }"

end
