(* ===== verification/Thm_Main.thy ===== *)
theory Thm_Main
  imports Fr_Main Thm_WebPage
begin

text \<open>The properties of the program from its command line to the last turn of its loop.\<close>

lemma parse_options_no_help: "parse_options fopens args opt = Inr o1 \<Longrightarrow> 0x68 \<notin> fst ` set args"
  by (induction fopens args opt rule: parse_options.induct) (auto split: if_splits option.splits)

lemma main_loop_inv: "main_loop e ts x = Some (on, y) \<Longrightarrow> site_inv x \<Longrightarrow> site_inv y"
proof (induction ts arbitrary: x)
  case (Cons t ts)
  from Cons.prems(1) obtain on1 z where z: "poll_web e (tu_selected t) (tu_arrived t) (tu_web t) (tu_buf t) x = Some (on1, z)"
    "(if on1 then main_loop e ts z else Some (False, z)) = Some (on, y)"
    by (auto simp: bind_eq_Some_conv)
  have "site_inv z" by (rule poll_web_inv [OF Cons.prems(2) z(1)])
  then show ?case using z(2) Cons.IH by (auto split: if_splits)
qed simp

lemma program_started:
  assumes "program_start u args n = Some (Inr (opt, c, x))"
  obtains o1 a i where "parse_options (su_fopens u) args options_start = Inr o1"
    "parse_config (su_pw u) (su_gr u) (su_config u) False (conf_start\<lparr>cf_debuglevel := debuglevel o1\<rparr>) = Some (Inr c)"
    "net_init (cf_ifname c) (su_sock u) (su_ifs u) (server_addr (host n)) = Some (Inr (a, i))"
    "site_start (su_pw u) (su_gr u) (su_config u) (su_opens u) (su_creates u) (frommel_options o1 AND 1 \<noteq> 0) (su_junk u)
       (su_webfd u) (su_binds u) (su_listens u) (su_files u) (n\<lparr>host := (host n)\<lparr>server_addr := a\<rparr>\<rparr>) = Some (Some x)"
    "su_setids u (cf_gid c) (cf_uid c)"
proof -
  from assms obtain o1 c1 where o1: "parse_options (su_fopens u) args options_start = Inr o1"
    "parse_config (su_pw u) (su_gr u) (su_config u) False (conf_start\<lparr>cf_debuglevel := debuglevel o1\<rparr>) = Some (Inr c1)"
    by (auto simp: program_start_def split: sum.splits option.splits)
  have "\<exists>a i. net_init (cf_ifname c1) (su_sock u) (su_ifs u) (server_addr (host n)) = Some (Inr (a, i))"
    using assms o1 by (cases "net_init (cf_ifname c1) (su_sock u) (su_ifs u) (server_addr (host n))")
      (auto simp: program_start_def split: sum.splits)
  then obtain a i where a: "net_init (cf_ifname c1) (su_sock u) (su_ifs u) (server_addr (host n)) = Some (Inr (a, i))" by blast
  with assms o1 obtain y where y: "site_start (su_pw u) (su_gr u) (su_config u) (su_opens u) (su_creates u) (frommel_options o1 AND 1 \<noteq> 0) (su_junk u)
       (su_webfd u) (su_binds u) (su_listens u) (su_files u) (n\<lparr>host := (host n)\<lparr>server_addr := a\<rparr>\<rparr>) = Some (Some y)"
    by (auto simp: program_start_def bind_eq_Some_conv split: option.splits)
  with assms o1 a have "c1 = c" "y = x" "su_setids u (cf_gid c) (cf_uid c)" by (auto simp: program_start_def split: if_splits)
  then show thesis using that o1 a y by blast
qed

lemma site_started_net:
  assumes "site_start pw gr file opens creates recreate junk fd binds listens files n = Some (Some x)"
  shows "main_start pw gr file opens creates recreate junk n = Some (Up (st_net x))" "length (fd_web_conn (st_web x)) = WEB_MAX_CONNS"
  using assms by (auto simp: site_start_def web_init_slots split: option.splits net_outcome.splits sum.splits)

text \<open>
  C15. A server that runs was not asked for help, could change to the user and group of its configuration (which
  are 0, the superuser, when the file names none), and its configuration was accepted with SYS as volume 0; when the path of
  that volume is shorter than 250 characters without a colon, the invariants hold after any turns of its loop,
  whatever packets and web requests come, from whomever: services and sessions, one connection for each station of
  a nonzero address, SYS mounted.
\<close>
theorem program_runs:
  assumes "program_start u args n = Some (Inr (opt, c, x))"
    and "length (gasp_sessions n) = GASP_MAX_SESSIONS" "\<forall>g\<in>set (gasp_sessions n). length (gs_key g) = 8"
    and "main_loop e ts x = Some (on, y)"
  shows "0x68 \<notin> fst ` set args \<and> su_setids u (cf_gid c) (cf_uid c) \<and>
    (\<exists>c' p. parse_config (su_pw u) (su_gr u) (su_config u) False conf_start = ok c' \<and>
       vol_find_volume (ascii ''SYS'') (cf_volumes c') = Some (Some 0) \<and> cstr (vol_path (cf_volumes c' ! 0)) = Some p \<and>
       (length p < 250 \<and> colon \<notin> set p \<longrightarrow>
          net_inv (st_net y) \<and> length (fd_web_conn (st_web y)) = WEB_MAX_CONNS \<and>
          cstr (vol_name (volumes (host (st_net y)) ! 0)) = Some (ascii ''SYS'')))"
proof -
  from program_started [OF assms(1)] obtain o1 a i where p: "parse_options (su_fopens u) args options_start = Inr o1"
    "site_start (su_pw u) (su_gr u) (su_config u) (su_opens u) (su_creates u) (frommel_options o1 AND 1 \<noteq> 0) (su_junk u)
       (su_webfd u) (su_binds u) (su_listens u) (su_files u) (n\<lparr>host := (host n)\<lparr>server_addr := a\<rparr>\<rparr>) = Some (Some x)"
    "su_setids u (cf_gid c) (cf_uid c)" .
  have inv: "net_inv (st_net y) \<and> length (fd_web_conn (st_web y)) = WEB_MAX_CONNS \<and>
      cstr (vol_name (volumes (host (st_net y)) ! 0)) = Some (ascii ''SYS'')" if "net_inv (st_net x)"
  proof -
    have "site_inv y" using main_loop_inv [OF assms(4)] site_started_net(2) [OF p(2)] that by (simp add: site_inv_def)
    then show ?thesis by (simp add: site_inv_def net_inv_def conn_inv_def sys_volume_ok_def)
  qed
  show ?thesis using server_started [OF site_started_net(1) [OF p(2)]] assms(2,3) parse_options_no_help [OF p(1)] p(3) inv by auto
qed

text \<open>The sample configuration, on a host without interfaces to look at.\<close>

definition demo_surroundings :: surroundings where
  "demo_surroundings = \<lparr>su_pw = \<lambda>_. None, su_gr = \<lambda>_. None, su_config = Some (conf_file demo_stmts), su_opens = True, su_creates = True,
     su_junk = \<lambda>_. 0, su_sock = \<lambda>_. True, su_ifs = Some [], su_webfd = 5, su_binds = True, su_listens = True, su_files = \<lambda>_. None,
     su_setids = \<lambda>_ _. True, su_fopens = \<lambda>_. True\<rparr>"

theorem program_runs_witness:
  "\<exists>opt c x y. program_start demo_surroundings [(0x6c, ascii ''/log'')] demo_net = Some (Inr (opt, c, x)) \<and>
     main_loop demo_site_env [\<lparr>tu_selected = False, tu_arrived = \<lambda>_. None, tu_web = \<lparr>wa_conn = None, wa_data = \<lambda>_. None\<rparr>, tu_buf = []\<rparr>] x = Some (True, y) \<and>
     net_inv (st_net y)"
proof -
  obtain c where c: "parse_config (\<lambda>_. None) (\<lambda>_. None) (Some (conf_file demo_stmts)) False conf_start = ok c"
    "cf_nofconns c = 25" "cf_link_enabled c = 0" "cstr (vol_path (cf_volumes c ! 0)) = Some (ascii ''/sys'')" "cstr (cf_ifname c) = Some (ascii ''ed0'')"
    using demo_accepted by blast
  let ?n = "demo_net\<lparr>host := demo_srv\<lparr>server_addr := server_addr demo_srv\<rparr>\<rparr>"
  obtain s where s: "cstr (cf_servername c) = Some s" "length s \<le> 48" using accepted(3) [OF c(1)] by blast
  then have "takeWhile (\<lambda>x. x \<noteq> 0) (cf_servername c) = s" by (auto simp: cstr_def split: if_splits)
  then have "\<exists>n'. main_init 25 True True False (\<lambda>_. 0) (configure c ?n) = Some (Up n')"
    using s(2) c(3) by (intro demo_init) (simp_all add: configure_def demo_srv_def)
  then obtain n' where n': "main_start (\<lambda>_. None) (\<lambda>_. None) (Some (conf_file demo_stmts)) True True False (\<lambda>_. 0) ?n = Some (Up n')"
    using c(1,2) by (auto simp: main_start_def ok_def)
  have i: "net_init (cf_ifname c) (\<lambda>_. True) (Some []) a = Some (Inr (a, cf_ifname c))" for a
    using c(5) by (simp add: net_init_def net_findif_def)
  have d: "conf_start\<lparr>cf_debuglevel := 10\<rparr> = conf_start" by (simp add: conf_start_def)
  obtain opt x where x: "program_start demo_surroundings [(0x6c, ascii ''/log'')] demo_net = Some (Inr (opt, c, x))"
    using c(1) n' i by (auto simp: program_start_def demo_surroundings_def options_start_def d ok_def site_start_def)
  let ?ts = "[\<lparr>tu_selected = False, tu_arrived = \<lambda>_. None, tu_web = \<lparr>wa_conn = None, wa_data = \<lambda>_. None\<rparr>, tu_buf = []\<rparr>]"
  have l: "main_loop demo_site_env ?ts x = Some (True, x)" by (simp add: poll_web_def)
  from program_runs [OF x _ _ l] c(1,4) have "net_inv (st_net x)" by (auto simp: zero_session_def demo_surroundings_def)
  then show ?thesis using x l by blast
qed

end
