(* ===== verification/Fr_NetLinux.thy ===== *)
theory Fr_NetLinux
  imports Fr_NetIf Fr_Poll
begin

text \<open>
  \<^verbatim>\<open>src/server/net_linux.c\<close>, the network layer for Linux, which the Makefile does not name: the search for the own
  address in the list of interfaces, the address of the server, sockets, broadcasts and its turn of the
  main loop. Messages on standard error are left out.
\<close>

section \<open>The list of interfaces\<close>

text \<open>An entry of the kernel's list; \<open>if_internal\<close> is the bit of \<^verbatim>\<open>IPX_INTERNAL\<close> in \<^verbatim>\<open>sipx_special\<close>.\<close>

record if_entry =
  if_network :: u32
  if_node :: b6
  if_internal :: bool

abbreviation (input) IPX_KRT_INTERNAL :: nat where "IPX_KRT_INTERNAL \<equiv> 1"
abbreviation (input) IPX_KRT_ROUTE :: nat where "IPX_KRT_ROUTE \<equiv> 2"

type_synonym 'd rt_scan = "u32 \<Rightarrow> u32 \<Rightarrow> b6 \<Rightarrow> nat \<Rightarrow> 'd \<Rightarrow> int \<times> 'd"
type_synonym 'd if_scan = "u32 \<Rightarrow> b6 \<Rightarrow> nat \<Rightarrow> 'd \<Rightarrow> int \<times> 'd"

text \<open>The loop over the list: it stops at the first entry for which the function returns 0.\<close>

fun scan_entries :: "'d rt_scan \<Rightarrow> if_entry list \<Rightarrow> 'd \<Rightarrow> int \<times> 'd" where
  "scan_entries f [] d = (1, d)"
| "scan_entries f (e # es) d =
     (case f (if_network e) (if_network e) (if_node e) (if if_internal e then IPX_KRT_INTERNAL else 0) d of
        (r, d1) \<Rightarrow> if r = 0 then (-1, d1) else scan_entries f es d1)"

text \<open>The list is absent when the socket or the question fails; the array has 256 entries.\<close>

definition net_ipx_scan_rtable :: "if_entry list option \<Rightarrow> 'd rt_scan \<Rightarrow> 'd \<Rightarrow> int \<times> 'd" where
  "net_ipx_scan_rtable entries f d =
     (case entries of None \<Rightarrow> (-1, d) | Some es \<Rightarrow> scan_entries f (take 256 es) d)"

definition net_ipx_scan_iface :: "'d if_scan \<Rightarrow> 'd rt_scan" where
  "net_ipx_scan_iface f network rt_net rt_node type d =
     (if (type div IPX_KRT_ROUTE) mod 2 = 0 then f network rt_node type d else (1, d))"

definition net_ipx_scan_ifaces :: "if_entry list option \<Rightarrow> 'd if_scan \<Rightarrow> 'd \<Rightarrow> int \<times> 'd" where
  "net_ipx_scan_ifaces entries f d = net_ipx_scan_rtable entries (net_ipx_scan_iface f) d"

section \<open>The own address\<close>

record sockaddr_ipx =
  sipx_network :: u32
  sipx_node :: b6
  sipx_port :: u16
  sipx_type :: u8

definition net_ipx_scan_addr :: "sockaddr_ipx if_scan" where
  "net_ipx_scan_addr network node type a =
     (let a1 = a\<lparr>sipx_network := network, sipx_node := node\<rparr> in
      (if type mod 2 = IPX_KRT_INTERNAL then 0 else 1, a1))"

definition net_ipx_get_internet_addr :: "if_entry list option \<Rightarrow> sockaddr_ipx \<Rightarrow> int \<times> sockaddr_ipx" where
  "net_ipx_get_internet_addr entries a =
     (case net_ipx_scan_ifaces entries net_ipx_scan_addr
             (a\<lparr>sipx_type := 0, sipx_port := 0, sipx_network := 0, sipx_node := (0, 0, 0, 0, 0, 0)\<rparr>) of
        (r, a1) \<Rightarrow> (if r < 0 then -1 else 0, a1))"

text \<open>
  \<^verbatim>\<open>my_addr\<close> and \<^verbatim>\<open>server_addr\<close>. The network is copied as it lies in memory, its lowest byte first. \<open>None\<close> for
  \<^verbatim>\<open>exit (1)\<close>.
\<close>

record linux_net =
  my_addr :: sockaddr_ipx
  ln_server :: ipx_addr

definition linux_net_init :: "if_entry list option \<Rightarrow> linux_net \<Rightarrow> linux_net option" where
  "linux_net_init entries s =
     (case net_ipx_get_internet_addr entries (my_addr s) of
        (r, a) \<Rightarrow>
          if r < 0 then None
          else let a1 = a\<lparr>sipx_network := 0x101, sipx_node := (0x00, 0x50, 0xfc, 0x39, 0x8f, 0xeb)\<rparr> in
            Some (s\<lparr>my_addr := a1, ln_server := (ln_server s)\<lparr>x_host := sipx_node a1, x_net := (1, 1, 0, 0)\<rparr>\<rparr>))"

section \<open>Sockets\<close>

text \<open>The socket is bound to \<^verbatim>\<open>my_addr\<close>, which is cleared for it. A failure behind \<^verbatim>\<open>socket\<close> keeps the descriptor.\<close>

definition linux_create_socket :: "u16 \<Rightarrow> u8 \<Rightarrow> linux_net \<Rightarrow> netsys \<Rightarrow> int \<times> linux_net \<times> netsys" where
  "linux_create_socket port type s k =
     (case sys_call k of
        (False, k1) \<Rightarrow> (-1, s, k1)
      | (True, k1) \<Rightarrow>
          let fd = next_sock k1;
              k2 = k1\<lparr>open_socks := fd # open_socks k1, next_sock := fd + 1\<rparr>;
              s1 = s\<lparr>my_addr := \<lparr>sipx_network = 0, sipx_node = (0, 0, 0, 0, 0, 0), sipx_port = port, sipx_type = type\<rparr>\<rparr>
          in (case sys_calls 2 k2 of (True, k3) \<Rightarrow> (fd, s1, k3) | (False, k3) \<Rightarrow> (-1, s1, k3)))"

definition linux_broadcast_packet :: "bytes \<Rightarrow> u16 \<Rightarrow> linux_net \<Rightarrow> netsys \<Rightarrow> linux_net \<times> netsys" where
  "linux_broadcast_packet data port s k =
     (case linux_create_socket 0 0 s k of
        (fd, s1, k1) \<Rightarrow>
          if fd < 0 then (s1, k1)
          else let a = \<lparr>x_net = (0, 0, 0, 0), x_host = (0xff, 0xff, 0xff, 0xff, 0xff, 0xff), x_port = port\<rparr> in
            (case sys_call k1 of
               (True, k2) \<Rightarrow> (s1, close_sock fd (k2\<lparr>sent := (a, data) # sent k2\<rparr>))
             | (False, k2) \<Rightarrow> (s1, close_sock fd k2)))"

text \<open>Its turn knows the socket of the requests only.\<close>

definition net_poll :: "bool \<Rightarrow> (bytes \<times> ipx_addr) option \<Rightarrow> bytes \<Rightarrow> net \<Rightarrow> (bytes \<times> net + net) option" where
  "net_poll selected arrived buf n = (if \<not> selected then Some (Inl (buf, n)) else poll_socket arrived ncp_on_net buf n)"

section \<open>When it comes up\<close>

text \<open>The search says failure when it meets an internal interface, which it was to find.\<close>

lemma scan_addr_result:
  "fst (scan_entries (net_ipx_scan_iface net_ipx_scan_addr) es a) = (if \<exists>e\<in>set es. if_internal e then -1 else 1)"
  by (induction es arbitrary: a) (auto simp: net_ipx_scan_iface_def net_ipx_scan_addr_def Let_def)

lemma linux_net_init_up:
  "linux_net_init entries s \<noteq> None \<longleftrightarrow> (\<exists>es. entries = Some es \<and> (\<forall>e\<in>set (take 256 es). \<not> if_internal e))"
proof (cases entries)
  case (Some es)
  then show ?thesis
    using scan_addr_result [of "take 256 es" "(my_addr s)\<lparr>sipx_type := 0, sipx_port := 0, sipx_network := 0, sipx_node := (0, 0, 0, 0, 0, 0)\<rparr>"]
    by (auto simp: linux_net_init_def net_ipx_get_internet_addr_def net_ipx_scan_ifaces_def net_ipx_scan_rtable_def Let_def
        split: prod.splits if_splits)
qed (simp add: linux_net_init_def net_ipx_get_internet_addr_def net_ipx_scan_ifaces_def net_ipx_scan_rtable_def)

lemma linux_server_fixed:
  "linux_net_init entries s = Some s' \<Longrightarrow>
     x_net (ln_server s') = (1, 1, 0, 0) \<and> x_host (ln_server s') = (0x00, 0x50, 0xfc, 0x39, 0x8f, 0xeb) \<and> x_port (ln_server s') = x_port (ln_server s)"
  by (auto simp: linux_net_init_def Let_def split: prod.splits if_splits)

text \<open>A broadcast keeps no descriptor when its socket could be set up, whether the packet was sent or not.\<close>

lemma linux_broadcast_closes:
  assumes "fst (linux_create_socket 0 0 s k) \<noteq> -1" "0 \<le> next_sock k"
  shows "open_socks (snd (linux_broadcast_packet data port s k)) = open_socks k"
proof -
  let ?k2 = "k\<lparr>calls := calls k + 1, open_socks := next_sock k # open_socks k, next_sock := next_sock k + 1\<rparr>"
  obtain b k3 where c: "sys_calls 2 ?k2 = (b, k3)" by (cases "sys_calls 2 ?k2")
  then have "open_socks k3 = next_sock k # open_socks k" using sys_calls_keeps(1) [of 2 ?k2] by simp
  then show ?thesis using assms c
    by (cases b; cases "works k (calls k)")
      (auto simp: linux_broadcast_packet_def linux_create_socket_def sys_call_def close_sock_def Let_def split: if_splits bool.splits)
qed

end
