(* ===== verification/Fr_FConsole.thy ===== *)
theory Fr_FConsole
  imports Fr_BinderyLaws Fr_Trustee Fr_Sql
begin

text \<open>
  \<^verbatim>\<open>src/server/fconsole.c\<close>, a console on the files of the server itself, which is not built: three names it uses
  (\<^verbatim>\<open>FS_MAX_VOL_PATH_LEN\<close>, \<^verbatim>\<open>FS_MAX_VOLS\<close>, \<^verbatim>\<open>FS_VOL_USED\<close>) are no longer defined by \<^verbatim>\<open>fs.h\<close>, and are
  parameters here. What is printed on standard output is kept, line by line, without the dump of the bindery, which has an
  entry of its own. \<open>None\<close> is an access outside an array, \<open>Inl\<close> is \<^verbatim>\<open>exit (0)\<close>.
\<close>

unbundle bit_operations_syntax

section \<open>The state\<close>

text \<open>
  The names, what \<^verbatim>\<open>stat\<close> finds, the trustee files and the directories of the host; the volumes do not change.
\<close>

record fenv =
  FS_MAX_VOL_PATH_LEN :: nat
  FS_MAX_VOLS :: nat
  FS_VOL_USED :: int
  fe_stat :: "bytes \<Rightarrow> bool"
  fe_trustees :: "bytes \<Rightarrow> trust_rec list option"
  fe_dir :: "bytes \<Rightarrow> bytes list option"
  fe_volumes :: "volume list"

datatype fc_output = Printed bytes | BinderyDump

text \<open>\<^verbatim>\<open>volno\<close> is always 0. The line is what was read last, as far as the commands left it; none before the first.\<close>

record fcon =
  fc_path :: bytes
  fc_db :: bindery
  fc_line :: "bytes option"
  fc_out :: "fc_output list"

definition say :: "bytes \<Rightarrow> fcon \<Rightarrow> fcon" where
  "say t s = s\<lparr>fc_out := fc_out s @ [Printed t]\<rparr>"

section \<open>Names\<close>

definition resolve_bindery_right :: "u8 \<Rightarrow> int" where
  "resolve_bindery_right c =
     (let l = tolower c in
      if l = 0x61 then 0 else if l = 0x6c then 1 else if l = 0x6f then 2 else if l = 0x73 then 3 else if l = 0x6e then 4 else -1)"

definition resolve_errorcode :: "u8 \<Rightarrow> bytes" where
  "resolve_errorcode errcode =
     (if errcode = 0 then ascii ''no error''
      else if errcode = BINDERY_ERROR_BADPASSWORD then ascii ''bad password''
      else if errcode = BINDERY_ERROR_NOSUCHMEMBER then ascii ''no such member''
      else if errcode = BINDERY_ERROR_PROPEXISTS then ascii ''property exists''
      else if errcode = BINDERY_ERROR_SECURITY then ascii ''security error''
      else if errcode = BINDERY_ERROR_NOSUCHOBJECT then ascii ''no such object''
      else if errcode = BINDERY_ERROR_NOSUCHPROPERTY then ascii ''no such property''
      else if errcode = BINDERY_ERROR_IOERROR then ascii ''IO/general error''
      else ascii ''unknown error'')"

definition resolve_obj_type :: "bytes \<Rightarrow> int" where
  "resolve_obj_type arg =
     (if strcaseeq arg (ascii ''user'') then 1 else if strcaseeq arg (ascii ''group'') then 2
      else if strcaseeq arg (ascii ''server'') then 4 else -1)"

text \<open>Eight letters in brackets, a blank for a right that is missing.\<close>

definition resolve_rights :: "u16 \<Rightarrow> bytes" where
  "resolve_rights r =
     (let letter = (\<lambda>m c. if r AND m \<noteq> 0 then c else 0x20) in
      [0x5b, letter 0x100 0x53, letter 1 0x52, letter 2 0x57, letter 8 0x43, letter 0x10 0x45, letter 0x80 0x4d,
       letter 0x40 0x46, letter 0x20 0x41, 0x5d])"

section \<open>Lists\<close>

text \<open>\<^verbatim>\<open>%02u\<close>\<close>

definition pr_02u :: "nat \<Rightarrow> bytes" where
  "pr_02u n = (if n < 10 then 0x30 # decimal n else decimal n)"

fun list_volumes :: "fenv \<Rightarrow> nat list \<Rightarrow> fcon \<Rightarrow> fcon option" where
  "list_volumes v [] s = Some s"
| "list_volumes v (i # js) s = do {
     x \<leftarrow> load (fe_volumes v) i;
     (if vol_flags x AND FS_VOL_USED v = 0 then list_volumes v js s
      else do {
        n \<leftarrow> cstr (vol_name x);
        p \<leftarrow> cstr (vol_path x);
        list_volumes v js (say (ascii ''Volume #'' @ pr_02u i @ ascii '': Name '' @ 0x27 # n @ 0x27 # ascii '', UNIX path '' @ 0x27 # p @ [0x27]) s)
      })
   }"

text \<open>The two bytes of the rights are put together in the other order than everywhere else.\<close>

definition fc_rights :: "trust_rec \<Rightarrow> u16" where
  "fc_rights r = (case rights r of (a, b) \<Rightarrow> push_bit 8 (ucast b) OR ucast a)"

fun list_trustees :: "fenv \<Rightarrow> trust_rec list \<Rightarrow> fcon \<Rightarrow> fcon option" where
  "list_trustees v [] s = Some s"
| "list_trustees v (r # rs) s = do {
     (x, b) \<leftarrow> bindio_scan_object_by_id (be32 (obj_id r)) (fc_db s);
     n \<leftarrow> (case x of None \<Rightarrow> Some (ascii ''?'') | Some (_, ob) \<Rightarrow> cstr (ob_name ob));
     (if FS_MAX_VOL_PATH_LEN v < 11 then None
      else list_trustees v rs (say (resolve_rights (fc_rights r) @ 0x20 # n) (s\<lparr>fc_db := b\<rparr>)))
   }"

text \<open>\<^verbatim>\<open>snprintf\<close> into an array of \<^verbatim>\<open>FS_MAX_VOL_PATH_LEN\<close> bytes, and the path of the host it is used for.\<close>

definition fit :: "fenv \<Rightarrow> bytes \<Rightarrow> bytes" where
  "fit v t = take (FS_MAX_VOL_PATH_LEN v - 1) t"

definition host_path :: "fenv \<Rightarrow> bytes \<Rightarrow> bytes option" where
  "host_path v path = do {
     x \<leftarrow> load (fe_volumes v) 0;
     p \<leftarrow> cstr (vol_path x);
     Some (fit v (p @ 0x2f # path))
   }"

definition fc_list :: "fenv \<Rightarrow> bytes \<Rightarrow> fcon \<Rightarrow> fcon option" where
  "fc_list v arg s =
     (if strcaseeq arg (ascii ''volumes'')
      then list_volumes v [0..<FS_MAX_VOLS v] (say (ascii ''---------------'') (say (ascii ''Dumping volumes'') s))
      else if strcaseeq arg (ascii ''trustees'')
      then do {
        x \<leftarrow> load (fe_volumes v) 0;
        p \<leftarrow> cstr (vol_path x);
        (case fe_trustees v (fit v (p @ 0x2f # fc_path s @ 0x2f # ascii ''$TRUSTEE.SYS'')) of
           None \<Rightarrow> Some (say (ascii ''No trustees for this path'') s)
         | Some rs \<Rightarrow> map_option (say (ascii ''------------''))
             (list_trustees v rs (say (ascii ''------------'') (say (ascii ''Trustee list'') s))))
      }
      else Some (say (ascii ''Can'' @ 0x27 # ascii ''t list that'') s))"

section \<open>Directories\<close>

text \<open>The array of the path has no room for a name that is too long.\<close>

definition fc_cd :: "fenv \<Rightarrow> bytes \<Rightarrow> fcon \<Rightarrow> fcon option" where
  "fc_cd v arg s =
     (if arg = ascii ''..'' \<and> strrchr (fc_path s) 0x2f = None
      then Some (say (ascii ''Can'' @ 0x27 # ascii ''t go below the root directory'') s)
      else do {
        new \<leftarrow> (if arg = ascii ''..'' then map_option (\<lambda>i. take i (fc_path s)) (strrchr (fc_path s) 0x2f)
                else if length (fc_path s @ 0x2f # arg) < FS_MAX_VOL_PATH_LEN v then Some (fc_path s @ 0x2f # arg) else None);
        r \<leftarrow> host_path v new;
        Some (if fe_stat v r then s\<lparr>fc_path := new\<rparr> else say (ascii ''Sorry, but that path doesn'' @ 0x27 # ascii ''t exist'') s)
      })"

definition fc_dir :: "fenv \<Rightarrow> fcon \<Rightarrow> fcon option" where
  "fc_dir v s = do {
     r \<leftarrow> host_path v (fc_path s);
     Some (case fe_dir v r of
             None \<Rightarrow> say (ascii ''Cannot open directory'') s
           | Some ns \<Rightarrow> say (ascii ''------------------'')
               (fold say ns (say (ascii ''------------------'') (say (ascii ''Directory contents'') s))))
   }"

section \<open>Creating an object\<close>

text \<open>The text up to the first blank, and behind it.\<close>

definition cut_blank :: "bytes \<Rightarrow> (bytes \<times> bytes) option" where
  "cut_blank t = map_option (\<lambda>k. (take k t, drop (Suc k) t)) (strchr t 0x20)"

definition create_object :: "bytes \<Rightarrow> bytes \<Rightarrow> fcon \<Rightarrow> fcon option" where
  "create_object arg2 arg4 s =
     (let type = resolve_obj_type arg2 in
      if type < 0 then Some (say (ascii ''Unknown object type '' @ 0x27 # arg2 @ [0x27]) s)
      else if length arg4 \<noteq> 2 then Some (say (ascii ''Invalid rights mask '' @ 0x27 # arg4 @ [0x27]) s)
      else let i = resolve_bindery_right (arg4 ! 0); j = resolve_bindery_right (arg4 ! 1) in
        if i < 0 then Some (say (ascii ''Invalid rights mask '' @ [0x27, arg4 ! 0, 0x27]) s)
        else if j < 0 then Some (say (ascii ''Invalid rights mask '' @ [0x27, arg4 ! 1, 0x27]) s)
        else do {
          (r, b) \<leftarrow> bindio_add_object arg2 (of_int type) 0 (of_int (16 * i + j)) (fc_db s);
          Some (case r of
                  Inl errcode \<Rightarrow> say (ascii ''Failure: '' @ resolve_errorcode errcode) (s\<lparr>fc_db := b\<rparr>)
                | Inr _ \<Rightarrow> s\<lparr>fc_db := b\<rparr>)
        })"

text \<open>The third argument, the name, is split off but not used.\<close>

definition fc_create :: "bytes \<Rightarrow> fcon \<Rightarrow> fcon option" where
  "fc_create arg s =
     (let few = Some (say (ascii ''Not enough arguments'') s) in
      case cut_blank arg of
        None \<Rightarrow> few
      | Some (arg1, r2) \<Rightarrow>
          (case cut_blank r2 of
             None \<Rightarrow> few
           | Some (arg2, r3) \<Rightarrow>
               (case cut_blank r3 of
                  None \<Rightarrow> few
                | Some (arg3, arg4) \<Rightarrow>
                    if strcaseeq arg1 (ascii ''object'') then create_object arg2 arg4 s
                    else Some (say (ascii ''Type '' @ 0x27 # arg1 @ 0x27 # ascii '' is not known'') s))))"

section \<open>Help\<close>

definition help_text :: "bytes \<Rightarrow> bytes list" where
  "help_text arg =
     (if arg = [] then [ascii ''valid commands: dump, list, cd, dir, ls, create, help'', ascii ''use help [command] for more information'']
      else if strcaseeq arg (ascii ''dump'') then [ascii ''dump {bindery} -- this will dump a certain structure'']
      else if strcaseeq arg (ascii ''list'') then [ascii ''list {volumes | trustees} -- this will list information'']
      else if strcaseeq arg (ascii ''cd'') then [ascii ''cd [path] -- this will change the current directory'']
      else if strcaseeq arg (ascii ''dir'') \<or> strcaseeq arg (ascii ''ls'') then [ascii ''dir / ls -- this will show all files in the current directory'']
      else if strcaseeq arg (ascii ''create'')
      then [ascii ''create object {user | group | server | ...} [name] {security}  -- this will create an object'',
            ascii ''create property {user | group | server | ...} [name] [objname] [security]  -- this will create a property'']
      else if strcaseeq arg (ascii ''quit'') then [ascii ''quit -- this will leave the console'']
      else [ascii ''this function isn'' @ 0x27 # ascii ''t known to us. please use '' @ 0x27 # ascii ''help'' @ 0x27 # ascii '' for a listing of all functions''])"

section \<open>A line\<close>

text \<open>\<open>eof\<close>: whether the end of the input was met. The line in the buffer ends behind its first word afterwards.\<close>

definition handle_line :: "fenv \<Rightarrow> bool \<Rightarrow> bytes \<Rightarrow> fcon \<Rightarrow> (fcon + fcon) option" where
  "handle_line v eof text s0 =
     (let (line, arg) = (case cut_blank text of None \<Rightarrow> (text, []) | Some (a, b) \<Rightarrow> (a, b));
          s = s0\<lparr>fc_line := Some line\<rparr> in
      if strcaseeq line (ascii ''dump'')
      then if strcaseeq arg (ascii ''bindery'')
           then do {
             b \<leftarrow> bindio_dump (fc_db s);
             let s1 = say (ascii ''---------------'') (say (ascii ''Dumping bindery'') s);
             Some (Inr (say (ascii ''---------------'') (s1\<lparr>fc_db := b, fc_out := fc_out s1 @ [BinderyDump]\<rparr>)))
           }
           else Some (Inr (say (ascii ''Can'' @ 0x27 # ascii ''t dump that'') s))
      else if strcaseeq line (ascii ''list'') then map_option Inr (fc_list v arg s)
      else if strcaseeq line (ascii ''cd'') then map_option Inr (fc_cd v arg s)
      else if strcaseeq line (ascii ''dir'') \<or> line = ascii ''ls'' then map_option Inr (fc_dir v s)
      else if strcaseeq line (ascii ''create'') then map_option Inr (fc_create arg s)
      else if strcaseeq line (ascii ''help'') then Some (Inr (fold say (help_text arg) s))
      else if strcaseeq line (ascii ''quit'') \<or> eof then Some (Inl (say (ascii ''OK, seeya!'') s))
      else Some (Inr (say (ascii ''Unsupported command'') s)))"

section \<open>The loop\<close>

abbreviation (input) MAX_LINE_LEN :: nat where "MAX_LINE_LEN \<equiv> 512"

text \<open>\<^verbatim>\<open>fgets\<close>: what is stored (\<open>None\<close> when there is nothing), whether it met the end, and the rest of the input.\<close>

definition fc_fgets :: "bytes \<Rightarrow> bytes option \<times> bool \<times> bytes" where
  "fc_fgets inp =
     (if inp = [] then (None, True, [])
      else let w = take (MAX_LINE_LEN - 1) inp in
           (case strchr w 10 of
              Some i \<Rightarrow> (Some (take (Suc i) inp), False, drop (Suc i) inp)
            | None \<Rightarrow> (Some w, length inp < MAX_LINE_LEN - 1, drop (MAX_LINE_LEN - 1) inp)))"

text \<open>
  One turn: the last character of the line is cut off, whatever it is; an empty line has none. When nothing
  could be read the line is what is left of the one before.
\<close>

definition fc_turn :: "fenv \<Rightarrow> bool \<times> bytes \<times> fcon \<Rightarrow> (fcon + bool \<times> bytes \<times> fcon) option" where
  "fc_turn v st =
     (case st of (eof, inp, s) \<Rightarrow>
        if eof then Some (Inl (say (ascii ''OK, seeya'') s))
        else (case fc_fgets inp of (got, eof1, rest) \<Rightarrow> do {
          line \<leftarrow> (case got of None \<Rightarrow> fc_line s | Some g \<Rightarrow> Some (takeWhile (\<lambda>c. c \<noteq> 0) g));
          (if line = [] then None
           else map_option (\<lambda>r. case r of Inl s1 \<Rightarrow> Inl s1 | Inr s1 \<Rightarrow> Inr (eof1, rest, s1)) (handle_line v eof1 (butlast line) s))
        }))"

text \<open>The path of the prompt, in upper case and without its first slash.\<close>

definition fc_prompt :: "bytes \<Rightarrow> bytes" where
  "fc_prompt path = map toupper (if path \<noteq> [] \<and> hd path = 0x2f then tl path else path)"

definition fcon_start :: "bindery \<Rightarrow> fcon" where
  "fcon_start b = \<lparr>fc_path = [], fc_db = b, fc_line = None, fc_out = []\<rparr>"

section \<open>What it does\<close>

lemma say_simps [simp]: "fc_path (say t s) = fc_path s" "fc_db (say t s) = fc_db s" "fc_line (say t s) = fc_line s"
  by (simp_all add: say_def)

lemma fold_say [simp]: "fc_path (fold say ts s) = fc_path s"
  by (induction ts arbitrary: s) simp_all

text \<open>The name that is typed for a new object has no influence: the word for its type is taken in its place.\<close>

lemma cut_blank_first: "0x20 \<notin> set a \<Longrightarrow> cut_blank (a @ 0x20 # b) = Some (a, b)"
  by (simp add: cut_blank_def strchr_split)

lemma create_line:
  assumes "0x20 \<notin> set ty" "0x20 \<notin> set n"
  shows "handle_line v eof (ascii ''create object '' @ ty @ 0x20 # n @ 0x20 # m) s =
    map_option Inr (create_object ty m (s\<lparr>fc_line := Some (ascii ''create'')\<rparr>))"
proof -
  have first: "cut_blank (ascii ''create object '' @ z) = Some (ascii ''create'', ascii ''object '' @ z)" for z
    using cut_blank_first [of "ascii ''create''" "ascii ''object '' @ z"] by simp
  have second: "cut_blank (ascii ''object '' @ z) = Some (ascii ''object'', z)" for z
    using cut_blank_first [of "ascii ''object''" z] by simp
  have w: "strcaseeq (ascii ''create'') (ascii x) \<longleftrightarrow> False" if "x \<in> {''dump'', ''list'', ''cd'', ''dir''}" for x
    using that by (auto simp: strcaseeq_def tolower_def)
  have w: "\<not> strcaseeq (ascii ''create'') (ascii ''dump'')" "\<not> strcaseeq (ascii ''create'') (ascii ''list'')"
    "\<not> strcaseeq (ascii ''create'') (ascii ''cd'')" "\<not> strcaseeq (ascii ''create'') (ascii ''dir'')" "ascii ''create'' \<noteq> ascii ''ls''"
    "strcaseeq (ascii ''create'') (ascii ''create'')" "strcaseeq (ascii ''object'') (ascii ''object'')"
    by (simp_all add: strcaseeq_def tolower_def)
  show ?thesis using w cut_blank_first [OF assms(1)] cut_blank_first [OF assms(2)]
    by (simp add: handle_line_def first second fc_create_def del: ascii_simps)
qed

lemma object_gets_type_as_name:
  assumes "0x20 \<notin> set n" "bindio_add_object (ascii ''user'') 1 0 0x31 (fc_db s) = Some (Inr i, b)"
  shows "handle_line v eof (ascii ''create object user '' @ n @ ascii '' sl'') s = Some (Inr (s\<lparr>fc_db := b, fc_line := Some (ascii ''create'')\<rparr>))"
  using create_line [of "ascii ''user''" n v eof "ascii ''sl''" s] assms
  by (simp add: create_object_def resolve_obj_type_def strcaseeq_def tolower_def resolve_bindery_right_def)

text \<open>The rights are shown with their bytes swapped.\<close>

lemma fc_rights_swapped: "fc_rights r = push_bit 8 (t_rights (trust_conv_rec r)) OR drop_bit 8 (t_rights (trust_conv_rec r))"
  by (cases r; cases "rights r") (auto simp: fc_rights_def trust_conv_rec_def bit_simps intro!: bit_word_eqI dest: bit_imp_le_length)

text \<open>The path fits its array, and is the one of the start or was found on the host; a command that fails keeps it.\<close>

definition path_inv :: "fenv \<Rightarrow> fcon \<Rightarrow> bool" where
  "path_inv v s \<longleftrightarrow> fc_path s = [] \<or>
     length (fc_path s) < FS_MAX_VOL_PATH_LEN v \<and> (\<exists>r. host_path v (fc_path s) = Some r \<and> fe_stat v r)"

lemma list_keeps_path:
  "list_volumes v js s = Some s' \<Longrightarrow> fc_path s' = fc_path s"
  "list_trustees v rs s = Some s' \<Longrightarrow> fc_path s' = fc_path s"
  by (induction js arbitrary: s, auto simp: bind_eq_Some_conv split: if_splits)
    (induction rs arbitrary: s, auto simp: bind_eq_Some_conv split: if_splits)

lemma fc_list_path: "fc_list v arg s = Some s' \<Longrightarrow> fc_path s' = fc_path s"
  by (auto simp: fc_list_def bind_eq_Some_conv dest!: list_keeps_path split: if_splits option.splits)

lemma create_object_path: "create_object a m s = Some s' \<Longrightarrow> fc_path s' = fc_path s"
proof -
  have r: "fc_path (case r of Inl e \<Rightarrow> say (f e) (s\<lparr>fc_db := b\<rparr>) | Inr i \<Rightarrow> s\<lparr>fc_db := b\<rparr>) = fc_path s" for r :: "u8 + u32" and f b
    by (cases r) simp_all
  show "create_object a m s = Some s' \<Longrightarrow> fc_path s' = fc_path s"
    by (auto simp: create_object_def bind_eq_Some_conv Let_def r simp del: ascii_simps split: if_splits)
qed

lemma fc_create_path: "fc_create arg s = Some s' \<Longrightarrow> fc_path s' = fc_path s"
  by (auto simp: fc_create_def Let_def simp del: ascii_simps dest: create_object_path split: if_splits option.splits prod.splits)

lemma fc_cd_inv: "path_inv v s \<Longrightarrow> fc_cd v arg s = Some s' \<Longrightarrow> path_inv v s'"
  by (auto simp: path_inv_def fc_cd_def bind_eq_Some_conv strrchr_def split: if_splits)

lemma handle_line_path:
  assumes "path_inv v s" "handle_line v eof tx s = Some (Inr s')"
  shows "path_inv v s'"
proof -
  have same: "path_inv v u" if "fc_path u = fc_path s" for u using that assms(1) by (simp add: path_inv_def)
  obtain line arg where la: "(case cut_blank tx of None \<Rightarrow> (tx, []) | Some (a, b) \<Rightarrow> (a, b)) = (line, arg)" by fastforce
  let ?s = "s\<lparr>fc_line := Some line\<rparr>"
  have ps: "path_inv v ?s" by (rule same) simp
  have l: "fc_list v arg ?s = Some s' \<Longrightarrow> path_inv v s'" using same fc_list_path [of v arg ?s s'] by simp
  have c: "fc_create arg ?s = Some s' \<Longrightarrow> path_inv v s'" using same fc_create_path [of arg ?s s'] by simp
  have d: "fc_dir v ?s = Some s' \<Longrightarrow> path_inv v s'"
    by (rule same) (auto simp: fc_dir_def bind_eq_Some_conv simp del: ascii_simps split: option.splits)
  show ?thesis using assms(2) l c d fc_cd_inv [OF ps, of arg s']
    unfolding handle_line_def la Let_def prod.case
    by (auto simp: bind_eq_Some_conv simp del: ascii_simps intro: same split: if_splits)
qed

text \<open>Every turn keeps the path good, and reads some of the input or meets its end; behind the end it is the last.\<close>

lemma fc_turn_step:
  assumes "fc_turn v (eof, inp, s) = Some (Inr (eof1, rest, s1))" "path_inv v s"
  shows "path_inv v s1" "\<not> eof" "eof1 \<or> length rest < length inp"
proof -
  show e: "\<not> eof" using assms(1) by (auto simp: fc_turn_def)
  obtain got e r where g: "fc_fgets inp = (got, e, r)" by (cases "fc_fgets inp")
  from assms(1) e g obtain line where l: "line \<noteq> []"
    "map_option (\<lambda>x. case x of Inl u \<Rightarrow> Inl u | Inr u \<Rightarrow> Inr (e, r, u)) (handle_line v e (butlast line) s) = Some (Inr (eof1, rest, s1))"
    by (auto simp: fc_turn_def bind_eq_Some_conv split: if_splits)
  then obtain x where x: "handle_line v e (butlast line) s = Some x" "(case x of Inl u \<Rightarrow> Inl u | Inr u \<Rightarrow> Inr (e, r, u)) = Inr (eof1, rest, s1)"
    by auto
  then have h: "handle_line v e (butlast line) s = Some (Inr s1)" "eof1 = e" "rest = r" by (cases x; simp)+
  show "path_inv v s1" by (rule handle_line_path [OF assms(2) h(1)])
  show "eof1 \<or> length rest < length inp"
    using g unfolding h(2,3) by (cases inp) (auto simp: fc_fgets_def Let_def split: option.splits if_splits)
qed

end
