(* ===== verification/Fr_Rcon.thy ===== *)
theory Fr_Rcon
  imports Fr_NetLinux
begin

text \<open>
  \<^verbatim>\<open>src/server/rconsole.c\<close>, the remote console inside the server, which is behind a macro that no file sets, and
  \<^verbatim>\<open>src/server/rconsoled.c\<close>, the program that was to take its place. Neither was finished: sessions are opened, and
  requests are read but not carried out.
\<close>

abbreviation (input) RCON_MAX_SESSIONS :: nat where "RCON_MAX_SESSIONS \<equiv> 8"

text \<open>The descriptors of the sessions, and what was sent on them.\<close>

record rcon =
  fd_rcon :: int
  rcon_session :: "int list"
  rcon_sent :: "(int \<times> bytes) list"

section \<open>Sessions\<close>

definition rcon_find_free_session :: "int list \<Rightarrow> nat option" where
  "rcon_find_free_session fds = first_index (\<lambda>fd. fd < 0) fds"

interpretation rcons: slot_table "\<lambda>fd :: int. fd < 0" "\<lambda>fds. fds" rcon_find_free_session
  by unfold_locales (simp add: rcon_find_free_session_def)

text \<open>\<open>fd\<close> is the new socket, \<open>listens\<close> tells whether it can listen; \<open>None\<close> for \<^verbatim>\<open>exit (1)\<close>.\<close>

definition rcon_init :: "int \<Rightarrow> bool \<Rightarrow> rcon \<Rightarrow> rcon option" where
  "rcon_init fd listens s =
     (if fd < 0 \<or> \<not> listens then None
      else Some (s\<lparr>fd_rcon := fd, rcon_session := replicate RCON_MAX_SESSIONS (-1)\<rparr>))"

text \<open>\<open>fd\<close> is what \<^verbatim>\<open>accept\<close> returns, \<open>sends\<close> whether the number of the session, one byte, can be sent.\<close>

definition rcon_init_session :: "int \<Rightarrow> bool \<Rightarrow> rcon \<Rightarrow> rcon" where
  "rcon_init_session fd sends s =
     (case rcon_find_free_session (rcon_session s) of
        None \<Rightarrow> s
      | Some i \<Rightarrow>
          let s1 = s\<lparr>rcon_session := (rcon_session s)[i := fd]\<rparr> in
          if fd < 0 then s1
          else if sends then s1\<lparr>rcon_sent := (fd, [of_nat i]) # rcon_sent s1\<rparr> else s1)"

definition rcon_handle_conn :: "int \<Rightarrow> bool \<Rightarrow> rcon \<Rightarrow> rcon" where
  "rcon_handle_conn fd sends s = rcon_init_session fd sends s"

text \<open>The number of the request, which is only logged.\<close>

definition rcon_handle_request :: "bytes \<Rightarrow> u16 option" where
  "rcon_handle_request packet = do {
     a \<leftarrow> load packet 0;
     b \<leftarrow> load packet 1;
     Some (be16 (a, b))
   }"

section \<open>The daemon\<close>

text \<open>
  The start: \<^verbatim>\<open>socket\<close>, and then bind, two options and listen; \<open>None\<close> for \<^verbatim>\<open>exit (1)\<close>. The loop accepts connections
  and keeps their descriptors; those that fail are passed over.
\<close>

definition rconsoled_init :: "netsys \<Rightarrow> (int \<times> netsys) option" where
  "rconsoled_init k =
     (case sys_call k of
        (False, _) \<Rightarrow> None
      | (True, k1) \<Rightarrow>
          let fd = next_sock k1; k2 = k1\<lparr>open_socks := fd # open_socks k1, next_sock := fd + 1\<rparr> in
          (case sys_calls 4 k2 of (True, k3) \<Rightarrow> Some (fd, k3) | (False, _) \<Rightarrow> None))"

definition rconsoled_turn :: "netsys \<Rightarrow> netsys" where
  "rconsoled_turn k =
     (case sys_call k of
        (False, k1) \<Rightarrow> k1
      | (True, k1) \<Rightarrow> k1\<lparr>open_socks := next_sock k1 # open_socks k1, next_sock := next_sock k1 + 1\<rparr>)"

section \<open>What they do\<close>

text \<open>A session is opened in the first free entry and no other entry changes; a full table loses the connection.\<close>

lemma rcon_handle_conn_spec:
  "rcon_session (rcon_handle_conn fd sends s) = rcon_session s \<and> (\<forall>f\<in>set (rcon_session s). 0 \<le> f) \<or>
   (\<exists>i<length (rcon_session s). rcon_session s ! i < 0 \<and> (\<forall>j<i. 0 \<le> rcon_session s ! j) \<and>
      rcon_session (rcon_handle_conn fd sends s) = (rcon_session s)[i := fd])"
proof (cases "rcon_find_free_session (rcon_session s)")
  case None
  then show ?thesis using rcons.find_None [of "rcon_session s"] by (simp add: rcon_handle_conn_def rcon_init_session_def not_less)
next
  case (Some i)
  have "rcon_session (rcon_handle_conn fd sends s) = (rcon_session s)[i := fd]"
    using Some by (simp add: rcon_handle_conn_def rcon_init_session_def Let_def)
  then show ?thesis using rcons.find_SomeD [OF Some] by (auto simp: not_less)
qed

text \<open>The daemon never closes a connection: each one it accepts takes a descriptor for good.\<close>

lemma rconsoled_turns_leak: "set (open_socks k) \<subseteq> set (open_socks ((rconsoled_turn ^^ n) k))"
  by (induction n) (auto simp: rconsoled_turn_def sys_call_def split: prod.splits bool.splits)

end
