(* ===== verification/Fr_Console.thy ===== *)
theory Fr_Console
  imports Fr_Gasp Fr_NetIf Fr_Sql
begin

text \<open>
  \<^verbatim>\<open>src/console/console.c\<close>: the console, a client of the management protocol. Its state is the variables of
  the file and the log of what it did, the latest first. What the network answers is a function of that log.

  A reply is read into an array of \<^verbatim>\<open>con_get_reply\<close>, and the pointer to its data outlives the function: by the
  rules of C, what the callers read through it is undefined. \<open>con_left\<close> is what the array holds at that moment
  in the compiled program; where a result depends on it, the theorem says what it assumes of it.
\<close>

section \<open>The state\<close>

record serverinfo =
  si_name :: bytes
  si_version :: u16
  si_nofconns :: u32
  si_nofsessions :: u8

datatype con_line =
    Msg string
  | MsgArg string bytes
  | ConnLine u32 u16 u16 bytes bytes
  | SessLine nat string bytes
  | SapLine u16 bytes bytes

datatype con_event = Sent ipx_addr bytes | Waited | Shown con_line

datatype con_func = CmdExit | CmdDown | CmdEnable | CmdDisable | CmdList | CmdClear | CmdBroadcast | CmdLock | CmdSessions | CmdSap

record con_command =
  cc_command :: bytes
  cc_desc :: bytes
  cc_func :: con_func

text \<open>\<open>con_typed\<close>: what the user will type at the prompts of \<^verbatim>\<open>getpass\<close>; \<open>con_input\<close>: the rest of the standard input.\<close>

record con =
  con_server :: ipx_addr
  con_cmdtable :: "con_command list"
  con_serverinfo :: serverinfo
  con_sessionid :: u16
  con_pwd :: bytes
  con_typed :: "bytes list"
  con_input :: bytes
  con_log :: "con_event list"

text \<open>
  \<open>con_reply\<close>: the datagram that \<^verbatim>\<open>select\<close> and \<^verbatim>\<open>read\<close> give next, \<open>None\<close> for a failure; \<open>con_left\<close>: the bytes found
  behind \<^verbatim>\<open>p.data\<close>; \<open>con_memory\<close>: whether \<^verbatim>\<open>realloc\<close> has memory.
\<close>

record cenv =
  con_reply :: "con_event list \<Rightarrow> bytes option"
  con_left :: "con_event list \<Rightarrow> bytes"
  con_memory :: "nat \<Rightarrow> bool"

abbreviation (input) CON_MAX_LINE_LEN :: nat where "CON_MAX_LINE_LEN \<equiv> 1024"
abbreviation (input) CON_MAX_CMD_LEN :: nat where "CON_MAX_CMD_LEN \<equiv> 32"
abbreviation (input) CON_MAX_DESC_LEN :: nat where "CON_MAX_DESC_LEN \<equiv> 128"
abbreviation (input) IPXPORT_GASP :: u16 where "IPXPORT_GASP \<equiv> 0x045f"
abbreviation (input) PASSWORD_LEN :: nat where "PASSWORD_LEN \<equiv> 128"

definition con_start :: con where
  "con_start = \<lparr>con_server = \<lparr>x_net = (0, 0, 0, 0), x_host = (0, 0, 0, 0, 0, 0), x_port = 0\<rparr>, con_cmdtable = [], con_serverinfo = \<lparr>si_name = replicate 48 0, si_version = 0, si_nofconns = 0, si_nofsessions = 0\<rparr>,
     con_sessionid = 0xffff, con_pwd = replicate PASSWORD_LEN 0, con_typed = [], con_input = [], con_log = []\<rparr>"

definition log_event :: "con_event \<Rightarrow> con \<Rightarrow> con" where
  "log_event e c = c\<lparr>con_log := e # con_log c\<rparr>"

definition say :: "string \<Rightarrow> con \<Rightarrow> con" where
  "say t c = log_event (Shown (Msg t)) c"

section \<open>Requests and replies\<close>

record gasp_reply =
  gr_type :: u16
  gr_sessionid :: u16
  gr_statuscode :: u8

text \<open>The result is the reply, or \<open>None\<close> for -1. A new session number is taken over only when there was none.\<close>

definition con_handle_packet :: "bytes \<Rightarrow> con \<Rightarrow> (gasp_reply option \<times> con) option" where
  "con_handle_packet data c =
     (if length data < 5 then Some (None, c)
      else do {
        t \<leftarrow> get_be16 data 0;
        sid \<leftarrow> get_be16 data 2;
        status \<leftarrow> load data 4;
        let rp = \<lparr>gr_type = t, gr_sessionid = sid, gr_statuscode = status\<rparr>;
        Some (if t \<noteq> 0x7777 then (None, c)
              else if sid = con_sessionid c then (Some rp, c)
              else if con_sessionid c \<noteq> 0xffff then (None, c)
              else (Some rp, c\<lparr>con_sessionid := sid\<rparr>))
      })"

definition con_send_request :: "u16 \<Rightarrow> bytes \<Rightarrow> con \<Rightarrow> con option" where
  "con_send_request command data c = do {
     p \<leftarrow> gasp_send_request (con_sessionid c) command data;
     Some (log_event (Sent ((con_server c)\<lparr>x_port := IPXPORT_GASP\<rparr>) p) c)
   }"

definition con_done :: "con \<Rightarrow> con option" where
  "con_done c = con_send_request GASP_CMD_DISCON [] c"

definition con_get_reply :: "cenv \<Rightarrow> con \<Rightarrow> (gasp_reply option \<times> con) option" where
  "con_get_reply e c =
     (let c1 = log_event Waited c in
      case con_reply e (con_log c) of
        None \<Rightarrow> Some (None, c1)
      | Some d \<Rightarrow> if d = [] then Some (None, c1) else con_handle_packet (take GASP_DATASIZE d) c1)"

definition con_resolve_error :: "u8 \<Rightarrow> string" where
  "con_resolve_error code =
     (if code = GASP_STATUS_OK then ''no error''
      else if code = GASP_STATUS_NOTAUTH then ''not authenticated''
      else if code = GASP_STATUS_BADAUTH then ''authentication failure''
      else if code = GASP_STATUS_OUTOFSESS then ''out of sessions''
      else if code = GASP_STATUS_NOCONN then ''no such connection''
      else if code = GASP_STATUS_BADCMD then ''bad command parameters''
      else if code = GASP_STATUS_UNKNOWNCMD then ''unknown command''
      else ''unknown error... arggh!'')"

text \<open>A request and its reply.\<close>

definition con_ask :: "cenv \<Rightarrow> u16 \<Rightarrow> bytes \<Rightarrow> con \<Rightarrow> (gasp_reply option \<times> con) option" where
  "con_ask e command data c = do { c1 \<leftarrow> con_send_request command data c; con_get_reply e c1 }"

definition con_execute_cmd :: "cenv \<Rightarrow> u16 \<Rightarrow> string \<Rightarrow> bytes \<Rightarrow> con \<Rightarrow> con option" where
  "con_execute_cmd e cmd msg data c = do {
     (r, c1) \<leftarrow> con_ask e cmd data (say msg c);
     Some (case r of
             None \<Rightarrow> say '' network failure'' c1
           | Some rp \<Rightarrow> if gr_statuscode rp = GASP_STATUS_OK then say '' success'' c1
                        else say ('' failure, '' @ con_resolve_error (gr_statuscode rp)) c1)
   }"

section \<open>Commands\<close>

text \<open>The result of a command: \<open>Inl\<close> the console has exited, with a code.\<close>

type_synonym con_run = "((int \<times> con) + con) option"

definition stay :: "con option \<Rightarrow> con_run" where
  "stay m = map_option Inr m"

definition con_cmd_exit :: "con \<Rightarrow> con_run" where
  "con_cmd_exit c = map_option (\<lambda>c1. Inl (0, c1)) (con_done (say ''Console terminated'' c))"

definition con_cmd_down :: "cenv \<Rightarrow> con \<Rightarrow> con_run" where
  "con_cmd_down e c = map_option (\<lambda>c1. Inl (0, c1)) (con_execute_cmd e GASP_CMD_DOWN ''Requesting server shutdown...'' [] c)"

definition con_cmd_enable_logins :: "cenv \<Rightarrow> con \<Rightarrow> con_run" where
  "con_cmd_enable_logins e c = stay (con_execute_cmd e GASP_CMD_LENABLE ''Enabling server logins...'' [] c)"

definition con_cmd_disable_logins :: "cenv \<Rightarrow> con \<Rightarrow> con_run" where
  "con_cmd_disable_logins e c = stay (con_execute_cmd e GASP_CMD_LDISABLE ''Disabling server logins...'' [] c)"

text \<open>
  One line of the connection list. The name is the array of 48 bytes, or what \<^verbatim>\<open>strcpy\<close> put into it; it is
  printed up to its terminator, wherever that is.
\<close>

definition conn_line :: "u32 \<Rightarrow> bytes \<Rightarrow> con_line option option" where
  "conn_line i d = do {
     oid \<leftarrow> get_be32 d 0;
     ty \<leftarrow> get_be16 d 4;
     (if ty = 0 then Some None
      else do {
        a \<leftarrow> get_bytes d 58 6;
        name \<leftarrow> (if (ucast oid :: u16) = 0xffff then Some (ascii ''NOT-LOGGED-IN'') else cstr (drop 6 d));
        Some (Some (ConnLine i (ucast oid) ty a name))
      })
   }"

text \<open>\<open>n\<close> connections are left, the next one is \<open>i\<close>. A reply with an error is passed over. The counter is an \<^verbatim>\<open>int\<close>.\<close>

fun list_conns :: "cenv \<Rightarrow> nat \<Rightarrow> u32 \<Rightarrow> con \<Rightarrow> con option" where
  "list_conns e 0 i c = Some c"
| "list_conns e (Suc n) i c = do {
     (r, c1) \<leftarrow> con_ask e GASP_CMD_GETCONN (list_b4 (to_be32 i)) c;
     (case r of
        None \<Rightarrow> Some (say '' network failure'' c1)
      | Some rp \<Rightarrow>
          if gr_statuscode rp = GASP_STATUS_OK
          then do {
            l \<leftarrow> conn_line i (con_left e (con_log c1));
            list_conns e n (i + 1) (case l of None \<Rightarrow> c1 | Some t \<Rightarrow> log_event (Shown t) c1)
          }
          else list_conns e n (i + 1) c1)
   }"

definition con_cmd_list_conns :: "cenv \<Rightarrow> con \<Rightarrow> con_run" where
  "con_cmd_list_conns e c =
     (if unat (si_nofconns (con_serverinfo c)) \<ge> 2 ^ 31 - 1 then None
      else stay (list_conns e (unat (si_nofconns (con_serverinfo c))) 1 (say ''con# type obj# address      name'' c)))"

text \<open>An argument that is missing is a null pointer, which \<^verbatim>\<open>atoi\<close> follows.\<close>

definition con_cmd_clear_conn :: "cenv \<Rightarrow> bytes option \<Rightarrow> con \<Rightarrow> con_run" where
  "con_cmd_clear_conn e arg c = do {
     t \<leftarrow> arg;
     conn_no \<leftarrow> atoi t;
     stay (if conn_no = 0 then Some (say ''You must supply a valid numeric connection number'' c)
           else con_execute_cmd e GASP_CMD_CLEARCONN ''Clearing connection...'' (list_b4 (to_be32 (word_of_int conn_no))) c)
   }"

definition con_cmd_broadcast :: "cenv \<Rightarrow> bytes option \<Rightarrow> con \<Rightarrow> con_run" where
  "con_cmd_broadcast e arg c =
     stay (case arg of
             None \<Rightarrow> Some (say ''You must supply a message to broadcast'' c)
           | Some t \<Rightarrow> con_execute_cmd e GASP_CMD_BROADCAST ''Broadcasting message...'' t c)"

text \<open>Passwords are asked for until one is right; when the terminal ends, \<^verbatim>\<open>getpass\<close> gives a null pointer.\<close>

fun unlock :: "bytes \<Rightarrow> bytes list \<Rightarrow> bytes list option" where
  "unlock pwd [] = None"
| "unlock pwd (t # ts) = (if strcaseeq t pwd then Some ts else unlock pwd ts)"

definition con_cmd_lock :: "con \<Rightarrow> con_run" where
  "con_cmd_lock c = do {
     pwd \<leftarrow> cstr (con_pwd c);
     ts \<leftarrow> unlock pwd (con_typed c);
     Some (Inr (c\<lparr>con_typed := ts\<rparr>))
   }"

definition sess_line :: "nat \<Rightarrow> bytes \<Rightarrow> con_line option option" where
  "sess_line i d = do {
     st \<leftarrow> load d 0;
     (if st = 0 then Some None
      else do {
        a \<leftarrow> get_bytes d 5 6;
        Some (Some (SessLine i (if st = 1 then ''conn'' else if st = 2 then ''auth'' else ''???'') a))
      })
   }"

fun list_sessions :: "cenv \<Rightarrow> nat \<Rightarrow> nat \<Rightarrow> con \<Rightarrow> con option" where
  "list_sessions e 0 i c = Some c"
| "list_sessions e (Suc n) i c = do {
     (r, c1) \<leftarrow> con_ask e GASP_CMD_GETSESS (list_b4 (to_be32 (of_nat i))) c;
     (case r of
        None \<Rightarrow> Some (say '' network failure'' c1)
      | Some rp \<Rightarrow>
          if gr_statuscode rp = GASP_STATUS_OK
          then do {
            l \<leftarrow> sess_line i (con_left e (con_log c1));
            list_sessions e n (Suc i) (case l of None \<Rightarrow> c1 | Some t \<Rightarrow> log_event (Shown t) c1)
          }
          else list_sessions e n (Suc i) c1)
   }"

definition con_cmd_sessions :: "cenv \<Rightarrow> con \<Rightarrow> con_run" where
  "con_cmd_sessions e c = stay (list_sessions e (unat (si_nofsessions (con_serverinfo c))) 0 (say ''sess# stat address'' c))"

definition sap_line :: "bytes \<Rightarrow> con_line option option" where
  "sap_line d = do {
     ty \<leftarrow> get_be16 d 0;
     (if ty = 0 then Some None
      else do { a \<leftarrow> get_bytes d 54 6; name \<leftarrow> cstr (drop 2 d); Some (Some (SapLine ty a name)) })
   }"

text \<open>The services are asked for until the server refuses; an error is never shown. A server may answer for ever.\<close>

partial_function (option) list_saps :: "cenv \<Rightarrow> u32 \<Rightarrow> con \<Rightarrow> con option" where
  "list_saps e i c = do {
     (r, c1) \<leftarrow> con_ask e GASP_CMD_GETSAPINFO (list_b4 (to_be32 i)) c;
     (case r of
        None \<Rightarrow> Some (say '' network failure'' c1)
      | Some rp \<Rightarrow>
          if gr_statuscode rp \<noteq> GASP_STATUS_OK then Some c1
          else do {
            l \<leftarrow> sap_line (con_left e (con_log c1));
            list_saps e (i + 1) (case l of None \<Rightarrow> c1 | Some t \<Rightarrow> log_event (Shown t) c1)
          })
   }"

definition con_cmd_sap :: "cenv \<Rightarrow> con \<Rightarrow> con_run" where
  "con_cmd_sap e c = stay (list_saps e 0 (say ''type address      name'' c))"

section \<open>The command table and the input\<close>

definition con_bind_command :: "cenv \<Rightarrow> string \<Rightarrow> string \<Rightarrow> con_func \<Rightarrow> con \<Rightarrow> con option" where
  "con_bind_command e cmd desc f c =
     (if \<not> con_memory e (length (con_cmdtable c)) then Some (log_event (Shown (MsgArg ''out of memory while trying to add command'' (ascii cmd))) c)
      else do {
        n \<leftarrow> strncpy (replicate CON_MAX_CMD_LEN 0) (ascii cmd) CON_MAX_CMD_LEN;
        d \<leftarrow> strncpy (replicate CON_MAX_DESC_LEN 0) (ascii desc) CON_MAX_DESC_LEN;
        Some (c\<lparr>con_cmdtable := con_cmdtable c @ [\<lparr>cc_command = n, cc_desc = d, cc_func = f\<rparr>]\<rparr>)
      })"

definition con_dispatch :: "cenv \<Rightarrow> con_func \<Rightarrow> bytes option \<Rightarrow> con \<Rightarrow> con_run" where
  "con_dispatch e f arg c =
     (case f of
        CmdExit \<Rightarrow> con_cmd_exit c
      | CmdDown \<Rightarrow> con_cmd_down e c
      | CmdEnable \<Rightarrow> con_cmd_enable_logins e c
      | CmdDisable \<Rightarrow> con_cmd_disable_logins e c
      | CmdList \<Rightarrow> con_cmd_list_conns e c
      | CmdClear \<Rightarrow> con_cmd_clear_conn e arg c
      | CmdBroadcast \<Rightarrow> con_cmd_broadcast e arg c
      | CmdLock \<Rightarrow> con_cmd_lock c
      | CmdSessions \<Rightarrow> con_cmd_sessions e c
      | CmdSap \<Rightarrow> con_cmd_sap e c)"

text \<open>The search for a command; a name that fills its array has no terminator.\<close>

fun find_command :: "bytes \<Rightarrow> con_command list \<Rightarrow> con_command option option" where
  "find_command cmd [] = Some None"
| "find_command cmd (k # ks) = do {
     same \<leftarrow> streq (map tolower cmd) (map tolower (cc_command k));
     (if same then Some (Some k) else find_command cmd ks)
   }"

definition con_handle_command :: "cenv \<Rightarrow> bytes \<Rightarrow> bytes option \<Rightarrow> con \<Rightarrow> con_run" where
  "con_handle_command e cmd arg c = do {
     k \<leftarrow> find_command cmd (con_cmdtable c);
     (case k of
        None \<Rightarrow> Some (Inr (log_event (Shown (MsgArg ''Unknown command'' cmd)) c))
      | Some k \<Rightarrow> con_dispatch e (cc_func k) arg c)
   }"

text \<open>
  \<^verbatim>\<open>fgets\<close> of a line: what it stores (\<open>None\<close> at the end of the input), whether it met the end, and the rest.
\<close>

definition con_fgets :: "bytes \<Rightarrow> bytes option \<times> bool \<times> bytes" where
  "con_fgets inp =
     (if inp = [] then (None, True, [])
      else let w = take (CON_MAX_LINE_LEN - 1) inp in
           (case strchr w 10 of
              Some i \<Rightarrow> (Some (take (Suc i) inp), False, drop (Suc i) inp)
            | None \<Rightarrow> (Some w, length inp < CON_MAX_LINE_LEN - 1, drop (CON_MAX_LINE_LEN - 1) inp)))"

text \<open>The text of the line without its end, as a command and its argument.\<close>

definition con_split :: "bytes \<Rightarrow> bytes \<times> bytes option" where
  "con_split line =
     (let t = takeWhile (\<lambda>x. x \<noteq> 0 \<and> x \<noteq> 10) line in
      case strchr t 32 of
        None \<Rightarrow> (t, None)
      | Some i \<Rightarrow> (take i t, Some (drop (Suc i) t)))"

text \<open>
  One turn of the loop. At the end of the input the command is \<^verbatim>\<open>EXIT\<close>, whatever was read. The array is not set
  before the first line: an empty input leaves it so.
\<close>

definition con_turn :: "cenv \<Rightarrow> bool \<Rightarrow> con \<Rightarrow> con_run" where
  "con_turn e started c =
     (case con_fgets (con_input c) of
        (line, eof, rest) \<Rightarrow>
          if line = None \<and> \<not> started then None
          else let c1 = c\<lparr>con_input := rest\<rparr>;
                   (cmd, arg) = (case line of None \<Rightarrow> ([], None) | Some t \<Rightarrow> con_split t);
                   cmd1 = (if eof then ascii ''EXIT'' else cmd)
               in if cmd1 = [] then Some (Inr c1) else con_handle_command e cmd1 arg c1)"

partial_function (option) con_loop :: "cenv \<Rightarrow> bool \<Rightarrow> con \<Rightarrow> (int \<times> con) option" where
  "con_loop e started c = do {
     r \<leftarrow> con_turn e started c;
     (case r of Inl x \<Rightarrow> Some x | Inr c1 \<Rightarrow> con_loop e True c1)
   }"

definition con_go :: "cenv \<Rightarrow> con \<Rightarrow> (int \<times> con) option" where
  "con_go e c = con_loop e False (say ''Console launched'' c)"

section \<open>The start\<close>

text \<open>A failure that ends the console, with a goodbye to the server or without.\<close>

definition con_fail :: "bool \<Rightarrow> string \<Rightarrow> con \<Rightarrow> con_run" where
  "con_fail bye msg c =
     (if bye then map_option (\<lambda>c1. Inl (1, c1)) (con_done (say msg c)) else Some (Inl (1, say msg c)))"

text \<open>A reply that must be a success.\<close>

definition con_expect :: "gasp_reply option \<times> con \<Rightarrow> (con \<Rightarrow> con_run) \<Rightarrow> con_run" where
  "con_expect r go_on =
     (case r of
        (None, c) \<Rightarrow> con_fail True '' network failure'' c
      | (Some rp, c) \<Rightarrow>
          if gr_statuscode rp \<noteq> GASP_STATUS_OK then con_fail True ('' failure, '' @ con_resolve_error (gr_statuscode rp)) c
          else go_on c)"

text \<open>The answer to a login key. Of the array \<^verbatim>\<open>buf\<close> only the 16 bytes of the hash are used.\<close>

definition con_answer :: "bytes \<Rightarrow> bytes \<Rightarrow> bytes" where
  "con_answer key pwd = nw_encrypt key (shuffle [0, 0, 0, 1] pwd (length pwd))"

definition get_serverinfo :: "bytes \<Rightarrow> serverinfo option" where
  "get_serverinfo d = do {
     name \<leftarrow> get_bytes d 0 48;
     v0 \<leftarrow> load d 48;
     v1 \<leftarrow> load d 49;
     n0 \<leftarrow> load d 50; n1 \<leftarrow> load d 51; n2 \<leftarrow> load d 52; n3 \<leftarrow> load d 53;
     m \<leftarrow> load d 54;
     Some \<lparr>si_name = name, si_version = be16 (v1, v0), si_nofconns = le32 (n0, n1, n2, n3), si_nofsessions = m\<rparr>
   }"

text \<open>The last step of the login: the information about the server.\<close>

definition con_learn :: "cenv \<Rightarrow> con \<Rightarrow> con_run" where
  "con_learn e c = do {
     r \<leftarrow> con_ask e GASP_CMD_GETINFO [] c;
     con_expect r (\<lambda>c1. do {
       si \<leftarrow> get_serverinfo (con_left e (con_log c1));
       name \<leftarrow> cstr (si_name si);
       Some (Inr (log_event (Shown (MsgArg '' connected to server'' name)) (c1\<lparr>con_serverinfo := si\<rparr>)))
     })
   }"

text \<open>
  The status of the first reply is not looked at, so that a server that has no session left is answered
  with a password all the same.
\<close>

definition con_init :: "cenv \<Rightarrow> con \<Rightarrow> con_run" where
  "con_init e c =
     (case con_typed c of
        [] \<Rightarrow> None
      | pwd # ts \<Rightarrow> do {
          b0 \<leftarrow> strcpy (con_pwd c) pwd;
          b \<leftarrow> map_str toupper b0;
          let c1 = say ''Connecting to server...'' (c\<lparr>con_pwd := b, con_typed := ts\<rparr>);
          (r, c2) \<leftarrow> con_ask e GASP_CMD_HELLO [] c1;
          (if r = None then con_fail False '' network failure'' c2
           else do {
             p \<leftarrow> cstr b;
             key \<leftarrow> get_bytes (con_left e (con_log c2)) 0 8;
             x \<leftarrow> con_ask e GASP_CMD_AUTH (con_answer key p) c2;
             con_expect x (con_learn e)
           })
        })"

definition con_commands :: "(string \<times> string \<times> con_func) list" where
  "con_commands =
     [(''exit'', ''This will exit the console'', CmdExit),
      (''down'', ''This will down the server'', CmdDown),
      (''enable'', ''This will enable logins'', CmdEnable),
      (''disable'', ''This will disable logins'', CmdDisable),
      (''list'', ''This will list all current connections'', CmdList),
      (''clear'', ''This will clear a connection'', CmdClear),
      (''broadcast'', ''This will send a broadcast message'', CmdBroadcast),
      (''lock'', ''This will lock the server console'', CmdLock),
      (''sessions'', ''This will display session information'', CmdSessions),
      (''sap'', ''This will display the current SAP list'', CmdSap)]"

fun bind_all :: "cenv \<Rightarrow> (string \<times> string \<times> con_func) list \<Rightarrow> con \<Rightarrow> con option" where
  "bind_all e [] c = Some c"
| "bind_all e ((n, d, f) # ks) c = do { c1 \<leftarrow> con_bind_command e n d f c; bind_all e ks c1 }"

text \<open>From the connection to the end: the part of \<^verbatim>\<open>main\<close> behind the configuration and the network.\<close>

definition con_session :: "cenv \<Rightarrow> con \<Rightarrow> (int \<times> con) option" where
  "con_session e c = do {
     r \<leftarrow> con_init e c;
     (case r of
        Inl x \<Rightarrow> Some x
      | Inr c1 \<Rightarrow> do { c2 \<leftarrow> bind_all e con_commands c1; con_go e c2 })
   }"

section \<open>The search for a server\<close>

text \<open>
  The reply of a server that was asked for: records of 66 bytes, the first whose name is right. The inner
  \<open>None\<close> is the result -1; a reply of another size leaves the function without a result (\<open>None\<close>). A name that
  fills its field is read on behind it.
\<close>

function find_in_reply :: "bytes \<Rightarrow> bytes \<Rightarrow> nat \<Rightarrow> nat \<Rightarrow> (b4 \<times> b6) option option" where
  "find_in_reply name packet pos left =
     (if left < SAP_PACKET_SIZE then Some None
      else do {
        same \<leftarrow> streq (map tolower name) (map tolower (drop (pos + 4) packet));
        (if same
         then do { sp \<leftarrow> get_sap packet pos; Some (Some (sp_net sp, sp_node sp)) }
         else find_in_reply name packet (pos + SAP_PACKET_SIZE) (left - SAP_PACKET_SIZE))
      })"
  by pat_completeness auto
termination
  by (relation "measure (\<lambda>(name, packet, pos, left). left)") auto

declare find_in_reply.simps [simp del]

text \<open>\<open>sock\<close>, \<open>asked\<close>: the socket is created, the request is sent and \<^verbatim>\<open>select\<close> returns; \<open>reply\<close>: the datagram and the array it is in.\<close>

definition find_server :: "bytes \<Rightarrow> bool \<Rightarrow> bool \<Rightarrow> (bytes \<times> bytes) option \<Rightarrow> (b4 \<times> b6) option option" where
  "find_server name sock asked reply =
     (if \<not> sock \<or> \<not> asked then Some None
      else case reply of
             None \<Rightarrow> Some None
           | Some (d, junk) \<Rightarrow>
               if d = [] then Some None
               else if length d mod SAP_PACKET_SIZE \<noteq> 0 then None
               else find_in_reply name (take PACKET_MAXLEN (d @ junk)) 0 (length d))"

text \<open>The argument of the command line, in capitals; \<open>Inl ()\<close> for \<^verbatim>\<open>exit (1)\<close>.\<close>

definition parse_parms :: "bytes option \<Rightarrow> bool \<Rightarrow> bool \<Rightarrow> (bytes \<times> bytes) option \<Rightarrow> ipx_addr \<Rightarrow> (unit + ipx_addr) option" where
  "parse_parms arg sock asked reply server =
     (case arg of
        None \<Rightarrow> Some (Inr server)
      | Some s \<Rightarrow> do {
          r \<leftarrow> find_server (map toupper s) sock asked reply;
          Some (case r of
                  None \<Rightarrow> Inl ()
                | Some (nt, nd) \<Rightarrow> Inr (server\<lparr>x_net := nt, x_host := nd\<rparr>))
        })"

text \<open>The whole program: the configuration, the network, the socket, the argument, the session.\<close>

definition con_main ::
  "accounts \<Rightarrow> accounts \<Rightarrow> bytes option \<Rightarrow> (bytes \<Rightarrow> bool) \<Rightarrow> rt_message list option \<Rightarrow> netsys \<Rightarrow> bytes option \<Rightarrow> bool \<Rightarrow>
   (bytes \<times> bytes) option \<Rightarrow> cenv \<Rightarrow> con \<Rightarrow> (int \<times> con) option" where
  "con_main pw gr file sock klist s arg asked reply e c =
     (case parse_config pw gr file False conf_start of
        None \<Rightarrow> None
      | Some (Inl x) \<Rightarrow> Some (1, c)
      | Some (Inr cf) \<Rightarrow> do {
          r \<leftarrow> net_init (cf_ifname cf) sock klist (con_server c);
          (case r of
             Inl u \<Rightarrow> Some (1, c)
           | Inr (a, name) \<Rightarrow>
               (case net_create_socket s of (fd, s1) \<Rightarrow>
                  if fd < 0 then Some (1, c)
                  else do {
                    q \<leftarrow> parse_parms arg (0 \<le> fst (net_create_socket s1)) asked reply a;
                    (case q of
                       Inl u \<Rightarrow> Some (1, c)
                     | Inr a1 \<Rightarrow> con_session e (c\<lparr>con_server := a1\<rparr>))
                  }))
        })"

end
