(* ===== verification/Thm_Console.thy ===== *)
theory Thm_Console
  imports Thm_Net Fr_Console
begin

text \<open>
  The properties of the console and of the search for interfaces. The console's network is instantiated
  with the model of the server: the requests it sends are handled one after the other, and it reads the
  reply to the last.
\<close>

section \<open>A console and its server\<close>

fun server_after :: "ipx_addr \<Rightarrow> net \<Rightarrow> con_event list \<Rightarrow> net option" where
  "server_after a n [] = Some n"
| "server_after a n (Sent to p # l) = do {
     n1 \<leftarrow> server_after a n l;
     x \<leftarrow> gasp_handle_packet p (int (length p)) a n1;
     Some (outcome_net x)
   }"
| "server_after a n (Waited # l) = server_after a n l"
| "server_after a n (Shown t # l) = server_after a n l"

text \<open>
  The console at \<open>a\<close> reads the last reply of the server, and the data of a reply is still in its place when the
  console reads it.
\<close>

definition connected :: "cenv \<Rightarrow> ipx_addr \<Rightarrow> net \<Rightarrow> bool" where
  "connected e a n \<longleftrightarrow> (\<forall>l n1 b bs ds. server_after a n l = Some n1 \<longrightarrow> out n1 = GaspReply b (map Some bs) # ds \<longrightarrow>
     con_reply e l = Some bs \<and> take (length bs - 5) (con_left e (Waited # l)) = drop 5 bs)"

definition asked :: "con \<Rightarrow> u16 \<Rightarrow> bytes \<Rightarrow> con" where
  "asked c sid pkt = c\<lparr>con_sessionid := sid, con_log := Waited # Sent ((con_server c)\<lparr>x_port := IPXPORT_GASP\<rparr>) pkt # con_log c\<rparr>"

lemma con_handle_reply:
  "con_handle_packet ([0x77, 0x77] @ list_b2 (to_be16 sid) @ st # rest) c =
     Some (if sid = con_sessionid c \<or> con_sessionid c = 0xffff
           then (Some \<lparr>gr_type = 0x7777, gr_sessionid = sid, gr_statuscode = st\<rparr>, c\<lparr>con_sessionid := sid\<rparr>) else (None, c))"
proof -
  obtain h k where hk: "to_be16 sid = (h, k)" by (cases "to_be16 sid")
  then have "be16 (h, k) = sid" using be16_to_be16 [of sid] by simp
  moreover have "be16 (0x77, 0x77) = 0x7777" by simp
  ultimately show ?thesis unfolding hk con_handle_packet_def
    by (auto simp: Let_def get_be16_def load_def simp del: be16.simps)
qed

lemma con_ask_served:
  assumes "connected e a n" "gasp_send_request (con_sessionid c) cmd d = Some pkt"
    and "server_after a n (con_log c) = Some n1" "gasp_handle_packet pkt (int (length pkt)) a n1 = Some (Up n2)"
    and "out n2 = GaspReply b (map Some ([0x77, 0x77] @ list_b2 (to_be16 sid) @ st # rest)) # ds"
    and "sid = con_sessionid c \<or> con_sessionid c = 0xffff" "length rest \<le> 507"
  shows "con_ask e cmd d c = Some (Some \<lparr>gr_type = 0x7777, gr_sessionid = sid, gr_statuscode = st\<rparr>, asked c sid pkt)"
    "server_after a n (con_log (asked c sid pkt)) = Some n2"
    "take (length rest) (con_left e (con_log (asked c sid pkt))) = rest"
proof -
  let ?l = "Sent ((con_server c)\<lparr>x_port := IPXPORT_GASP\<rparr>) pkt # con_log c"
  let ?bs = "[0x77, 0x77] @ list_b2 (to_be16 sid) @ st # rest"
  have s: "server_after a n ?l = Some n2" using assms(3,4) by simp
  then have "con_reply e ?l = Some ?bs" and left: "take (length ?bs - 5) (con_left e (Waited # ?l)) = drop 5 ?bs"
    using assms(1,5) unfolding connected_def by blast+
  moreover have "take GASP_DATASIZE ?bs = ?bs" using assms(7) by simp
  ultimately show "con_ask e cmd d c = Some (Some \<lparr>gr_type = 0x7777, gr_sessionid = sid, gr_statuscode = st\<rparr>, asked c sid pkt)"
    using assms(2,6) con_handle_reply [of sid st rest]
    by (auto simp: con_ask_def con_send_request_def con_get_reply_def log_event_def asked_def Let_def)
  show "server_after a n (con_log (asked c sid pkt)) = Some n2" using s by (simp add: asked_def)
  show "take (length rest) (con_left e (con_log (asked c sid pkt))) = rest"
    using left by (cases "to_be16 sid") (simp add: asked_def)
qed

section \<open>The login, step by step\<close>

definition session_key :: "net \<Rightarrow> bytes" where
  "session_key n = map (\<lambda>j. rand_key n (rk n + j)) [0..<8]"

definition greeted :: "ipx_addr \<Rightarrow> nat \<Rightarrow> net \<Rightarrow> net" where
  "greeted a i n = n\<lparr>rk := rk n + 8,
     gasp_sessions := (gasp_sessions n)[i := \<lparr>gs_status = GASP_STATUS_CONNECTED, gs_addr = a, gs_key = session_key n\<rparr>],
     out := GaspReply a (map Some ([0x77, 0x77] @ list_b2 (to_be16 (of_nat i)) @ GASP_STATUS_OK # session_key n)) # out n\<rparr>"

lemma console_hello:
  assumes "connected e a n" "net_inv n" "free_session (gasp_sessions n) = Some i" "con_sessionid c = 0xffff" "server_after a n (con_log c) = Some n"
  obtains pkt where "con_ask e GASP_CMD_HELLO [] c = Some (Some \<lparr>gr_type = 0x7777, gr_sessionid = of_nat i, gr_statuscode = GASP_STATUS_OK\<rparr>, asked c (of_nat i) pkt)"
    "server_after a n (con_log (asked c (of_nat i) pkt)) = Some (greeted a i n)"
    "take 8 (con_left e (con_log (asked c (of_nat i) pkt))) = session_key n"
proof -
  obtain pkt where pkt: "gasp_send_request 0xffff GASP_CMD_HELLO [] = Some pkt" by (simp add: gasp_send_request_def)
  have f: "first_index (\<lambda>g. gs_status g = GASP_STATUS_UNUSED) (gasp_sessions n) = Some i"
    using assms(3) by (simp add: free_session_def)
  have h: "gasp_handle_packet pkt (int (length pkt)) a n = Some (Up (greeted a i n))"
    using greeting_opens_session [OF assms(2) pkt, of "[]" a] by (simp add: f greeted_def session_key_def)
  have l: "length (session_key n) = 8" by (simp add: session_key_def)
  have "out (greeted a i n) = GaspReply a (map Some ([0x77, 0x77] @ list_b2 (to_be16 (of_nat i)) @ GASP_STATUS_OK # session_key n)) # out n"
    by (simp add: greeted_def)
  note r = con_ask_served [OF assms(1) pkt [folded assms(4)] assms(5) h this, unfolded l]
  show ?thesis by (rule that) (use r assms(4) in simp_all)
qed

lemma auth_host: "gasp_handle_auth sid d sz n = Some n' \<Longrightarrow> \<exists>b. host n' = (host n)\<lparr>db := b\<rparr> \<and> rk n' = rk n"
  by (auto simp: gasp_handle_auth_def gasp_send_reply_session_def gasp_send_reply_def send_out_def upd_session_def on_host_def on_db_def
      bind_eq_Some_conv intro: exI [where x = "db (host n)"] split: if_splits prod.splits)

text \<open>The reply to an answer; \<open>right\<close> whether it is the encryption of the stored hash.\<close>

lemma console_auth:
  assumes "connected e a n" "server_after a n (con_log c) = Some m" "store_inv (db (host m))"
    and "unat (con_sessionid c) < length (gasp_sessions m)" "con_sessionid c \<noteq> 0xffff"
    and "gasp_sessions m ! unat (con_sessionid c) = \<lparr>gs_status = GASP_STATUS_CONNECTED, gs_addr = a, gs_key = key\<rparr>" "length d = 8"
  defines "right \<equiv> (case store_data (db (host m)) 1 (ascii ''PASSWORD'') of None \<Rightarrow> False | Some h \<Rightarrow> d = nw_encrypt key h)"
  obtains pkt m1 b where
    "con_ask e GASP_CMD_AUTH d c = Some (Some \<lparr>gr_type = 0x7777, gr_sessionid = con_sessionid c,
       gr_statuscode = if right then GASP_STATUS_OK else GASP_STATUS_BADAUTH\<rparr>, asked c (con_sessionid c) pkt)"
    "server_after a n (con_log (asked c (con_sessionid c) pkt)) = Some m1" "host m1 = (host m)\<lparr>db := b\<rparr>"
    "gasp_sessions m1 = (if right then (gasp_sessions m)[unat (con_sessionid c) := \<lparr>gs_status = GASP_STATUS_AUTH, gs_addr = a, gs_key = key\<rparr>]
       else gasp_sessions m)"
proof -
  let ?s = "con_sessionid c"
  obtain pkt where pkt: "gasp_send_request ?s GASP_CMD_AUTH d = Some pkt" using assms(7) by (simp add: gasp_send_request_def)
  obtain m1 where m1: "gasp_handle_auth ?s (d @ []) 8 m = Some m1"
    "gasp_sessions m1 = (if right then (gasp_sessions m)[unat ?s := \<lparr>gs_status = GASP_STATUS_AUTH, gs_addr = a, gs_key = key\<rparr>] else gasp_sessions m)"
    "out m1 = GaspReply a (map Some ([0x77, 0x77] @ list_b2 (to_be16 ?s) @ [if right then GASP_STATUS_OK else GASP_STATUS_BADAUTH])) # out m"
    using auth_eq [OF assms(3,4,7), of "[]", unfolded assms(6) gasp_session.simps, folded right_def] by blast
  obtain b where b: "host m1 = (host m)\<lparr>db := b\<rparr>" using auth_host [OF m1(1)] by blast
  have h: "gasp_handle_packet pkt (int (length pkt)) a m = Some (Up m1)"
    using gasp_request [OF pkt, of "[]" a m] m1(1) assms(4-7) by (simp add: go_def)
  note r = con_ask_served [OF assms(1) pkt assms(2) h m1(3)]
  show ?thesis by (rule that) (use r b m1(2) in simp_all)
qed

definition info_bytes :: "srv \<Rightarrow> bytes" where
  "info_bytes s = take 48 (mkbuf 48 (conf_servername s)) @ rev (list_b2 (to_be16 (word_of_int (conf_nwversion s)))) @
     list_b4 (to_le32 (of_nat (nofconns s))) @ [8]"

definition info_of :: "srv \<Rightarrow> serverinfo" where
  "info_of s = \<lparr>si_name = mkbuf 48 (conf_servername s), si_version = word_of_int (conf_nwversion s),
     si_nofconns = of_nat (nofconns s), si_nofsessions = 8\<rparr>"

lemma get_info_bytes:
  assumes "length (conf_servername s) \<le> 48" "take 55 d = info_bytes s"
  shows "get_serverinfo d = Some (info_of s)"
proof -
  let ?m = "mkbuf 48 (conf_servername s)"
  obtain h k where hk: "to_be16 (word_of_int (conf_nwversion s)) = (h, k)" by (cases "to_be16 (word_of_int (conf_nwversion s))")
  obtain w x y z where wz: "to_le32 (of_nat (nofconns s)) = (w, x, y, z)" by (cases "to_le32 (of_nat (nofconns s))")
  have m: "length ?m = 48" using assms(1) by simp
  have "d = ?m @ [k, h, w, x, y, z, 8] @ drop 55 d"
    using append_take_drop_id [of 55 d] assms(2) m by (simp add: info_bytes_def hk wz)
  moreover have "be16 (h, k) = word_of_int (conf_nwversion s)" using be16_to_be16 [of "word_of_int (conf_nwversion s)"] hk by simp
  moreover have "le32 (w, x, y, z) = of_nat (nofconns s)" using le32_to_le32 [of "of_nat (nofconns s)"] wz by simp
  moreover have "get_serverinfo (?m @ [k, h, w, x, y, z, 8] @ r) =
      Some \<lparr>si_name = ?m, si_version = be16 (h, k), si_nofconns = le32 (w, x, y, z), si_nofsessions = 8\<rparr>" for r
    using m by (simp add: get_serverinfo_def get_bytes_def load_def nth_append del: be16.simps le32.simps)
  ultimately show ?thesis unfolding info_of_def by metis
qed

lemma console_info:
  assumes "connected e a n" "server_after a n (con_log c) = Some m" "length (conf_servername (host m)) \<le> 48"
    and "unat (con_sessionid c) < length (gasp_sessions m)" "con_sessionid c \<noteq> 0xffff"
    and "gasp_sessions m ! unat (con_sessionid c) = \<lparr>gs_status = GASP_STATUS_AUTH, gs_addr = a, gs_key = key\<rparr>"
  obtains pkt m1 where
    "con_ask e GASP_CMD_GETINFO [] c = Some (Some \<lparr>gr_type = 0x7777, gr_sessionid = con_sessionid c, gr_statuscode = GASP_STATUS_OK\<rparr>, asked c (con_sessionid c) pkt)"
    "server_after a n (con_log (asked c (con_sessionid c) pkt)) = Some m1" "gasp_sessions m1 = gasp_sessions m"
    "get_serverinfo (con_left e (con_log (asked c (con_sessionid c) pkt))) = Some (info_of (host m))"
proof -
  let ?s = "con_sessionid c"
  obtain pkt where pkt: "gasp_send_request ?s GASP_CMD_GETINFO [] = Some pkt" by (simp add: gasp_send_request_def)
  let ?m1 = "m\<lparr>out := GaspReply a (map Some ([0x77, 0x77] @ list_b2 (to_be16 ?s) @ GASP_STATUS_OK # info_bytes (host m))) # out m\<rparr>"
  have "gasp_command ?s GASP_CMD_GETINFO [] 0 a m = Some (Up ?m1)"
    using assms(4,6) by (simp add: gasp_command_def gasp_send_serverinfo_def gasp_send_reply_session_def gasp_send_reply_def send_out_def
        load_def info_bytes_def go_def Let_def)
  then have h: "gasp_handle_packet pkt (int (length pkt)) a m = Some (Up ?m1)"
    using gasp_request [OF pkt, of "[]" a m] assms(4-6) by simp
  have o: "out ?m1 = GaspReply a (map Some ([0x77, 0x77] @ list_b2 (to_be16 ?s) @ GASP_STATUS_OK # info_bytes (host m))) # out m" by simp
  have l: "length (info_bytes (host m)) = 55" using assms(3) by (simp add: info_bytes_def)
  note r = con_ask_served [OF assms(1) pkt assms(2) h o, unfolded l]
  show ?thesis by (rule that [of pkt ?m1]) (use r get_info_bytes [OF assms(3)] in simp_all)
qed

section \<open>The login\<close>

definition uppercase :: "bytes \<Rightarrow> bytes" where
  "uppercase s = map toupper s"

lemma no_nul_uppercase [simp]: "no_nul (uppercase s) = no_nul s"
  by (simp add: uppercase_def)

lemma typed_password:
  assumes "no_nul pwd" "length pwd < length b"
  obtains b0 b1 where "strcpy b pwd = Some b0" "map_str toupper b0 = Some b1" "cstr b1 = Some (uppercase pwd)"
proof -
  obtain b0 where b0: "strcpy b pwd = Some b0" using assms(2) by (simp add: strcpy_def)
  then have c: "cstr b0 = Some pwd" using assms(1) by (rule cstr_strcpy)
  then obtain b1 where b1: "map_str toupper b0 = Some b1" by (simp add: map_str_def)
  have "cstr b1 = Some (map toupper pwd)" using b1 c by (rule cstr_map_str) (simp add: assms(1))
  then show ?thesis using that b0 b1 by (simp add: uppercase_def)
qed

lemma get_bytes_take: "take k d = w \<Longrightarrow> length w = k \<Longrightarrow> get_bytes d 0 k = Some w"
  by (auto simp: get_bytes_def)

lemma session_number:
  assumes "net_inv n" "free_session (gasp_sessions n) = Some i"
  shows "unat (of_nat i :: u16) = i" "(of_nat i :: u16) \<noteq> 0xffff" "i < length (gasp_sessions n)" "length (gasp_sessions n) = 8"
    "gs_status (gasp_sessions n ! i) = GASP_STATUS_UNUSED"
proof -
  have l: "length (gasp_sessions n) = 8" using assms(1) by (simp add: net_inv_def)
  then have i: "i < 8" using sessions.find_SomeD(1) [OF assms(2)] by simp
  then show u: "unat (of_nat i :: u16) = i" by (simp add: unat_of_nat take_bit_nat_eq_self)
  have "unat (0xffff :: u16) = 65535" by simp
  then show "(of_nat i :: u16) \<noteq> 0xffff" using u i by (intro notI) simp
  show "i < length (gasp_sessions n)" using i l by simp
  show "length (gasp_sessions n) = 8" by (rule l)
  show "gs_status (gasp_sessions n ! i) = GASP_STATUS_UNUSED" using sessions.find_SomeD(2) [OF assms(2)] .
qed

text \<open>The first two requests, whatever the password is.\<close>

lemma console_tries:
  assumes "connected e a n" "net_inv n" "store_inv (db (host n))" "free_session (gasp_sessions n) = Some i"
    and "con_typed c = pwd # ts" "no_nul pwd" "length pwd < length (con_pwd c)" "con_sessionid c = 0xffff" "con_log c = []"
  defines "right \<equiv> (case store_data (db (host n)) 1 (ascii ''PASSWORD'') of None \<Rightarrow> False
    | Some h \<Rightarrow> con_answer (session_key n) (uppercase pwd) = nw_encrypt (session_key n) h)"
  obtains c3 m1 b where
    "con_init e c = con_expect (Some \<lparr>gr_type = 0x7777, gr_sessionid = of_nat i, gr_statuscode = if right then GASP_STATUS_OK else GASP_STATUS_BADAUTH\<rparr>, c3) (con_learn e)"
    "con_sessionid c3 = of_nat i" "server_after a n (con_log c3) = Some m1" "host m1 = (host n)\<lparr>db := b\<rparr>"
    "gasp_sessions m1 = (gasp_sessions n)[i := \<lparr>gs_status = if right then GASP_STATUS_AUTH else GASP_STATUS_CONNECTED, gs_addr = a, gs_key = session_key n\<rparr>]"
proof -
  note i = session_number [OF assms(2,4)]
  obtain b0 b1 where b: "strcpy (con_pwd c) pwd = Some b0" "map_str toupper b0 = Some b1" "cstr b1 = Some (uppercase pwd)"
    using typed_password [OF assms(6,7)] by blast
  define c1 where "c1 = say ''Connecting to server...'' (c\<lparr>con_pwd := b1, con_typed := ts\<rparr>)"
  have "con_sessionid c1 = 0xffff" "server_after a n (con_log c1) = Some n"
    using assms(8,9) by (simp_all add: c1_def say_def log_event_def)
  from console_hello [OF assms(1,2,4) this] obtain p1 where p1:
    "con_ask e GASP_CMD_HELLO [] c1 = Some (Some \<lparr>gr_type = 0x7777, gr_sessionid = of_nat i, gr_statuscode = GASP_STATUS_OK\<rparr>, asked c1 (of_nat i) p1)"
    "server_after a n (con_log (asked c1 (of_nat i) p1)) = Some (greeted a i n)"
    "take 8 (con_left e (con_log (asked c1 (of_nat i) p1))) = session_key n" .
  let ?c2 = "asked c1 (of_nat i) p1" and ?m = "greeted a i n" and ?d = "con_answer (session_key n) (uppercase pwd)"
  have s: "con_sessionid ?c2 = of_nat i" by (simp add: asked_def)
  have m: "db (host ?m) = db (host n)" "host ?m = host n" "length (gasp_sessions ?m) = 8"
    "gasp_sessions ?m ! i = \<lparr>gs_status = GASP_STATUS_CONNECTED, gs_addr = a, gs_key = session_key n\<rparr>"
    using i(3,4) by (simp_all add: greeted_def)
  have pre: "store_inv (db (host ?m))" "unat (con_sessionid ?c2) < length (gasp_sessions ?m)" "con_sessionid ?c2 \<noteq> 0xffff"
    "gasp_sessions ?m ! unat (con_sessionid ?c2) = \<lparr>gs_status = GASP_STATUS_CONNECTED, gs_addr = a, gs_key = session_key n\<rparr>" "length ?d = 8"
    using assms(3) i m s by (simp_all add: con_answer_def)
  from console_auth [OF assms(1) p1(2) pre, unfolded s i(1) m(1,2), folded right_def] obtain p2 m1 b where r:
    "con_ask e GASP_CMD_AUTH ?d ?c2 = Some (Some \<lparr>gr_type = 0x7777, gr_sessionid = of_nat i,
       gr_statuscode = if right then GASP_STATUS_OK else GASP_STATUS_BADAUTH\<rparr>, asked ?c2 (of_nat i) p2)"
    "server_after a n (con_log (asked ?c2 (of_nat i) p2)) = Some m1" "host m1 = (host n)\<lparr>db := b\<rparr>"
    "gasp_sessions m1 = (if right then (gasp_sessions ?m)[i := \<lparr>gs_status = GASP_STATUS_AUTH, gs_addr = a, gs_key = session_key n\<rparr>]
       else gasp_sessions ?m)" .
  have k: "get_bytes (con_left e (con_log ?c2)) 0 8 = Some (session_key n)"
    using p1(3) by (rule get_bytes_take) (simp add: session_key_def)
  show ?thesis
  proof (rule that [of "asked ?c2 (of_nat i) p2" m1 b])
    show "con_sessionid (asked ?c2 (of_nat i) p2) = of_nat i" by (simp add: asked_def)
    show "gasp_sessions m1 = (gasp_sessions n)[i := \<lparr>gs_status = if right then GASP_STATUS_AUTH else GASP_STATUS_CONNECTED, gs_addr = a, gs_key = session_key n\<rparr>]"
      unfolding r(4) by (simp add: greeted_def)
  qed (use r b k p1(1) assms(5) c1_def in \<open>simp_all add: con_init_def Let_def\<close>)
qed

text \<open>
  A console that is given the supervisor's password (in small or capital letters) is let in by the
  server: the search for a free session, the login key, the answer, the check against the stored hash and
  the information about the server fit together. At the end the session is authenticated for the address of
  the console, the console knows its number, and its copy of the server's name, version and
  table sizes is what the server has.
  This is so in a compiled program that leaves the data of a reply as they were in the stack frame that
  \<^verbatim>\<open>con_get_reply\<close> has left, which C does not promise: \<open>connected\<close> assumes it.
\<close>
lemma console_login:
  assumes "connected e a n" "net_inv n" "store_inv (db (host n))" "free_session (gasp_sessions n) = Some i"
    and "con_typed c = pwd # ts" "no_nul pwd" "length pwd < length (con_pwd c)" "con_sessionid c = 0xffff" "con_log c = []"
    and "store_data (db (host n)) 1 (ascii ''PASSWORD'') = Some h" "16 \<le> length h"
    and "take 16 h = shuffle [0, 0, 0, 1] (uppercase pwd) (length pwd)"
    and "no_nul (conf_servername (host n))" "length (conf_servername (host n)) < 48"
  shows "\<exists>c1 m. con_init e c = Some (Inr c1) \<and> con_sessionid c1 = of_nat i \<and> con_serverinfo c1 = info_of (host n) \<and>
    server_after a n (con_log c1) = Some m \<and>
    gasp_sessions m = (gasp_sessions n)[i := \<lparr>gs_status = GASP_STATUS_AUTH, gs_addr = a, gs_key = session_key n\<rparr>]"
proof -
  note i = session_number [OF assms(2,4)]
  have right: "con_answer (session_key n) (uppercase pwd) = nw_encrypt (session_key n) h"
    using assms(11,12) unfolding con_answer_def by (intro nw_encrypt_cong) (simp_all add: uppercase_def)
  from console_tries [OF assms(1-9), unfolded assms(10) option.case eqTrueI [OF right] if_True] obtain c3 m1 b where t:
    "con_init e c = con_expect (Some \<lparr>gr_type = 0x7777, gr_sessionid = of_nat i, gr_statuscode = GASP_STATUS_OK\<rparr>, c3) (con_learn e)"
    "con_sessionid c3 = of_nat i" "server_after a n (con_log c3) = Some m1" "host m1 = (host n)\<lparr>db := b\<rparr>"
    "gasp_sessions m1 = (gasp_sessions n)[i := \<lparr>gs_status = GASP_STATUS_AUTH, gs_addr = a, gs_key = session_key n\<rparr>]" .
  have pre: "length (conf_servername (host m1)) \<le> 48" "unat (con_sessionid c3) < length (gasp_sessions m1)" "con_sessionid c3 \<noteq> 0xffff"
    "gasp_sessions m1 ! unat (con_sessionid c3) = \<lparr>gs_status = GASP_STATUS_AUTH, gs_addr = a, gs_key = session_key n\<rparr>"
    using assms(14) i by (simp_all add: t(2,4,5))
  from console_info [OF assms(1) t(3) pre, unfolded t(2)] obtain p m2 where q:
    "con_ask e GASP_CMD_GETINFO [] c3 = Some (Some \<lparr>gr_type = 0x7777, gr_sessionid = of_nat i, gr_statuscode = GASP_STATUS_OK\<rparr>, asked c3 (of_nat i) p)"
    "server_after a n (con_log (asked c3 (of_nat i) p)) = Some m2" "gasp_sessions m2 = gasp_sessions m1"
    "get_serverinfo (con_left e (con_log (asked c3 (of_nat i) p))) = Some (info_of (host m1))" .
  have info: "info_of (host m1) = info_of (host n)" by (simp add: t(4) info_of_def nofconns_def)
  have name: "cstr (si_name (info_of (host n))) = Some (conf_servername (host n))" using assms(13,14) by (simp add: info_of_def)
  show ?thesis using q t(5) by (auto simp: t(1) con_expect_def con_learn_def name info log_event_def asked_def)
qed

text \<open>
  A console with a wrong password ends with code 1, but its session stays taken: the goodbye is a
  command, and of a session that waits for its password the server accepts nothing but the password. No
  other event gives the session back, so that eight refused consoles leave no session for a ninth.
\<close>
lemma console_refused_keeps_session:
  assumes "connected e a n" "net_inv n" "store_inv (db (host n))" "free_session (gasp_sessions n) = Some i"
    and "con_typed c = pwd # ts" "no_nul pwd" "length pwd < length (con_pwd c)" "con_sessionid c = 0xffff" "con_log c = []"
    and "\<forall>h. store_data (db (host n)) 1 (ascii ''PASSWORD'') = Some h \<longrightarrow> con_answer (session_key n) (uppercase pwd) \<noteq> nw_encrypt (session_key n) h"
  shows "\<exists>c1 m. con_init e c = Some (Inl (1, c1)) \<and> server_after a n (con_log c1) = Some m \<and>
    gasp_sessions m = (gasp_sessions n)[i := \<lparr>gs_status = GASP_STATUS_CONNECTED, gs_addr = a, gs_key = session_key n\<rparr>]"
proof -
  note i = session_number [OF assms(2,4)]
  have wrong: "(case store_data (db (host n)) 1 (ascii ''PASSWORD'') of None \<Rightarrow> False
    | Some h \<Rightarrow> con_answer (session_key n) (uppercase pwd) = nw_encrypt (session_key n) h) = False"
    using assms(10) by (simp del: ascii_simps split: option.split)
  from console_tries [OF assms(1-9), unfolded wrong if_False] obtain c3 m1 b where t:
    "con_init e c = con_expect (Some \<lparr>gr_type = 0x7777, gr_sessionid = of_nat i, gr_statuscode = GASP_STATUS_BADAUTH\<rparr>, c3) (con_learn e)"
    "con_sessionid c3 = of_nat i" "server_after a n (con_log c3) = Some m1" "host m1 = (host n)\<lparr>db := b\<rparr>"
    "gasp_sessions m1 = (gasp_sessions n)[i := \<lparr>gs_status = GASP_STATUS_CONNECTED, gs_addr = a, gs_key = session_key n\<rparr>]" .
  obtain p where p: "gasp_send_request (of_nat i) GASP_CMD_DISCON [] = Some p" by (simp add: gasp_send_request_def)
  have "gasp_handle_packet p (int (length p)) a m1 = Some (Up (gasp_send_reply a (of_nat i) GASP_STATUS_NOTAUTH [] m1))"
    using gasp_request [OF p, of "[]" a m1] i by (simp add: t(5))
  then show ?thesis using t(2,3,5) p
    by (simp add: t(1) con_expect_def con_fail_def con_done_def con_send_request_def say_def log_event_def gasp_send_reply_def send_out_def)
qed

section \<open>Interfaces\<close>

lemma set_skip_addrs: "IfInfo up nm \<in> set (skip_addrs ms) \<longleftrightarrow> IfInfo up nm \<in> set ms"
  by (induction ms rule: skip_addrs.induct) auto

text \<open>
  A search that succeeds has an address of an interface that was asked for and is on the network asked for, or
  it has nothing: then no interface was asked for, and the address is the one from before.
\<close>

lemma find_loop_nothing:
  "find_loop name sock ms fnd ad = Some (Inr (True, a, None)) \<Longrightarrow>
   fnd \<and> a = ad \<and> (\<forall>up nm. IfInfo up nm \<in> set ms \<longrightarrow> \<not> if_wanted name up nm)"
proof (induction name sock ms fnd ad rule: find_loop.induct)
  case (2 name sock up nm ms fnd ad)
  consider (no) "\<not> if_wanted name up nm"
    | (miss) "if_wanted name up nm" "net_ipxscan (sock nm) (leading_addrs ms) ad = Some None" "\<not> (name = None \<and> IFNAME_SIZE \<le> length nm)"
    using 2(3) by (fastforce simp: Let_def split: if_splits option.splits)
  then show ?case
  proof cases
    case no with 2 show ?thesis by (simp add: Let_def set_skip_addrs)
  next
    case miss
    then have "find_loop name sock (skip_addrs ms) False ad = Some (Inr (True, a, None))" using 2(3) by (auto simp: Let_def split: if_splits)
    with 2(2) [OF refl] miss show ?thesis by (auto split: if_splits)
  qed
qed simp_all

lemma net_init_address:
  assumes "net_init ifname sock (Some ms) server = Some (Inr (a, b))" "cstr ifname = Some s" "s \<noteq> []"
  shows "(\<exists>ps up qs. ms = ps @ IfInfo up s # qs \<and> if_has server (leading_addrs qs) a) \<or>
    (a = server \<and> (\<forall>up. IfInfo up s \<notin> set ms))"
proof -
  from assms obtain r where r: "find_loop (Some s) sock ms True server = Some (Inr (True, a, r))"
    by (cases "find_loop (Some s) sock ms True server")
      (auto simp: net_init_def net_findif_def split: if_splits sum.splits option.splits)
  show ?thesis
  proof (cases r)
    case None
    with find_loop_nothing [of "Some s" sock ms True server a] r show ?thesis by (auto simp: if_wanted_def)
  next
    case (Some nm)
    with find_loop_found [of "Some s" sock ms True server True a nm] r show ?thesis by (auto simp: if_wanted_def)
  qed
qed

text \<open>
  The server starts without its interface: when the configuration names one that the machine does not
  have, the search ends with success, because its mark starts at success and is only changed by an
  interface that was looked at. The start goes on, and the address of the server is what it was before: zero.
\<close>
lemma missing_interface_accepted:
  assumes "cstr ifname = Some s" "s \<noteq> []" "length s < 31"
    and "OtherMessage \<notin> set ms" "\<forall>a xs. ms \<noteq> NewAddr a # xs" "\<forall>up. IfInfo up s \<notin> set ms"
  shows "net_init ifname sock (Some ms) server = Some (Inr (server, ifname))"
proof -
  have "find_loop (Some s) sock ms True server = Some (Inr (True, server, None))"
    by (rule find_loop_none) (use assms(4-6) in \<open>auto simp: if_wanted_def\<close>)
  then show ?thesis using assms(1-3) by (simp add: net_init_def net_findif_def)
qed

lemma missing_interface_accepted_witness:
  "net_init (mkbuf 32 (ascii ''fxp1'')) (\<lambda>_. True) (Some [IfInfo True (ascii ''fxp0''), NewAddr (IpxAddr (demo_addr 1))])
     \<lparr>x_net = (0, 0, 0, 0), x_host = (0, 0, 0, 0, 0, 0), x_port = 0\<rparr> =
   Some (Inr (\<lparr>x_net = (0, 0, 0, 0), x_host = (0, 0, 0, 0, 0, 0), x_port = 0\<rparr>, mkbuf 32 (ascii ''fxp1'')))"
  by (rule missing_interface_accepted [where s = "ascii ''fxp1''"]) (simp_all del: ascii_simps, simp_all)

section \<open>Instances\<close>

text \<open>The console that is connected to a server, as a function.\<close>

definition served_env :: "ipx_addr \<Rightarrow> net \<Rightarrow> cenv" where
  "served_env a n =
     (let reply = (\<lambda>l. case server_after a n l of
                         None \<Rightarrow> None
                       | Some n1 \<Rightarrow> (case out n1 of GaspReply b bs # ds \<Rightarrow> Some (map the bs) | _ \<Rightarrow> None)) in
      \<lparr>con_reply = reply, con_left = (\<lambda>l. drop 5 (the (reply (tl l)))), con_memory = (\<lambda>k. True)\<rparr>)"

lemma connected_served_env: "connected (served_env a n) a n"
  by (auto simp: connected_def served_env_def Let_def map_idI)

definition demo_console :: "bytes \<Rightarrow> con" where
  "demo_console pwd = con_start\<lparr>con_typed := [pwd]\<rparr>"

definition demo_manager :: "bindery \<Rightarrow> net" where
  "demo_manager b = demo_net\<lparr>host := demo_srv\<lparr>conns := conn_init 3, db := b\<rparr>\<rparr>"

lemma demo_manager_inv: "net_inv (demo_manager b)"
  by (rule net_inv_db_only [OF demo_net_inv [of 3]])
    (auto simp: demo_manager_def db_only_def intro!: exI [where x = b])

lemma demo_manager_free: "free_session (gasp_sessions (demo_manager b)) = Some 0"
  by (simp add: demo_manager_def free_session_def zero_session_def numeral_eq_Suc)

lemma demo_password:
  assumes "length x = 128"
  obtains b where "store_inv b" "store_data b 1 (ascii ''PASSWORD'') = Some x"
proof -
  have "store_data demo_db 1 (ascii ''PASSWORD'') = Some (mkbuf 128 [])" by code_simp
  then have k: "store_index demo_db 1 (ascii ''PASSWORD'') \<noteq> None" by (auto simp: store_data_def simp del: ascii_simps)
  have w: "wok demo_db (wn demo_db)" by (simp add: demo_db_def)
  show ?thesis
    by (rule put_prop_store [OF demo_store_inv assms, of 1 "ascii ''PASSWORD''" 1 "ascii ''PASSWORD''"])
      (use k w that in \<open>simp del: ascii_simps\<close>)
qed

lemma console_login_witness:
  "\<exists>b c1 m. con_init (served_env (demo_addr 5) (demo_manager b)) (demo_console (ascii ''Sesame'')) = Some (Inr c1) \<and>
     server_after (demo_addr 5) (demo_manager b) (con_log c1) = Some m \<and> gs_status (gasp_sessions m ! 0) = GASP_STATUS_AUTH \<and>
     si_version (con_serverinfo c1) = 312"
proof -
  obtain b where b: "store_inv b" "store_data b 1 (ascii ''PASSWORD'') = Some (shuffle [0, 0, 0, 1] (uppercase (ascii ''Sesame'')) (length (ascii ''Sesame'')) @ replicate 112 0)"
    by (rule demo_password [of "shuffle [0, 0, 0, 1] (uppercase (ascii ''Sesame'')) (length (ascii ''Sesame'')) @ replicate 112 0"]) simp_all
  have "\<exists>c1 m. con_init (served_env (demo_addr 5) (demo_manager b)) (demo_console (ascii ''Sesame'')) = Some (Inr c1) \<and>
      con_sessionid c1 = of_nat 0 \<and> con_serverinfo c1 = info_of (host (demo_manager b)) \<and>
      server_after (demo_addr 5) (demo_manager b) (con_log c1) = Some m \<and>
      gasp_sessions m = (gasp_sessions (demo_manager b))[0 := \<lparr>gs_status = GASP_STATUS_AUTH, gs_addr = demo_addr 5, gs_key = session_key (demo_manager b)\<rparr>]"
    by (rule console_login [OF connected_served_env demo_manager_inv _ demo_manager_free, where pwd = "ascii ''Sesame''" and ts = "[]"
          and h = "shuffle [0, 0, 0, 1] (uppercase (ascii ''Sesame'')) (length (ascii ''Sesame'')) @ replicate 112 0"])
      (use b in \<open>simp_all add: demo_console_def con_start_def demo_manager_def demo_srv_def del: replicate.simps replicate_Suc\<close>)
  then obtain c1 m where r: "con_init (served_env (demo_addr 5) (demo_manager b)) (demo_console (ascii ''Sesame'')) = Some (Inr c1)"
    "con_serverinfo c1 = info_of (host (demo_manager b))" "server_after (demo_addr 5) (demo_manager b) (con_log c1) = Some m"
    "gasp_sessions m = (gasp_sessions (demo_manager b))[0 := \<lparr>gs_status = GASP_STATUS_AUTH, gs_addr = demo_addr 5, gs_key = session_key (demo_manager b)\<rparr>]"
    by blast
  have "0 < length (gasp_sessions (demo_manager b))" by (simp add: demo_manager_def)
  then have "gs_status (gasp_sessions m ! 0) = GASP_STATUS_AUTH" by (simp add: r(4))
  moreover have "si_version (con_serverinfo c1) = 312" by (simp add: r(2) info_of_def demo_manager_def demo_srv_def)
  ultimately show ?thesis using r(1,3) by blast
qed

text \<open>A server whose bindery is empty refuses everyone.\<close>

lemma console_refused_keeps_session_witness:
  "\<exists>b c1 m. con_init (served_env (demo_addr 5) (demo_manager b)) (demo_console (ascii ''Sesame'')) = Some (Inl (1, c1)) \<and>
     server_after (demo_addr 5) (demo_manager b) (con_log c1) = Some m \<and> gs_status (gasp_sessions m ! 0) = GASP_STATUS_CONNECTED"
proof -
  let ?b = "demo_db\<lparr>net_obj := \<lparr>recs = [], fpos = 0\<rparr>, net_prop := \<lparr>recs = [], fpos = 0\<rparr>, net_val := \<lparr>recs = [], fpos = 0\<rparr>\<rparr>"
  have inv: "store_inv ?b" by (simp add: store_inv_def db_ok_def)
  have no: "store_data ?b 1 (ascii ''PASSWORD'') = None" by (simp add: store_data_def store_index_def prop_index_def del: ascii_simps)
  have "\<exists>c1 m. con_init (served_env (demo_addr 5) (demo_manager ?b)) (demo_console (ascii ''Sesame'')) = Some (Inl (1, c1)) \<and>
      server_after (demo_addr 5) (demo_manager ?b) (con_log c1) = Some m \<and>
      gasp_sessions m = (gasp_sessions (demo_manager ?b))[0 := \<lparr>gs_status = GASP_STATUS_CONNECTED, gs_addr = demo_addr 5, gs_key = session_key (demo_manager ?b)\<rparr>]"
    by (rule console_refused_keeps_session [OF connected_served_env demo_manager_inv _ demo_manager_free, where pwd = "ascii ''Sesame''" and ts = "[]"])
      (use inv no in \<open>simp_all add: demo_console_def con_start_def demo_manager_def del: replicate.simps replicate_Suc\<close>)
  then obtain c1 m where r: "con_init (served_env (demo_addr 5) (demo_manager ?b)) (demo_console (ascii ''Sesame'')) = Some (Inl (1, c1))"
    "server_after (demo_addr 5) (demo_manager ?b) (con_log c1) = Some m"
    "gasp_sessions m = (gasp_sessions (demo_manager ?b))[0 := \<lparr>gs_status = GASP_STATUS_CONNECTED, gs_addr = demo_addr 5, gs_key = session_key (demo_manager ?b)\<rparr>]"
    by blast
  have "0 < length (gasp_sessions (demo_manager ?b))" by (simp add: demo_manager_def)
  then have "gs_status (gasp_sessions m ! 0) = GASP_STATUS_CONNECTED" by (simp add: r(3))
  then show ?thesis using r(1,2) by blast
qed

end
