(* ===== verification/Thm_Server.thy ===== *)
theory Thm_Server
  imports Fr_Samples Fr_Server
begin

text \<open>
  The properties of the server as a whole and of its connections: the table in every reachable state,
  the isolation of the stations, attaching, logging out and timing out.
\<close>

section \<open>All reachable states\<close>

text \<open>
  C1. In every state the server can reach by packets of any sender, answers to the watchdog, cleanups and
  the passing of time, no two connections in use have the address of the same station, except the zero
  address; connection 0 and every unused connection have the zero address; and the arrays of every
  connection, and of its directory and search handles, have their declared sizes.
\<close>
theorem reachable_unique_stations:
  assumes "reachable n s"
  shows "(\<forall>k\<in>set (conns s). length (dh k) = 32 \<and> length (sh k) = 16 \<and> length (fh k) = 64 \<and> length (message k) = 128 \<and>
      length (login_key k) = 8 \<and> (\<forall>h\<in>set (dh k). length (dh_path h) = 256) \<and>
      (\<forall>h\<in>set (sh k). length (sh_path h) = 256 \<and> length (sh_relpath h) = 256)) \<and>
    conns s \<noteq> [] \<and> addr (conns s ! 0) = zero_addr \<and> (\<forall>k\<in>set (conns s). status k = Unused \<longrightarrow> addr k = zero_addr) \<and>
    (\<forall>i<length (conns s). \<forall>j<length (conns s). i \<noteq> j \<and> status (conns s ! i) \<noteq> Unused \<and> status (conns s ! j) \<noteq> Unused \<and>
       \<not> same_station (addr (conns s ! i)) zero_addr \<longrightarrow> \<not> same_station (addr (conns s ! i)) (addr (conns s ! j)))"
proof -
  have inv: "table_inv (conns s)" using reachable_inv [OF assms] by (simp add: conn_inv_def)
  have u: "\<not> same_station (addr (conns s ! i)) (addr (conns s ! j))"
    if "i < length (conns s)" "j < length (conns s)" "i \<noteq> j \<and> status (conns s ! i) \<noteq> Unused \<and> status (conns s ! j) \<noteq> Unused \<and>
      \<not> same_station (addr (conns s ! i)) zero_addr" for i j
    using table_inv_uniq [OF inv that(1,2)] that(3) by (simp add: same_station_of real_station_def)
  have a: "\<forall>k\<in>set (conns s). length (dh k) = 32 \<and> length (sh k) = 16 \<and> length (fh k) = 64 \<and> length (message k) = 128 \<and>
      length (login_key k) = 8 \<and> (\<forall>h\<in>set (dh k). length (dh_path h) = 256) \<and>
      (\<forall>h\<in>set (sh k). length (sh_path h) = 256 \<and> length (sh_relpath h) = 256)"
    using inv by (simp add: table_inv_def conn_ok_def)
  have z: "conns s \<noteq> []" "addr (conns s ! 0) = zero_addr" "\<forall>k\<in>set (conns s). status k = Unused \<longrightarrow> addr k = zero_addr"
    using inv by (auto simp: table_inv_def hd_conv_nth)
  show ?thesis using a z by (intro conjI allI impI, simp_all add: u)
qed

theorem reachable_unique_stations_witness:
  "\<exists>s. reachable 3 s \<and> \<not> same_station (addr (conns s ! 1)) (addr (conns s ! 2)) \<and> addr (conns s ! 0) = zero_addr"
proof -
  obtain s where s: "reachable 3 s" "length (conns s) = 4" "status (conns s ! 1) = Attached" "addr (conns s ! 1) = demo_addr 1"
    "status (conns s ! 2) = Attached" using demo_reachable by blast
  have "\<not> same_station (demo_addr 1) zero_addr" using demo_real [of 1] by (simp add: real_station_def)
  then have "\<not> same_station (addr (conns s ! 1)) (addr (conns s ! 2))"
    by (intro reachable_unique_stations [OF s(1), THEN conjunct2, THEN conjunct2, THEN conjunct2, THEN conjunct2, rule_format])
      (use s in simp_all)
  then show ?thesis using s(1) reachable_unique_stations [OF s(1), THEN conjunct2, THEN conjunct2, THEN conjunct1] by blast
qed

text \<open>
  C16. A request that comes from the zero address with the connection number 0 is served on connection 0 in
  every reachable state, though no station was ever given that connection: only the numbers behind the table and
  the address are compared.
\<close>
theorem zero_station_served:
  assumes "reachable n s" "NCP_REQUEST_SIZE \<le> length p" "be16 (p ! 0, p ! 1) = 0x2222" "p ! 5 = 0" "p ! 3 = 0"
  shows "ncp_handle_packet p (int (length p)) zero_addr s = map_option Running
    (ncp_handle_request 0 (p ! 6) (drop NCP_REQUEST_SIZE p) (int (length p) - 7)
      (s\<lparr>conns := (conns s)[0 := (conns s ! 0)\<lparr>task_no := p ! 4, seq_no := p ! 2, last_time := now s\<rparr>]\<rparr>))"
proof -
  have inv: "conns s \<noteq> []" "addr (conns s ! 0) = zero_addr"
    using reachable_inv [OF assms(1)] by (auto simp: conn_inv_def table_inv_def hd_conv_nth)
  have "p \<noteq> []" "be16 (p ! 0, p ! Suc 0) = 0x2222" using assms(2,3) by auto
  then show ?thesis using assms(2,4,5) inv
    by (simp add: ncp_handle_packet_def load_def Let_def upd_conn_def bind_map_option comp_def map_conv_bind_option del: be16.simps)
qed

theorem zero_station_served_witness:
  "\<exists>s s'. reachable 3 s \<and> ncp_handle_packet [0x22, 0x22, 9, 0, 1, 0, 33] 7 zero_addr s = Some (Running s') \<and>
     (\<exists>r. sent s' = Reply r # sent s \<and> rep_to r = zero_addr \<and> comp_code r = 0)"
proof -
  let ?s = "demo_srv\<lparr>conns := conn_init 3\<rparr>"
  have r: "reachable 3 ?s" by (rule reachable.start) (simp_all add: demo_sys)
  let ?t = "?s\<lparr>conns := (conns ?s)[0 := (conns ?s ! 0)\<lparr>task_no := 1, seq_no := 9, last_time := now ?s\<rparr>]\<rparr>"
  have "conn_init 3 = zero_conn # replicate 3 zero_conn" by (simp add: conn_init_def numeral_eq_Suc)
  then obtain s' r where s': "ncp_handle_request 0 33 [] 0 ?t = Some s'" "sent s' = Reply r # sent ?s" "rep_to r = zero_addr" "comp_code r = 0"
    by (simp add: ncp_handle_request_def request_handler_def ncp_handle_buffersize_def ncp_send_reply_def load_def zero_conn_def)
  have "ncp_handle_packet [0x22, 0x22, 9, 0, 1, 0, 33] 7 zero_addr ?s = Some (Running s')"
    using zero_station_served [OF r, of "[0x22, 0x22, 9, 0, 1, 0, 33]"] s'(1) by simp
  then show ?thesis using r s'(2-4) by blast
qed

section \<open>Requests\<close>

text \<open>
  C6. A request (other than the two of the console operator, 23/209 and 23/210) that returns changes
  no connection but that of the station that sent it, whose address stays; it sends at least one
  packet, and every packet it sends is a reply to that station with its connection, task and sequence
  number.
\<close>
theorem request_isolated:
  assumes "ncp_handle_request c code data sz s = Some s'" "\<not> console_request code data"
  shows "(\<forall>d. d \<noteq> c \<longrightarrow> conns s' ! d = conns s ! d) \<and> length (conns s') = length (conns s) \<and> volumes s' = volumes s \<and>
    addr (conns s' ! c) = addr (conns s ! c) \<and>
    (\<exists>ps. ps \<noteq> [] \<and> sent s' = ps @ sent s \<and> (\<forall>p\<in>set ps. \<exists>r. p = Reply r \<and> rep_to r = addr (conns s ! c) \<and>
       con_no r = of_nat c \<and> rep_seq_no r = seq_no (conns s ! c) \<and> rep_task_no r = task_no (conns s ! c)))"
proof -
  have a: "answered c s s'" using request_answered [OF assms(2)] assms(1) by (rule postD)
  then obtain ps where ps: "sent s' = ps @ sent s" "\<forall>p\<in>set ps. reply_for c (conns s ! c) p"
    by (auto simp: answered_def only_conn_def)
  moreover have "ps \<noteq> []" using a ps(1) by (auto simp: answered_def)
  ultimately show ?thesis using a unfolding answered_def only_conn_def use_ok_def reply_for_def by blast
qed

theorem request_isolated_witness:
  "\<exists>s' ps. ncp_handle_request 1 33 [] 0 demo_srv = Some s' \<and> ps \<noteq> [] \<and> sent s' = ps @ sent demo_srv"
proof -
  have "ncp_handle_request 1 33 [] 0 demo_srv = ncp_handle_buffersize 1 [] 0 demo_srv"
    by (simp add: ncp_handle_request_def request_handler_def)
  then obtain s' where s': "ncp_handle_request 1 33 [] 0 demo_srv = Some s'"
    by (auto simp: ncp_handle_buffersize_def ncp_send_reply_def demo_srv_def demo_conn_def zero_conn_def load_def)
  from request_isolated [OF s'] s' show ?thesis by (simp add: console_request_def) blast
qed

text \<open>
  C4. A packet that names a connection of another station's address, or a connection number outside
  the table, is only answered with the failure code, and changes nothing.
\<close>
theorem foreign_packet_refused:
  assumes "int NCP_REQUEST_SIZE \<le> sz" "NCP_REQUEST_SIZE \<le> length p" "be16 (p ! 0, p ! 1) = 0x2222 \<or> be16 (p ! 0, p ! 1) = 0x5555"
  defines "c \<equiv> unat (p ! 5) * 256 + unat (p ! 3)"
  assumes "nofconns s < c \<or> c < length (conns s) \<and> addr (conns s ! c) \<noteq> from"
  shows "\<exists>r. ncp_handle_packet p sz from s = Some (Running (s\<lparr>sent := Reply r # sent s\<rparr>)) \<and>
    rep_to r = from \<and> comp_code r = CONN_ERROR_FAILURE \<and> rep_data r = []"
proof -
  have ne: "p \<noteq> []" using assms(2) by auto
  have ty: "be16 (p ! 0, p ! 1) = 0x2222 \<or> be16 (p ! 0, p ! Suc 0) = 0x5555" using assms(3) by simp
  have "ncp_handle_packet p sz from s =
      Some (Running (ncp_send_compcode_addr from c (p ! 4) (p ! 2) CONN_ERROR_FAILURE 0 s))"
  proof (cases "nofconns s < c")
    case True
    then show ?thesis using assms(1,2) ne ty
      by (simp add: ncp_handle_packet_def load_def Let_def c_def del: be16.simps)
  next
    case False
    then have "c < length (conns s)" "from \<noteq> addr (conns s ! c)" using assms(5) by auto
    then show ?thesis using assms(1,2) ne ty False
      by (simp add: ncp_handle_packet_def load_def Let_def c_def del: be16.simps)
  qed
  then show ?thesis unfolding ncp_send_compcode_addr_def by (intro exI conjI, assumption) simp_all
qed

theorem foreign_packet_refused_witness:
  "\<exists>r. ncp_handle_packet [0x22, 0x22, 0, 1, 0, 0, 25] 7 (demo_addr 2) demo_srv =
     Some (Running (demo_srv\<lparr>sent := Reply r # sent demo_srv\<rparr>)) \<and> comp_code r = CONN_ERROR_FAILURE"
proof -
  have "addr (conns demo_srv ! 1) \<noteq> demo_addr 2" by (simp add: demo_srv_def demo_conn_def demo_addr_def)
  then show ?thesis
    using foreign_packet_refused [of 7 "[0x22, 0x22, 0, 1, 0, 0, 25]" demo_srv "demo_addr 2"]
    by (fastforce simp: demo_srv_def)
qed

text \<open>A packet shorter than a request header makes the server exit, whoever sends it.\<close>
lemma short_packet_exits:
  "sz < int NCP_REQUEST_SIZE \<Longrightarrow> ncp_handle_packet p sz from s = Some (Exited 1)"
  by (simp add: ncp_handle_packet_def)

lemma short_packet_exits_witness: "ncp_handle_packet [0x22] 1 (demo_addr 9) demo_srv = Some (Exited 1)"
  by (rule short_packet_exits) simp

section \<open>Attaching and logging out\<close>

text \<open>
  C28. A create request of a station gives it its own old connection or the first free one, attached,
  without an object, with the station's address and the present time, and answers with the number of
  that connection; when the table is full the request is ignored.
\<close>
theorem create_connection:
  assumes "conn_inv s" "real_station from" "int NCP_REQUEST_SIZE \<le> sz" "NCP_REQUEST_SIZE \<le> length p" "p ! 0 = 0x11" "p ! 1 = 0x11"
  shows "case attach_slot (Some from) (conns s) of
      None \<Rightarrow> ncp_handle_packet p sz from s = Some (Running s)
    | Some c \<Rightarrow> \<exists>s' k r. ncp_handle_packet p sz from s = Some (Running s') \<and> conns s' = (conns s)[c := k] \<and>
        status k = Attached \<and> addr k = from \<and> c_object_id k = no_id \<and> object_supervisor k = 0 \<and>
        login_time k = now s \<and> last_time k = now s \<and> wdog_time k = 0 \<and>
        sent s' = Reply r # sent s \<and> con_no r = of_nat c \<and> rep_to r = from \<and> comp_code r = 0"
proof (cases "attach_slot (Some from) (conns s)")
  case None
  then show ?thesis using create_conn_eq [OF assms(1), of "from"] create_packet [OF assms(3-6), of "from" s] by simp
next
  case (Some c)
  then obtain s' ok r where s': "ncp_create_conn from s = Some s'" "conns s' = (conns s)[c := attached (Some from) (now s) ok (conns s ! c)]"
    "sent s' = Reply r # sent s" "con_no r = of_nat c" "rep_to r = from" "comp_code r = 0"
    using create_conn_eq [OF assms(1), of "from"] by auto
  then have run: "ncp_handle_packet p sz from s = Some (Running s')" using create_packet [OF assms(3-6), of "from" s] by simp
  let ?k = "attached (Some from) (now s) ok (conns s ! c)"
  have k: "status ?k = Attached \<and> addr ?k = from \<and> c_object_id ?k = no_id \<and> object_supervisor ?k = 0 \<and>
      login_time ?k = now s \<and> last_time ?k = now s \<and> wdog_time ?k = 0" by (simp add: attached_def)
  show ?thesis unfolding Some option.case
    by (rule exI [of _ s'], rule exI [of _ ?k], rule exI [of _ r]) (use run s' k in simp)
qed

theorem create_connection_witness:
  "\<exists>s s' c k. reachable 3 s \<and> ncp_handle_packet [0x11, 0x11, 0, 0, 0, 0, 0] 7 (demo_addr 1) s = Some (Running s') \<and>
     conns s' = (conns s)[c := k] \<and> addr k = demo_addr 1"
proof -
  obtain s where s: "reachable 3 s" "length (conns s) = 4" "addr (conns s ! 1) = demo_addr 1" using demo_reachable by blast
  have "attach_slot (Some (demo_addr 1)) (conns s) = Some 1"
    using s(2,3) by (cases "conns s"; cases "tl (conns s)") (auto simp: attach_slot_def same_station_def)
  then show ?thesis
    using create_connection [OF reachable_inv [OF s(1)] demo_real, of 7 "[0x11, 0x11, 0, 0, 0, 0, 0]" 1] s(1) by auto
qed



text \<open>
  The descriptors of a connection that was never used are all 0: the logout that attaching it
  begins with closes the descriptor 0 sixty-four times.
\<close>
lemma first_attach_closes_stdin:
  assumes "conn_inv s" "c < length (conns s)" "conns s ! c = zero_conn"
  shows "\<exists>s'. conn_logout c s = Some s' \<and> closed s' = replicate 64 0 @ closed s"
proof -
  have "conn_ok (conns s ! c)" "sys_volume_ok s" using assms(1,3) by (auto simp: conn_inv_def)
  from conn_logout_eq [OF assms(2) this] obtain s' where "conn_logout c s = Some s'"
    "closed s' = rev (filter (\<lambda>fd. fd \<noteq> -1) (fh (conns s ! c))) @ closed s" by blast
  then show ?thesis by (simp add: assms(3) zero_conn_def)
qed

lemma first_attach_closes_stdin_witness:
  "\<exists>s'. conn_logout 1 (demo_srv\<lparr>conns := conn_init 3\<rparr>) = Some s' \<and> closed s' = replicate 64 0 @ closed demo_srv"
proof -
  have "conn_inv (demo_srv\<lparr>conns := conn_init 3\<rparr>)" by (rule start_inv [OF _ demo_sys]) simp
  from first_attach_closes_stdin [OF this, of 1] show ?thesis by (simp add: conn_init_def)
qed

section \<open>Idle connections\<close>

text \<open>
  C10. The cleanup looks at every connection but number 0, in order: one in use that has been silent for more
  than 300 seconds is marked when it is not marked yet, and dropped when it is; every other one stays as it
  is. It sends nothing but one question to each connection it marks: a watchdog packet with the
  number of the connection and a question mark, to the port behind that of the station.
\<close>
theorem cleanup_spec:
  assumes "conn_inv s"
  shows "\<exists>s'. conn_cleanup s = Some s' \<and> length (conns s') = length (conns s) \<and> conn_inv s' \<and> conns s' ! 0 = conns s ! 0 \<and>
    (\<forall>j. 0 < j \<longrightarrow> j < length (conns s) \<longrightarrow> conns s' ! j =
       (let k = conns s ! j in
        if status k \<noteq> Unused \<and> last_time k + 300 < now s
        then if wdog_time k = 0 then k\<lparr>wdog_time := now s\<rparr> else zero_conn
        else k)) \<and>
    sent s' = rev (map (\<lambda>j. Watchdog \<lparr>x_net = x_net (addr (conns s ! j)), x_host = x_host (addr (conns s ! j)),
        x_port = x_port (addr (conns s ! j)) + 1\<rparr> (of_nat j) 0x3f)
      (filter (\<lambda>j. status (conns s ! j) \<noteq> Unused \<and> last_time (conns s ! j) + 300 < now s \<and> wdog_time (conns s ! j) = 0)
        [1..<length (conns s)])) @ sent s \<and>
    volumes s' = volumes s \<and> db s' = db s"
  using conn_cleanup_eq [OF assms] by (auto simp: cleaned_def Let_def wdog_questions_def wdog_question_def to_ask_def cong: filter_cong)

theorem cleanup_spec_witness: "\<exists>s s'. reachable 3 s \<and> conn_cleanup s = Some s' \<and> conn_inv s'"
  using demo_reachable cleanup_spec [OF reachable_inv] by blast

text \<open>
  A station whose answer to the watchdog (the sign N) arrives at time t is neither marked nor
  dropped by the next cleanup, if that runs within 300 seconds.
\<close>
lemma watchdog_answer_keeps:
  assumes "conn_inv s" "n < length (conns s)" "n \<le> 255" "same_station (addr (conns s ! n)) from" "real_station from"
    and "now s \<le> t" "t \<le> now s + 300"
  shows "\<exists>s1 s2. wdog_handle_packet [of_nat n, of_char CHR ''N''] 2 from s = Some s1 \<and> conn_cleanup (s1\<lparr>now := t\<rparr>) = Some s2 \<and>
    conns s2 ! n = (conns s ! n)\<lparr>last_time := now s, wdog_time := 0\<rparr>"
proof -
  let ?d = "[of_nat n, of_char CHR ''N''] :: bytes"
  let ?s1 = "upd_conn n (\<lambda>k. k\<lparr>last_time := now s, wdog_time := 0\<rparr>) s"
  have un: "unat (of_nat n :: u8) = n" using assms(3) by (simp add: unat_of_nat)
  have w: "wdog_handle_packet ?d 2 from s = Some ?s1"
    using assms(2,4) un by (simp add: wdog_handle_packet_def load_def nofconns_def)
  have i1: "conn_inv (?s1\<lparr>now := t\<rparr>)"
    using wdog_inv [OF assms(1) w] by (simp add: conn_inv_def sys_volume_ok_def)
  have "addr (conns s ! n) \<noteq> zero_addr" using assms(4,5) by (auto simp: real_station_def same_station_def)
  then have "0 < n" using assms(1) by (cases n) (auto simp: conn_inv_def table_inv_def hd_conv_nth)
  then show ?thesis using conn_cleanup_eq [OF i1] w assms(2,7) by (auto simp: cleaned_def)
qed

lemma watchdog_answer_keeps_witness:
  "\<exists>s s1 s2. reachable 3 s \<and> wdog_handle_packet [1, of_char CHR ''N''] 2 (demo_addr 1) s = Some s1 \<and>
     conn_cleanup (s1\<lparr>now := now s + 10\<rparr>) = Some s2 \<and> wdog_time (conns s2 ! 1) = 0"
proof -
  obtain s where "reachable 3 s" "length (conns s) = 4" "addr (conns s ! 1) = demo_addr 1" using demo_reachable by blast
  then show ?thesis
    using watchdog_answer_keeps [OF reachable_inv, of 3 s 1 "demo_addr 1" "now s + 10"] demo_real [of 1]
    by (fastforce simp: same_station_def)
qed

text \<open>
  A request of a station does not take back the mark that a watchdog has left: a station that was
  marked, went on working and then was silent for more than 300 seconds is dropped by the first
  cleanup, without another watchdog.
\<close>
lemma marked_station_dropped:
  assumes "conn_inv s" "real_station (addr (conns s ! c))" "c < length (conns s)" "wdog_time (conns s ! c) \<noteq> 0"
    and "\<not> console_request (p ! 6) (drop NCP_REQUEST_SIZE p)" "be16 (p ! 0, p ! 1) = 0x2222"
    and "c = unat (p ! 5) * 256 + unat (p ! 3)" "NCP_REQUEST_SIZE \<le> length p"
    and "ncp_handle_packet p (int (length p)) (addr (conns s ! c)) s = Some (Running s1)" "now s + 300 < t"
  shows "\<exists>s2. conn_cleanup (s1\<lparr>now := t\<rparr>) = Some s2 \<and> conns s2 ! c = zero_conn"
proof -
  let ?k = "conns s ! c"
  let ?t = "upd_conn c (\<lambda>k. k\<lparr>task_no := p ! 4, seq_no := p ! 2, last_time := now s\<rparr>) s"
  have ne: "p \<noteq> []" using assms(8) by auto
  have "\<not> nofconns s < c" using assms(3) by (simp add: nofconns_def)
  then have run: "ncp_handle_request c (p ! 6) (drop NCP_REQUEST_SIZE p) (int (length p) - 7) ?t = Some s1"
    using assms(3,6,7,8,9) ne by (simp add: ncp_handle_packet_def load_def Let_def bind_eq_Some_conv del: be16.simps)
  have used: "status ?k \<noteq> Unused"
    using assms(1,2,3) by (auto simp: conn_inv_def table_inv_def real_station_def same_station_def)
  have "use_ok (conns ?t ! c) (conns s1 ! c)"
    using postD [OF request_answered [OF assms(5)] run] by (simp add: answered_def only_conn_def)
  then have k1: "last_time (conns s1 ! c) = now s" "wdog_time (conns s1 ! c) \<noteq> 0" "status (conns s1 ! c) \<noteq> Unused"
    using assms(3,4) used by (auto simp: use_ok_def)
  have "length (conns s1) = length (conns s)"
    using postD [OF request_answered [OF assms(5)] run] by (simp add: answered_def only_conn_def)
  moreover have "conn_inv (s1\<lparr>now := t\<rparr>)"
    using packet_inv [OF assms(1,9)] by (simp add: conn_inv_def sys_volume_ok_def)
  moreover have "0 < c" using assms(1,2)
    by (cases c) (auto simp: conn_inv_def table_inv_def hd_conv_nth real_station_def same_station_def)
  ultimately show ?thesis using conn_cleanup_eq [of "s1\<lparr>now := t\<rparr>"] k1 assms(3,10) by (fastforce simp: cleaned_def)
qed

lemma demo_request:
  assumes "conn_inv s" "length (conns s) = 4" "addr (conns s ! 1) = a"
  shows "\<exists>s1. ncp_handle_packet [0x22, 0x22, 0, 1, 0, 0, 33] 7 a s = Some (Running s1)"
proof -
  have "conn_ok (conns s ! 1)" using assms(1,2) by (simp add: conn_inv_def table_inv_def)
  then have "message (conns s ! 1) \<noteq> []" by (auto simp: conn_ok_def)
  then show ?thesis using assms(2,3)
    by (simp add: ncp_handle_packet_def load_def nofconns_def ncp_handle_request_def request_handler_def
        ncp_handle_buffersize_def ncp_send_reply_def upd_conn_def)
qed

lemma marked_station_dropped_witness:
  "\<exists>s s1 s2 p. conn_inv s \<and> ncp_handle_packet p (int (length p)) (demo_addr 1) s = Some (Running s1) \<and>
     conn_cleanup (s1\<lparr>now := now s + 301\<rparr>) = Some s2 \<and> conns s2 ! 1 = zero_conn"
proof -
  obtain s0 where s0: "reachable 3 s0" "length (conns s0) = 4" "addr (conns s0 ! 1) = demo_addr 1" using demo_reachable by blast
  note i0 = reachable_inv [OF s0(1)]
  let ?s = "upd_conn 1 (\<lambda>k. k\<lparr>wdog_time := 5\<rparr>) s0" and ?p = "[0x22, 0x22, 0, 1, 0, 0, 33] :: bytes"
  have inv: "conn_inv ?s"
    by (rule conn_inv_fields [OF i0 _ refl]) (use i0 s0 in \<open>auto simp: conn_inv_def table_inv_def\<close>)
  obtain s1 where s1: "ncp_handle_packet ?p 7 (demo_addr 1) ?s = Some (Running s1)"
    using demo_request [OF inv] s0 by auto
  obtain s2 where s2: "conn_cleanup (s1\<lparr>now := now ?s + 301\<rparr>) = Some s2" "conns s2 ! 1 = zero_conn"
    using marked_station_dropped [OF inv, of 1 ?p s1 "now ?s + 301"] s0 s1 demo_real
    by (auto simp: console_request_def)
  show ?thesis
    by (rule exI [of _ ?s], rule exI [of _ s1], rule exI [of _ s2], rule exI [of _ ?p]) (use inv s1 s2 in simp)
qed

end
