(* ===== verification/Thm_Login.thy ===== *)
theory Thm_Login
  imports Fr_Samples Fr_Server
begin

text \<open>
  The properties of the requests of \<^verbatim>\<open>ncp_21.c\<close> and \<^verbatim>\<open>ncp_23.c\<close>: logging in, changing a password, the
  rights that bindery requests ask for, and messages.
\<close>

section \<open>Packets as a station builds them\<close>

lemma get_be8_nth [simp]: "i < length data \<Longrightarrow> get_be8 data i = Some (data ! i)"
  by (simp add: get_be8_def)

lemma get_be16_nth [simp]: "Suc i < length data \<Longrightarrow> get_be16 data i = Some (be16 (data ! i, data ! Suc i))"
  by (simp add: get_be16_def load_def del: be16.simps)

lemma ncp_str_mid:
  assumes "no_nul n" "length n < NCP_MAX_FIELD_LEN" "i = length a" "l = length n"
  shows "ncp_str (a @ n @ b) i l = Some n"
  using assms by (simp add: ncp_str_def ncp_field_def)

lemma unat_of_nat8: "n < 256 \<Longrightarrow> unat (of_nat n :: u8) = n"
  by (simp add: unat_of_nat)

lemma uint_of_nat8: "n < 256 \<Longrightarrow> uint (of_nat n :: u8) = int n"
  by (simp add: uint_nat unat_of_nat8)

text \<open>The fields of a login request: the answer to the challenge, the type and the name of the object.\<close>

definition login_data :: "bytes \<Rightarrow> u8 \<Rightarrow> u8 \<Rightarrow> bytes \<Rightarrow> bytes" where
  "login_data key t0 t1 n = key @ [t0, t1, of_nat (length n)] @ n"

lemma login_data_fields:
  assumes "length key = 8" "no_nul n" "length n < 256"
  shows "get_bytes (login_data key t0 t1 n @ r) 0 8 = Some key"
    "get_be16 (login_data key t0 t1 n @ r) 8 = Some (be16 (t0, t1))"
    "get_be8 (login_data key t0 t1 n @ r) 10 = Some (of_nat (length n))"
    "ncp_str (login_data key t0 t1 n @ r) 11 (length n) = Some n"
proof -
  show "get_bytes (login_data key t0 t1 n @ r) 0 8 = Some key" using assms by (simp add: get_bytes_def login_data_def)
  show "get_be16 (login_data key t0 t1 n @ r) 8 = Some (be16 (t0, t1))" "get_be8 (login_data key t0 t1 n @ r) 10 = Some (of_nat (length n))"
    using assms by (simp_all add: login_data_def nth_append del: be16.simps)
  show "ncp_str (login_data key t0 t1 n @ r) 11 (length n) = Some n"
    using ncp_str_mid [of n 11 "key @ [t0, t1, of_nat (length n)]" "length n" r] assms by (simp add: login_data_def)
qed

section \<open>Searches and replies\<close>

text \<open>What a state keeps when only the streams of the bindery move.\<close>

lemma seeks_get_conn: "seeks s t \<Longrightarrow> get_conn c t = get_conn c s"
  by (simp add: get_conn_def seeks_fields)

lemma verify_pwd_eq:
  assumes "db_ok (db s)"
  shows "\<exists>t. on_db (bind_verify_pwd i pwd key) s = Some
      (case store_data (db s) i (ascii ''PASSWORD'') of None \<Rightarrow> -1
       | Some h \<Rightarrow> if take 8 pwd = nw_encrypt key h then 0 else -1, t) \<and> seeks s t"
proof -
  obtain b' where b': "same_recs (db s) b'" "wok b' = wok (db s)" "wn b' = wn (db s)"
    "bindio_read_prop i (ascii ''PASSWORD'') 1 (db s) = Some (case store_index (db s) i (ascii ''PASSWORD'') of None \<Rightarrow> Inl BINDERY_ERROR_NOSUCHPROPERTY
       | Some l \<Rightarrow> Inr (bindio_conv_val (recs (net_val (db s)) ! l),
           prop_of (recs (net_prop (db s)) ! the (prop_index (db s) i (ascii ''PASSWORD'')))), b')"
    using bindio_read_prop_eq [OF assms, of i "ascii ''PASSWORD''" 1] by blast
  then have "on_db (bind_verify_pwd i pwd key) s = Some
      (case store_data (db s) i (ascii ''PASSWORD'') of None \<Rightarrow> -1
       | Some h \<Rightarrow> if take 8 pwd = nw_encrypt key h then 0 else -1, s\<lparr>db := b'\<rparr>)"
    by (simp add: on_db_def bind_verify_pwd_def store_data_def del: ascii_simps split: option.splits)
  then show ?thesis using seeks_db [OF b'(1-3)] by blast
qed

lemma supervisor_eq:
  assumes "db_ok (db s)"
  shows "\<exists>t. bind_obj_is_supervisor i s = Some
      (if i = 1 \<or> set_answer (db s) i (ascii ''SECURITY_EQUALS'') 1 = BINDERY_ERROR_OK then 0 else -1, t) \<and> seeks s t"
  using objinset_null [OF assms, of 0 i "ascii ''SECURITY_EQUALS''" 0 1]
  by (auto simp: bind_obj_is_supervisor_def bind_is_objinset_def simp del: ascii_simps)

text \<open>The reply of a state whose connection \<open>c\<close> has its message array.\<close>

lemma send_runs:
  assumes "c < length (conns s)" "message (conns s ! c) \<noteq> []"
  shows "\<exists>r. ncp_send_reply c d e s = Some (s\<lparr>sent := Reply r # sent s\<rparr>) \<and> rep_to r = addr (conns s ! c) \<and>
    comp_code r = e \<and> rep_data r = d"
proof -
  let ?k = "conns s ! c"
  let ?r = "\<lparr>rep_to = addr ?k, con_no = of_nat c, rep_reserved = of_nat (c div 256), rep_task_no = task_no ?k,
      rep_seq_no = seq_no ?k, comp_code = e,
      conn_stat = (if down_flag s then 0x8 else 0) OR (if message ?k ! 0 \<noteq> 0 then 0x40 else 0), rep_data = d\<rparr>"
  have "ncp_send_reply c d e s = Some (s\<lparr>sent := Reply ?r # sent s\<rparr>)" using assms by (simp add: ncp_send_reply_def load_def)
  then show ?thesis by (intro exI [of _ ?r]) simp
qed

section \<open>Logging in\<close>

text \<open>The three ways a login goes on when its object was looked up.\<close>

lemma keyedlogin_run:
  assumes "length key = 8" "no_nul n" "length n < 256" "on_db (bindio_scan_object n (be16 (t0, t1))) s = Some (x, s1)"
  shows "ncp_handle_keyedlogin c (login_data key t0 t1 n) (12 + int (length n)) s =
     (case x of None \<Rightarrow> ncp_send_compcode c BINDERY_ERROR_NOSUCHOBJECT s1
      | Some (_, ob) \<Rightarrow> do {
              k \<leftarrow> get_conn c s1;
              (v, s2) \<leftarrow> on_db (bind_verify_pwd (ob_id ob) key (login_key k)) s1;
              (if v < 0 then ncp_send_compcode c BINDERY_ERROR_BADPASSWORD s2
               else do {
                 let s3 = upd_conn c (\<lambda>k. k\<lparr>status := LoggedIn, c_object_id := ob_id ob, c_object_type := be16 (t0, t1)\<rparr>) s2;
                 (r, s4) \<leftarrow> bind_obj_is_supervisor (ob_id ob) s3;
                 ncp_send_compcode c 0 (upd_conn c (\<lambda>k. k\<lparr>object_supervisor := (if r < 0 then 0 else 1)\<rparr>) s4)
               })
            })"
  using login_data_fields [OF assms(1-3), of t0 t1 "[]", simplified append_Nil2] assms(3,4)
  by (simp add: ncp_handle_keyedlogin_def require_def unat_of_nat8 uint_of_nat8 del: be16.simps)

text \<open>The connection that is logged in, when its privileges were looked up.\<close>

lemma logged_in_conn:
  assumes "db_ok (db s)" "seeks s s2" "c < length (conns s)"
  obtains s4 where "bind_obj_is_supervisor oid (upd_conn c (\<lambda>k. k\<lparr>status := LoggedIn, c_object_id := oid, c_object_type := ty\<rparr>) s2) =
      Some (if oid = 1 \<or> set_answer (db s) oid (ascii ''SECURITY_EQUALS'') 1 = BINDERY_ERROR_OK then 0 else -1, s4)"
    "sent s4 = sent s" "conns s4 = (conns s)[c := (conns s ! c)\<lparr>status := LoggedIn, c_object_id := oid, c_object_type := ty\<rparr>]"
proof -
  let ?s3 = "upd_conn c (\<lambda>k. k\<lparr>status := LoggedIn, c_object_id := oid, c_object_type := ty\<rparr>) s2"
  note q2 = seeks_fields [OF assms(2)]
  obtain s4 where s4: "bind_obj_is_supervisor oid ?s3 = Some
      (if oid = 1 \<or> set_answer (db s) oid (ascii ''SECURITY_EQUALS'') 1 = BINDERY_ERROR_OK then 0 else -1, s4)" "seeks ?s3 s4"
    using supervisor_eq [of ?s3 oid] q2 assms(1) by (auto simp: set_answer_def)
  have "conns s4 = (conns s)[c := (conns s ! c)\<lparr>status := LoggedIn, c_object_id := oid, c_object_type := ty\<rparr>]" "sent s4 = sent s"
    using q2 seeks_fields [OF s4(2)] by (simp_all add: upd_conn_def)
  then show thesis using that s4(1) by blast
qed

text \<open>
  C2. A login request names an object of the bindery and carries an answer to the challenge of the
  connection. An object that does not exist, one without a password property, and a wrong answer are
  refused and leave every connection as it is. With the right answer the connection, and no other, is
  logged in as that object; it is a supervisor when the object is the supervisor or security
  equivalent to it.
\<close>
theorem keyed_login:
  fixes t0 t1 :: u8
  assumes inv: "db_ok (db s)" and c: "c < length (conns s)" "conn_ok (conns s ! c)"
    and p: "length key = 8" "no_nul n" "length n < 256"
  defines "i \<equiv> obj_id_of (db s) n (be16 (t0, t1))"
  shows "\<exists>s' r. ncp_handle_keyedlogin c (login_data key t0 t1 n) (12 + int (length n)) s = Some s' \<and>
    sent s' = Reply r # sent s \<and> rep_to r = addr (conns s ! c) \<and>
    (case i of None \<Rightarrow> comp_code r = BINDERY_ERROR_NOSUCHOBJECT \<and> conns s' = conns s
     | Some i \<Rightarrow>
         if \<exists>h. store_data (db s) i (ascii ''PASSWORD'') = Some h \<and> key = nw_encrypt (login_key (conns s ! c)) h
         then comp_code r = 0 \<and> conns s' = (conns s)[c := (conns s ! c)\<lparr>status := LoggedIn, c_object_id := i,
             c_object_type := be16 (t0, t1),
             object_supervisor := (if i = 1 \<or> set_answer (db s) i (ascii ''SECURITY_EQUALS'') 1 = BINDERY_ERROR_OK then 1 else 0)\<rparr>]
         else comp_code r = BINDERY_ERROR_BADPASSWORD \<and> conns s' = conns s)"
proof -
  let ?k = "conns s ! c" and ?sup = "\<lambda>oid. oid = 1 \<or> set_answer (db s) oid (ascii ''SECURITY_EQUALS'') 1 = BINDERY_ERROR_OK"
  have m: "message ?k \<noteq> []" using c(2) by (auto simp: conn_ok_def)
  obtain x s1 where s1: "on_db (bindio_scan_object n (be16 (t0, t1))) s = Some (x, s1)" "seeks s s1"
    "map_option (\<lambda>(_, ob). ob_id ob) x = i"
    using on_db_scan_object [OF inv] unfolding i_def by blast
  note run = keyedlogin_run [OF p s1(1), of c] and q1 = seeks_fields [OF s1(2)]
  show ?thesis
  proof (cases i)
    case None
    then have "x = None" using s1(3) by simp
    then show ?thesis using run None send_runs [of c s1 "[]" BINDERY_ERROR_NOSUCHOBJECT] q1 c m
      by (auto simp: ncp_send_compcode_def)
  next
    case (Some oid)
    then obtain rc ob where x: "x = Some (rc, ob)" "ob_id ob = oid" using s1(3) by auto
    let ?h = "store_data (db s) oid (ascii ''PASSWORD'')"
    obtain s2 where s2: "on_db (bind_verify_pwd oid key (login_key ?k)) s1 = Some
        (case ?h of None \<Rightarrow> -1 | Some h \<Rightarrow> if take 8 key = nw_encrypt (login_key ?k) h then 0 else -1, s2)" "seeks s1 s2"
      using verify_pwd_eq [of s1 oid key "login_key ?k"] q1 inv by auto
    note s02 = seeks_trans [OF s1(2) s2(2)] note q2 = seeks_fields [OF s02]
    have g: "get_conn c s1 = Some ?k" using c q1 by simp
    show ?thesis
    proof (cases "\<exists>h. ?h = Some h \<and> key = nw_encrypt (login_key ?k) h")
      case False
      then have "(case ?h of None \<Rightarrow> -1 | Some h \<Rightarrow> if take 8 key = nw_encrypt (login_key ?k) h then 0 else -1) = (-1 :: int)"
        using p(1) by (auto split: option.splits)
      then show ?thesis using run x g s2(1) False Some send_runs [of c s2 "[]" BINDERY_ERROR_BADPASSWORD] q2 c m
        by (auto simp: ncp_send_compcode_def)
    next
      case True
      then have v: "(case ?h of None \<Rightarrow> -1 | Some h \<Rightarrow> if take 8 key = nw_encrypt (login_key ?k) h then 0 else -1) = (0 :: int)"
        using p(1) by auto
      from logged_in_conn [OF inv s02 c(1), of oid "be16 (t0, t1)"] obtain s4 where s4:
        "bind_obj_is_supervisor oid (upd_conn c (\<lambda>k. k\<lparr>status := LoggedIn, c_object_id := oid, c_object_type := be16 (t0, t1)\<rparr>) s2) = Some (if ?sup oid then 0 else -1, s4)"
        "sent s4 = sent s" "conns s4 = (conns s)[c := ?k\<lparr>status := LoggedIn, c_object_id := oid, c_object_type := be16 (t0, t1)\<rparr>]" .
      let ?s5 = "upd_conn c (\<lambda>k. k\<lparr>object_supervisor := (if (if ?sup oid then 0 else -1 :: int) < 0 then 0 else 1)\<rparr>) s4"
      have "conns ?s5 = (conns s)[c := ?k\<lparr>status := LoggedIn, c_object_id := oid, c_object_type := be16 (t0, t1), object_supervisor := (if ?sup oid then 1 else 0)\<rparr>]"
        "sent ?s5 = sent s" using c s4(2,3) by (simp_all add: upd_conn_def)
      then show ?thesis using run x g s2(1) v s4(1) True Some send_runs [of c ?s5 "[]" 0] c m
        by (auto simp: ncp_send_compcode_def Let_def simp del: be16.simps ascii_simps)
    qed
  qed
qed

lemma demo_facts:
  "db_ok (db demo_srv)" "2 < length (conns demo_srv)" "conns demo_srv ! 2 = demo_conn 2 7 0" "login_key (demo_conn i j v) = replicate 8 0"
  using bind_invD(2) [OF demo_bind_inv] by (simp_all add: demo_srv_def demo_conn_def zero_conn_def)

lemma demo_objects:
  "obj_id_of demo_db (ascii ''SUP'') 1 = Some 1" "store_data demo_db 1 (ascii ''PASSWORD'') = Some (mkbuf 128 [])"
  by code_simp+

theorem keyed_login_witness:
  "\<exists>s' r. ncp_handle_keyedlogin 2 (login_data (nw_encrypt (replicate 8 0) (mkbuf 128 [])) 0 1 (ascii ''SUP'')) 15 demo_srv = Some s' \<and>
     sent s' = Reply r # sent demo_srv \<and> comp_code r = 0 \<and> c_object_id (conns s' ! 2) = 1"
proof -
  let ?key = "nw_encrypt (replicate 8 0) (mkbuf 128 [])" and ?n = "ascii ''SUP''"
  have l: "length ?n = 3" "no_nul ?n" and d: "db demo_srv = demo_db" and b: "be16 (0, 1) = 1" by (simp_all add: demo_srv_def)
  have k: "conn_ok (conns demo_srv ! 2)" by (simp add: demo_facts demo_conn_ok)
  obtain s' r where a: "ncp_handle_keyedlogin 2 (login_data ?key 0 1 ?n) (12 + int (length ?n)) demo_srv = Some s'"
    "sent s' = Reply r # sent demo_srv"
    and c: "case obj_id_of (db demo_srv) ?n (be16 (0, 1)) of None \<Rightarrow> comp_code r = BINDERY_ERROR_NOSUCHOBJECT \<and> conns s' = conns demo_srv
      | Some i \<Rightarrow>
         if \<exists>h. store_data (db demo_srv) i (ascii ''PASSWORD'') = Some h \<and> ?key = nw_encrypt (login_key (conns demo_srv ! 2)) h
         then comp_code r = 0 \<and> conns s' = (conns demo_srv)[2 := (conns demo_srv ! 2)\<lparr>status := LoggedIn, c_object_id := i,
             c_object_type := be16 (0, 1),
             object_supervisor := (if i = 1 \<or> set_answer (db demo_srv) i (ascii ''SECURITY_EQUALS'') 1 = BINDERY_ERROR_OK then 1 else 0)\<rparr>]
         else comp_code r = BINDERY_ERROR_BADPASSWORD \<and> conns s' = conns demo_srv"
    using keyed_login [OF demo_facts(1,2) k, of ?key ?n 0 1] l by (simp del: ascii_simps be16.simps) blast
  have "comp_code r = 0 \<and> c_object_id (conns s' ! 2) = 1"
    using c demo_facts(2) unfolding d b demo_objects(1) by (simp add: demo_objects demo_facts del: ascii_simps)
  then show ?thesis using a l(1) by auto
qed

section \<open>Changing a password\<close>

lemma read_prop_on_db:
  assumes "db_ok (db s)" "store_data (db s) i n = Some h"
  shows "\<exists>v p t. on_db (bindio_read_prop i n 1) s = Some (Inr (v, p), t) \<and> vl_data v = h \<and> seeks s t \<and>
    p = prop_of (recs (net_prop (db s)) ! the (prop_index (db s) i n))"
proof -
  obtain l where l: "store_index (db s) i n = Some l" "h = val_data (recs (net_val (db s)) ! l)"
    using assms(2) by (auto simp: store_data_def)
  obtain b' where b': "same_recs (db s) b'" "wok b' = wok (db s)" "wn b' = wn (db s)"
    "bindio_read_prop i n 1 (db s) = Some (Inr (bindio_conv_val (recs (net_val (db s)) ! l),
           prop_of (recs (net_prop (db s)) ! the (prop_index (db s) i n))), b')"
    using bindio_read_prop_eq [OF assms(1), of i n 1] l(1) by auto
  then have "on_db (bindio_read_prop i n 1) s = Some (Inr (bindio_conv_val (recs (net_val (db s)) ! l),
           prop_of (recs (net_prop (db s)) ! the (prop_index (db s) i n))), s\<lparr>db := b'\<rparr>)"
    by (simp add: on_db_def)
  then show ?thesis using seeks_db [OF b'(1-3)] l(2) by (auto simp: bindio_conv_val_def)
qed







section \<open>Reading a property\<close>

text \<open>The fields of a request to read a property.\<close>

definition prop_data :: "u8 \<Rightarrow> u8 \<Rightarrow> bytes \<Rightarrow> u8 \<Rightarrow> bytes \<Rightarrow> bytes" where
  "prop_data t0 t1 n seg pn = [t0, t1, of_nat (length n)] @ n @ [seg, of_nat (length pn)] @ pn"

lemma prop_data_fields:
  assumes "no_nul n" "length n < 256" "no_nul pn" "length pn < 256"
  shows "get_be16 (prop_data t0 t1 n seg pn) 0 = Some (be16 (t0, t1))"
    "get_be8 (prop_data t0 t1 n seg pn) 2 = Some (of_nat (length n))"
    "ncp_str (prop_data t0 t1 n seg pn) 3 (length n) = Some n"
    "get_be8 (prop_data t0 t1 n seg pn) (3 + length n) = Some seg"
    "get_be8 (prop_data t0 t1 n seg pn) (Suc (3 + length n)) = Some (of_nat (length pn))"
    "ncp_str (prop_data t0 t1 n seg pn) (Suc (Suc (3 + length n))) (length pn) = Some pn"
proof -
  let ?h = "[t0, t1, of_nat (length n)] :: bytes"
  show "get_be16 (prop_data t0 t1 n seg pn) 0 = Some (be16 (t0, t1))"
    "get_be8 (prop_data t0 t1 n seg pn) 2 = Some (of_nat (length n))"
    "get_be8 (prop_data t0 t1 n seg pn) (3 + length n) = Some seg"
    "get_be8 (prop_data t0 t1 n seg pn) (Suc (3 + length n)) = Some (of_nat (length pn))"
    by (simp_all add: prop_data_def nth_append del: be16.simps)
  show "ncp_str (prop_data t0 t1 n seg pn) 3 (length n) = Some n"
    using ncp_str_mid [of n 3 ?h "length n" "[seg, of_nat (length pn)] @ pn"] assms by (simp add: prop_data_def)
  show "ncp_str (prop_data t0 t1 n seg pn) (Suc (Suc (3 + length n))) (length pn) = Some pn"
    using ncp_str_mid [of pn "5 + length n" "?h @ n @ [seg, of_nat (length pn)]" "length pn" "[]"] assms
    by (simp add: prop_data_def)
qed

text \<open>The security byte that the store keeps for a property.\<close>

definition prop_sec :: "bindery \<Rightarrow> u32 \<Rightarrow> bytes \<Rightarrow> u8" where
  "prop_sec b i n = pr_security (prop_of (recs (net_prop b) ! the (prop_index b i n)))"

text \<open>
  A request for a property of an existing object is answered with the stored 128 bytes when the
  access rule of the property allows it, and else with the security error. A property with the
  security 0x44, as the code gives to passwords, is handed to every station.
\<close>
lemma read_property_request:
  fixes t0 t1 :: u8
  assumes inv: "db_ok (db s)" and c: "c < length (conns s)" "conn_ok (conns s ! c)"
    and p: "no_nul n" "length n < 256" "no_nul pn" "length pn < 256"
    and i: "obj_id_of (db s) n (be16 (t0, t1)) = Some i" "store_data (db s) i pn = Some h"
  shows "\<exists>s' r. ncp_handle_readprop c (prop_data t0 t1 n 1 pn) (6 + int (length pn) + int (length n)) s = Some s' \<and>
    sent s' = Reply r # sent s \<and> conns s' = conns s \<and>
    (let sec = prop_sec (db s) i pn AND 0xf; k = conns s ! c
     in if set_answer (db s) i (ascii ''OBJ_SUPERVISORS'') (c_object_id k) = BINDERY_ERROR_OK \<or> access_rule k i sec
        then comp_code r = 0 \<and> rep_data r = map Some (take 128 h @ [0, 0])
        else comp_code r = BINDERY_ERROR_SECURITY \<and> rep_data r = []) \<and>
    (prop_sec (db s) i pn = 0x44 \<longrightarrow> comp_code r = 0)"
proof -
  let ?d = "prop_data t0 t1 n 1 pn" and ?k = "conns s ! c" and ?sec = "prop_sec (db s) i pn"
  let ?ok = "set_answer (db s) i (ascii ''OBJ_SUPERVISORS'') (c_object_id ?k) = BINDERY_ERROR_OK \<or> access_rule ?k i (?sec AND 0xf)"
  note f = prop_data_fields [OF p, of t0 t1 1]
  have m: "message ?k \<noteq> []" using c(2) by (auto simp: conn_ok_def)
  obtain x s1 where s1: "on_db (bindio_scan_object n (be16 (t0, t1))) s = Some (x, s1)" "seeks s s1"
    "map_option (\<lambda>(_, ob). ob_id ob) x = Some i"
    using on_db_scan_object [OF inv] i(1) by metis
  then obtain rc ob where x: "x = Some (rc, ob)" "ob_id ob = i" by auto
  note q1 = seeks_fields [OF s1(2)]
  obtain v pr s2 where s2: "on_db (bindio_read_prop i pn 1) s1 = Some (Inr (v, pr), s2)" "vl_data v = h" "seeks s1 s2"
    "pr_security pr = ?sec"
    using read_prop_on_db [of s1 i pn h] inv i(2) q1 seeks_recs [OF s1(2)] by (auto simp: prop_sec_def)
  have q2: "seeks s s2" using seeks_trans [OF s1(2) s2(3)] .
  note q2f = seeks_fields [OF q2]
  obtain s3 where s3: "bind_check_access c i ?sec 0 s2 = Some (if ?ok then 0 else -1, s3)" "seeks s2 s3"
    using bind_check_access_eq [of s2 c i ?sec 0] q2f c inv by (auto simp: set_answer_def)
  note q3 = seeks_fields [OF seeks_trans [OF q2 s3(2)]]
  have run: "ncp_handle_readprop c ?d (6 + int (length pn) + int (length n)) s =
      (if ?ok then ncp_send_reply c (map Some (take 128 h @ [0, 0])) 0 s3 else ncp_send_compcode c BINDERY_ERROR_SECURITY s3)"
    using f s1(1) x s2 s3(1) p(2,4)
    by (simp add: ncp_handle_readprop_def require_def Let_def unat_of_nat8 uint_of_nat8 del: be16.simps ascii_simps get_be8_nth get_be16_nth)
  have open44: "?sec = 0x44 \<Longrightarrow> ?ok" by (simp add: access_rule_def)
  show ?thesis
  proof (cases ?ok)
    case True
    then show ?thesis using run send_runs [of c s3 "map Some (take 128 h @ [0, 0])" 0] q3 c m
      by (auto simp: Let_def simp del: ascii_simps map_append)
  next
    case False
    then show ?thesis using run open44 send_runs [of c s3 "[]" BINDERY_ERROR_SECURITY] q3 c m
      by (auto simp: Let_def ncp_send_compcode_def simp del: ascii_simps)
  qed
qed

text \<open>The user reads the password hash of the supervisor.\<close>

lemma read_property_request_witness:
  "\<exists>s' r. ncp_handle_readprop 2 (prop_data 0 1 (ascii ''SUP'') 1 (ascii ''PASSWORD''))
      (6 + int (length (ascii ''PASSWORD'')) + int (length (ascii ''SUP''))) demo_srv = Some s' \<and>
     sent s' = Reply r # sent demo_srv \<and> comp_code r = 0"
proof -
  have d: "db demo_srv = demo_db" by (simp add: demo_srv_def)
  have l: "no_nul (ascii ''SUP'')" "length (ascii ''SUP'') < 256" "no_nul (ascii ''PASSWORD'')" "length (ascii ''PASSWORD'') < 256"
    by simp_all
  have k: "conn_ok (conns demo_srv ! 2)" by (simp add: demo_facts demo_conn_ok)
  have i: "obj_id_of (db demo_srv) (ascii ''SUP'') (be16 (0, 1)) = Some 1"
    "store_data (db demo_srv) 1 (ascii ''PASSWORD'') = Some (mkbuf 128 [])"
    using demo_objects by (simp_all add: d del: ascii_simps)
  have "prop_sec (db demo_srv) 1 (ascii ''PASSWORD'') = 0x44" unfolding d by code_simp
  with read_property_request [OF demo_facts(1,2) k l i] show ?thesis by blast
qed

section \<open>Requests for the supervisor\<close>

text \<open>
  C34. A station that is no supervisor cannot create or delete an object, clear a connection or take the
  server down: the request changes nothing and is answered with one error.
\<close>
theorem non_supervisor_refused:
  assumes c: "c < length (conns s)" "conn_ok (conns s ! c)" "object_supervisor (conns s ! c) = 0"
    and h: "h \<in> {ncp_handle_createobj, ncp_handle_deleteobj, ncp_handle_clearconn, ncp_handle_downserver}"
    and run: "h c data sz s = Some s'"
  shows "\<exists>r. s' = s\<lparr>sent := Reply r # sent s\<rparr> \<and> rep_to r = addr (conns s ! c) \<and> rep_data r = [] \<and>
    comp_code r \<in> {NCP_ERROR_WRONGLENGTH, BINDERY_ERROR_SECURITY, CONN_ERROR_NOCONSRIGHTS}"
proof -
  have m: "message (conns s ! c) \<noteq> []" using c(2) by (auto simp: conn_ok_def)
  have "s' \<in> {t. \<exists>e\<in>{NCP_ERROR_WRONGLENGTH, BINDERY_ERROR_SECURITY, CONN_ERROR_NOCONSRIGHTS}. ncp_send_compcode c e s = Some t}"
    using h run c(3)
    by (auto simp: ncp_handle_createobj_def ncp_handle_deleteobj_def ncp_handle_clearconn_def ncp_handle_downserver_def
        require_def bind_eq_Some_conv split: if_splits)
  then obtain e where e: "e \<in> {NCP_ERROR_WRONGLENGTH, BINDERY_ERROR_SECURITY, CONN_ERROR_NOCONSRIGHTS}"
    "ncp_send_compcode c e s = Some s'" by blast
  with send_runs [OF c(1) m, of "[]" e] show ?thesis by (auto simp: ncp_send_compcode_def)
qed

theorem non_supervisor_refused_witness:
  "\<exists>r. demo_srv\<lparr>sent := Reply r # sent demo_srv\<rparr> \<noteq> demo_srv \<and> comp_code r = CONN_ERROR_NOCONSRIGHTS \<and>
     ncp_handle_clearconn 2 [1] 2 demo_srv = Some (demo_srv\<lparr>sent := Reply r # sent demo_srv\<rparr>)"
proof -
  have k: "conn_ok (conns demo_srv ! 2)" "object_supervisor (conns demo_srv ! 2) = 0"
    by (simp_all add: demo_facts demo_conn_ok) (simp add: demo_conn_def)
  have m: "message (conns demo_srv ! 2) \<noteq> []" using k(1) by (auto simp: conn_ok_def)
  obtain r where r: "ncp_handle_clearconn 2 [1] 2 demo_srv = Some (demo_srv\<lparr>sent := Reply r # sent demo_srv\<rparr>)"
    "comp_code r = CONN_ERROR_NOCONSRIGHTS"
    using send_runs [OF demo_facts(2) m, of "[]" CONN_ERROR_NOCONSRIGHTS] k(2) demo_facts(2)
    by (auto simp: ncp_handle_clearconn_def require_def ncp_send_compcode_def)
  have "\<exists>r'. demo_srv\<lparr>sent := Reply r # sent demo_srv\<rparr> = demo_srv\<lparr>sent := Reply r' # sent demo_srv\<rparr>"
    using non_supervisor_refused [OF demo_facts(2) k, of ncp_handle_clearconn] r(1) by blast
  moreover have "sent (demo_srv\<lparr>sent := Reply r # sent demo_srv\<rparr>) \<noteq> sent demo_srv" by simp
  ultimately show ?thesis using r by metis
qed

section \<open>Messages\<close>

text \<open>
  A message stored for a connection is handed over unchanged, with its length, at the next request
  for it; the one after that returns an empty message.
\<close>
lemma message_delivered:
  assumes j: "j < length (conns s)" "conn_ok (conns s ! j)" and m: "no_nul m" "length m < CONN_MAX_MSG_LEN"
  shows "\<exists>s1 s2 s3 r r'. put_message j m s = Some s1 \<and> ncp_handle_getmsg j data 1 s1 = Some s2 \<and>
    sent s2 = Reply r # sent s \<and> rep_to r = addr (conns s ! j) \<and> rep_data r = map Some (of_nat (length m) # m) \<and>
    ncp_handle_getmsg j data 1 s2 = Some s3 \<and> sent s3 = Reply r' # sent s2 \<and> rep_data r' = [Some 0]"
proof -
  let ?k = "conns s ! j"
  have l: "length (message ?k) = CONN_MAX_MSG_LEN" using j(2) by (simp add: conn_ok_def)
  obtain b where b: "strcpy (message ?k) m = Some b" using l m(2) by (simp add: strcpy_def)
  have cb: "cstr b = Some m" "length b = CONN_MAX_MSG_LEN"
    using cstr_strcpy [OF b m(1)] length_strcpy [OF b] l by simp_all
  let ?s1 = "upd_conn j (\<lambda>k. k\<lparr>message := b\<rparr>) s" and ?clear = "\<lambda>k. k\<lparr>message := (message k)[0 := 0]\<rparr>"
  have k1: "conns ?s1 ! j = ?k\<lparr>message := b\<rparr>" "j < length (conns ?s1)" using j by simp_all
  let ?t1 = "upd_conn j ?clear ?s1"
  have k1c: "conns ?t1 ! j = ?k\<lparr>message := b[0 := 0]\<rparr>" "j < length (conns ?t1)" using j by simp_all
  have ne: "b[0 := 0] \<noteq> []" "cstr (b[0 := 0]) = Some []" using cb(2) by (cases b; simp)+
  obtain r where r: "ncp_send_reply j (map Some (of_nat (length m) # m)) 0 ?t1 = Some (?t1\<lparr>sent := Reply r # sent s\<rparr>)"
    "rep_to r = addr ?k" "rep_data r = map Some (of_nat (length m) # m)"
    using send_runs [of j ?t1 "map Some (of_nat (length m) # m)" 0] k1c ne by auto
  let ?s2 = "?t1\<lparr>sent := Reply r # sent s\<rparr>" and ?t2 = "upd_conn j ?clear (?t1\<lparr>sent := Reply r # sent s\<rparr>)"
  have k2: "conns ?s2 ! j = ?k\<lparr>message := b[0 := 0]\<rparr>" "j < length (conns ?s2)" using k1c by simp_all
  have k2c: "conns ?t2 ! j = ?k\<lparr>message := b[0 := 0]\<rparr>" "j < length (conns ?t2)" using j by simp_all
  obtain r' where r': "ncp_send_reply j [Some 0] 0 ?t2 = Some (?t2\<lparr>sent := Reply r' # sent ?t2\<rparr>)" "rep_data r' = [Some 0]"
    using send_runs [of j ?t2 "[Some 0]" 0] k2c ne by auto
  have "put_message j m s = Some ?s1" using j b by (simp add: put_message_def)
  moreover have "ncp_handle_getmsg j data 1 ?s1 = Some ?s2"
    using k1 cb r(1) by (simp add: ncp_handle_getmsg_def require_def)
  moreover have "ncp_handle_getmsg j data 1 ?s2 = Some (?t2\<lparr>sent := Reply r' # sent ?t2\<rparr>)"
    using k2 ne r'(1) by (simp add: ncp_handle_getmsg_def require_def)
  ultimately show ?thesis using r r' by (intro exI [of _ ?s1] exI [of _ ?s2] exI [of _ "?t2\<lparr>sent := Reply r' # sent ?t2\<rparr>"]
      exI [of _ r] exI [of _ r']) simp
qed

lemma message_delivered_witness:
  "\<exists>s1 s2 r. put_message 2 (ascii ''HI'') demo_srv = Some s1 \<and> ncp_handle_getmsg 2 [] 1 s1 = Some s2 \<and>
     sent s2 = Reply r # sent demo_srv \<and> rep_data r = map Some (2 # ascii ''HI'')"
proof -
  have "conn_ok (conns demo_srv ! 2)" by (simp add: demo_facts demo_conn_ok)
  from message_delivered [OF demo_facts(2) this, of "ascii ''HI''" "[]"] show ?thesis by auto
qed

text \<open>Storing a message for the same connection again and again changes nothing after the first time.\<close>

lemma put_messages_same:
  assumes "js \<noteq> []" "\<forall>j\<in>set js. j = c" "c < length (conns s)" "length m < length (message (conns s ! c))"
  shows "\<exists>b. put_messages js m s = Some (upd_conn c (\<lambda>k. k\<lparr>message := b\<rparr>) s) \<and> length b = length (message (conns s ! c)) \<and>
    take (Suc (length m)) b = m @ [0]"
  using assms
proof (induction js arbitrary: s)
  case (Cons j js)
  let ?k = "conns s ! c"
  obtain b where b: "strcpy (message ?k) m = Some b" using Cons.prems(4) by (simp add: strcpy_def)
  have lb: "length b = length (message ?k)" "take (Suc (length m)) b = m @ [0]"
    using length_strcpy [OF b] b by (auto simp: strcpy_def split: if_splits)
  let ?s1 = "upd_conn c (\<lambda>k. k\<lparr>message := b\<rparr>) s"
  have p: "put_message j m s = Some ?s1" using Cons.prems b by (simp add: put_message_def)
  show ?case
  proof (cases "js = []")
    case True
    then show ?thesis using p lb by auto
  next
    case False
    obtain b' where b': "put_messages js m ?s1 = Some (upd_conn c (\<lambda>k. k\<lparr>message := b'\<rparr>) ?s1)"
      "length b' = length b" "take (Suc (length m)) b' = m @ [0]"
      using Cons.IH [of ?s1] Cons.prems False lb by auto
    have "upd_conn c (\<lambda>k. k\<lparr>message := b'\<rparr>) ?s1 = upd_conn c (\<lambda>k. k\<lparr>message := b'\<rparr>) s"
      by (simp add: upd_conn_upd_conn)
    then show ?thesis using p b' lb by auto
  qed
qed simp

text \<open>
  A message to a list of stations reaches none of them: it is stored for the sender, every other
  connection is left as it is, and the reply reports success for each station.
\<close>
lemma broadcast_to_sender_only:
  assumes c: "c < length (conns s)" "conn_ok (conns s ! c)" and ss: "stations \<noteq> []" "length stations < 256"
    and m: "no_nul m" "length m < CONN_MAX_MSG_LEN"
  shows "\<exists>s' r b. ncp_send_bcast_old c (of_nat (length stations) # stations @ of_nat (length m) # m) 3 s = Some s' \<and>
    sent s' = Reply r # sent s \<and> comp_code r = 0 \<and> rep_data r = map Some (of_nat (length stations) # map (\<lambda>_. 0) stations) \<and>
    conns s' = (conns s)[c := (conns s ! c)\<lparr>message := b\<rparr>] \<and> cstr b = Some m"
proof -
  let ?d = "of_nat (length stations) # stations @ of_nat (length m) # m" and ?k = "conns s ! c"
  have l: "length (message ?k) = CONN_MAX_MSG_LEN" using c(2) by (simp add: conn_ok_def)
  have f: "get_be8 ?d 0 = Some (of_nat (length stations))" "get_bytes ?d 1 (length stations) = Some stations"
    "get_be8 ?d (1 + length stations) = Some (of_nat (length m))"
    "message_field ?d (2 + length stations) (length m) = Some (mkbuf CONN_MAX_MSG_LEN m)"
    using m(2) by (simp_all add: nth_append get_bytes_def message_field_def)
  obtain b where b: "put_messages (map (\<lambda>_. c) stations) m s = Some (upd_conn c (\<lambda>k. k\<lparr>message := b\<rparr>) s)"
    "length b = CONN_MAX_MSG_LEN" "take (Suc (length m)) b = m @ [0]"
    using put_messages_same [of "map (\<lambda>_. c) stations" c s m] ss c l m(2) by auto
  have cb: "cstr b = Some m"
    using cstr_append_nul [OF m(1), of "drop (Suc (length m)) b"] append_take_drop_id [of "Suc (length m)" b] b(3) by simp
  let ?s1 = "upd_conn c (\<lambda>k. k\<lparr>message := b\<rparr>) s"
  have k1: "c < length (conns ?s1)" "message (conns ?s1 ! c) \<noteq> []" using c b(2) by auto
  obtain r where r: "ncp_send_reply c (map Some (of_nat (length stations) # map (\<lambda>_. 0) stations)) 0 ?s1 =
      Some (?s1\<lparr>sent := Reply r # sent ?s1\<rparr>)" "comp_code r = 0" "rep_data r = map Some (of_nat (length stations) # map (\<lambda>_. 0) stations)"
    using send_runs [OF k1] by blast
  have cm: "cstr (mkbuf CONN_MAX_MSG_LEN m) = Some m" using m by simp
  have un: "unat (of_nat (length stations) :: u8) = length stations" "unat (of_nat (length m) :: u8) = length m"
    using ss(2) m(2) by (simp_all add: unat_of_nat8)
  have "ncp_send_bcast_old c ?d 3 s = Some (?s1\<lparr>sent := Reply r # sent ?s1\<rparr>)"
    using f b(1) r(1) ss(1) un cm
    by (simp add: ncp_send_bcast_old_def require_def del: get_be8_nth list.map append_Cons cstr_mkbuf cstr_Cons)
  then show ?thesis using r(2,3) c cb by (auto simp: upd_conn_def)
qed

lemma broadcast_to_sender_only_witness:
  "\<exists>s' r b. ncp_send_bcast_old 2 (1 # [1] @ 2 # ascii ''HI'') 3 demo_srv = Some s' \<and> comp_code r = 0 \<and>
     sent s' = Reply r # sent demo_srv \<and> conns s' = (conns demo_srv)[2 := (conns demo_srv ! 2)\<lparr>message := b\<rparr>] \<and> cstr b = Some (ascii ''HI'')"
proof -
  have "conn_ok (conns demo_srv ! 2)" by (simp add: demo_facts demo_conn_ok)
  from broadcast_to_sender_only [OF demo_facts(2) this, of "[1]" "ascii ''HI''"] show ?thesis by simp blast
qed

section \<open>The size of a subfunction packet\<close>

text \<open>
  The size that a handler of the requests 21, 22 and 23 gets is the size of the packet less the two
  length bytes, modulo 65536, whatever length the client wrote: the high byte of that field is lost,
  and a field that disagrees with the packet is replaced.
\<close>
lemma subfunction_size:
  "sub_size (hi # lo # data) sz = Some ((sz - 2) mod 65536)"
proof -
  have z: "ucast (push_bit 8 hi) = (0 :: u16)"
    by (rule bit_word_eqI) (auto simp: bit_simps)
  have l: "uint lo < 65536" using uint_bounded [of lo] by simp
  then have u: "uint (ucast lo :: u16) = uint lo" by (simp add: unsigned_ucast_eq take_bit_int_eq_self)
  have s: "(sz - 2) mod 65536 = sz - 2" if "uint lo + 2 = sz" using l that by (auto simp: mod_pos_pos_trivial)
  have w: "uint (word_of_int (sz - 2) :: u16) = (sz - 2) mod 65536" by (simp only: unsigned_of_int take_bit_eq_mod) simp
  show ?thesis
    using s w by (cases "uint lo + 2 = sz") (auto simp: sub_size_def load_def z u Let_def simp del: of_int_diff)
qed

text \<open>
  The key of a login request is eight random bytes: the reply holds the bytes that are kept for
  the connection, and nothing else of the connections changes.
\<close>
lemma login_key_handed_out:
  assumes c: "c < length (conns s)" "conn_ok (conns s ! c)"
  shows "\<exists>s' r key. ncp_handle_loginkey c data 1 s = Some s' \<and> sent s' = Reply r # sent s \<and> comp_code r = 0 \<and>
    length key = 8 \<and> rep_data r = map Some key \<and> conns s' = (conns s)[c := (conns s ! c)\<lparr>login_key := key\<rparr>]"
proof -
  obtain key b where k: "random_bytes 8 (db s) = (key, b)" by (cases "random_bytes 8 (db s)")
  let ?s1 = "upd_conn c (\<lambda>k. k\<lparr>login_key := key\<rparr>) (s\<lparr>db := b\<rparr>)"
  have m: "c < length (conns ?s1)" "message (conns ?s1 ! c) \<noteq> []" using c by (auto simp: conn_ok_def)
  obtain r where "ncp_send_reply c (map Some key) 0 ?s1 = Some (?s1\<lparr>sent := Reply r # sent ?s1\<rparr>)" "comp_code r = 0"
    "rep_data r = map Some key"
    using send_runs [OF m] by blast
  then show ?thesis using k length_random_bytes [OF k] c
    by (auto simp: ncp_handle_loginkey_def require_def upd_conn_def)
qed

lemma login_key_handed_out_witness:
  "\<exists>s' r key. ncp_handle_loginkey 2 [] 1 demo_srv = Some s' \<and> sent s' = Reply r # sent demo_srv \<and> length key = 8 \<and>
     rep_data r = map Some key \<and> login_key (conns s' ! 2) = key"
proof -
  have "conn_ok (conns demo_srv ! 2)" by (simp add: demo_facts demo_conn_ok)
  from login_key_handed_out [OF demo_facts(2) this, of "[]"] show ?thesis using demo_facts(2) by auto
qed

end
