(* ===== verification/Thm_Bindery.thy ===== *)
theory Thm_Bindery
  imports Fr_Samples Fr_BinderyDel
begin

text \<open>
  The properties of the bindery: reading and writing properties, adding and deleting, sets, access
  checks and passwords.
\<close>

section \<open>Reading and writing\<close>

text \<open>
  C3. Writing a property of the bindery either fails with an error code and changes no property, or
  succeeds; then reading it gives the bytes written, and every other property reads as before. The
  write succeeds exactly when the property and its value exist and the disk accepts it.
\<close>
theorem write_then_read:
  assumes "store_inv b" "length x = 128" "bindio_write_prop i n 1 0 x b = Some (e, b')"
  shows "(e = BINDERY_ERROR_OK \<longleftrightarrow> store_index b i n \<noteq> None \<and> wok b (wn b)) \<and>
    (\<exists>r b''. bindio_read_prop j m 1 b' = Some (r, b'') \<and>
       (case r of Inl _ \<Rightarrow> None | Inr (v, _) \<Rightarrow> Some (vl_data v)) =
       (if e = BINDERY_ERROR_OK \<and> j = i \<and> take 15 m = take 15 n then Some x else store_data b j m))"
proof
  obtain e1 b1 where w: "bindio_write_prop i n 1 0 x b = Some (e1, b1)" "store_inv b1"
    "e1 = 0 \<longleftrightarrow> store_index b i n \<noteq> None \<and> wok b (wn b)"
    "e1 = 0 \<Longrightarrow> store_data b1 j m = (if j = i \<and> take 15 m = take 15 n then Some x else store_data b j m)"
    "e1 \<noteq> 0 \<Longrightarrow> store_data b1 = store_data b"
    using put_prop_store [OF assms(1,2)] by metis
  then have eq: "e1 = e" "b1 = b'" using assms(3) by auto
  show "e = BINDERY_ERROR_OK \<longleftrightarrow> store_index b i n \<noteq> None \<and> wok b (wn b)" using w(3) eq by simp
  obtain b'' where "get_prop j m b' = Some (store_data b' j m, b'')" using get_prop_store w(2) eq by blast
  then have "\<exists>r b''. bindio_read_prop j m 1 b' = Some (r, b'') \<and>
      (case r of Inl _ \<Rightarrow> None | Inr (v, _) \<Rightarrow> Some (vl_data v)) = store_data b' j m"
    by (auto simp: get_prop_def bind_eq_Some_conv split: sum.splits)
  then show "\<exists>r b''. bindio_read_prop j m 1 b' = Some (r, b'') \<and>
       (case r of Inl _ \<Rightarrow> None | Inr (v, _) \<Rightarrow> Some (vl_data v)) =
       (if e = BINDERY_ERROR_OK \<and> j = i \<and> take 15 m = take 15 n then Some x else store_data b j m)"
    using w(4,5) eq by (cases "e = BINDERY_ERROR_OK") auto
qed

lemma demo_write: "length (demo_set :: bytes) = 128" "\<exists>e b'. bindio_write_prop 1 (ascii ''MEMBERS'') 1 0 demo_set demo_db = Some (e, b')"
  using bindery_files.write_total [OF demo_store_inv, of demo_set 1 "ascii ''MEMBERS''"] by (auto simp: demo_set_def)

theorem write_then_read_witness:
  "\<exists>e b' r b''. bindio_write_prop 1 (ascii ''MEMBERS'') 1 0 demo_set demo_db = Some (e, b') \<and>
    bindio_read_prop 1 (ascii ''PASSWORD'') 1 b' = Some (r, b'')"
  using demo_write write_then_read [OF demo_store_inv demo_write(1), of 1 "ascii ''MEMBERS''" _ _ 1 "ascii ''PASSWORD''"]
  by metis

section \<open>Adding\<close>

lemma obj_index_append:
  assumes "obj_index b n t = None" "recs (net_obj b') = recs (net_obj b) @ [r]" "obj_match n t (obj_of r)"
  shows "obj_index b' n t = Some (length (recs (net_obj b)))"
  using assms by (simp add: obj_index_def first_index_append)

text \<open>
  C29. Adding an object with a name of at most 47 characters keeps the invariant of the bindery; it is
  refused when an object of that name and type exists; otherwise (when the disk accepts the write) the
  object is found by its name and type, with a new random id and no properties.
\<close>
theorem add_object_spec:
  assumes "bind_inv b" "no_nul n" "length n \<le> 47"
  shows "\<exists>r b'. bindio_add_object n t fl sec b = Some (r, b') \<and> bind_inv b' \<and>
    (if obj_index b n t \<noteq> None then r = Inl BINDERY_ERROR_OBJEXISTS
     else if wok b (wn b) then r = Inr (ucast (rnd b (rn b))) \<and>
       (\<exists>o' b''. bindio_scan_object n t b' = Some (Some (obj_entry n t fl sec (ucast (rnd b (rn b))), o'), b'') \<and>
          ob_id o' = ucast (rnd b (rn b)) \<and> ob_prop_id o' = no_id)
     else r = Inl BINDERY_ERROR_IOERROR)"
proof -
  let ?r = "obj_entry n t fl sec (ucast (rnd b (rn b)))"
  have db: "db_ok b" using assms(1) by (rule bind_invD)
  from bindio_add_object_eq [OF db assms(3), of t fl sec] obtain b' where
    run: "bindio_add_object n t fl sec b = Some (if obj_index b n t \<noteq> None then Inl BINDERY_ERROR_OBJEXISTS
            else if wok b (wn b) then Inr (ucast (rnd b (rn b))) else Inl BINDERY_ERROR_IOERROR, b')" and
    o': "recs (net_obj b') = recs (net_obj b) @ (if obj_index b n t = None \<and> wok b (wn b) then [?r] else [])" and
    p: "recs (net_prop b') = recs (net_prop b)" "recs (net_val b') = recs (net_val b)"
    unfolding obj_index_def by blast
  note e = obj_entry_simps [OF assms(2,3), of t fl sec "ucast (rnd b (rn b))"]
  show ?thesis
  proof (cases "obj_index b n t = None \<and> wok b (wn b)")
    case True
    have inv: "bind_inv b'" using bind_inv_add_obj [OF assms(1) e(1,5)] o' p True by simp
    have "obj_index b' n t = Some (length (recs (net_obj b)))"
      using obj_index_append [OF _ _ e(2)] o' True by simp
    then have "\<exists>b''. bindio_scan_object n t b' = Some (Some (?r, obj_of ?r), b'')"
      using bindio_scan_object_eq [OF bind_invD(2) [OF inv], of n t] o' True by (simp add: obj_index_def)
    then show ?thesis using run inv True e(3,5) by auto
  next
    case False
    then have "same_recs b b'" using o' p by (auto simp: same_recs_def)
    then have "bind_inv b'" using same_recs_bind_inv assms(1) by blast
    then show ?thesis using run False by auto
  qed
qed

theorem add_object_spec_witness:
  "\<exists>r b'. bindio_add_object (ascii ''ANN'') 1 0 0x31 demo_db = Some (r, b') \<and> bind_inv b'"
  using add_object_spec [OF demo_bind_inv, of "ascii ''ANN''" 1 0 "0x31"] by auto

text \<open>
  C30. Adding a property with a new name of at most 15 characters to an object (when the disk accepts
  the writes and the random ids are not in use) succeeds and keeps the invariant; reading the property
  then gives the bytes it was added with, and every other property reads as before.
\<close>
theorem add_prop_spec:
  assumes "bind_inv b" "\<exists>r\<in>set (recs (net_obj b)). be32 (object_id r) = i" "prop_index b i n = None"
    and "no_nul n" "length n \<le> 15" "length d = 128" "\<forall>k. wok b k"
  defines "vid \<equiv> ucast (rnd b (rn b)) :: u32" and "pid \<equiv> ucast (rnd b (Suc (rn b))) :: u32"
  assumes "fresh_prop b (prop_entry i n fl sec pid vid)"
  shows "\<exists>b'. bindio_add_prop i n fl sec (Some d) b = Some (Inr pid, b') \<and> bind_inv b' \<and>
    (\<forall>j m. store_data b' j m = (if j = i \<and> take 15 m = take 15 n then Some d else store_data b j m))"
proof -
  obtain m where m: "first_index (\<lambda>r. be32 (object_id r) = i) (recs (net_obj b)) = Some m"
    using assms(2) first_index_None by (metis (mono_tags, lifting) option.exhaust)
  note e = prop_entry_simps [OF assms(4,5), of i fl sec pid vid]
  obtain b' where run: "bindio_add_prop i n fl sec (Some d) b = Some (Inr pid, b')"
    and l: "linked b m (prop_entry i n fl sec pid vid) (val_entry vid pid d) b'"
    using bindio_add_prop_ok [OF assms(1) m assms(3-7)] unfolding vid_def pid_def by blast
  have "bind_inv b'"
    by (rule linked_inv [OF l assms(1) first_index_lessD [OF m] e(1)])
      (use assms(6,10) in \<open>auto simp: pid_def val_rec_ok_def\<close>)
  moreover have "store_data b' j k = (if j = i \<and> take 15 k = take 15 n then Some d else store_data b j k)" for j k
    using linked_store [OF l _ assms(10) e(2) assms(3)] by (simp add: val_entry_def)
  ultimately show ?thesis using run by blast
qed

theorem add_prop_spec_witness:
  "\<exists>p b'. bindio_add_prop 7 (ascii ''PASSWORD'') 0 0x44 (Some demo_set) demo_db = Some (Inr p, b') \<and> bind_inv b' \<and>
    store_data b' 7 (ascii ''PASSWORD'') = Some demo_set"
proof -
  have "prop_index demo_db 7 (ascii ''PASSWORD'') = None" by code_simp
  moreover have "fresh_prop demo_db (prop_entry 7 (ascii ''PASSWORD'') 0 0x44 (ucast (rnd demo_db (Suc (rn demo_db)))) (ucast (rnd demo_db (rn demo_db))))"
    by code_simp
  ultimately show ?thesis
    using add_prop_spec [OF demo_bind_inv, of 7 "ascii ''PASSWORD''" demo_set 0 "0x44"]
    by (auto simp: demo_db_def demo_set_def obj_entry_def)
qed

section \<open>Deleting\<close>

text \<open>
  Deleting an object that has no properties removes its record and no other, as a multiset (the
  last record of the file takes its place).
\<close>
lemma delete_object_spec:
  assumes "db_ok b" "\<forall>k. wok b k" "first_index (\<lambda>r. be32 (object_id r) = i) (recs (net_obj b)) = Some k"
    and "be32 (object_prop_id (recs (net_obj b) ! k)) = no_id"
  shows "\<exists>b'. bindio_delete_obj i b = Some (BINDERY_ERROR_OK, b') \<and>
    mset (recs (net_obj b')) = mset (recs (net_obj b)) - {#recs (net_obj b) ! k#} \<and>
    recs (net_prop b') = recs (net_prop b) \<and> recs (net_val b') = recs (net_val b)"
  by (rule delete_obj_plain [OF assms])

lemma delete_object_spec_witness:
  "\<exists>b'. bindio_delete_obj 7 demo_db = Some (BINDERY_ERROR_OK, b') \<and>
    mset (recs (net_obj b')) = mset (recs (net_obj demo_db)) - {#recs (net_obj demo_db) ! 1#}"
  using delete_object_spec [OF bind_invD(2) [OF demo_bind_inv], of 7 1] by (auto simp: demo_db_def obj_entry_def)

text \<open>
  Deleting a property drops the last property of the file, whichever was asked for (every other
  record that does not refer to the deleted one stays where it is, the one asked for included), while
  the value record that goes is the right one.
\<close>
lemma delete_prop_drops_last:
  assumes "bind_inv b" "recs (net_obj b) \<noteq> []" "\<forall>k. wok b k" "id_index (recs (net_prop b)) pid = Some k"
    and "val_index b (be32 (prop_valueid (recs (net_prop b) ! k))) = Some l"
  shows "\<exists>e b'. bindio_delete_prop pid b = Some (e, b') \<and>
    length (recs (net_prop b')) = length (recs (net_prop b)) - 1 \<and>
    (\<forall>j<length (recs (net_prop b)) - 1. be32 (prop_nextid (recs (net_prop b) ! j)) \<noteq> pid \<longrightarrow>
       recs (net_prop b') ! j = recs (net_prop b) ! j) \<and>
    recs (net_val b') = (if Suc l = length (recs (net_val b)) then butlast (recs (net_val b))
      else (recs (net_val b))[l := last (recs (net_val b))])"
  using delete_prop_effect [OF assms] by blast

lemma delete_prop_drops_last_witness:
  "\<exists>e b'. bindio_delete_prop 0x10 demo_db = Some (e, b') \<and> recs (net_prop b') = [hd (recs (net_prop demo_db))]"
proof -
  have "id_index (recs (net_prop demo_db)) 0x10 = Some 0" "val_index demo_db 0x20 = Some 0"
    by (simp_all add: demo_db_def demo_props_def val_index_def)
  then show ?thesis
    using delete_prop_drops_last [OF demo_bind_inv, where pid = "0x10" and k = 0 and l = 0]
    by (auto simp: demo_db_def demo_props_def length_Suc_conv)
qed

section \<open>Printing\<close>

text \<open>
  C39. In a bindery that satisfies the invariant, printing it (which happens at every start of the
  server and in every deletion of a property) returns, and changes no record.
\<close>
theorem dump_returns:
  assumes "bind_inv b"
  shows "\<exists>b'. bindio_dump b = Some b' \<and> same_recs b b' \<and> bind_inv b'"
proof -
  obtain b' where b': "bindio_dump b = Some b'" "same_recs b b'"
    using bindio_dump_eq [OF assms] by (cases "recs (net_obj b) = []") (simp_all add: same_recs_def)
  then show ?thesis using assms same_recs_bind_inv by blast
qed

theorem dump_returns_witness: "\<exists>b'. bindio_dump demo_db = Some b' \<and> bind_inv b'"
  using dump_returns [OF demo_bind_inv] by blast

text \<open>A property whose chain leads back to itself keeps the printing from ever returning.\<close>
lemma dump_cycle_hangs:
  assumes "db_ok b" "id_index (recs (net_prop b)) i = Some k" "be32 (prop_nextid (recs (net_prop b) ! k)) = i"
  shows "dump_chain i b = None"
proof (rule ccontr)
  have never: "dump_chain j c = Some y \<Longrightarrow> j = i \<longrightarrow> \<not> (db_ok c \<and> recs (net_prop c) = recs (net_prop b))" for j c y
  proof (rule dump_chain.raw_induct [where P = "\<lambda>j c y. j = i \<longrightarrow> \<not> (db_ok c \<and> recs (net_prop c) = recs (net_prop b))"])
    fix f j c y
    assume 1: "\<And>j c y. f j c = Some y \<Longrightarrow> j = i \<longrightarrow> \<not> (db_ok c \<and> recs (net_prop c) = recs (net_prop b))"
      "(bindio_prop_seek j c \<bind> (\<lambda>(x, b1). case x of None \<Rightarrow> Some b1 | Some (r, p) \<Rightarrow> f (pr_next_id p) b1)) = Some y"
    show "j = i \<longrightarrow> \<not> (db_ok c \<and> recs (net_prop c) = recs (net_prop b))"
    proof (intro impI notI, elim conjE)
      assume j: "j = i" "db_ok c" "recs (net_prop c) = recs (net_prop b)"
      from 1(2) assms(2,3) j have "f i (at_prop c (Suc k)) = Some y" by (simp add: bindio_prop_seek_eq)
      from 1(1) [OF this] j show False by simp
    qed
  qed
  assume "dump_chain i b \<noteq> None"
  then show False using never [of i b] assms(1) by auto
qed

lemma dump_cycle_hangs_witness:
  "\<exists>b. db_ok b \<and> length (recs (net_prop b)) = 2 \<and> dump_chain 0x11 b = None"
proof -
  let ?b = "demo_db\<lparr>net_prop := \<lparr>recs = demo_props[1 := (demo_props ! 1)\<lparr>prop_nextid := to_be32 0x11\<rparr>], fpos = 0\<rparr>\<rparr>"
  have "db_ok ?b" using bind_invD(2) [OF demo_bind_inv] by (auto simp: db_ok_def demo_db_def demo_props_def prop_rec_ok_def)
  then have "db_ok ?b \<and> length (recs (net_prop ?b)) = 2 \<and> dump_chain 0x11 ?b = None"
    using dump_cycle_hangs [where b = ?b and i = "0x11" and k = 1] by (simp add: demo_props_def)
  then show ?thesis by blast
qed

section \<open>Sets, access and passwords\<close>

text \<open>
  C32. A connection that may not write a set property cannot change it: adding or removing a member is refused with
  the security error, and no record changes. When a connection (or the server itself, connection 0) has added an
  object with success, everybody who may read the set is told that it is a member, and after a
  successful removal that it is not, provided the object's id does not end in a zero byte. (Ids
  that do can survive: the loops look at every byte offset below 32, not at every fourth.)
\<close>
theorem set_membership:
  assumes "store_inv (db s)" "c = 0 \<or> c < length (conns s)"
    and "obj_id_of (db s) n t = Some oid" "prop_index (db s) oid pn = Some k"
    and "bind_add_remove_objfromset c t n pn mt mn ad s = Some (e, s')"
    and "ad = 0 \<or> (\<forall>m. obj_id_of (db s) mn mt = Some m \<longrightarrow> last_byte m \<noteq> 0)"
  shows "if access_granted c s oid (prop_security (recs (net_prop (db s)) ! k)) 1
    then e = BINDERY_ERROR_OK \<longrightarrow> (\<forall>c'. c' = 0 \<or> c' < length (conns s') \<longrightarrow>
      (\<exists>s''. bind_is_objinset c' t (Some n) 0 pn mt (Some mn) 0 s' =
         Some (if access_granted c' s' oid (prop_security (recs (net_prop (db s')) ! k)) 0
               then if ad = 0 then BINDERY_ERROR_OK else BINDERY_ERROR_NOSUCHMEMBER
               else BINDERY_ERROR_SECURITY, s'')))
    else e = BINDERY_ERROR_SECURITY \<and> s' = s\<lparr>db := db s'\<rparr> \<and> same_recs (db s) (db s')"
proof -
  have ok: "db_ok (db s)" using assms(1) by (simp add: store_inv_def)
  note cases = add_remove_cases [OF ok assms(5,2), unfolded assms(3), simplified, unfolded assms(4), simplified]
  show ?thesis
  proof (cases "access_granted c s oid (prop_security (recs (net_prop (db s)) ! k)) 1")
    case False
    then show ?thesis using cases by (simp add: seeks_def)
  next
    case True
    have lb: "ad \<noteq> 0 \<longrightarrow> (\<forall>m. obj_id_of (db s) mn mt = Some m \<longrightarrow> last_byte m \<noteq> 0)" using assms(6) by blast
    have "\<exists>s''. bind_is_objinset c' t (Some n) 0 pn mt (Some mn) 0 s' =
         Some (if access_granted c' s' oid (prop_security (recs (net_prop (db s')) ! k)) 0
               then if ad = 0 then BINDERY_ERROR_OK else BINDERY_ERROR_NOSUCHMEMBER
               else BINDERY_ERROR_SECURITY, s'')" if "e = BINDERY_ERROR_OK" "c' = 0 \<or> c' < length (conns s')" for c'
      using add_remove_member [OF assms(1) _ assms(2) that(2) lb assms(3,4)] assms(5) that(1) by blast
    then show ?thesis unfolding if_P [OF True] by blast
  qed
qed

lemma demo_remove:
  "map_option (\<lambda>(e, s). (e, length (conns s), c_object_id (conns s ! 1), prop_security (recs (net_prop (db s)) ! 1)))
     (bind_add_remove_objfromset 1 1 (ascii ''SUP'') (ascii ''MEMBERS'') 1 (ascii ''BOB'') 1 demo_srv) = Some (0, 4, 1, 0x31)"
  by code_simp

text \<open>Connection 1, of the supervisor, takes the user out of the set and asks for it.\<close>

theorem set_membership_witness:
  "\<exists>s' s''. bind_add_remove_objfromset 1 1 (ascii ''SUP'') (ascii ''MEMBERS'') 1 (ascii ''BOB'') 1 demo_srv = Some (0, s') \<and>
     bind_is_objinset 1 1 (Some (ascii ''SUP'')) 0 (ascii ''MEMBERS'') 1 (Some (ascii ''BOB'')) 0 s' = Some (BINDERY_ERROR_NOSUCHMEMBER, s'')"
proof -
  obtain s' where s': "bind_add_remove_objfromset 1 1 (ascii ''SUP'') (ascii ''MEMBERS'') 1 (ascii ''BOB'') 1 demo_srv = Some (0, s')"
    and f: "length (conns s') = 4" "c_object_id (conns s' ! 1) = 1" "prop_security (recs (net_prop (db s')) ! 1) = 0x31"
    using demo_remove by (auto simp del: ascii_simps)
  have r: "access_granted 1 s' 1 0x31 0" using f(2) by (simp add: access_granted_def access_rule_def del: ascii_simps)
  have d: "db demo_srv = demo_db" "1 < length (conns demo_srv)" by (simp_all add: demo_srv_def)
  have w: "access_granted 1 demo_srv 1 (prop_security (recs (net_prop demo_db) ! 1)) 1" by code_simp
  have o: "obj_id_of demo_db (ascii ''BOB'') 1 = Some 7" "last_byte 7 \<noteq> 0" "obj_id_of demo_db (ascii ''SUP'') 1 = Some 1"
    "prop_index demo_db 1 (ascii ''MEMBERS'') = Some 1" by code_simp+
  have "1 = (0 :: u8) \<or> (\<forall>m. obj_id_of (db demo_srv) (ascii ''BOB'') 1 = Some m \<longrightarrow> last_byte m \<noteq> 0)" using o(1,2) d(1) by simp
  from set_membership [OF _ _ _ _ s' this, unfolded d(1), OF demo_store_inv disjI2 [OF d(2)] o(3,4), unfolded if_P [OF w], rule_format, OF refl, of 1]
  have "\<exists>s''. bind_is_objinset 1 1 (Some (ascii ''SUP'')) 0 (ascii ''MEMBERS'') 1 (Some (ascii ''BOB'')) 0 s' =
      Some (if access_granted 1 s' 1 (prop_security (recs (net_prop (db s')) ! 1)) 0 then BINDERY_ERROR_NOSUCHMEMBER
            else BINDERY_ERROR_SECURITY, s'')" using f(1)
    by (cases "access_granted 1 s' 1 (prop_security (recs (net_prop (db s')) ! 1)) 0") (simp_all del: ascii_simps)
  then show ?thesis using s' r f(3) by (auto simp del: ascii_simps)
qed

text \<open>
  C7. The access check of the bindery grants access exactly to the members of the object's
  OBJ_SUPERVISORS and by the four bits of the security byte (the high ones for writing): 0 everyone, 1
  every logged-in station, 2 the object itself and the supervisors, 3 the supervisors, and 4, which
  should stand for the server alone, everyone.
\<close>
theorem access_check_rule:
  assumes "db_ok (db s)" "c < length (conns s)"
  shows "\<exists>s' r. bind_check_access c i sec rw s = Some (r, s') \<and>
    (r = 0 \<longleftrightarrow>
       (let k = conns s ! c; lv = (if rw \<noteq> 0 then drop_bit 4 sec else sec AND 0xf)
        in set_answer (db s) i (ascii ''OBJ_SUPERVISORS'') (c_object_id k) = BINDERY_ERROR_OK \<or> lv = 0 \<or>
           lv = 1 \<and> c_object_id k \<noteq> no_id \<or> lv = 2 \<and> (object_supervisor k \<noteq> 0 \<or> c_object_id k = i) \<or>
           lv = 3 \<and> object_supervisor k \<noteq> 0 \<or> lv = 4)) \<and>
    (r = 0 \<or> r = -1)"
  using bind_check_access_eq [OF assms, of i sec rw] by (auto simp: access_rule_def Let_def)

theorem access_check_rule_witness:
  "\<exists>s'. bind_check_access 2 1 0x44 1 demo_srv = Some (0, s')"
proof -
  have "db_ok (db demo_srv)" "2 < length (conns demo_srv)"
    using bind_invD(2) [OF demo_bind_inv] by (simp_all add: demo_srv_def)
  from access_check_rule [OF this, of 1 "0x44" 1] show ?thesis by auto
qed

text \<open>
  C31. After a password was set, a login answer is accepted exactly when it is the encryption of the
  challenge with the hash of that password and of the object's id.
\<close>
theorem password_round_trip:
  assumes "store_inv b" "bind_set_pwd i pwd junk b = Some (0, b')"
  shows "\<exists>b'' v. bind_verify_pwd i r key b' = Some (v, b'') \<and>
    (v = 0 \<longleftrightarrow> take 8 r = nw_encrypt key (shuffle (list_b4 (to_be32 i)) pwd (length pwd)))"
  using set_then_verify [OF assms, of r key] by auto

lemma set_pwd_ok:
  assumes "store_inv b" "store_index b i (ascii ''PASSWORD'') \<noteq> None" "wok b (wn b)"
  shows "\<exists>b'. bind_set_pwd i pwd junk b = Some (0, b')"
proof -
  let ?d = "shuffle (list_b4 (to_be32 i)) pwd (length pwd) @ map junk [16..<128]"
  have l: "length ?d = 128" by simp
  obtain e b' where "bindio_write_prop i (ascii ''PASSWORD'') 1 0 ?d b = Some (e, b')" "e = 0"
    using put_prop_store [OF assms(1) l, of i "ascii ''PASSWORD''"] assms(2,3) by metis
  then show ?thesis by (simp add: bind_set_pwd_def del: ascii_simps)
qed

theorem password_round_trip_witness:
  "\<exists>b' b'' v. bind_set_pwd 1 (ascii ''SECRET'') (\<lambda>_. 0) demo_db = Some (0, b') \<and>
     bind_verify_pwd 1 (nw_encrypt (replicate 8 1) (shuffle (list_b4 (to_be32 1)) (ascii ''SECRET'') 6)) (replicate 8 1) b' = Some (0, b'')"
proof -
  let ?h = "shuffle (list_b4 (to_be32 1)) (ascii ''SECRET'') 6"
  have "store_index demo_db 1 (ascii ''PASSWORD'') \<noteq> None" by code_simp
  moreover have "wok demo_db (wn demo_db)" by (simp add: demo_db_def)
  ultimately obtain b' where b': "bind_set_pwd 1 (ascii ''SECRET'') (\<lambda>_. 0) demo_db = Some (0, b')"
    using set_pwd_ok [OF demo_store_inv] by blast
  have l: "length (ascii ''SECRET'') = 6" by simp
  obtain b'' v where v: "bind_verify_pwd 1 (nw_encrypt (replicate 8 1) ?h) (replicate 8 1) b' = Some (v, b'')"
    "v = 0 \<longleftrightarrow> take 8 (nw_encrypt (replicate 8 1) ?h) = nw_encrypt (replicate 8 1) ?h"
    using password_round_trip [OF demo_store_inv b', of "nw_encrypt (replicate 8 1) ?h" "replicate 8 1"] unfolding l by blast
  then have "v = 0" by simp
  with b' v(1) show ?thesis by blast
qed

end
