(* ===== verification/Thm_Files.thy ===== *)
theory Thm_Files
  imports Fr_Samples Fr_Server
begin

text \<open>
  The properties of \<^verbatim>\<open>fs.c\<close>, \<^verbatim>\<open>trustee.c\<close> and the file requests: host paths, trustee files as finite
  maps, the inheritance of rights, opening and reading files.
\<close>

lemma demo_station2:
  "2 < length (conns demo_srv)" "conns demo_srv ! 2 = demo_conn 2 7 0"
  by (simp_all add: demo_srv_def)

section \<open>Trustee files\<close>

text \<open>What a state knows about the rights of an object in a directory.\<close>

definition dir_rights :: "srv \<Rightarrow> u32 \<Rightarrow> bytes \<Rightarrow> u16 option" where
  "dir_rights s i q = Option.bind (tfiles s (q @ slash # TRUST_SYSFILE)) (\<lambda>rs. trust_map rs i)"

lemma grab_rights_eq:
  "\<exists>rc'. trust_grab_rights (q @ slash # TRUST_SYSFILE) i rc s =
    (case dir_rights s i q of None \<Rightarrow> (-1, rc') | Some r \<Rightarrow> (0, \<lparr>t_obj_id = i, t_rights = r\<rparr>))"
proof (cases "tfiles s (q @ slash # TRUST_SYSFILE)")
  case (Some rs)
  show ?thesis
  proof (cases "trust_index i rs")
    case None
    then show ?thesis using Some by (simp add: trust_grab_rights_def dir_rights_def trust_map_index)
  next
    case (Some k)
    then have "be32 (obj_id (rs ! k)) = i" by (simp add: first_index_Some)
    with Some \<open>tfiles s (q @ slash # TRUST_SYSFILE) = Some rs\<close> show ?thesis
      by (simp add: trust_grab_rights_def dir_rights_def trust_map_index trust_conv_rec_def)
  qed
qed (simp add: trust_grab_rights_def dir_rights_def)

text \<open>
  C27. A trustee file implements a finite map from objects to rights: a grant sets the rights of one
  object, a removal deletes them (and reports when there are none), and both leave every other object
  as it was and no object twice in the file.
\<close>
theorem trustee_file_refines_map:
  assumes "trust_ok rs"
  shows "(\<exists>g. grant_in_file True i r \<lparr>recs = rs, fpos = 0\<rparr> = (TRUST_ERROR_OK, g) \<and> trust_ok (recs g) \<and>
      trust_map (recs g) = (trust_map rs)(i \<mapsto> r)) \<and>
    (rs \<noteq> [] \<longrightarrow> (\<exists>g. remove_in_file True True junk i \<lparr>recs = rs, fpos = 0\<rparr> =
        (if trust_map rs i = None then TRUST_ERROR_NOTFOUND else TRUST_ERROR_OK, g) \<and> trust_ok (recs g) \<and>
      trust_map (recs g) = (trust_map rs)(i := None)))"
proof (intro conjI impI)
  obtain g where "grant_in_file True i r \<lparr>recs = rs, fpos = 0\<rparr> = (TRUST_ERROR_OK, g)" "recs g = trust_put i r rs"
    using grant_in_file_eq [of True i r rs] by auto
  then show "\<exists>g. grant_in_file True i r \<lparr>recs = rs, fpos = 0\<rparr> = (TRUST_ERROR_OK, g) \<and> trust_ok (recs g) \<and>
      trust_map (recs g) = (trust_map rs)(i \<mapsto> r)"
    using trust_ok_put [OF assms, of i r] trust_put_map [of i r rs] by (intro exI [of _ g]) simp
next
  assume "rs \<noteq> []"
  then obtain g where "remove_in_file True True junk i \<lparr>recs = rs, fpos = 0\<rparr> =
      (if trust_index i rs = None then TRUST_ERROR_NOTFOUND else TRUST_ERROR_OK, g)" "recs g = trust_del i rs"
    using remove_in_file_eq [of rs junk i] by auto
  then show "\<exists>g. remove_in_file True True junk i \<lparr>recs = rs, fpos = 0\<rparr> =
        (if trust_map rs i = None then TRUST_ERROR_NOTFOUND else TRUST_ERROR_OK, g) \<and> trust_ok (recs g) \<and>
      trust_map (recs g) = (trust_map rs)(i := None)"
    using trust_ok_del [OF assms, of i] trust_del_map [OF assms, of i]
    by (intro exI [of _ g]) (simp add: trust_map_index)
qed

theorem trustee_file_refines_map_witness:
  "(\<exists>g. grant_in_file True 7 0x100 \<lparr>recs = [trust_entry 1 0x200], fpos = 0\<rparr> = (TRUST_ERROR_OK, g) \<and>
     trust_map (recs g) 7 = Some 0x100 \<and> trust_map (recs g) 1 = Some 0x200) \<and>
   (\<exists>g. remove_in_file True True 0 1 \<lparr>recs = [trust_entry 1 0x200], fpos = 0\<rparr> = (TRUST_ERROR_OK, g) \<and>
     trust_map (recs g) 1 = None)"
proof -
  have ok: "trust_ok [trust_entry 1 0x200]" by (simp add: trust_ok_def)
  have m: "trust_map [trust_entry 1 0x200] = [1 \<mapsto> 0x200]" by (simp add: trust_map_def trust_entry_def)
  from trustee_file_refines_map [OF ok, of 7 "0x100" 0] trustee_file_refines_map [OF ok, of 1 "0x100" 0] show ?thesis
    by (auto simp: m)
qed

section \<open>Inheritance\<close>

text \<open>The directories from \<open>p\<close> upwards, as the loop visits them.\<close>

function parents :: "bytes \<Rightarrow> bytes list" where
  "parents p = p # (case strrchr p slash of None \<Rightarrow> [] | Some k \<Rightarrow> parents (take k p))"
  by pat_completeness auto
termination by (relation "measure length") (auto dest: strrchr_lessD)

declare parents.simps [simp del]

text \<open>
  C5. The rights of an object on a directory are those of the nearest directory upwards that has a
  record for it, the volume's root being the last one asked; without a record the result is the error
  "no record" and no rights.
\<close>
theorem rights_inherited:
  assumes vol: "load_int (volumes s) v = Some vol" "cstr (vol_path vol) = Some vp" "slash \<in> set vp"
    and p: "no_nul p" "length p + 13 < VOL_MAX_VOL_PATH_LEN" "vp \<in> set (parents p)"
  shows "trust_scan_rights v i p rc s =
    Some (case find (\<lambda>q. dir_rights s i q \<noteq> None) (takeWhile (\<lambda>q. q \<noteq> vp) (parents p) @ [vp]) of
        None \<Rightarrow> (TRUST_ERROR_NORECORD, zero_trust)
      | Some q \<Rightarrow> (TRUST_ERROR_OK, \<lparr>t_obj_id = i, t_rights = the (dir_rights s i q)\<rparr>))"
  using p
proof (induction p arbitrary: rc rule: parents.induct)
  case (1 p)
  have f: "take (VOL_MAX_VOL_PATH_LEN - 1) (p @ slash # TRUST_SYSFILE) = p @ slash # TRUST_SYSFILE"
    using "1.prems"(2) sysfile_no_slash(3) by simp
  obtain rc' where g: "trust_grab_rights (p @ slash # TRUST_SYSFILE) i rc s =
    (case dir_rights s i p of None \<Rightarrow> (-1, rc') | Some r \<Rightarrow> (0, \<lparr>t_obj_id = i, t_rights = r\<rparr>))"
    using grab_rights_eq by blast
  have e: "streq p (vol_path vol) = Some (p = vp)" using vol(2) "1.prems"(1) by (rule streq_cstr)
  have hd: "\<exists>ps. parents p = p # ps" by (subst parents.simps) simp
  show ?case
  proof (cases "dir_rights s i p")
    case (Some r)
    then show ?thesis using f g hd by (subst trust_scan_rights.simps) auto
  next
    case None
    show ?thesis
    proof (cases "p = vp")
      case True
      then obtain k where "strrchr p slash = Some k" using vol(3) strrchr_None by (cases "strrchr p slash") auto
      then show ?thesis using None f g e vol(1) hd True by (subst trust_scan_rights.simps) auto
    next
      case False
      then have "strrchr p slash \<noteq> None"
        using "1.prems"(3) parents.simps [of p] by (cases "strrchr p slash") (auto simp del: strrchr_None)
      then obtain k where k: "strrchr p slash = Some k" "parents p = p # parents (take k p)"
        using parents.simps [of p] by (auto simp del: strrchr_None)
      have n: "no_nul (take k p)" using "1.prems"(1) by (auto simp: no_nul_def dest: in_set_takeD)
      show ?thesis
        using "1.IH" [OF k(1) n] "1.prems" k None f g e vol(1) False by (subst trust_scan_rights.simps) simp
    qed
  qed
qed

text \<open>The user with the id 7 has a right on the volume only; it holds two directories further down.\<close>

definition trust_srv :: srv where
  "trust_srv = demo_srv\<lparr>tfiles := [ascii ''/sys/$TRUSTEE.SYS'' \<mapsto> [trust_entry 7 0x4100]]\<rparr>"

theorem rights_inherited_witness:
  "trust_scan_rights 0 7 (ascii ''/sys/a/b'') zero_trust trust_srv = Some (TRUST_ERROR_OK, \<lparr>t_obj_id = 7, t_rights = 0x4100\<rparr>)"
proof -
  have v: "load_int (volumes trust_srv) 0 = Some (demo_vols ! 0)"
    by (simp add: trust_srv_def demo_srv_def load_int_def load_def demo_vols_eq)
  have pr: "parents (ascii ''/sys/a/b'') = [ascii ''/sys/a/b'', ascii ''/sys/a'', ascii ''/sys'', []]" by code_simp
  have n: "dir_rights trust_srv 7 (ascii ''/sys/a/b'') = None" "dir_rights trust_srv 7 (ascii ''/sys/a'') = None"
    "dir_rights trust_srv 7 (ascii ''/sys'') = Some 0x4100" by code_simp+
  have s: "slash \<in> set (ascii ''/sys'')" "no_nul (ascii ''/sys/a/b'')" "length (ascii ''/sys/a/b'') + 13 < VOL_MAX_VOL_PATH_LEN"
    "ascii ''/sys/a/b'' \<noteq> ascii ''/sys''" "ascii ''/sys/a'' \<noteq> ascii ''/sys''" by simp_all
  have m: "ascii ''/sys'' \<in> set (parents (ascii ''/sys/a/b''))" unfolding pr by (simp del: ascii_simps)
  from rights_inherited [OF v demo_vols_0(1) s(1,2,3) m, of 7 zero_trust] show ?thesis
    unfolding pr using n s(4,5) by (simp del: ascii_simps)
qed

section \<open>Host paths\<close>

text \<open>
  C33. The path below a directory handle: the path of the volume, that of the handle and the one asked
  for, joined with slashes, every backslash turned into a slash. It is built exactly when it is shorter
  than the buffer; a longer one writes behind the buffer.
\<close>
theorem build_path_below_handle:
  assumes h: "dh_at s c d vp dp" and q: "no_nul q" and n: "length dest = n" "length vp < n"
  defines "full \<equiv> unslash (join_path (join_path vp dp) q)"
  assumes nc: "colon \<notin> set full"
  shows "(case fs_build_path c d (Some q) dest n 0 s of
      None \<Rightarrow> n \<le> length full
    | Some (e, b) \<Rightarrow> e = FS_ERROR_OK \<and> length full < n \<and> cstr b = Some full \<and> length b = n)"
proof (cases "n \<le> length full")
  case True
  then show ?thesis using fs_build_path_steps(1) [OF h _ n, of "Some q"] q by (simp add: full_def opt_path_def)
next
  case False
  have k: "strchr full colon = None" using nc by (auto simp: strchr_def first_index_None)
  obtain b where "cstr b = Some full" "length b = n" "fs_build_path c d (Some q) dest n 0 s =
      (case strchr full colon of None \<Rightarrow> Some (FS_ERROR_OK, b) | Some k \<Rightarrow> subst_volume (volumes s) b k n)"
    using fs_build_path_steps(2) [OF h _ n, of "Some q"] q False by (auto simp: full_def opt_path_def)
  then show ?thesis using False k by simp
qed

lemma demo_dh_at: "dh_at demo_srv 2 0 (ascii ''/sys'') (ascii ''login'')"
  using demo_station2(1) demo_vols_0
  by (simp add: dh_at_def demo_station2(2) demo_conn_def login_dh_def Let_def del: ascii_simps) (simp add: demo_srv_def)

theorem build_path_below_handle_witness:
  "\<exists>b. fs_build_path 2 0 (Some [0x41, backslash, 0x42]) (replicate 256 0) 256 0 demo_srv = Some (FS_ERROR_OK, b) \<and>
     cstr b = Some (ascii ''/sys/login/A/B'')"
proof -
  have f: "unslash (join_path (join_path (ascii ''/sys'') (ascii ''login'')) [0x41, backslash, 0x42]) = ascii ''/sys/login/A/B''"
    "colon \<notin> set (ascii ''/sys/login/A/B'')" "length (ascii ''/sys/login/A/B'') = 14" by (simp_all add: join_path_def)
  have s: "no_nul [0x41, backslash, 0x42]" "length (ascii ''/sys'') < 256" by simp_all
  show ?thesis
    using build_path_below_handle [OF demo_dh_at s(1) _ s(2), of "replicate 256 0", unfolded f(1), OF _ f(2)] f(3)
    by (auto simp del: ascii_simps split: option.splits)
qed

text \<open>
  A path that names a volume starts at the path of that volume instead, whatever the handle; the
  name is taken from the last slash before the first colon and compared in upper case. An unknown volume
  is an invalid path.
\<close>
lemma build_path_with_volume:
  assumes h: "dh_at s c d vp dp" and q: "no_nul q" and n: "length dest = n" "length vp < n" "n \<le> NCP_MAX_FIELD_LEN"
    and full: "unslash (join_path (join_path vp dp) q) = pre @ slash # name @ colon # rest"
      "colon \<notin> set pre" "colon \<notin> set name" "slash \<notin> set name"
      "length (pre @ slash # name @ colon # rest) < n"
    and v: "vols_ok (volumes s)"
  shows "case first_index (vol_named (map toupper name)) (volumes s) of
      None \<Rightarrow> \<exists>b. fs_build_path c d (Some q) dest n 0 s = Some (FS_ERROR_INVALIDPATH, b)
    | Some k \<Rightarrow> \<forall>root. cstr (vol_path (volumes s ! k)) = Some root \<and> root \<noteq> [] \<and> length (volume_path root rest) < n \<longrightarrow>
        (\<exists>b. fs_build_path c d (Some q) dest n 0 s = Some (FS_ERROR_OK, b) \<and> cstr b = Some (volume_path root rest))"
proof -
  let ?full = "pre @ slash # name @ colon # rest"
  have "strchr ((pre @ slash # name) @ colon # rest) colon = Some (length (pre @ slash # name))"
    by (rule strchr_split) (use full(2,3) in simp)
  then have k: "strchr ?full colon = Some (length pre + Suc (length name))" by simp
  have lf: "length (join_path (join_path vp dp) q) < n" using arg_cong [OF full(1), of length] full(5) by simp
  have sq: "\<forall>q'. Some q = Some q' \<longrightarrow> no_nul q'" using q by simp
  obtain b where b: "cstr b = Some ?full" "length b = n" "fs_build_path c d (Some q) dest n 0 s =
      (case strchr ?full colon of None \<Rightarrow> Some (FS_ERROR_OK, b) | Some k \<Rightarrow> subst_volume (volumes s) b k n)"
    using fs_build_path_steps(2) [OF h sq n(1,2)] lf by (auto simp: opt_path_def full(1))
  note sv = subst_volume_ok [OF b(1,2) n(3) full(4) v]
  show ?thesis
  proof (cases "first_index (vol_named (map toupper name)) (volumes s)")
    case None
    then show ?thesis using sv(1) b(3) k by simp
  next
    case (Some j)
    then show ?thesis using sv(2) [OF Some] b(3) k by auto
  qed
qed

lemma demo_vols_ok: "vols_ok demo_vols"
  unfolding demo_vols_def by (rule vols_ok_add) (simp_all add: vols_ok_init)

lemma build_path_with_volume_witness:
  "\<exists>b. fs_build_path 2 0 (Some (ascii ''sys:pub'')) (replicate 256 0) 256 0 demo_srv = Some (FS_ERROR_OK, b) \<and>
     cstr b = Some (ascii ''/sys/pub'')"
proof -
  have f: "unslash (join_path (join_path (ascii ''/sys'') (ascii ''login'')) (ascii ''sys:pub'')) =
      ascii ''/sys/login'' @ slash # ascii ''sys'' @ colon # ascii ''pub''"
    "colon \<notin> set (ascii ''/sys/login'')" "colon \<notin> set (ascii ''sys'')" "slash \<notin> set (ascii ''sys'')"
    "length (ascii ''/sys/login'' @ slash # ascii ''sys'' @ colon # ascii ''pub'') < 256"
    by (simp_all add: join_path_def)
  have s: "no_nul (ascii ''sys:pub'')" "length (ascii ''/sys'') < 256" "length (replicate 256 (0 :: u8)) = 256" by simp_all
  have v: "volumes demo_srv = demo_vols" "vols_ok (volumes demo_srv)" by (simp_all add: demo_srv_def demo_vols_ok)
  have n: "first_index (vol_named (map toupper (ascii ''sys''))) demo_vols = Some 0" by code_simp
  have r: "ascii ''/sys'' \<noteq> []" "volume_path (ascii ''/sys'') (ascii ''pub'') = ascii ''/sys/pub''"
    "length (volume_path (ascii ''/sys'') (ascii ''pub'')) < 256" by (simp_all add: volume_path_def)
  have nl: "(256 :: nat) \<le> NCP_MAX_FIELD_LEN" by simp
  have "\<forall>root. cstr (vol_path (demo_vols ! 0)) = Some root \<and> root \<noteq> [] \<and> length (volume_path root (ascii ''pub'')) < 256 \<longrightarrow>
        (\<exists>b. fs_build_path 2 0 (Some (ascii ''sys:pub'')) (replicate 256 0) 256 0 demo_srv = Some (FS_ERROR_OK, b) \<and>
          cstr b = Some (volume_path root (ascii ''pub'')))"
    using build_path_with_volume [OF demo_dh_at s(1,3,2) nl f v(2)] n unfolding v(1) by simp
  then show ?thesis using demo_vols_0(1) r by metis
qed

section \<open>Opening a file\<close>






section \<open>Rights that were granted\<close>

text \<open>What the check says of a station that got rights on a directory.\<close>

lemma check_after_grant:
  assumes grant: "trust_grant_right c d (Some q) i r s = Some (TRUST_ERROR_OK, s')"
    and h: "dh_at s c d vp dp" and q: "no_nul q"
    and k: "object_supervisor (conns s ! c) = 0" "c_object_id (conns s ! c) = i"
    and full: "full = unslash (join_path (join_path vp dp) q)" "colon \<notin> set full"
    and nl: "\<not> is_prefix (take (VOL_MAX_VOL_PATH_LEN - 1) (vp @ ascii ''/login'')) full"
    and vl: "length vp < VOL_MAX_VOL_PATH_LEN"
  shows "trust_check_rights c d (Some q) right s' = Some (if drop_bit 8 r AND right = right then 0 else -1, s')"
proof -
  let ?h = "dh (conns s ! c) ! d" and ?z = "replicate VOL_MAX_VOL_PATH_LEN (0 :: u8)"
  have g: "get_dh c d s = Some ?h" "load_int (volumes s) (dh_volno ?h) = Some (volumes s ! nat (dh_volno ?h))"
    "cstr (vol_path (volumes s ! nat (dh_volno ?h))) = Some vp" "c < length (conns s)"
    using h by (auto simp: dh_at_def get_dh_def Let_def load_int_def load_def)
  have sq: "\<forall>q'. Some q = Some q' \<longrightarrow> no_nul q'" using q by simp
  have "fs_build_path c d (Some q) ?z VOL_MAX_VOL_PATH_LEN 0 s \<noteq> None"
    using grant by (auto simp: trust_grant_right_def trust_build_trustfile_def bind_eq_Some_conv)
  then have lt: "length full < VOL_MAX_VOL_PATH_LEN"
    using fs_build_path_steps(1) [OF h sq _ vl, of ?z] by (fastforce simp: full(1) opt_path_def)
  have nc: "strchr full colon = None" using full(2) by (auto simp: strchr_def first_index_None)
  obtain b where "cstr b = Some full" "fs_build_path c d (Some q) ?z VOL_MAX_VOL_PATH_LEN 0 s =
      (case strchr full colon of None \<Rightarrow> Some (FS_ERROR_OK, b) | Some k \<Rightarrow> subst_volume (volumes s) b k VOL_MAX_VOL_PATH_LEN)"
    using fs_build_path_steps(2) [OF h sq _ vl, of ?z] lt by (auto simp: full(1) opt_path_def)
  then have p: "host_path c d (Some q) s = Some full" using nc by (simp add: host_path_def)
  show ?thesis
    using grant_then_get [OF grant p g(4) k g(1-3) nl, of zero_trust] by (simp add: trust_check_rights_def)
qed

lemma drop_bit_ucast8: "drop_bit 8 (ucast (m :: u8) :: u16) = 0"
  by (rule bit_word_eqI) (auto simp: bit_simps dest: bit_imp_le_length)

text \<open>
  The rights that a grant stores for the station's own object on a directory are in force
  afterwards: the check for a right holds exactly when its bit is in the high byte of the rights
  stored. A mask of one byte, which request 22/13 stores, therefore gives no right at all.
\<close>
lemma granted_rights_in_force:
  assumes grant: "trust_grant_right c d (Some q) i r s = Some (TRUST_ERROR_OK, s')"
    and h: "dh_at s c d vp dp" and q: "no_nul q"
    and k: "object_supervisor (conns s ! c) = 0" "c_object_id (conns s ! c) = i"
    and full: "full = unslash (join_path (join_path vp dp) q)" "colon \<notin> set full"
    and nl: "\<not> is_prefix (take (VOL_MAX_VOL_PATH_LEN - 1) (vp @ ascii ''/login'')) full"
    and vl: "length vp < VOL_MAX_VOL_PATH_LEN"
  shows "trust_check_rights c d (Some q) right s' = Some (if drop_bit 8 r AND right = right then 0 else -1, s') \<and>
    (\<forall>m :: u8. r = ucast m \<and> right \<noteq> 0 \<longrightarrow> trust_check_rights c d (Some q) right s' = Some (-1, s'))"
  using check_after_grant [OF assms, of right] drop_bit_ucast8 by auto

text \<open>The path and the trustee file of a directory below a handle, when they fit the buffer.\<close>

lemma trustfile_built:
  assumes h: "dh_at s c d vp dp" and q: "\<forall>q. path = Some q \<longrightarrow> no_nul q"
    and full: "full = unslash (join_path (join_path vp dp) (opt_path path))" "colon \<notin> set full"
      "length full + 13 < VOL_MAX_VOL_PATH_LEN"
    and dest: "length dest = VOL_MAX_VOL_PATH_LEN"
  shows "\<exists>b0 b. fs_build_path c d path dest VOL_MAX_VOL_PATH_LEN 0 s = Some (FS_ERROR_OK, b0) \<and> cstr b0 = Some full \<and>
    length b0 = VOL_MAX_VOL_PATH_LEN \<and>
    trust_build_trustfile c d path dest VOL_MAX_VOL_PATH_LEN s = Some (TRUST_ERROR_OK, b) \<and>
    cstr b = Some (full @ slash # TRUST_SYSFILE) \<and> length b = VOL_MAX_VOL_PATH_LEN"
proof -
  have lf: "length (join_path (join_path vp dp) (opt_path path)) < VOL_MAX_VOL_PATH_LEN" using full(1,3) by simp
  then have lv: "length vp < VOL_MAX_VOL_PATH_LEN" by (auto simp: join_path_def split: if_splits)
  have nc: "strchr full colon = None" using full(2) by (auto simp: strchr_def first_index_None)
  obtain b0 where b0: "cstr b0 = Some full" "length b0 = VOL_MAX_VOL_PATH_LEN"
    "fs_build_path c d path dest VOL_MAX_VOL_PATH_LEN 0 s = Some (FS_ERROR_OK, b0)"
    using fs_build_path_steps(2) [OF h q dest lv lf] nc unfolding full(1) [symmetric] by auto
  have l1: "length full + length [slash] < length b0" using full(3) b0(2) by simp
  obtain b1 where b1: "strcat b0 [slash] = Some b1" using strcat_defined [OF b0(1) l1] by blast
  have c1: "cstr b1 = Some (full @ [slash])" using cstr_strcat [OF b1 _ b0(1)] by simp
  have n1: "length b1 = VOL_MAX_VOL_PATH_LEN" using length_strcat [OF b1] b0(2) by simp
  have l2: "length (full @ [slash]) + length TRUST_SYSFILE < length b1" using full(3) n1 sysfile_no_slash(3) by simp
  obtain b where b: "strcat b1 TRUST_SYSFILE = Some b" using strcat_defined [OF c1 l2] by blast
  have "cstr b = Some (full @ slash # TRUST_SYSFILE)" using cstr_strcat [OF b sysfile_no_slash(2) c1] by simp
  moreover have "length b = VOL_MAX_VOL_PATH_LEN" using length_strcat [OF b] n1 by simp
  moreover have "trust_build_trustfile c d path dest VOL_MAX_VOL_PATH_LEN s = Some (TRUST_ERROR_OK, b)"
    using b0(3) b1 b sysfile_no_slash(3) by (simp add: trust_build_trustfile_def strncat_def)
  ultimately show ?thesis using b0 by blast
qed

text \<open>The rights of a station on a directory that has a record for it.\<close>

lemma check_here:
  assumes h: "dh_at s c d vp dp" and q: "\<forall>q. path = Some q \<longrightarrow> no_nul q"
    and full: "full = unslash (join_path (join_path vp dp) (opt_path path))" "colon \<notin> set full"
      "length full + 13 < VOL_MAX_VOL_PATH_LEN"
    and k: "object_supervisor (conns s ! c) = 0" "c_object_id (conns s ! c) = i"
    and nl: "\<not> is_prefix (take (VOL_MAX_VOL_PATH_LEN - 1) (vp @ ascii ''/login'')) full"
    and r: "dir_rights s i full = Some r"
  shows "trust_check_rights c d path right s = Some (if drop_bit 8 r AND right = right then 0 else -1, s)"
proof -
  let ?h = "dh (conns s ! c) ! d" and ?z = "replicate VOL_MAX_VOL_PATH_LEN (0 :: u8)"
  have g: "get_dh c d s = Some ?h" "load_int (volumes s) (dh_volno ?h) = Some (volumes s ! nat (dh_volno ?h))"
    "cstr (vol_path (volumes s ! nat (dh_volno ?h))) = Some vp" "c < length (conns s)"
    using h by (auto simp: dh_at_def get_dh_def Let_def load_int_def load_def)
  obtain b0 where b0: "fs_build_path c d path ?z VOL_MAX_VOL_PATH_LEN 0 s = Some (FS_ERROR_OK, b0)" "cstr b0 = Some full"
    "length b0 = VOL_MAX_VOL_PATH_LEN"
    using trustfile_built [OF h q full, of ?z] by auto
  obtain b where b: "trust_build_trustfile c d path b0 VOL_MAX_VOL_PATH_LEN s = Some (TRUST_ERROR_OK, b)"
    "cstr b = Some (full @ slash # TRUST_SYSFILE)"
    using trustfile_built [OF h q full b0(3)] by auto
  have sl: "strrchr (full @ slash # TRUST_SYSFILE) slash = Some (length full)" by (rule strrchr_split [OF sysfile_no_slash(1)])
  have lt: "length (full @ slash # TRUST_SYSFILE) < VOL_MAX_VOL_PATH_LEN" using full(3) sysfile_no_slash(3) by simp
  obtain rs where "tfiles s (full @ slash # TRUST_SYSFILE) = Some rs" "trust_map rs i = Some r"
    using r by (auto simp: dir_rights_def bind_eq_Some_conv)
  note sc = scan_rights_here [OF lt this]
  show ?thesis
    using k b0(1,2) b g sl sc nl by (simp add: trust_check_rights_def trust_get_rights_def del: ascii_simps)
qed

text \<open>A grant that the operating system does not refuse.\<close>

lemma grant_runs:
  assumes h: "dh_at s c d vp dp" and q: "\<forall>q. path = Some q \<longrightarrow> no_nul q"
    and full: "full = unslash (join_path (join_path vp dp) (opt_path path))" "colon \<notin> set full"
      "length full + 13 < VOL_MAX_VOL_PATH_LEN"
    and ok: "\<And>n. os_ok s n"
  shows "\<exists>s'. trust_grant_right c d path i r s = Some (TRUST_ERROR_OK, s')"
proof -
  let ?z = "replicate VOL_MAX_VOL_PATH_LEN (0 :: u8)"
  obtain b where b: "trust_build_trustfile c d path ?z VOL_MAX_VOL_PATH_LEN s = Some (TRUST_ERROR_OK, b)"
    "cstr b = Some (full @ slash # TRUST_SYSFILE)"
    using trustfile_built [OF h q full, of ?z] by auto
  have g: "\<exists>g. grant_in_file True i r \<lparr>recs = rs, fpos = 0\<rparr> = (TRUST_ERROR_OK, g)" for rs
    using grant_in_file_eq [of True i r rs] by auto
  show ?thesis
  proof (cases "tfiles s (full @ slash # TRUST_SYSFILE)")
    case None
    then show ?thesis using b ok g [of "[]"] by (auto simp: trust_grant_right_def sys_ok_def Let_def)
  next
    case (Some rs)
    then show ?thesis using b ok g [of rs] by (auto simp: trust_grant_right_def sys_ok_def Let_def)
  qed
qed

text \<open>The user works in a directory where he may read, and the operating system lets him open files.\<close>

definition home_dh :: dirhandle where
  "home_dh = \<lparr>dh_flags = FS_DH_TEMP, dh_volno = 0, dh_path = mkbuf CONN_DH_MAX_PATH_LEN (ascii ''home'')\<rparr>"

definition home_srv :: srv where
  "home_srv = demo_srv\<lparr>conns := (conns demo_srv)[2 := (demo_conn 2 7 0)\<lparr>dh := (replicate CONN_DH_PER_CONN zero_dh)[0 := home_dh]\<rparr>],
     tfiles := [ascii ''/sys/home/$TRUSTEE.SYS'' \<mapsto> [trust_entry 7 0x0100]],
     os_stat := \<lambda>_ _. Some \<lparr>st_mode = 0x8000, st_size = 10, st_mtime = demo_tm, st_atime = demo_tm\<rparr>,
     os_open := \<lambda>_ _ _. 5\<rparr>"

lemma home_dh_at: "dh_at home_srv 2 0 (ascii ''/sys'') (ascii ''home'')"
  using demo_station2 demo_vols_0
  by (simp add: dh_at_def home_srv_def demo_conn_def home_dh_def Let_def del: ascii_simps) (simp add: demo_srv_def)

lemma home_fields: "object_supervisor (conns home_srv ! 2) = 0" "c_object_id (conns home_srv ! 2) = 7" "os_ok home_srv n"
  "fh (conns home_srv ! 2) = replicate CONN_FH_PER_CONN (-1)" "2 < length (conns home_srv)"
  using demo_station2 by (simp_all add: home_srv_def demo_conn_def) (simp add: demo_srv_def)

lemma home_conn_ok: "conn_ok (conns home_srv ! 2)"
proof -
  have "\<forall>h\<in>set ((replicate CONN_DH_PER_CONN zero_dh)[0 := home_dh]). length (dh_path h) = CONN_DH_MAX_PATH_LEN"
    by (rule set_update_ok) (simp_all add: zero_dh_def home_dh_def)
  then show ?thesis using demo_conn_ok [of 2 7 0] demo_station2 by (simp add: home_srv_def conn_ok_def)
qed

lemma home_paths:
  "unslash (join_path (join_path (ascii ''/sys'') (ascii ''home'')) []) = ascii ''/sys/home''"
  "unslash (join_path (join_path (ascii ''/sys'') (ascii ''home'')) (ascii ''a'')) = ascii ''/sys/home/a''"
  "colon \<notin> set (ascii ''/sys/home'')" "colon \<notin> set (ascii ''/sys/home/a'')"
  "length (ascii ''/sys/home'') = 9" "length (ascii ''/sys/home/a'') = 11"
  "\<not> is_prefix (take (VOL_MAX_VOL_PATH_LEN - 1) (ascii ''/sys'' @ ascii ''/login'')) (ascii ''/sys/home'')"
  "\<not> is_prefix (take (VOL_MAX_VOL_PATH_LEN - 1) (ascii ''/sys'' @ ascii ''/login'')) (ascii ''/sys/home/a'')"
  by (simp_all add: join_path_def is_prefix_def)




lemma granted_rights_in_force_witness:
  "\<exists>s'. trust_grant_right 2 0 (Some (ascii ''a'')) 7 0xff00 home_srv = Some (TRUST_ERROR_OK, s') \<and>
     trust_check_rights 2 0 (Some (ascii ''a'')) 0xfb s' = Some (0, s')"
proof -
  have full: "ascii ''/sys/home/a'' = unslash (join_path (join_path (ascii ''/sys'') (ascii ''home'')) (ascii ''a''))"
    using home_paths(2) by (simp del: ascii_simps)
  have n: "no_nul (ascii ''a'')" "length (ascii ''/sys'') < VOL_MAX_VOL_PATH_LEN" "length (ascii ''/sys/home/a'') + 13 < VOL_MAX_VOL_PATH_LEN"
    by simp_all
  have "\<exists>s'. trust_grant_right 2 0 (Some (ascii ''a'')) 7 0xff00 home_srv = Some (TRUST_ERROR_OK, s')"
    by (rule grant_runs [OF home_dh_at _ _ home_paths(4) n(3) home_fields(3)]) (use full n(1) in \<open>simp_all add: opt_path_def del: ascii_simps\<close>)
  then obtain s' where s': "trust_grant_right 2 0 (Some (ascii ''a'')) 7 0xff00 home_srv = Some (TRUST_ERROR_OK, s')" by blast
  from granted_rights_in_force [OF s' home_dh_at n(1) home_fields(1,2) full home_paths(4,8) n(2), of "0xfb"] show ?thesis
    using s' by simp
qed

section \<open>A station that grants itself rights\<close>

definition trustee_data :: "u8 \<Rightarrow> u32 \<Rightarrow> u8 \<Rightarrow> u8 \<Rightarrow> bytes \<Rightarrow> bytes" where
  "trustee_data d i m0 m1 q = d # list_b4 (to_be32 i) @ [m0, m1, of_nat (length q)] @ q"

lemma trustee_data_fields:
  assumes "no_nul q" "length q < 256" "map tolower q = q"
  shows "get_be8 (trustee_data d i m0 m1 q) 0 = Some d" "get_be32 (trustee_data d i m0 m1 q) 1 = Some i"
    "get_be16 (trustee_data d i m0 m1 q) 5 = Some (be16 (m0, m1))" "get_be8 (trustee_data d i m0 m1 q) 7 = Some (of_nat (length q))"
    "\<exists>b. ncp_path (trustee_data d i m0 m1 q) 8 (length q) = Some b \<and> cstr b = Some q"
proof -
  obtain a1 a2 a3 a4 where a: "to_be32 i = (a1, a2, a3, a4)" by (cases "to_be32 i")
  have i: "be32 (a1, a2, a3, a4) = i" using a by (metis be32.dec_enc)
  have e: "trustee_data d i m0 m1 q = [d, a1, a2, a3, a4, m0, m1, of_nat (length q)] @ q" by (simp add: trustee_data_def a)
  show "get_be8 (trustee_data d i m0 m1 q) 0 = Some d" "get_be16 (trustee_data d i m0 m1 q) 5 = Some (be16 (m0, m1))"
    "get_be8 (trustee_data d i m0 m1 q) 7 = Some (of_nat (length q))"
    unfolding e by (simp_all add: get_be8_def get_be16_def load_def del: be16.simps)
  show "get_be32 (trustee_data d i m0 m1 q) 1 = Some i" unfolding e using i by (simp add: get_be32_def load_def del: be32.simps)
  have m: "map tolower (mkbuf NCP_MAX_FIELD_LEN q) = mkbuf NCP_MAX_FIELD_LEN q"
    using assms(3) by (simp add: mkbuf_def tolower_def)
  show "\<exists>b. ncp_path (trustee_data d i m0 m1 q) 8 (length q) = Some b \<and> cstr b = Some q"
    unfolding e using assms(1,2) m by (simp add: ncp_path_def ncp_field_def)
qed

text \<open>
  Request 22/39 adds a trustee without asking whether the station may: any station with a directory
  handle below which the path lies can give itself whatever rights it likes there, and they are in
  force at once.
\<close>
lemma station_grants_itself:
  assumes h: "dh_at s c (unat d) vp dp" and q: "no_nul q" "length q < 256" "map tolower q = q"
    and k: "object_supervisor (conns s ! c) = 0" "c_object_id (conns s ! c) = i" "conn_ok (conns s ! c)"
    and full: "full = unslash (join_path (join_path vp dp) q)" "colon \<notin> set full" "length full + 13 < VOL_MAX_VOL_PATH_LEN"
    and nl: "\<not> is_prefix (take (VOL_MAX_VOL_PATH_LEN - 1) (vp @ ascii ''/login'')) full"
    and ok: "\<And>n. os_ok s n"
  shows "\<exists>s' r. ncp_handle_addexttrustee c (trustee_data d i m0 m1 q) 9 s = Some s' \<and> sent s' = Reply r # sent s \<and>
    comp_code r = 0 \<and>
    (\<forall>right. trust_check_rights c (unat d) (Some q) right s' =
       Some (if drop_bit 8 (be16 (m0, m1)) AND right = right then 0 else -1, s'))"
proof -
  let ?r = "be16 (m0, m1)" and ?z = "replicate VOL_MAX_VOL_PATH_LEN (0 :: u8)"
  note f = trustee_data_fields [OF q, of d i m0 m1]
  have sq: "\<forall>q'. Some q = Some q' \<longrightarrow> no_nul q'" using q(1) by simp
  have fo: "full = unslash (join_path (join_path vp dp) (opt_path (Some q)))" using full(1) by (simp add: opt_path_def)
  have c: "c < length (conns s)" using h by (simp add: dh_at_def)
  obtain s1 where s1: "trust_grant_right c (unat d) (Some q) i ?r s = Some (TRUST_ERROR_OK, s1)"
    using grant_runs [OF h sq fo full(2,3) ok] by blast
  obtain b fname rs where b: "trust_build_trustfile c (unat d) (Some q) ?z VOL_MAX_VOL_PATH_LEN s = Some (TRUST_ERROR_OK, b)"
    "cstr b = Some fname" "conns s1 = conns s" "volumes s1 = volumes s" "tfiles s1 = (tfiles s)(fname \<mapsto> trust_put i ?r rs)"
    using grant_effect [OF s1] by metis
  have fn: "fname = full @ slash # TRUST_SYSFILE" using trustfile_built [OF h sq fo full(2,3), of ?z] b(1,2) by auto
  have se: "sent s1 = sent s" using quiet_grant [OF s1] by (simp add: quiet_def)
  have m: "c < length (conns s1)" "message (conns s1 ! c) \<noteq> []" using b(3) c k(3) by (auto simp: conn_ok_def)
  let ?rep = "\<lambda>r. s1\<lparr>sent := Reply r # sent s\<rparr>"
  obtain r where r: "ncp_send_compcode c 0 s1 = Some (?rep r)" "comp_code r = 0"
    using m se by (simp add: ncp_send_compcode_def ncp_send_reply_def load_def)
  have run: "ncp_handle_addexttrustee c (trustee_data d i m0 m1 q) 9 s = Some (?rep r)"
    using f s1 r(1) q(2) by (auto simp: ncp_handle_addexttrustee_def require_def unat_of_nat simp del: be16.simps)
  have h': "dh_at (?rep r) c (unat d) vp dp" using h b(3,4) by (simp add: dh_at_def)
  have dr: "dir_rights (?rep r) i full = Some ?r" by (simp add: dir_rights_def b(5) fn trust_put_map del: be16.simps)
  have "trust_check_rights c (unat d) (Some q) right (?rep r) = Some (if drop_bit 8 ?r AND right = right then 0 else -1, ?rep r)" for right
    by (rule check_here [OF h' sq fo full(2,3) _ _ nl dr]) (use k(1,2) b(3) in simp_all)
  then show ?thesis using run r(2) by (intro exI [of _ "?rep r"] exI [of _ r]) (simp del: be16.simps)
qed

lemma station_grants_itself_witness:
  "\<exists>s' r. ncp_handle_addexttrustee 2 (trustee_data 0 7 0xff 0 (ascii ''a'')) 9 home_srv = Some s' \<and> comp_code r = 0 \<and>
     sent s' = Reply r # sent home_srv \<and> trust_check_rights 2 0 (Some (ascii ''a'')) 0xff s' = Some (0, s')"
proof -
  have d: "dh_at home_srv 2 (unat (0 :: u8)) (ascii ''/sys'') (ascii ''home'')" using home_dh_at by simp
  have q: "no_nul (ascii ''a'')" "length (ascii ''a'') < 256" "map tolower (ascii ''a'') = ascii ''a''"
    "length (ascii ''/sys/home/a'') + 13 < VOL_MAX_VOL_PATH_LEN" by (simp_all add: tolower_def)
  note full = home_paths(2) [symmetric]
  from station_grants_itself [OF d q(1-3) home_fields(1,2) home_conn_ok full home_paths(4) q(4) home_paths(8) home_fields(3), of "0xff" 0]
  obtain s' r where s': "ncp_handle_addexttrustee 2 (trustee_data 0 7 0xff 0 (ascii ''a'')) 9 home_srv = Some s'"
    "sent s' = Reply r # sent home_srv" "comp_code r = 0"
    and a: "\<forall>right. trust_check_rights 2 (unat (0 :: u8)) (Some (ascii ''a'')) right s' =
       Some (if drop_bit 8 (be16 (0xff, 0)) AND right = right then 0 else -1, s')"
    by blast
  have "drop_bit 8 (be16 (0xff, 0)) AND 0xff = (0xff :: u16)" by code_simp
  then show ?thesis using s' a [rule_format, of "0xff"] by simp
qed

section \<open>Reading a file\<close>

definition fread_data :: "u16 \<Rightarrow> u32 \<Rightarrow> u16 \<Rightarrow> bytes" where
  "fread_data h off len = replicate 5 0 @ list_b2 (to_be16 h) @ list_b4 (to_be32 off) @ list_b2 (to_be16 len)"

lemma fread_data_fields:
  "get_be16 (fread_data h off len) 5 = Some h" "get_be32 (fread_data h off len) 7 = Some off"
  "get_be16 (fread_data h off len) 11 = Some len"
proof -
  obtain h1 h2 l1 l2 a1 a2 a3 a4 where a: "to_be16 h = (h1, h2)" "to_be16 len = (l1, l2)" "to_be32 off = (a1, a2, a3, a4)"
    by (metis prod.collapse)
  have i: "be16 (h1, h2) = h" "be16 (l1, l2) = len" "be32 (a1, a2, a3, a4) = off"
    using a by (metis be16.dec_enc) (use a in \<open>metis be16.dec_enc\<close>, use a in \<open>metis be32.dec_enc\<close>)
  have e: "fread_data h off len = [0, 0, 0, 0, 0, h1, h2, a1, a2, a3, a4, l1, l2]"
    by (simp add: fread_data_def a numeral_eq_Suc)
  show "get_be16 (fread_data h off len) 5 = Some h" "get_be32 (fread_data h off len) 7 = Some off"
    "get_be16 (fread_data h off len) 11 = Some len"
    unfolding e using i by (simp_all add: get_be16_def get_be32_def load_def del: be16.simps be32.simps)
qed

text \<open>
  A read of an open file is answered with the number of bytes read, one byte of padding for an odd
  offset, which is never set, and the bytes. The length that the client asks for is not compared with
  the size of the reply: with more than 4094 bytes (or 4093 and the padding) the read writes behind it.
\<close>
lemma read_reply:
  assumes c: "c < length (conns s)" "conn_ok (conns s ! c)"
    and h: "unat h < CONN_FH_PER_CONN" "fh (conns s ! c) ! unat h = fd" "0 \<le> fd" "os_ok s (tk s)"
    and x: "os_read s (Suc (tk s)) fd off (unat len) = Some x"
  defines "pad \<equiv> (if off AND 1 \<noteq> 0 then [None] else [])" and "got \<equiv> take (unat len) x"
  shows "case ncp_handle_fread c (fread_data h off len) 13 s of
      None \<Rightarrow> NCP_DATASIZE < 2 + length pad + length got
    | Some s' \<Rightarrow> 2 + length pad + length got \<le> NCP_DATASIZE \<and> (\<exists>r. sent s' = Reply r # sent s \<and> comp_code r = 0 \<and>
        rep_data r = map Some (int_b2 (int (length got))) @ pad @ map Some got)"
proof -
  have l: "length (fh (conns s ! c)) = CONN_FH_PER_CONN" and m: "message (conns s ! c) \<noteq> []"
    using c(2) by (auto simp: conn_ok_def)
  have fd: "load (fh (conns s ! c)) (unat h) = Some fd" using h(1,2) l by (simp add: load_def)
  let ?s2 = "s\<lparr>tk := Suc (Suc (tk s))\<rparr>"
  have rd: "sys_ok s = (True, s\<lparr>tk := Suc (tk s)\<rparr>)" "sys_read fd off (unat len) (s\<lparr>tk := Suc (tk s)\<rparr>) = (Some got, ?s2)"
    using h(4) x by (simp_all add: sys_ok_def sys_read_def got_def)
  have run: "ncp_handle_fread c (fread_data h off len) 13 s =
      (if 2 + length pad + length got > NCP_DATASIZE then None
       else ncp_send_reply c (map Some (int_b2 (int (length got))) @ pad @ map Some got) 0 ?s2)"
    using c(1) h(3) by (simp add: ncp_handle_fread_def require_def fread_data_fields Let_def pad_def fd rd)
  show ?thesis using c(1) m by (auto simp: run ncp_send_reply_def load_def)
qed

lemma read_reply_witness:
  "ncp_handle_fread 2 (fread_data 0 0 5000) 13 (home_srv\<lparr>conns := (conns home_srv)[2 := (conns home_srv ! 2)\<lparr>fh := replicate CONN_FH_PER_CONN 5\<rparr>],
     os_read := \<lambda>_ _ _ n. Some (replicate n 1)\<rparr>) = None"
  (is "ncp_handle_fread 2 _ 13 ?s = None")
proof -
  have c: "2 < length (conns ?s)" using home_fields(5) by simp
  have k: "conn_ok (conns ?s ! 2)" using home_conn_ok home_fields(5) by (simp add: conn_ok_def)
  have h: "unat 0 < CONN_FH_PER_CONN" "fh (conns ?s ! 2) ! unat 0 = 5" "0 \<le> (5 :: int)" "os_ok ?s (tk ?s)"
    "os_read ?s (Suc (tk ?s)) 5 0 (unat (5000 :: u16)) = Some (replicate 5000 1)"
    using home_fields by simp_all
  have n: "2 + length (if (0 :: u32) AND 1 \<noteq> 0 then [None] else [] :: u8 option list) + length (take (unat (5000 :: u16)) (replicate 5000 (1 :: u8))) > NCP_DATASIZE"
    by simp
  from read_reply [OF c k h] show ?thesis using n by (auto split: option.splits)
qed

end
