(* ===== verification/Thm_Library.thy ===== *)
theory Thm_Library
  imports Fr_Samples
begin

text \<open>The properties of \<^verbatim>\<open>src/lib\<close>: NetWare times and dates, the table of volumes.\<close>

text \<open>
  The two words of a NetWare time and date hold what the C library gave: a client that takes them
  apart reads the hour, the minute and half the second, the years since 1980, the month and the day, for
  every time from 1980 to 2107.
\<close>
lemma time_date_round_trip:
  assumes "tm_ok t" "80 \<le> tm_year t" "tm_year t < 208"
  shows "nw_hour (time2nw t) = tm_hour t \<and> nw_min (time2nw t) = tm_min t \<and> nw_sec2 (time2nw t) = tm_sec t div 2 \<and>
    nw_year (date2nw t) = tm_year t - 80 \<and> nw_mon (date2nw t) = tm_mon t + 1 \<and> nw_mday (date2nw t) = tm_mday t"
proof -
  note r = assms [unfolded tm_ok_def]
  have s: "tm_sec t sdiv 2 = tm_sec t div 2" "0 \<le> tm_sec t div 2" "tm_sec t div 2 < 2 ^ 5"
    using r by (auto simp: sdiv_2_nonneg)
  show ?thesis
    using pack3 [of "tm_hour t" 5 6 "tm_min t" "tm_sec t div 2"] pack3 [of "tm_year t - 80" 5 4 "tm_mon t + 1" "tm_mday t"] r s
    by (simp add: nw_hour_def nw_min_def nw_sec2_def nw_year_def nw_mon_def nw_mday_def time2nw_def date2nw_def)
qed

lemma time_date_round_trip_witness:
  "nw_hour (time2nw demo_tm) = 12 \<and> nw_year (date2nw demo_tm) = 23 \<and> nw_mon (date2nw demo_tm) = 4"
  using time_date_round_trip [of demo_tm] by (simp add: tm_ok_def demo_tm_def)

text \<open>
  A volume that was added with a new name is found under that name, at the number returned and
  with its path, and the number of volumes in use has grown by one; when all sixteen slots are taken
  nothing is added.
\<close>
lemma added_volume_is_found:
  assumes "vols_ok vs" "no_nul name" "length name < VOL_MAX_VOL_NAME_LEN" "no_nul path" "length path < VOL_MAX_VOL_PATH_LEN"
    and new: "\<forall>v\<in>set vs. \<not> vol_named name v"
  shows "case vol_add_volume name path flags vs of
      (None, vs') \<Rightarrow> vs' = vs \<and> vol_count_vols vs = VOL_MAX_VOLS
    | (Some i, vs') \<Rightarrow> vols_ok vs' \<and> vol_find_volume name vs' = Some (Some i) \<and> cstr (vol_path (vs' ! i)) = Some path \<and>
        vol_count_vols vs' = Suc (vol_count_vols vs)"
proof (cases "fst (vol_add_volume name path flags vs)")
  case None
  then have "vol_add_volume name path flags vs = (None, vs)" "vol_find_free vs = None"
    by (auto simp: vol_add_volume_def split: option.splits)
  moreover have "vol_count_vols vs = VOL_MAX_VOLS"
    using calculation(2) assms(1) unfolding vol_count_vols_def vols.find_None
    by (subst filter_True) (auto simp: vols_ok_def)
  ultimately show ?thesis by simp
next
  case (Some i)
  then obtain vs' where v: "vol_add_volume name path flags vs = (Some i, vs')"
    by (cases "vol_add_volume name path flags vs") auto
  then show ?thesis
    using vol_add_find [OF assms(1-5) v new] vols_ok_add [OF assms(1-5), of flags] by simp
qed

lemma added_volume_is_found_witness:
  "\<exists>i vs'. vol_add_volume (ascii ''DATA'') (ascii ''/data'') 0 demo_vols = (Some i, vs') \<and>
     vol_find_volume (ascii ''DATA'') vs' = Some (Some i) \<and> cstr (vol_path (vs' ! i)) = Some (ascii ''/data'')"
proof -
  have v: "vols_ok demo_vols" unfolding demo_vols_def by (rule vols_ok_add) (simp_all add: vols_ok_init)
  have n: "\<forall>v\<in>set demo_vols. \<not> vol_named (ascii ''DATA'') v"
    by (auto simp: demo_vols_eq vol_named_def zero_volume_def)
  have s: "no_nul (ascii ''DATA'')" "length (ascii ''DATA'') < VOL_MAX_VOL_NAME_LEN" "no_nul (ascii ''/data'')"
    "length (ascii ''/data'') < VOL_MAX_VOL_PATH_LEN" by simp_all
  have f: "fst (vol_add_volume (ascii ''DATA'') (ascii ''/data'') 0 demo_vols) = Some 1" by code_simp
  from added_volume_is_found [OF v s n, of 0] show ?thesis
    using f by (cases "vol_add_volume (ascii ''DATA'') (ascii ''/data'') 0 demo_vols") (auto simp del: ascii_simps)
qed

end
