(* ===== verification/Spec2Isabelle.thy ===== *)
theory Spec2Isabelle
  imports Fr_NcpMain Fr_PropStore Fr_BinderyDel Fr_Samples Thm_Config Thm_Sql Thm_Web Thm_WebPage Thm_Main Fr_NetLinux Fr_FConsole Fr_Rcon Thm_Console Thm_Net Thm_Server Thm_Login Thm_Bindery Thm_Files Thm_Library
begin

text \<open>
  Frommel is a NetWare 3.x server for Unix: stations send NCP request packets over IPX, and the server
  answers them from host directories (the volumes), a bindery (the database of users, groups and their
  properties) and trustee files (the rights on directories). This library models its C code, file by file,
  and proves what each part promises.

  \<^bold>\<open>Parts of the program and their theories.\<close> All paths are relative to \<^verbatim>\<open>src/src/\<close>.

  \<^item> \<^verbatim>\<open>Fr_Prelude\<close>, \<^verbatim>\<open>Fr_CString\<close>, \<^verbatim>\<open>Fr_Misc\<close>: the integer types and byte-order macros of \<^verbatim>\<open>include/misc.h\<close>, the
    C string functions the code calls, and \<^verbatim>\<open>lib/misc.c\<close>. Two interfaces used everywhere are locales here:
    \<^verbatim>\<open>byte_codec\<close> (an integer and its bytes) and \<^verbatim>\<open>slot_table\<close> (a table searched for its first free entry).
  \<^item> \<^verbatim>\<open>Fr_Crypt\<close>: \<^verbatim>\<open>lib/crypt.c\<close>, the password hash, the answer to a login challenge, the decryption of a
    new password.
  \<^item> \<^verbatim>\<open>Fr_Volume\<close>: \<^verbatim>\<open>lib/volume.c\<close>, the volume table.
  \<^item> \<^verbatim>\<open>Fr_RecFile\<close>, \<^verbatim>\<open>Fr_BinderyIO\<close>, \<^verbatim>\<open>Fr_BinderyLaws\<close>, \<^verbatim>\<open>Fr_BinderyAdd\<close>, \<^verbatim>\<open>Fr_BinderyDel\<close>, \<^verbatim>\<open>Fr_PropStore\<close>:
    \<^verbatim>\<open>server/binderyio.c\<close>, the three record files (objects, properties, values) as lists of records with a
    stream position; their laws are stated through the locale \<^verbatim>\<open>prop_store\<close>, an abstract map from an object
    and a property name to 128 bytes, which the files are shown to implement.
  \<^item> \<^verbatim>\<open>Fr_Bindery\<close>: \<^verbatim>\<open>server/bindery.c\<close>, sets, the access check, passwords, the creation of a bindery.
  \<^item> \<^verbatim>\<open>Fr_State\<close>: the state of the server. \<^verbatim>\<open>connection\<close> is \<^verbatim>\<open>CONNECTION\<close> of \<^verbatim>\<open>include/conn.h\<close>; \<^verbatim>\<open>srv\<close>
    gathers the global variables, the bindery, the trustee files, the log of packets sent, and the answers
    of the operating system (functions of a tick that each system call advances).
  \<^item> \<^verbatim>\<open>Fr_Fs\<close>, \<^verbatim>\<open>Fr_Trustee\<close>, \<^verbatim>\<open>Fr_Files\<close>: \<^verbatim>\<open>server/fs.c\<close> and \<^verbatim>\<open>server/trustee.c\<close>: handles, host paths,
    trustee files, effective rights, opening files.
  \<^item> \<^verbatim>\<open>Fr_Conn\<close>: \<^verbatim>\<open>server/conn.c\<close> and \<^verbatim>\<open>server/wdog.c\<close>: the connection table, its timeouts, the watchdog.
  \<^item> \<^verbatim>\<open>Fr_Ncp\<close>, \<^verbatim>\<open>Fr_NcpFile\<close>, \<^verbatim>\<open>Fr_Ncp21\<close>, \<^verbatim>\<open>Fr_Ncp22\<close>, \<^verbatim>\<open>Fr_Ncp23\<close>, \<^verbatim>\<open>Fr_NcpLogin\<close>, \<^verbatim>\<open>Fr_NcpMain\<close>: the
    request handlers of \<^verbatim>\<open>server/ncp.c\<close>, \<^verbatim>\<open>ncp_21.c\<close>, \<^verbatim>\<open>ncp_22.c\<close>, \<^verbatim>\<open>ncp_23.c\<close>, \<^verbatim>\<open>ncp_34.c\<close>, \<^verbatim>\<open>ncp_87.c\<close>,
    the dispatcher and the entry point of a packet.
  \<^item> \<^verbatim>\<open>Fr_Sap\<close>, \<^verbatim>\<open>Fr_Gasp\<close>, \<^verbatim>\<open>Fr_Link\<close>, \<^verbatim>\<open>Fr_Poll\<close>: \<^verbatim>\<open>server/sap.c\<close> (services of other servers),
    \<^verbatim>\<open>server/gasp_server.c\<close> and \<^verbatim>\<open>lib/gasp_client.c\<close> (management sessions), \<^verbatim>\<open>server/link.c\<close> (links between
    servers), and from \<^verbatim>\<open>server/main.c\<close> the start of the subsystems and one turn of the main loop. \<^verbatim>\<open>net\<close>
    is the state of these subsystems around the \<^verbatim>\<open>srv\<close> of the file server.
  \<^item> \<^verbatim>\<open>Fr_Config\<close>, \<^verbatim>\<open>Fr_ConfigLaws\<close>: \<^verbatim>\<open>lib/config.c\<close>, the configuration file: the text of a line, the
    statements it may hold, the checks made at the end. A statement is also a value of a datatype with a
    printer; reading the printed text is the same as carrying the statements out. The invariant of the
    variables (arrays of their sizes that hold strings, a well-formed table of volumes, no name twice) is
    kept by every line. \<^verbatim>\<open>Fr_Poll\<close> begins with the start of the server from such a file.
  \<^item> \<^verbatim>\<open>Fr_Sql\<close>, \<^verbatim>\<open>Fr_Mysql\<close>, \<^verbatim>\<open>Fr_Pgsql\<close>: \<^verbatim>\<open>server/binderyio_mysql.c\<close> and
    \<^verbatim>\<open>server/binderyio_pgsql.c\<close>, the two other bindery modules. Their state is the list of the
    statements sent. The database is a parameter, a record of functions from that list to its answers, so
    every theorem holds for all databases. Functions of these files carry the suffix \<^verbatim>\<open>_my\<close> or \<^verbatim>\<open>_pg\<close>.
  \<^item> \<^verbatim>\<open>Fr_Web\<close>, \<^verbatim>\<open>Fr_WebPage\<close>, \<^verbatim>\<open>Fr_WebPoll\<close>, \<^verbatim>\<open>Fr_WebLaws\<close>: \<^verbatim>\<open>server/web.c\<close>. \<^verbatim>\<open>Fr_Web\<close> has the slots of
    connections, the request line and its headers, the parameters of a request, the decoder of credentials and who
    is let in; \<^verbatim>\<open>Fr_WebPage\<close> the filling of a template, whose fields show the state of the server and act on it;
    \<^verbatim>\<open>Fr_WebPoll\<close> the start and the turn of the main loop of a server built with the interface. Before each line
    \<^verbatim>\<open>web_show_template\<close> clears 4096 bytes at the address of an \<^verbatim>\<open>int\<close>, to which C gives no meaning: what the array of
    the line holds then is the parameter \<^verbatim>\<open>pe_frame\<close>. \<^verbatim>\<open>page_text\<close> holds for every such array of 4096 bytes, with what it
    shows in addition when the array is zero, as was meant; \<^verbatim>\<open>full_line_overflows\<close> is stated for the zero array. A page shows templates in templates; the fuel is their depth, and \<^verbatim>\<open>page_depth\<close> shows
    that two are enough for every set of templates whose list entries have no lists. \<^verbatim>\<open>Fr_WebLaws\<close> states in the locale
    \<^verbatim>\<open>page_law\<close> that a law of the four actions of a page is a law of every page, with three such laws.
  \<^item> \<^verbatim>\<open>Fr_NetIf\<close>: \<^verbatim>\<open>lib/net.c\<close>, the search for the interface in the list of the kernel, and the sockets that packets
    are sent from. \<^verbatim>\<open>Fr_Console\<close>: \<^verbatim>\<open>console/console.c\<close>, the console program, a client of the management protocol;
    \<^verbatim>\<open>Thm_Console\<close> runs it against the model of the server. \<^verbatim>\<open>con_get_reply\<close> returns a pointer into its own dead stack
    frame; what is read through it is the parameter \<^verbatim>\<open>con_left\<close>, and the lemmas that need it intact say so (\<^verbatim>\<open>connected\<close>).
  \<^item> \<^verbatim>\<open>Fr_Main\<close>: \<^verbatim>\<open>server/main.c\<close> from the options of the command line to the turns of the loop, the log;
    \<^verbatim>\<open>Thm_Main\<close> carries the invariants of all parts through it.
  \<^item> \<^verbatim>\<open>Fr_NetLinux\<close>, \<^verbatim>\<open>Fr_FConsole\<close>, \<^verbatim>\<open>Fr_Rcon\<close>: files that the Makefile does not name or that compile to nothing:
    \<^verbatim>\<open>server/net_linux.c\<close>, \<^verbatim>\<open>fconsole.c\<close> (three names it uses are no longer defined by \<^verbatim>\<open>fs.h\<close>, they are
    parameters), \<^verbatim>\<open>rconsole.c\<close> and \<^verbatim>\<open>rconsoled.c\<close>. Their lemmas are in the same theories.
  \<^item> \<^verbatim>\<open>Fr_Frame\<close>, \<^verbatim>\<open>Fr_Server\<close>, \<^verbatim>\<open>Fr_Net\<close>: what each handler leaves alone, and the two state machines
    (the file server alone, and the whole program) with their invariants, for packets of every sender: connection 0
    and the unused connections have the zero address, and a packet from that address is served on them. \<^verbatim>\<open>Fr_Samples\<close>: a concrete bindery
    and server for the instances of the properties.
  \<^item> \<^verbatim>\<open>Thm_*\<close>: the properties, each after a sentence that states it, with an instance at concrete data.

  \<^bold>\<open>How the parts interact.\<close> A turn of the main loop reads at most one datagram from each socket, in a fixed
  order, into one shared buffer; each is handled to its end before the next. Handlers reach the bindery
  through \<^verbatim>\<open>bindio_*\<close>, which move the stream positions of the three files even when they only read. The
  alarm signal runs the announcement and the cleanup; the model runs it between turns.

  \<^bold>\<open>Conventions.\<close> The result \<^verbatim>\<open>None\<close> says that the code reads or writes outside an array, or reads a string
  that has no end in its array: C gives no meaning to that. A theorem that something returns is therefore
  stated as an equation with \<^verbatim>\<open>Some\<close>. Where the code calls \<^verbatim>\<open>exit\<close>, the result has a value for it. \<^verbatim>\<open>int\<close>
  and \<^verbatim>\<open>long\<close> have 32 bits and the host is little-endian; unsigned integers are words of their width. Loops
  over tables are recursions over the table; the walk along a property chain, which need not end, is a
  partial function, and its end is a theorem under the invariant of the chains. Log output is left out.
  Bytes of a reply that the code never sets are \<^verbatim>\<open>None\<close> in the list of its bytes.

  \<^bold>\<open>What the lemmas show.\<close> Invariants of the connection table, of the bindery files, of the table of services
  and of the sessions in every reachable state; the frame of every request handler; the bindery as a map
  (refinement); trustee files as maps from objects to rights (refinement); round trips of passwords, sets,
  dates, messages, credentials; a configuration file against its statements (equivalence), and what an
  accepted one promises; names in the literals of a query; transactions begun and ended; who is shown a page
  of the web interface, what a page shows (equivalence) and what it can do; functional behaviour of login, access check, attach, logout, cleanup, path construction,
  effective rights, on every branch; and the errors of the code, proved as such, which the manifest lists.

  \<^bold>\<open>Not modelled.\<close> \<^verbatim>\<open>net_recv_packet\<close> and the layout of the kernel's messages; the datagrams that arrive and the
  packets that leave are in the model. The queries of the SQL modules are run by a database
  server. Of \<^verbatim>\<open>main.c\<close> the handler of the last alarm, which exits, and the parts
  compiled out are left out, and of \<^verbatim>\<open>fconsole.c\<close> its start. The texts of log messages and
  functions that only print are left out everywhere but in the console.
\<close>

end
